(* ===== verification/Prelude.thy ===== *)
theory Prelude
  imports Complex_Main "HOL-Library.Word"
begin

unbundle bit_operations_syntax

text \<open>
  Shared vocabulary of the development: bytes and byte strings, the exceptions the
  Python code raises as values of a sum type, Python's rounding, and the lemmas on
  lists and words that several components use.  It also holds the interfaces that
  components of several tools provide: a byte-wise checksum, a machine whose inputs
  keep an invariant, one that makes progress, and a scanner of frames.
\<close>

named_theorems const_defs \<open>constants of the modelled modules\<close>
named_theorems frame_simps \<open>facts about frames and their fields\<close>
named_theorems upd_simps \<open>what an operation leaves unchanged\<close>

type_synonym byte = "8 word"
type_synonym bytes = "byte list"

datatype exn =
    ValueError string
  | RuntimeError string
  | Invalid string
  | SystemExit string
  | Raised string string

type_synonym 'a result = "exn + 'a"

named_theorems result_simps \<open>which calls return normally\<close>

text \<open>A call after another one: an exception of the first is the exception of both.\<close>

definition and_then :: "'a result \<Rightarrow> ('a \<Rightarrow> 'b result) \<Rightarrow> 'b result" where
  "and_then r f = (case r of Inl e \<Rightarrow> Inl e | Inr x \<Rightarrow> f x)"

lemma and_then_simps [simp]: "and_then (Inl e) f = Inl e" "and_then (Inr x) f = f x"
  by (simp_all add: and_then_def)

lemma and_then_Inr [result_simps]: "and_then r f = Inr y \<longleftrightarrow> (\<exists>x. r = Inr x \<and> f x = Inr y)"
  by (simp add: and_then_def split: sum.split)

text \<open>\<open>x & 0xFF\<close> on an unbounded Python integer, as an element of a \<open>bytes\<close> value.\<close>

definition byte_of :: "int \<Rightarrow> byte" where
  "byte_of x = word_of_int x"

lemma uint_byte_of: "uint (byte_of x) = x mod 256"
  by (simp add: byte_of_def uint_word_of_int)

lemma byte_of_and_mask: "uint (byte_of x) = x AND 0xFF"
proof -
  have "x AND 0xFF = take_bit 8 x"
    by (simp add: take_bit_eq_mask mask_numeral)
  then show ?thesis
    by (simp add: uint_byte_of take_bit_eq_mod)
qed

lemma byte_of_uint [simp]: "byte_of (uint b) = b"
  by (simp add: byte_of_def)

lemma byte_of_small: "0 \<le> x \<Longrightarrow> x < 256 \<Longrightarrow> uint (byte_of x) = x"
  by (simp add: uint_byte_of)

lemma unat_byte_of: "0 \<le> x \<Longrightarrow> x < 256 \<Longrightarrow> unat (byte_of x) = nat x"
  using byte_of_small [of x] by (metis nat_uint_eq)

text \<open>Python's \<open>round\<close>: to the nearest integer, ties to the even one.\<close>

definition py_round :: "rat \<Rightarrow> int" where
  "py_round x =
     (let f = \<lfloor>x\<rfloor>; d = x - of_int f
      in if d < 1 / 2 then f else if 1 / 2 < d then f + 1 else if even f then f else f + 1)"

lemma py_round_ge: "\<lfloor>x\<rfloor> \<le> py_round x"
  by (simp add: py_round_def Let_def)

lemma py_round_le: "py_round x \<le> \<lfloor>x\<rfloor> + 1"
  by (simp add: py_round_def Let_def)

lemma py_round_of_int [simp]: "py_round (of_int n) = n"
  by (simp add: py_round_def)

lemma py_round_le_1: "0 \<le> x \<Longrightarrow> x < 3 / 2 \<Longrightarrow> py_round x \<le> 1"
proof -
  assume x: "0 \<le> x" "x < 3 / 2"
  then have "\<lfloor>x\<rfloor> = 0 \<or> \<lfloor>x\<rfloor> = 1"
    by (auto simp: floor_eq_iff)
  moreover have "py_round x = 1" if "\<lfloor>x\<rfloor> = 1"
    using x that by (simp add: py_round_def)
  ultimately show "py_round x \<le> 1"
    using py_round_le [of x] by auto
qed

lemma abs_diff_chain: "\<bar>a - b\<bar> \<le> x \<Longrightarrow> \<bar>b - c\<bar> \<le> y \<Longrightarrow> \<bar>a - c\<bar> \<le> x + y" for a b c x y :: int
  by linarith

subsection \<open>Hexadecimal formatting\<close>

definition hex_digit :: "nat \<Rightarrow> char" where
  "hex_digit n = ''0123456789abcdef'' ! (n mod 16)"

fun hex_nat :: "nat \<Rightarrow> string" where
  "hex_nat n = (if n < 16 then [hex_digit n] else hex_nat (n div 16) @ [hex_digit n])"

declare hex_nat.simps [simp del]

text \<open>\<open>f"{value:02x}"\<close> and \<open>f"{value:04x}"\<close>: zero-padded to the width, the sign counted in it.\<close>

definition zfill :: "nat \<Rightarrow> string \<Rightarrow> string" where
  "zfill w t = replicate (w - length t) CHR ''0'' @ t"

definition format_hex :: "nat \<Rightarrow> int \<Rightarrow> string" where
  "format_hex w value =
     (if value < 0 then CHR ''-'' # zfill (w - 1) (hex_nat (nat (- value)))
      else zfill w (hex_nat (nat value)))"

definition hex_value :: "char \<Rightarrow> nat option" where
  "hex_value c =
     (let n = (of_char c :: nat)
      in if 48 \<le> n \<and> n \<le> 57 then Some (n - 48)
         else if 65 \<le> n \<and> n \<le> 70 then Some (n - 55)
         else if 97 \<le> n \<and> n \<le> 102 then Some (n - 87)
         else None)"

definition hex_space :: "char \<Rightarrow> bool" where
  "hex_space c \<longleftrightarrow> of_char c \<in> {9 :: nat, 10, 11, 12, 13, 32}"

text \<open>\<open>bytes.fromhex\<close>: pairs of digits, white space allowed between the pairs; \<open>None\<close> is its
  \<open>ValueError\<close>.\<close>

fun fromhex :: "string \<Rightarrow> bytes option" where
  "fromhex [] = Some []"
| "fromhex [c] = (if hex_space c then Some [] else None)"
| "fromhex (c # d # cs) =
     (if hex_space c then fromhex (d # cs)
      else case (hex_value c, hex_value d) of
             (Some h, Some l) \<Rightarrow> map_option (\<lambda>bs. of_nat (16 * h + l) # bs) (fromhex cs)
           | _ \<Rightarrow> None)"

lemma hex_digits_read_back: "list_all (\<lambda>n. hex_value (hex_digit n) = Some n) [0..<16]"
  by code_simp

lemma hex_value_digit: "n < 16 \<Longrightarrow> hex_value (hex_digit n) = Some n"
  using hex_digits_read_back by (simp add: list_all_iff)

subsection \<open>Python strings\<close>

text \<open>ASCII versions of the string methods the code uses: \<open>strip\<close>, \<open>lower\<close>, \<open>upper\<close>,
  one-character \<open>replace\<close> and \<open>split\<close>, \<open>startswith\<close> and \<open>endswith\<close>.\<close>

definition py_space :: "char \<Rightarrow> bool" where
  "py_space c \<longleftrightarrow> of_char c \<in> {9 :: nat, 10, 11, 12, 13, 28, 29, 30, 31, 32}"

definition py_lstrip :: "string \<Rightarrow> string" where
  "py_lstrip t = dropWhile py_space t"

definition py_strip :: "string \<Rightarrow> string" where
  "py_strip t = rev (py_lstrip (rev (py_lstrip t)))"

definition lower_char :: "char \<Rightarrow> char" where
  "lower_char c = (let n = (of_char c :: nat) in if 65 \<le> n \<and> n \<le> 90 then char_of (n + 32) else c)"

definition upper_char :: "char \<Rightarrow> char" where
  "upper_char c = (let n = (of_char c :: nat) in if 97 \<le> n \<and> n \<le> 122 then char_of (n - 32) else c)"

definition py_lower :: "string \<Rightarrow> string" where
  "py_lower t = map lower_char t"

definition py_upper :: "string \<Rightarrow> string" where
  "py_upper t = map upper_char t"

definition py_replace_char :: "char \<Rightarrow> string \<Rightarrow> string \<Rightarrow> string" where
  "py_replace_char c r t = concat (map (\<lambda>x. if x = c then r else [x]) t)"

fun py_split :: "char \<Rightarrow> string \<Rightarrow> string list" where
  "py_split c [] = [[]]"
| "py_split c (x # xs) =
     (if x = c then [] # py_split c xs
      else case py_split c xs of
             [] \<Rightarrow> [[x]]
           | t # ts \<Rightarrow> (x # t) # ts)"

text \<open>\<open>t.split()\<close>: the maximal runs of characters that are not white space.\<close>

fun py_words_from :: "string \<Rightarrow> string \<Rightarrow> string list" where
  "py_words_from word [] = (if word = [] then [] else [word])"
| "py_words_from word (c # cs) =
     (if py_space c then (if word = [] then [] else [word]) @ py_words_from [] cs
      else py_words_from (word @ [c]) cs)"

definition py_words :: "string \<Rightarrow> string list" where
  "py_words t = py_words_from [] t"

text \<open>\<open>sep.join(ts)\<close>.\<close>

definition py_join :: "string \<Rightarrow> string list \<Rightarrow> string" where
  "py_join sep ts = (case ts of [] \<Rightarrow> [] | t # rest \<Rightarrow> t @ concat (map (\<lambda>u. sep @ u) rest))"

text \<open>\<open>t.split(c, 1)\<close> when \<open>c\<close> occurs in \<open>t\<close>.\<close>

definition py_split1 :: "char \<Rightarrow> string \<Rightarrow> string \<times> string" where
  "py_split1 c t = (takeWhile (\<lambda>x. x \<noteq> c) t, drop 1 (dropWhile (\<lambda>x. x \<noteq> c) t))"

definition py_startswith :: "string \<Rightarrow> string \<Rightarrow> bool" where
  "py_startswith prefix t \<longleftrightarrow> take (length prefix) t = prefix"

definition py_endswith :: "string \<Rightarrow> string \<Rightarrow> bool" where
  "py_endswith suffix t \<longleftrightarrow> length suffix \<le> length t \<and> drop (length t - length suffix) t = suffix"

subsection \<open>Decimal numbers\<close>

fun dec_nat :: "nat \<Rightarrow> string" where
  "dec_nat n = (if n < 10 then [hex_digit n] else dec_nat (n div 10) @ [hex_digit (n mod 10)])"

declare dec_nat.simps [simp del]

text \<open>\<open>str(n)\<close> of an integer.\<close>

definition py_str_int :: "int \<Rightarrow> string" where
  "py_str_int n = (if n < 0 then CHR ''-'' # dec_nat (nat (- n)) else dec_nat (nat n))"

definition digit_value :: "char \<Rightarrow> nat option" where
  "digit_value c = (let n = (of_char c :: nat) in if 48 \<le> n \<and> n \<le> 57 then Some (n - 48) else None)"

fun digits_value :: "nat \<Rightarrow> string \<Rightarrow> nat option" where
  "digits_value acc [] = Some acc"
| "digits_value acc (c # cs) =
     (case digit_value c of None \<Rightarrow> None | Some d \<Rightarrow> digits_value (10 * acc + d) cs)"

text \<open>\<open>int(text)\<close>: white space around, a sign, digits with single underscores between them.\<close>

definition unsigned_value :: "string \<Rightarrow> nat option" where
  "unsigned_value t =
     (let groups = py_split CHR ''_'' t
      in if list_ex (\<lambda>g. g = []) groups then None else digits_value 0 (concat groups))"

definition py_int :: "string \<Rightarrow> int option" where
  "py_int t =
     (case py_strip t of
        [] \<Rightarrow> None
      | c # cs \<Rightarrow>
          if c = CHR ''-'' then map_option (\<lambda>n. - int n) (unsigned_value cs)
          else if c = CHR ''+'' then map_option int (unsigned_value cs)
          else map_option int (unsigned_value (c # cs)))"

text \<open>\<open>repr(t)\<close> of an ASCII string.\<close>

definition repr_char :: "char \<Rightarrow> char \<Rightarrow> string" where
  "repr_char q c =
     (let n = (of_char c :: nat)
      in if c = q \<or> c = CHR 0x5C then [CHR 0x5C, c]
         else if n = 9 then [CHR 0x5C, CHR ''t'']
         else if n = 10 then [CHR 0x5C, CHR ''n'']
         else if n = 13 then [CHR 0x5C, CHR ''r'']
         else if n < 32 \<or> n = 127 then [CHR 0x5C, CHR ''x''] @ format_hex 2 (int n)
         else [c])"

definition py_repr :: "string \<Rightarrow> string" where
  "py_repr t =
     (let q = (if CHR 0x27 \<in> set t \<and> CHR 0x22 \<notin> set t then CHR 0x22 else CHR 0x27)
      in q # concat (map (repr_char q) t) @ [q])"

subsection \<open>Dictionaries\<close>

text \<open>\<open>d[key] = value\<close> on the pairs of a dictionary, in their order of insertion.\<close>

fun dict_put :: "'k \<Rightarrow> 'v \<Rightarrow> ('k \<times> 'v) list \<Rightarrow> ('k \<times> 'v) list" where
  "dict_put key v [] = [(key, v)]"
| "dict_put key v ((k, w) # rest) = (if k = key then (key, v) # rest else (k, w) # dict_put key v rest)"

lemma map_of_dict_put [simp]: "map_of (dict_put key v d) = (map_of d)(key \<mapsto> v)"
  by (induction d) auto

lemma keys_dict_put: "map fst (dict_put k v d) = (if k \<in> set (map fst d) then map fst d else map fst d @ [k])"
  by (induction k v d rule: dict_put.induct) auto

lemma distinct_dict_put: "distinct (map fst d) \<Longrightarrow> distinct (map fst (dict_put k v d))"
  by (simp add: keys_dict_put del: set_map)

subsection \<open>Lists\<close>

lemma take_drop_split: "n \<le> length xs \<Longrightarrow> xs = take n xs @ drop n xs"
  by simp

lemma nth_append_left [frame_simps]: "i < length xs \<Longrightarrow> (xs @ ys) ! i = xs ! i"
  by (simp add: nth_append)

lemma foldl_update_split:
  "i < length xs \<Longrightarrow>
   foldl f c (xs[i := b]) = foldl f (f (foldl f c (take i xs)) b) (drop (Suc i) xs)"
  by (simp add: upd_conv_take_nth_drop)

lemma foldl_nth_split:
  "i < length xs \<Longrightarrow>
   foldl f c xs = foldl f (f (foldl f c (take i xs)) (xs ! i)) (drop (Suc i) xs)"
  by (metis foldl_update_split list_update_id)

subsection \<open>Linear functions on words\<close>

lemma xor_cancel_left: "c XOR x = c XOR y \<longleftrightarrow> x = y" for x y :: "'w::len word"
  by (auto simp: bit_eq_iff bit_xor_iff)

lemma xor_cancel_right: "x XOR c = y XOR c \<longleftrightarrow> x = y" for x y :: "'w::len word"
  by (auto simp: bit_eq_iff bit_xor_iff)

lemma word_xor_eq_0_iff: "x XOR y = 0 \<longleftrightarrow> x = y" for x y :: "'w::len word"
  by (auto simp: bit_eq_iff bit_xor_iff)

text \<open>A function that respects exclusive or is injective when only zero is mapped to zero.\<close>

lemma linear_inj:
  fixes f :: "'v::len word \<Rightarrow> 'w::len word"
  assumes "\<And>x y. f (x XOR y) = f x XOR f y" and "\<And>x. f x = 0 \<Longrightarrow> x = 0"
  shows "f x = f y \<longleftrightarrow> x = y"
  using assms(1) [of x y] assms(2) [of "x XOR y"] word_xor_eq_0_iff by metis

subsection \<open>Interface: a byte-wise checksum\<close>

text \<open>
  The checksums of the code (CRC-16/MODBUS of the HCP2 frames, the table-driven CRC-8
  of the HCP1 frames) fold a step over the bytes.  What the clients rely on is that the step loses nothing: it is injective
  in the running checksum and in the byte.
\<close>

locale byte_checksum =
  fixes cstep :: "'c \<Rightarrow> byte \<Rightarrow> 'c"
  assumes state_inj: "cstep c b = cstep c' b \<Longrightarrow> c = c'"
    and byte_inj: "cstep c b = cstep c b' \<Longrightarrow> b = b'"
begin

lemma fold_inj: "foldl cstep c xs = foldl cstep c' xs \<Longrightarrow> c = c'"
  by (induction xs arbitrary: c c') (auto dest: state_inj)

lemma byte_change_detected:
  assumes "i < length xs" and "xs ! i \<noteq> b"
  shows "foldl cstep c (xs[i := b]) \<noteq> foldl cstep c xs"
proof
  assume "foldl cstep c (xs[i := b]) = foldl cstep c xs"
  then have "cstep (foldl cstep c (take i xs)) b = cstep (foldl cstep c (take i xs)) (xs ! i)"
    using assms(1) by (simp add: foldl_update_split foldl_nth_split [of i xs] fold_inj)
  then show False
    using assms(2) byte_inj by blast
qed

end

subsection \<open>Interface: a machine with an invariant\<close>

text \<open>
  The simulated door, the simulator's cycle, the emulated UART and the mock server are
  all driven one input at a time.  What their clients use is that every input keeps the
  invariant; the lemmas lift this to runs.
\<close>

locale machine =
  fixes mstep :: "'i \<Rightarrow> 's \<Rightarrow> 's"
    and minv :: "'s \<Rightarrow> bool"
  assumes step_inv: "minv s \<Longrightarrow> minv (mstep i s)"
begin

lemma run_inv: "minv s \<Longrightarrow> minv (fold mstep is s)"
  by (induction "is" arbitrary: s) (simp_all add: step_inv)

lemma iterate_inv: "minv s \<Longrightarrow> minv ((mstep i ^^ n) s)"
  by (induction n) (simp_all add: step_inv)

end

text \<open>A machine that also never lets a measure of its state grow past a bound.\<close>

locale progress_machine = machine mstep minv
  for mstep :: "'i \<Rightarrow> 's \<Rightarrow> 's" and minv :: "'s \<Rightarrow> bool" +
  fixes rank :: "'s \<Rightarrow> nat"
  assumes rank_less: "minv s \<Longrightarrow> rank s \<noteq> 0 \<Longrightarrow> rank (mstep i s) < rank s"
    and rank_zero: "minv s \<Longrightarrow> rank s = 0 \<Longrightarrow> rank (mstep i s) = 0"
begin

lemma rank_run: "minv s \<Longrightarrow> rank (fold mstep is s) \<le> rank s - length is"
proof (induction "is" arbitrary: s)
  case (Cons i "is")
  have "rank (mstep i s) \<le> rank s - 1"
    using rank_less [OF Cons.prems, of i] rank_zero [OF Cons.prems, of i] by fastforce
  moreover have "rank (fold mstep is (mstep i s)) \<le> rank (mstep i s) - length is"
    by (rule Cons.IH) (rule step_inv [OF Cons.prems])
  ultimately show ?case by simp
qed simp

lemma reaches_zero: "minv s \<Longrightarrow> rank s \<le> n \<Longrightarrow> rank ((mstep i ^^ n) s) = 0"
proof (induction n arbitrary: s)
  case (Suc n)
  have "rank (mstep i s) \<le> n"
    using rank_less [OF Suc.prems(1), of i] rank_zero [OF Suc.prems(1), of i] Suc.prems(2) by fastforce
  then show ?case
    using Suc.IH [OF step_inv [OF Suc.prems(1)]] by (simp add: funpow_Suc_right del: funpow.simps)
qed simp

end

subsection \<open>Interface: a resynchronising frame scanner\<close>

text \<open>
  Both serial receivers of the code look at the head of their buffer: the length rule says that
  more bytes are needed, that the first byte cannot start a frame, or how long the frame is; a
  frame that is not valid costs its first byte only.
\<close>

datatype scan_step = Wait | Skip | Frame bytes

definition scan_head :: "(bytes \<Rightarrow> int option) \<Rightarrow> (bytes \<Rightarrow> bool) \<Rightarrow> bytes \<Rightarrow> scan_step" where
  "scan_head expected_len valid buffer =
     (case expected_len buffer of
        None \<Rightarrow> Wait
      | Some expected \<Rightarrow>
          if expected < 0 then Skip
          else if int (length buffer) < expected then Wait
          else if valid (take (nat expected) buffer) then Frame (take (nat expected) buffer)
          else Skip)"

locale frame_scanner =
  fixes expected_len :: "bytes \<Rightarrow> int option"
    and valid :: "bytes \<Rightarrow> bool"
  assumes len_nil: "expected_len [] = None"
    and len_append: "expected_len buffer = Some n \<Longrightarrow> expected_len (buffer @ more) = Some n"
    and len_nonzero: "expected_len buffer \<noteq> Some 0"
begin

lemma head_nil: "scan_head expected_len valid [] = Wait"
  by (simp add: scan_head_def len_nil)

lemma head_append:
  assumes "scan_head expected_len valid buffer \<noteq> Wait"
  shows "scan_head expected_len valid (buffer @ more) = scan_head expected_len valid buffer"
  using assms by (cases "expected_len buffer")
    (auto simp: scan_head_def len_append [where buffer = buffer])

lemma head_frame:
  assumes "scan_head expected_len valid buffer = Frame f"
  obtains rest where "buffer = f @ rest" and "f \<noteq> []" and "valid f"
    and "expected_len buffer = Some (int (length f))"
proof
  obtain n where n: "expected_len buffer = Some n" "0 \<le> n" "n \<le> int (length buffer)"
      "valid (take (nat n) buffer)" and f: "f = take (nat n) buffer"
    using assms by (auto simp: scan_head_def split: option.splits if_splits)
  then show "buffer = f @ drop (length f) buffer" by simp
  show "expected_len buffer = Some (int (length f))"
    using n f by simp
  moreover from this show "f \<noteq> []"
    using len_nonzero [of buffer] by auto
  show "valid f" using n f by simp
qed

lemma head_frame_facts:
  assumes "scan_head expected_len valid buffer = Frame f"
  shows "length f \<le> length buffer" and "f @ drop (length f) buffer = buffer" and "f \<noteq> []"
    and "valid f" and "expected_len buffer = Some (int (length f))"
  using head_frame [OF assms] by (metis length_append le_add1, metis append_eq_conv_conj, blast+)

lemma head_skip_facts: "scan_head expected_len valid buffer = Skip \<Longrightarrow> buffer \<noteq> []"
  by (auto simp: head_nil)

inductive scans :: "bytes \<Rightarrow> bytes list \<Rightarrow> bytes \<Rightarrow> bool" where
  scans_wait: "scan_head expected_len valid buffer = Wait \<Longrightarrow> scans buffer [] buffer"
| scans_skip: "scan_head expected_len valid buffer = Skip \<Longrightarrow> scans (tl buffer) fs rest \<Longrightarrow>
    scans buffer fs rest"
| scans_frame: "scan_head expected_len valid buffer = Frame f \<Longrightarrow>
    scans (drop (length f) buffer) fs rest \<Longrightarrow> scans buffer (f # fs) rest"

inductive_cases scans_waitE: "scans buffer fs rest"

lemma scans_append:
  "scans a fs r \<Longrightarrow> scans (r @ b) gs r' \<Longrightarrow> scans (a @ b) (fs @ gs) r'"
proof (induction rule: scans.induct)
  case (scans_skip buffer fs rest)
  then have "buffer \<noteq> []" by (auto simp: head_nil)
  then have "tl (buffer @ b) = tl buffer @ b" by simp
  moreover have "scan_head expected_len valid (buffer @ b) = Skip"
    using scans_skip.hyps(1) by (subst head_append) simp_all
  ultimately show ?case
    using scans_skip.IH scans_skip.prems by (auto intro: scans.scans_skip)
next
  case (scans_frame buffer f fs rest)
  obtain tail where "buffer = f @ tail"
    using scans_frame.hyps(1) by (rule head_frame)
  moreover have "scan_head expected_len valid (buffer @ b) = Frame f"
    using scans_frame.hyps(1) by (subst head_append) simp_all
  ultimately show ?case
    using scans_frame.IH scans_frame.prems by (auto intro!: scans.scans_frame)
qed simp

lemma scans_rest: "scans a fs r \<Longrightarrow> scan_head expected_len valid r = Wait"
  by (induction rule: scans.induct) simp_all

lemma scans_valid: "scans a fs r \<Longrightarrow> f \<in> set fs \<Longrightarrow> valid f"
  by (induction rule: scans.induct) (auto elim: head_frame)

lemma scans_unique: "scans a fs r \<Longrightarrow> scans a gs r' \<Longrightarrow> gs = fs \<and> r' = r"
proof (induction arbitrary: gs rule: scans.induct)
  case (scans_wait buffer)
  show ?case by (rule scans_waitE [OF scans_wait.prems]) (use scans_wait.hyps in auto)
next
  case (scans_skip buffer fs rest)
  show ?case by (rule scans_waitE [OF scans_skip.prems]) (use scans_skip in auto)
next
  case (scans_frame buffer f fs rest)
  show ?case by (rule scans_waitE [OF scans_frame.prems]) (use scans_frame in auto)
qed

lemma scans_frames:
  assumes "\<And>f. f \<in> set fs \<Longrightarrow> valid f \<and> expected_len f = Some (int (length f))"
  shows "scans (concat fs) fs []"
  using assms
proof (induction fs)
  case Nil
  show ?case by (simp add: scans_wait head_nil)
next
  case (Cons f fs)
  have "expected_len (f @ concat fs) = Some (int (length f))"
    using Cons.prems [of f] by (intro len_append) simp
  then have "scan_head expected_len valid (f @ concat fs) = Frame f"
    using Cons.prems [of f] by (simp add: scan_head_def)
  then have "scans (f @ concat fs) (f # fs) []"
    using Cons by (intro scans_frame) simp_all
  then show ?case by simp
qed

end

end
