(* ===== verification/Hcp2_Protocol.thy ===== *)
theory Hcp2_Protocol
  imports Prelude
begin

text \<open>
  \<open>tools/supramatic_sim/protocol.py\<close>: the HCP2 frames the virtual SupraMatic 4 master
  sends and the replies it decodes.  A \<open>bytes\<close> value is a list of 8-bit words, the CRC
  register a 16-bit word (the code masks it with \<open>0xFFFF\<close> after every shift).
\<close>

subsection \<open>Constants\<close>

definition SLAVE_ID :: byte where [const_defs]: "SLAVE_ID = 0x02"
definition FC_WRITE_MULTIPLE_REGISTERS :: byte where
  [const_defs]: "FC_WRITE_MULTIPLE_REGISTERS = 0x10"
definition FC_READ_WRITE_MULTIPLE_REGISTERS :: byte where
  [const_defs]: "FC_READ_WRITE_MULTIPLE_REGISTERS = 0x17"

definition DEFAULT_SCAN_SIGNATURE :: bytes where
  "DEFAULT_SCAN_SIGNATURE =
     [0x00, 0x00, 0x02, 0x05, 0x04, 0x30, 0x10, 0xFF, 0xA8, 0x45]"

text \<open>The table of button encodings, in the order of the Python dictionary.\<close>

definition BUTTON_STATUS_PHASES :: "(string \<times> (string \<times> (byte \<times> byte \<times> byte)) list) list" where
  "BUTTON_STATUS_PHASES =
    [(''open'', [(''press'', (0x02, 0x10, 0x00)), (''release'', (0x01, 0x10, 0x00))]),
     (''close'', [(''press'', (0x02, 0x20, 0x00)), (''release'', (0x01, 0x20, 0x00))]),
     (''stop'', [(''press'', (0x02, 0x40, 0x00)), (''release'', (0x01, 0x40, 0x00))]),
     (''vent'', [(''press'', (0x02, 0x00, 0x40)), (''release'', (0x01, 0x00, 0x40))]),
     (''half'', [(''press'', (0x02, 0x00, 0x04)), (''release'', (0x01, 0x00, 0x04))]),
     (''light'', [(''press'', (0x10, 0x00, 0x02)), (''release'', (0x08, 0x00, 0x02))])]"

definition BUTTON_STATUS_ENCODINGS :: "(string \<times> (byte \<times> byte \<times> byte) set) list" where
  "BUTTON_STATUS_ENCODINGS =
     map (\<lambda>(name, phases). (name, set (map snd phases))) BUTTON_STATUS_PHASES"

record broadcast_state =
  b_target :: int
  b_current :: int
  b_state :: int
  b_light :: int

definition BROADCAST_CLOSED :: broadcast_state where
  "BROADCAST_CLOSED = \<lparr>b_target = 0, b_current = 0, b_state = 0x40, b_light = 0x14\<rparr>"

definition BROADCAST_OPEN :: broadcast_state where
  "BROADCAST_OPEN = \<lparr>b_target = 200, b_current = 200, b_state = 0x20, b_light = 0x14\<rparr>"

subsection \<open>CRC-16/MODBUS\<close>

definition crc_shift :: "16 word \<Rightarrow> 16 word" where
  "crc_shift crc =
     (if crc AND 1 \<noteq> 0 then drop_bit 1 crc XOR 0xA001 else drop_bit 1 crc)"

definition crc_step :: "16 word \<Rightarrow> byte \<Rightarrow> 16 word" where
  "crc_step crc b = (crc_shift ^^ 8) (crc XOR ucast b)"

definition crc16_modbus :: "bytes \<Rightarrow> 16 word" where
  "crc16_modbus data = foldl crc_step 0xFFFF data"

definition append_crc :: "bytes \<Rightarrow> bytes" where
  "append_crc payload =
     (let crc = crc16_modbus payload
      in payload @ [ucast (crc AND 0xFF), ucast (drop_bit 8 crc AND 0xFF)])"

definition crc_ok :: "bytes \<Rightarrow> bool" where
  "crc_ok frame \<longleftrightarrow> 3 \<le> length frame \<and> crc16_modbus frame = 0"

subsection \<open>Facts about the CRC register\<close>

lemma odd_bit0: "(z AND 1 \<noteq> 0) = bit z 0" for z :: "16 word"
  by (simp add: and_one_eq odd_iff_mod_2_eq_one bit_0)

lemma bit_crc_shift:
  "n < 16 \<Longrightarrow> bit (crc_shift x) n = (bit x (Suc n) \<noteq> (bit x 0 \<and> bit (0xA001 :: 16 word) n))"
  by (auto simp: crc_shift_def odd_bit0 bit_xor_iff bit_drop_bit_eq)

lemma crc_shift_linear: "crc_shift (x XOR y) = crc_shift x XOR crc_shift y"
  by (rule bit_word_eqI) (auto simp: bit_crc_shift bit_xor_iff)

lemma crc_shift_funpow_linear:
  "(crc_shift ^^ k) (x XOR y) = (crc_shift ^^ k) x XOR (crc_shift ^^ k) y"
  by (induction k) (simp_all add: crc_shift_linear)

lemma crc_shift_zero_iff: "crc_shift x = 0 \<longleftrightarrow> x = 0"
proof
  assume z: "crc_shift x = 0"
  have "\<not> bit x 16" by (rule impossible_bit) simp
  moreover have "bit (0xA001 :: 16 word) 15" by simp
  ultimately have b0: "\<not> bit x 0"
    using bit_crc_shift [of 15 x] z by simp
  have "bit x n = bit (0 :: 16 word) n" if "n < 16" for n
    using bit_crc_shift [of "n - 1" x] z b0 that by (cases n) auto
  then show "x = 0" by (intro bit_word_eqI) simp
qed (simp add: crc_shift_def)

lemma crc_shift_funpow_zero_iff: "(crc_shift ^^ k) x = 0 \<longleftrightarrow> x = 0"
  by (induction k) (simp_all add: crc_shift_zero_iff)

lemma crc_shift_funpow_inj: "(crc_shift ^^ k) x = (crc_shift ^^ k) y \<longleftrightarrow> x = y"
  by (metis crc_shift_funpow_linear crc_shift_funpow_zero_iff word_xor_eq_0_iff)

lemma crc_shift_funpow_low_zero:
  "take_bit k x = 0 \<Longrightarrow> (crc_shift ^^ k) x = drop_bit k x"
proof (induction k)
  case (Suc k)
  have low: "\<not> bit x n" if "n < Suc k" for n
    using Suc.prems that by (metis bit_take_bit_iff bit_0_eq bot_apply bot_bool_def)
  then have "take_bit k x = 0"
    by (intro bit_eqI) (simp add: bit_take_bit_iff)
  then have IH: "(crc_shift ^^ k) x = drop_bit k x" by (rule Suc.IH)
  have "\<not> bit (drop_bit k x) 0"
    using low by (simp add: bit_drop_bit_eq)
  then have "crc_shift (drop_bit k x) = drop_bit 1 (drop_bit k x)"
    by (simp add: crc_shift_def odd_bit0)
  then show ?case by (simp add: IH)
qed simp

lemma crc_step_inj_state: "crc_step c b = crc_step c' b \<Longrightarrow> c = c'"
  by (simp add: crc_step_def crc_shift_funpow_inj xor_cancel_right)

lemma is_up_8_16: "is_up (ucast :: byte \<Rightarrow> 16 word)"
  by (simp add: is_up)

lemma ucast_byte_inj: "(ucast (a :: byte) :: 16 word) = ucast b \<longleftrightarrow> a = b"
  by (metis ucast_up_ucast_id is_up_8_16)

lemma crc_step_inj_byte: "crc_step c b = crc_step c b' \<Longrightarrow> b = b'"
  by (simp add: crc_step_def crc_shift_funpow_inj xor_cancel_left ucast_byte_inj)

interpretation crc16: byte_checksum crc_step
  by unfold_locales (rule crc_step_inj_state crc_step_inj_byte; assumption)+

text \<open>Two bytes at a time: sixteen shifts of the register with both bytes folded in.\<close>

lemma crc_two_steps:
  "crc_step (crc_step c b1) b2 =
   (crc_shift ^^ 16) (c XOR ucast b1 XOR push_bit 8 (ucast b2))"
proof -
  have low: "take_bit 8 (push_bit 8 (ucast b2 :: 16 word)) = 0"
    by (simp add: take_bit_push_bit)
  have up: "drop_bit 8 (push_bit 8 (ucast b2 :: 16 word)) = ucast b2"
    by (rule bit_word_eqI) (auto simp: bit_drop_bit_eq bit_push_bit_iff bit_ucast_iff dest: bit_imp_le_length)
  have "(crc_shift ^^ 16) x = (crc_shift ^^ 8) ((crc_shift ^^ 8) x)" for x
    using funpow_add [of 8 8 crc_shift] by (simp add: fun_eq_iff)
  then show ?thesis
    by (simp add: crc_step_def crc_shift_funpow_linear crc_shift_funpow_low_zero [OF low] up xor.assoc)
qed

lemma join_bytes_inj:
  "(ucast (a :: byte) XOR push_bit 8 (ucast (b :: byte)) :: 16 word) =
   ucast a' XOR push_bit 8 (ucast b') \<longleftrightarrow> a = a' \<and> b = b'"
proof
  assume eq: "(ucast a XOR push_bit 8 (ucast b) :: 16 word) = ucast a' XOR push_bit 8 (ucast b')"
  have "bit a n = bit a' n \<and> bit b n = bit b' n" if "n < 8" for n
    using arg_cong [OF eq, of "\<lambda>w. bit w n"] arg_cong [OF eq, of "\<lambda>w. bit w (n + 8)"] that
    by (auto simp: bit_xor_iff bit_push_bit_iff bit_ucast_iff dest: bit_imp_le_length)
  then show "a = a' \<and> b = b'" by (auto intro: bit_word_eqI)
qed simp

lemma crc_two_steps_inj:
  "crc_step (crc_step c b1) b2 = crc_step (crc_step c b1') b2' \<longleftrightarrow> b1 = b1' \<and> b2 = b2'"
  by (simp add: crc_two_steps crc_shift_funpow_inj join_bytes_inj xor.assoc xor_cancel_left)

lemma and_0xFF_take_bit: "x AND 0xFF = take_bit 8 x" for x :: "16 word"
  by (simp add: take_bit_eq_mask mask_numeral)

lemma ucast_low_byte: "(ucast (x AND 0xFF) :: byte) = ucast x" for x :: "16 word"
  by (rule bit_word_eqI) (simp add: and_0xFF_take_bit bit_ucast_iff bit_take_bit_iff)

lemma word16_join_bytes:
  "ucast (ucast c :: byte) XOR push_bit 8 (ucast (ucast (drop_bit 8 c) :: byte)) = c"
  for c :: "16 word"
proof (rule bit_word_eqI)
  fix n
  assume "n < LENGTH(16)"
  then show "bit (ucast (ucast c :: byte) XOR
      push_bit 8 (ucast (ucast (drop_bit 8 c) :: byte)) :: 16 word) n = bit c n"
    by (cases "n < 8") (auto simp: bit_xor_iff bit_push_bit_iff bit_ucast_iff bit_drop_bit_eq)
qed

lemma crc_residue:
  "crc_step (crc_step c (ucast (c AND 0xFF))) (ucast (drop_bit 8 c AND 0xFF)) = 0"
  by (simp add: crc_two_steps crc_shift_funpow_zero_iff xor.assoc ucast_low_byte word16_join_bytes)

lemma append_crc_foldl:
  "append_crc payload =
     payload @ [ucast (foldl crc_step 0xFFFF payload AND 0xFF),
       ucast (drop_bit 8 (foldl crc_step 0xFFFF payload) AND 0xFF)]"
  by (simp add: append_crc_def crc16_modbus_def Let_def)

lemma length_append_crc [simp]: "length (append_crc payload) = length payload + 2"
  by (simp add: append_crc_foldl)

lemma nth_append_crc [frame_simps]: "i < length payload \<Longrightarrow> append_crc payload ! i = payload ! i"
  by (simp add: append_crc_foldl nth_append)

lemma take_append_crc [frame_simps]:
  "n \<le> length payload \<Longrightarrow> take n (append_crc payload) = take n payload"
  by (simp add: append_crc_foldl)

lemma crc16_append_crc: "crc16_modbus (append_crc payload) = 0"
  by (simp add: append_crc_foldl crc16_modbus_def crc_residue)

lemma crc_ok_append_crc [frame_simps]: "crc_ok (append_crc payload) \<longleftrightarrow> payload \<noteq> []"
  by (cases payload) (auto simp: crc_ok_def crc16_append_crc)

lemma crc16_zero_append:
  assumes "crc16_modbus (payload @ [b1, b2]) = 0"
  shows "payload @ [b1, b2] = append_crc payload"
proof -
  let ?c = "foldl crc_step 0xFFFF payload"
  have "crc_step (crc_step ?c b1) b2 =
      crc_step (crc_step ?c (ucast (?c AND 0xFF))) (ucast (drop_bit 8 ?c AND 0xFF))"
    using assms by (simp add: crc16_modbus_def crc_residue)
  then show ?thesis
    by (simp add: crc_two_steps_inj append_crc_foldl)
qed

lemma list_snoc2_cases:
  assumes "2 \<le> length xs"
  obtains ys a b where "xs = ys @ [a, b]"
proof -
  have "xs = butlast (butlast xs) @ [last (butlast xs), last xs]"
    using assms by (cases xs rule: rev_cases; simp) (metis append_butlast_last_id list.size(3) not_less_eq_eq zero_order(1))
  then show ?thesis by (rule that)
qed

subsection \<open>Frames the master sends\<close>

definition bus_scan_request :: "byte \<Rightarrow> int \<Rightarrow> int option \<Rightarrow> bytes" where
  "bus_scan_request slave_id scan_state scan_value =
     (let scan_value = (case scan_value of None \<Rightarrow> uint slave_id | Some v \<Rightarrow> v)
      in append_crc
          [slave_id, FC_READ_WRITE_MULTIPLE_REGISTERS, 0x9C, 0xB9, 0x00, 0x05, 0x9C, 0x41,
           0x00, 0x03, 0x06, 0x00, 0x02, 0x00, 0x00, byte_of scan_state, byte_of scan_value])"

definition status_poll :: "int \<Rightarrow> byte \<Rightarrow> bytes" where
  "status_poll counter slave_id =
     append_crc
       [slave_id, FC_READ_WRITE_MULTIPLE_REGISTERS, 0x9C, 0xB9, 0x00, 0x08, 0x9C, 0x41,
        0x00, 0x02, 0x04, byte_of counter, 0x03, 0x00, 0x00]"

definition light_command :: "int \<Rightarrow> bool \<Rightarrow> byte \<Rightarrow> bytes" where
  "light_command counter enabled slave_id =
     append_crc
       [slave_id, FC_READ_WRITE_MULTIPLE_REGISTERS, 0x9C, 0xB9, 0x00, 0x02, 0x9C, 0x41,
        0x00, 0x02, 0x04, byte_of counter, 0x04, 0x17, if \<not> enabled then 0x01 else 0x00]"

definition broadcast_status :: "broadcast_state \<Rightarrow> bytes" where
  "broadcast_status state =
     (let data = (replicate 18 0)
            [0 := 0x16, 1 := 0x00, 2 := byte_of (b_target state), 3 := byte_of (b_current state),
             4 := byte_of (b_state state), 5 := 0x60, 13 := byte_of (b_light state), 15 := 0x01];
          payload = [0x00, FC_WRITE_MULTIPLE_REGISTERS, 0x9D, 0x31, 0x00, 0x09, 0x12] @ data
      in append_crc payload)"

subsection \<open>Replies the master expects\<close>

text \<open>\<open>bytes([..., len(signature)])\<close> raises when the length is not a byte.\<close>

definition scan_response :: "byte \<Rightarrow> bytes \<Rightarrow> bytes result" where
  "scan_response slave_id signature =
     (if length signature < 256
      then Inr (append_crc ([slave_id, FC_READ_WRITE_MULTIPLE_REGISTERS, of_nat (length signature)] @ signature))
      else Inl (ValueError ''bytes must be in range(0, 256)''))"

definition command_response :: "byte \<Rightarrow> int \<Rightarrow> int \<Rightarrow> bytes" where
  "command_response slave_id counter command =
     append_crc
       [slave_id, FC_READ_WRITE_MULTIPLE_REGISTERS, 0x04, byte_of counter, 0x00,
        byte_of command, 0xFD]"

definition SCAN_RESPONSE :: "bytes result" where
  "SCAN_RESPONSE = scan_response SLAVE_ID DEFAULT_SCAN_SIGNATURE"

definition COMMAND_RESPONSE_BY_COUNTER :: "(int \<times> bytes) list" where
  "COMMAND_RESPONSE_BY_COUNTER =
     [(0x02, command_response SLAVE_ID 0x02 0x04), (0x1C, command_response SLAVE_ID 0x1C 0x04)]"

subsection \<open>Decoding replies\<close>

definition response_expected_len :: "bytes \<Rightarrow> int option" where
  "response_expected_len buffer =
     (if length buffer < 3 then None
      else if buffer ! 1 \<noteq> FC_READ_WRITE_MULTIPLE_REGISTERS then Some (- 1)
      else let byte_count = uint (buffer ! 2); expected = byte_count + 5
           in if expected < 5 \<or> 32 < expected then Some (- 1) else Some expected)"

definition decode_response_kind :: "bytes \<Rightarrow> string" where
  "decode_response_kind frame =
     (if length frame < 3 \<or> frame ! 1 \<noteq> FC_READ_WRITE_MULTIPLE_REGISTERS then ''unknown''
      else let byte_count = frame ! 2
           in if byte_count = 10 then ''scan''
              else if byte_count = 16 then ''status''
              else if byte_count = 4 then ''command''
              else ''unknown'')"

definition response_counter :: "bytes \<Rightarrow> int option" where
  "response_counter frame =
     (if decode_response_kind frame \<notin> {''status'', ''command''} \<or> length frame < 4 then None
      else Some (uint (frame ! 3)))"

fun find_phase :: "byte \<times> byte \<times> byte \<Rightarrow> (string \<times> (byte \<times> byte \<times> byte)) list \<Rightarrow> string option" where
  "find_phase encoding [] = None"
| "find_phase encoding ((phase, phase_encoding) # phases) =
     (if encoding = phase_encoding then Some phase else find_phase encoding phases)"

fun find_button ::
  "byte \<times> byte \<times> byte \<Rightarrow> (string \<times> (string \<times> (byte \<times> byte \<times> byte)) list) list \<Rightarrow> (string \<times> string) option"
where
  "find_button encoding [] = None"
| "find_button encoding ((name, phases) # rest) =
     (case find_phase encoding phases of
        Some phase \<Rightarrow> Some (name, phase)
      | None \<Rightarrow> find_button encoding rest)"

definition decode_status_button_phase :: "bytes \<Rightarrow> (string \<times> string) option" where
  "decode_status_button_phase frame =
     (if decode_response_kind frame \<noteq> ''status'' \<or> length frame < 10 then None
      else find_button (frame ! 7, frame ! 8, frame ! 9) BUTTON_STATUS_PHASES)"

definition decode_status_button :: "bytes \<Rightarrow> string option" where
  "decode_status_button frame =
     (case decode_status_button_phase frame of
        None \<Rightarrow> None
      | Some decoded \<Rightarrow> Some (fst decoded))"

subsection \<open>Facts about the decoders\<close>

lemma response_expected_len_cases:
  "response_expected_len buffer = None \<longleftrightarrow> length buffer < 3"
  "response_expected_len buffer = Some n \<Longrightarrow> n = - 1 \<or> 5 \<le> n \<and> n \<le> 32"
  by (auto simp: response_expected_len_def Let_def split: if_splits)

lemma response_expected_len_append [frame_simps]:
  "3 \<le> length buffer \<Longrightarrow> response_expected_len (buffer @ rest) = response_expected_len buffer"
  by (simp add: response_expected_len_def nth_append)

interpretation reply_scanner: frame_scanner response_expected_len crc_ok
proof
  fix buffer more n
  show "response_expected_len [] = None"
    by (simp add: response_expected_len_def)
  show "response_expected_len buffer = Some n \<Longrightarrow> response_expected_len (buffer @ more) = Some n"
    using response_expected_len_cases(1) [of buffer] response_expected_len_append [of buffer more] by force
  show "response_expected_len buffer \<noteq> Some 0"
    using response_expected_len_cases(2) [of buffer 0] by auto
qed

lemma find_phase_mem: "find_phase e phases = Some p \<Longrightarrow> (p, e) \<in> set phases"
  by (induction e phases rule: find_phase.induct) (auto split: if_splits)

lemma find_button_mem:
  "find_button e table = Some (n, p) \<Longrightarrow> \<exists>phases. (n, phases) \<in> set table \<and> (p, e) \<in> set phases"
  by (induction e table rule: find_button.induct) (auto split: option.splits dest: find_phase_mem)

text \<open>No two entries of the table share an encoding, so the search finds each of them.\<close>

lemma find_button_table:
  "list_all (\<lambda>(name, phases). list_all (\<lambda>(phase, enc).
      find_button enc BUTTON_STATUS_PHASES = Some (name, phase)) phases) BUTTON_STATUS_PHASES"
  by (simp add: BUTTON_STATUS_PHASES_def)

lemma find_button_iff:
  "find_button e BUTTON_STATUS_PHASES = Some (n, p) \<longleftrightarrow>
   (\<exists>phases. (n, phases) \<in> set BUTTON_STATUS_PHASES \<and> (p, e) \<in> set phases)"
proof
  assume "\<exists>phases. (n, phases) \<in> set BUTTON_STATUS_PHASES \<and> (p, e) \<in> set phases"
  then obtain phases where n: "(n, phases) \<in> set BUTTON_STATUS_PHASES" and p: "(p, e) \<in> set phases"
    by blast
  from find_button_table n have "list_all (\<lambda>(phase, enc).
      find_button enc BUTTON_STATUS_PHASES = Some (n, phase)) phases"
    unfolding list_all_iff by (drule_tac x = "(n, phases)" in bspec) (assumption, simp only: prod.case)
  with p show "find_button e BUTTON_STATUS_PHASES = Some (n, p)"
    unfolding list_all_iff by (drule_tac x = "(p, e)" in bspec) (assumption, simp only: prod.case)
qed (rule find_button_mem)

lemma length_DEFAULT_SCAN_SIGNATURE [simp]: "length DEFAULT_SCAN_SIGNATURE = 10"
  by (simp add: DEFAULT_SCAN_SIGNATURE_def)

lemma scan_response_default:
  "scan_response slave_id DEFAULT_SCAN_SIGNATURE =
     Inr (append_crc ([slave_id, 0x17, 10] @ DEFAULT_SCAN_SIGNATURE))"
  by (simp add: scan_response_def const_defs)

lemma length_broadcast_status [simp]: "length (broadcast_status st) = 27"
  by (simp add: broadcast_status_def)

lemma length_status_poll [simp]: "length (status_poll counter slave_id) = 17"
  by (simp add: status_poll_def)

subsection \<open>Properties\<close>

text \<open>C18: the frames the receiver's CRC check accepts are exactly the frames that some
  non-empty payload is turned into by \<open>append_crc\<close>.\<close>

theorem crc_ok_iff_append_crc:
  "crc_ok frame \<longleftrightarrow> (\<exists>payload. payload \<noteq> [] \<and> frame = append_crc payload)"
proof
  assume ok: "crc_ok frame"
  then have "2 \<le> length frame" by (simp add: crc_ok_def)
  then obtain ys a b where "frame = ys @ [a, b]" by (rule list_snoc2_cases)
  then show "\<exists>payload. payload \<noteq> [] \<and> frame = append_crc payload"
    using ok crc16_zero_append [of ys a b] by (intro exI [of _ ys]) (auto simp: crc_ok_def)
qed (auto simp: frame_simps)

lemma crc_byte_change:
  "crc_ok frame \<Longrightarrow> i < length frame \<Longrightarrow> frame ! i \<noteq> b \<Longrightarrow> \<not> crc_ok (frame[i := b])"
  using crc16.byte_change_detected [where i = i and xs = frame and b = b and c = "0xFFFF"]
  by (simp add: crc_ok_def crc16_modbus_def)

text \<open>an error burst that lies within two neighbouring bytes of an accepted frame is
  always detected, whatever the bytes become.\<close>

theorem crc_detects_two_byte_burst:
  assumes "crc_ok frame" and "Suc i < length frame"
    and "(frame ! i, frame ! Suc i) \<noteq> (b1, b2)"
  shows "\<not> crc_ok (frame[i := b1, Suc i := b2])"
proof
  assume ok: "crc_ok (frame[i := b1, Suc i := b2])"
  let ?pre = "take i frame" and ?post = "drop (Suc (Suc i)) frame"
  let ?c = "foldl crc_step 0xFFFF ?pre"
  have orig: "frame = ?pre @ [frame ! i, frame ! Suc i] @ ?post"
    using assms(2) by (simp add: Cons_nth_drop_Suc)
  have upd: "frame[i := b1, Suc i := b2] = ?pre @ [b1, b2] @ ?post"
    using assms(2) by (subst orig) (simp add: list_update_append)
  have "crc_step (crc_step ?c b1) b2 = crc_step (crc_step ?c (frame ! i)) (frame ! Suc i)"
  proof (rule crc16.fold_inj)
    show "foldl crc_step (crc_step (crc_step ?c b1) b2) ?post =
        foldl crc_step (crc_step (crc_step ?c (frame ! i)) (frame ! Suc i)) ?post"
      using ok assms(1) unfolding upd
      by (subst (asm) (2) orig) (simp add: crc_ok_def crc16_modbus_def del: append_take_drop_id)
  qed
  then show False
    using assms(3) by (simp add: crc_two_steps_inj)
qed

theorem crc_detects_two_byte_burst_witness:
  "\<not> crc_ok ((status_poll 1 SLAVE_ID)[11 := 2, Suc 11 := 0x55])"
proof (rule crc_detects_two_byte_burst)
  show "crc_ok (status_poll 1 SLAVE_ID)" by (simp add: status_poll_def frame_simps)
  show "Suc 11 < length (status_poll 1 SLAVE_ID)" by simp
  show "(status_poll 1 SLAVE_ID ! 11, status_poll 1 SLAVE_ID ! Suc 11) \<noteq> (2, 0x55)"
    by (simp add: status_poll_def frame_simps byte_of_def)
qed

text \<open>the replies the simulator compares against are well framed: each passes the CRC
  check, the receiver's length rule gives its own length, and the decoder gives back its kind
  and, for a command reply, the counter it was built with (modulo 256).\<close>

theorem reply_framing:
  "(case scan_response slave_id DEFAULT_SCAN_SIGNATURE of
      Inl e \<Rightarrow> False
    | Inr frame \<Rightarrow> crc_ok frame \<and>
        response_expected_len frame = Some (int (length frame)) \<and>
        decode_response_kind frame = ''scan'') \<and>
   crc_ok (command_response slave_id counter command) \<and>
     response_expected_len (command_response slave_id counter command) =
       Some (int (length (command_response slave_id counter command))) \<and>
     decode_response_kind (command_response slave_id counter command) = ''command'' \<and>
     response_counter (command_response slave_id counter command) = Some (counter mod 256)"
  by (simp add: scan_response_default command_response_def response_expected_len_def
      decode_response_kind_def response_counter_def frame_simps const_defs nth_append uint_byte_of)

text \<open>A status reply decodes to a button and a phase exactly when the table lists its three
  button bytes under that button and phase: the encodings are unambiguous.\<close>

lemma decode_status_button_phase_iff:
  "decode_status_button_phase frame = Some (name, phase) \<longleftrightarrow>
     decode_response_kind frame = ''status'' \<and> 10 \<le> length frame \<and>
     (\<exists>phases. (name, phases) \<in> set BUTTON_STATUS_PHASES \<and>
        (phase, (frame ! 7, frame ! 8, frame ! 9)) \<in> set phases)"
  by (auto simp: decode_status_button_phase_def find_button_iff)

end
