(* ===== verification/Door_Model.thy ===== *)
theory Door_Model
  imports Hcp2_Protocol
begin

text \<open>
  \<open>tools/supramatic_sim/door_model.py\<close>: the behavioural model of the SupraMatic 4 door the
  simulator drives.  One \<open>tick\<close> is one broadcast/poll cycle.  The fields of the Python
  dataclass keep their names behind the prefix \<open>dm_\<close>; strings stay strings, so an unknown
  button falls through every branch as it does in the code.
\<close>

subsection \<open>Constants\<close>

definition STATE_STOPPED :: int where [const_defs]: "STATE_STOPPED = 0x00"
definition STATE_OPENING :: int where [const_defs]: "STATE_OPENING = 0x01"
definition STATE_CLOSING :: int where [const_defs]: "STATE_CLOSING = 0x02"
definition STATE_MOVING_HALF :: int where [const_defs]: "STATE_MOVING_HALF = 0x05"
definition STATE_MOVING_VENT :: int where [const_defs]: "STATE_MOVING_VENT = 0x09"
definition STATE_VENT :: int where [const_defs]: "STATE_VENT = 0x0A"
definition STATE_OPEN :: int where [const_defs]: "STATE_OPEN = 0x20"
definition STATE_CLOSED :: int where [const_defs]: "STATE_CLOSED = 0x40"
definition STATE_HALF :: int where [const_defs]: "STATE_HALF = 0x80"

definition POSITION_CLOSED :: int where [const_defs]: "POSITION_CLOSED = 0"
definition POSITION_OPEN :: int where [const_defs]: "POSITION_OPEN = 200"
definition DEFAULT_HALF_POSITION :: int where [const_defs]: "DEFAULT_HALF_POSITION = 0x18"
definition DEFAULT_VENT_POSITION :: int where [const_defs]: "DEFAULT_VENT_POSITION = 0x08"

definition REVERSAL_STOP_THEN_REVERSE :: string where
  [const_defs]: "REVERSAL_STOP_THEN_REVERSE = ''stop_then_reverse''"
definition REVERSAL_IMMEDIATE :: string where
  [const_defs]: "REVERSAL_IMMEDIATE = ''immediate_reverse''"
definition REVERSAL_IGNORE_UNTIL_STOP :: string where
  [const_defs]: "REVERSAL_IGNORE_UNTIL_STOP = ''ignore_until_stop''"

definition REVERSAL_PROFILES :: "string set" where
  "REVERSAL_PROFILES =
     {REVERSAL_STOP_THEN_REVERSE, REVERSAL_IMMEDIATE, REVERSAL_IGNORE_UNTIL_STOP}"

definition STATE_NAMES :: "(int \<times> string) list" where
  "STATE_NAMES =
     [(STATE_STOPPED, ''stopped''), (STATE_OPENING, ''opening''), (STATE_CLOSING, ''closing''),
      (STATE_MOVING_HALF, ''moving_half''), (STATE_MOVING_VENT, ''moving_vent''),
      (STATE_VENT, ''vent''), (STATE_OPEN, ''open''), (STATE_CLOSED, ''closed''),
      (STATE_HALF, ''half'')]"

definition state_name :: "int \<Rightarrow> string" where
  "state_name value =
     (case map_of STATE_NAMES value of
        Some name \<Rightarrow> name
      | None \<Rightarrow> ''unknown_0x'' @ format_hex 2 value)"

definition clamp_position :: "int \<Rightarrow> int" where
  "clamp_position value = max POSITION_CLOSED (min POSITION_OPEN value)"

subsection \<open>State\<close>

datatype door_event =
    Ev_Command int string string string int  \<comment> \<open>cycle, button, source, state and position before\<close>
  | Ev_Light int int
  | Ev_Reverse_Ignored int string
  | Ev_Stopped int string int
  | Ev_Obstruction_Ignored int string
  | Ev_Obstruction int int bool

record door_params =
  dp_travel_cycles :: int
  dp_reversal_profile :: string
  dp_reverse_dwell_cycles :: int
  dp_stop_latency_cycles :: int
  dp_overshoot_raw_ticks :: int
  dp_half_position :: int
  dp_vent_position :: int
  dp_obstruction_cycle :: "int option"
  dp_obstruction_reverses :: bool
  dp_speculative_obstruction_flags :: bool

record door_model =
  dm_position :: int
  dm_target :: int
  dm_state :: int
  dm_light_word :: int
  dm_travel_cycles :: int
  dm_reversal_profile :: string
  dm_reverse_dwell_cycles :: int
  dm_stop_latency_cycles :: int
  dm_overshoot_raw_ticks :: int
  dm_half_position :: int
  dm_vent_position :: int
  dm_obstruction_cycle :: "int option"
  dm_obstruction_reverses :: bool
  dm_speculative_obstruction_flags :: bool
  dm_cycle :: int
  dm_pending_stop_cycles :: int
  dm_pending_reverse_button :: "string option"
  dm_reverse_wait_cycles :: int
  dm_incomplete_cycles :: int
  dm_obstruction_active :: bool
  dm_last_command :: "string option"
  dm_events :: "door_event list"

text \<open>The defaults of the dataclass, and \<open>__post_init__\<close>.\<close>

definition default_params :: door_params where
  "default_params =
     \<lparr>dp_travel_cycles = 260, dp_reversal_profile = REVERSAL_STOP_THEN_REVERSE,
      dp_reverse_dwell_cycles = 4, dp_stop_latency_cycles = 1, dp_overshoot_raw_ticks = 1,
      dp_half_position = DEFAULT_HALF_POSITION, dp_vent_position = DEFAULT_VENT_POSITION,
      dp_obstruction_cycle = None, dp_obstruction_reverses = True,
      dp_speculative_obstruction_flags = False\<rparr>"

definition post_init :: "door_model \<Rightarrow> door_model result" where
  "post_init d =
     (let d = (if dm_travel_cycles d < 1 then d\<lparr>dm_travel_cycles := 1\<rparr> else d)
      in if dm_reversal_profile d \<notin> REVERSAL_PROFILES
         then Inl (ValueError (''unknown reversal profile: '' @ dm_reversal_profile d))
         else Inr (d\<lparr>dm_position := clamp_position (dm_position d),
                    dm_target := clamp_position (dm_target d),
                    dm_half_position := clamp_position (dm_half_position d),
                    dm_vent_position := clamp_position (dm_vent_position d)\<rparr>))"

definition new_door :: "int \<Rightarrow> int \<Rightarrow> int \<Rightarrow> door_params \<Rightarrow> door_model result" where
  "new_door position target state p =
     post_init \<lparr>dm_position = position, dm_target = target, dm_state = state,
       dm_light_word = 0x14, dm_travel_cycles = dp_travel_cycles p,
       dm_reversal_profile = dp_reversal_profile p,
       dm_reverse_dwell_cycles = dp_reverse_dwell_cycles p,
       dm_stop_latency_cycles = dp_stop_latency_cycles p,
       dm_overshoot_raw_ticks = dp_overshoot_raw_ticks p,
       dm_half_position = dp_half_position p, dm_vent_position = dp_vent_position p,
       dm_obstruction_cycle = dp_obstruction_cycle p,
       dm_obstruction_reverses = dp_obstruction_reverses p,
       dm_speculative_obstruction_flags = dp_speculative_obstruction_flags p,
       dm_cycle = 0, dm_pending_stop_cycles = 0, dm_pending_reverse_button = None,
       dm_reverse_wait_cycles = 0, dm_incomplete_cycles = 0, dm_obstruction_active = False,
       dm_last_command = None, dm_events = []\<rparr>"

definition door_open :: "door_params \<Rightarrow> door_model result" where
  "door_open p = new_door POSITION_OPEN POSITION_OPEN STATE_OPEN p"

definition door_closed :: "door_params \<Rightarrow> door_model result" where
  "door_closed p = new_door POSITION_CLOSED POSITION_CLOSED STATE_CLOSED p"

text \<open>The \<open>parameters\<close> entry of \<open>as_dict\<close>, from which the simulator rebuilds a door.\<close>

definition as_dict_parameters :: "door_model \<Rightarrow> door_params" where
  "as_dict_parameters d =
     \<lparr>dp_travel_cycles = dm_travel_cycles d, dp_reversal_profile = dm_reversal_profile d,
      dp_reverse_dwell_cycles = dm_reverse_dwell_cycles d,
      dp_stop_latency_cycles = dm_stop_latency_cycles d,
      dp_overshoot_raw_ticks = dm_overshoot_raw_ticks d,
      dp_half_position = dm_half_position d, dp_vent_position = dm_vent_position d,
      dp_obstruction_cycle = dm_obstruction_cycle d,
      dp_obstruction_reverses = dm_obstruction_reverses d,
      dp_speculative_obstruction_flags = dm_speculative_obstruction_flags d\<rparr>"

record door_dict =
  dd_position :: int
  dd_target :: int
  dd_state :: int
  dd_state_name :: string
  dd_light_word :: int
  dd_last_command :: "string option"
  dd_incomplete_cycles :: int
  dd_obstruction_active :: bool
  dd_events :: "door_event list"
  dd_parameters :: door_params

definition door_as_dict :: "door_model \<Rightarrow> door_dict" where
  "door_as_dict d =
     \<lparr>dd_position = clamp_position (dm_position d), dd_target = clamp_position (dm_target d),
      dd_state = dm_state d, dd_state_name = state_name (dm_state d),
      dd_light_word = dm_light_word d AND 0xFF, dd_last_command = dm_last_command d,
      dd_incomplete_cycles = dm_incomplete_cycles d,
      dd_obstruction_active = dm_obstruction_active d, dd_events = dm_events d,
      dd_parameters = as_dict_parameters d\<rparr>"

definition door_broadcast_state :: "door_model \<Rightarrow> broadcast_state" where
  "door_broadcast_state d =
     \<lparr>b_target = clamp_position (dm_target d), b_current = clamp_position (dm_position d),
      b_state = dm_state d AND 0xFF, b_light = dm_light_word d AND 0xFF\<rparr>"

subsection \<open>Motion\<close>

definition log_event :: "door_event \<Rightarrow> door_model \<Rightarrow> door_model" where
  "log_event e d = d\<lparr>dm_events := dm_events d @ [e]\<rparr>"

definition arrive :: "door_model \<Rightarrow> door_model" where
  "arrive d =
     (if dm_target d = POSITION_CLOSED then d\<lparr>dm_state := STATE_CLOSED\<rparr>
      else if dm_target d = POSITION_OPEN then d\<lparr>dm_state := STATE_OPEN\<rparr>
      else if dm_target d = dm_half_position d then d\<lparr>dm_state := STATE_HALF\<rparr>
      else if dm_target d = dm_vent_position d then d\<lparr>dm_state := STATE_VENT\<rparr>
      else d\<lparr>dm_state := STATE_STOPPED\<rparr>)"

definition stop_motion :: "string \<Rightarrow> door_model \<Rightarrow> door_model" where
  "stop_motion reason d =
     log_event (Ev_Stopped (dm_cycle d) reason (dm_position d))
       (d\<lparr>dm_target := dm_position d, dm_state := STATE_STOPPED\<rparr>)"

definition moving_states :: "int set" where
  [const_defs]: "moving_states = {STATE_OPENING, STATE_CLOSING, STATE_MOVING_HALF, STATE_MOVING_VENT}"

definition motion_step :: "bool \<Rightarrow> door_model \<Rightarrow> int" where
  "motion_step overshoot d =
     (let step = max 1 (py_round (of_int POSITION_OPEN / of_int (dm_travel_cycles d)))
      in if overshoot then max step (dm_overshoot_raw_ticks d) else step)"

definition move_one_step :: "bool \<Rightarrow> door_model \<Rightarrow> door_model" where
  "move_one_step overshoot d =
     (if dm_state d \<notin> moving_states then d
      else if dm_position d = dm_target d then arrive d
      else
        let step = motion_step overshoot d;
            d = (if dm_position d < dm_target d
                 then d\<lparr>dm_position := min (dm_target d) (dm_position d + step)\<rparr>
                 else d\<lparr>dm_position := max (dm_target d) (dm_position d - step)\<rparr>)
        in if dm_position d = dm_target d \<and> \<not> overshoot then arrive d else d)"

definition move_to :: "int \<Rightarrow> int \<Rightarrow> int \<Rightarrow> door_model \<Rightarrow> door_model" where
  "move_to target moving_state done_state d =
     (let d = d\<lparr>dm_target := clamp_position target, dm_pending_stop_cycles := 0,
              dm_pending_reverse_button := None, dm_reverse_wait_cycles := 0\<rparr>
      in if dm_position d = dm_target d then d\<lparr>dm_state := done_state\<rparr>
         else d\<lparr>dm_state := moving_state\<rparr>)"

definition is_opposite_motion :: "int \<Rightarrow> door_model \<Rightarrow> bool" where
  "is_opposite_motion requested d \<longleftrightarrow>
     (dm_state d = STATE_OPENING \<and> requested = STATE_CLOSING) \<or>
     (dm_state d = STATE_CLOSING \<and> requested = STATE_OPENING)"

definition direction_command :: "string \<Rightarrow> int \<Rightarrow> int \<Rightarrow> int \<Rightarrow> door_model \<Rightarrow> door_model" where
  "direction_command button target moving_state done_state d =
     (if is_opposite_motion moving_state d \<and> dm_reversal_profile d = REVERSAL_IGNORE_UNTIL_STOP
      then log_event (Ev_Reverse_Ignored (dm_cycle d) button) d
      else if is_opposite_motion moving_state d \<and> dm_reversal_profile d = REVERSAL_STOP_THEN_REVERSE
      then (stop_motion ''reverse-dwell'' d)
             \<lparr>dm_pending_reverse_button := Some button,
              dm_reverse_wait_cycles := max 1 (dm_reverse_dwell_cycles d)\<rparr>
      else move_to target moving_state done_state d)"

definition toggle_light :: "door_model \<Rightarrow> door_model" where
  "toggle_light d =
     (let d = d\<lparr>dm_light_word := (if dm_light_word d \<noteq> 0 then 0x00 else 0x14)\<rparr>
      in log_event (Ev_Light (dm_cycle d) (dm_light_word d)) d)"

text \<open>\<open>command\<close>: the command is recorded, then the chain of \<open>if\<close>/\<open>elif\<close> on the button.\<close>

definition log_command :: "string \<Rightarrow> string \<Rightarrow> door_model \<Rightarrow> door_model" where
  "log_command source button d =
     (let d = d\<lparr>dm_last_command := Some button\<rparr>
      in log_event (Ev_Command (dm_cycle d) button source (state_name (dm_state d)) (dm_position d)) d)"

definition dispatch_command :: "string \<Rightarrow> door_model \<Rightarrow> door_model" where
  "dispatch_command button d =
     (if button = ''open'' then direction_command button POSITION_OPEN STATE_OPENING STATE_OPEN d
      else if button = ''close'' then direction_command button POSITION_CLOSED STATE_CLOSING STATE_CLOSED d
      else if button = ''stop'' then
        (let d = d\<lparr>dm_pending_stop_cycles := max 0 (dm_stop_latency_cycles d)\<rparr>
         in if dm_pending_stop_cycles d = 0 then stop_motion ''stop-command'' d else d)
      else if button = ''half'' then move_to (dm_half_position d) STATE_MOVING_HALF STATE_HALF d
      else if button = ''vent'' then move_to (dm_vent_position d) STATE_MOVING_VENT STATE_VENT d
      else if button = ''light'' then toggle_light d
      else d)"

definition door_command :: "string \<Rightarrow> string \<Rightarrow> door_model \<Rightarrow> door_model" where
  "door_command source button d = dispatch_command button (log_command source button d)"

definition maybe_inject_obstruction :: "door_model \<Rightarrow> door_model" where
  "maybe_inject_obstruction d =
     (if dm_obstruction_cycle d \<noteq> Some (dm_cycle d) then d
      else if dm_state d \<noteq> STATE_CLOSING
      then log_event (Ev_Obstruction_Ignored (dm_cycle d) (state_name (dm_state d))) d
      else
        let d = d\<lparr>dm_incomplete_cycles := dm_incomplete_cycles d + 1, dm_obstruction_active := True\<rparr>;
            d = log_event (Ev_Obstruction (dm_cycle d) (dm_position d) (dm_speculative_obstruction_flags d)) d
        in if dm_obstruction_reverses d then move_to POSITION_OPEN STATE_OPENING STATE_OPEN d
           else stop_motion ''obstruction'' d)"

definition door_tick :: "door_model \<Rightarrow> door_model" where
  "door_tick d =
     (let d = maybe_inject_obstruction (d\<lparr>dm_cycle := dm_cycle d + 1\<rparr>)
      in if 0 < dm_pending_stop_cycles d then
           (let d = d\<lparr>dm_pending_stop_cycles := dm_pending_stop_cycles d - 1\<rparr>;
                d = move_one_step True d
            in if dm_pending_stop_cycles d = 0 then stop_motion ''stop-latency-expired'' d else d)
         else if 0 < dm_reverse_wait_cycles d then
           (let d = d\<lparr>dm_reverse_wait_cycles := dm_reverse_wait_cycles d - 1\<rparr>
            in case dm_pending_reverse_button d of
                 Some button \<Rightarrow>
                   if dm_reverse_wait_cycles d = 0
                   then door_command ''reverse-dwell'' button (d\<lparr>dm_pending_reverse_button := None\<rparr>)
                   else d
               | None \<Rightarrow> d)
         else move_one_step False d)"

subsection \<open>Well-formed doors\<close>

text \<open>
  The relation between the state byte, the position and the target that the broadcast
  relies on: a moving state names its target, a resting state its position, and a pending
  reversal holds the door still.
\<close>

definition position_ok :: "int \<Rightarrow> bool" where
  "position_ok p \<longleftrightarrow> POSITION_CLOSED \<le> p \<and> p \<le> POSITION_OPEN"

definition motion_ok :: "door_model \<Rightarrow> bool" where
  "motion_ok d \<longleftrightarrow>
     (dm_state d = STATE_STOPPED \<and> dm_target d = dm_position d) \<or>
     (dm_state d = STATE_OPENING \<and> dm_target d = POSITION_OPEN) \<or>
     (dm_state d = STATE_CLOSING \<and> dm_target d = POSITION_CLOSED) \<or>
     (dm_state d = STATE_MOVING_HALF \<and> dm_target d = dm_half_position d) \<or>
     (dm_state d = STATE_MOVING_VENT \<and> dm_target d = dm_vent_position d) \<or>
     (dm_state d = STATE_OPEN \<and> dm_target d = POSITION_OPEN \<and> dm_position d = POSITION_OPEN) \<or>
     (dm_state d = STATE_CLOSED \<and> dm_target d = POSITION_CLOSED \<and> dm_position d = POSITION_CLOSED) \<or>
     (dm_state d = STATE_HALF \<and> dm_target d = dm_half_position d \<and> dm_position d = dm_half_position d) \<or>
     (dm_state d = STATE_VENT \<and> dm_target d = dm_vent_position d \<and> dm_position d = dm_vent_position d)"

definition settings_ok :: "door_model \<Rightarrow> bool" where
  "settings_ok d \<longleftrightarrow>
     position_ok (dm_half_position d) \<and> position_ok (dm_vent_position d) \<and>
     1 \<le> dm_travel_cycles d \<and> dm_reversal_profile d \<in> REVERSAL_PROFILES"

definition pending_ok :: "door_model \<Rightarrow> bool" where
  "pending_ok d \<longleftrightarrow>
     0 \<le> dm_pending_stop_cycles d \<and> 0 \<le> dm_reverse_wait_cycles d \<and>
     (dm_pending_reverse_button d = None \<and> dm_reverse_wait_cycles d = 0 \<or>
      dm_pending_reverse_button d \<in> {Some ''open'', Some ''close''} \<and>
        0 < dm_reverse_wait_cycles d \<and> dm_state d = STATE_STOPPED)"

definition door_inv :: "door_model \<Rightarrow> bool" where
  "door_inv d \<longleftrightarrow>
     position_ok (dm_position d) \<and> position_ok (dm_target d) \<and> motion_ok d \<and>
     settings_ok d \<and> pending_ok d \<and> dm_light_word d \<in> {0x00, 0x14}"

lemmas door_inv_defs = door_inv_def motion_ok_def settings_ok_def pending_ok_def position_ok_def

lemma door_inv_log [simp]: "door_inv (log_event e d) = door_inv d"
  by (simp add: door_inv_defs log_event_def)

lemma door_inv_ghost [simp]:
  "door_inv (d\<lparr>dm_cycle := c\<rparr>) = door_inv d"
  "door_inv (d\<lparr>dm_last_command := l\<rparr>) = door_inv d"
  "door_inv (d\<lparr>dm_incomplete_cycles := n\<rparr>) = door_inv d"
  "door_inv (d\<lparr>dm_obstruction_active := o1\<rparr>) = door_inv d"
  "door_inv (d\<lparr>dm_events := es\<rparr>) = door_inv d"
  "door_inv (d\<lparr>dm_obstruction_cycle := oc\<rparr>) = door_inv d"
  by (simp_all add: door_inv_defs)

lemma motion_ok_upd:
  "motion_ok (d\<lparr>dm_reverse_wait_cycles := w\<rparr>) = motion_ok d"
  "motion_ok (d\<lparr>dm_pending_reverse_button := r\<rparr>) = motion_ok d"
  "motion_ok (d\<lparr>dm_pending_stop_cycles := n\<rparr>) = motion_ok d"
  by (simp_all add: motion_ok_def)

lemma clamp_position_range: "position_ok (clamp_position x)"
  by (simp add: clamp_position_def position_ok_def const_defs)

lemma clamp_position_id [simp]: "position_ok x \<Longrightarrow> clamp_position x = x"
  by (simp add: clamp_position_def position_ok_def const_defs)

lemma position_ok_ends [simp]: "position_ok POSITION_OPEN" "position_ok POSITION_CLOSED"
  by (simp_all add: position_ok_def const_defs)

lemma motion_step_ge_1: "1 \<le> motion_step overshoot d"
  by (simp add: motion_step_def Let_def max_def)

lemma door_inv_stop_motion: "door_inv d \<Longrightarrow> door_inv (stop_motion reason d)"
  by (auto simp: stop_motion_def door_inv_defs log_event_def )

lemma door_inv_arrive:
  "door_inv d \<Longrightarrow> dm_position d = dm_target d \<Longrightarrow> dm_pending_reverse_button d = None \<Longrightarrow>
   door_inv (arrive d)"
  by (auto simp: arrive_def door_inv_defs)

lemma door_inv_move_to:
  assumes "door_inv d"
    and "(t, m, s) \<in> {(POSITION_OPEN, STATE_OPENING, STATE_OPEN),
           (POSITION_CLOSED, STATE_CLOSING, STATE_CLOSED),
           (dm_half_position d, STATE_MOVING_HALF, STATE_HALF),
           (dm_vent_position d, STATE_MOVING_VENT, STATE_VENT)}"
  shows "door_inv (move_to t m s d)"
proof -
  have "position_ok t"
    using assms by (auto simp: door_inv_def settings_ok_def)
  then show ?thesis
    using assms by (auto simp: move_to_def Let_def door_inv_def motion_ok_def settings_ok_def pending_ok_def)
qed

lemma moving_no_pending:
  "door_inv d \<Longrightarrow> dm_state d \<in> moving_states \<Longrightarrow>
   dm_pending_reverse_button d = None \<and> dm_reverse_wait_cycles d = 0"
  by (auto simp: door_inv_def pending_ok_def const_defs)

lemma motion_ok_position:
  assumes ok: "motion_ok d" and moving: "dm_state d \<in> moving_states"
  shows "motion_ok (d\<lparr>dm_position := p\<rparr>)"
  using moving unfolding moving_states_def
proof (elim insertE emptyE)
qed (use ok in \<open>simp add: motion_ok_def const_defs\<close>)+

lemma door_inv_position:
  "door_inv d \<Longrightarrow> dm_state d \<in> moving_states \<Longrightarrow> position_ok p \<Longrightarrow> door_inv (d\<lparr>dm_position := p\<rparr>)"
  using motion_ok_position [of d p] by (simp add: door_inv_def settings_ok_def pending_ok_def)

text \<open>Where one step leads: towards the target and never past it.\<close>

definition next_position :: "bool \<Rightarrow> door_model \<Rightarrow> int" where
  "next_position overshoot d =
     (if dm_position d < dm_target d
      then min (dm_target d) (dm_position d + motion_step overshoot d)
      else max (dm_target d) (dm_position d - motion_step overshoot d))"

lemma next_position_ok: "position_ok (dm_position d) \<Longrightarrow> position_ok (dm_target d) \<Longrightarrow>
    position_ok (next_position overshoot d)"
  using motion_step_ge_1 [of overshoot d] by (auto simp: next_position_def position_ok_def)

lemma move_one_step_moving:
  "dm_state d \<in> moving_states \<Longrightarrow> dm_position d \<noteq> dm_target d \<Longrightarrow>
   move_one_step overshoot d =
     (if next_position overshoot d = dm_target d \<and> \<not> overshoot
      then arrive (d\<lparr>dm_position := next_position overshoot d\<rparr>)
      else d\<lparr>dm_position := next_position overshoot d\<rparr>)"
  by (cases overshoot; cases "dm_position d < dm_target d")
    (simp_all add: move_one_step_def next_position_def Let_def)

lemma move_one_step_there:
  "dm_state d \<in> moving_states \<Longrightarrow> dm_position d = dm_target d \<Longrightarrow> move_one_step overshoot d = arrive d"
  by (simp add: move_one_step_def)

lemma door_inv_move_one_step:
  assumes inv: "door_inv d"
  shows "door_inv (move_one_step overshoot d)"
proof (cases "dm_state d \<in> moving_states")
  case False
  then show ?thesis
    using inv by (simp add: move_one_step_def)
next
  case True
  note none = moving_no_pending [OF inv True]
  have "door_inv (d\<lparr>dm_position := next_position overshoot d\<rparr>)"
    using inv True by (intro door_inv_position next_position_ok) (simp_all add: door_inv_def)
  moreover from this have "door_inv (arrive (d\<lparr>dm_position := next_position overshoot d\<rparr>))"
    if "next_position overshoot d = dm_target d"
    using none that by (intro door_inv_arrive) simp_all
  ultimately show ?thesis
    using none inv True
    by (cases overshoot; cases "dm_position d = dm_target d")
      (auto simp add: move_one_step_moving door_inv_arrive move_one_step_there)
qed

lemma door_inv_pending_stop: "door_inv d \<Longrightarrow> 0 \<le> n \<Longrightarrow> door_inv (d\<lparr>dm_pending_stop_cycles := n\<rparr>)"
  by (simp add: door_inv_defs)

lemma door_inv_light: "door_inv d \<Longrightarrow> l \<in> {0, 0x14} \<Longrightarrow> door_inv (d\<lparr>dm_light_word := l\<rparr>)"
  by (simp add: door_inv_defs)

lemma door_inv_reverse_dwell:
  "door_inv d \<Longrightarrow> b \<in> {''open'', ''close''} \<Longrightarrow>
   door_inv ((stop_motion ''reverse-dwell'' d)
     \<lparr>dm_pending_reverse_button := Some b, dm_reverse_wait_cycles := max 1 w\<rparr>)"
  by (simp add: stop_motion_def log_event_def door_inv_def motion_ok_def settings_ok_def pending_ok_def
      less_max_iff_disj)

lemma door_inv_direction_command:
  assumes "door_inv d"
    and "(button, t, m, s) \<in> {(''open'', POSITION_OPEN, STATE_OPENING, STATE_OPEN),
           (''close'', POSITION_CLOSED, STATE_CLOSING, STATE_CLOSED)}"
  shows "door_inv (direction_command button t m s d)"
proof -
  have "door_inv (move_to t m s d)"
    using assms by (intro door_inv_move_to) auto
  moreover have "door_inv ((stop_motion ''reverse-dwell'' d)
      \<lparr>dm_pending_reverse_button := Some button, dm_reverse_wait_cycles := max 1 w\<rparr>)" for w
    using assms by (intro door_inv_reverse_dwell) auto
  ultimately show ?thesis
    using assms(1) by (simp add: direction_command_def)
qed

lemma door_inv_toggle_light: "door_inv d \<Longrightarrow> door_inv (toggle_light d)"
  by (simp add: toggle_light_def Let_def door_inv_light)

lemma door_inv_log_command [simp]: "door_inv (log_command source button d) = door_inv d"
  by (simp add: log_command_def Let_def)

lemma door_inv_dispatch: "door_inv d \<Longrightarrow> door_inv (dispatch_command button d)"
  by (simp add: dispatch_command_def Let_def door_inv_stop_motion door_inv_pending_stop
      door_inv_toggle_light door_inv_direction_command door_inv_move_to)

lemma door_inv_command: "door_inv d \<Longrightarrow> door_inv (door_command source button d)"
  by (simp add: door_command_def door_inv_dispatch)

lemma door_inv_obstruction: "door_inv d \<Longrightarrow> door_inv (maybe_inject_obstruction d)"
  by (simp add: maybe_inject_obstruction_def Let_def door_inv_move_to door_inv_stop_motion)

lemma door_inv_wait:
  assumes "door_inv e" and "0 < dm_reverse_wait_cycles e"
  shows "\<exists>b. dm_pending_reverse_button e = Some b"
    and "dm_reverse_wait_cycles e = 1 \<Longrightarrow>
      door_inv (e\<lparr>dm_reverse_wait_cycles := 0, dm_pending_reverse_button := None\<rparr>)"
    and "dm_reverse_wait_cycles e \<noteq> 1 \<Longrightarrow>
      door_inv (e\<lparr>dm_reverse_wait_cycles := dm_reverse_wait_cycles e - 1\<rparr>)"
  using assms by (auto simp: door_inv_def pending_ok_def motion_ok_upd settings_ok_def)

text \<open>The body of \<open>tick\<close> after the obstruction check, by its three phases.\<close>

definition after_obstruction :: "door_model \<Rightarrow> door_model" where
  "after_obstruction d = maybe_inject_obstruction (d\<lparr>dm_cycle := dm_cycle d + 1\<rparr>)"

lemma door_tick_stop:
  "0 < dm_pending_stop_cycles (after_obstruction d) \<Longrightarrow>
   door_tick d =
     (let e = after_obstruction d;
          e = move_one_step True (e\<lparr>dm_pending_stop_cycles := dm_pending_stop_cycles e - 1\<rparr>)
      in if dm_pending_stop_cycles e = 0 then stop_motion ''stop-latency-expired'' e else e)"
  by (simp add: door_tick_def after_obstruction_def Let_def)

lemma door_tick_wait:
  assumes "door_inv (after_obstruction d)" and "dm_pending_stop_cycles (after_obstruction d) = 0"
    and "0 < dm_reverse_wait_cycles (after_obstruction d)"
  shows "door_tick d =
     (let e = after_obstruction d
      in if dm_reverse_wait_cycles e = 1
         then door_command ''reverse-dwell'' (the (dm_pending_reverse_button e))
                (e\<lparr>dm_reverse_wait_cycles := 0, dm_pending_reverse_button := None\<rparr>)
         else e\<lparr>dm_reverse_wait_cycles := dm_reverse_wait_cycles e - 1\<rparr>)"
  using door_inv_wait(1) [OF assms(1,3)] assms(2,3)
  by (auto simp: door_tick_def after_obstruction_def Let_def)

lemma door_tick_move:
  "dm_pending_stop_cycles (after_obstruction d) \<le> 0 \<Longrightarrow>
   dm_reverse_wait_cycles (after_obstruction d) \<le> 0 \<Longrightarrow>
   door_tick d = move_one_step False (after_obstruction d)"
  by (simp add: door_tick_def after_obstruction_def Let_def)

lemma door_inv_tick:
  assumes "door_inv d"
  shows "door_inv (door_tick d)"
proof -
  have e: "door_inv (after_obstruction d)" (is "door_inv ?e")
    using assms by (simp add: after_obstruction_def door_inv_obstruction)
  then have nonneg: "0 \<le> dm_pending_stop_cycles ?e" "0 \<le> dm_reverse_wait_cycles ?e"
    by (simp_all add: door_inv_def pending_ok_def)
  consider "0 < dm_pending_stop_cycles ?e"
    | "dm_pending_stop_cycles ?e = 0" "0 < dm_reverse_wait_cycles ?e"
    | "dm_pending_stop_cycles ?e = 0" "dm_reverse_wait_cycles ?e = 0"
    using nonneg by linarith
  then show ?thesis
  proof cases
    case 1
    then show ?thesis
      using e by (simp add: door_tick_stop Let_def door_inv_stop_motion door_inv_move_one_step
          door_inv_pending_stop)
  next
    case 2
    then show ?thesis
      using e door_inv_wait [OF e 2(2)] by (simp add: door_tick_wait Let_def door_inv_command)
  next
    case 3
    then show ?thesis
      using e by (simp add: door_tick_move door_inv_move_one_step)
  qed
qed

subsection \<open>The door as a machine\<close>

datatype door_input = Press string string | Tick

fun door_step :: "door_input \<Rightarrow> door_model \<Rightarrow> door_model" where
  "door_step (Press source button) d = door_command source button d"
| "door_step Tick d = door_tick d"

interpretation door: machine door_step door_inv
proof
  fix d i
  show "door_inv d \<Longrightarrow> door_inv (door_step i d)"
    by (cases i) (simp_all add: door_inv_command door_inv_tick)
qed

lemma post_init_cases:
  assumes "post_init e = Inr d"
  obtains "dm_reversal_profile e \<in> REVERSAL_PROFILES"
    and "d = e\<lparr>dm_travel_cycles := max 1 (dm_travel_cycles e), dm_position := clamp_position (dm_position e),
        dm_target := clamp_position (dm_target e), dm_half_position := clamp_position (dm_half_position e),
        dm_vent_position := clamp_position (dm_vent_position e)\<rparr>"
  using assms by (auto simp: post_init_def Let_def max_def split: if_splits)

lemma door_inv_new:
  assumes "new_door q t s p = Inr d"
    and "(q, t, s) \<in> {(POSITION_OPEN, POSITION_OPEN, STATE_OPEN), (POSITION_CLOSED, POSITION_CLOSED, STATE_CLOSED)}"
  shows "door_inv d"
proof -
  obtain e where e: "post_init e = Inr d" "dm_position e = q" "dm_target e = t" "dm_state e = s"
      "dm_light_word e = 0x14" "dm_pending_stop_cycles e = 0" "dm_pending_reverse_button e = None"
      "dm_reverse_wait_cycles e = 0"
    using assms(1) unfolding new_door_def by (rule that) simp_all
  have q: "t = q" "position_ok q" and qs: "q = POSITION_OPEN \<and> s = STATE_OPEN \<or> q = POSITION_CLOSED \<and> s = STATE_CLOSED"
    using assms(2) by auto
  from e(1) obtain "dm_reversal_profile e \<in> REVERSAL_PROFILES"
    and "d = e\<lparr>dm_travel_cycles := max 1 (dm_travel_cycles e), dm_position := clamp_position (dm_position e),
        dm_target := clamp_position (dm_target e), dm_half_position := clamp_position (dm_half_position e),
        dm_vent_position := clamp_position (dm_vent_position e)\<rparr>"
    by (rule post_init_cases)
  then have d: "settings_ok d" "pending_ok d" "dm_position d = q" "dm_target d = q" "dm_state d = s"
      "dm_light_word d = 0x14"
    using e(2-) q by (simp_all add: settings_ok_def pending_ok_def clamp_position_range)
  have "motion_ok d"
    using qs d by (elim disjE) (simp_all add: motion_ok_def)
  then show ?thesis
    using d q by (simp add: door_inv_def)
qed

subsection \<open>Progress towards a commanded end position\<close>

text \<open>A door that is opening, or that will once its reversal dwell is over.\<close>

definition toward_open :: "door_model \<Rightarrow> bool" where
  "toward_open d \<longleftrightarrow> door_inv d \<and> dm_obstruction_cycle d = None \<and>
     (dm_pending_reverse_button d = None \<and> dm_pending_stop_cycles d = 0 \<and>
        dm_state d \<in> {STATE_OPEN, STATE_OPENING} \<or>
      dm_pending_reverse_button d = Some ''open'')"

definition open_rank :: "door_model \<Rightarrow> nat" where
  "open_rank d =
     (if dm_pending_reverse_button d \<noteq> None
      then nat (dm_pending_stop_cycles d) + nat (dm_reverse_wait_cycles d) + 201
      else if dm_state d = STATE_OPEN then 0
      else nat (POSITION_OPEN - dm_position d) + 1)"

lemma after_obstruction_none:
  "dm_obstruction_cycle d = None \<Longrightarrow> after_obstruction d = d\<lparr>dm_cycle := dm_cycle d + 1\<rparr>"
  by (simp add: after_obstruction_def maybe_inject_obstruction_def)

lemma move_one_step_stopped [simp]: "dm_state d \<notin> moving_states \<Longrightarrow> move_one_step o1 d = d"
  by (simp add: move_one_step_def)

lemma log_event_sel [simp]:
  "dm_state (log_event e d) = dm_state d" "dm_position (log_event e d) = dm_position d"
  "dm_target (log_event e d) = dm_target d"
  "dm_pending_reverse_button (log_event e d) = dm_pending_reverse_button d"
  "dm_pending_stop_cycles (log_event e d) = dm_pending_stop_cycles d"
  "dm_reverse_wait_cycles (log_event e d) = dm_reverse_wait_cycles d"
  "dm_obstruction_cycle (log_event e d) = dm_obstruction_cycle d"
  "dm_reversal_profile (log_event e d) = dm_reversal_profile d"
  "dm_reverse_dwell_cycles (log_event e d) = dm_reverse_dwell_cycles d"
  "dm_stop_latency_cycles (log_event e d) = dm_stop_latency_cycles d"
  "dm_travel_cycles (log_event e d) = dm_travel_cycles d"
  "dm_overshoot_raw_ticks (log_event e d) = dm_overshoot_raw_ticks d"
  "dm_half_position (log_event e d) = dm_half_position d"
  "dm_vent_position (log_event e d) = dm_vent_position d"
  "dm_cycle (log_event e d) = dm_cycle d"
  "dm_light_word (log_event e d) = dm_light_word d"
  "dm_incomplete_cycles (log_event e d) = dm_incomplete_cycles d"
  "dm_obstruction_active (log_event e d) = dm_obstruction_active d"
  "dm_obstruction_reverses (log_event e d) = dm_obstruction_reverses d"
  by (simp_all add: log_event_def)

lemma log_command_sel [simp]:
  "dm_state (log_command s b d) = dm_state d" "dm_position (log_command s b d) = dm_position d"
  "dm_target (log_command s b d) = dm_target d"
  "dm_pending_reverse_button (log_command s b d) = dm_pending_reverse_button d"
  "dm_pending_stop_cycles (log_command s b d) = dm_pending_stop_cycles d"
  "dm_reverse_wait_cycles (log_command s b d) = dm_reverse_wait_cycles d"
  "dm_obstruction_cycle (log_command s b d) = dm_obstruction_cycle d"
  "dm_reversal_profile (log_command s b d) = dm_reversal_profile d"
  "dm_reverse_dwell_cycles (log_command s b d) = dm_reverse_dwell_cycles d"
  "dm_stop_latency_cycles (log_command s b d) = dm_stop_latency_cycles d"
  "dm_travel_cycles (log_command s b d) = dm_travel_cycles d"
  "dm_overshoot_raw_ticks (log_command s b d) = dm_overshoot_raw_ticks d"
  "dm_half_position (log_command s b d) = dm_half_position d"
  "dm_vent_position (log_command s b d) = dm_vent_position d"
  "dm_cycle (log_command s b d) = dm_cycle d"
  "dm_light_word (log_command s b d) = dm_light_word d"
  "dm_incomplete_cycles (log_command s b d) = dm_incomplete_cycles d"
  "dm_obstruction_active (log_command s b d) = dm_obstruction_active d"
  "dm_obstruction_reverses (log_command s b d) = dm_obstruction_reverses d"
  by (simp_all add: log_command_def Let_def)

lemma motion_ok_dest:
  "motion_ok d \<Longrightarrow> dm_state d = STATE_OPENING \<Longrightarrow> dm_target d = POSITION_OPEN"
  "motion_ok d \<Longrightarrow> dm_state d = STATE_CLOSING \<Longrightarrow> dm_target d = POSITION_CLOSED"
  "motion_ok d \<Longrightarrow> dm_state d = STATE_OPEN \<Longrightarrow> dm_position d = POSITION_OPEN"
  "motion_ok d \<Longrightarrow> dm_state d = STATE_CLOSED \<Longrightarrow> dm_position d = POSITION_CLOSED"
  "motion_ok d \<Longrightarrow> dm_state d = STATE_STOPPED \<Longrightarrow> dm_target d = dm_position d"
  by (simp_all add: motion_ok_def const_defs)

lemma door_inv_dest:
  "door_inv d \<Longrightarrow> motion_ok d"
  "door_inv d \<Longrightarrow> POSITION_CLOSED \<le> dm_position d"
  "door_inv d \<Longrightarrow> dm_position d \<le> POSITION_OPEN"
  "door_inv d \<Longrightarrow> 0 \<le> dm_pending_stop_cycles d"
  "door_inv d \<Longrightarrow> 0 \<le> dm_reverse_wait_cycles d"
  "door_inv d \<Longrightarrow> dm_pending_reverse_button d = None \<Longrightarrow> dm_reverse_wait_cycles d = 0"
  "door_inv d \<Longrightarrow> dm_pending_reverse_button d = Some b \<Longrightarrow> 0 < dm_reverse_wait_cycles d"
  "door_inv d \<Longrightarrow> dm_pending_reverse_button d = Some b \<Longrightarrow> dm_state d = STATE_STOPPED"
  by (auto simp: door_inv_def position_ok_def pending_ok_def)

text \<open>An opening door after one step.\<close>

lemma opening_step:
  assumes "door_inv d" and "dm_state d = STATE_OPENING"
  defines "p \<equiv> min POSITION_OPEN (dm_position d + motion_step False d)"
  shows "move_one_step False d =
    d\<lparr>dm_position := p, dm_state := (if p = POSITION_OPEN then STATE_OPEN else STATE_OPENING)\<rparr>"
proof -
  have t: "dm_target d = POSITION_OPEN" and le: "dm_position d \<le> POSITION_OPEN"
    using assms by (simp_all add: door_inv_dest motion_ok_dest)
  have m: "dm_state d \<in> moving_states"
    using assms(2) by (simp add: const_defs)
  show ?thesis
  proof (cases "dm_position d = POSITION_OPEN")
    case True
    then have "p = POSITION_OPEN"
      using motion_step_ge_1 [of False d] by (simp add: p_def)
    then show ?thesis
      using True m t by (simp add: move_one_step_there arrive_def const_defs)
  next
    case False
    then have "next_position False d = p"
      using le t by (simp add: next_position_def p_def)
    then show ?thesis
      using False m t assms(2) by (simp add: move_one_step_moving arrive_def const_defs)
  qed
qed

lemma stop_motion_sel [simp]:
  "dm_stop_latency_cycles (stop_motion r d) = dm_stop_latency_cycles d"
  "dm_state (stop_motion r d) = STATE_STOPPED" "dm_position (stop_motion r d) = dm_position d"
  "dm_target (stop_motion r d) = dm_position d"
  "dm_pending_reverse_button (stop_motion r d) = dm_pending_reverse_button d"
  "dm_pending_stop_cycles (stop_motion r d) = dm_pending_stop_cycles d"
  "dm_reverse_wait_cycles (stop_motion r d) = dm_reverse_wait_cycles d"
  "dm_obstruction_cycle (stop_motion r d) = dm_obstruction_cycle d"
  by (simp_all add: stop_motion_def)

lemma toward_open_tick_moving:
  assumes "door_inv d" and "dm_obstruction_cycle d = None" and "dm_pending_reverse_button d = None"
    and "dm_pending_stop_cycles d = 0" and "dm_state d \<in> {STATE_OPEN, STATE_OPENING}"
  shows "toward_open (door_tick d) \<and>
    (if dm_state d = STATE_OPEN then open_rank (door_tick d) = 0 else open_rank (door_tick d) < open_rank d)"
proof -
  define e where "e = d\<lparr>dm_cycle := dm_cycle d + 1\<rparr>"
  have e: "door_inv e" "dm_state e = dm_state d" "dm_position e = dm_position d"
      "dm_pending_reverse_button e = None" "dm_pending_stop_cycles e = 0" "dm_obstruction_cycle e = None"
    using assms by (simp_all add: e_def)
  have tick: "door_tick d = move_one_step False e"
    using assms by (simp add: door_tick_move after_obstruction_none e_def door_inv_dest)
  have inv: "door_inv (move_one_step False e)"
    using e by (simp add: door_inv_move_one_step)
  show ?thesis
  proof (cases "dm_state d = STATE_OPEN")
    case True
    then show ?thesis
      using e inv by (simp add: tick toward_open_def open_rank_def moving_states_def const_defs)
  next
    case False
    then have "dm_state e = STATE_OPENING"
      using assms(5) e by simp
    note step = opening_step [OF e(1) this]
    have "dm_position e < min POSITION_OPEN (dm_position e + motion_step False e)"
      if "min POSITION_OPEN (dm_position e + motion_step False e) \<noteq> POSITION_OPEN"
      using that motion_step_ge_1 [of False e] by (auto simp: min_def split: if_splits)
    then show ?thesis
      using False e inv assms(3) door_inv_dest(3) [OF e(1)] unfolding tick step
      by (auto simp: toward_open_def open_rank_def split: if_splits)
  qed
qed

lemma move_to_sel [simp]:
  "dm_reversal_profile (move_to t m s d) = dm_reversal_profile d"
  "dm_reverse_dwell_cycles (move_to t m s d) = dm_reverse_dwell_cycles d"
  "dm_stop_latency_cycles (move_to t m s d) = dm_stop_latency_cycles d"
  "dm_pending_reverse_button (move_to t m s d) = None"
  "dm_pending_stop_cycles (move_to t m s d) = 0"
  "dm_reverse_wait_cycles (move_to t m s d) = 0"
  "dm_position (move_to t m s d) = dm_position d"
  "dm_target (move_to t m s d) = clamp_position t"
  "dm_state (move_to t m s d) = (if dm_position d = clamp_position t then s else m)"
  "dm_obstruction_cycle (move_to t m s d) = dm_obstruction_cycle d"
  "dm_travel_cycles (move_to t m s d) = dm_travel_cycles d"
  "dm_overshoot_raw_ticks (move_to t m s d) = dm_overshoot_raw_ticks d"
  by (simp_all add: move_to_def Let_def)

lemma open_command_idle:
  "dm_state d \<noteq> STATE_CLOSING \<Longrightarrow>
   door_command source ''open'' d = move_to POSITION_OPEN STATE_OPENING STATE_OPEN (log_command source ''open'' d)"
  by (simp add: door_command_def dispatch_command_def direction_command_def is_opposite_motion_def const_defs)

lemma open_command_stopped:
  "dm_state d = STATE_STOPPED \<Longrightarrow>
   door_command source ''open'' d = move_to POSITION_OPEN STATE_OPENING STATE_OPEN (log_command source ''open'' d)"
  by (simp add: door_command_def dispatch_command_def direction_command_def is_opposite_motion_def const_defs)

lemma open_rank_opening:
  "door_inv d \<Longrightarrow> dm_pending_reverse_button d = None \<Longrightarrow> open_rank d \<le> 201"
  using door_inv_dest(2) [of d] by (auto simp: open_rank_def const_defs)

lemma toward_open_tick_pending:
  assumes inv: "door_inv d" and none: "dm_obstruction_cycle d = None"
    and pend: "dm_pending_reverse_button d = Some ''open''"
  shows "toward_open (door_tick d) \<and> open_rank (door_tick d) < open_rank d"
proof -
  define e where "e = d\<lparr>dm_cycle := dm_cycle d + 1\<rparr>"
  have e: "door_inv e" "dm_state e = STATE_STOPPED" "dm_pending_reverse_button e = Some ''open''"
      "dm_pending_stop_cycles e = dm_pending_stop_cycles d" "dm_obstruction_cycle e = None"
      "dm_reverse_wait_cycles e = dm_reverse_wait_cycles d"
    using assms door_inv_dest(8) [OF inv pend] by (simp_all add: e_def)
  have ao: "after_obstruction d = e"
    using none by (simp add: after_obstruction_none e_def)
  have still: "STATE_STOPPED \<notin> moving_states"
    by (simp add: const_defs)
  have w: "0 < dm_reverse_wait_cycles e"
    using door_inv_dest(7) [OF e(1,3)] .
  have t: "door_inv (door_tick d)"
    using inv by (rule door_inv_tick)
  consider "0 < dm_pending_stop_cycles e"
    | "dm_pending_stop_cycles e = 0" "dm_reverse_wait_cycles e = 1"
    | "dm_pending_stop_cycles e = 0" "dm_reverse_wait_cycles e > 1"
    using door_inv_dest(4) [OF e(1)] w by linarith
  then show ?thesis
  proof cases
    case 1
    then have tick: "door_tick d = (let f = e\<lparr>dm_pending_stop_cycles := dm_pending_stop_cycles e - 1\<rparr>
        in if dm_pending_stop_cycles f = 0 then stop_motion ''stop-latency-expired'' f else f)"
      using e still by (simp add: door_tick_stop ao)
    show ?thesis
      using 1 t e pend unfolding tick by (auto simp: toward_open_def open_rank_def Let_def)
  next
    case 2
    then have tick: "door_tick d = door_command ''reverse-dwell'' ''open''
        (e\<lparr>dm_reverse_wait_cycles := 0, dm_pending_reverse_button := None\<rparr>)"
      using e w by (simp add: door_tick_wait ao)
    have "open_rank (door_tick d) \<le> 201"
      using t e by (intro open_rank_opening) (simp_all add: tick open_command_stopped)
    moreover have "201 < open_rank d"
      using pend e(6) 2 by (simp add: open_rank_def)
    moreover have "toward_open (door_tick d)"
      using t e by (simp add: toward_open_def tick open_command_stopped)
    ultimately show ?thesis by simp
  next
    case 3
    then have tick: "door_tick d = e\<lparr>dm_reverse_wait_cycles := dm_reverse_wait_cycles e - 1\<rparr>"
      using e w by (simp add: door_tick_wait ao)
    show ?thesis
      using 3 t e pend unfolding tick by (auto simp: toward_open_def open_rank_def)
  qed
qed

lemma open_rank_zero:
  assumes "toward_open d" and "open_rank d = 0"
  shows "dm_pending_reverse_button d = None" and "dm_state d = STATE_OPEN"
  using assms by (auto simp: open_rank_def toward_open_def split: if_splits)

interpretation door_open_run: progress_machine "\<lambda>(_ :: unit) d. door_tick d" toward_open open_rank
proof
  fix d :: door_model
  assume toward: "toward_open d"
  have pending: "toward_open (door_tick d) \<and> open_rank (door_tick d) < open_rank d"
    if "dm_pending_reverse_button d \<noteq> None"
    using toward that toward_open_tick_pending [of d] by (simp add: toward_open_def [of d])
  have moving: "toward_open (door_tick d) \<and>
      (if dm_state d = STATE_OPEN then open_rank (door_tick d) = 0 else open_rank (door_tick d) < open_rank d)"
    if "dm_pending_reverse_button d = None"
    using toward that toward_open_tick_moving [of d] by (simp add: toward_open_def [of d])
  show "toward_open (door_tick d)"
    using pending moving by blast
  show "open_rank d \<noteq> 0 \<Longrightarrow> open_rank (door_tick d) < open_rank d"
    using pending moving by (cases "dm_pending_reverse_button d") (auto simp: open_rank_def [of d] split: if_splits)
  show "open_rank d = 0 \<Longrightarrow> open_rank (door_tick d) = 0"
    using pending moving open_rank_zero [OF toward] by simp
qed

lemma toward_open_reaches:
  assumes "toward_open d" and "open_rank d \<le> n"
  shows "dm_state ((door_tick ^^ n) d) = STATE_OPEN"
  using open_rank_zero(2) [OF door_open_run.iterate_inv door_open_run.reaches_zero] assms by blast

subsection \<open>Exact timing of a run to the open end position\<close>

lemma motion_step_upd [simp]:
  "motion_step f (d\<lparr>dm_position := x\<rparr>) = motion_step f d"
  "motion_step f (d\<lparr>dm_state := x\<rparr>) = motion_step f d"
  "motion_step f (d\<lparr>dm_cycle := c\<rparr>) = motion_step f d"
  "motion_step f (d\<lparr>dm_pending_stop_cycles := x\<rparr>) = motion_step f d"
  "motion_step f (d\<lparr>dm_target := x\<rparr>) = motion_step f d"
  "motion_step f (move_to t m s d) = motion_step f d"
  "motion_step f (log_event e d) = motion_step f d"
  "motion_step f (log_command b o1 d) = motion_step f d"
  by (simp_all add: motion_step_def Let_def)

lemma opening_position:
  assumes "door_inv d" and "dm_state d = STATE_OPENING" and "dm_obstruction_cycle d = None"
    and "dm_pending_stop_cycles d = 0"
  shows "let p = min POSITION_OPEN (dm_position d + int n * motion_step False d)
    in dm_position ((door_tick ^^ n) d) = p \<and>
       dm_state ((door_tick ^^ n) d) =
         (if 0 < n \<and> p = POSITION_OPEN then STATE_OPEN else STATE_OPENING) \<and>
       motion_step False ((door_tick ^^ n) d) = motion_step False d \<and>
       dm_obstruction_cycle ((door_tick ^^ n) d) = None \<and>
       dm_pending_stop_cycles ((door_tick ^^ n) d) = 0 \<and>
       door_inv ((door_tick ^^ n) d)"
proof (induction n)
  case 0
  then show ?case
    using assms door_inv_dest(3) [OF assms(1)] by (simp add: Let_def min_def)
next
  case (Suc n)
  let ?d = "(door_tick ^^ n) d"
  define s where "s = motion_step False d"
  have s: "1 \<le> s" by (simp add: s_def motion_step_ge_1)
  define e where "e = ?d\<lparr>dm_cycle := dm_cycle ?d + 1\<rparr>"
  have IH: "dm_position e = min POSITION_OPEN (dm_position d + int n * s)"
      "dm_state e = (if 0 < n \<and> dm_position e = POSITION_OPEN then STATE_OPEN else STATE_OPENING)"
      "motion_step False e = s" "dm_obstruction_cycle e = None" "dm_pending_stop_cycles e = 0" "door_inv e"
    using Suc.IH by (simp_all add: Let_def s_def e_def)
  have inv: "door_inv (door_tick ?d)"
    using IH(6) by (simp add: e_def door_inv_tick)
  have np: "dm_pending_reverse_button e = None"
    using IH(2,6) door_inv_dest(8) [OF IH(6)]
    by (cases "dm_pending_reverse_button e") (auto simp: const_defs split: if_splits)
  have tick: "door_tick ?d = move_one_step False e"
    using IH door_inv_dest(6) [OF IH(6) np] by (simp add: door_tick_move after_obstruction_none e_def)
  show ?case
  proof (cases "0 < n \<and> dm_position e = POSITION_OPEN")
    case True
    then have "move_one_step False e = e" and "POSITION_OPEN \<le> dm_position d + (int n * s + s)"
      using IH s by (auto simp: const_defs)
    then show ?thesis
      using True IH inv by (simp add: Let_def tick s_def [symmetric] distrib_right add.commute)
  next
    case False
    then have "dm_state e = STATE_OPENING" using IH(2) by auto
    note step = opening_step [OF IH(6) this, unfolded IH(3)]
    have q: "min POSITION_OPEN (dm_position e + s) = min POSITION_OPEN (dm_position d + int (Suc n) * s)"
      using s by (simp add: IH(1) min_def distrib_right)
    show ?thesis
      using IH inv unfolding funpow.simps o_apply tick step q
      by (simp add: Let_def s_def [symmetric])
  qed
qed

subsection \<open>Stopping\<close>

lemma next_position_dist:
  assumes "position_ok (dm_position d)" and "position_ok (dm_target d)"
  shows "\<bar>next_position overshoot d - dm_position d\<bar> \<le> motion_step overshoot d"
  using motion_step_ge_1 [of overshoot d] by (auto simp: next_position_def min_def max_def)

lemma overshoot_step:
  assumes "door_inv d"
  shows "\<bar>dm_position (move_one_step True d) - dm_position d\<bar> \<le> motion_step True d"
    and "dm_pending_stop_cycles (move_one_step True d) = dm_pending_stop_cycles d"
    and "dm_obstruction_cycle (move_one_step True d) = dm_obstruction_cycle d"
    and "motion_step True (move_one_step True d) = motion_step True d"
proof -
  have arrive: "dm_position (arrive d) = dm_position d"
      "dm_pending_stop_cycles (arrive d) = dm_pending_stop_cycles d"
      "dm_obstruction_cycle (arrive d) = dm_obstruction_cycle d"
      "motion_step True (arrive d) = motion_step True d"
    by (simp_all add: arrive_def)
  have ok: "position_ok (dm_position d)" "position_ok (dm_target d)"
    using assms by (simp_all add: door_inv_def)
  show "\<bar>dm_position (move_one_step True d) - dm_position d\<bar> \<le> motion_step True d"
    and "dm_pending_stop_cycles (move_one_step True d) = dm_pending_stop_cycles d"
    and "dm_obstruction_cycle (move_one_step True d) = dm_obstruction_cycle d"
    and "motion_step True (move_one_step True d) = motion_step True d"
    using next_position_dist [OF ok, of True] motion_step_ge_1 [of True d] arrive
    by (cases "dm_state d \<in> moving_states"; cases "dm_position d = dm_target d";
        simp add: move_one_step_moving move_one_step_there)+
qed

lemma stop_countdown:
  assumes "door_inv d" and "dm_obstruction_cycle d = None" and "dm_pending_stop_cycles d = int n" and "0 < n"
  shows "dm_state ((door_tick ^^ n) d) = STATE_STOPPED \<and>
    dm_target ((door_tick ^^ n) d) = dm_position ((door_tick ^^ n) d) \<and>
    \<bar>dm_position ((door_tick ^^ n) d) - dm_position d\<bar> \<le> int n * motion_step True d"
  using assms
proof (induction n arbitrary: d)
  case (Suc n)
  define e where "e = d\<lparr>dm_cycle := dm_cycle d + 1, dm_pending_stop_cycles := int n\<rparr>"
  have e: "door_inv e" "dm_obstruction_cycle e = None" "dm_pending_stop_cycles e = int n"
      "dm_position e = dm_position d" "motion_step True e = motion_step True d"
    using Suc.prems by (simp_all add: e_def door_inv_pending_stop)
  have tick: "door_tick d = (if n = 0 then stop_motion ''stop-latency-expired'' (move_one_step True e)
      else move_one_step True e)"
    using Suc.prems overshoot_step(2) [OF e(1)] e(3)
    by (simp add: door_tick_stop after_obstruction_none e_def Let_def)
  note step = overshoot_step [OF e(1)]
  show ?case
  proof (cases "n = 0")
    case True
    then show ?thesis
      using step(1) e by (simp add: tick)
  next
    case False
    let ?f = "move_one_step True e"
    have IH: "dm_state ((door_tick ^^ n) ?f) = STATE_STOPPED \<and>
        dm_target ((door_tick ^^ n) ?f) = dm_position ((door_tick ^^ n) ?f) \<and>
        \<bar>dm_position ((door_tick ^^ n) ?f) - dm_position ?f\<bar> \<le> int n * motion_step True ?f"
      using False step e door_inv_move_one_step [OF e(1)] by (intro Suc.IH) simp_all
    have "(door_tick ^^ Suc n) d = (door_tick ^^ n) ?f"
      using False by (simp add: funpow_Suc_right tick del: funpow.simps)
    moreover from IH step(1,4) e(4,5)
    have "\<bar>dm_position ((door_tick ^^ n) ?f) - dm_position d\<bar> \<le> int n * motion_step True d + motion_step True d"
      by (intro abs_diff_chain [of _ "dm_position ?f"]) simp_all
    ultimately show ?thesis
      using IH by (simp add: distrib_right)
  qed
qed simp

subsection \<open>Properties\<close>

text \<open>whatever commands and ticks a fresh open or closed door receives, its state byte, position
  and target stay consistent, and the broadcast of the door carries exactly the door's
  position, target, state and light word, none of them cut down by the masks.\<close>

theorem door_run_broadcast:
  assumes "door_closed p = Inr d \<or> door_open p = Inr d"
  shows "door_inv (fold door_step inputs d) \<and>
    door_broadcast_state (fold door_step inputs d) =
      \<lparr>b_target = dm_target (fold door_step inputs d), b_current = dm_position (fold door_step inputs d),
       b_state = dm_state (fold door_step inputs d), b_light = dm_light_word (fold door_step inputs d)\<rparr>"
proof -
  let ?e = "fold door_step inputs d"
  have "door_inv d"
    using assms by (auto simp: door_closed_def door_open_def intro: door_inv_new)
  then have inv: "door_inv ?e" by (rule door.run_inv)
  then have "dm_state ?e AND 0xFF = dm_state ?e" and "dm_light_word ?e AND 0xFF = dm_light_word ?e"
    by (auto simp: door_inv_def motion_ok_def const_defs)
  then show "door_inv ?e \<and> door_broadcast_state ?e =
      \<lparr>b_target = dm_target ?e, b_current = dm_position ?e, b_state = dm_state ?e, b_light = dm_light_word ?e\<rparr>"
    using inv by (simp add: door_broadcast_state_def door_inv_def)
qed

theorem door_run_broadcast_witness:
  "\<exists>d. door_closed default_params = Inr d \<and>
     door_inv (fold door_step [Press ''accessory'' ''open'', Tick, Press ''accessory'' ''close'', Tick] d)"
proof -
  obtain d where "door_closed default_params = Inr d"
    by (simp add: door_closed_def new_door_def post_init_def default_params_def REVERSAL_PROFILES_def)
  then show ?thesis using door_run_broadcast by blast
qed


lemma default_door:
  assumes "1 \<le> c"
  obtains d where "door_closed (default_params\<lparr>dp_travel_cycles := c\<rparr>) = Inr d" and "door_inv d"
    and "dm_state d = STATE_CLOSED" and "dm_obstruction_cycle d = None" and "dm_travel_cycles d = c"
    and "dm_pending_stop_cycles d = 0" and "dm_reversal_profile d = REVERSAL_STOP_THEN_REVERSE"
    and "dm_reverse_dwell_cycles d = 4" and "dm_stop_latency_cycles d = 1"
proof -
  obtain d where d: "door_closed (default_params\<lparr>dp_travel_cycles := c\<rparr>) = Inr d" "dm_state d = STATE_CLOSED"
      "dm_obstruction_cycle d = None" "dm_travel_cycles d = c"
      "dm_pending_stop_cycles d = 0" "dm_reversal_profile d = REVERSAL_STOP_THEN_REVERSE"
      "dm_reverse_dwell_cycles d = 4" "dm_stop_latency_cycles d = 1"
    using assms by (simp add: door_closed_def new_door_def post_init_def default_params_def REVERSAL_PROFILES_def)
  moreover have "door_inv d"
    using d(1) by (auto simp: door_closed_def intro: door_inv_new)
  ultimately show ?thesis by (intro that)
qed

lemma motion_step_slow: "134 \<le> dm_travel_cycles d \<Longrightarrow> motion_step False d = 1"
  using py_round_le_1 [of "200 / of_int (dm_travel_cycles d)"]
  by (simp add: motion_step_def Let_def const_defs divide_less_eq max_def)


text \<open>For every \<open>travel_cycles\<close> from 134 on, the default 260 included, a closed idle door needs
  exactly 200 ticks to open: the integer step is 1, and the configured number of cycles has no
  influence on the travel time.\<close>

lemma slow_travel_takes_200_ticks:
  assumes "door_inv d" and "dm_state d = STATE_CLOSED" and "dm_obstruction_cycle d = None"
    and "134 \<le> dm_travel_cycles d"
  shows "dm_state ((door_tick ^^ n) (door_command source ''open'' d)) = STATE_OPEN \<longleftrightarrow> 200 \<le> n"
proof -
  let ?e = "door_command source ''open'' d"
  have pos: "dm_position d = POSITION_CLOSED"
    using assms by (simp add: door_inv_dest motion_ok_dest)
  have e: "?e = move_to POSITION_OPEN STATE_OPENING STATE_OPEN (log_command source ''open'' d)"
    using assms(2) by (simp add: open_command_idle const_defs)
  have st: "dm_state ?e = STATE_OPENING" "dm_position ?e = 0" "dm_obstruction_cycle ?e = None"
      "dm_pending_stop_cycles ?e = 0" "motion_step False ?e = 1"
    using pos assms(3) by (simp_all add: e motion_step_slow [OF assms(4)]) (simp_all add: const_defs)
  have "door_inv ?e" using assms(1) by (rule door_inv_command)
  from opening_position [OF this st(1,3,4), of n] show ?thesis
    by (auto simp: Let_def st const_defs min_def split: if_splits)
qed

text \<open>C32: an \<open>open\<close> command always ends with the door fully open, whatever it was doing before
  (a reversal dwell and a pending stop included), unless the profile ignores reversals or an
  obstruction is scheduled; the bound counts the pending stop, the dwell and the travel.\<close>

theorem open_command_reaches_open:
  assumes "door_inv d" and "dm_obstruction_cycle d = None"
    and "dm_reversal_profile d \<noteq> REVERSAL_IGNORE_UNTIL_STOP"
    and "nat (dm_pending_stop_cycles d) + nat (max 1 (dm_reverse_dwell_cycles d)) + 201 \<le> n"
  shows "dm_state ((door_tick ^^ n) (door_command source ''open'' d)) = STATE_OPEN"
proof (rule toward_open_reaches)
  let ?e = "door_command source ''open'' d"
  have inv: "door_inv ?e" using assms(1) by (rule door_inv_command)
  have cases: "?e = move_to POSITION_OPEN STATE_OPENING STATE_OPEN (log_command source ''open'' d) \<or>
      ?e = (stop_motion ''reverse-dwell'' (log_command source ''open'' d))
        \<lparr>dm_pending_reverse_button := Some ''open'',
         dm_reverse_wait_cycles := max 1 (dm_reverse_dwell_cycles d)\<rparr>"
    using assms(3) by (simp add: door_command_def dispatch_command_def direction_command_def)
  then show "toward_open ?e"
    using inv assms(2) by (elim disjE) (simp_all add: toward_open_def)
  from cases show "open_rank ?e \<le> n"
  proof
    assume e: "?e = move_to POSITION_OPEN STATE_OPENING STATE_OPEN (log_command source ''open'' d)"
    have "open_rank ?e \<le> 201"
      using inv by (rule open_rank_opening) (simp add: e)
    then show ?thesis using assms(4) by simp
  next
    assume "?e = (stop_motion ''reverse-dwell'' (log_command source ''open'' d))
        \<lparr>dm_pending_reverse_button := Some ''open'',
         dm_reverse_wait_cycles := max 1 (dm_reverse_dwell_cycles d)\<rparr>"
    then show ?thesis using assms(4) by (simp add: open_rank_def)
  qed
qed

theorem open_command_reaches_open_witness:
  "\<exists>d. door_closed (default_params\<lparr>dp_travel_cycles := 260\<rparr>) = Inr d \<and>
     dm_state ((door_tick ^^ 205) (door_command ''accessory'' ''open'' d)) = STATE_OPEN"
proof -
  obtain d where d: "door_closed (default_params\<lparr>dp_travel_cycles := 260\<rparr>) = Inr d" "door_inv d"
      "dm_obstruction_cycle d = None" "dm_pending_stop_cycles d = 0" "dm_reverse_dwell_cycles d = 4"
      "dm_reversal_profile d = REVERSAL_STOP_THEN_REVERSE"
    by (rule default_door [of 260]) simp_all
  then show ?thesis
    using open_command_reaches_open [OF d(2,3), of 205 "''accessory''"]
    by (intro exI [of _ d]) (simp add: const_defs)
qed

text \<open>C36: a \<open>stop\<close> pressed while the door waits out a reversal dwell does not cancel the reversal:
  the door still opens fully afterwards.\<close>

theorem stop_in_dwell_still_opens:
  assumes "door_inv d" and "dm_obstruction_cycle d = None" and "dm_pending_reverse_button d = Some ''open''"
    and "nat (dm_stop_latency_cycles d) + nat (dm_reverse_wait_cycles d) + 201 \<le> n"
  shows "dm_state ((door_tick ^^ n) (door_command source ''stop'' d)) = STATE_OPEN"
proof (rule toward_open_reaches)
  let ?e = "door_command source ''stop'' d"
  have inv: "door_inv ?e" using assms(1) by (rule door_inv_command)
  have "dm_pending_reverse_button ?e = Some ''open''" "dm_obstruction_cycle ?e = None"
      "dm_reverse_wait_cycles ?e = dm_reverse_wait_cycles d"
      "dm_pending_stop_cycles ?e = max 0 (dm_stop_latency_cycles d)"
    using assms by (auto simp: door_command_def dispatch_command_def Let_def max_def)
  then show "toward_open ?e" and "open_rank ?e \<le> n"
    using inv assms(4) by (simp_all add: toward_open_def open_rank_def max_def)
qed

lemma dwell_example:
  obtains d where "door_inv d" and "dm_obstruction_cycle d = None"
    and "dm_pending_reverse_button d = Some ''open''" and "dm_stop_latency_cycles d = 1"
    and "dm_reverse_wait_cycles d = 4"
    and "\<exists>c. door_open default_params = Inr c \<and>
      d = door_command ''accessory'' ''open'' (door_command ''accessory'' ''close'' c)"
proof -
  obtain c where c: "door_open default_params = Inr c" "dm_state c = STATE_OPEN" "dm_position c = POSITION_OPEN"
      "dm_obstruction_cycle c = None" "dm_reversal_profile c = REVERSAL_STOP_THEN_REVERSE"
      "dm_reverse_dwell_cycles c = 4" "dm_stop_latency_cycles c = 1"
    by (simp add: door_open_def new_door_def post_init_def default_params_def REVERSAL_PROFILES_def
        clamp_position_def const_defs)
  let ?c = "door_command ''accessory'' ''close'' c"
  have close: "?c = move_to POSITION_CLOSED STATE_CLOSING STATE_CLOSED (log_command ''accessory'' ''close'' c)"
    using c(2) by (simp add: door_command_def dispatch_command_def direction_command_def
        is_opposite_motion_def const_defs)
  have st: "dm_state ?c = STATE_CLOSING" "dm_obstruction_cycle ?c = None" "dm_stop_latency_cycles ?c = 1"
      "dm_reversal_profile ?c = REVERSAL_STOP_THEN_REVERSE" "dm_reverse_dwell_cycles ?c = 4"
    using c by (simp_all add: close) (simp add: const_defs)
  let ?d = "door_command ''accessory'' ''open'' ?c"
  have "?d = (stop_motion ''reverse-dwell'' (log_command ''accessory'' ''open'' ?c))
      \<lparr>dm_pending_reverse_button := Some ''open'', dm_reverse_wait_cycles := 4\<rparr>"
    using st by (simp add: door_command_def [of _ "''open''"] dispatch_command_def direction_command_def
        is_opposite_motion_def) (simp add: const_defs)
  moreover have "door_inv ?d"
    using c(1) by (auto simp: door_open_def intro!: door_inv_command intro: door_inv_new)
  ultimately show ?thesis
    using st c(1) by (intro that [of ?d]) auto
qed

theorem stop_in_dwell_still_opens_witness:
  "\<exists>c. door_open default_params = Inr c \<and>
     dm_state ((door_tick ^^ 206) (door_command ''accessory'' ''stop''
       (door_command ''accessory'' ''open'' (door_command ''accessory'' ''close'' c)))) = STATE_OPEN"
proof -
  obtain d where d: "door_inv d" "dm_obstruction_cycle d = None" "dm_pending_reverse_button d = Some ''open''"
      "dm_stop_latency_cycles d = 1" "dm_reverse_wait_cycles d = 4"
      "\<exists>c. door_open default_params = Inr c \<and>
        d = door_command ''accessory'' ''open'' (door_command ''accessory'' ''close'' c)"
    by (rule dwell_example)
  then show ?thesis
    using stop_in_dwell_still_opens [OF d(1-3), of 206 "''accessory''"] by auto
qed

text \<open>After a \<open>stop\<close> command the door stands still once the configured latency has passed, with
  the target pulled to the position, and it has run on by at most one (overshoot) step per
  latency tick.\<close>

lemma stop_latency_bound:
  assumes "door_inv d" and "dm_obstruction_cycle d = None"
    and "e = (door_tick ^^ nat (dm_stop_latency_cycles d)) (door_command source ''stop'' d)"
  shows "dm_state e = STATE_STOPPED \<and> dm_target e = dm_position e \<and>
    \<bar>dm_position e - dm_position d\<bar> \<le> max 0 (dm_stop_latency_cycles d) * motion_step True d"
proof -
  let ?s = "door_command source ''stop'' d"
  have inv: "door_inv ?s" using assms(1) by (rule door_inv_command)
  show ?thesis
  proof (cases "0 < dm_stop_latency_cycles d")
    case True
    then have "dm_pending_stop_cycles ?s = int (nat (dm_stop_latency_cycles d))"
        "dm_position ?s = dm_position d" "dm_obstruction_cycle ?s = None"
        "motion_step True ?s = motion_step True d"
      using assms(2) by (simp_all add: door_command_def dispatch_command_def Let_def)
    then show ?thesis
      using stop_countdown [OF inv, of "nat (dm_stop_latency_cycles d)"] True by (simp add: assms(3))
  next
    case False
    then show ?thesis
      by (simp add: assms(3) door_command_def dispatch_command_def Let_def max_def)
  qed
qed

end
