(* ===== verification/Simulator.thy ===== *)
theory Simulator
  imports Door_Model "HOL-Library.Char_ord" "HOL-Library.List_Lexorder"
begin

text \<open>
  \<open>tools/supramatic_sim/simulator.py\<close>: the closed-loop virtual SupraMatic 4 master.

  The transport, the command sender and the random generator are not part of the program:
  they are the fields of an environment record, and the theorems hold for every environment.
  Time is explicit: a clock in nanoseconds that every call of the environment advances, by at
  least one tick, so the deadline tests of the code are the tests of the model.  Floating-point
  times are rationals (their rounding is not modelled).  The trace and progress files are left
  out: without a path both are no-ops, and with one they only write.
\<close>

subsection \<open>Constants\<close>

definition STEADY_CYCLE_US :: int where [const_defs]: "STEADY_CYCLE_US = 70000"
definition BROADCAST_TO_POLL_GAP_US :: int where [const_defs]: "BROADCAST_TO_POLL_GAP_US = 25000"
definition POLL_TO_NEXT_BROADCAST_GAP_US :: int where
  [const_defs]: "POLL_TO_NEXT_BROADCAST_GAP_US = 26000"
definition DEFAULT_MISSED_POLL_THRESHOLD :: int where
  [const_defs]: "DEFAULT_MISSED_POLL_THRESHOLD = 5"
definition DEFAULT_SPEED_FACTOR :: rat where [const_defs]: "DEFAULT_SPEED_FACTOR = 20"
definition DEFAULT_RESPONSE_TIMEOUT_S :: rat where
  [const_defs]: "DEFAULT_RESPONSE_TIMEOUT_S = 3 / 100"
definition DEFAULT_DOOR_TRAVEL_CYCLES :: int where [const_defs]: "DEFAULT_DOOR_TRAVEL_CYCLES = 260"
definition DEFAULT_COUNTER_PROFILE :: string where
  [const_defs]: "DEFAULT_COUNTER_PROFILE = ''official-7bit''"
definition COUNTER_PROFILES :: "string set" where
  "COUNTER_PROFILES = {''official-7bit'', ''zero-based-8bit''}"

definition SCENARIOS :: "string set" where
  "SCENARIOS =
     {''steady'', ''open-from-closed'', ''close-from-open'', ''stop-mid-opening'',
      ''reverse-open-to-close'', ''reverse-close-to-open'', ''half-position'', ''vent-position'',
      ''light-toggle'', ''closing-obstruction'', ''goto-position''}"

definition COMMAND_TO_SCENARIO :: "string \<Rightarrow> string option" where
  "COMMAND_TO_SCENARIO =
     map_of [(''open'', ''open-from-closed''), (''close'', ''close-from-open'')]"

subsection \<open>The report\<close>

text \<open>The notes are kept as the values the f-strings interpolate.\<close>

datatype report_note =
    N_Ignored string bytes
  | N_Unexpected string bytes
  | N_Scan_Failed "bytes option"
  | N_Press_Failed string string string
  | N_Press_Rejected string string
  | N_Aborted int
  | N_Light_Failed "bytes option"
  | N_Missing_Buttons "string list"
  | N_Door string door_dict
  | N_Goto int int door_dict
  | N_No_Obstruction
  | N_Scenario string
  | N_Serial_Low_Latency
  | N_Serial string
  | N_Not_Electrical
  | N_Emulated

record report =
  r_polls_sent :: int
  r_replies :: int
  r_misses :: int
  r_consecutive_misses :: int
  r_max_consecutive_misses :: int
  r_scan_ok :: bool
  r_command_replies :: int
  r_fault_checks :: int
  r_fault_recoveries :: int
  r_fault_unexpected_responses :: int
  r_ignored_responses :: int
  r_button_observations :: "string \<rightharpoonup> int"
  r_button_phase_observations :: "string \<rightharpoonup> int"
  r_emulated_button_observations :: "string \<rightharpoonup> int"
  r_emulated_button_phase_observations :: "string \<rightharpoonup> int"
  r_verdict :: string
  r_latencies_ms :: "rat list"
  r_latency_sum_ms :: rat
  r_latency_min_seen_ms :: "rat option"
  r_latency_max_seen_ms :: "rat option"
  r_elapsed_s :: "rat option"
  r_notes :: "report_note list"
  r_scenario :: string
  r_door :: "door_dict option"

definition SimulationReport :: report where
  "SimulationReport =
     \<lparr>r_polls_sent = 0, r_replies = 0, r_misses = 0, r_consecutive_misses = 0,
      r_max_consecutive_misses = 0, r_scan_ok = False, r_command_replies = 0, r_fault_checks = 0,
      r_fault_recoveries = 0, r_fault_unexpected_responses = 0, r_ignored_responses = 0,
      r_button_observations = Map.empty, r_button_phase_observations = Map.empty,
      r_emulated_button_observations = Map.empty,
      r_emulated_button_phase_observations = Map.empty, r_verdict = ''ok'',
      r_latencies_ms = [], r_latency_sum_ms = 0, r_latency_min_seen_ms = None,
      r_latency_max_seen_ms = None, r_elapsed_s = None, r_notes = [], r_scenario = ''steady'',
      r_door = None\<rparr>"

definition record_latency :: "rat \<Rightarrow> report \<Rightarrow> report" where
  "record_latency latency_ms r =
     (let r = r\<lparr>r_latencies_ms := r_latencies_ms r @ [latency_ms],
              r_latency_sum_ms := r_latency_sum_ms r + latency_ms\<rparr>;
          r = (case r_latency_min_seen_ms r of
                 None \<Rightarrow> r\<lparr>r_latency_min_seen_ms := Some latency_ms\<rparr>
               | Some m \<Rightarrow> if latency_ms < m then r\<lparr>r_latency_min_seen_ms := Some latency_ms\<rparr> else r)
      in case r_latency_max_seen_ms r of
           None \<Rightarrow> r\<lparr>r_latency_max_seen_ms := Some latency_ms\<rparr>
         | Some m \<Rightarrow> if m < latency_ms then r\<lparr>r_latency_max_seen_ms := Some latency_ms\<rparr> else r)"

text \<open>\<open>percentile\<close> of sorted values, with linear interpolation between the neighbours of the rank.\<close>

definition percentile :: "rat list \<Rightarrow> int \<Rightarrow> rat option" where
  "percentile sorted_values pct =
     (if sorted_values = [] then None
      else if length sorted_values = 1 then Some (sorted_values ! 0)
      else
        let rank = (of_int pct / 100) * of_nat (length sorted_values - 1);
            low = \<lfloor>rank\<rfloor>; high = \<lceil>rank\<rceil>
        in if low = high then Some (sorted_values ! nat low)
           else let weight = rank - of_int low
                in Some (sorted_values ! nat low * (1 - weight) + sorted_values ! nat high * weight))"

text \<open>The JSON objects of \<open>progress_dict\<close> and \<open>as_dict\<close>, in the order of their keys.\<close>

datatype json =
    J_Int int
  | J_Float "rat option"
  | J_Bool bool
  | J_Str string
  | J_Counts "string \<rightharpoonup> int"
  | J_Notes "report_note list"
  | J_Door "door_dict option"

definition report_counters :: "report \<Rightarrow> (string \<times> json) list" where
  "report_counters r =
     [(''polls_sent'', J_Int (r_polls_sent r)),
      (''replies'', J_Int (r_replies r)),
      (''misses'', J_Int (r_misses r)),
      (''consecutive_misses'', J_Int (r_consecutive_misses r)),
      (''max_consecutive_misses'', J_Int (r_max_consecutive_misses r)),
      (''scan_ok'', J_Bool (r_scan_ok r)),
      (''command_replies'', J_Int (r_command_replies r)),
      (''fault_checks'', J_Int (r_fault_checks r)),
      (''fault_recoveries'', J_Int (r_fault_recoveries r)),
      (''fault_unexpected_responses'', J_Int (r_fault_unexpected_responses r)),
      (''ignored_responses'', J_Int (r_ignored_responses r)),
      (''button_observations'', J_Counts (r_button_observations r)),
      (''button_phase_observations'', J_Counts (r_button_phase_observations r)),
      (''emulated_button_observations'', J_Counts (r_emulated_button_observations r)),
      (''emulated_button_phase_observations'', J_Counts (r_emulated_button_phase_observations r))]"

definition progress_dict :: "report \<Rightarrow> (string \<times> json) list" where
  "progress_dict r =
     (let samples = length (r_latencies_ms r);
          mean_ms = (if samples \<noteq> 0 then Some (r_latency_sum_ms r / of_nat samples) else None)
      in report_counters r @
         [(''host_rtt_samples'', J_Int (int samples)),
          (''host_rtt_min_ms'', J_Float (r_latency_min_seen_ms r)),
          (''host_rtt_mean_ms'', J_Float mean_ms),
          (''host_rtt_max_ms'', J_Float (r_latency_max_seen_ms r)),
          (''latency_samples'', J_Int (int samples)),
          (''latency_min_ms'', J_Float (r_latency_min_seen_ms r)),
          (''latency_mean_ms'', J_Float mean_ms),
          (''latency_max_ms'', J_Float (r_latency_max_seen_ms r)),
          (''elapsed_s'', J_Float (r_elapsed_s r)),
          (''verdict'', J_Str (r_verdict r)),
          (''notes'', J_Notes (r_notes r))])"

definition report_as_dict :: "report \<Rightarrow> (string \<times> json) list" where
  "report_as_dict r =
     (let latencies = sort (r_latencies_ms r);
          mean_ms = (if latencies \<noteq> [] then Some (r_latency_sum_ms r / of_nat (length latencies)) else None);
          p99_ms = (if latencies \<noteq> [] then percentile latencies 99 else None)
      in report_counters r @
         [(''host_rtt_min_ms'', J_Float (r_latency_min_seen_ms r)),
          (''host_rtt_mean_ms'', J_Float mean_ms),
          (''host_rtt_p99_ms'', J_Float p99_ms),
          (''host_rtt_max_ms'', J_Float (r_latency_max_seen_ms r)),
          (''latency_min_ms'', J_Float (r_latency_min_seen_ms r)),
          (''latency_mean_ms'', J_Float mean_ms),
          (''latency_p99_ms'', J_Float p99_ms),
          (''latency_max_ms'', J_Float (r_latency_max_seen_ms r)),
          (''elapsed_s'', J_Float (r_elapsed_s r)),
          (''verdict'', J_Str (r_verdict r)),
          (''notes'', J_Notes (r_notes r)),
          (''scenario'', J_Str (r_scenario r)),
          (''door'', J_Door (r_door r))])"

definition cycles_for_duration_hours :: "rat \<Rightarrow> rat \<Rightarrow> int result" where
  "cycles_for_duration_hours duration_hours speed_factor =
     (if duration_hours \<le> 0 then Inl (ValueError ''duration must be positive'')
      else if speed_factor \<le> 0 then Inl (ValueError ''speed factor must be positive'')
      else let cycle_s = of_int STEADY_CYCLE_US / 1000000
           in Inr (max 1 \<lceil>(duration_hours * 3600 / cycle_s) * speed_factor\<rceil>))"

definition status_counter_for_cycle :: "int \<Rightarrow> string \<Rightarrow> int result" where
  "status_counter_for_cycle cycle profile =
     (if cycle < 0 then Inl (ValueError ''cycle must not be negative'')
      else if profile = ''official-7bit'' then Inr (cycle mod 127 + 1)
      else if profile = ''zero-based-8bit'' then Inr (cycle AND 0xFF)
      else Inl (ValueError (''unknown counter profile: '' @ profile)))"

subsection \<open>Environment and state\<close>

text \<open>
  The environment: \<open>Transport\<close> (\<open>write\<close>, \<open>read_available\<close>, \<open>command\<close> and the optional
  \<open>advance_time_us\<close>), the optional \<open>command_sender\<close>, the oversleep of \<open>time.sleep\<close>, and the draws
  of \<open>random.Random\<close>.  A call returns its result, the nanoseconds it took and the next
  transport state; a raising command sender returns the exception's type and message.
\<close>

record 't env =
  e_write :: "bytes \<Rightarrow> 't \<Rightarrow> nat \<times> 't"
  e_read_available :: "rat \<Rightarrow> 't \<Rightarrow> bytes \<times> nat \<times> 't"
  e_command :: "string \<Rightarrow> 't \<Rightarrow> ((string \<times> string) + string) \<times> nat \<times> 't"
  e_command_sender :: "(string \<Rightarrow> 't \<Rightarrow> ((string \<times> string) + string) \<times> nat \<times> 't) option"
  e_advance_time_us :: "(int \<Rightarrow> 't \<Rightarrow> 't) option"
  e_oversleep :: "nat \<Rightarrow> nat"
  e_uniform :: "nat \<Rightarrow> rat"
  e_randrange :: "nat \<Rightarrow> nat \<Rightarrow> nat"
  e_class_name :: string
  e_low_latency_enabled :: bool
  e_low_latency_error :: "string option"

type_synonym actions = "(int \<times> (string \<times> string) list) list"

record 't sim =
  s_transport :: 't
  s_clock :: nat
  s_draws :: nat
  s_slave_id :: byte
  s_counter_profile :: string
  s_speed_factor :: rat
  s_missed_poll_threshold :: int
  s_response_timeout_s :: rat
  s_abort_on_first_miss :: bool
  s_expected_buttons :: "string set"
  s_rx_buffer :: bytes
  s_report :: report
  s_scenario :: string
  s_door :: door_model
  s_fault_every_cycles :: int
  s_fault_cycles :: "int set"
  s_goto_position :: int
  s_strict_scenario_verdict :: bool
  s_emulate_commands :: bool
  s_scenario_actions :: actions
  s_seen_button_presses :: "string set"
  s_active_button_presses :: "string set"
  s_trace_start :: nat

definition seconds :: "nat \<Rightarrow> rat" where
  "seconds t = of_nat t / 1000000000"

text \<open>\<open>time.monotonic()\<close> and the passing of time.\<close>

definition monotonic :: "'t sim \<Rightarrow> rat" where
  "monotonic s = seconds (s_clock s)"

definition elapse :: "nat \<Rightarrow> 't sim \<Rightarrow> 't sim" where
  "elapse ns s = s\<lparr>s_clock := s_clock s + max 1 ns\<rparr>"

definition upd_report :: "(report \<Rightarrow> report) \<Rightarrow> 't sim \<Rightarrow> 't sim" where
  "upd_report f s = s\<lparr>s_report := f (s_report s)\<rparr>"

definition add_note :: "report_note \<Rightarrow> report \<Rightarrow> report" where
  "add_note n r = r\<lparr>r_notes := r_notes r @ [n]\<rparr>"

definition verdict_ok :: "'t sim \<Rightarrow> bool" where
  "verdict_ok s \<longleftrightarrow> r_verdict (s_report s) = ''ok''"

subsection \<open>Construction\<close>

text \<open>\<open>build_scenario_actions\<close> may replace the door by a fresh one with the same parameters.\<close>

definition build_scenario_actions :: "string \<Rightarrow> door_model \<Rightarrow> (door_model \<times> actions) result" where
  "build_scenario_actions scenario door =
     (if scenario \<notin> SCENARIOS then Inl (ValueError (''unknown scenario: '' @ scenario))
      else if scenario = ''steady'' then Inr (door, [])
      else if scenario = ''open-from-closed'' then Inr (door, [(2, [(''button'', ''open'')])])
      else if scenario = ''close-from-open'' then
        (case door_open (dd_parameters (door_as_dict door)) of
           Inl e \<Rightarrow> Inl e
         | Inr d \<Rightarrow> Inr (d, [(2, [(''button'', ''close'')])]))
      else if scenario = ''stop-mid-opening'' then
        Inr (door, [(2, [(''button'', ''open'')]), (12, [(''button'', ''stop'')])])
      else if scenario = ''reverse-open-to-close'' then
        Inr (door, [(2, [(''button'', ''open'')]), (12, [(''button'', ''close'')])])
      else if scenario = ''reverse-close-to-open'' then
        (case door_open (dd_parameters (door_as_dict door)) of
           Inl e \<Rightarrow> Inl e
         | Inr d \<Rightarrow> Inr (d, [(2, [(''button'', ''close'')]), (12, [(''button'', ''open'')])]))
      else if scenario = ''half-position'' then Inr (door, [(2, [(''button'', ''half'')])])
      else if scenario = ''vent-position'' then Inr (door, [(2, [(''button'', ''vent'')])])
      else if scenario = ''light-toggle'' then Inr (door, [(2, [(''button'', ''light'')])])
      else if scenario = ''closing-obstruction'' then
        (case door_open (dd_parameters (door_as_dict door)) of
           Inl e \<Rightarrow> Inl e
         | Inr d \<Rightarrow>
             let d = (if dm_obstruction_cycle d = None then d\<lparr>dm_obstruction_cycle := Some 16\<rparr> else d)
             in Inr (d, [(2, [(''button'', ''close'')])]))
      else if scenario = ''goto-position'' then
        (case door_closed (dd_parameters (door_as_dict door)) of
           Inl e \<Rightarrow> Inl e
         | Inr d \<Rightarrow> Inr (d, [(2, [(''button'', ''open'')])]))
      else Inr (door, []))"

record sim_options =
  o_slave_id :: byte
  o_speed_factor :: rat
  o_missed_poll_threshold :: int
  o_response_timeout_s :: rat
  o_expected_buttons :: "string set"
  o_abort_on_first_miss :: bool
  o_scenario :: string
  o_door_model :: "door_model option"
  o_fault_every_cycles :: int
  o_fault_cycles :: "int set"
  o_goto_position :: int
  o_strict_scenario_verdict :: bool
  o_emulate_commands :: bool
  o_counter_profile :: string

definition default_options :: sim_options where
  "default_options =
     \<lparr>o_slave_id = SLAVE_ID, o_speed_factor = DEFAULT_SPEED_FACTOR,
      o_missed_poll_threshold = DEFAULT_MISSED_POLL_THRESHOLD,
      o_response_timeout_s = DEFAULT_RESPONSE_TIMEOUT_S, o_expected_buttons = {},
      o_abort_on_first_miss = False, o_scenario = ''steady'', o_door_model = None,
      o_fault_every_cycles = 0, o_fault_cycles = {}, o_goto_position = 80,
      o_strict_scenario_verdict = True, o_emulate_commands = False,
      o_counter_profile = DEFAULT_COUNTER_PROFILE\<rparr>"

definition SupraMaticSimulator :: "'t \<Rightarrow> nat \<Rightarrow> sim_options \<Rightarrow> 't sim result" where
  "SupraMaticSimulator transport now o1 =
     (if o_counter_profile o1 \<notin> COUNTER_PROFILES
      then Inl (ValueError (''unknown counter profile: '' @ o_counter_profile o1))
      else case (case o_door_model o1 of
                   Some d \<Rightarrow> Inr d
                 | None \<Rightarrow> door_closed default_params) of
        Inl e \<Rightarrow> Inl e
      | Inr door \<Rightarrow>
        (case build_scenario_actions (o_scenario o1) door of
           Inl e \<Rightarrow> Inl e
         | Inr (door, acts) \<Rightarrow>
             Inr \<lparr>s_transport = transport, s_clock = now, s_draws = 0, s_slave_id = o_slave_id o1,
               s_counter_profile = o_counter_profile o1, s_speed_factor = o_speed_factor o1,
               s_missed_poll_threshold = o_missed_poll_threshold o1,
               s_response_timeout_s = o_response_timeout_s o1,
               s_abort_on_first_miss = o_abort_on_first_miss o1,
               s_expected_buttons = o_expected_buttons o1, s_rx_buffer = [],
               s_report = SimulationReport\<lparr>r_scenario := o_scenario o1\<rparr>,
               s_scenario = o_scenario o1, s_door = door,
               s_fault_every_cycles = o_fault_every_cycles o1, s_fault_cycles = o_fault_cycles o1,
               s_goto_position = max 0 (min POSITION_OPEN (o_goto_position o1)),
               s_strict_scenario_verdict = o_strict_scenario_verdict o1,
               s_emulate_commands = o_emulate_commands o1, s_scenario_actions = acts,
               s_seen_button_presses = {}, s_active_button_presses = {}, s_trace_start = now\<rparr>))"

subsection \<open>Sleeping and writing\<close>

definition scaled_sleep :: "'t env \<Rightarrow> int \<Rightarrow> bool \<Rightarrow> 't sim \<Rightarrow> 't sim" where
  "scaled_sleep env gap_us jitter s =
     (let factor = (if jitter then e_uniform env (s_draws s) else 1);
          s = (if jitter then s\<lparr>s_draws := s_draws s + 1\<rparr> else s);
          advanced_gap_us = max 0 (py_round (of_int gap_us * factor));
          s = (case e_advance_time_us env of
                 Some advance \<Rightarrow> s\<lparr>s_transport := advance advanced_gap_us (s_transport s)\<rparr>
               | None \<Rightarrow> s);
          delay_s = (of_int gap_us / 1000000) * factor / max (s_speed_factor s) 1
      in if 1 / 10000 \<le> delay_s
         then elapse (nat \<lceil>delay_s * 1000000000\<rceil> + e_oversleep env (s_clock s)) s
         else s)"

definition transport_write :: "'t env \<Rightarrow> bytes \<Rightarrow> 't sim \<Rightarrow> 't sim" where
  "transport_write env data s =
     (case e_write env data (s_transport s) of (ns, t) \<Rightarrow> elapse ns (s\<lparr>s_transport := t\<rparr>))"

definition write_frame :: "'t env \<Rightarrow> bytes \<Rightarrow> bool \<Rightarrow> 't sim \<Rightarrow> 't sim" where
  "write_frame env frame split s =
     (if split \<and> 3 < length frame then
        (let cut = 1 + e_randrange env (s_draws s) (length frame - 1);
             s = s\<lparr>s_draws := s_draws s + 1\<rparr>;
             s = transport_write env (take cut frame) s;
             s = scaled_sleep env 1500 False s
         in transport_write env (drop cut frame) s)
      else transport_write env frame s)"

subsection \<open>Reading a reply\<close>

text \<open>
  The inner loop of \<open>read_response\<close>: it takes frames off the receive buffer until one matches,
  drops a byte to resynchronise, and stops when the buffer holds no complete frame.
\<close>

definition ignore_response :: "string \<Rightarrow> bytes \<Rightarrow> report \<Rightarrow> report" where
  "ignore_response ctx frame r =
     (let r = r\<lparr>r_ignored_responses := r_ignored_responses r + 1\<rparr>
      in if r_ignored_responses r \<le> 8 then add_note (N_Ignored ctx frame) r else r)"

definition accepts :: "(bytes \<Rightarrow> bool) option \<Rightarrow> bytes \<Rightarrow> bool" where
  "accepts match frame \<longleftrightarrow> (case match of None \<Rightarrow> True | Some m \<Rightarrow> m frame)"

function drain_rx ::
  "(bytes \<Rightarrow> bool) option \<Rightarrow> string \<Rightarrow> bytes \<times> report \<Rightarrow> bytes option \<times> bytes \<times> report"
where
  "drain_rx match ctx (buffer, r) =
     (if buffer = [] then (None, buffer, r)
      else case response_expected_len buffer of
        None \<Rightarrow> (None, buffer, r)
      | Some expected \<Rightarrow>
          if expected < 0 then drain_rx match ctx (tl buffer, r)
          else if int (length buffer) < expected then (None, buffer, r)
          else
            let frame = take (nat expected) buffer
            in if crc_ok frame then
                 (let buffer = drop (nat expected) buffer
                  in if accepts match frame then (Some frame, buffer, r)
                     else drain_rx match ctx (buffer, ignore_response ctx frame r))
               else drain_rx match ctx (tl buffer, r))"
  by pat_completeness auto
termination
proof (relation "measure (\<lambda>(_, _, buffer, _). length buffer)")
  fix match ctx buffer r expected frame rest
  assume "\<not> (buffer :: bytes) = []" and len: "response_expected_len buffer = Some expected"
    and "\<not> expected < 0" and frame: "frame = take (nat expected) buffer" and "crc_ok frame"
    and rest: "rest = drop (nat expected) buffer"
  then have "5 \<le> expected"
    using response_expected_len_cases(2) [OF len] by auto
  then show "((match, ctx, rest, ignore_response ctx frame r), match, ctx, buffer, r)
      \<in> measure (\<lambda>(_, _, buffer, _). length buffer)"
    using \<open>\<not> buffer = []\<close> by (simp add: rest)
qed auto

declare drain_rx.simps [simp del]

text \<open>\<open>read_response\<close>: read until the deadline, draining the buffer after every chunk.\<close>

definition drain_sim :: "(bytes \<Rightarrow> bool) option \<Rightarrow> string \<Rightarrow> 't sim \<Rightarrow> bytes option \<times> 't sim" where
  "drain_sim match ctx s =
     (case drain_rx match ctx (s_rx_buffer s, s_report s) of
        (frame, buffer, r) \<Rightarrow> (frame, s\<lparr>s_rx_buffer := buffer, s_report := r\<rparr>))"

definition read_chunk :: "'t env \<Rightarrow> rat \<Rightarrow> 't sim \<Rightarrow> 't sim" where
  "read_chunk env timeout s =
     (case e_read_available env timeout (s_transport s) of
        (chunk, ns, t) \<Rightarrow>
          elapse ns (s\<lparr>s_transport := t, s_rx_buffer := s_rx_buffer s @ chunk\<rparr>))"

lemma s_clock_elapse [simp]: "s_clock (elapse ns s) = s_clock s + max 1 ns"
  by (simp add: elapse_def)

lemma s_clock_read_chunk: "s_clock s < s_clock (read_chunk env timeout s)"
  by (simp add: read_chunk_def less_max_iff_disj split: prod.split)

lemma s_clock_drain_sim: "s_clock (snd (drain_sim match ctx s)) = s_clock s"
  by (simp add: drain_sim_def split: prod.split)

lemma seconds_less_iff: "seconds t < deadline \<longleftrightarrow> t < nat \<lceil>deadline * 1000000000\<rceil>"
  by (simp add: seconds_def divide_less_eq less_ceiling_iff zless_nat_eq_int_zless)

definition read_attempt ::
  "'t env \<Rightarrow> rat \<Rightarrow> (bytes \<Rightarrow> bool) option \<Rightarrow> string \<Rightarrow> 't sim \<Rightarrow> bytes option \<times> 't sim"
where
  "read_attempt env deadline match ctx s =
     drain_sim match ctx (read_chunk env (max (deadline - monotonic s) 0) s)"

lemma s_clock_read_attempt: "s_clock s < s_clock (snd (read_attempt env deadline match ctx s))"
  by (simp add: read_attempt_def s_clock_drain_sim s_clock_read_chunk)

function read_until ::
  "'t env \<Rightarrow> rat \<Rightarrow> (bytes \<Rightarrow> bool) option \<Rightarrow> string \<Rightarrow> 't sim \<Rightarrow> bytes option \<times> 't sim"
where
  "read_until env deadline match ctx s =
     (if monotonic s < deadline then
        (case read_attempt env deadline match ctx s of
           (Some frame, s) \<Rightarrow> (Some frame, s)
         | (None, s) \<Rightarrow> read_until env deadline match ctx s)
      else (None, s))"
  by pat_completeness auto
termination
proof (relation "measure (\<lambda>(_, deadline, _, _, s). nat \<lceil>deadline * 1000000000\<rceil> - s_clock s)")
  fix env :: "'t env" and deadline match ctx s frame s'
  assume less: "monotonic s < deadline" and d: "(frame, s') = read_attempt env deadline match ctx s"
  have "s_clock s < s_clock s'"
    using s_clock_read_attempt [of s env deadline match ctx] by (simp add: d [symmetric])
  then show "((env, deadline, match, ctx, s'), env, deadline, match, ctx, s)
      \<in> measure (\<lambda>(_, deadline, _, _, s). nat \<lceil>deadline * 1000000000\<rceil> - s_clock s)"
    using less by (simp add: monotonic_def seconds_less_iff)
qed simp

declare read_until.simps [simp del]

definition read_response ::
  "'t env \<Rightarrow> rat option \<Rightarrow> (bytes \<Rightarrow> bool) option \<Rightarrow> string \<Rightarrow> 't sim \<Rightarrow> bytes option \<times> 't sim"
where
  "read_response env timeout_s match ctx s =
     (let deadline = monotonic s +
            (case timeout_s of None \<Rightarrow> s_response_timeout_s s | Some timeout \<Rightarrow> timeout)
      in read_until env deadline match ctx s)"

subsection \<open>The bus scan and the status poll\<close>

definition bump :: "string \<Rightarrow> (string \<rightharpoonup> int) \<Rightarrow> (string \<rightharpoonup> int)" where
  "bump key m = m(key \<mapsto> (case m key of None \<Rightarrow> 0 | Some n \<Rightarrow> n) + 1)"

definition elapsed_ms :: "rat \<Rightarrow> 't sim \<Rightarrow> rat" where
  "elapsed_ms start s = (monotonic s - start) * 1000"

definition run_bus_scan :: "'t env \<Rightarrow> 't sim \<Rightarrow> 't sim result" where
  "run_bus_scan env s =
     (let start = monotonic s
      in case scan_response (s_slave_id s) DEFAULT_SCAN_SIGNATURE of
        Inl e \<Rightarrow> Inl e
      | Inr expected \<Rightarrow>
        (let s = write_frame env (bus_scan_request (s_slave_id s) 0x01 None) False s
         in case read_response env None (Some (\<lambda>response. response = expected)) ''bus scan'' s of
           (frame, s) \<Rightarrow>
             if frame = Some expected then
               Inr (upd_report (\<lambda>r. record_latency (elapsed_ms start s) (r\<lparr>r_scan_ok := True\<rparr>)) s)
             else Inr (upd_report (add_note (N_Scan_Failed frame)) s)))"

text \<open>What a status reply's button bytes do: counts, and one press per press/release pair.\<close>

definition apply_status_button :: "bytes \<Rightarrow> 't sim \<Rightarrow> 't sim" where
  "apply_status_button response s =
     (case decode_status_button_phase response of
        None \<Rightarrow> s\<lparr>s_active_button_presses := {}\<rparr>
      | Some (button, phase) \<Rightarrow>
          let s = upd_report (\<lambda>r. r\<lparr>r_button_observations := bump button (r_button_observations r)\<rparr>) s;
              s = upd_report (\<lambda>r. r\<lparr>r_button_phase_observations :=
                    bump (button @ '':'' @ phase) (r_button_phase_observations r)\<rparr>) s
          in if phase = ''press'' then
               (if button \<notin> s_active_button_presses s then
                  s\<lparr>s_active_button_presses := insert button (s_active_button_presses s),
                    s_seen_button_presses := insert button (s_seen_button_presses s),
                    s_door := door_command ''accessory'' button (s_door s)\<rparr>
                else s)
             else if phase = ''release'' then
               s\<lparr>s_active_button_presses := s_active_button_presses s - {button}\<rparr>
             else s)"

definition record_reply :: "rat \<Rightarrow> report \<Rightarrow> report" where
  "record_reply latency_ms r =
     (let r = record_latency latency_ms r
      in r\<lparr>r_replies := r_replies r + 1, r_consecutive_misses := 0\<rparr>)"

definition record_miss :: "report \<Rightarrow> report" where
  "record_miss r =
     (let r = r\<lparr>r_misses := r_misses r + 1, r_consecutive_misses := r_consecutive_misses r + 1\<rparr>
      in r\<lparr>r_max_consecutive_misses := max (r_max_consecutive_misses r) (r_consecutive_misses r)\<rparr>)"

definition status_match :: "int \<Rightarrow> bytes \<Rightarrow> bool" where
  "status_match counter reply \<longleftrightarrow>
     decode_response_kind reply = ''status'' \<and> response_counter reply = Some counter"

definition send_status_poll :: "'t env \<Rightarrow> int \<Rightarrow> bool \<Rightarrow> 't sim \<Rightarrow> 't sim" where
  "send_status_poll env counter split s =
     (let frame = status_poll counter (s_slave_id s);
          s = upd_report (\<lambda>r. r\<lparr>r_polls_sent := r_polls_sent r + 1\<rparr>) s;
          start = monotonic s;
          s = write_frame env frame split s
      in case read_response env None (Some (status_match counter))
                (''status poll '' @ format_hex 2 counter) s of
        (Some response, s) \<Rightarrow>
          let s = apply_status_button response s
          in upd_report (record_reply (elapsed_ms start s)) s
      | (None, s) \<Rightarrow>
          let s = upd_report record_miss s
          in if s_abort_on_first_miss s \<and> verdict_ok s
             then upd_report (\<lambda>r. add_note (N_Aborted (r_polls_sent r)) (r\<lparr>r_verdict := ''missed-poll''\<rparr>)) s
             else s)"

definition run_light_command :: "'t env \<Rightarrow> int \<Rightarrow> bool \<Rightarrow> 't sim \<Rightarrow> 't sim" where
  "run_light_command env counter enabled s =
     (let s = write_frame env (light_command counter enabled (s_slave_id s)) False s;
          expected = command_response (s_slave_id s) counter 0x04
      in case read_response env None (Some (\<lambda>reply. reply = expected))
                (''light command '' @ format_hex 2 counter) s of
        (response, s) \<Rightarrow>
          if response = Some expected
          then upd_report (\<lambda>r. r\<lparr>r_command_replies := r_command_replies r + 1\<rparr>) s
          else upd_report (add_note (N_Light_Failed response)) s)"

subsection \<open>Fault injection\<close>

definition expect_no_response :: "'t env \<Rightarrow> bytes \<Rightarrow> string \<Rightarrow> 't sim \<Rightarrow> 't sim" where
  "expect_no_response env frame name s =
     (let s = upd_report (\<lambda>r. r\<lparr>r_fault_checks := r_fault_checks r + 1\<rparr>) s;
          s = write_frame env frame False s
      in case read_response env (Some (9 / 1000)) None ''response'' s of
        (None, s) \<Rightarrow> upd_report (\<lambda>r. r\<lparr>r_fault_recoveries := r_fault_recoveries r + 1\<rparr>) s
      | (Some response, s) \<Rightarrow>
          upd_report (\<lambda>r. add_note (N_Unexpected name response)
            (r\<lparr>r_fault_unexpected_responses := r_fault_unexpected_responses r + 1\<rparr>)) s)"

definition corrupt_crc_frame :: "bytes \<Rightarrow> bytes" where
  "corrupt_crc_frame valid = valid[length valid - 1 := valid ! (length valid - 1) XOR 0x55]"

definition wrong_slave_frame :: "int \<Rightarrow> byte \<Rightarrow> bytes" where
  "wrong_slave_frame counter slave_id = status_poll counter (byte_of (uint slave_id mod 247 + 1))"

definition wrong_register_frame :: "bytes \<Rightarrow> bytes" where
  "wrong_register_frame valid =
     (let payload = take (length valid - 2) valid in append_crc (payload[3 := payload ! 3 XOR 0x01]))"

definition bad_byte_count_frame :: "bytes \<Rightarrow> bytes" where
  "bad_byte_count_frame valid = append_crc ((take (length valid - 2) valid)[10 := 0x06])"

definition inject_fault :: "'t env \<Rightarrow> string set \<Rightarrow> string \<Rightarrow> bytes \<Rightarrow> 't sim \<Rightarrow> 't sim" where
  "inject_fault env faults name frame s =
     (if name \<in> faults then expect_no_response env frame name s else s)"

definition inject_bad_frames :: "'t env \<Rightarrow> string set \<Rightarrow> int \<Rightarrow> 't sim \<Rightarrow> 't sim" where
  "inject_bad_frames env faults counter s =
     (let slave_id = s_slave_id s;
          valid = status_poll counter slave_id;
          s = (if ''garbage'' \<in> faults then transport_write env [0x55, 0x00, 0xFF, 0x10] s else s);
          s = inject_fault env faults ''corrupt-crc'' (corrupt_crc_frame valid) s;
          s = inject_fault env faults ''wrong-slave'' (wrong_slave_frame counter slave_id) s;
          s = inject_fault env faults ''wrong-register'' (wrong_register_frame valid) s;
          s = inject_fault env faults ''bad-byte-count'' (bad_byte_count_frame valid) s
      in inject_fault env faults ''truncated'' (take 8 valid) s)"

definition inject_faults :: "'t env \<Rightarrow> string set \<Rightarrow> int \<Rightarrow> 't sim \<Rightarrow> 't sim" where
  "inject_faults env faults counter s =
     (let s = inject_bad_frames env faults counter s
      in if ''duplicate'' \<in> faults then send_status_poll env counter False s else s)"

definition should_inject_faults :: "int \<Rightarrow> 't sim \<Rightarrow> bool" where
  "should_inject_faults cycle s \<longleftrightarrow>
     cycle = 1 \<or> cycle \<in> s_fault_cycles s \<or>
     (0 < s_fault_every_cycles s \<and> 0 < cycle \<and> cycle mod s_fault_every_cycles s = 0)"

subsection \<open>Commands\<close>

definition apply_emulated_button :: "string \<Rightarrow> 't sim \<Rightarrow> 't sim" where
  "apply_emulated_button button s =
     (let s = upd_report (\<lambda>r. r\<lparr>r_emulated_button_observations :=
                bump button (r_emulated_button_observations r)\<rparr>) s;
          s = upd_report (\<lambda>r. r\<lparr>r_emulated_button_phase_observations :=
                bump (button @ '':press'') (r_emulated_button_phase_observations r)\<rparr>) s
      in s\<lparr>s_seen_button_presses := insert button (s_seen_button_presses s),
           s_door := door_command ''accessory'' button (s_door s)\<rparr>)"

definition command_sender ::
  "'t env \<Rightarrow> string \<Rightarrow> 't sim \<Rightarrow> ((string \<times> string) + string) \<times> 't sim"
where
  "command_sender env button s =
     (case (case e_command_sender env of
              Some sender \<Rightarrow> sender button (s_transport s)
            | None \<Rightarrow> e_command env (''press '' @ button) (s_transport s)) of
        (ack, ns, t) \<Rightarrow> (ack, elapse ns (s\<lparr>s_transport := t\<rparr>)))"

lemma s_clock_command_sender: "s_clock s < s_clock (snd (command_sender env button s))"
  by (simp add: command_sender_def less_max_iff_disj split: prod.split)

text \<open>The retry loop: a busy accessory is asked again every 10 ms for 300 ms.\<close>

function send_until ::
  "'t env \<Rightarrow> rat \<Rightarrow> string \<Rightarrow> 't sim \<Rightarrow> ((string \<times> string) + string) \<times> 't sim"
where
  "send_until env deadline button s =
     (case command_sender env button s of
        (Inl exn, s) \<Rightarrow> (Inl exn, s)
      | (Inr ack, s) \<Rightarrow>
          if ack \<noteq> ''ERR busy'' \<or> deadline \<le> monotonic s then (Inr ack, s)
          else send_until env deadline button (elapse (10000000 + e_oversleep env (s_clock s)) s))"
  by pat_completeness auto
termination
proof (relation "measure (\<lambda>(_, deadline, _, s). nat \<lceil>deadline * 1000000000\<rceil> - s_clock s)")
  fix env :: "'t env" and deadline button s ack' s' ack
  assume c: "(ack', s') = command_sender env button s" and "ack' = Inr ack"
    and less: "\<not> (ack \<noteq> ''ERR busy'' \<or> deadline \<le> monotonic s')"
  have "s_clock s < s_clock s'"
    using s_clock_command_sender [of s env button] by (simp add: c [symmetric])
  then show "((env, deadline, button, elapse (10000000 + e_oversleep env (s_clock s')) s'),
      env, deadline, button, s) \<in> measure (\<lambda>(_, deadline, _, s). nat \<lceil>deadline * 1000000000\<rceil> - s_clock s)"
    using less by (auto simp: monotonic_def not_le seconds_less_iff)
qed simp

declare send_until.simps [simp del]

definition issue_button :: "'t env \<Rightarrow> string \<Rightarrow> 't sim \<Rightarrow> 't sim" where
  "issue_button env button s =
     (case send_until env (monotonic s + 3 / 10) button s of
        (Inl (name, msg), s) \<Rightarrow>
          upd_report (\<lambda>r. add_note (N_Press_Failed button name msg) (r\<lparr>r_verdict := ''command-send-failed''\<rparr>)) s
      | (Inr ack, s) \<Rightarrow>
          if take 2 ack \<noteq> ''OK'' then
            upd_report (\<lambda>r. add_note (N_Press_Rejected button ack) (r\<lparr>r_verdict := ''command-send-failed''\<rparr>)) s
          else if s_emulate_commands s then apply_emulated_button button s
          else s)"

subsection \<open>A cycle\<close>

definition broadcast_for_cycle :: "int \<Rightarrow> 't sim \<Rightarrow> broadcast_state" where
  "broadcast_for_cycle cycle s = door_broadcast_state (s_door s)"

text \<open>
  The two places of \<open>run_cycle\<close> that press a button return from it when the verdict is no longer
  \<open>ok\<close>: the flag says whether they did.
\<close>

fun run_actions :: "'t env \<Rightarrow> (string \<times> string) list \<Rightarrow> 't sim \<Rightarrow> bool \<times> 't sim" where
  "run_actions env [] s = (False, s)"
| "run_actions env ((kind, value) # rest) s =
     (if kind = ''button'' then
        (let s = issue_button env value s
         in if \<not> verdict_ok s then (True, s) else run_actions env rest s)
      else run_actions env rest s)"

definition goto_stop :: "'t env \<Rightarrow> int \<Rightarrow> broadcast_state \<Rightarrow> 't sim \<Rightarrow> bool \<times> 't sim" where
  "goto_stop env cycle state s =
     (if s_scenario s = ''goto-position'' \<and> 2 < cycle \<and> ''stop'' \<notin> s_seen_button_presses s then
        (let position_step = max 1 (py_round (of_int POSITION_OPEN / of_int (dm_travel_cycles (s_door s))));
             stop_lead = max position_step (dm_overshoot_raw_ticks (s_door s))
         in if s_goto_position s \<le> b_current state + stop_lead
            then (let s = issue_button env ''stop'' s in (\<not> verdict_ok s, s))
            else (False, s))
      else (False, s))"

definition scheduled_actions :: "int \<Rightarrow> 't sim \<Rightarrow> (string \<times> string) list" where
  "scheduled_actions cycle s =
     (case map_of (s_scenario_actions s) cycle of None \<Rightarrow> [] | Some acts \<Rightarrow> acts)"

definition finish_cycle :: "'t env \<Rightarrow> int \<Rightarrow> int \<Rightarrow> string set \<Rightarrow> bool \<Rightarrow> 't sim \<Rightarrow> 't sim" where
  "finish_cycle env cycle counter faults legacy_light_command s =
     (let s = (if legacy_light_command \<and> cycle = 2 then run_light_command env 0x02 True s else s);
          s = send_status_poll env counter (''split'' \<in> faults) s
      in if \<not> verdict_ok s then s
         else scaled_sleep env POLL_TO_NEXT_BROADCAST_GAP_US (''jitter'' \<in> faults)
                (s\<lparr>s_door := door_tick (s_door s)\<rparr>))"

definition run_cycle :: "'t env \<Rightarrow> int \<Rightarrow> string set \<Rightarrow> bool \<Rightarrow> 't sim \<Rightarrow> 't sim result" where
  "run_cycle env cycle faults legacy_light_command s =
     (let state = broadcast_for_cycle cycle s;
          s = write_frame env (broadcast_status state) False s;
          s = scaled_sleep env BROADCAST_TO_POLL_GAP_US (''jitter'' \<in> faults) s
      in case status_counter_for_cycle cycle (s_counter_profile s) of
        Inl e \<Rightarrow> Inl e
      | Inr counter \<Rightarrow>
          Inr (let s = (if should_inject_faults cycle s then inject_faults env faults counter s else s)
               in case run_actions env (scheduled_actions cycle s) s of
                    (True, s) \<Rightarrow> s
                  | (False, s) \<Rightarrow>
                      (case goto_stop env cycle state s of
                         (True, s) \<Rightarrow> s
                       | (False, s) \<Rightarrow> finish_cycle env cycle counter faults legacy_light_command s)))"

subsection \<open>The clock never runs backwards\<close>

lemma upd_report_sel [simp]:
  "s_clock (upd_report f s) = s_clock s" "s_report (upd_report f s) = f (s_report s)"
  "s_counter_profile (upd_report f s) = s_counter_profile s" "s_door (upd_report f s) = s_door s"
  "s_slave_id (upd_report f s) = s_slave_id s" "s_scenario (upd_report f s) = s_scenario s"
  "s_missed_poll_threshold (upd_report f s) = s_missed_poll_threshold s"
  "s_expected_buttons (upd_report f s) = s_expected_buttons s"
  "s_strict_scenario_verdict (upd_report f s) = s_strict_scenario_verdict s"
  "s_active_button_presses (upd_report f s) = s_active_button_presses s"
  "s_seen_button_presses (upd_report f s) = s_seen_button_presses s"
  "s_rx_buffer (upd_report f s) = s_rx_buffer s"
  "s_abort_on_first_miss (upd_report f s) = s_abort_on_first_miss s"
  "s_emulate_commands (upd_report f s) = s_emulate_commands s"
  "s_goto_position (upd_report f s) = s_goto_position s"
  "s_trace_start (upd_report f s) = s_trace_start s"
  "s_transport (upd_report f s) = s_transport s"
  by (simp_all add: upd_report_def)

lemma clock_scaled_sleep: "s_clock s \<le> s_clock (scaled_sleep env gap jitter s)"
  by (simp add: scaled_sleep_def Let_def split: option.split)

lemma clock_transport_write: "s_clock s < s_clock (transport_write env data s)"
  by (simp add: transport_write_def less_max_iff_disj split: prod.split)

lemma clock_write_frame: "s_clock s < s_clock (write_frame env frame split s)"
proof -
  have "s_clock s < s_clock (transport_write env y (scaled_sleep env 1500 False (transport_write env x (s\<lparr>s_draws := n\<rparr>))))"
    for x y n
    using clock_transport_write [of "s\<lparr>s_draws := n\<rparr>" env x]
      clock_scaled_sleep [of "transport_write env x (s\<lparr>s_draws := n\<rparr>)" env 1500 False]
      clock_transport_write [of "scaled_sleep env 1500 False (transport_write env x (s\<lparr>s_draws := n\<rparr>))" env y]
    by simp
  then show ?thesis
    by (simp add: write_frame_def Let_def clock_transport_write)
qed

lemma read_until_cases:
  obtains (late) "\<not> monotonic s < deadline" and "read_until env deadline match ctx s = (None, s)"
  | (got) frame s' where "read_attempt env deadline match ctx s = (Some frame, s')"
      and "read_until env deadline match ctx s = (Some frame, s')"
  | (more) s' where "monotonic s < deadline" and "read_attempt env deadline match ctx s = (None, s')"
      and "read_until env deadline match ctx s = read_until env deadline match ctx s'"
proof (cases "monotonic s < deadline")
  case False
  then show ?thesis by (intro late) (simp_all add: read_until.simps [of env deadline match ctx s])
next
  case True
  obtain r s' where a: "read_attempt env deadline match ctx s = (r, s')" by (cases "read_attempt env deadline match ctx s")
  show ?thesis
    using True a by (cases r) (auto intro: got more simp: read_until.simps [of env deadline match ctx s])
qed

lemma clock_read_until: "s_clock s \<le> s_clock (snd (read_until env deadline match ctx s))"
proof (induction env deadline match ctx s rule: read_until.induct)
  case (1 env deadline match ctx s)
  note attempt = s_clock_read_attempt [of s env deadline match ctx]
  show ?case
  proof (cases rule: read_until_cases [of s deadline env match ctx])
    case (more s')
    then show ?thesis using 1 [OF more(1) more(2) [symmetric] refl] attempt by simp
  qed (use attempt in simp_all)
qed

lemma clock_read_response: "s_clock s \<le> s_clock (snd (read_response env timeout match ctx s))"
  by (simp add: read_response_def clock_read_until Let_def)

subsection \<open>Quiet steps: what the I/O leaves alone\<close>

text \<open>
  Writing, sleeping and reading only move the clock, the transport, the receive buffer, the draws,
  and the note and counter of ignored frames.
\<close>

definition report_core :: "report \<Rightarrow> report" where
  "report_core r = r\<lparr>r_ignored_responses := 0, r_notes := []\<rparr>"

definition same_config :: "'t sim \<Rightarrow> 't sim \<Rightarrow> bool" where
  "same_config s s' \<longleftrightarrow>
     s_slave_id s' = s_slave_id s \<and> s_counter_profile s' = s_counter_profile s \<and>
     s_missed_poll_threshold s' = s_missed_poll_threshold s \<and>
     s_abort_on_first_miss s' = s_abort_on_first_miss s \<and>
     s_expected_buttons s' = s_expected_buttons s \<and> s_scenario s' = s_scenario s \<and>
     s_goto_position s' = s_goto_position s \<and>
     s_strict_scenario_verdict s' = s_strict_scenario_verdict s \<and>
     s_emulate_commands s' = s_emulate_commands s"

definition quiet :: "'t sim \<Rightarrow> 't sim \<Rightarrow> bool" where
  "quiet s s' \<longleftrightarrow>
     s_clock s \<le> s_clock s' \<and> same_config s s' \<and> s_door s' = s_door s \<and>
     s_active_button_presses s' = s_active_button_presses s \<and>
     s_seen_button_presses s' = s_seen_button_presses s \<and>
     report_core (s_report s') = report_core (s_report s)"

lemma quiet_refl [simp]: "quiet s s"
  by (simp add: quiet_def same_config_def)

lemma quiet_trans: "quiet s t \<Longrightarrow> quiet t u \<Longrightarrow> quiet s u"
  by (simp add: quiet_def same_config_def)

lemma report_core_eqD:
  assumes "report_core r' = report_core r"
  shows "r_polls_sent r' = r_polls_sent r" "r_replies r' = r_replies r" "r_misses r' = r_misses r"
    "r_consecutive_misses r' = r_consecutive_misses r"
    "r_max_consecutive_misses r' = r_max_consecutive_misses r" "r_scan_ok r' = r_scan_ok r"
    "r_fault_checks r' = r_fault_checks r" "r_fault_recoveries r' = r_fault_recoveries r"
    "r_fault_unexpected_responses r' = r_fault_unexpected_responses r"
    "r_button_observations r' = r_button_observations r" "r_verdict r' = r_verdict r"
    "r_latencies_ms r' = r_latencies_ms r" "r_latency_sum_ms r' = r_latency_sum_ms r"
    "r_latency_min_seen_ms r' = r_latency_min_seen_ms r"
    "r_latency_max_seen_ms r' = r_latency_max_seen_ms r"
    "r_command_replies r' = r_command_replies r"
  using assms unfolding report_core_def by (cases r; cases r'; simp)+

lemma quietD:
  assumes "quiet s s'"
  shows "s_clock s \<le> s_clock s'" "same_config s s'" "s_door s' = s_door s"
    "s_active_button_presses s' = s_active_button_presses s"
    "s_seen_button_presses s' = s_seen_button_presses s"
    "report_core (s_report s') = report_core (s_report s)"
  using assms by (simp_all add: quiet_def)

lemma same_configD:
  assumes "same_config s s'"
  shows "s_slave_id s' = s_slave_id s" "s_counter_profile s' = s_counter_profile s"
    "s_missed_poll_threshold s' = s_missed_poll_threshold s"
    "s_abort_on_first_miss s' = s_abort_on_first_miss s"
    "s_expected_buttons s' = s_expected_buttons s" "s_scenario s' = s_scenario s"
    "s_goto_position s' = s_goto_position s"
    "s_strict_scenario_verdict s' = s_strict_scenario_verdict s"
    "s_emulate_commands s' = s_emulate_commands s"
  using assms by (simp_all add: same_config_def)

lemma same_config_refl [simp]: "same_config s s"
  by (simp add: same_config_def)

lemma same_config_trans: "same_config s t \<Longrightarrow> same_config t u \<Longrightarrow> same_config s u"
  by (simp add: same_config_def)

lemma same_config_upd_report [simp]:
  "same_config s (upd_report f t) = same_config s t"
  "same_config (upd_report f s) t = same_config s t"
  by (simp_all add: same_config_def)

lemma quiet_upd [intro]:
  "quiet s t \<Longrightarrow> quiet s (elapse ns t)"
  "quiet s t \<Longrightarrow> quiet s (t\<lparr>s_draws := n\<rparr>)"
  "quiet s t \<Longrightarrow> quiet s (t\<lparr>s_transport := x\<rparr>)"
  "quiet s t \<Longrightarrow> quiet s (t\<lparr>s_rx_buffer := b\<rparr>)"
  by (simp_all add: quiet_def same_config_def elapse_def)

lemma quiet_scaled_sleep: "quiet s (scaled_sleep env gap jitter s)"
  unfolding scaled_sleep_def Let_def by (auto split: option.split intro!: quiet_upd)

lemma quiet_transport_write: "quiet s (transport_write env data s)"
  unfolding transport_write_def by (auto split: prod.split intro!: quiet_upd)

lemma quiet_draw: "quiet s (s\<lparr>s_draws := n\<rparr>)"
  by auto

lemma quiet_write_frame: "quiet s (write_frame env frame split s)"
proof -
  have "quiet s (transport_write env y (scaled_sleep env 1500 False (transport_write env x (s\<lparr>s_draws := n\<rparr>))))"
    for x y n
    by (rule quiet_trans [OF quiet_trans [OF quiet_trans [OF quiet_draw quiet_transport_write]
          quiet_scaled_sleep] quiet_transport_write])
  then show ?thesis
    by (simp add: write_frame_def Let_def quiet_transport_write)
qed

lemma report_core_ignore: "report_core (ignore_response ctx frame r) = report_core r"
  by (simp add: report_core_def ignore_response_def add_note_def Let_def)

subsection \<open>The receive loop as a scanner\<close>

lemma drain_rx_head:
  "drain_rx match ctx (buf, r) =
     (case scan_head response_expected_len crc_ok buf of
        Wait \<Rightarrow> (None, buf, r)
      | Skip \<Rightarrow> drain_rx match ctx (tl buf, r)
      | Frame f \<Rightarrow>
          if accepts match f then (Some f, drop (length f) buf, r)
          else drain_rx match ctx (drop (length f) buf, ignore_response ctx f r))"
proof (cases "response_expected_len buf")
  case None
  then show ?thesis
    by (simp add: drain_rx.simps [of match ctx buf r] scan_head_def)
next
  case (Some n)
  then have "buf \<noteq> []" by (auto simp: response_expected_len_def)
  moreover have "min (length buf) (nat n) = nat n" if "n \<le> int (length buf)"
    using that by simp
  ultimately show ?thesis
    using Some by (simp add: drain_rx.simps [of match ctx buf r] scan_head_def Let_def)
qed

lemma drain_rx_induct [case_names wait skip accept ignore]:
  assumes wait: "\<And>buf r. scan_head response_expected_len crc_ok buf = Wait \<Longrightarrow> P buf r"
    and skip: "\<And>buf r. scan_head response_expected_len crc_ok buf = Skip \<Longrightarrow> P (tl buf) r \<Longrightarrow> P buf r"
    and acc: "\<And>buf r f. scan_head response_expected_len crc_ok buf = Frame f \<Longrightarrow> accepts match f \<Longrightarrow> P buf r"
    and ign: "\<And>buf r f. scan_head response_expected_len crc_ok buf = Frame f \<Longrightarrow> \<not> accepts match f \<Longrightarrow>
      P (drop (length f) buf) (ignore_response ctx f r) \<Longrightarrow> P buf r"
  shows "P buf (r :: report)"
proof (induction "length buf" arbitrary: buf r rule: less_induct)
  case (less buf r)
  show ?case
  proof (cases "scan_head response_expected_len crc_ok buf")
    case Wait
    then show ?thesis by (rule wait)
  next
    case Skip
    then have "buf \<noteq> []" using reply_scanner.head_nil by auto
    then show ?thesis using less [of "tl buf"] by (intro skip [OF Skip]) simp
  next
    case (Frame f)
    have "P (drop (length f) buf) (ignore_response ctx f r)"
      using reply_scanner.head_frame_facts(1,3) [OF Frame] by (intro less) (cases f; simp)
    then show ?thesis
      using acc [OF Frame] ign [OF Frame] by blast
  qed
qed

lemma drain_rx_core: "report_core (snd (snd (drain_rx match ctx (buf, r)))) = report_core r"
  by (induction buf r rule: drain_rx_induct [where match = match and ctx = ctx])
    (simp_all add: drain_rx_head [of match ctx] report_core_ignore)

text \<open>An accepted frame was received in one piece and is valid; the buffer keeps what follows it.\<close>

lemma drain_rx_frame:
  "fst (drain_rx match ctx (buf, r)) = Some frame \<Longrightarrow>
   crc_ok frame \<and> response_expected_len frame = Some (int (length frame)) \<and> accepts match frame \<and>
   (\<exists>skipped. buf = skipped @ frame @ fst (snd (drain_rx match ctx (buf, r))))"
proof (induction buf r rule: drain_rx_induct [where match = match and ctx = ctx])
  case (skip buf r)
  note ne = reply_scanner.head_skip_facts [OF skip(1)]
  have eq: "drain_rx match ctx (buf, r) = drain_rx match ctx (tl buf, r)"
    using skip(1) by (simp add: drain_rx_head [of match ctx buf])
  obtain skipped where "tl buf = skipped @ frame @ fst (snd (drain_rx match ctx (buf, r)))"
    using skip(2,3) eq by auto
  then have "buf = (hd buf # skipped) @ frame @ fst (snd (drain_rx match ctx (buf, r)))"
    using ne by (metis append_Cons list.collapse)
  then show ?case
    using skip(2,3) eq by (metis (no_types))
next
  case (accept buf r f)
  note facts = reply_scanner.head_frame_facts [OF accept(1)]
  have "3 \<le> length f"
    using facts(4) by (simp add: crc_ok_def)
  then have "response_expected_len f = response_expected_len (f @ drop (length f) buf)"
    by (rule response_expected_len_append [symmetric])
  then have "response_expected_len f = Some (int (length f))"
    by (simp only: facts)
  moreover have "drain_rx match ctx (buf, r) = (Some f, drop (length f) buf, r)"
    using accept(1,2) by (simp add: drain_rx_head [of match ctx buf])
  ultimately show ?case
    using accept(2,3) facts by (auto intro!: exI [of _ "[]"])
next
  case (ignore buf r f)
  note facts = reply_scanner.head_frame_facts [OF ignore(1)]
  have eq: "drain_rx match ctx (buf, r) = drain_rx match ctx (drop (length f) buf, ignore_response ctx f r)"
    using ignore(1,2) by (simp add: drain_rx_head [of match ctx buf])
  obtain skipped where "drop (length f) buf = skipped @ frame @ fst (snd (drain_rx match ctx (buf, r)))"
    using ignore(3,4) eq by auto
  then have "buf = (f @ skipped) @ frame @ fst (snd (drain_rx match ctx (buf, r)))"
    using facts(2) by (metis append_assoc)
  then show ?case
    using ignore(3,4) eq by (metis (no_types))
qed (simp add: drain_rx_head)

text \<open>Draining is insensitive to how the bytes are split into chunks.\<close>

lemma drain_rx_append:
  "fst (drain_rx match ctx (buf, r)) = None \<Longrightarrow>
   drain_rx match ctx (buf @ rest', r) =
     drain_rx match ctx (fst (snd (drain_rx match ctx (buf, r))) @ rest',
       snd (snd (drain_rx match ctx (buf, r))))"
proof (induction buf r rule: drain_rx_induct [where match = match and ctx = ctx])
  case (wait buf r)
  then show ?case by (simp add: drain_rx_head [of match ctx buf])
next
  case (skip buf r)
  have "scan_head response_expected_len crc_ok (buf @ rest') = Skip"
    using skip(1) by (subst reply_scanner.head_append) simp_all
  then show ?case
    using skip reply_scanner.head_skip_facts [OF skip(1)]
    by (simp add: drain_rx_head [of match ctx buf] drain_rx_head [of match ctx "buf @ rest'"])
next
  case (accept buf r f)
  then show ?case by (simp add: drain_rx_head [of match ctx buf])
next
  case (ignore buf r f)
  have "scan_head response_expected_len crc_ok (buf @ rest') = Frame f"
    using ignore(1) by (subst reply_scanner.head_append) simp_all
  then show ?case
    using ignore reply_scanner.head_frame_facts(1) [OF ignore(1)]
    by (simp add: drain_rx_head [of match ctx buf] drain_rx_head [of match ctx "buf @ rest'"])
qed

lemma drain_rx_append_frame:
  "fst (drain_rx match ctx (buf, r)) = Some frame \<Longrightarrow>
   drain_rx match ctx (buf @ rest', r) =
     (Some frame, fst (snd (drain_rx match ctx (buf, r))) @ rest', snd (snd (drain_rx match ctx (buf, r))))"
proof (induction buf r rule: drain_rx_induct [where match = match and ctx = ctx])
  case (wait buf r)
  then show ?case by (simp add: drain_rx_head [of match ctx buf])
next
  case (skip buf r)
  have "scan_head response_expected_len crc_ok (buf @ rest') = Skip"
    using skip(1) by (subst reply_scanner.head_append) simp_all
  then show ?case
    using skip reply_scanner.head_skip_facts [OF skip(1)]
    by (simp add: drain_rx_head [of match ctx buf] drain_rx_head [of match ctx "buf @ rest'"])
next
  case (accept buf r f)
  have "scan_head response_expected_len crc_ok (buf @ rest') = Frame f"
    using accept(1) by (subst reply_scanner.head_append) simp_all
  then show ?case
    using accept reply_scanner.head_frame_facts(1) [OF accept(1)]
    by (simp add: drain_rx_head [of match ctx buf] drain_rx_head [of match ctx "buf @ rest'"])
next
  case (ignore buf r f)
  have "scan_head response_expected_len crc_ok (buf @ rest') = Frame f"
    using ignore(1) by (subst reply_scanner.head_append) simp_all
  then show ?case
    using ignore reply_scanner.head_frame_facts(1) [OF ignore(1)]
    by (simp add: drain_rx_head [of match ctx buf] drain_rx_head [of match ctx "buf @ rest'"])
qed

subsection \<open>What each operation is made of\<close>

lemma quiet_read_chunk: "quiet s (read_chunk env timeout s)"
  unfolding read_chunk_def by (auto split: prod.split intro!: quiet_upd)

lemma drain_sim_eq:
  "drain_sim match ctx s =
     (fst (drain_rx match ctx (s_rx_buffer s, s_report s)),
      s\<lparr>s_rx_buffer := fst (snd (drain_rx match ctx (s_rx_buffer s, s_report s))),
        s_report := snd (snd (drain_rx match ctx (s_rx_buffer s, s_report s)))\<rparr>)"
  by (simp add: drain_sim_def split: prod.split)

lemma quiet_drain_sim: "quiet s (snd (drain_sim match ctx s))"
  by (simp add: drain_sim_eq quiet_def same_config_def drain_rx_core)

lemma quiet_read_attempt: "quiet s (snd (read_attempt env deadline match ctx s))"
  unfolding read_attempt_def by (rule quiet_trans [OF quiet_read_chunk quiet_drain_sim])

lemma quiet_read_until: "quiet s (snd (read_until env deadline match ctx s))"
proof (induction env deadline match ctx s rule: read_until.induct)
  case (1 env deadline match ctx s)
  note attempt = quiet_read_attempt [of s env deadline match ctx]
  show ?case
  proof (cases rule: read_until_cases [of s deadline env match ctx])
    case (more s')
    then show ?thesis
      using 1 [OF more(1) more(2) [symmetric] refl] attempt by (auto intro: quiet_trans)
  qed (use attempt in simp_all)
qed

lemma quiet_read_response: "quiet s (snd (read_response env timeout match ctx s))"
  by (simp add: read_response_def quiet_read_until Let_def)

lemma read_until_accepts:
  "fst (read_until env deadline match ctx s) = Some frame \<Longrightarrow>
   crc_ok frame \<and> response_expected_len frame = Some (int (length frame)) \<and> accepts match frame"
proof (induction env deadline match ctx s rule: read_until.induct)
  case (1 env deadline match ctx s)
  show ?case
  proof (cases rule: read_until_cases [of s deadline env match ctx])
    case (got f s')
    then show ?thesis
      using "1.prems" drain_rx_frame [of match ctx]
      by (simp add: read_attempt_def drain_sim_eq) blast
  next
    case (more s')
    then show ?thesis using "1.IH" [OF more(1) more(2) [symmetric] refl] "1.prems" by simp
  qed (use "1.prems" in simp)
qed

lemma read_response_accepts:
  "fst (read_response env timeout match ctx s) = Some frame \<Longrightarrow>
   crc_ok frame \<and> response_expected_len frame = Some (int (length frame)) \<and> accepts match frame"
  unfolding read_response_def Let_def by (rule read_until_accepts)

definition same_but_pressed :: "'t sim \<Rightarrow> 't sim \<Rightarrow> bool" where
  "same_but_pressed s s' \<longleftrightarrow> s_clock s' = s_clock s \<and> same_config s s'"

lemma apply_status_button_clock [simp]:
  "s_clock (apply_status_button response s) = s_clock s"
  "same_config s (apply_status_button response s)"
  by (simp_all add: apply_status_button_def same_config_def Let_def upd_report_def split: option.split prod.split)

text \<open>A status poll is one transmission followed by the bookkeeping of a reply or of a miss.\<close>

lemma send_status_poll_cases:
  fixes s :: "'t sim"
  obtains (reply) mid response start where
      "quiet (upd_report (\<lambda>r. r\<lparr>r_polls_sent := r_polls_sent r + 1\<rparr>) s) mid" and "s_clock s < s_clock mid"
      and "crc_ok response" and "status_match counter response" and "start \<le> monotonic mid"
      and "send_status_poll env counter split s =
        upd_report (record_reply (elapsed_ms start (apply_status_button response mid)))
          (apply_status_button response mid)"
  | (miss) mid where
      "quiet (upd_report (\<lambda>r. r\<lparr>r_polls_sent := r_polls_sent r + 1\<rparr>) s) mid" and "s_clock s < s_clock mid"
      and "send_status_poll env counter split s =
        (let s = upd_report record_miss mid
         in if s_abort_on_first_miss s \<and> verdict_ok s
            then upd_report (\<lambda>r. add_note (N_Aborted (r_polls_sent r)) (r\<lparr>r_verdict := ''missed-poll''\<rparr>)) s
            else s)"
proof -
  define s1 where "s1 = upd_report (\<lambda>r. r\<lparr>r_polls_sent := r_polls_sent r + 1\<rparr>) s"
  define s2 where "s2 = write_frame env (status_poll counter (s_slave_id s)) split s1"
  define rr where "rr = read_response env None (Some (status_match counter))
    (''status poll '' @ format_hex 2 counter) s2"
  have q: "quiet s1 (snd rr)" and q2: "quiet s2 (snd rr)"
    unfolding rr_def s2_def
    by (rule quiet_trans [OF quiet_write_frame quiet_read_response]) (rule quiet_read_response)
  have c: "s_clock s < s_clock (snd rr)" and start: "monotonic s1 \<le> monotonic (snd rr)"
    using clock_write_frame [of s1 env "status_poll counter (s_slave_id s)" split] quietD(1) [OF q2]
    by (simp_all add: s1_def s2_def monotonic_def seconds_def divide_right_mono)
  have poll: "send_status_poll env counter split s =
    (case rr of
        (Some response, s) \<Rightarrow> upd_report (record_reply (elapsed_ms (monotonic s1) (apply_status_button response s)))
           (apply_status_button response s)
      | (None, s) \<Rightarrow>
          let s = upd_report record_miss s
          in if s_abort_on_first_miss s \<and> verdict_ok s
             then upd_report (\<lambda>r. add_note (N_Aborted (r_polls_sent r)) (r\<lparr>r_verdict := ''missed-poll''\<rparr>)) s
             else s)"
    unfolding send_status_poll_def Let_def s1_def [symmetric] s2_def [symmetric] rr_def [symmetric] by simp
  show ?thesis
  proof (cases "fst rr")
    case None
    then show ?thesis
      using q c poll by (intro miss [of "snd rr"]) (cases rr; simp add: s1_def)+
  next
    case (Some response)
    then have "crc_ok response \<and> accepts (Some (status_match counter)) response"
      unfolding rr_def using read_response_accepts by blast
    then show ?thesis
      using Some q c poll start
      by (intro reply [of "snd rr" response "monotonic s1"]) (cases rr; simp add: s1_def accepts_def)+
  qed
qed

lemma expect_no_response_cases:
  fixes s :: "'t sim"
  obtains (silent) mid where
      "quiet (upd_report (\<lambda>r. r\<lparr>r_fault_checks := r_fault_checks r + 1\<rparr>) s) mid"
      and "expect_no_response env frame name s =
        upd_report (\<lambda>r. r\<lparr>r_fault_recoveries := r_fault_recoveries r + 1\<rparr>) mid"
  | (answered) mid response where
      "quiet (upd_report (\<lambda>r. r\<lparr>r_fault_checks := r_fault_checks r + 1\<rparr>) s) mid"
      and "expect_no_response env frame name s =
        upd_report (\<lambda>r. add_note (N_Unexpected name response)
          (r\<lparr>r_fault_unexpected_responses := r_fault_unexpected_responses r + 1\<rparr>)) mid"
proof -
  define s1 where "s1 = upd_report (\<lambda>r. r\<lparr>r_fault_checks := r_fault_checks r + 1\<rparr>) s"
  define rr where "rr = read_response env (Some (9 / 1000)) None ''response'' (write_frame env frame False s1)"
  have "quiet s1 (snd rr)"
    unfolding rr_def by (rule quiet_trans [OF quiet_write_frame quiet_read_response])
  moreover have "expect_no_response env frame name s =
    (case rr of
        (None, s) \<Rightarrow> upd_report (\<lambda>r. r\<lparr>r_fault_recoveries := r_fault_recoveries r + 1\<rparr>) s
      | (Some response, s) \<Rightarrow>
          upd_report (\<lambda>r. add_note (N_Unexpected name response)
            (r\<lparr>r_fault_unexpected_responses := r_fault_unexpected_responses r + 1\<rparr>)) s)"
    unfolding expect_no_response_def Let_def s1_def [symmetric] rr_def [symmetric] by simp
  ultimately show ?thesis
    by (cases rr; cases "fst rr") (auto simp: s1_def intro: silent answered)
qed

lemma run_light_command_cases:
  fixes s :: "'t sim"
  obtains mid f where "quiet s mid" and "run_light_command env counter enabled s = upd_report f mid"
    and "f = (\<lambda>r. r\<lparr>r_command_replies := r_command_replies r + 1\<rparr>) \<or> (\<exists>n. f = add_note n)"
proof -
  define s1 where "s1 = write_frame env (light_command counter enabled (s_slave_id s)) False s"
  define rr where "rr = read_response env None (Some (\<lambda>reply. reply = command_response (s_slave_id s1) counter 0x04))
    (''light command '' @ format_hex 2 counter) s1"
  have "quiet s (snd rr)"
    unfolding rr_def s1_def by (rule quiet_trans [OF quiet_write_frame quiet_read_response])
  moreover have "run_light_command env counter enabled s =
    (case rr of
        (response, s) \<Rightarrow>
          if response = Some (command_response (s_slave_id s1) counter 0x04)
          then upd_report (\<lambda>r. r\<lparr>r_command_replies := r_command_replies r + 1\<rparr>) s
          else upd_report (add_note (N_Light_Failed response)) s)"
    unfolding run_light_command_def Let_def s1_def [symmetric] rr_def [symmetric] by simp
  ultimately show ?thesis
    by (cases rr) (auto intro: that split: if_splits)
qed

lemma quiet_command_sender: "quiet s (snd (command_sender env button s))"
  unfolding command_sender_def by (auto split: prod.split intro!: quiet_upd)

lemma quiet_send_until: "quiet s (snd (send_until env deadline button s))"
proof (induction env deadline button s rule: send_until.induct)
  case (1 env deadline button s)
  note q = quiet_command_sender [of s env button]
  obtain ack s' where a: "command_sender env button s = (ack, s')" by (cases "command_sender env button s")
  let ?next = "elapse (10000000 + e_oversleep env (s_clock s')) s'"
  have "send_until env deadline button s = (ack, s') \<or> (\<exists>ok. ack = Inr ok \<and>
      \<not> (ok \<noteq> ''ERR busy'' \<or> deadline \<le> monotonic s') \<and>
      send_until env deadline button s = send_until env deadline button ?next)"
    using a by (cases ack) (simp_all add: send_until.simps [of env deadline button s])
  then consider "send_until env deadline button s = (ack, s')"
    | ok where "ack = Inr ok" "\<not> (ok \<noteq> ''ERR busy'' \<or> deadline \<le> monotonic s')"
        "send_until env deadline button s = send_until env deadline button ?next"
    by blast
  then show ?case
  proof cases
    case 1
    then show ?thesis using q a by simp
  next
    case 2
    have "quiet ?next (snd (send_until env deadline button ?next))"
      using "1.IH" [OF a [symmetric] 2(1,2)] .
    moreover have "quiet s ?next"
      using q a by (auto intro!: quiet_upd)
    ultimately show ?thesis using 2(3) quiet_trans by simp
  qed
qed

lemma issue_button_cases:
  fixes s :: "'t sim"
  obtains (failed) mid n where "quiet s mid"
      and "issue_button env button s =
        upd_report (\<lambda>r. add_note n (r\<lparr>r_verdict := ''command-send-failed''\<rparr>)) mid"
  | (sent) mid where "quiet s mid" and "\<not> s_emulate_commands mid" and "issue_button env button s = mid"
  | (emulated) mid where "quiet s mid" and "s_emulate_commands mid"
      and "issue_button env button s = apply_emulated_button button mid"
proof -
  define rr where "rr = send_until env (monotonic s + 3 / 10) button s"
  have q: "quiet s (snd rr)"
    unfolding rr_def by (rule quiet_send_until)
  have eq: "issue_button env button s =
     (case rr of
        (Inl (name, msg), s) \<Rightarrow>
          upd_report (\<lambda>r. add_note (N_Press_Failed button name msg) (r\<lparr>r_verdict := ''command-send-failed''\<rparr>)) s
      | (Inr ack, s) \<Rightarrow>
          if take 2 ack \<noteq> ''OK'' then
            upd_report (\<lambda>r. add_note (N_Press_Rejected button ack) (r\<lparr>r_verdict := ''command-send-failed''\<rparr>)) s
          else if s_emulate_commands s then apply_emulated_button button s
          else s)"
    unfolding issue_button_def rr_def [symmetric] by simp
  show ?thesis
    using q eq by (cases rr; cases "fst rr") (auto intro: failed sent emulated split: prod.splits if_splits)
qed

subsection \<open>Interface: relations that every cycle respects\<close>

text \<open>
  A reflexive and transitive relation on simulator states that the quiet steps and the effects
  other than a status poll respect is respected by every part of the cycle without a poll; so a
  cycle that injects no duplicate relates its ends up to one single poll.  When the relation
  respects the poll too, it relates the ends of every cycle.
\<close>

locale effect_relation =
  fixes env :: "'t env"
    and R :: "'t sim \<Rightarrow> 't sim \<Rightarrow> bool"
  assumes R_quiet: "quiet s s' \<Longrightarrow> R s s'"
    and R_trans: "R s t \<Longrightarrow> R t u \<Longrightarrow> R s u"
    and R_expect: "R s (expect_no_response env frame name s)"
    and R_light: "R s (run_light_command env counter enabled s)"
    and R_button: "R s (issue_button env button s)"
    and R_tick: "R s (s\<lparr>s_door := door_tick (s_door s)\<rparr>)"
begin

lemma R_refl: "R s s"
  by (simp add: R_quiet)

lemma R_inject_fault: "R s t \<Longrightarrow> R s (inject_fault env faults name frame t)"
  by (simp add: inject_fault_def R_trans [OF _ R_expect])

lemma R_inject_bad_frames: "R s (inject_bad_frames env faults counter s)"
proof -
  define g where "g = (if ''garbage'' \<in> faults then transport_write env [0x55, 0x00, 0xFF, 0x10] s else s)"
  have "R s g"
    by (simp add: g_def R_refl R_quiet quiet_transport_write)
  then show ?thesis
    unfolding inject_bad_frames_def Let_def g_def [symmetric] by (intro R_inject_fault)
qed

lemma R_inject_no_duplicate: "''duplicate'' \<notin> faults \<Longrightarrow> R s (inject_faults env faults counter s)"
  by (simp add: inject_faults_def R_inject_bad_frames)

lemma R_actions: "R s (snd (run_actions env acts s))"
proof (induction acts arbitrary: s)
  case (Cons a acts)
  obtain kind v where a: "a = (kind, v)" by (cases a)
  show ?case
    using Cons R_button [of s v] R_trans by (auto simp: a Let_def)
qed (simp add: R_refl)

lemma R_goto: "R s (snd (goto_stop env cycle state s))"
  by (simp add: goto_stop_def Let_def R_refl R_button)

lemma R_finish_split:
  obtains t where "R s t"
    and "R (send_status_poll env counter (''split'' \<in> faults) t)
      (finish_cycle env cycle counter faults legacy s)"
proof -
  define a where "a = (if legacy \<and> cycle = 2 then run_light_command env 0x02 True s else s)"
  define b where "b = send_status_poll env counter (''split'' \<in> faults) a"
  have "R s a" by (simp add: a_def R_refl R_light)
  moreover have "R b (scaled_sleep env g j (b\<lparr>s_door := door_tick (s_door b)\<rparr>))" for g j
    by (rule R_trans [OF R_tick R_quiet [OF quiet_scaled_sleep]])
  ultimately show ?thesis
    by (intro that [of a]) (simp_all add: finish_cycle_def Let_def a_def [symmetric] b_def [symmetric] R_refl)
qed

text \<open>A cycle: the broadcast, the injections, the actions, and a poll unless an action failed.\<close>

lemma R_cycle_split:
  assumes "run_cycle env cycle faults legacy s = Inr s'"
  obtains counter a b c where "R (write_frame env (broadcast_status (broadcast_for_cycle cycle s)) False s) a"
    and "b = a \<or> b = inject_faults env faults counter a" and "R b c"
    and "s' = c \<or> R (send_status_poll env counter (''split'' \<in> faults) c) s'"
proof -
  let ?w = "write_frame env (broadcast_status (broadcast_for_cycle cycle s)) False s"
  define a where "a = scaled_sleep env BROADCAST_TO_POLL_GAP_US (''jitter'' \<in> faults) ?w"
  obtain counter where counter: "status_counter_for_cycle cycle (s_counter_profile a) = Inr counter"
    using assms by (auto simp: run_cycle_def Let_def a_def split: sum.splits)
  define b where "b = (if should_inject_faults cycle a then inject_faults env faults counter a else a)"
  define c where "c = run_actions env (scheduled_actions cycle b) b"
  define d where "d = goto_stop env cycle (broadcast_for_cycle cycle s) (snd c)"
  have a: "R ?w a"
    unfolding a_def by (intro R_quiet quiet_scaled_sleep)
  have b: "b = a \<or> b = inject_faults env faults counter a" by (simp add: b_def)
  have sc: "R b (snd c)" unfolding c_def by (rule R_actions)
  have sd: "R b (snd d)" unfolding d_def by (rule R_trans [OF sc R_goto])
  obtain e where e: "R (snd d) e" "R (send_status_poll env counter (''split'' \<in> faults) e)
      (finish_cycle env cycle counter faults legacy (snd d))"
    by (rule R_finish_split)
  have "s' = (case c of (True, s) \<Rightarrow> s | (False, s) \<Rightarrow>
      (case d of (True, s) \<Rightarrow> s | (False, s) \<Rightarrow> finish_cycle env cycle counter faults legacy s))"
    using assms
    unfolding run_cycle_def Let_def a_def [symmetric] counter sum.case b_def [symmetric]
      c_def [symmetric] sum.inject(2)
    by (cases c) (simp add: d_def split: bool.splits)
  then have "s' = snd c \<or> s' = snd d \<or> s' = finish_cycle env cycle counter faults legacy (snd d)"
    by (cases c; cases d) (auto split: bool.splits)
  then show ?thesis
    using that [OF a b sc] that [OF a b sd] that [OF a b R_trans [OF sd e(1)]] e(2) by blast
qed

lemma R_cycle_one_poll:
  assumes "run_cycle env cycle faults legacy s = Inr s'" and "''duplicate'' \<notin> faults"
  shows "R s s' \<or> (\<exists>counter split c. R s c \<and> R (send_status_poll env counter split c) s')"
proof -
  have dup: "R a b" if "b = a \<or> b = inject_faults env faults counter a" for a b counter
    using that assms(2) R_refl R_inject_no_duplicate by auto
  obtain counter a b c where "R (write_frame env (broadcast_status (broadcast_for_cycle cycle s)) False s) a"
    and "b = a \<or> b = inject_faults env faults counter a" and "R b c"
    and c: "s' = c \<or> R (send_status_poll env counter (''split'' \<in> faults) c) s'"
    using assms(1) by (rule R_cycle_split)
  then have "R s a" and "R a b" and "R b c"
    by (iprover intro: R_trans [OF R_quiet [OF quiet_write_frame]] dup)+
  then have "R s c"
    by (rule R_trans [OF R_trans])
  then show ?thesis using c by blast
qed

end

locale cycle_relation = effect_relation +
  assumes R_poll: "R s (send_status_poll env counter split s)"
begin

lemma R_inject: "R s (inject_faults env faults counter s)"
  using R_trans [OF R_inject_bad_frames R_poll] R_inject_bad_frames by (simp add: inject_faults_def Let_def)

lemma R_cycle_after_broadcast:
  assumes "run_cycle env cycle faults legacy s = Inr s'"
  shows "R (write_frame env (broadcast_status (broadcast_for_cycle cycle s)) False s) s'" (is "R ?w s'")
proof -
  obtain counter a b c where w: "R ?w a" and b: "b = a \<or> b = inject_faults env faults counter a"
    and bc: "R b c" and e: "s' = c \<or> R (send_status_poll env counter (''split'' \<in> faults) c) s'"
    using assms by (rule R_cycle_split)
  have "R ?w b" using b w R_trans [OF w R_inject] by auto
  then have "R ?w c" using bc by (rule R_trans)
  then show ?thesis using e R_trans [OF R_trans [OF _ R_poll]] by auto
qed

lemma R_cycle: "run_cycle env cycle faults legacy s = Inr s' \<Longrightarrow> R s s'"
  by (rule R_trans [OF R_quiet [OF quiet_write_frame] R_cycle_after_broadcast])

end

subsection \<open>Every cycle takes time and keeps the configuration\<close>

lemma apply_emulated_button_sel [simp]:
  "s_clock (apply_emulated_button b s) = s_clock s" "same_config s (apply_emulated_button b s)"
  by (simp_all add: apply_emulated_button_def same_config_def Let_def upd_report_def)

definition later :: "'t sim \<Rightarrow> 't sim \<Rightarrow> bool" where
  "later s s' \<longleftrightarrow> s_clock s \<le> s_clock s' \<and> same_config s s'"

lemma later_quiet: "quiet s s' \<Longrightarrow> later s s'"
  by (simp add: quiet_def later_def)

lemma later_poll: "later s (send_status_poll env counter split s)"
  by (rule send_status_poll_cases [where s = s and env = env and counter = counter and split = split])
    (auto simp: later_def Let_def dest!: quietD(2) intro: same_config_trans)

lemma later_expect: "later s (expect_no_response env frame name s)"
  by (rule expect_no_response_cases [where s = s and env = env and frame = frame and name = name])
    (auto simp: later_def dest: quietD(1,2) simp: same_config_def)

lemma later_light: "later s (run_light_command env counter enabled s)"
  by (rule run_light_command_cases [where s = s and env = env and counter = counter and enabled = enabled]) (auto simp: later_def dest: quietD(1,2))

lemma later_button: "later s (issue_button env button s)"
  by (rule issue_button_cases [where s = s and env = env and button = button])
    (auto simp: later_def dest: quietD(1,2) intro: same_config_trans)

interpretation later: cycle_relation env later for env
proof
  fix s t u :: "'t sim"
  show "later s t \<Longrightarrow> later t u \<Longrightarrow> later s u"
    by (auto simp: later_def intro: same_config_trans)
  show "later s (s\<lparr>s_door := door_tick (s_door s)\<rparr>)"
    by (simp add: later_def same_config_def)
qed (rule later_quiet later_poll later_expect later_light later_button, assumption?)+

lemma clock_run_cycle:
  assumes "run_cycle env cycle faults legacy s = Inr s'"
  shows "s_clock s < s_clock s'"
proof -
  define a where "a = write_frame env (broadcast_status (broadcast_for_cycle cycle s)) False s"
  have "s_clock s < s_clock a" by (simp add: a_def clock_write_frame)
  moreover have "later a s'"
    unfolding a_def using assms by (rule later.R_cycle_after_broadcast)
  ultimately show ?thesis by (simp add: later_def)
qed

subsection \<open>The run\<close>

definition deadline_reached :: "rat option \<Rightarrow> int \<Rightarrow> int \<Rightarrow> 't sim \<Rightarrow> bool" where
  "deadline_reached deadline_s cycles cycle s \<longleftrightarrow>
     (case deadline_s of None \<Rightarrow> cycles \<le> cycle | Some deadline \<Rightarrow> deadline \<le> monotonic s)"

function run_loop ::
  "'t env \<Rightarrow> int \<Rightarrow> rat option \<Rightarrow> string set \<Rightarrow> bool \<Rightarrow> int \<Rightarrow> 't sim \<Rightarrow> 't sim result"
where
  "run_loop env cycles deadline_s faults legacy_light_command cycle s =
     (if \<not> verdict_ok s then Inr s
      else if deadline_reached deadline_s cycles cycle s then Inr s
      else if s_missed_poll_threshold s \<le> r_consecutive_misses (s_report s)
      then Inr (upd_report (\<lambda>r. r\<lparr>r_verdict := ''error-04''\<rparr>) s)
      else case run_cycle env cycle faults legacy_light_command s of
        Inl e \<Rightarrow> Inl e
      | Inr s \<Rightarrow> run_loop env cycles deadline_s faults legacy_light_command (cycle + 1) s)"
  by pat_completeness auto
termination
proof (relation "measure (\<lambda>(_, cycles, deadline_s, _, _, cycle, s).
    case deadline_s of None \<Rightarrow> nat (cycles - cycle)
    | Some deadline \<Rightarrow> nat \<lceil>deadline * 1000000000\<rceil> - s_clock s)")
  fix env :: "'t env" and cycles deadline_s faults legacy cycle s s'
  assume live: "\<not> deadline_reached deadline_s cycles cycle s"
    and c: "run_cycle env cycle faults legacy s = Inr s'"
  show "((env, cycles, deadline_s, faults, legacy, cycle + 1, s'),
      env, cycles, deadline_s, faults, legacy, cycle, s)
    \<in> measure (\<lambda>(_, cycles, deadline_s, _, _, cycle, s).
        case deadline_s of None \<Rightarrow> nat (cycles - cycle)
        | Some deadline \<Rightarrow> nat \<lceil>deadline * 1000000000\<rceil> - s_clock s)"
    using live clock_run_cycle [OF c]
    by (auto simp: deadline_reached_def monotonic_def not_le seconds_less_iff split: option.splits)
qed simp

declare run_loop.simps [simp del]

definition fail_scenario :: "(door_dict \<Rightarrow> report_note) \<Rightarrow> 't sim \<Rightarrow> 't sim" where
  "fail_scenario n s =
     upd_report (\<lambda>r. add_note (n (door_as_dict (s_door s))) (r\<lparr>r_verdict := ''door-scenario-failed''\<rparr>)) s"

definition apply_scenario_verdict :: "'t sim \<Rightarrow> 't sim" where
  "apply_scenario_verdict s =
     (if s_scenario s = ''open-from-closed'' \<and> dm_state (s_door s) \<noteq> 0x20
      then fail_scenario (N_Door ''door did not reach open'') s
      else if s_scenario s = ''close-from-open'' \<and> dm_state (s_door s) \<noteq> 0x40
      then fail_scenario (N_Door ''door did not reach closed'') s
      else if s_scenario s = ''stop-mid-opening'' \<and> dm_state (s_door s) \<noteq> 0x00
      then fail_scenario (N_Door ''door did not stop mid-opening'') s
      else if s_scenario s = ''half-position'' \<and> dm_state (s_door s) \<noteq> 0x80
      then fail_scenario (N_Door ''door did not reach half position'') s
      else if s_scenario s = ''vent-position'' \<and> dm_state (s_door s) \<noteq> 0x0A
      then fail_scenario (N_Door ''door did not reach vent position'') s
      else if s_scenario s = ''closing-obstruction'' \<and> dm_incomplete_cycles (s_door s) < 1
      then fail_scenario (\<lambda>_. N_No_Obstruction) s
      else if s_scenario s = ''light-toggle'' \<and> dm_light_word (s_door s) \<noteq> 0x00
      then fail_scenario (N_Door ''light toggle did not change broadcast light word'') s
      else if s_scenario s = ''goto-position'' then
        (let tolerance = max 2 (dm_overshoot_raw_ticks (s_door s) + 1)
         in if tolerance < \<bar>dm_position (s_door s) - s_goto_position s\<bar> \<or> dm_state (s_door s) \<noteq> 0x00
            then fail_scenario (N_Goto (s_goto_position s) tolerance) s
            else s)
      else s)"

definition missing_buttons :: "'t sim \<Rightarrow> string list" where
  "missing_buttons s =
     sorted_list_of_set {b \<in> s_expected_buttons s. r_button_observations (s_report s) b = None}"

definition final_verdict :: "'t sim \<Rightarrow> 't sim" where
  "final_verdict s =
     (let missing = missing_buttons s
      in if verdict_ok s \<and> missing \<noteq> []
         then upd_report (\<lambda>r. add_note (N_Missing_Buttons missing) (r\<lparr>r_verdict := ''button-missing''\<rparr>)) s
         else if r_fault_unexpected_responses (s_report s) \<noteq> 0
         then upd_report (\<lambda>r. r\<lparr>r_verdict := ''fault-failed''\<rparr>) s
         else if s_missed_poll_threshold s \<le> r_consecutive_misses (s_report s)
         then upd_report (\<lambda>r. r\<lparr>r_verdict := ''error-04''\<rparr>) s
         else if verdict_ok s \<and> s_strict_scenario_verdict s then apply_scenario_verdict s
         else s)"

definition final_notes :: "'t env \<Rightarrow> 't sim \<Rightarrow> 't sim" where
  "final_notes env s =
     (let s = upd_report (\<lambda>r. r\<lparr>r_door := Some (door_as_dict (s_door s))\<rparr>) s
      in if verdict_ok s then
           (let s = upd_report (add_note (N_Scenario (s_scenario s))) s;
                s = upd_report (add_note
                      (if e_class_name env = ''SerialTransport'' then
                         (if e_low_latency_enabled env then N_Serial_Low_Latency
                          else N_Serial (case e_low_latency_error env of
                                 None \<Rightarrow> [] | Some err \<Rightarrow> if err = [] then [] else '' ('' @ err @ '')''))
                       else N_Not_Electrical)) s
            in if s_emulate_commands s then upd_report (add_note N_Emulated) s else s)
         else s)"

definition set_elapsed :: "'t sim \<Rightarrow> 't sim" where
  "set_elapsed s =
     upd_report (\<lambda>r. r\<lparr>r_elapsed_s := Some (monotonic s - seconds (s_trace_start s))\<rparr>) s"

definition start_scenario :: "string option \<Rightarrow> 't sim \<Rightarrow> 't sim result" where
  "start_scenario command s =
     (case (case command of None \<Rightarrow> None | Some c \<Rightarrow> COMMAND_TO_SCENARIO c) of
        None \<Rightarrow> Inr s
      | Some scenario \<Rightarrow>
          if s_scenario s \<noteq> ''steady'' then Inr s
          else case build_scenario_actions scenario (s_door s) of
            Inl e \<Rightarrow> Inl e
          | Inr (door, acts) \<Rightarrow>
              Inr (upd_report (\<lambda>r. r\<lparr>r_scenario := scenario\<rparr>)
                (s\<lparr>s_scenario := scenario, s_strict_scenario_verdict := False, s_door := door,
                   s_scenario_actions := acts\<rparr>)))"

definition simulator_run ::
  "'t env \<Rightarrow> int \<Rightarrow> string set \<Rightarrow> string option \<Rightarrow> rat option \<Rightarrow> 't sim \<Rightarrow> 't sim result"
where
  "simulator_run env cycles faults command duration_s s =
     (let legacy_light_command = (command = Some ''light'' \<and> s_scenario s = ''steady'')
      in case start_scenario command s of
        Inl e \<Rightarrow> Inl e
      | Inr s \<Rightarrow>
        (let deadline_s = (case duration_s of None \<Rightarrow> None | Some d \<Rightarrow> Some (monotonic s + d))
         in case run_bus_scan env s of
           Inl e \<Rightarrow> Inl e
         | Inr s \<Rightarrow>
             if \<not> r_scan_ok (s_report s)
             then Inr (set_elapsed (upd_report (\<lambda>r. r\<lparr>r_verdict := ''scan-failed''\<rparr>) s))
             else case run_loop env cycles deadline_s faults legacy_light_command 0 s of
               Inl e \<Rightarrow> Inl e
             | Inr s \<Rightarrow> Inr (set_elapsed (final_notes env (final_verdict s)))))"

end
