(* ===== verification/Simulator_Props.thy ===== *)
theory Simulator_Props
  imports Simulator
begin

text \<open>
  What the simulator's report means: the invariant of the counters and latencies over a run, the
  meaning of the verdict \<open>ok\<close>, the independence of the receiver from the chunking of the bytes,
  and the totality of a run.
\<close>

subsection \<open>The invariant of the report\<close>

definition latency_inv :: "report \<Rightarrow> bool" where
  "latency_inv r \<longleftrightarrow>
     r_latency_sum_ms r = sum_list (r_latencies_ms r) \<and>
     (\<forall>x \<in> set (r_latencies_ms r). 0 \<le> x) \<and>
     (if r_latencies_ms r = []
      then r_latency_min_seen_ms r = None \<and> r_latency_max_seen_ms r = None
      else r_latency_min_seen_ms r = Some (Min (set (r_latencies_ms r))) \<and>
           r_latency_max_seen_ms r = Some (Max (set (r_latencies_ms r))))"

definition counters_inv :: "report \<Rightarrow> bool" where
  "counters_inv r \<longleftrightarrow>
     r_polls_sent r = r_replies r + r_misses r \<and> 0 \<le> r_replies r \<and>
     0 \<le> r_consecutive_misses r \<and> r_consecutive_misses r \<le> r_max_consecutive_misses r \<and>
     r_max_consecutive_misses r \<le> r_misses r \<and>
     r_fault_checks r = r_fault_recoveries r + r_fault_unexpected_responses r \<and>
     0 \<le> r_fault_recoveries r \<and> 0 \<le> r_fault_unexpected_responses r \<and>
     int (length (r_latencies_ms r)) = r_replies r + of_bool (r_scan_ok r)"

definition sim_inv :: "'t sim \<Rightarrow> bool" where
  "sim_inv s \<longleftrightarrow> latency_inv (s_report s) \<and> counters_inv (s_report s) \<and> door_inv (s_door s) \<and>
     s_active_button_presses s \<subseteq> s_seen_button_presses s \<and>
     s_counter_profile s \<in> COUNTER_PROFILES"

lemma latency_inv_core: "report_core r' = report_core r \<Longrightarrow> latency_inv r' = latency_inv r"
  unfolding latency_inv_def by (simp only: report_core_eqD [of r' r])

lemma counters_inv_core: "report_core r' = report_core r \<Longrightarrow> counters_inv r' = counters_inv r"
  unfolding counters_inv_def by (simp only: report_core_eqD [of r' r])

lemma sim_inv_quiet:
  assumes "quiet s s'"
  shows "sim_inv s' = sim_inv s"
  using quietD(3-5) [OF assms] latency_inv_core [OF quietD(6) [OF assms]]
    counters_inv_core [OF quietD(6) [OF assms]] same_configD(2) [OF quietD(2) [OF assms]]
  by (simp add: sim_inv_def)

lemma record_latency_sel [simp]:
  "r_polls_sent (record_latency l r) = r_polls_sent r" "r_replies (record_latency l r) = r_replies r"
  "r_misses (record_latency l r) = r_misses r"
  "r_consecutive_misses (record_latency l r) = r_consecutive_misses r"
  "r_max_consecutive_misses (record_latency l r) = r_max_consecutive_misses r"
  "r_scan_ok (record_latency l r) = r_scan_ok r" "r_verdict (record_latency l r) = r_verdict r"
  "r_fault_checks (record_latency l r) = r_fault_checks r"
  "r_fault_recoveries (record_latency l r) = r_fault_recoveries r"
  "r_fault_unexpected_responses (record_latency l r) = r_fault_unexpected_responses r"
  "r_button_observations (record_latency l r) = r_button_observations r"
  "r_latencies_ms (record_latency l r) = r_latencies_ms r @ [l]"
  "r_latency_sum_ms (record_latency l r) = r_latency_sum_ms r + l"
  by (simp_all add: record_latency_def Let_def split: option.split)

lemma record_latency_min:
  "r_latency_min_seen_ms (record_latency l r) =
     Some (case r_latency_min_seen_ms r of None \<Rightarrow> l | Some m \<Rightarrow> min m l)"
  "r_latency_max_seen_ms (record_latency l r) =
     Some (case r_latency_max_seen_ms r of None \<Rightarrow> l | Some m \<Rightarrow> max m l)"
  by (simp_all add: record_latency_def Let_def min_def max_def split: option.split)

lemma Min_snoc: "xs \<noteq> [] \<Longrightarrow> Min (insert x (set xs)) = min (Min (set xs)) x"
  for x :: "'a :: linorder"
  by (simp add: min.commute)

lemma Max_snoc: "xs \<noteq> [] \<Longrightarrow> Max (insert x (set xs)) = max (Max (set xs)) x"
  for x :: "'a :: linorder"
  by (simp add: max.commute)

lemma latency_inv_record: "latency_inv r \<Longrightarrow> 0 \<le> l \<Longrightarrow> latency_inv (record_latency l r)"
  by (auto simp: latency_inv_def record_latency_min Min_snoc Max_snoc min.commute max.commute
      simp del: Min_insert Max_insert split: if_splits)

lemma latency_inv_upd:
  "latency_inv (r\<lparr>r_polls_sent := a\<rparr>) = latency_inv r"
  "latency_inv (r\<lparr>r_replies := a\<rparr>) = latency_inv r"
  "latency_inv (r\<lparr>r_misses := a\<rparr>) = latency_inv r"
  "latency_inv (r\<lparr>r_consecutive_misses := a\<rparr>) = latency_inv r"
  "latency_inv (r\<lparr>r_max_consecutive_misses := a\<rparr>) = latency_inv r"
  "latency_inv (r\<lparr>r_scan_ok := b\<rparr>) = latency_inv r"
  "latency_inv (r\<lparr>r_verdict := v\<rparr>) = latency_inv r"
  "latency_inv (r\<lparr>r_fault_checks := a\<rparr>) = latency_inv r"
  "latency_inv (r\<lparr>r_fault_recoveries := a\<rparr>) = latency_inv r"
  "latency_inv (r\<lparr>r_fault_unexpected_responses := a\<rparr>) = latency_inv r"
  "latency_inv (r\<lparr>r_button_observations := c\<rparr>) = latency_inv r"
  "latency_inv (r\<lparr>r_button_phase_observations := c\<rparr>) = latency_inv r"
  "latency_inv (r\<lparr>r_emulated_button_observations := c\<rparr>) = latency_inv r"
  "latency_inv (r\<lparr>r_emulated_button_phase_observations := c\<rparr>) = latency_inv r"
  "latency_inv (r\<lparr>r_command_replies := a\<rparr>) = latency_inv r"
  "latency_inv (r\<lparr>r_scenario := v\<rparr>) = latency_inv r"
  "latency_inv (r\<lparr>r_elapsed_s := e\<rparr>) = latency_inv r"
  "latency_inv (r\<lparr>r_door := d\<rparr>) = latency_inv r"
  "latency_inv (add_note n r) = latency_inv r"
  by (simp_all add: latency_inv_def add_note_def)

definition count_button :: "string \<Rightarrow> string \<Rightarrow> report \<Rightarrow> report" where
  "count_button button phase r =
     r\<lparr>r_button_observations := bump button (r_button_observations r),
       r_button_phase_observations := bump (button @ '':'' @ phase) (r_button_phase_observations r)\<rparr>"

lemma apply_status_button_none:
  "decode_status_button_phase response = None \<Longrightarrow>
   apply_status_button response s = s\<lparr>s_active_button_presses := {}\<rparr>"
  by (simp add: apply_status_button_def)

lemma apply_status_button_some:
  "decode_status_button_phase response = Some (button, phase) \<Longrightarrow>
   apply_status_button response s =
     (let t = upd_report (count_button button phase) s
      in if phase = ''press'' then
           (if button \<in> s_active_button_presses s then t
            else t\<lparr>s_active_button_presses := insert button (s_active_button_presses s),
                   s_seen_button_presses := insert button (s_seen_button_presses s),
                   s_door := door_command ''accessory'' button (s_door s)\<rparr>)
         else if phase = ''release'' then
           t\<lparr>s_active_button_presses := s_active_button_presses s - {button}\<rparr>
         else t)"
  by (simp add: apply_status_button_def Let_def upd_report_def count_button_def)

lemma count_button_inv [simp]:
  "counters_inv ((count_button b p r)\<lparr>r_polls_sent := n\<rparr>) = counters_inv (r\<lparr>r_polls_sent := n\<rparr>)"
  "latency_inv (count_button b p r) = latency_inv r" "counters_inv (count_button b p r) = counters_inv r"
  "r_verdict (count_button b p r) = r_verdict r" "r_scan_ok (count_button b p r) = r_scan_ok r"
  "r_polls_sent (count_button b p r) = r_polls_sent r" "r_replies (count_button b p r) = r_replies r"
  "r_misses (count_button b p r) = r_misses r"
  "r_consecutive_misses (count_button b p r) = r_consecutive_misses r"
  "r_max_consecutive_misses (count_button b p r) = r_max_consecutive_misses r"
  "r_fault_unexpected_responses (count_button b p r) = r_fault_unexpected_responses r"
  by (simp_all add: count_button_def latency_inv_upd counters_inv_def)

text \<open>The counters of a state in which a poll has been sent and not yet been accounted for.\<close>

definition pending_poll :: "'t sim \<Rightarrow> bool" where
  "pending_poll s \<longleftrightarrow> sim_inv (upd_report (\<lambda>r. r\<lparr>r_polls_sent := r_polls_sent r - 1\<rparr>) s)"

lemma pending_poll_button:
  assumes "pending_poll s"
  shows "pending_poll (apply_status_button response s)"
proof (cases "decode_status_button_phase response")
  case None
  then show ?thesis
    using assms by (auto simp: apply_status_button_none pending_poll_def sim_inv_def upd_report_def)
next
  case (Some bp)
  obtain b p where bp: "bp = (b, p)" by (cases bp)
  show ?thesis
    using assms unfolding apply_status_button_some [OF Some [unfolded bp]] Let_def
    by (auto simp: pending_poll_def sim_inv_def upd_report_def latency_inv_upd door_inv_command)
qed

lemma report_core_upd:
  "report_core (r\<lparr>r_polls_sent := a\<rparr>) = (report_core r)\<lparr>r_polls_sent := a\<rparr>"
  "report_core (r\<lparr>r_fault_recoveries := a\<rparr>) = (report_core r)\<lparr>r_fault_recoveries := a\<rparr>"
  "report_core (r\<lparr>r_fault_unexpected_responses := a\<rparr>) = (report_core r)\<lparr>r_fault_unexpected_responses := a\<rparr>"
  "report_core (add_note n r) = report_core r"
  by (simp_all add: report_core_def add_note_def)

lemma sim_inv_replace:
  assumes "quiet s t" and "report_core (f (s_report t)) = report_core (g (s_report s))"
  shows "sim_inv (upd_report f t) = sim_inv (upd_report g s)"
  using quietD(3-5) [OF assms(1)] same_configD(2) [OF quietD(2) [OF assms(1)]]
    latency_inv_core [OF assms(2)] counters_inv_core [OF assms(2)]
  by (simp add: sim_inv_def)

lemma pending_poll_quiet:
  assumes q: "quiet (upd_report (\<lambda>r. r\<lparr>r_polls_sent := r_polls_sent r + 1\<rparr>) s) mid" and "sim_inv s"
  shows "pending_poll mid"
proof -
  let ?s1 = "upd_report (\<lambda>r. r\<lparr>r_polls_sent := r_polls_sent r + 1\<rparr>) s"
  have "pending_poll mid = pending_poll ?s1"
    unfolding pending_poll_def
    by (rule sim_inv_replace [OF q]) (simp only: report_core_upd quietD(6) [OF q] report_core_eqD(1) [OF quietD(6) [OF q]])
  then show ?thesis
    using assms(2) by (simp add: pending_poll_def sim_inv_def)
qed

lemma pending_poll_reply:
  "pending_poll s \<Longrightarrow> 0 \<le> l \<Longrightarrow> sim_inv (upd_report (record_reply l) s)"
  by (simp add: pending_poll_def sim_inv_def record_reply_def Let_def latency_inv_upd
      latency_inv_record) (auto simp: counters_inv_def)

lemma pending_poll_miss: "pending_poll s \<Longrightarrow> sim_inv (upd_report record_miss s)"
  by (simp add: pending_poll_def sim_inv_def record_miss_def Let_def latency_inv_upd)
    (auto simp: counters_inv_def max_def)

lemma sim_inv_verdict: "sim_inv s \<Longrightarrow> sim_inv (upd_report (\<lambda>r. add_note (n r) (r\<lparr>r_verdict := v\<rparr>)) s)"
  by (simp add: sim_inv_def latency_inv_upd) (simp add: counters_inv_def add_note_def)

lemma sim_inv_poll:
  assumes "sim_inv s"
  shows "sim_inv (send_status_poll env counter split s)"
proof (cases rule: send_status_poll_cases [where s = s and env = env and counter = counter and split = split])
  case (reply mid response start)
  have "monotonic (apply_status_button response mid) = monotonic mid"
    by (simp add: monotonic_def)
  then have "0 \<le> elapsed_ms start (apply_status_button response mid)"
    using reply(5) by (simp add: elapsed_ms_def)
  then show ?thesis
    unfolding reply(6) by (rule pending_poll_reply [OF pending_poll_button [OF pending_poll_quiet [OF reply(1) assms]]])
next
  case (miss mid)
  have "sim_inv (upd_report record_miss mid)"
    by (rule pending_poll_miss [OF pending_poll_quiet [OF miss(1) assms]])
  then show ?thesis
    using miss(3) by (simp add: Let_def sim_inv_verdict)
qed

lemma sim_inv_expect:
  assumes "sim_inv s"
  shows "sim_inv (expect_no_response env frame name s)"
proof -
  let ?s1 = "upd_report (\<lambda>r. r\<lparr>r_fault_checks := r_fault_checks r + 1\<rparr>) s"
  show ?thesis
  proof (cases rule: expect_no_response_cases [where s = s and env = env and frame = frame and name = name])
    case (silent mid)
    let ?f = "\<lambda>r. r\<lparr>r_fault_recoveries := r_fault_recoveries r + 1\<rparr>"
    note core = quietD(6) [OF silent(1)]
    have "sim_inv (upd_report ?f mid) = sim_inv (upd_report ?f ?s1)"
      by (rule sim_inv_replace [OF silent(1)]) (simp only: report_core_upd core report_core_eqD(8) [OF core])
    moreover have "sim_inv (upd_report ?f ?s1)"
      using assms by (simp add: sim_inv_def latency_inv_upd) (simp add: counters_inv_def)
    ultimately show ?thesis by (simp only: silent(2))
  next
    case (answered mid response)
    let ?f = "\<lambda>r. add_note (N_Unexpected name response)
      (r\<lparr>r_fault_unexpected_responses := r_fault_unexpected_responses r + 1\<rparr>)"
    note core = quietD(6) [OF answered(1)]
    have "sim_inv (upd_report ?f mid) = sim_inv (upd_report ?f ?s1)"
      by (rule sim_inv_replace [OF answered(1)]) (simp only: report_core_upd core report_core_eqD(9) [OF core])
    moreover have "sim_inv (upd_report ?f ?s1)"
      using assms by (simp add: sim_inv_def latency_inv_upd) (simp add: counters_inv_def add_note_def)
    ultimately show ?thesis by (simp only: answered(2))
  qed
qed

lemma sim_inv_light:
  assumes "sim_inv s"
  shows "sim_inv (run_light_command env counter enabled s)"
proof (rule run_light_command_cases [where s = s and env = env and counter = counter and enabled = enabled])
  fix mid f
  assume q: "quiet s mid" and eq: "run_light_command env counter enabled s = upd_report f mid"
    and f: "f = (\<lambda>r. r\<lparr>r_command_replies := r_command_replies r + 1\<rparr>) \<or> (\<exists>n. f = add_note n)"
  have "sim_inv mid" using assms by (simp only: sim_inv_quiet [OF q])
  then show ?thesis
    unfolding eq using f by (auto simp: sim_inv_def latency_inv_upd) (auto simp: counters_inv_def add_note_def)
qed

lemma sim_inv_emulated: "sim_inv s \<Longrightarrow> sim_inv (apply_emulated_button button s)"
  by (auto simp: apply_emulated_button_def Let_def sim_inv_def upd_report_def latency_inv_upd
      counters_inv_def door_inv_command)

lemma sim_inv_button:
  assumes "sim_inv s"
  shows "sim_inv (issue_button env button s)"
proof (cases rule: issue_button_cases [where s = s and env = env and button = button])
  case (failed mid n)
  show ?thesis
    unfolding failed(2) using assms by (intro sim_inv_verdict) (simp only: sim_inv_quiet [OF failed(1)])
next
  case (sent mid)
  show ?thesis
    unfolding sent(3) using assms by (simp only: sim_inv_quiet [OF sent(1)])
next
  case (emulated mid)
  show ?thesis
    unfolding emulated(3) using assms by (intro sim_inv_emulated) (simp only: sim_inv_quiet [OF emulated(1)])
qed

definition keeps_inv :: "'t sim \<Rightarrow> 't sim \<Rightarrow> bool" where
  "keeps_inv s s' \<longleftrightarrow> (sim_inv s \<longrightarrow> sim_inv s')"

interpretation keeps: cycle_relation env keeps_inv for env
proof
  fix s s' t u :: "'t sim" and env counter split frame name enabled button
  show "quiet s s' \<Longrightarrow> keeps_inv s s'" by (simp add: keeps_inv_def sim_inv_quiet)
  show "keeps_inv s t \<Longrightarrow> keeps_inv t u \<Longrightarrow> keeps_inv s u" by (simp add: keeps_inv_def)
  show "keeps_inv s (expect_no_response env frame name s)" by (simp add: keeps_inv_def sim_inv_expect)
  show "keeps_inv s (run_light_command env counter enabled s)" by (simp add: keeps_inv_def sim_inv_light)
  show "keeps_inv s (issue_button env button s)" by (simp add: keeps_inv_def sim_inv_button)
  show "keeps_inv s (send_status_poll env counter split s)" by (simp add: keeps_inv_def sim_inv_poll)
  show "keeps_inv s (s\<lparr>s_door := door_tick (s_door s)\<rparr>)"
    by (simp add: keeps_inv_def sim_inv_def door_inv_tick)
qed

lemma sim_inv_cycle: "run_cycle env cycle faults legacy s = Inr s' \<Longrightarrow> sim_inv s \<Longrightarrow> sim_inv s'"
  by (drule keeps.R_cycle) (simp add: keeps_inv_def)

subsection \<open>What a cycle keeps of the scan result and of the miss counters\<close>

definition same_scan :: "'t sim \<Rightarrow> 't sim \<Rightarrow> bool" where
  "same_scan s s' \<longleftrightarrow> r_scan_ok (s_report s') = r_scan_ok (s_report s)"

definition same_misses :: "'t sim \<Rightarrow> 't sim \<Rightarrow> bool" where
  "same_misses s s' \<longleftrightarrow>
     r_consecutive_misses (s_report s') = r_consecutive_misses (s_report s) \<and>
     r_max_consecutive_misses (s_report s') = r_max_consecutive_misses (s_report s)"

lemma apply_status_button_report:
  "s_report (apply_status_button b s) =
     (case decode_status_button_phase b of
        None \<Rightarrow> s_report s
      | Some (button, phase) \<Rightarrow> count_button button phase (s_report s))"
proof (cases "decode_status_button_phase b")
  case None
  then show ?thesis by (simp add: apply_status_button_none)
next
  case (Some bp)
  obtain button phase where bp: "bp = (button, phase)" by (cases bp)
  show ?thesis
    unfolding Some bp apply_status_button_some [OF Some [unfolded bp]] Let_def
    by (auto simp: upd_report_def)
qed

lemma apply_status_button_misses [simp]:
  "r_consecutive_misses (s_report (apply_status_button b s)) = r_consecutive_misses (s_report s)"
  "r_max_consecutive_misses (s_report (apply_status_button b s)) = r_max_consecutive_misses (s_report s)"
  "r_scan_ok (s_report (apply_status_button b s)) = r_scan_ok (s_report s)"
  "r_verdict (s_report (apply_status_button b s)) = r_verdict (s_report s)"
  "r_replies (s_report (apply_status_button b s)) = r_replies (s_report s)"
  "r_misses (s_report (apply_status_button b s)) = r_misses (s_report s)"
  by (simp_all add: apply_status_button_report split: option.split prod.split)

lemma poll_misses:
  "(r_consecutive_misses (s_report (send_status_poll env counter split s)),
    r_max_consecutive_misses (s_report (send_status_poll env counter split s))) \<in>
   {(0, r_max_consecutive_misses (s_report s)),
    (r_consecutive_misses (s_report s) + 1,
     max (r_max_consecutive_misses (s_report s)) (r_consecutive_misses (s_report s) + 1))}"
proof (cases rule: send_status_poll_cases [where s = s and env = env and counter = counter and split = split])
  case (reply mid response start)
  show ?thesis
    unfolding reply(6) using report_core_eqD(4,5) [OF quietD(6) [OF reply(1)]]
    by (simp add: record_reply_def Let_def)
next
  case (miss mid)
  show ?thesis
    unfolding miss(3) using report_core_eqD(4,5) [OF quietD(6) [OF miss(1)]]
    by (simp add: record_miss_def Let_def add_note_def)
qed

lemma poll_scan: "same_scan s (send_status_poll env counter split s)"
proof (cases rule: send_status_poll_cases [where s = s and env = env and counter = counter and split = split])
  case (reply mid response start)
  show ?thesis
    unfolding reply(6) same_scan_def using report_core_eqD(6) [OF quietD(6) [OF reply(1)]]
    by (simp add: record_reply_def Let_def)
next
  case (miss mid)
  show ?thesis
    unfolding miss(3) same_scan_def using report_core_eqD(6) [OF quietD(6) [OF miss(1)]]
    by (simp add: record_miss_def Let_def add_note_def)
qed

definition same_scan_misses :: "'t sim \<Rightarrow> 't sim \<Rightarrow> bool" where
  "same_scan_misses s s' \<longleftrightarrow> same_scan s s' \<and> same_misses s s'"

lemma quiet_scan_misses:
  assumes "quiet s t"
  shows "same_scan_misses s t"
  using report_core_eqD(4-6) [OF quietD(6) [OF assms]]
  by (simp add: same_scan_misses_def same_scan_def same_misses_def)

lemma scan_misses_upd:
  assumes "same_scan_misses (upd_report g s) t"
    and "\<And>r. r_scan_ok (f r) = r_scan_ok r" "\<And>r. r_scan_ok (g r) = r_scan_ok r"
    and "\<And>r. r_consecutive_misses (f r) = r_consecutive_misses r"
      "\<And>r. r_consecutive_misses (g r) = r_consecutive_misses r"
    and "\<And>r. r_max_consecutive_misses (f r) = r_max_consecutive_misses r"
      "\<And>r. r_max_consecutive_misses (g r) = r_max_consecutive_misses r"
  shows "same_scan_misses s (upd_report f t)"
  using assms by (simp add: same_scan_misses_def same_scan_def same_misses_def)

lemma expect_scan_misses: "same_scan_misses s (expect_no_response env frame name s)"
  by (rule expect_no_response_cases [where s = s and env = env and frame = frame and name = name])
    (simp; rule scan_misses_upd, erule quiet_scan_misses; simp add: add_note_def)+

lemma light_scan_misses: "same_scan_misses s (run_light_command env counter enabled s)"
proof (rule run_light_command_cases [where s = s and env = env and counter = counter and enabled = enabled])
  fix mid f
  assume q: "quiet s mid" and eq: "run_light_command env counter enabled s = upd_report f mid"
    and f: "f = (\<lambda>r. r\<lparr>r_command_replies := r_command_replies r + 1\<rparr>) \<or> (\<exists>n. f = add_note n)"
  show ?thesis
    unfolding eq using f quiet_scan_misses [OF q]
    by (auto simp: same_scan_misses_def same_scan_def same_misses_def add_note_def)
qed

lemma button_scan_misses: "same_scan_misses s (issue_button env button s)"
proof (cases rule: issue_button_cases [where s = s and env = env and button = button])
  case (failed mid n)
  show ?thesis
    unfolding failed(2) using quiet_scan_misses [OF failed(1)]
    by (simp add: same_scan_misses_def same_scan_def same_misses_def add_note_def)
next
  case (sent mid)
  show ?thesis unfolding sent(3) by (rule quiet_scan_misses [OF sent(1)])
next
  case (emulated mid)
  show ?thesis
    unfolding emulated(3) using quiet_scan_misses [OF emulated(1)]
    by (simp add: same_scan_misses_def same_scan_def same_misses_def apply_emulated_button_def Let_def)
qed

interpretation misses: effect_relation env same_scan_misses for env
proof
  fix s t u :: "'t sim"
  show "same_scan_misses s t \<Longrightarrow> same_scan_misses t u \<Longrightarrow> same_scan_misses s u"
    by (simp add: same_scan_misses_def same_scan_def same_misses_def)
  show "same_scan_misses s (s\<lparr>s_door := door_tick (s_door s)\<rparr>)"
    by (simp add: same_scan_misses_def same_scan_def same_misses_def)
qed (rule quiet_scan_misses expect_scan_misses light_scan_misses button_scan_misses, assumption?)+

interpretation scan: cycle_relation env same_scan for env
proof
  fix s t u :: "'t sim" and env frame name counter enabled button split
  show "same_scan s t \<Longrightarrow> same_scan t u \<Longrightarrow> same_scan s u" by (simp add: same_scan_def)
  show "same_scan s (s\<lparr>s_door := door_tick (s_door s)\<rparr>)" by (simp add: same_scan_def)
  show "quiet s t \<Longrightarrow> same_scan s t" using quiet_scan_misses [of s t] by (simp add: same_scan_misses_def)
  show "same_scan s (expect_no_response env frame name s)"
    using expect_scan_misses [of s] by (simp add: same_scan_misses_def)
  show "same_scan s (run_light_command env counter enabled s)"
    using light_scan_misses [of s] by (simp add: same_scan_misses_def)
  show "same_scan s (issue_button env button s)"
    using button_scan_misses [of s] by (simp add: same_scan_misses_def)
  show "same_scan s (send_status_poll env counter split s)" by (rule poll_scan)
qed

subsection \<open>The loop\<close>

lemma run_cycle_total:
  assumes "sim_inv s" and "0 \<le> cycle"
  shows "\<exists>s'. run_cycle env cycle faults legacy s = Inr s'"
proof -
  let ?a = "scaled_sleep env BROADCAST_TO_POLL_GAP_US (''jitter'' \<in> faults)
    (write_frame env (broadcast_status (broadcast_for_cycle cycle s)) False s)"
  have "quiet s ?a" by (rule quiet_trans [OF quiet_write_frame quiet_scaled_sleep])
  then have "s_counter_profile ?a = s_counter_profile s"
    by (rule same_configD(2) [OF quietD(2)])
  then have "s_counter_profile ?a \<in> {''official-7bit'', ''zero-based-8bit''}"
    using assms(1) by (simp add: sim_inv_def COUNTER_PROFILES_def)
  then obtain counter where "status_counter_for_cycle cycle (s_counter_profile ?a) = Inr counter"
    using assms(2) by (auto simp: status_counter_for_cycle_def)
  then show ?thesis by (simp add: run_cycle_def Let_def)
qed

definition miss_limit :: "'t sim \<Rightarrow> bool" where
  "miss_limit s \<longleftrightarrow>
     r_max_consecutive_misses (s_report s) < s_missed_poll_threshold s \<or>
     s_missed_poll_threshold s \<le> r_consecutive_misses (s_report s)"

lemma miss_limit_cycle:
  assumes "run_cycle env cycle faults legacy s = Inr s'" and "''duplicate'' \<notin> faults"
    and "miss_limit s" and "r_consecutive_misses (s_report s) < s_missed_poll_threshold s"
  shows "miss_limit s'"
proof -
  have t: "s_missed_poll_threshold s' = s_missed_poll_threshold s"
    using later.R_cycle [OF assms(1)] by (simp add: later_def same_config_def)
  have "r_max_consecutive_misses (s_report s) < s_missed_poll_threshold s"
    using assms(3,4) by (simp add: miss_limit_def)
  moreover have "same_misses s s' \<or> (\<exists>c counter split. same_misses s c \<and>
      same_misses (send_status_poll env counter split c) s')"
    using misses.R_cycle_one_poll [OF assms(1,2)] unfolding same_scan_misses_def by blast
  ultimately show ?thesis
    using t poll_misses [of env] by (auto simp: miss_limit_def same_misses_def) (smt (verit))+
qed

lemma run_loop_result:
  assumes "sim_inv s" and "0 \<le> cycle"
  shows "\<exists>s'. run_loop env cycles deadline_s faults legacy cycle s = Inr s' \<and> sim_inv s' \<and>
    same_config s s' \<and> same_scan s s' \<and> (''duplicate'' \<notin> faults \<and> miss_limit s \<longrightarrow> miss_limit s')"
  using assms
proof (induction env cycles deadline_s faults legacy cycle s rule: run_loop.induct)
  case (1 env cycles deadline_s faults legacy cycle s)
  note unfold = run_loop.simps [of env cycles deadline_s faults legacy cycle s]
  show ?case
  proof (cases "\<not> verdict_ok s \<or> deadline_reached deadline_s cycles cycle s")
    case True
    then show ?thesis using "1.prems"(1) by (auto simp: unfold same_scan_def)
  next
    case live: False
    show ?thesis
    proof (cases "s_missed_poll_threshold s \<le> r_consecutive_misses (s_report s)")
      case True
      have "sim_inv (upd_report (\<lambda>r. r\<lparr>r_verdict := v\<rparr>) s)" for v
        using "1.prems"(1) by (simp add: sim_inv_def latency_inv_upd) (simp add: counters_inv_def)
      then show ?thesis
        using True live by (simp add: unfold same_scan_def miss_limit_def)
    next
      case False
      obtain t where t: "run_cycle env cycle faults legacy s = Inr t"
        using run_cycle_total [OF "1.prems"] by blast
      have inv: "sim_inv t" by (rule sim_inv_cycle [OF t "1.prems"(1)])
      have conf: "same_config s t" and scan: "same_scan s t"
        using later.R_cycle [OF t] scan.R_cycle [OF t] by (simp_all add: later_def)
      have limit: "''duplicate'' \<notin> faults \<and> miss_limit s \<longrightarrow> miss_limit t"
        using miss_limit_cycle [OF t] False by auto
      obtain s' where s': "run_loop env cycles deadline_s faults legacy (cycle + 1) t = Inr s'"
          "sim_inv s'" "same_config t s'" "same_scan t s'"
          "''duplicate'' \<notin> faults \<and> miss_limit t \<longrightarrow> miss_limit s'"
        using "1.IH" [OF _ _ False t inv] live "1.prems"(2) by auto
      have "run_loop env cycles deadline_s faults legacy cycle s = Inr s'"
        using live False t s'(1) by (simp add: unfold)
      then show ?thesis
        using s' limit same_config_trans [OF conf s'(3)] scan by (auto simp: same_scan_def)
    qed
  qed
qed

subsection \<open>Construction and the bus scan\<close>

lemma new_door_valid:
  assumes "door_inv d"
  shows "\<exists>e. new_door q t s (as_dict_parameters d) = Inr e"
  using assms by (simp add: new_door_def post_init_def as_dict_parameters_def Let_def door_inv_def settings_ok_def)

lemma rebuilt_doors:
  assumes "door_inv d"
  obtains o1 c where "door_open (dd_parameters (door_as_dict d)) = Inr o1" "door_inv o1"
    "door_closed (dd_parameters (door_as_dict d)) = Inr c" "door_inv c"
proof -
  obtain o1 c where "door_open (as_dict_parameters d) = Inr o1" "door_closed (as_dict_parameters d) = Inr c"
    using new_door_valid [OF assms] unfolding door_open_def door_closed_def by blast
  moreover from this have "door_inv o1" "door_inv c"
    by (auto simp: door_open_def door_closed_def intro: door_inv_new)
  ultimately show ?thesis
    by (intro that [of o1 c]) (simp_all add: door_as_dict_def)
qed

lemma build_scenario_total:
  assumes "scenario \<in> SCENARIOS" and "door_inv door"
  shows "\<exists>d acts. build_scenario_actions scenario door = Inr (d, acts) \<and> door_inv d"
proof -
  obtain o1 c where "door_open (dd_parameters (door_as_dict door)) = Inr o1" "door_inv o1"
    "door_closed (dd_parameters (door_as_dict door)) = Inr c" "door_inv c"
    using assms(2) by (rule rebuilt_doors)
  then show ?thesis
    using assms by (simp add: build_scenario_actions_def Let_def)
qed

lemma SimulationReport_inv:
  "latency_inv (SimulationReport\<lparr>r_scenario := v\<rparr>)" "counters_inv (SimulationReport\<lparr>r_scenario := v\<rparr>)"
  by (simp_all add: SimulationReport_def latency_inv_def counters_inv_def)

definition options_ok :: "sim_options \<Rightarrow> bool" where
  "options_ok o1 \<longleftrightarrow>
     o_counter_profile o1 \<in> COUNTER_PROFILES \<and> o_scenario o1 \<in> SCENARIOS \<and>
     (case o_door_model o1 of None \<Rightarrow> True | Some d \<Rightarrow> door_inv d)"

definition fresh :: "'t sim \<Rightarrow> bool" where
  "fresh s \<longleftrightarrow> sim_inv s \<and> \<not> r_scan_ok (s_report s) \<and> r_max_consecutive_misses (s_report s) = 0"

lemma constructor_ok:
  assumes "options_ok o1"
  obtains s where "SupraMaticSimulator transport now o1 = Inr s" and "fresh s"
    and "s_expected_buttons s = o_expected_buttons o1"
    and "s_missed_poll_threshold s = o_missed_poll_threshold o1"
    and "s_slave_id s = o_slave_id o1"
    and "s_scenario s = o_scenario o1"
    and "s_strict_scenario_verdict s = o_strict_scenario_verdict o1"
proof -
  obtain door where door: "(case o_door_model o1 of Some d \<Rightarrow> Inr d | None \<Rightarrow> door_closed default_params) = Inr door"
      "door_inv door"
  proof (cases "o_door_model o1")
    case None
    obtain d where "door_closed (default_params\<lparr>dp_travel_cycles := 260\<rparr>) = Inr d" "door_inv d"
      by (rule default_door [of 260]) simp_all
    then show ?thesis
      using None by (intro that [of d]) (simp_all add: default_params_def)
  next
    case (Some d)
    then show ?thesis
      using assms by (intro that [of d]) (simp_all add: options_ok_def)
  qed
  obtain d acts where b: "build_scenario_actions (o_scenario o1) door = Inr (d, acts)" "door_inv d"
    using build_scenario_total [of "o_scenario o1" door] door(2) assms by (auto simp: options_ok_def)
  have p: "o_counter_profile o1 \<in> COUNTER_PROFILES"
    using assms by (simp add: options_ok_def)
  show ?thesis
    by (rule that) (simp add: SupraMaticSimulator_def p door(1) b, simp add: fresh_def sim_inv_def
        SimulationReport_inv b p, simp add: SimulationReport_def, simp_all)
qed

lemma start_scenario_total:
  assumes "fresh s"
  shows "\<exists>s'. start_scenario command s = Inr s' \<and> fresh s' \<and>
    s_expected_buttons s' = s_expected_buttons s \<and> s_missed_poll_threshold s' = s_missed_poll_threshold s \<and>
    (s_scenario s \<noteq> ''steady'' \<longrightarrow> s' = s)"
proof (cases "command \<in> {Some ''open'', Some ''close''} \<and> s_scenario s = ''steady''")
  case False
  then have "start_scenario command s = Inr s"
    by (auto simp: start_scenario_def COMMAND_TO_SCENARIO_def split: option.split)
  then show ?thesis using assms by simp
next
  case True
  then obtain sc where sc: "(case command of None \<Rightarrow> None | Some c \<Rightarrow> COMMAND_TO_SCENARIO c) = Some sc" "sc \<in> SCENARIOS"
    by (auto simp: COMMAND_TO_SCENARIO_def SCENARIOS_def)
  obtain d acts where b: "build_scenario_actions sc (s_door s) = Inr (d, acts)" "door_inv d"
    using build_scenario_total [OF sc(2), of "s_door s"] assms by (auto simp: fresh_def sim_inv_def)
  show ?thesis
    using assms b True
    by (simp add: start_scenario_def sc fresh_def sim_inv_def upd_report_def latency_inv_upd)
      (simp add: counters_inv_def)
qed

lemma run_bus_scan_total:
  assumes "fresh s"
  shows "\<exists>s'. run_bus_scan env s = Inr s' \<and> sim_inv s' \<and> same_config s s' \<and> miss_limit s'"
proof -
  define expected where "expected = append_crc ([s_slave_id s, 0x17, 10] @ DEFAULT_SCAN_SIGNATURE)"
  define w where "w = write_frame env (bus_scan_request (s_slave_id s) 0x01 None) False s"
  define rr where "rr = read_response env None (Some (\<lambda>response. response = expected)) ''bus scan'' w"
  have q: "quiet s (snd rr)"
    unfolding rr_def w_def by (rule quiet_trans [OF quiet_write_frame quiet_read_response])
  have inv: "sim_inv (snd rr)" using assms by (simp add: fresh_def sim_inv_quiet [OF q])
  have core: "\<not> r_scan_ok (s_report (snd rr))" "r_max_consecutive_misses (s_report (snd rr)) = 0"
    using assms report_core_eqD(5,6) [OF quietD(6) [OF q]] by (simp_all add: fresh_def)
  have time: "monotonic s \<le> monotonic (snd rr)"
    using quietD(1) [OF q] by (simp add: monotonic_def seconds_def divide_right_mono)
  have eq: "run_bus_scan env s = Inr (if fst rr = Some expected
      then upd_report (\<lambda>r. record_latency (elapsed_ms (monotonic s) (snd rr)) (r\<lparr>r_scan_ok := True\<rparr>)) (snd rr)
      else upd_report (add_note (N_Scan_Failed (fst rr))) (snd rr))"
    unfolding run_bus_scan_def Let_def scan_response_default sum.case expected_def [symmetric]
      w_def [symmetric] rr_def [symmetric]
    by (cases rr) simp
  have "0 \<le> elapsed_ms (monotonic s) (snd rr)"
    using time by (simp add: elapsed_ms_def)
  then have "sim_inv (upd_report (\<lambda>r. record_latency (elapsed_ms (monotonic s) (snd rr)) (r\<lparr>r_scan_ok := True\<rparr>)) (snd rr))"
    using inv core by (simp add: sim_inv_def latency_inv_record latency_inv_upd) (simp add: counters_inv_def)
  moreover have "sim_inv (upd_report (add_note n) (snd rr))" for n
    using inv by (simp add: sim_inv_def latency_inv_upd) (simp add: counters_inv_def add_note_def)
  moreover have "r_consecutive_misses (s_report (snd rr)) = 0"
    using inv core by (simp add: sim_inv_def counters_inv_def)
  ultimately show ?thesis
    unfolding eq using core quietD(2) [OF q] by (auto simp: miss_limit_def add_note_def)
qed

subsection \<open>The end of a run\<close>

lemma sim_inv_report_upd:
  assumes "sim_inv s" and "\<And>r. latency_inv r \<Longrightarrow> latency_inv (f r)" and "\<And>r. counters_inv r \<Longrightarrow> counters_inv (f r)"
  shows "sim_inv (upd_report f s)"
  using assms by (simp add: sim_inv_def)

lemma counters_inv_upd:
  "counters_inv (r\<lparr>r_verdict := v\<rparr>) = counters_inv r" "counters_inv (r\<lparr>r_elapsed_s := e\<rparr>) = counters_inv r"
  "counters_inv (r\<lparr>r_door := d\<rparr>) = counters_inv r" "counters_inv (add_note n r) = counters_inv r"
  by (simp_all add: counters_inv_def add_note_def)

lemmas final_inv = sim_inv_report_upd latency_inv_upd counters_inv_upd

lemma sim_inv_final:
  assumes "sim_inv s"
  shows "sim_inv (set_elapsed (final_notes env (final_verdict s)))"
proof -
  have fail: "sim_inv (fail_scenario n t)" if "sim_inv t" for n and t :: "'a sim"
    using that by (simp add: fail_scenario_def final_inv)
  have "sim_inv (apply_scenario_verdict t)" if "sim_inv t" for t :: "'a sim"
    using that fail by (simp add: apply_scenario_verdict_def Let_def)
  then have "sim_inv (final_verdict s)"
    using assms by (simp add: final_verdict_def Let_def final_inv)
  then have "sim_inv (final_notes env (final_verdict s))"
    by (simp add: final_notes_def Let_def final_inv)
  then show ?thesis
    by (simp add: set_elapsed_def final_inv)
qed

text \<open>What the door must have done for a strict scenario to pass.\<close>

definition scenario_reached :: "'t sim \<Rightarrow> bool" where
  "scenario_reached s \<longleftrightarrow>
     (s_scenario s = ''open-from-closed'' \<longrightarrow> dm_position (s_door s) = 200) \<and>
     (s_scenario s = ''close-from-open'' \<longrightarrow> dm_position (s_door s) = 0) \<and>
     (s_scenario s = ''stop-mid-opening'' \<longrightarrow> dm_target (s_door s) = dm_position (s_door s)) \<and>
     (s_scenario s = ''half-position'' \<longrightarrow> dm_position (s_door s) = dm_half_position (s_door s)) \<and>
     (s_scenario s = ''vent-position'' \<longrightarrow> dm_position (s_door s) = dm_vent_position (s_door s)) \<and>
     (s_scenario s = ''closing-obstruction'' \<longrightarrow> 1 \<le> dm_incomplete_cycles (s_door s)) \<and>
     (s_scenario s = ''light-toggle'' \<longrightarrow> dm_light_word (s_door s) = 0) \<and>
     (s_scenario s = ''goto-position'' \<longrightarrow>
        \<bar>dm_position (s_door s) - s_goto_position s\<bar> \<le> max 2 (dm_overshoot_raw_ticks (s_door s) + 1))"

lemma state_position:
  assumes "door_inv d"
  shows "dm_state d = 0x20 \<Longrightarrow> dm_position d = 200" "dm_state d = 0x40 \<Longrightarrow> dm_position d = 0"
    "dm_state d = 0 \<Longrightarrow> dm_target d = dm_position d"
    "dm_state d = 0x80 \<Longrightarrow> dm_position d = dm_half_position d"
    "dm_state d = 0x0A \<Longrightarrow> dm_position d = dm_vent_position d"
  using door_inv_dest(1) [OF assms] by (simp_all add: motion_ok_def const_defs)

lemma not_ok_fail [simp]: "\<not> verdict_ok (fail_scenario n s)"
  by (simp add: fail_scenario_def verdict_ok_def add_note_def)

lemma ok_unless_failed:
  "verdict_ok (if c then fail_scenario n s else t) \<longleftrightarrow> \<not> c \<and> verdict_ok t"
  "verdict_ok (if g then if c then fail_scenario n s else t else t) \<longleftrightarrow> \<not> (g \<and> c) \<and> verdict_ok t"
  by simp_all

lemma apply_scenario_verdict_ok:
  assumes "verdict_ok (apply_scenario_verdict s)" and "door_inv (s_door s)"
  shows "apply_scenario_verdict s = s \<and> scenario_reached s"
proof -
  note conds = assms(1) [unfolded apply_scenario_verdict_def Let_def ok_unless_failed(2),
      unfolded ok_unless_failed]
  have "apply_scenario_verdict s = s"
    using conds unfolding apply_scenario_verdict_def Let_def by (simp only: if_False simp_thms split: if_split) blast
  moreover have "scenario_reached s"
    using conds unfolding scenario_reached_def
    by (elim conjE) (intro conjI impI; simp only: simp_thms de_Morgan_conj de_Morgan_disj not_less not_le state_position [OF assms(2)])
  ultimately show ?thesis ..
qed

lemma final_verdict_ok:
  assumes "verdict_ok (final_verdict s)" and "sim_inv s" and "finite (s_expected_buttons s)"
  shows "final_verdict s = s \<and> verdict_ok s \<and>
    (\<forall>b \<in> s_expected_buttons s. r_button_observations (s_report s) b \<noteq> None) \<and>
    r_fault_unexpected_responses (s_report s) = 0 \<and>
    r_consecutive_misses (s_report s) < s_missed_poll_threshold s \<and>
    (s_strict_scenario_verdict s \<longrightarrow> scenario_reached s)"
proof -
  have bad: "\<not> verdict_ok (upd_report (\<lambda>r. r\<lparr>r_verdict := ''fault-failed''\<rparr>) s)"
      "\<not> verdict_ok (upd_report (\<lambda>r. r\<lparr>r_verdict := ''error-04''\<rparr>) s)"
      "\<not> verdict_ok (upd_report (\<lambda>r. add_note n (r\<lparr>r_verdict := ''button-missing''\<rparr>)) s)" for n
    by (simp_all add: verdict_ok_def add_note_def)
  have ok: "verdict_ok s"
    using assms(1) bad by (auto simp: final_verdict_def Let_def split: if_splits)
  then have missing: "missing_buttons s = []" and unexp: "r_fault_unexpected_responses (s_report s) = 0"
      and consec: "r_consecutive_misses (s_report s) < s_missed_poll_threshold s"
    using assms(1) bad by (auto simp: final_verdict_def Let_def split: if_splits)
  have "finite {b \<in> s_expected_buttons s. r_button_observations (s_report s) b = None}"
    using assms(3) by simp
  then have seen: "\<forall>b \<in> s_expected_buttons s. r_button_observations (s_report s) b \<noteq> None"
    using missing by (auto simp: missing_buttons_def)
  have fv: "final_verdict s = (if s_strict_scenario_verdict s then apply_scenario_verdict s else s)"
    using ok missing unexp consec by (simp add: final_verdict_def Let_def)
  moreover have "apply_scenario_verdict s = s \<and> scenario_reached s" if "s_strict_scenario_verdict s"
    using apply_scenario_verdict_ok assms(1,2) fv that by (auto simp: sim_inv_def)
  ultimately show ?thesis
    using ok seen unexp consec by simp
qed

lemma final_notes_sel:
  "s_door (final_notes env s) = s_door s" "s_scenario (final_notes env s) = s_scenario s"
  "s_goto_position (final_notes env s) = s_goto_position s"
  "s_strict_scenario_verdict (final_notes env s) = s_strict_scenario_verdict s"
  "r_verdict (s_report (final_notes env s)) = r_verdict (s_report s)"
  "r_scan_ok (s_report (final_notes env s)) = r_scan_ok (s_report s)"
  "r_button_observations (s_report (final_notes env s)) = r_button_observations (s_report s)"
  "r_max_consecutive_misses (s_report (final_notes env s)) = r_max_consecutive_misses (s_report s)"
  "r_fault_unexpected_responses (s_report (final_notes env s)) = r_fault_unexpected_responses (s_report s)"
  by (simp_all add: final_notes_def Let_def add_note_def)

lemma set_elapsed_sel:
  "s_door (set_elapsed s) = s_door s" "s_scenario (set_elapsed s) = s_scenario s"
  "s_goto_position (set_elapsed s) = s_goto_position s"
  "s_strict_scenario_verdict (set_elapsed s) = s_strict_scenario_verdict s"
  "r_verdict (s_report (set_elapsed s)) = r_verdict (s_report s)"
  "r_scan_ok (s_report (set_elapsed s)) = r_scan_ok (s_report s)"
  "r_button_observations (s_report (set_elapsed s)) = r_button_observations (s_report s)"
  "r_max_consecutive_misses (s_report (set_elapsed s)) = r_max_consecutive_misses (s_report s)"
  "r_fault_unexpected_responses (s_report (set_elapsed s)) = r_fault_unexpected_responses (s_report s)"
  by (simp_all add: set_elapsed_def)

text \<open>The shape of every run of a fresh simulator.\<close>

lemma simulator_run_shape:
  assumes "fresh s"
  obtains (scan_failed) t where "\<not> r_scan_ok (s_report t)" and "sim_inv t"
      and "simulator_run env cycles faults command duration_s s =
        Inr (set_elapsed (upd_report (\<lambda>r. r\<lparr>r_verdict := ''scan-failed''\<rparr>) t))"
  | (finished) t where "r_scan_ok (s_report t)" and "sim_inv t"
      and "s_expected_buttons t = s_expected_buttons s"
      and "s_missed_poll_threshold t = s_missed_poll_threshold s"
      and "''duplicate'' \<notin> faults \<longrightarrow> miss_limit t"
      and "s_scenario s \<noteq> ''steady'' \<longrightarrow> s_scenario t = s_scenario s \<and>
        s_strict_scenario_verdict t = s_strict_scenario_verdict s"
      and "simulator_run env cycles faults command duration_s s =
        Inr (set_elapsed (final_notes env (final_verdict t)))"
proof -
  obtain a where a: "start_scenario command s = Inr a" "fresh a" "s_expected_buttons a = s_expected_buttons s"
      "s_missed_poll_threshold a = s_missed_poll_threshold s" "s_scenario s \<noteq> ''steady'' \<longrightarrow> a = s"
    using start_scenario_total [OF assms] by blast
  obtain b where b: "run_bus_scan env a = Inr b" "sim_inv b" "same_config a b" "miss_limit b"
    using run_bus_scan_total [OF a(2)] by blast
  show ?thesis
  proof (cases "r_scan_ok (s_report b)")
    case False
    show ?thesis
      using False b(2) by (rule scan_failed) (use False a b in \<open>simp add: simulator_run_def\<close>)
  next
    case True
    define deadline where "deadline = (case duration_s of None \<Rightarrow> None | Some d \<Rightarrow> Some (monotonic a + d))"
    define legacy where "legacy = (command = Some ''light'' \<and> s_scenario s = ''steady'')"
    obtain t where t: "run_loop env cycles deadline faults legacy 0 b = Inr t" "sim_inv t" "same_config b t"
        "same_scan b t" "''duplicate'' \<notin> faults \<and> miss_limit b \<longrightarrow> miss_limit t"
      using run_loop_result [OF b(2)] by blast
    have "simulator_run env cycles faults command duration_s s = Inr (set_elapsed (final_notes env (final_verdict t)))"
      using True a b t(1) by (simp add: simulator_run_def Let_def deadline_def legacy_def)
    then show ?thesis
      using True t a b by (intro finished [of t]) (simp_all add: same_scan_def same_config_def)
  qed
qed

subsection \<open>An accessory that answers\<close>

text \<open>
  A concrete environment for the witnesses: the transport remembers the last frame written and
  answers a bus scan and a status poll the way the accessory does.
\<close>

definition accessory_reply :: "bytes \<Rightarrow> bytes" where
  "accessory_reply request =
     (if length request = 19 then append_crc ([0x02, 0x17, 10] @ DEFAULT_SCAN_SIGNATURE)
      else if length request = 17
      then append_crc ([0x02, 0x17, 16, request ! 11] @ replicate 15 0)
      else [])"

definition accessory_env :: "bytes env" where
  "accessory_env =
     \<lparr>e_write = \<lambda>data _. (1000, data), e_read_available = \<lambda>_ t. (accessory_reply t, 1000, []),
      e_command = \<lambda>_ t. (Inr ''OK'', 1000, t), e_command_sender = None, e_advance_time_us = None,
      e_oversleep = \<lambda>_. 0, e_uniform = \<lambda>_. 1, e_randrange = \<lambda>_ _. 0, e_class_name = ''PtyHostTransport'',
      e_low_latency_enabled = False, e_low_latency_error = None\<rparr>"

definition calm :: "bytes sim \<Rightarrow> bool" where
  "calm s \<longleftrightarrow> s_rx_buffer s = [] \<and> s_response_timeout_s s = 3 / 100 \<and> s_slave_id s = 0x02 \<and>
     verdict_ok s \<and> r_fault_unexpected_responses (s_report s) = 0 \<and>
     r_consecutive_misses (s_report s) = 0 \<and> s_counter_profile s = ''official-7bit'' \<and>
     s_scenario s = ''steady'' \<and> s_scenario_actions s = [] \<and> s_fault_every_cycles s = 0 \<and>
     s_fault_cycles s = {} \<and> s_expected_buttons s = {} \<and> s_missed_poll_threshold s = 5"

lemma calm_elapse: "calm (elapse n s) = calm s"
  by (simp add: calm_def elapse_def verdict_ok_def)

lemma calm_transport: "calm (s\<lparr>s_transport := t\<rparr>) = calm s"
  by (simp add: calm_def verdict_ok_def)

lemma calm_sleep: "calm s \<Longrightarrow> calm (scaled_sleep accessory_env gap False s)"
  by (simp add: scaled_sleep_def accessory_env_def Let_def calm_elapse)

lemma accessory_write:
  "write_frame accessory_env frame False s = elapse 1000 (s\<lparr>s_transport := frame\<rparr>)"
  by (simp add: write_frame_def transport_write_def accessory_env_def)

lemma accessory_read:
  assumes "calm s" and "crc_ok (accessory_reply (s_transport s))"
    and "response_expected_len (accessory_reply (s_transport s)) = Some (int (length (accessory_reply (s_transport s))))"
    and "accepts m (accessory_reply (s_transport s))"
  shows "read_response accessory_env None m ctx s =
    (Some (accessory_reply (s_transport s)), elapse 1000 (s\<lparr>s_transport := []\<rparr>))"
proof -
  let ?f = "accessory_reply (s_transport s)"
  have "scan_head response_expected_len crc_ok ?f = Frame ?f"
    using assms(2,3) by (simp add: scan_head_def)
  then have "drain_rx m ctx (?f, r) = (Some ?f, [], r)" for r
    using assms(4) by (simp add: drain_rx_head [of m ctx ?f])
  then have "read_attempt accessory_env deadline m ctx s = (Some ?f, elapse 1000 (s\<lparr>s_transport := []\<rparr>))" for deadline
    using assms(1)
    by (simp add: read_attempt_def drain_sim_eq read_chunk_def accessory_env_def elapse_def calm_def)
  moreover have "s_response_timeout_s s = 3 / 100"
    using assms(1) by (simp add: calm_def)
  ultimately show ?thesis
    by (simp add: read_response_def read_until.simps [of accessory_env _ m ctx s])
qed

lemma accessory_scan:
  assumes "calm s"
  shows "\<exists>s'. run_bus_scan accessory_env s = Inr s' \<and> calm s' \<and> r_scan_ok (s_report s')"
proof -
  define w where "w = elapse 1000 (s\<lparr>s_transport := bus_scan_request (s_slave_id s) 0x01 None\<rparr>)"
  have w: "calm w" "s_transport w = bus_scan_request (s_slave_id s) 0x01 None"
    using assms by (simp_all add: w_def calm_elapse calm_transport) (simp add: elapse_def)
  have reply: "accessory_reply (s_transport w) = append_crc ([0x02, 0x17, 10] @ DEFAULT_SCAN_SIGNATURE)"
    by (simp add: accessory_reply_def w(2) bus_scan_request_def Let_def)
  have slave: "s_slave_id s = 0x02" using assms by (simp add: calm_def)
  have "read_response accessory_env None (Some (\<lambda>r. r = append_crc ([0x02, 0x17, 10] @ DEFAULT_SCAN_SIGNATURE))) ctx w =
      (Some (append_crc ([0x02, 0x17, 10] @ DEFAULT_SCAN_SIGNATURE)), elapse 1000 (w\<lparr>s_transport := []\<rparr>))" for ctx
    using accessory_read [OF w(1), of "Some (\<lambda>r. r = append_crc ([0x02, 0x17, 10] @ DEFAULT_SCAN_SIGNATURE))" ctx]
    by (simp add: reply accepts_def frame_simps response_expected_len_def const_defs)
  then have "run_bus_scan accessory_env s = Inr (upd_report
      (\<lambda>r. record_latency (elapsed_ms (monotonic s) (elapse 1000 (w\<lparr>s_transport := []\<rparr>))) (r\<lparr>r_scan_ok := True\<rparr>))
      (elapse 1000 (w\<lparr>s_transport := []\<rparr>)))"
    by (simp add: run_bus_scan_def scan_response_default slave accessory_write w_def [unfolded slave, symmetric])
  then show ?thesis
    using w(1) by (simp add: calm_def elapse_def verdict_ok_def upd_report_def)
qed

lemma accessory_poll:
  assumes "calm s" and "0 \<le> counter" and "counter < 128"
  shows "calm (send_status_poll accessory_env counter False s) \<and>
    r_scan_ok (s_report (send_status_poll accessory_env counter False s)) = r_scan_ok (s_report s)"
proof -
  define s1 where "s1 = upd_report (\<lambda>r. r\<lparr>r_polls_sent := r_polls_sent r + 1\<rparr>) s"
  define w where "w = elapse 1000 (s1\<lparr>s_transport := status_poll counter (s_slave_id s)\<rparr>)"
  have w: "calm w" "s_transport w = status_poll counter (s_slave_id s)"
    using assms(1) by (simp_all add: w_def s1_def calm_def elapse_def upd_report_def verdict_ok_def)
  define f where "f = append_crc ([0x02, 0x17, 16, byte_of counter] @ replicate 15 0)"
  have reply: "accessory_reply (s_transport w) = f"
    by (simp add: accessory_reply_def w(2) f_def) (simp add: status_poll_def frame_simps)
  have facts: "crc_ok f" "response_expected_len f = Some (int (length f))" "decode_response_kind f = ''status''"
      "response_counter f = Some counter"
    using assms(2,3) by (simp_all add: f_def frame_simps response_expected_len_def decode_response_kind_def
        response_counter_def const_defs byte_of_small)
  have button: "decode_status_button_phase f = None"
    by (simp add: decode_status_button_phase_def f_def frame_simps BUTTON_STATUS_PHASES_def nth_append)
  have "read_response accessory_env None (Some (status_match counter)) ctx w =
      (Some f, elapse 1000 (w\<lparr>s_transport := []\<rparr>))" for ctx
    using accessory_read [OF w(1), of "Some (status_match counter)" ctx] facts
    by (simp add: reply accepts_def status_match_def)
  then have "send_status_poll accessory_env counter False s =
      upd_report (record_reply (elapsed_ms (monotonic s1) (apply_status_button f (elapse 1000 (w\<lparr>s_transport := []\<rparr>)))))
        (apply_status_button f (elapse 1000 (w\<lparr>s_transport := []\<rparr>)))"
    unfolding send_status_poll_def Let_def s1_def [symmetric] accessory_write w_def [symmetric] by simp
  then show ?thesis
    using assms(1) by (simp add: apply_status_button_none [OF button] w_def s1_def calm_def elapse_def
        upd_report_def verdict_ok_def record_reply_def Let_def)
qed

lemma accessory_cycle:
  assumes "calm s" and "0 \<le> cycle"
  shows "\<exists>s'. run_cycle accessory_env cycle {} False s = Inr s' \<and> calm s' \<and>
    r_scan_ok (s_report s') = r_scan_ok (s_report s)"
proof -
  define a where "a = scaled_sleep accessory_env BROADCAST_TO_POLL_GAP_US False
    (write_frame accessory_env (broadcast_status (broadcast_for_cycle cycle s)) False s)"
  have a: "calm a"
    unfolding a_def by (rule calm_sleep) (simp add: accessory_write calm_elapse calm_transport assms(1))
  define counter where "counter = cycle mod 127 + 1"
  have counter: "0 \<le> counter" "counter < 128"
    by (simp_all add: counter_def)
  have sc: "status_counter_for_cycle cycle (s_counter_profile a) = Inr counter"
    using a assms(2) by (simp add: status_counter_for_cycle_def calm_def counter_def)
  define b where "b = send_status_poll accessory_env counter False a"
  have b: "calm b" "r_scan_ok (s_report b) = r_scan_ok (s_report a)"
    using accessory_poll [OF a counter] by (simp_all add: b_def)
  have "inject_faults accessory_env {} counter a = a"
    by (simp add: inject_faults_def inject_bad_frames_def inject_fault_def Let_def)
  moreover have "run_actions accessory_env (scheduled_actions cycle a) a = (False, a)"
    using a by (simp add: scheduled_actions_def calm_def)
  moreover have "goto_stop accessory_env cycle st a = (False, a)" for st
    using a by (simp add: goto_stop_def calm_def)
  moreover have "finish_cycle accessory_env cycle counter {} False a =
      scaled_sleep accessory_env POLL_TO_NEXT_BROADCAST_GAP_US False (b\<lparr>s_door := door_tick (s_door b)\<rparr>)"
    using b(1) by (simp add: finish_cycle_def b_def [symmetric] Let_def calm_def)
  ultimately have "run_cycle accessory_env cycle {} False s = Inr
      (scaled_sleep accessory_env POLL_TO_NEXT_BROADCAST_GAP_US False (b\<lparr>s_door := door_tick (s_door b)\<rparr>))"
    unfolding run_cycle_def Let_def by (simp add: a_def [symmetric] sc)
  moreover have "calm (b\<lparr>s_door := door_tick (s_door b)\<rparr>)"
    using b(1) by (simp add: calm_def verdict_ok_def)
  moreover have "same_scan (b\<lparr>s_door := d\<rparr>) (scaled_sleep accessory_env g False (b\<lparr>s_door := d\<rparr>))" for g d
    by (rule scan.R_quiet [OF quiet_scaled_sleep])
  moreover have "same_scan s a"
    unfolding a_def by (rule scan.R_quiet [OF quiet_trans [OF quiet_write_frame quiet_scaled_sleep]])
  ultimately show ?thesis
    using calm_sleep b(2) by (simp add: same_scan_def)
qed

lemma accessory_loop:
  assumes "calm s" and "0 \<le> cycle"
  shows "\<exists>s'. run_loop accessory_env cycles None {} False cycle s = Inr s' \<and> calm s' \<and>
    r_scan_ok (s_report s') = r_scan_ok (s_report s)"
  using assms
proof (induction "nat (cycles - cycle)" arbitrary: cycle s)
  case 0
  then show ?case
    by (simp add: run_loop.simps [of accessory_env cycles None] deadline_reached_def calm_def)
next
  case (Suc n)
  obtain t where t: "run_cycle accessory_env cycle {} False s = Inr t" "calm t"
      "r_scan_ok (s_report t) = r_scan_ok (s_report s)"
    using accessory_cycle [OF Suc.prems] by blast
  have "\<not> deadline_reached None cycles cycle s" "verdict_ok s"
      "\<not> s_missed_poll_threshold s \<le> r_consecutive_misses (s_report s)"
    using Suc.hyps(2) Suc.prems(1) by (simp_all add: deadline_reached_def calm_def)
  then have "run_loop accessory_env cycles None {} False cycle s =
      run_loop accessory_env cycles None {} False (cycle + 1) t"
    using t(1) by (simp add: run_loop.simps [of accessory_env cycles None _ _ cycle])
  moreover have "n = nat (cycles - (cycle + 1))" "0 \<le> cycle + 1"
    using Suc.hyps(2) Suc.prems(2) by simp_all
  ultimately show ?case
    using Suc.hyps(1) [OF _ t(2)] t(3) by simp
qed

definition example_options :: sim_options where
  "example_options = default_options"

lemma example_options_ok: "options_ok example_options" "o_expected_buttons example_options = {}"
  by (simp_all add: options_ok_def example_options_def default_options_def COUNTER_PROFILES_def
      SCENARIOS_def DEFAULT_COUNTER_PROFILE_def)

lemma calm_run_ok:
  assumes calm: "calm s"
  shows "\<exists>s'. simulator_run accessory_env cycles {} None None s = Inr s' \<and> r_verdict (s_report s') = ''ok''"
proof -
  obtain a where a: "run_bus_scan accessory_env s = Inr a" "calm a" "r_scan_ok (s_report a)"
    using accessory_scan [OF calm] by blast
  obtain t where t: "run_loop accessory_env cycles None {} False 0 a = Inr t" "calm t"
    using accessory_loop [OF a(2)] by blast
  have "final_verdict t = t"
    using t(2) by (simp add: final_verdict_def missing_buttons_def calm_def apply_scenario_verdict_def)
  then have "simulator_run accessory_env cycles {} None None s = Inr (set_elapsed (final_notes accessory_env t))"
    using a t(1) by (simp add: simulator_run_def start_scenario_def)
  then show ?thesis
    using t(2) by (simp add: set_elapsed_sel final_notes_sel calm_def verdict_ok_def)
qed

subsection \<open>Properties\<close>

lemma accessory_run_ok:
  assumes "SupraMaticSimulator [] 0 example_options = Inr s"
  shows "\<exists>s'. simulator_run accessory_env cycles {} None None s = Inr s' \<and> r_verdict (s_report s') = ''ok''"
proof (rule calm_run_ok)
  show "calm s"
    using assms by (auto simp: SupraMaticSimulator_def example_options_def default_options_def
        build_scenario_actions_def SCENARIOS_def COUNTER_PROFILES_def calm_def verdict_ok_def
        SimulationReport_def const_defs split: sum.splits)
qed

text \<open>C28: how the transport splits the bytes does not matter to the receiver: draining two chunks
  one after the other gives the frame, the buffer and the report that draining their
  concatenation gives.\<close>

theorem drain_rx_chunking:
  "drain_rx match ctx (a @ b, r) =
     (case drain_rx match ctx (a, r) of
        (Some frame, rest, r') \<Rightarrow> (Some frame, rest @ b, r')
      | (None, rest, r') \<Rightarrow> drain_rx match ctx (rest @ b, r'))"
proof (cases "fst (drain_rx match ctx (a, r))")
  case None
  then show ?thesis
    using drain_rx_append [OF None, of b] by (cases "drain_rx match ctx (a, r)") simp
next
  case (Some frame)
  then show ?thesis
    using drain_rx_append_frame [OF Some, of b] by (cases "drain_rx match ctx (a, r)") simp
qed

text \<open>a status poll counts as exactly one reply or exactly one miss, and as a reply only when a
  frame was received that passes the CRC check, is a status reply and carries the poll's counter.\<close>

theorem status_poll_accounting:
  "let s' = send_status_poll env counter split s
   in (r_replies (s_report s') = r_replies (s_report s) + 1 \<and> r_misses (s_report s') = r_misses (s_report s) \<and>
       r_consecutive_misses (s_report s') = 0 \<and>
       (\<exists>frame. crc_ok frame \<and> decode_response_kind frame = ''status'' \<and> response_counter frame = Some counter)) \<or>
      (r_replies (s_report s') = r_replies (s_report s) \<and> r_misses (s_report s') = r_misses (s_report s) + 1 \<and>
       r_consecutive_misses (s_report s') = r_consecutive_misses (s_report s) + 1)"
proof (cases rule: send_status_poll_cases [where s = s and env = env and counter = counter and split = split])
  case (reply mid response start)
  show ?thesis
    unfolding reply(6) using reply(3,4) report_core_eqD(2-4) [OF quietD(6) [OF reply(1)]]
    by (auto simp: record_reply_def status_match_def Let_def)
next
  case (miss mid)
  show ?thesis
    unfolding miss(3) using report_core_eqD(2-4) [OF quietD(6) [OF miss(1)]]
    by (simp add: record_miss_def Let_def add_note_def)
qed

lemma run_returns:
  assumes "options_ok o1"
  shows "\<exists>s s'. SupraMaticSimulator transport now o1 = Inr s \<and>
    simulator_run env cycles faults command duration_s s = Inr s' \<and> sim_inv s'"
proof -
  obtain s where s: "SupraMaticSimulator transport now o1 = Inr s" "fresh s"
    using assms by (rule constructor_ok)
  show ?thesis
    using s(2)
  proof (cases rule: simulator_run_shape [where env = env and cycles = cycles and faults = faults
        and command = command and duration_s = duration_s])
    case (scan_failed t)
    then show ?thesis
      using s(1) by (auto simp: set_elapsed_def final_inv)
  next
    case (finished t)
    then show ?thesis
      using s(1) sim_inv_final by blast
  qed
qed



lemma run_ok_facts:
  assumes "options_ok o1" and "finite (o_expected_buttons o1)"
    and "SupraMaticSimulator transport now o1 = Inr s"
    and "simulator_run env cycles faults command duration_s s = Inr s'"
    and "r_verdict (s_report s') = ''ok''"
  shows "r_scan_ok (s_report s') \<and>
    (\<forall>b \<in> o_expected_buttons o1. r_button_observations (s_report s') b \<noteq> None) \<and>
    r_fault_unexpected_responses (s_report s') = 0 \<and>
    (o_strict_scenario_verdict o1 \<and> o_scenario o1 \<noteq> ''steady'' \<longrightarrow>
      s_scenario s' = o_scenario o1 \<and> scenario_reached s')"
proof -
  obtain s0 where "SupraMaticSimulator transport now o1 = Inr s0" "fresh s0"
      "s_expected_buttons s0 = o_expected_buttons o1" "s_scenario s0 = o_scenario o1"
      "s_strict_scenario_verdict s0 = o_strict_scenario_verdict o1"
    using assms(1) by (rule constructor_ok)
  then have s: "fresh s" "s_expected_buttons s = o_expected_buttons o1" "s_scenario s = o_scenario o1"
      "s_strict_scenario_verdict s = o_strict_scenario_verdict o1"
    using assms(3) by simp_all
  show ?thesis
    using s(1)
  proof (cases rule: simulator_run_shape [where env = env and cycles = cycles and faults = faults
        and command = command and duration_s = duration_s])
    case (scan_failed t)
    then show ?thesis using assms(4,5) by (simp add: set_elapsed_sel)
  next
    case (finished t)
    then have s': "s' = set_elapsed (final_notes env (final_verdict t))"
      using assms(4) by simp
    then have "verdict_ok (final_verdict t)"
      using assms(5) by (simp add: verdict_ok_def set_elapsed_sel final_notes_sel)
    note ok = final_verdict_ok [OF this finished(2)]
    have "scenario_reached s' = scenario_reached (final_verdict t)"
      by (simp add: s' scenario_reached_def set_elapsed_sel final_notes_sel)
    then show ?thesis
      using ok finished(1,3,6) s(2-4) assms(2) by (simp add: s' set_elapsed_sel final_notes_sel)
  qed
qed

text \<open>C1: the verdict \<open>ok\<close> means what it says: the bus scan succeeded, every expected button was
  observed, no injected fault was answered, and under the strict verdict the door is where the
  scenario sends it.\<close>

theorem verdict_ok_sound:
  assumes "options_ok o1" and "finite (o_expected_buttons o1)"
    and "SupraMaticSimulator transport now o1 = Inr s"
    and "simulator_run env cycles faults command duration_s s = Inr s'"
    and "r_verdict (s_report s') = ''ok''"
  shows "r_scan_ok (s_report s') \<and>
    (\<forall>b \<in> o_expected_buttons o1. r_button_observations (s_report s') b \<noteq> None) \<and>
    r_fault_unexpected_responses (s_report s') = 0 \<and>
    (o_strict_scenario_verdict o1 \<and> o_scenario o1 \<noteq> ''steady'' \<longrightarrow>
      s_scenario s' = o_scenario o1 \<and> scenario_reached s')"
  using assms by (rule run_ok_facts)

theorem verdict_ok_sound_witness:
  "\<exists>s s'. SupraMaticSimulator [] 0 example_options = Inr s \<and>
    simulator_run accessory_env 3 {} None None s = Inr s' \<and> r_scan_ok (s_report s')"
proof -
  obtain s :: "bytes sim" where s: "SupraMaticSimulator [] 0 example_options = Inr s"
    using example_options_ok(1) by (rule constructor_ok)
  obtain s' where s': "simulator_run accessory_env 3 {} None None s = Inr s'" "r_verdict (s_report s') = ''ok''"
    using accessory_run_ok [OF s] by blast
  have "finite (o_expected_buttons example_options)" by (simp add: example_options_ok(2))
  from verdict_ok_sound [OF example_options_ok(1) this s s'] show ?thesis
    using s s'(1) by blast
qed

lemma run_ok_misses:
  assumes "options_ok o1" and "finite (o_expected_buttons o1)" and "''duplicate'' \<notin> faults"
    and "SupraMaticSimulator transport now o1 = Inr s"
    and "simulator_run env cycles faults command duration_s s = Inr s'"
    and "r_verdict (s_report s') = ''ok''"
  shows "r_max_consecutive_misses (s_report s') < o_missed_poll_threshold o1"
proof -
  obtain s0 where "SupraMaticSimulator transport now o1 = Inr s0" "fresh s0"
      "s_expected_buttons s0 = o_expected_buttons o1" "s_missed_poll_threshold s0 = o_missed_poll_threshold o1"
    using assms(1) by (rule constructor_ok)
  then have s: "fresh s" "s_expected_buttons s = o_expected_buttons o1"
      "s_missed_poll_threshold s = o_missed_poll_threshold o1"
    using assms(4) by simp_all
  show ?thesis
    using s(1)
  proof (cases rule: simulator_run_shape [where env = env and cycles = cycles and faults = faults
        and command = command and duration_s = duration_s])
    case (scan_failed t)
    then show ?thesis using assms(5,6) by (simp add: set_elapsed_sel)
  next
    case (finished t)
    then have s': "s' = set_elapsed (final_notes env (final_verdict t))"
      using assms(5) by simp
    then have "verdict_ok (final_verdict t)"
      using assms(6) by (simp add: verdict_ok_def set_elapsed_sel final_notes_sel)
    note ok = final_verdict_ok [OF this finished(2)]
    have "miss_limit t" using finished(5) assms(3) by simp
    then show ?thesis
      using ok finished(3,4) s(2,3) assms(2)
      by (simp add: s' set_elapsed_sel final_notes_sel miss_limit_def)
  qed
qed

text \<open>an \<open>ok\<close> run without injected duplicates never missed as many polls in a row as the
  threshold: not only at its end, at no point of the run.\<close>

theorem verdict_ok_max_misses:
  assumes "options_ok o1" and "finite (o_expected_buttons o1)" and "''duplicate'' \<notin> faults"
    and "SupraMaticSimulator transport now o1 = Inr s"
    and "simulator_run env cycles faults command duration_s s = Inr s'"
    and "r_verdict (s_report s') = ''ok''"
  shows "r_max_consecutive_misses (s_report s') < o_missed_poll_threshold o1"
  using assms by (rule run_ok_misses)

theorem verdict_ok_max_misses_witness:
  "\<exists>s s'. SupraMaticSimulator [] 0 example_options = Inr s \<and>
    simulator_run accessory_env 3 {} None None s = Inr s' \<and> r_max_consecutive_misses (s_report s') < 5"
proof -
  obtain s :: "bytes sim" where s: "SupraMaticSimulator [] 0 example_options = Inr s"
    using example_options_ok(1) by (rule constructor_ok)
  obtain s' where s': "simulator_run accessory_env 3 {} None None s = Inr s'" "r_verdict (s_report s') = ''ok''"
    using accessory_run_ok [OF s] by blast
  have "finite (o_expected_buttons example_options)" by (simp add: example_options_ok(2))
  from verdict_ok_max_misses [OF example_options_ok(1) this _ s s'] show ?thesis
    using s s'(1) by (auto simp: example_options_def default_options_def DEFAULT_MISSED_POLL_THRESHOLD_def)
qed

text \<open>a button that is held down acts on the door once: however many status replies in a row
  report the press, the door receives the command a single time.\<close>

theorem held_press_commands_once:
  assumes "decode_status_button_phase response = Some (button, ''press'')"
    and "button \<notin> s_active_button_presses s"
  shows "s_door ((apply_status_button response ^^ Suc n) s) = door_command ''accessory'' button (s_door s) \<and>
    button \<in> s_active_button_presses ((apply_status_button response ^^ Suc n) s)"
proof (induction n)
  case 0
  then show ?case
    using assms by (simp add: apply_status_button_some [OF assms(1)] Let_def)
next
  case (Suc n)
  let ?t = "(apply_status_button response ^^ Suc n) s"
  have "apply_status_button response ?t = upd_report (count_button button ''press'') ?t"
    unfolding apply_status_button_some [OF assms(1), of ?t] Let_def using conjunct2 [OF Suc.IH]
    by (simp only: simp_thms if_True)
  then show ?case
    using Suc.IH by (simp only: funpow.simps(2) o_apply upd_report_sel)
qed

theorem held_press_commands_once_witness:
  "\<exists>s :: bytes sim. SupraMaticSimulator [] 0 example_options = Inr s \<and>
    s_door ((apply_status_button (append_crc [2, 0x17, 16, 1, 0, 3, 0, 2, 0x10, 0, 0, 0, 0, 0, 0, 0, 0, 0, 0]) ^^ 3) s) =
      door_command ''accessory'' ''open'' (s_door s)"
proof -
  let ?f = "append_crc [2, 0x17, 16, 1, 0, 3, 0, 2, 0x10, 0, 0, 0, 0, 0, 0, 0, 0, 0, 0]"
  obtain s :: "bytes sim" where s: "SupraMaticSimulator [] 0 example_options = Inr s"
    using example_options_ok(1) by (rule constructor_ok)
  then have "s_active_button_presses s = {}"
    by (auto simp: SupraMaticSimulator_def split: if_splits sum.splits)
  then have "''open'' \<notin> s_active_button_presses s" by simp
  moreover have "decode_status_button_phase ?f = Some (''open'', ''press'')"
    by (simp add: decode_status_button_phase_def decode_response_kind_def frame_simps
        BUTTON_STATUS_PHASES_def const_defs)
  ultimately show ?thesis
    using s held_press_commands_once [of ?f "''open''" s 2] by (auto simp: numeral_3_eq_3)
qed

text \<open>On sorted latencies every percentile between 0 and 100 exists and lies between the
  smallest and the largest value.\<close>

lemma percentile_bounds:
  assumes "sorted xs" and "xs \<noteq> []" and "0 \<le> pct" and "pct \<le> 100"
  shows "\<exists>v. percentile xs pct = Some v \<and> hd xs \<le> v \<and> v \<le> last xs"
proof (cases "length xs = 1")
  case True
  then show ?thesis by (cases xs) (auto simp: percentile_def)
next
  case False
  define n where "n = length xs - 1"
  have n: "0 < n" "length xs = Suc n"
    using assms(2) False by (cases xs; simp add: n_def)+
  define rank :: rat where "rank = (of_int pct / 100) * of_nat n"
  have rank: "0 \<le> rank" "rank \<le> of_nat n"
    using assms(3,4) mult_right_mono [of "of_int pct / 100 :: rat" 1 "of_nat n"] by (simp_all add: rank_def)
  have low: "nat \<lfloor>rank\<rfloor> \<le> n" and high: "nat \<lceil>rank\<rceil> \<le> n"
    using rank by (simp_all add: floor_le_iff ceiling_le_iff nat_le_iff)
  have between: "hd xs \<le> xs ! i \<and> xs ! i \<le> last xs" if "i \<le> n" for i
    using sorted_nth_mono [OF assms(1), of 0 i] sorted_nth_mono [OF assms(1), of i n] that n assms(2)
    by (simp add: hd_conv_nth last_conv_nth)
  have eq: "percentile xs pct = (if \<lfloor>rank\<rfloor> = \<lceil>rank\<rceil> then Some (xs ! nat \<lfloor>rank\<rfloor>)
      else Some (xs ! nat \<lfloor>rank\<rfloor> * (1 - (rank - of_int \<lfloor>rank\<rfloor>)) +
        xs ! nat \<lceil>rank\<rceil> * (rank - of_int \<lfloor>rank\<rfloor>)))"
    using False assms(2) unfolding percentile_def Let_def n_def [symmetric] rank_def [symmetric]
    by (simp only: if_False)
  show ?thesis
  proof (cases "\<lfloor>rank\<rfloor> = \<lceil>rank\<rceil>")
    case True
    then show ?thesis
      using between [OF low] by (simp add: eq)
  next
    case ne: False
    define w where "w = rank - of_int \<lfloor>rank\<rfloor>"
    have w: "0 \<le> w" "w \<le> 1" unfolding w_def by linarith+
    let ?v = "xs ! nat \<lfloor>rank\<rfloor> * (1 - w) + xs ! nat \<lceil>rank\<rceil> * w"
    have "hd xs * (1 - w) + hd xs * w \<le> ?v" "?v \<le> last xs * (1 - w) + last xs * w"
      using between [OF low] between [OF high] w by (intro add_mono mult_right_mono; simp)+
    then have "hd xs \<le> ?v" "?v \<le> last xs"
      by (simp_all add: algebra_simps)
    then show ?thesis
      using ne by (simp only: eq if_False w_def [symmetric]) blast
  qed
qed

end
