(* ===== verification/Hil_La.thy ===== *)
theory Hil_La
  imports Hcp2_Protocol
begin

text \<open>
  \<open>tools/hcp2_hil_la.py\<close>: the checker of logic-analyser captures.  Samples are times (rationals, in
  seconds) with the levels of the logical channels; the model covers the channel map, the windows
  and transitions, the 8E1 decoder, the master frame scanner, the latency pairing, and the
  electrical and combined verdicts.  Reading CSV and JSON files is not modelled.
\<close>

subsection \<open>Samples and channels\<close>

record la_sample =
  sm_time :: rat
  sm_values :: "string \<rightharpoonup> int"

record window =
  w_start :: rat
  w_end :: rat

definition DEFAULT_CHANNELS :: "(string \<times> string) list" where
  "DEFAULT_CHANNELS = [(''de'', ''D0''), (''re'', ''D1''), (''tx'', ''D2''), (''rx'', ''D3'')]"

definition DEFAULT_MAX_DE_HIGH_US :: rat where [const_defs]: "DEFAULT_MAX_DE_HIGH_US = 9000"
definition DEFAULT_RE_SKEW_US :: rat where [const_defs]: "DEFAULT_RE_SKEW_US = 2"
definition DEFAULT_HCP2_BAUD :: int where [const_defs]: "DEFAULT_HCP2_BAUD = 57600"
definition MIN_UART_SAMPLES_PER_BIT :: rat where [const_defs]: "MIN_UART_SAMPLES_PER_BIT = 8"

definition duration_us :: "window \<Rightarrow> rat" where
  "duration_us w = (w_end w - w_start w) * 1000000"

definition normalize_channel_name :: "string \<Rightarrow> string" where
  "normalize_channel_name name =
     (let normalized = py_lower (py_strip name);
          normalized = py_replace_char CHR ''/'' [] normalized;
          normalized = py_replace_char CHR '' '' ''_'' normalized;
          normalized = py_replace_char CHR ''-'' ''_'' normalized
      in if normalized \<in> {''time'', ''time_s'', ''times'', ''time_sec'', ''timesec'', ''sample_time''}
         then ''time_s'' else normalized)"

fun parse_channel_items :: "string list \<Rightarrow> (string \<rightharpoonup> string) \<Rightarrow> (string \<rightharpoonup> string) result" where
  "parse_channel_items [] m = Inr m"
| "parse_channel_items (item # items) m =
     (if py_strip item = [] then parse_channel_items items m
      else if CHR ''='' \<notin> set item
      then Inl (ValueError (''channel mapping must be name=source, got '' @ item))
      else case py_split1 CHR ''='' item of
        (name, source) \<Rightarrow>
          let normalized_name = normalize_channel_name name
          in if normalized_name \<notin> {''de'', ''re'', ''tx'', ''rx''}
             then Inl (ValueError (''unknown logical channel '' @ name))
             else parse_channel_items items (m(normalized_name \<mapsto> py_strip source)))"

definition parse_channel_map :: "string \<Rightarrow> (string \<rightharpoonup> string) result" where
  "parse_channel_map txt =
     (if txt = [] then Inr (map_of DEFAULT_CHANNELS)
      else parse_channel_items (py_split CHR '','' txt) Map.empty)"

text \<open>\<open>parse_logic_value\<close> on the value types that reach it: booleans, numbers and text.\<close>

datatype logic_value = LV_Bool bool | LV_Number rat | LV_Text string

definition parse_logic_value :: "logic_value \<Rightarrow> int result" where
  "parse_logic_value v =
     (case v of
        LV_Bool b \<Rightarrow> Inr (if b then 1 else 0)
      | LV_Number x \<Rightarrow> Inr (if (if 0 \<le> x then \<lfloor>x\<rfloor> else \<lceil>x\<rceil>) \<noteq> 0 then 1 else 0)
      | LV_Text t \<Rightarrow>
          let txt = py_lower (py_strip t)
          in if txt \<in> {''1'', ''true'', ''high'', ''h''} then Inr 1
             else if txt \<in> {''0'', ''false'', ''low'', ''l''} then Inr 0
             else Inl (ValueError (''invalid logic value '' @ t)))"

subsection \<open>Sampling rate\<close>

fun sample_deltas :: "nat \<Rightarrow> rat \<Rightarrow> la_sample list \<Rightarrow> rat list" where
  "sample_deltas room previous [] = []"
| "sample_deltas 0 previous (s # ss) = []"
| "sample_deltas (Suc room) previous (s # ss) =
     (let delta = sm_time s - previous
      in if delta \<le> 0 then sample_deltas (Suc room) (sm_time s) ss
         else delta # sample_deltas room (sm_time s) ss)"

definition estimate_uniform_sample_rate_hz :: "nat \<Rightarrow> la_sample list \<Rightarrow> rat option" where
  "estimate_uniform_sample_rate_hz max_deltas samples =
     (let deltas = sample_deltas max_deltas (sm_time (hd samples)) (tl samples)
      in if deltas = [] then None
         else
           let nominal = Min (set deltas);
               tolerance = max (nominal * (5 / 100)) (1 / 1000000000000);
               uniform = length (filter (\<lambda>delta. \<bar>delta - nominal\<bar> \<le> tolerance) deltas)
           in if (of_nat uniform :: rat) / of_nat (length deltas) < 80 / 100 then None
              else Some (1 / nominal))"

record sampling_report =
  sp_sample_rate_hz :: "rat option"
  sp_samples_per_bit :: "rat option"
  sp_too_slow :: bool

definition uart_sampling_report :: "la_sample list \<Rightarrow> int \<Rightarrow> sampling_report" where
  "uart_sampling_report samples baud =
     (let sample_rate_hz = estimate_uniform_sample_rate_hz 4096 samples;
          samples_per_bit = map_option (\<lambda>r. r / of_int baud) sample_rate_hz
      in \<lparr>sp_sample_rate_hz = sample_rate_hz, sp_samples_per_bit = samples_per_bit,
          sp_too_slow = (case samples_per_bit of None \<Rightarrow> False | Some n \<Rightarrow> n < MIN_UART_SAMPLES_PER_BIT)\<rparr>)"

subsection \<open>Windows, transitions and levels\<close>

definition value_at :: "la_sample \<Rightarrow> string \<Rightarrow> int option" where
  "value_at sample channel = sm_values sample channel"

definition has_channel :: "la_sample list \<Rightarrow> string \<Rightarrow> bool" where
  "has_channel samples channel \<longleftrightarrow> (\<exists>s \<in> set samples. value_at s channel \<noteq> None)"

definition require_channel :: "la_sample list \<Rightarrow> string \<Rightarrow> unit result" where
  "require_channel samples channel =
     (if has_channel samples channel then Inr ()
      else Inl (ValueError (''capture does not contain channel '' @ channel)))"

fun high_loop ::
  "string \<Rightarrow> la_sample list \<Rightarrow> int option \<Rightarrow> rat option \<Rightarrow> window list \<Rightarrow> int option \<times> rat option \<times> window list"
where
  "high_loop channel [] level start_s windows = (level, start_s, windows)"
| "high_loop channel (sample # rest) level start_s windows =
     (case value_at sample channel of
        None \<Rightarrow> high_loop channel rest level start_s windows
      | Some current \<Rightarrow>
          if level = Some 0 \<and> current = 1
          then high_loop channel rest (Some current) (Some (sm_time sample)) windows
          else if level = Some 1 \<and> current = 0 \<and> start_s \<noteq> None
          then high_loop channel rest (Some current) None
                 (windows @ [\<lparr>w_start = the start_s, w_end = sm_time sample\<rparr>])
          else high_loop channel rest (Some current) start_s windows)"

definition high_windows_of :: "la_sample list \<Rightarrow> string \<Rightarrow> window list" where
  "high_windows_of samples channel =
     (let previous = hd samples;
          level = value_at previous channel;
          start_s = (if level = Some 1 then Some (sm_time previous) else None)
      in case high_loop channel (tl samples) level start_s [] of
           (level, start_s, windows) \<Rightarrow>
             if level = Some 1 \<and> start_s \<noteq> None
             then windows @ [\<lparr>w_start = the start_s, w_end = sm_time (last samples)\<rparr>]
             else windows)"

definition high_windows :: "la_sample list \<Rightarrow> string \<Rightarrow> window list result" where
  "high_windows samples channel =
     (case require_channel samples channel of
        Inl e \<Rightarrow> Inl e
      | Inr _ \<Rightarrow> Inr (high_windows_of samples channel))"

fun edge_loop :: "string \<Rightarrow> la_sample list \<Rightarrow> int option \<Rightarrow> (rat \<times> int \<times> int) list" where
  "edge_loop channel [] prev = []"
| "edge_loop channel (sample # rest) prev =
     (case value_at sample channel of
        None \<Rightarrow> edge_loop channel rest prev
      | Some current \<Rightarrow>
          (case prev of
             Some before \<Rightarrow>
               (if current \<noteq> before then [(sm_time sample, before, current)] else [])
           | None \<Rightarrow> []) @ edge_loop channel rest (Some current))"

definition transition_edges :: "la_sample list \<Rightarrow> string \<Rightarrow> (rat \<times> int \<times> int) list result" where
  "transition_edges samples channel =
     (case require_channel samples channel of
        Inl e \<Rightarrow> Inl e
      | Inr _ \<Rightarrow> Inr (edge_loop channel (tl samples) (value_at (hd samples) channel)))"

definition transition_times :: "la_sample list \<Rightarrow> string \<Rightarrow> rat list result" where
  "transition_times samples channel =
     (case require_channel samples channel of
        Inl e \<Rightarrow> Inl e
      | Inr _ \<Rightarrow> Inr (map fst (edge_loop channel (tl samples) (value_at (hd samples) channel))))"

definition contains_time :: "window \<Rightarrow> rat \<Rightarrow> bool" where
  "contains_time w time_s \<longleftrightarrow> w_start w \<le> time_s \<and> time_s \<le> w_end w"

text \<open>\<open>bisect_right\<close> on a sorted list.\<close>

definition bisect_right :: "rat list \<Rightarrow> rat \<Rightarrow> nat" where
  "bisect_right xs x = length (takeWhile (\<lambda>y. y \<le> x) xs)"

definition high_sample_counts :: "la_sample list \<Rightarrow> string \<Rightarrow> window list \<Rightarrow> nat \<times> nat" where
  "high_sample_counts samples channel allowed_windows =
     (let starts = map w_start allowed_windows;
          high = filter (\<lambda>s. sm_values s channel = Some 1) samples;
          outside = filter (\<lambda>s. let n = bisect_right starts (sm_time s)
                                in n = 0 \<or> w_end (allowed_windows ! (n - 1)) < sm_time s) high
      in (length high, length outside))"

definition expand_windows :: "window list \<Rightarrow> rat \<Rightarrow> rat \<Rightarrow> window list" where
  "expand_windows windows before_us after_us =
     (let before_s = max before_us 0 / 1000000; after_s = max after_us 0 / 1000000
      in map (\<lambda>w. \<lparr>w_start = w_start w - before_s, w_end = w_end w + after_s\<rparr>) windows)"

definition crop_samples :: "la_sample list \<Rightarrow> rat \<Rightarrow> la_sample list result" where
  "crop_samples samples ignore_before_us =
     (if ignore_before_us < 0 then Inl (ValueError ''ignore_before_us must be non-negative'')
      else if ignore_before_us = 0 then Inr samples
      else
        let start_time_s = sm_time (hd samples) + ignore_before_us / 1000000;
            cropped = filter (\<lambda>s. start_time_s \<le> sm_time s) samples
        in if cropped = [] then Inl (ValueError ''ignore_before_us removed every sample'')
           else Inr cropped)"

fun level_back :: "la_sample list \<Rightarrow> string \<Rightarrow> nat \<Rightarrow> int option" where
  "level_back samples channel 0 = None"
| "level_back samples channel (Suc i) =
     (case value_at (samples ! i) channel of
        Some v \<Rightarrow> Some v
      | None \<Rightarrow> level_back samples channel i)"

definition level_at_time :: "la_sample list \<Rightarrow> rat list \<Rightarrow> string \<Rightarrow> rat \<Rightarrow> int option" where
  "level_at_time samples ts channel time_s =
     level_back samples channel (bisect_right ts time_s)"

subsection \<open>The 8E1 byte decoder\<close>

datatype uart_error = E_Start | E_Data nat | E_Parity_Missing | E_Parity | E_Stop

record byte_report =
  br_start_us :: rat
  br_byte :: byte
  br_errors :: "uart_error list"

text \<open>One data bit: its level is read half a bit into its cell.\<close>

definition data_bit ::
  "(rat \<Rightarrow> int option) \<Rightarrow> rat \<Rightarrow> rat \<Rightarrow> nat \<Rightarrow> uart_error list \<times> byte \<times> nat \<Rightarrow> uart_error list \<times> byte \<times> nat"
where
  "data_bit level start_edge_s bit_s bit_no st =
     (case st of (errors, value, ones) \<Rightarrow>
        let bit_value = level (start_edge_s + (3 / 2 + of_nat bit_no) * bit_s)
        in if bit_value \<notin> {Some 0, Some 1} then (errors @ [E_Data bit_no], value, ones)
           else if bit_value = Some 1 then (errors, value OR push_bit bit_no 1, ones + 1)
           else (errors, value, ones))"

definition decode_uart_byte ::
  "(rat \<Rightarrow> int option) \<Rightarrow> rat \<Rightarrow> rat \<Rightarrow> rat \<Rightarrow> byte_report"
where
  "decode_uart_byte level origin_s start_edge_s bit_s =
     (let errors = (if level (start_edge_s + 1 / 2 * bit_s) \<noteq> Some 0 then [E_Start] else [])
      in case fold (data_bit level start_edge_s bit_s) [0..<8] (errors, 0, 0) of
        (errors, value, ones) \<Rightarrow>
          let parity_value = level (start_edge_s + 19 / 2 * bit_s);
              errors = errors @
                (if parity_value \<notin> {Some 0, Some 1} then [E_Parity_Missing]
                 else if (int ones + the parity_value) mod 2 \<noteq> 0 then [E_Parity] else []);
              stop_value = level (start_edge_s + 21 / 2 * bit_s);
              errors = errors @ (if stop_value \<noteq> Some 1 then [E_Stop] else [])
          in \<lparr>br_start_us = (start_edge_s - origin_s) * 1000000, br_byte = value, br_errors = errors\<rparr>)"

subsection \<open>Frames in driver-enable windows\<close>

text \<open>
  The scan for the next start edge of a window, and the loop over the bytes of a window.  Every
  round starts past the edge of the round before, so one round per edge is enough fuel.
\<close>

fun find_start_edge :: "rat \<Rightarrow> rat \<Rightarrow> (rat \<times> int \<times> int) list \<Rightarrow> rat option" where
  "find_start_edge cursor_s end_s [] = None"
| "find_start_edge cursor_s end_s ((edge_s, before, after) # edges) =
     (if edge_s < cursor_s then find_start_edge cursor_s end_s edges
      else if end_s < edge_s then None
      else if before = 1 \<and> after = 0 then Some edge_s
      else find_start_edge cursor_s end_s edges)"

definition frame_bits :: nat where
  [const_defs]: "frame_bits = 1 + 8 + 1 + 1"

definition byte_cell :: "rat \<Rightarrow> rat" where
  "byte_cell bit_s = (of_nat frame_bits - 1 / 4) * bit_s"

fun window_bytes ::
  "nat \<Rightarrow> (rat \<Rightarrow> int option) \<Rightarrow> rat \<Rightarrow> (rat \<times> int \<times> int) list \<Rightarrow> rat \<Rightarrow> rat \<Rightarrow> rat \<Rightarrow> byte_report list"
where
  "window_bytes 0 level origin_s edges bit_s end_s cursor_s = []"
| "window_bytes (Suc fuel) level origin_s edges bit_s end_s cursor_s =
     (case find_start_edge cursor_s end_s edges of
        None \<Rightarrow> []
      | Some start_edge_s \<Rightarrow>
          decode_uart_byte level origin_s start_edge_s bit_s #
          window_bytes fuel level origin_s edges bit_s end_s (start_edge_s + byte_cell bit_s))"

record decoded_window =
  dw_start_us :: rat
  dw_end_us :: rat
  dw_duration_us :: rat
  dw_first_byte_start_us :: "rat option"
  dw_frame_end_us :: "rat option"
  dw_byte_count :: nat
  dw_frame :: bytes
  dw_crc_ok :: bool
  dw_kind :: string
  dw_counter :: "int option"
  dw_bytes :: "byte_report list"
  dw_errors :: "uart_error list"

definition frame_span_us :: "rat \<Rightarrow> rat" where
  "frame_span_us bit_s = of_nat frame_bits * bit_s * 1000000"

definition decode_window ::
  "(rat \<Rightarrow> int option) \<Rightarrow> rat \<Rightarrow> (rat \<times> int \<times> int) list \<Rightarrow> rat \<Rightarrow> window \<Rightarrow> decoded_window"
where
  "decode_window level origin_s edges bit_s w =
     (let reports = window_bytes (length edges) level origin_s edges bit_s (w_end w) (w_start w);
          frame = map br_byte reports
      in \<lparr>dw_start_us = (w_start w - origin_s) * 1000000, dw_end_us = (w_end w - origin_s) * 1000000,
          dw_duration_us = duration_us w,
          dw_first_byte_start_us = (if reports \<noteq> [] then Some (br_start_us (hd reports)) else None),
          dw_frame_end_us =
            (if reports \<noteq> [] then Some (br_start_us (last reports) + frame_span_us bit_s) else None),
          dw_byte_count = length frame, dw_frame = frame,
          dw_crc_ok = (if frame \<noteq> [] then crc_ok frame else False),
          dw_kind = (if frame \<noteq> [] then decode_response_kind frame else ''none''),
          dw_counter = response_counter frame, dw_bytes = reports,
          dw_errors = concat (map br_errors reports)\<rparr>)"

definition decode_uart_windows ::
  "la_sample list \<Rightarrow> string \<Rightarrow> string \<Rightarrow> int \<Rightarrow> rat \<Rightarrow> decoded_window list result"
where
  "decode_uart_windows samples signal gate baud ignore_before_us =
     (case crop_samples samples ignore_before_us of
        Inl e \<Rightarrow> Inl e
      | Inr samples \<Rightarrow>
        (let ts = map sm_time samples; bit_s = 1 / of_int baud
         in case high_windows samples gate of
           Inl e \<Rightarrow> Inl e
         | Inr windows \<Rightarrow>
           (case transition_edges samples signal of
              Inl e \<Rightarrow> Inl e
            | Inr tx_edges \<Rightarrow>
                Inr (map (decode_window (level_at_time samples ts signal) (sm_time (hd samples)) tx_edges bit_s)
                      windows))))"

subsection \<open>The master's frames\<close>

definition master_expected_len :: "bytes \<Rightarrow> int option" where
  "master_expected_len buffer =
     (if length buffer < 2 then None
      else
        let function = buffer ! 1
        in if function = FC_WRITE_MULTIPLE_REGISTERS then
             (if length buffer < 7 then None
              else let expected = 7 + uint (buffer ! 6) + 2
                   in if expected < 5 \<or> 32 < expected then Some (- 1) else Some expected)
           else if function = FC_READ_WRITE_MULTIPLE_REGISTERS then
             (if length buffer < 11 then None
              else let expected = 11 + uint (buffer ! 10) + 2
                   in if expected < 5 \<or> 32 < expected then Some (- 1) else Some expected)
           else Some (- 1))"

definition be16 :: "byte \<Rightarrow> byte \<Rightarrow> int" where
  "be16 hi lo = uint hi * 256 + uint lo"

definition decode_master_kind :: "bytes \<Rightarrow> string" where
  "decode_master_kind frame =
     (if length frame < 2 then ''unknown''
      else if frame ! 0 = 0 \<and> frame ! 1 = FC_WRITE_MULTIPLE_REGISTERS then ''broadcast''
      else if frame ! 1 \<noteq> FC_READ_WRITE_MULTIPLE_REGISTERS \<or> length frame < 13 then ''unknown''
      else if (frame ! 2, frame ! 3) \<noteq> (0x9C, 0xB9) \<or> (frame ! 6, frame ! 7) \<noteq> (0x9C, 0x41) then ''unknown''
      else
        let read_qty = be16 (frame ! 4) (frame ! 5);
            write_qty = be16 (frame ! 8) (frame ! 9);
            byte_count = frame ! 10
        in if read_qty = 8 \<and> write_qty = 2 \<and> byte_count = 4 \<and> length frame = 17 \<and> frame ! 12 = 0x03
           then ''status_poll''
           else if read_qty = 5 \<and> write_qty = 3 \<and> byte_count = 6 \<and> length frame = 19 then ''bus_scan''
           else if read_qty = 2 \<and> write_qty = 2 \<and> byte_count = 4 \<and> length frame = 17 then ''command''
           else ''unknown'')"

definition master_counter :: "bytes \<Rightarrow> int option" where
  "master_counter frame =
     (if decode_master_kind frame \<in> {''status_poll'', ''command''} \<and> 11 < length frame
      then Some (uint (frame ! 11)) else None)"

record master_frame =
  mf_start_us :: rat
  mf_end_us :: rat
  mf_byte_count :: nat
  mf_frame :: bytes
  mf_crc_ok :: bool
  mf_kind :: string
  mf_counter :: "int option"
  mf_bytes :: "byte_report list"
  mf_errors :: "uart_error list"

definition master_frame_of :: "rat \<Rightarrow> byte_report list \<Rightarrow> master_frame" where
  "master_frame_of bit_s reports =
     (let frame = map br_byte reports
      in \<lparr>mf_start_us = br_start_us (hd reports), mf_end_us = br_start_us (last reports) + frame_span_us bit_s,
          mf_byte_count = length frame, mf_frame = frame, mf_crc_ok = crc_ok frame,
          mf_kind = decode_master_kind frame, mf_counter = master_counter frame, mf_bytes = reports,
          mf_errors = concat (map br_errors reports)\<rparr>)"

text \<open>The buffer and the reports of its bytes are kept as one list of reports.\<close>

function drain_master :: "byte_report list \<Rightarrow> byte_report list list \<times> byte_report list" where
  "drain_master reports =
     (if reports = [] then ([], reports)
      else case master_expected_len (map br_byte reports) of
        None \<Rightarrow> ([], reports)
      | Some expected \<Rightarrow>
          if expected < 0 then drain_master (tl reports)
          else if int (length reports) < expected then ([], reports)
          else case drain_master (drop (nat expected) reports) of
                 (frames, rest) \<Rightarrow> (take (nat expected) reports # frames, rest))"
  by pat_completeness auto
termination
proof (relation "measure length")
  fix reports :: "byte_report list" and expected
  assume ne: "\<not> reports = []" and e: "master_expected_len (map br_byte reports) = Some expected"
    and "\<not> expected < 0"
  then have "5 \<le> expected"
    by (auto simp: master_expected_len_def Let_def split: if_splits)
  then show "(drop (nat expected) reports, reports) \<in> measure length"
    using ne by simp
qed simp_all

declare drain_master.simps [simp del]

fun stream_loop ::
  "(rat \<Rightarrow> int option) \<Rightarrow> rat \<Rightarrow> rat \<Rightarrow> (rat \<times> int \<times> int) list \<Rightarrow> rat \<Rightarrow> byte_report list \<Rightarrow>
   byte_report list list \<Rightarrow> byte_report list list"
where
  "stream_loop level origin_s bit_s [] cursor_s reports decoded = decoded"
| "stream_loop level origin_s bit_s ((edge_s, before, after) # edges) cursor_s reports decoded =
     (if edge_s < cursor_s then stream_loop level origin_s bit_s edges cursor_s reports decoded
      else if before \<noteq> 1 \<or> after \<noteq> 0 then stream_loop level origin_s bit_s edges cursor_s reports decoded
      else
        case drain_master (reports @ [decode_uart_byte level origin_s edge_s bit_s]) of
          (frames, reports) \<Rightarrow>
            stream_loop level origin_s bit_s edges (edge_s + byte_cell bit_s) reports (decoded @ frames))"

definition decode_uart_stream :: "la_sample list \<Rightarrow> string \<Rightarrow> int \<Rightarrow> rat \<Rightarrow> master_frame list result" where
  "decode_uart_stream samples signal baud ignore_before_us =
     (case crop_samples samples ignore_before_us of
        Inl e \<Rightarrow> Inl e
      | Inr samples \<Rightarrow>
          if \<not> has_channel samples signal then Inr []
          else
            let ts = map sm_time samples; bit_s = 1 / of_int baud
            in case transition_edges samples signal of
              Inl e \<Rightarrow> Inl e
            | Inr edges \<Rightarrow>
                Inr (map (master_frame_of bit_s)
                  (stream_loop (level_at_time samples ts signal) (sm_time (hd samples)) bit_s edges
                    (sm_time (hd samples)) [] [])))"

subsection \<open>Counter gaps\<close>

record counter_gap =
  cg_index :: nat
  cg_previous :: int
  cg_current :: int
  cg_expected :: int
  cg_missing :: "int list"

definition next_counter :: "int \<Rightarrow> int" where
  "next_counter value = (if value = 0x7F then 0x01 else (value + 1) AND 0xFF)"

text \<open>\<open>while value != current and len(missing) < 256\<close>: at most 256 rounds.\<close>

fun missing_counters :: "nat \<Rightarrow> int \<Rightarrow> int \<Rightarrow> int list" where
  "missing_counters 0 value current = []"
| "missing_counters (Suc room) value current =
     (if value = current then [] else value # missing_counters room (next_counter value) current)"

fun gaps_from :: "nat \<Rightarrow> int list \<Rightarrow> counter_gap list" where
  "gaps_from index (previous # current # counters) =
     (let expected = next_counter previous
      in (if current = expected then []
          else [\<lparr>cg_index = index, cg_previous = previous, cg_current = current, cg_expected = expected,
                 cg_missing = missing_counters 256 expected current\<rparr>])
         @ gaps_from (index + 1) (current # counters))"
| "gaps_from index counters = []"

definition status_counter_gaps :: "int list \<Rightarrow> counter_gap list" where
  "status_counter_gaps counters = gaps_from 1 counters"

end
