(* ===== verification/Hil_La_Report.thy ===== *)
theory Hil_La_Report
  imports Hil_La Simulator
begin

text \<open>
  The verdicts of \<open>tools/hcp2_hil_la.py\<close>: the UART summary, the pairing of status polls with their
  responses, the electrical report of \<open>analyze_samples\<close> and the combined \<open>verify_samples\<close>.  A
  failure message is a constructor carrying the numbers the message prints.
\<close>

subsection \<open>Loading\<close>

text \<open>The end of \<open>load_samples\<close>: the samples in time order, and at least one.\<close>

definition finish_load :: "la_sample list \<Rightarrow> la_sample list result" where
  "finish_load samples =
     (let samples = sort_key sm_time samples
      in if samples = [] then Inl (ValueError ''contains no samples'') else Inr samples)"

text \<open>\<open>load_sigrok_csv_samples\<close> after the metadata: the columns of the requested channels, and the
  rows the CSV reader delivers.\<close>

fun index_of :: "nat \<Rightarrow> string \<Rightarrow> string list \<Rightarrow> nat option \<Rightarrow> nat option" where
  "index_of i name [] found = found"
| "index_of i name (c # cs) found =
     index_of (i + 1) name cs (if normalize_channel_name c = name then Some i else found)"

definition source_index_by_logic :: "string list \<Rightarrow> (string \<times> string) list \<Rightarrow> (string \<times> nat) list" where
  "source_index_by_logic raw_channels channels =
     List.map_filter (\<lambda>(logical, source).
       map_option (\<lambda>i. (logical, i)) (index_of 0 (normalize_channel_name source) raw_channels None)) channels"

fun row_values :: "(string \<times> nat) list \<Rightarrow> string list \<Rightarrow> (string \<rightharpoonup> int) \<Rightarrow> (string \<rightharpoonup> int) result" where
  "row_values [] row vals = Inr vals"
| "row_values ((logical, source_index) # sources) row vals =
     (if length row \<le> source_index
      then Inl (ValueError ''sigrok CSV row has fewer columns than channel metadata'')
      else case parse_logic_value (LV_Text (row ! source_index)) of
             Inl e \<Rightarrow> Inl e
           | Inr v \<Rightarrow> row_values sources row (vals(logical \<mapsto> v)))"

definition skip_row :: "string list \<Rightarrow> bool" where
  "skip_row row \<longleftrightarrow> row = [] \<or> (length row = 1 \<and> py_upper (py_strip (row ! 0)) = ''FRAME-END'')
     \<or> list_all (\<lambda>cell. py_lower (py_strip cell) = ''logic'') row"

fun sigrok_rows ::
  "(string \<times> nat) list \<Rightarrow> rat \<Rightarrow> nat \<Rightarrow> string list list \<Rightarrow> la_sample list result"
where
  "sigrok_rows sources sample_rate_hz sample_index [] = Inr []"
| "sigrok_rows sources sample_rate_hz sample_index (row # rows) =
     (if skip_row row then sigrok_rows sources sample_rate_hz sample_index rows
      else case row_values sources row Map.empty of
             Inl e \<Rightarrow> Inl e
           | Inr vals \<Rightarrow>
              (case sigrok_rows sources sample_rate_hz (sample_index + 1) rows of
                 Inl e \<Rightarrow> Inl e
               | Inr samples \<Rightarrow>
                   Inr (\<lparr>sm_time = of_nat sample_index / sample_rate_hz, sm_values = vals\<rparr> # samples)))"

definition load_sigrok_csv_samples ::
  "string list \<Rightarrow> rat \<Rightarrow> (string \<times> string) list \<Rightarrow> string list list \<Rightarrow> la_sample list result"
where
  "load_sigrok_csv_samples raw_channels sample_rate_hz channels rows =
     (let sources = source_index_by_logic raw_channels channels
      in if sources = []
         then Inl (ValueError ''sigrok CSV channel metadata does not match requested channel map'')
         else sigrok_rows sources sample_rate_hz 0 rows)"

subsection \<open>Failures and summaries\<close>

datatype la_failure =
    F_Sample_Rate "rat option" int
  | F_Crc nat
  | F_Framing nat
  | F_Gaps nat
  | F_Few_Status nat int
  | F_No_Pairs
  | F_De_First
  | F_Tx_First
  | F_De_Last
  | F_De_Long rat rat
  | F_Tx_Outside nat
  | F_De_Without_Tx nat
  | F_Re_Outside nat
  | F_Re_High nat

definition verdict_of :: "'a list \<Rightarrow> string" where
  "verdict_of failures = (if failures \<noteq> [] then ''fail'' else ''ok'')"

definition sampling_failures :: "la_sample list \<Rightarrow> int \<Rightarrow> la_failure list" where
  "sampling_failures samples baud =
     (let sampling = uart_sampling_report samples baud
      in if sp_too_slow sampling then [F_Sample_Rate (sp_samples_per_bit sampling) baud] else [])"

definition la_percentile :: "rat list \<Rightarrow> int \<Rightarrow> rat option" where
  "la_percentile sorted_values pct =
     (if sorted_values = [] then None
      else if length sorted_values = 1 then Some (sorted_values ! 0)
      else
        let rank = (of_int pct / 100) * of_nat (length sorted_values - 1);
            low = \<lfloor>rank\<rfloor>;
            high = min (int (length sorted_values) - 1) (low + (if rank = of_int low then 0 else 1))
        in if low = high then Some (sorted_values ! nat low)
           else let weight = rank - of_int low
                in Some (sorted_values ! nat low * (1 - weight) + sorted_values ! nat high * weight))"

record metrics =
  mt_count :: nat
  mt_min :: "rat option"
  mt_mean :: "rat option"
  mt_p99 :: "rat option"
  mt_max :: "rat option"

definition metric_summary :: "rat list \<Rightarrow> metrics" where
  "metric_summary vals =
     (let sorted_values = sort vals
      in \<lparr>mt_count = length vals,
          mt_min = (if sorted_values \<noteq> [] then Some (hd sorted_values) else None),
          mt_mean = (if sorted_values \<noteq> [] then Some (sum_list sorted_values / of_nat (length sorted_values)) else None),
          mt_p99 = (if sorted_values \<noteq> [] then la_percentile sorted_values 99 else None),
          mt_max = (if sorted_values \<noteq> [] then Some (last sorted_values) else None)\<rparr>)"

subsection \<open>Decoded UART frames\<close>

record uart_summary =
  us_verdict :: string
  us_failures :: "la_failure list"
  us_windows :: nat
  us_decoded_windows :: nat
  us_crc_ok_frames :: nat
  us_status_frames :: nat
  us_status_counters :: "int list"
  us_gaps :: "counter_gap list"

definition decoded_windows :: "decoded_window list \<Rightarrow> decoded_window list" where
  "decoded_windows windows = filter (\<lambda>w. dw_byte_count w \<noteq> 0) windows"

definition status_windows :: "decoded_window list \<Rightarrow> decoded_window list" where
  "status_windows windows = filter (\<lambda>w. dw_kind w = ''status'') (filter dw_crc_ok (decoded_windows windows))"

definition summarize_decoded_uart ::
  "decoded_window list \<Rightarrow> bool \<Rightarrow> int \<Rightarrow> uart_summary"
where
  "summarize_decoded_uart windows allow_status_gaps min_status_frames =
     (let decoded = decoded_windows windows;
          good = filter dw_crc_ok decoded;
          status = status_windows windows;
          counters = List.map_filter dw_counter status;
          gaps = status_counter_gaps counters;
          byte_error_windows = filter (\<lambda>w. dw_errors w \<noteq> []) decoded;
          failures =
            (if length good \<noteq> length decoded then [F_Crc (length decoded - length good)] else []) @
            (if byte_error_windows \<noteq> [] then [F_Framing (length byte_error_windows)] else []) @
            (if gaps \<noteq> [] \<and> \<not> allow_status_gaps then [F_Gaps (length gaps)] else []) @
            (if int (length status) < min_status_frames
             then [F_Few_Status (length status) min_status_frames] else [])
      in \<lparr>us_verdict = verdict_of failures, us_failures = failures, us_windows = length windows,
          us_decoded_windows = length decoded, us_crc_ok_frames = length good,
          us_status_frames = length status, us_status_counters = counters, us_gaps = gaps\<rparr>)"

definition apply_uart_sampling_check :: "uart_summary \<Rightarrow> la_sample list \<Rightarrow> int \<Rightarrow> uart_summary" where
  "apply_uart_sampling_check rep samples baud =
     (let sampling = sampling_failures samples baud
      in if sampling \<noteq> []
         then rep\<lparr>us_failures := sampling @ us_failures rep, us_verdict := ''fail''\<rparr> else rep)"

subsection \<open>Latency: polls and their responses\<close>

record latency_pair =
  lp_counter :: int
  lp_poll_start_us :: rat
  lp_poll_end_us :: rat
  lp_de_assert_us :: rat
  lp_first_byte_us :: rat
  lp_response_end_us :: rat
  lp_de_release_us :: rat
  lp_de_hold_us :: rat

definition poll_end_to_de_assert_us :: "latency_pair \<Rightarrow> rat" where
  "poll_end_to_de_assert_us p = lp_de_assert_us p - lp_poll_end_us p"

definition poll_end_to_first_byte_us :: "latency_pair \<Rightarrow> rat" where
  "poll_end_to_first_byte_us p = lp_first_byte_us p - lp_poll_end_us p"

definition poll_end_to_response_end_us :: "latency_pair \<Rightarrow> rat" where
  "poll_end_to_response_end_us p = lp_response_end_us p - lp_poll_end_us p"

definition de_assert_to_first_byte_us :: "latency_pair \<Rightarrow> rat" where
  "de_assert_to_first_byte_us p = lp_first_byte_us p - lp_de_assert_us p"

definition first_byte_to_response_end_us :: "latency_pair \<Rightarrow> rat" where
  "first_byte_to_response_end_us p = lp_response_end_us p - lp_first_byte_us p"

definition status_polls :: "master_frame list \<Rightarrow> master_frame list" where
  "status_polls frames =
     filter (\<lambda>f. mf_crc_ok f \<and> mf_errors f = [] \<and> mf_kind f = ''status_poll'' \<and> mf_counter f \<noteq> None) frames"

definition status_responses :: "decoded_window list \<Rightarrow> decoded_window list" where
  "status_responses windows =
     filter (\<lambda>w. dw_crc_ok w \<and> dw_errors w = [] \<and> dw_kind w = ''status'' \<and> dw_counter w \<noteq> None) windows"

text \<open>\<open>pending_by_counter\<close> is a dict of lists; the polls of a counter stay in capture order.\<close>

type_synonym pending = "(int \<times> master_frame list) list"

fun add_pending :: "master_frame \<Rightarrow> pending \<Rightarrow> pending" where
  "add_pending poll [] = [(the (mf_counter poll), [poll])]"
| "add_pending poll ((c, polls) # pending) =
     (if c = the (mf_counter poll) then (c, polls @ [poll]) # pending
      else (c, polls) # add_pending poll pending)"

fun candidates :: "int \<Rightarrow> pending \<Rightarrow> master_frame list" where
  "candidates counter [] = []"
| "candidates counter ((c, polls) # pending) =
     (if c = counter then polls else candidates counter pending)"

fun pop_candidate :: "int \<Rightarrow> nat \<Rightarrow> pending \<Rightarrow> pending" where
  "pop_candidate counter i [] = []"
| "pop_candidate counter i ((c, polls) # pending) =
     (if c = counter then (c, take i polls @ drop (Suc i) polls) # pending
      else (c, polls) # pop_candidate counter i pending)"

text \<open>\<open>max\<close> over the eligible polls by their end: the first of the latest ones.\<close>

fun best_poll :: "rat \<Rightarrow> nat \<Rightarrow> master_frame list \<Rightarrow> (nat \<times> master_frame) option \<Rightarrow> (nat \<times> master_frame) option" where
  "best_poll start_us i [] best = best"
| "best_poll start_us i (poll # polls) best =
     best_poll start_us (i + 1) polls
       (if mf_end_us poll \<le> start_us \<and>
           (case best of None \<Rightarrow> True | Some (_, b) \<Rightarrow> mf_end_us b < mf_end_us poll)
        then Some (i, poll) else best)"

record matching =
  mg_pending :: pending
  mg_pairs :: "latency_pair list"
  mg_unmatched :: nat

definition make_pair :: "int \<Rightarrow> master_frame \<Rightarrow> decoded_window \<Rightarrow> rat \<Rightarrow> rat \<Rightarrow> latency_pair" where
  "make_pair counter poll response first_byte_start_us frame_end_us =
     \<lparr>lp_counter = counter, lp_poll_start_us = mf_start_us poll, lp_poll_end_us = mf_end_us poll,
      lp_de_assert_us = dw_start_us response, lp_first_byte_us = first_byte_start_us,
      lp_response_end_us = frame_end_us, lp_de_release_us = dw_end_us response,
      lp_de_hold_us = dw_duration_us response\<rparr>"

definition match_response :: "decoded_window \<Rightarrow> matching \<Rightarrow> matching" where
  "match_response response m =
     (let counter = the (dw_counter response)
      in case best_poll (dw_start_us response) 0 (candidates counter (mg_pending m)) None of
           None \<Rightarrow> m\<lparr>mg_unmatched := mg_unmatched m + 1\<rparr>
         | Some (i, poll) \<Rightarrow>
             (let m = m\<lparr>mg_pending := pop_candidate counter i (mg_pending m)\<rparr>
              in case (dw_first_byte_start_us response, dw_frame_end_us response) of
                   (Some first_byte, Some frame_end) \<Rightarrow>
                     m\<lparr>mg_pairs := mg_pairs m @ [make_pair counter poll response first_byte frame_end]\<rparr>
                 | _ \<Rightarrow> m\<lparr>mg_unmatched := mg_unmatched m + 1\<rparr>))"

definition match_all :: "master_frame list \<Rightarrow> decoded_window list \<Rightarrow> matching" where
  "match_all polls responses =
     fold match_response responses
       \<lparr>mg_pending = fold add_pending polls [], mg_pairs = [], mg_unmatched = 0\<rparr>"

definition pending_count :: "pending \<Rightarrow> nat" where
  "pending_count pending = sum_list (map (\<lambda>(c, polls). length polls) pending)"

record latency_report =
  lr_verdict :: string
  lr_failures :: "la_failure list"
  lr_request_frames :: nat
  lr_status_polls :: nat
  lr_status_responses :: nat
  lr_matched_pairs :: nat
  lr_unmatched_polls :: nat
  lr_unmatched_responses :: nat
  lr_metrics :: "metrics list"
  lr_pairs_detail :: "latency_pair list"

text \<open>\<open>not-run\<close>: the capture has no request channel.\<close>

definition latency_not_run :: latency_report where
  "latency_not_run =
     \<lparr>lr_verdict = ''not-run'', lr_failures = [], lr_request_frames = 0, lr_status_polls = 0,
      lr_status_responses = 0, lr_matched_pairs = 0, lr_unmatched_polls = 0, lr_unmatched_responses = 0,
      lr_metrics = [], lr_pairs_detail = []\<rparr>"

definition pair_metrics :: "latency_pair list \<Rightarrow> metrics list" where
  "pair_metrics pairs =
     map (\<lambda>f. metric_summary (map f pairs))
       [poll_end_to_de_assert_us, poll_end_to_first_byte_us, poll_end_to_response_end_us,
        de_assert_to_first_byte_us, first_byte_to_response_end_us, lp_de_hold_us]"

definition latency_of :: "master_frame list \<Rightarrow> decoded_window list \<Rightarrow> latency_report" where
  "latency_of request_frames response_windows =
     (let polls = status_polls request_frames;
          responses = status_responses response_windows;
          m = match_all polls responses;
          failures = (if polls \<noteq> [] \<and> mg_pairs m = [] then [F_No_Pairs] else [])
      in \<lparr>lr_verdict = verdict_of failures, lr_failures = failures,
          lr_request_frames = length request_frames, lr_status_polls = length polls,
          lr_status_responses = length responses, lr_matched_pairs = length (mg_pairs m),
          lr_unmatched_polls = pending_count (mg_pending m), lr_unmatched_responses = mg_unmatched m,
          lr_metrics = pair_metrics (mg_pairs m), lr_pairs_detail = take 200 (mg_pairs m)\<rparr>)"

definition summarize_response_latencies ::
  "la_sample list \<Rightarrow> int \<Rightarrow> rat \<Rightarrow> string \<Rightarrow> string \<Rightarrow> string \<Rightarrow> latency_report result"
where
  "summarize_response_latencies samples baud ignore_before_us response_signal response_gate request_signal =
     (case crop_samples samples ignore_before_us of
        Inl e \<Rightarrow> Inl e
      | Inr cropped \<Rightarrow>
          if \<not> has_channel cropped request_signal then Inr latency_not_run
          else case decode_uart_stream samples request_signal baud ignore_before_us of
                 Inl e \<Rightarrow> Inl e
               | Inr request_frames \<Rightarrow>
                  (case decode_uart_windows samples response_signal response_gate baud ignore_before_us of
                     Inl e \<Rightarrow> Inl e
                   | Inr response_windows \<Rightarrow> Inr (latency_of request_frames response_windows)))"

subsection \<open>The electrical report\<close>

record electrical_options =
  eo_max_de_high_us :: rat
  eo_require_initial_de_low :: bool
  eo_require_final_de_low :: bool
  eo_require_initial_tx_high :: bool
  eo_require_re_low :: bool
  eo_allow_re_high_during_de :: bool
  eo_re_skew_us :: rat
  eo_require_tx_only_during_de :: bool
  eo_require_tx_during_de :: bool

definition default_electrical :: electrical_options where
  "default_electrical =
     \<lparr>eo_max_de_high_us = DEFAULT_MAX_DE_HIGH_US, eo_require_initial_de_low = True,
      eo_require_final_de_low = False, eo_require_initial_tx_high = True, eo_require_re_low = True,
      eo_allow_re_high_during_de = False, eo_re_skew_us = DEFAULT_RE_SKEW_US,
      eo_require_tx_only_during_de = True, eo_require_tx_during_de = True\<rparr>"

record electrical_report =
  er_verdict :: string
  er_failures :: "la_failure list"
  er_samples :: nat
  er_duration_us :: rat
  er_de_windows :: nat
  er_max_de_high_us :: rat
  er_tx_transitions :: nat
  er_tx_outside_de :: nat
  er_de_without_tx :: nat
  er_initial_boundary_de_without_tx :: nat
  er_trailing_boundary :: nat
  er_re_high_samples :: nat
  er_re_high_outside_de :: nat

definition in_some_window :: "window list \<Rightarrow> rat \<Rightarrow> bool" where
  "in_some_window windows time_s \<longleftrightarrow> list_ex (\<lambda>w. contains_time w time_s) windows"

definition windows_without_tx :: "window list \<Rightarrow> rat list \<Rightarrow> window list" where
  "windows_without_tx windows txs = filter (\<lambda>w. \<not> list_ex (contains_time w) txs) windows"

definition at_boundary :: "electrical_options \<Rightarrow> rat \<Rightarrow> window \<Rightarrow> bool" where
  "at_boundary eo first_s w \<longleftrightarrow> \<not> eo_require_initial_de_low eo \<and> \<bar>w_start w - first_s\<bar> \<le> 1 / 1000000000000"

definition re_counts :: "electrical_options \<Rightarrow> la_sample list \<Rightarrow> window list \<Rightarrow> nat \<times> nat" where
  "re_counts eo samples de_windows =
     (if eo_require_re_low eo \<and> has_channel samples ''re''
      then high_sample_counts samples ''re''
             (if eo_allow_re_high_during_de eo
              then expand_windows de_windows (eo_re_skew_us eo) (eo_re_skew_us eo) else de_windows)
      else (0, 0))"

definition re_failures :: "electrical_options \<Rightarrow> nat \<times> nat \<Rightarrow> la_failure list" where
  "re_failures eo counts =
     (case counts of (high, outside) \<Rightarrow>
        if eo_allow_re_high_during_de eo \<and> outside \<noteq> 0 then [F_Re_Outside outside]
        else if \<not> eo_allow_re_high_during_de eo \<and> high \<noteq> 0 then [F_Re_High high] else [])"

definition analyze_cropped ::
  "electrical_options \<Rightarrow> la_sample list \<Rightarrow> window list \<Rightarrow> rat list \<Rightarrow> electrical_report"
where
  "analyze_cropped eo samples de_windows tx_transitions =
     (let first_s = sm_time (hd samples);
          initial_de = value_at (hd samples) ''de'';
          initial_tx = value_at (hd samples) ''tx'';
          trailing = (if de_windows \<noteq> [] \<and> value_at (last samples) ''de'' = Some 1 then [last de_windows] else []);
          long = filter (\<lambda>w. eo_max_de_high_us eo < duration_us w) de_windows;
          tx_outside = filter (\<lambda>t. \<not> in_some_window de_windows t) tx_transitions;
          idle = (if eo_require_tx_during_de eo \<and> tx_transitions \<noteq> []
                  then windows_without_tx de_windows tx_transitions else []);
          boundary = filter (at_boundary eo first_s) idle;
          without_tx = filter (\<lambda>w. \<not> at_boundary eo first_s w) idle;
          counts = re_counts eo samples de_windows;
          failures =
            (if eo_require_initial_de_low eo \<and> initial_de \<noteq> Some 0 then [F_De_First] else []) @
            (if eo_require_initial_tx_high eo \<and> initial_tx \<noteq> None \<and> initial_tx \<noteq> Some 1 then [F_Tx_First] else []) @
            (if trailing \<noteq> [] \<and> eo_require_final_de_low eo then [F_De_Last] else []) @
            map (\<lambda>w. F_De_Long (duration_us w) (eo_max_de_high_us eo)) long @
            (if eo_require_tx_only_during_de eo \<and> tx_outside \<noteq> [] then [F_Tx_Outside (length tx_outside)] else []) @
            (if without_tx \<noteq> [] then [F_De_Without_Tx (length without_tx)] else []) @
            re_failures eo counts
      in \<lparr>er_verdict = verdict_of failures, er_failures = failures, er_samples = length samples,
          er_duration_us = (sm_time (last samples) - first_s) * 1000000,
          er_de_windows = length de_windows,
          er_max_de_high_us = foldr max (map duration_us (tl de_windows))
            (if de_windows = [] then 0 else duration_us (hd de_windows)),
          er_tx_transitions = length tx_transitions, er_tx_outside_de = length tx_outside,
          er_de_without_tx = length without_tx, er_initial_boundary_de_without_tx = length boundary,
          er_trailing_boundary = length trailing,
          er_re_high_samples = fst counts, er_re_high_outside_de = snd counts\<rparr>)"

definition tx_transitions_of :: "la_sample list \<Rightarrow> rat list result" where
  "tx_transitions_of samples =
     (if has_channel samples ''tx'' then transition_times samples ''tx'' else Inr [])"

definition analyze_samples :: "electrical_options \<Rightarrow> la_sample list \<Rightarrow> rat \<Rightarrow> electrical_report result" where
  "analyze_samples eo samples ignore_before_us =
     (case crop_samples samples ignore_before_us of
        Inl e \<Rightarrow> Inl e
      | Inr samples \<Rightarrow>
         (case high_windows samples ''de'' of
            Inl e \<Rightarrow> Inl e
          | Inr de_windows \<Rightarrow>
             (case tx_transitions_of samples of
                Inl e \<Rightarrow> Inl e
              | Inr txs \<Rightarrow> Inr (analyze_cropped eo samples de_windows txs))))"

subsection \<open>The combined report\<close>

datatype tagged_failure = Electrical la_failure | Uart la_failure | Latency la_failure

record verify_report =
  vr_verdict :: string
  vr_failures :: "tagged_failure list"
  vr_electrical :: electrical_report
  vr_uart :: uart_summary
  vr_latency :: latency_report

definition combine_reports :: "electrical_report \<Rightarrow> uart_summary \<Rightarrow> latency_report \<Rightarrow> verify_report" where
  "combine_reports electrical uart latency =
     (let failures =
        map Electrical (er_failures electrical) @ map Uart (us_failures uart) @
        (if lr_verdict latency = ''fail'' then map Latency (lr_failures latency) else [])
      in \<lparr>vr_verdict = verdict_of failures, vr_failures = failures, vr_electrical = electrical,
          vr_uart = uart, vr_latency = latency\<rparr>)"

definition verify_samples ::
  "electrical_options \<Rightarrow> la_sample list \<Rightarrow> rat \<Rightarrow> string \<Rightarrow> string \<Rightarrow> int \<Rightarrow> bool \<Rightarrow> int \<Rightarrow> verify_report result"
where
  "verify_samples eo samples ignore_before_us signal gate baud allow_status_gaps min_status_frames =
     (case crop_samples samples ignore_before_us of
        Inl e \<Rightarrow> Inl e
      | Inr cropped \<Rightarrow>
     (case analyze_samples eo samples ignore_before_us of
        Inl e \<Rightarrow> Inl e
      | Inr electrical \<Rightarrow>
     (case decode_uart_windows samples signal gate baud ignore_before_us of
        Inl e \<Rightarrow> Inl e
      | Inr windows \<Rightarrow>
          (let uart = apply_uart_sampling_check
                 (summarize_decoded_uart windows allow_status_gaps min_status_frames) cropped baud
           in case summarize_response_latencies samples baud ignore_before_us signal gate ''rx'' of
                Inl e \<Rightarrow> Inl e
              | Inr latency \<Rightarrow> Inr (combine_reports electrical uart latency)))))"

end
