(* ===== verification/Hil_La_Props.thy ===== *)
theory Hil_La_Props
  imports Hil_La_Report
begin

text \<open>
  What the capture checker guarantees: the byte decoder reads exactly 8E1, the scan of a window ends,
  the master scanner is a resynchronising frame scanner, every poll is matched at most once, and an
  \<open>ok\<close> verdict means what it says.
\<close>

subsection \<open>The byte decoder\<close>

text \<open>The level sampled in the middle of cell \<open>k\<close>: cell 0 is the start bit, 9 the parity, 10 the stop bit.\<close>

abbreviation cell :: "(rat \<Rightarrow> int option) \<Rightarrow> rat \<Rightarrow> rat \<Rightarrow> nat \<Rightarrow> int option" where
  "cell level t bit_s k \<equiv> level (t + (1 / 2 + of_nat k) * bit_s)"

lemma fold_data_bit:
  "fold (data_bit level t bit_s) [0..<n] (e, 0, 0) =
     (e @ map E_Data (filter (\<lambda>i. cell level t bit_s (Suc i) \<notin> {Some 0, Some 1}) [0..<n]),
      fold (\<lambda>i v. if cell level t bit_s (Suc i) = Some 1 then v OR push_bit i 1 else v) [0..<n] 0,
      length (filter (\<lambda>i. cell level t bit_s (Suc i) = Some 1) [0..<n]))"
proof (induction n)
  case (Suc n)
  have arg: "t + (3 / 2 + of_nat n) * bit_s = t + (1 / 2 + of_nat (Suc n)) * bit_s"
    by (simp add: algebra_simps)
  show ?case
    unfolding upt_Suc_append [OF le0] fold_append comp_apply Suc.IH
    by (simp add: data_bit_def Let_def arg del: of_nat_Suc)
qed simp

lemma bit_or_fold:
  "bit (fold (\<lambda>i v. if P i then v OR push_bit i (1 :: byte) else v) [0..<n] 0) k \<longleftrightarrow>
   k < n \<and> k < 8 \<and> P k"
proof (induction n)
  case (Suc n)
  have "bit (push_bit n (1 :: byte)) k \<longleftrightarrow> k = n \<and> k < 8"
    by (auto simp: bit_simps)
  then show ?case using Suc by (auto simp: bit_simps less_Suc_eq)
qed simp

lemma decode_uart_byte_fields:
  "br_byte (decode_uart_byte level o_s t bit_s) =
     fold (\<lambda>i v. if cell level t bit_s (Suc i) = Some 1 then v OR push_bit i 1 else v) [0..<8] 0"
  "br_errors (decode_uart_byte level o_s t bit_s) = [] \<longleftrightarrow>
     cell level t bit_s 0 = Some 0 \<and> (\<forall>i<8. cell level t bit_s (Suc i) \<in> {Some 0, Some 1}) \<and>
     cell level t bit_s 9 \<in> {Some 0, Some 1} \<and>
     even (int (length (filter (\<lambda>i. cell level t bit_s (Suc i) = Some 1) [0..<8])) + the (cell level t bit_s 9)) \<and>
     cell level t bit_s 10 = Some 1"
proof -
  have a: "1 / 2 + rat_of_nat 9 = 19 / 2" "1 / 2 + rat_of_nat 10 = 21 / 2" "1 / 2 + rat_of_nat 0 = 1 / 2"
    by simp_all
  show "br_byte (decode_uart_byte level o_s t bit_s) =
     fold (\<lambda>i v. if cell level t bit_s (Suc i) = Some 1 then v OR push_bit i 1 else v) [0..<8] 0"
    unfolding decode_uart_byte_def Let_def fold_data_bit by simp
  have f: "filter (\<lambda>i. cell level t bit_s (Suc i) \<notin> {Some 0, Some 1}) [0..<8] = [] \<longleftrightarrow>
      (\<forall>i<8. cell level t bit_s (Suc i) \<in> {Some 0, Some 1})"
    unfolding filter_empty_conv set_upt by auto
  have e: "map E_Data xs = [] \<longleftrightarrow> xs = []" for xs by simp
  have if_nil: "(if b then [x] else []) = [] \<longleftrightarrow> \<not> b" for b and x :: uart_error by simp
  have if_nil2: "(if b then [x] else if c then [y] else []) = [] \<longleftrightarrow> \<not> b \<and> \<not> c" for b c and x y :: uart_error
    by simp
  show "br_errors (decode_uart_byte level o_s t bit_s) = [] \<longleftrightarrow>
     cell level t bit_s 0 = Some 0 \<and> (\<forall>i<8. cell level t bit_s (Suc i) \<in> {Some 0, Some 1}) \<and>
     cell level t bit_s 9 \<in> {Some 0, Some 1} \<and>
     even (int (length (filter (\<lambda>i. cell level t bit_s (Suc i) = Some 1) [0..<8])) + the (cell level t bit_s 9)) \<and>
     cell level t bit_s 10 = Some 1"
    unfolding decode_uart_byte_def Let_def fold_data_bit prod.case byte_report.select_convs
      append_is_Nil_conv e f a if_nil if_nil2
    by (simp only: even_iff_mod_2_eq_zero not_not conj_assoc)
qed

text \<open>The levels of one byte on the line: start low, the data bits least significant first, even
  parity, stop high.\<close>

definition frame_8e1 :: "(rat \<Rightarrow> int option) \<Rightarrow> rat \<Rightarrow> rat \<Rightarrow> byte \<Rightarrow> bool" where
  "frame_8e1 level t bit_s b \<longleftrightarrow>
     cell level t bit_s 0 = Some 0 \<and>
     (\<forall>i<8. cell level t bit_s (Suc i) = Some (of_bool (bit b i))) \<and>
     cell level t bit_s 9 = Some (int (length (filter (bit b) [0..<8])) mod 2) \<and>
     cell level t bit_s 10 = Some 1"

text \<open>A byte report of decode_uart_byte is free of errors and carries b exactly when the line shows b as an
  8E1 character at the sampling points: start low, data bits least significant first, even parity, stop high.\<close>

theorem decode_uart_byte_iff:
  "br_errors (decode_uart_byte level origin_s t bit_s) = [] \<and>
   br_byte (decode_uart_byte level origin_s t bit_s) = b \<longleftrightarrow>
   frame_8e1 level t bit_s b"
proof -
  let ?v = "br_byte (decode_uart_byte level origin_s t bit_s)"
  have bit_v: "bit ?v i \<longleftrightarrow> i < 8 \<and> cell level t bit_s (Suc i) = Some 1" for i
    unfolding decode_uart_byte_fields(1) bit_or_fold by auto
  have ones: "filter (\<lambda>i. cell level t bit_s (Suc i) = Some 1) [0..<8] = filter (bit ?v) [0..<8]"
    by (rule filter_cong) (simp_all add: bit_v)
  have v_eq: "?v = b \<longleftrightarrow> (\<forall>i<8. bit b i \<longleftrightarrow> cell level t bit_s (Suc i) = Some 1)"
    by (rule iffI) (use bit_v in blast, rule bit_word_eqI, simp add: bit_v)
  have parity: "c \<in> {Some 0, Some 1} \<and> even (int n + the c) \<longleftrightarrow> c = Some (int n mod 2)" for c n
  proof (cases c)
    case (Some a)
    have "(a = 0 \<or> a = 1) \<and> even (int n + a) \<longleftrightarrow> a = int n mod 2"
      by presburger
    then show ?thesis using Some by simp
  qed simp
  have data: "(\<forall>i<8. cell level t bit_s (Suc i) \<in> {Some 0, Some 1}) \<and> ?v = b \<longleftrightarrow>
      (\<forall>i<8. cell level t bit_s (Suc i) = Some (of_bool (bit b i)))"
    unfolding v_eq by (rule iffI) (auto simp: of_bool_def split: if_splits)
  show ?thesis
    unfolding decode_uart_byte_fields(2) ones frame_8e1_def
    using data parity [of "cell level t bit_s 9" "length (filter (bit b) [0..<8])"] by metis
qed

subsection \<open>The bytes of a window\<close>

lemma find_start_edge_Some:
  assumes "find_start_edge cursor_s end_s edges = Some t"
  shows "cursor_s \<le> t" and "t \<le> end_s" and "(t, 1, 0) \<in> set edges"
  using assms by (induction cursor_s end_s edges rule: find_start_edge.induct) (auto split: if_splits)

lemma edges_left_less:
  assumes "find_start_edge cursor_s end_s edges = Some t" and "0 < d"
  shows "length (filter (\<lambda>e. t + d \<le> fst e) edges) < length (filter (\<lambda>e. cursor_s \<le> fst e) edges)"
proof -
  note found = find_start_edge_Some [OF assms(1)]
  have "filter (\<lambda>e. t + d \<le> fst e) edges = filter (\<lambda>e. t + d \<le> fst e) (filter (\<lambda>e. cursor_s \<le> fst e) edges)"
    using found(1) assms(2) by (auto intro!: filter_cong)
  also have "length \<dots> < length (filter (\<lambda>e. cursor_s \<le> fst e) edges)"
    by (rule length_filter_less [where x = "(t, 1, 0)"]) (use found assms(2) in auto)
  finally show ?thesis .
qed

lemma window_bytes_fuel:
  assumes "0 < bit_s" and "length (filter (\<lambda>e. cursor_s \<le> fst e) edges) \<le> fuel" and "fuel \<le> fuel'"
  shows "window_bytes fuel' level origin_s edges bit_s end_s cursor_s =
         window_bytes fuel level origin_s edges bit_s end_s cursor_s"
  using assms(2,3)
proof (induction fuel arbitrary: cursor_s fuel')
  case 0
  have "find_start_edge cursor_s end_s edges = None"
    using 0 edges_left_less [of cursor_s end_s edges _ 1] by (cases "find_start_edge cursor_s end_s edges") auto
  then show ?case by (cases fuel') simp_all
next
  case (Suc fuel)
  then obtain f where f: "fuel' = Suc f" and "fuel \<le> f"
    by (cases fuel') auto
  have pos: "0 < byte_cell bit_s"
    using assms(1) by (simp add: byte_cell_def frame_bits_def)
  show ?case
  proof (cases "find_start_edge cursor_s end_s edges")
    case (Some t)
    have "length (filter (\<lambda>e. t + byte_cell bit_s \<le> fst e) edges) \<le> fuel"
      using edges_left_less [OF Some pos] Suc.prems(1) by simp
    then show ?thesis
      using Suc.IH [OF _ \<open>fuel \<le> f\<close>] Some f by simp
  qed (simp add: f)
qed

text \<open>For a positive bit time the loop over the bytes of a window ends: a round consumes at least one edge
  of the capture, so with one unit of fuel per edge the scan has stopped by itself and more fuel adds nothing.\<close>

theorem window_bytes_terminates:
  assumes "0 < bit_s" and "length edges \<le> fuel"
  shows "window_bytes fuel level origin_s edges bit_s end_s cursor_s =
         window_bytes (length edges) level origin_s edges bit_s end_s cursor_s"
proof (rule window_bytes_fuel [OF assms(1) _ assms(2)])
  show "length (filter (\<lambda>e. cursor_s \<le> fst e) edges) \<le> length edges" by simp
qed

theorem window_bytes_terminates_witness:
  "window_bytes 3 (\<lambda>_. Some 0) 0 [(1, 1, 0)] 1 100 0 = window_bytes 1 (\<lambda>_. Some 0) 0 [(1, 1, 0)] 1 100 0"
  using window_bytes_terminates [where bit_s = 1 and edges = "[(1, 1, 0)]" and fuel = 3] by simp

subsection \<open>The master frame scanner\<close>

lemma master_len_facts:
  "master_expected_len buffer = Some n \<Longrightarrow> n = - 1 \<or> 5 \<le> n \<and> n \<le> 32"
  by (auto simp: master_expected_len_def Let_def split: if_splits)

lemma master_len_append:
  assumes "master_expected_len buffer = Some n"
  shows "master_expected_len (buffer @ tail) = Some n"
proof -
  have two: "2 \<le> length buffer"
    using assms by (auto simp: master_expected_len_def split: if_splits)
  then have fc: "(buffer @ tail) ! 1 = buffer ! 1"
    by (simp add: nth_append)
  consider (wr) "buffer ! 1 = FC_WRITE_MULTIPLE_REGISTERS" "7 \<le> length buffer"
    | (rd) "buffer ! 1 \<noteq> FC_WRITE_MULTIPLE_REGISTERS" "buffer ! 1 = FC_READ_WRITE_MULTIPLE_REGISTERS"
        "11 \<le> length buffer"
    | (other) "buffer ! 1 \<noteq> FC_WRITE_MULTIPLE_REGISTERS" "buffer ! 1 \<noteq> FC_READ_WRITE_MULTIPLE_REGISTERS"
    using assms two unfolding master_expected_len_def Let_def by (metis leI option.simps(3))
  then show ?thesis
  proof cases
    case wr
    then show ?thesis
      using assms two unfolding master_expected_len_def Let_def fc by (simp add: nth_append split: if_splits)
  next
    case rd
    then show ?thesis
      using assms two unfolding master_expected_len_def Let_def fc by (simp add: nth_append split: if_splits)
  next
    case other
    then show ?thesis
      using assms two unfolding master_expected_len_def Let_def fc by simp
  qed
qed

interpretation master_scanner: frame_scanner master_expected_len "\<lambda>_. True"
proof
  show "master_expected_len [] = None" by (simp add: master_expected_len_def)
  show "\<And>buffer n tail. master_expected_len buffer = Some n \<Longrightarrow> master_expected_len (buffer @ tail) = Some n"
    by (rule master_len_append)
  show "\<And>buffer. master_expected_len buffer \<noteq> Some 0"
    using master_len_facts by fastforce
qed

lemma drain_master_scans:
  "drain_master reports = (frames, rest) \<Longrightarrow>
   master_scanner.scans (map br_byte reports) (map (map br_byte) frames) (map br_byte rest)"
proof (induction reports arbitrary: frames rest rule: drain_master.induct)
  case (1 reports)
  show ?case
  proof (cases "reports = []")
    case True
    then show ?thesis
      using "1.prems" by (simp add: drain_master.simps master_scanner.scans_wait master_scanner.head_nil)
  next
    case ne: False
    show ?thesis
    proof (cases "master_expected_len (map br_byte reports)")
      case None
      then show ?thesis
        using "1.prems" ne by (auto simp: drain_master.simps [of reports] scan_head_def intro: master_scanner.scans_wait)
    next
      case (Some n)
      show ?thesis
      proof (cases "n < 0")
        case True
        then have "drain_master (tl reports) = (frames, rest)"
          using "1.prems" ne Some by (simp add: drain_master.simps [of reports])
        then show ?thesis
          using "1.IH"(1) [OF ne Some True] Some True
          by (auto simp: scan_head_def map_tl intro: master_scanner.scans_skip)
      next
        case pos: False
        show ?thesis
        proof (cases "int (length reports) < n")
          case True
          then show ?thesis
            using "1.prems" ne Some pos
            by (auto simp: drain_master.simps [of reports] scan_head_def intro: master_scanner.scans_wait)
        next
          case enough: False
          then obtain fs where fs: "drain_master (drop (nat n) reports) = (fs, rest)"
              and frames: "frames = take (nat n) reports # fs"
            using "1.prems" ne Some pos by (auto simp: drain_master.simps [of reports] split: prod.splits)
          have "scan_head master_expected_len (\<lambda>_. True) (map br_byte reports) =
              Frame (map br_byte (take (nat n) reports))"
            using Some pos enough by (simp add: scan_head_def take_map)
          moreover have "length (map br_byte (take (nat n) reports)) = nat n"
            using pos enough by simp
          ultimately show ?thesis
            using "1.IH"(2) [OF ne Some pos enough fs] unfolding frames
            by (simp add: master_scanner.scans_frame drop_map)
        qed
      qed
    qed
  qed
qed

text \<open>Draining the buffer after every byte or once at the end gives the same frames.\<close>

lemma drain_master_nil [simp]: "drain_master [] = ([], [])"
  by (simp add: drain_master.simps)

lemma drain_master_exact:
  assumes "map br_byte reports = concat fs"
    and "\<And>f. f \<in> set fs \<Longrightarrow> master_expected_len f = Some (int (length f))"
  shows "\<exists>frames. drain_master reports = (frames, []) \<and> map (map br_byte) frames = fs"
proof -
  obtain frames rest where d: "drain_master reports = (frames, rest)"
    by fastforce
  have "master_scanner.scans (map br_byte reports) fs []"
    unfolding assms(1) by (rule master_scanner.scans_frames) (simp add: assms(2))
  then have "map (map br_byte) frames = fs \<and> map br_byte rest = []"
    using master_scanner.scans_unique [OF _ drain_master_scans [OF d]] by simp
  then show ?thesis using d by simp
qed

lemma master_len_status_poll: "master_expected_len (status_poll c sl) = Some (int (length (status_poll c sl)))"
  by (simp add: status_poll_def master_expected_len_def Let_def nth_append_crc const_defs)

lemma master_len_light: "master_expected_len (light_command c e sl) = Some (int (length (light_command c e sl)))"
  by (simp add: light_command_def master_expected_len_def Let_def nth_append_crc const_defs)

lemma master_len_scan: "master_expected_len (bus_scan_request sl st v) = Some (int (length (bus_scan_request sl st v)))"
  by (simp add: bus_scan_request_def master_expected_len_def Let_def nth_append_crc const_defs)

lemma master_len_broadcast: "master_expected_len (broadcast_status b) = Some (int (length (broadcast_status b)))"
  by (simp add: broadcast_status_def master_expected_len_def Let_def nth_append_crc const_defs)

lemmas master_lens = master_len_status_poll master_len_light master_len_scan master_len_broadcast

definition master_sent :: "bytes \<Rightarrow> bool" where
  "master_sent f \<longleftrightarrow>
     (\<exists>c sl. f = status_poll c sl) \<or> (\<exists>c e sl. f = light_command c e sl) \<or>
     (\<exists>sl st v. f = bus_scan_request sl st v) \<or> (\<exists>b. f = broadcast_status b)"

lemma master_sentI [intro, simp]:
  "master_sent (status_poll c sl)" "master_sent (light_command c e sl)"
  "master_sent (bus_scan_request sl st v)" "master_sent (broadcast_status b)"
  unfolding master_sent_def by blast+

lemma master_sent_len: "master_sent f \<Longrightarrow> master_expected_len f = Some (int (length f))"
  by (auto simp: master_sent_def master_lens)

text \<open>C31: When the bytes on the request line are the frames of the simulated master back to back, in any order and
  number, the capture decoder cuts the stream into exactly these frames and leaves no byte behind.\<close>

theorem master_stream_decoded:
  assumes "map br_byte reports = concat fs" and "\<forall>f \<in> set fs. master_sent f"
  shows "\<exists>frames. drain_master reports = (frames, []) \<and> map (map br_byte) frames = fs"
  using assms by (intro drain_master_exact) (simp_all add: master_sent_len)

abbreviation plain_report :: "byte \<Rightarrow> byte_report" where
  "plain_report b \<equiv> \<lparr>br_start_us = 0, br_byte = b, br_errors = []\<rparr>"

theorem master_stream_decoded_witness:
  "\<exists>frames. drain_master (map plain_report (status_poll 1 SLAVE_ID @ light_command 2 True SLAVE_ID)) = (frames, []) \<and>
     map (map br_byte) frames = [status_poll 1 SLAVE_ID, light_command 2 True SLAVE_ID]"
proof (rule master_stream_decoded)
  show "map br_byte (map plain_report (status_poll 1 SLAVE_ID @ light_command 2 True SLAVE_ID)) =
      concat [status_poll 1 SLAVE_ID, light_command 2 True SLAVE_ID]"
    by (simp add: comp_def)
  show "\<forall>f \<in> set [status_poll 1 SLAVE_ID, light_command 2 True SLAVE_ID]. master_sent f"
    by simp
qed

lemma kind_status_poll: "decode_master_kind (status_poll c sl) = ''status_poll''"
  by (simp add: status_poll_def decode_master_kind_def Let_def nth_append_crc be16_def const_defs)

lemma kind_light: "decode_master_kind (light_command c e sl) = ''command''"
  by (simp add: light_command_def decode_master_kind_def Let_def nth_append_crc be16_def const_defs)

lemma kind_scan: "decode_master_kind (bus_scan_request sl st v) = ''bus_scan''"
  by (simp add: bus_scan_request_def decode_master_kind_def Let_def nth_append_crc be16_def const_defs)

lemma kind_broadcast: "decode_master_kind (broadcast_status b) = ''broadcast''"
  by (simp add: broadcast_status_def decode_master_kind_def Let_def nth_append_crc be16_def const_defs)

lemma counter_status_poll: "master_counter (status_poll c sl) = Some (c mod 256)"
  by (simp add: master_counter_def kind_status_poll)
    (simp add: status_poll_def nth_append_crc uint_byte_of)

lemma counter_light: "master_counter (light_command c e sl) = Some (c mod 256)"
  by (simp add: master_counter_def kind_light)
    (simp add: light_command_def nth_append_crc uint_byte_of)

text \<open>The capture tool names every frame of the simulated master by its own kind and reads back the counter the
  master wrote, reduced to a byte; frames without a counter have none.\<close>

theorem decode_master_frames:
  "decode_master_kind (status_poll c sl) = ''status_poll'' \<and> master_counter (status_poll c sl) = Some (c mod 256) \<and>
   decode_master_kind (light_command c e sl) = ''command'' \<and> master_counter (light_command c e sl) = Some (c mod 256) \<and>
   decode_master_kind (bus_scan_request sl st v) = ''bus_scan'' \<and> master_counter (bus_scan_request sl st v) = None \<and>
   decode_master_kind (broadcast_status b) = ''broadcast'' \<and> master_counter (broadcast_status b) = None"
  by (simp add: kind_status_poll kind_light kind_scan kind_broadcast counter_status_poll counter_light)
    (simp add: master_counter_def kind_scan kind_broadcast)

subsection \<open>Injected faults\<close>

lemma take_append_crc_payload: "take (length (append_crc p) - 2) (append_crc p) = p"
  by (simp add: append_crc_foldl)

lemma status_poll_payload:
  "take (length (status_poll c sl) - 2) (status_poll c sl) =
     [sl, FC_READ_WRITE_MULTIPLE_REGISTERS, 0x9C, 0xB9, 0x00, 0x08, 0x9C, 0x41,
      0x00, 0x02, 0x04, byte_of c, 0x03, 0x00, 0x00]"
  unfolding status_poll_def by (rule take_append_crc_payload)

lemma corrupt_not_ok: "\<not> crc_ok (corrupt_crc_frame (status_poll c sl))"
proof -
  let ?v = "status_poll c sl"
  have len: "length ?v = 17" by (simp add: status_poll_def)
  have "foldl crc_step 0xFFFF (?v[16 := ?v ! 16 XOR 0x55]) \<noteq> foldl crc_step 0xFFFF ?v"
  proof (rule crc16.byte_change_detected)
    have "?v ! 16 XOR 0x55 \<noteq> ?v ! 16"
    proof
      assume "?v ! 16 XOR 0x55 = ?v ! 16"
      then have "bit (?v ! 16 XOR 0x55) 0 = bit (?v ! 16) 0" by simp
      then show False by (simp add: bit_xor_iff)
    qed
    then show "?v ! 16 \<noteq> ?v ! 16 XOR 0x55" by simp
  qed (simp add: len)
  moreover have "foldl crc_step 0xFFFF ?v = 0"
    using crc16_append_crc by (simp add: status_poll_def crc16_modbus_def)
  ultimately show ?thesis
    by (simp add: corrupt_crc_frame_def crc_ok_def crc16_modbus_def len)
qed

lemma wrong_slave_differs: "wrong_slave_frame c sl ! 0 \<noteq> sl"
proof
  have u: "0 \<le> uint sl" "uint sl < 256"
    using uint_ge_0 [of sl] uint_lt2p [of sl] by simp_all
  assume "wrong_slave_frame c sl ! 0 = sl"
  then have "uint (byte_of (uint sl mod 247 + 1)) = uint sl"
    by (simp add: wrong_slave_frame_def status_poll_def nth_append_crc)
  then have "uint sl mod 247 + 1 = uint sl"
    using u by (simp add: uint_byte_of)
  then show False using u by presburger
qed

text \<open>None of the bad frames the simulator injects is a status poll of the addressed accessory: the corrupted
  one fails the CRC, the wrong-slave one carries another address, the wrong register and the bad byte count are no
  known request although their CRC is right, and the truncated one never completes a frame.\<close>

theorem injected_faults_rejected:
  "\<not> crc_ok (corrupt_crc_frame (status_poll c sl)) \<and>
   wrong_slave_frame c sl ! 0 \<noteq> sl \<and>
   crc_ok (wrong_register_frame (status_poll c sl)) \<and>
   decode_master_kind (wrong_register_frame (status_poll c sl)) = ''unknown'' \<and>
   crc_ok (bad_byte_count_frame (status_poll c sl)) \<and>
   decode_master_kind (bad_byte_count_frame (status_poll c sl)) = ''unknown'' \<and>
   master_expected_len (take 8 (status_poll c sl)) = None"
proof -
  have reg: "wrong_register_frame (status_poll c sl) =
      append_crc [sl, FC_READ_WRITE_MULTIPLE_REGISTERS, 0x9C, 0xB8, 0x00, 0x08, 0x9C, 0x41,
        0x00, 0x02, 0x04, byte_of c, 0x03, 0x00, 0x00]"
    unfolding wrong_register_frame_def Let_def status_poll_payload by simp
  have cnt: "bad_byte_count_frame (status_poll c sl) =
      append_crc [sl, FC_READ_WRITE_MULTIPLE_REGISTERS, 0x9C, 0xB9, 0x00, 0x08, 0x9C, 0x41,
        0x00, 0x02, 0x06, byte_of c, 0x03, 0x00, 0x00]"
    unfolding bad_byte_count_frame_def status_poll_payload by simp
  have trunc: "take 8 (status_poll c sl) = [sl, FC_READ_WRITE_MULTIPLE_REGISTERS, 0x9C, 0xB9, 0x00, 0x08, 0x9C, 0x41]"
    by (simp add: status_poll_def take_append_crc)
  show ?thesis
    by (intro conjI corrupt_not_ok wrong_slave_differs)
      (simp_all add: reg cnt trunc crc_ok_append_crc decode_master_kind_def master_expected_len_def Let_def
        nth_append_crc be16_def const_defs)
qed

subsection \<open>Percentiles\<close>

text \<open>The two percentile routines of the tools agree on every percentage from 0 to 100.\<close>

lemma percentiles_agree:
  assumes "0 \<le> pct" and "pct \<le> 100"
  shows "la_percentile xs pct = percentile xs pct"
proof (cases "length xs \<le> 1")
  case True
  then show ?thesis by (cases xs) (simp_all add: la_percentile_def percentile_def)
next
  case False
  define rank :: rat where "rank = (of_int pct / 100) * of_nat (length xs - 1)"
  have "rank \<le> 1 * of_nat (length xs - 1)"
    unfolding rank_def using assms(2) by (intro mult_right_mono) simp_all
  then have le: "rank \<le> of_int (int (length xs) - 1)"
    using False by (simp add: of_nat_diff)
  then have c: "\<lceil>rank\<rceil> \<le> int (length xs) - 1"
    unfolding ceiling_le_iff .
  have "\<lceil>rank\<rceil> = \<lfloor>rank\<rfloor> + (if rank = of_int \<lfloor>rank\<rfloor> then 0 else 1)"
    by (auto simp: ceiling_altdef)
  then have "min (int (length xs) - 1) (\<lfloor>rank\<rfloor> + (if rank = of_int \<lfloor>rank\<rfloor> then 0 else 1)) = \<lceil>rank\<rceil>"
    using c by simp
  then show ?thesis
    using False unfolding la_percentile_def percentile_def rank_def [symmetric] Let_def by auto
qed

subsection \<open>Matching polls and responses\<close>

lemma best_poll_Some:
  assumes "best_poll start_us i polls best = Some (j, p)"
  shows "best = Some (j, p) \<or>
    i \<le> j \<and> j < i + length polls \<and> polls ! (j - i) = p \<and> mf_end_us p \<le> start_us"
  using assms
proof (induction polls arbitrary: i best)
  case (Cons q polls)
  let ?b = "if mf_end_us q \<le> start_us \<and> (case best of None \<Rightarrow> True | Some (_, b) \<Rightarrow> mf_end_us b < mf_end_us q)
      then Some (i, q) else best"
  have "best_poll start_us (i + 1) polls ?b = Some (j, p)"
    using Cons.prems by simp
  from Cons.IH [OF this] show ?case
  proof
    assume "?b = Some (j, p)"
    then show ?thesis by (cases "?b = Some (i, q)") (auto split: if_splits)
  next
    assume r: "i + 1 \<le> j \<and> j < i + 1 + length polls \<and> polls ! (j - (i + 1)) = p \<and> mf_end_us p \<le> start_us"
    then have "j - i = Suc (j - (i + 1))" by linarith
    then show ?thesis using r by simp
  qed
qed simp

definition pend_inv :: "master_frame list \<Rightarrow> pending \<Rightarrow> bool" where
  "pend_inv polls pending \<longleftrightarrow>
     (\<forall>(c, ps) \<in> set pending. \<forall>p \<in> set ps. p \<in> set polls \<and> mf_counter p = Some c)"

lemma pend_inv_Nil [simp]: "pend_inv polls []"
  by (simp add: pend_inv_def)

lemma pend_inv_Cons [simp]:
  "pend_inv polls ((c, ps) # pending) \<longleftrightarrow>
   (\<forall>p \<in> set ps. p \<in> set polls \<and> mf_counter p = Some c) \<and> pend_inv polls pending"
  by (simp add: pend_inv_def)

lemma pending_count_simps [simp]:
  "pending_count [] = 0" "pending_count ((c, ps) # pending) = length ps + pending_count pending"
  by (simp_all add: pending_count_def)

lemma add_pending_facts:
  assumes "mf_counter poll \<noteq> None" and "poll \<in> set polls" and "pend_inv polls pending"
  shows "pend_inv polls (add_pending poll pending) \<and>
    pending_count (add_pending poll pending) = Suc (pending_count pending)"
  using assms by (induction poll pending rule: add_pending.induct) auto

lemma fold_add_pending:
  assumes "\<forall>p \<in> set ps. mf_counter p \<noteq> None \<and> p \<in> set polls" and "pend_inv polls pending"
  shows "pend_inv polls (fold add_pending ps pending) \<and>
    pending_count (fold add_pending ps pending) = length ps + pending_count pending"
  using assms
proof (induction ps arbitrary: pending)
  case (Cons p ps)
  have "pend_inv polls (add_pending p pending) \<and>
      pending_count (add_pending p pending) = Suc (pending_count pending)"
    using Cons.prems by (intro add_pending_facts) auto
  then show ?case using Cons by auto
qed simp

lemma candidate_facts:
  assumes "pend_inv polls pending" and "i < length (candidates counter pending)"
  shows "candidates counter pending ! i \<in> set polls"
    and "mf_counter (candidates counter pending ! i) = Some counter"
    and "pend_inv polls (pop_candidate counter i pending)"
    and "Suc (pending_count (pop_candidate counter i pending)) = pending_count pending"
  using assms
  by (induction counter i pending rule: pop_candidate.induct)
    (auto split: if_splits dest!: in_set_takeD in_set_dropD)

definition pair_ok :: "master_frame list \<Rightarrow> decoded_window list \<Rightarrow> latency_pair \<Rightarrow> bool" where
  "pair_ok polls windows p \<longleftrightarrow>
     (\<exists>q \<in> set polls. \<exists>w \<in> set windows.
        mf_counter q = Some (lp_counter p) \<and> dw_counter w = Some (lp_counter p) \<and>
        lp_poll_end_us p = mf_end_us q \<and> lp_de_assert_us p = dw_start_us w \<and> mf_end_us q \<le> dw_start_us w)"

definition matching_inv :: "master_frame list \<Rightarrow> decoded_window list \<Rightarrow> nat \<Rightarrow> matching \<Rightarrow> bool" where
  "matching_inv polls windows n m \<longleftrightarrow>
     pend_inv polls (mg_pending m) \<and> pending_count (mg_pending m) + length (mg_pairs m) = length polls \<and>
     length (mg_pairs m) + mg_unmatched m = n \<and> (\<forall>p \<in> set (mg_pairs m). pair_ok polls windows p)"

lemma match_response_inv:
  assumes inv: "matching_inv polls windows n m" and w: "w \<in> set windows" "dw_counter w \<noteq> None"
    and framed: "dw_first_byte_start_us w = Some a" "dw_frame_end_us w = Some b"
  shows "matching_inv polls windows (Suc n) (match_response w m)"
proof -
  let ?c = "the (dw_counter w)"
  show ?thesis
  proof (cases "best_poll (dw_start_us w) 0 (candidates ?c (mg_pending m)) None")
    case None
    then show ?thesis using inv by (simp add: match_response_def Let_def matching_inv_def)
  next
    case (Some ip)
    obtain i p where ip: "ip = (i, p)" by (cases ip)
    have i: "i < length (candidates ?c (mg_pending m))" and p: "candidates ?c (mg_pending m) ! i = p"
      and le: "mf_end_us p \<le> dw_start_us w"
      using best_poll_Some [OF Some [unfolded ip]] by auto
    have pend: "pend_inv polls (mg_pending m)" using inv by (simp add: matching_inv_def)
    note facts = candidate_facts [OF pend i, unfolded p]
    have "pair_ok polls windows (make_pair ?c p w a b)"
      unfolding pair_ok_def using facts(1,2) w le
      by (intro bexI [of _ p] bexI [of _ w]) (auto simp: make_pair_def)
    then show ?thesis
      using inv facts(3,4) Some framed
      by (auto simp: match_response_def Let_def matching_inv_def ip)
  qed
qed

lemma match_all_inv:
  assumes "\<forall>p \<in> set polls. mf_counter p \<noteq> None"
    and "\<forall>w \<in> set ws. dw_counter w \<noteq> None \<and> dw_first_byte_start_us w \<noteq> None \<and> dw_frame_end_us w \<noteq> None"
  shows "matching_inv polls ws (length ws) (match_all polls ws)"
proof -
  have "matching_inv polls ws (n + length vs) (fold match_response vs m)"
    if "matching_inv polls ws n m" "set vs \<subseteq> set ws" for n vs m
    using that
  proof (induction vs arbitrary: n m)
    case (Cons v vs)
    obtain a b where "dw_first_byte_start_us v = Some a" "dw_frame_end_us v = Some b"
      using assms(2) Cons.prems by auto
    then have "matching_inv polls ws (Suc n) (match_response v m)"
      using assms(2) Cons.prems by (intro match_response_inv) auto
    from Cons.IH [OF this] Cons.prems show ?case by simp
  qed simp
  moreover have "matching_inv polls ws 0 \<lparr>mg_pending = fold add_pending polls [], mg_pairs = [], mg_unmatched = 0\<rparr>"
    using fold_add_pending [of polls polls "[]"] assms(1) by (simp add: matching_inv_def)
  ultimately show ?thesis unfolding match_all_def by fastforce
qed

lemma decode_window_framed:
  assumes "dw_crc_ok (decode_window level origin_s edges bit_s w)"
  shows "dw_first_byte_start_us (decode_window level origin_s edges bit_s w) \<noteq> None"
    and "dw_frame_end_us (decode_window level origin_s edges bit_s w) \<noteq> None"
  using assms by (auto simp: decode_window_def Let_def split: if_splits)

text \<open>Every status poll of the capture is either matched or counted as unmatched, every status response likewise,
  so no poll serves two responses; and a reported pair is a poll and a response with the same counter, the poll
  ending no later than the driver is enabled for the response.\<close>

theorem latency_accounting:
  "let windows = map (decode_window level origin_s edges bit_s) ws;
       polls = status_polls frames; responses = status_responses windows;
       r = latency_of frames windows
   in lr_matched_pairs r + lr_unmatched_polls r = length polls \<and>
      lr_matched_pairs r + lr_unmatched_responses r = length responses \<and>
      list_all (\<lambda>p. pair_ok polls responses p \<and> 0 \<le> poll_end_to_de_assert_us p) (lr_pairs_detail r)"
proof -
  let ?windows = "map (decode_window level origin_s edges bit_s) ws"
  let ?polls = "status_polls frames" and ?responses = "status_responses ?windows"
  have "\<forall>p \<in> set ?polls. mf_counter p \<noteq> None"
    by (simp add: status_polls_def)
  moreover have "\<forall>w \<in> set ?responses.
      dw_counter w \<noteq> None \<and> dw_first_byte_start_us w \<noteq> None \<and> dw_frame_end_us w \<noteq> None"
    using decode_window_framed by (auto simp: status_responses_def)
  ultimately have inv: "matching_inv ?polls ?responses (length ?responses) (match_all ?polls ?responses)"
    by (rule match_all_inv)
  have nonneg: "0 \<le> poll_end_to_de_assert_us p" if "pair_ok ps vs p" for ps vs p
    using that by (auto simp: pair_ok_def poll_end_to_de_assert_us_def)
  have "list_all (\<lambda>p. pair_ok ?polls ?responses p \<and> 0 \<le> poll_end_to_de_assert_us p)
      (mg_pairs (match_all ?polls ?responses))"
    using inv nonneg by (auto simp: matching_inv_def list_all_iff)
  then have "list_all (\<lambda>p. pair_ok ?polls ?responses p \<and> 0 \<le> poll_end_to_de_assert_us p)
      (take 200 (mg_pairs (match_all ?polls ?responses)))"
    by (metis append_take_drop_id list_all_append)
  then show ?thesis
    using inv by (simp add: latency_of_def Let_def matching_inv_def)
qed

subsection \<open>High windows\<close>

definition open_inv :: "rat \<Rightarrow> int option \<Rightarrow> rat option \<Rightarrow> window list \<Rightarrow> bool" where
  "open_inv t level start_s ws \<longleftrightarrow>
     (level = Some 0 \<and> start_s = None \<or> level = Some 1 \<and> start_s \<noteq> None) \<and>
     (\<forall>x. start_s = Some x \<longrightarrow> x \<le> t \<and> (\<forall>w \<in> set ws. w_end w \<le> x)) \<and>
     sorted_wrt (\<lambda>a b. w_end a \<le> w_start b) ws \<and>
     (\<forall>w \<in> set ws. w_start w \<le> w_end w \<and> w_end w \<le> t)"

lemma open_inv_later: "open_inv t level start_s ws \<Longrightarrow> t \<le> t' \<Longrightarrow> open_inv t' level start_s ws"
  by (fastforce simp: open_inv_def)

definition covered :: "window list \<Rightarrow> rat option \<Rightarrow> rat \<Rightarrow> bool" where
  "covered ws start_s t \<longleftrightarrow> in_some_window ws t \<or> (\<exists>x. start_s = Some x \<and> x \<le> t)"

lemma in_some_window_append [simp]:
  "in_some_window (ws @ [w]) t \<longleftrightarrow> in_some_window ws t \<or> contains_time w t"
  "\<not> in_some_window [] t"
  by (auto simp: in_some_window_def)

text \<open>One sample of \<open>high_loop\<close>, as a step on its three variables.\<close>

definition high_step ::
  "string \<Rightarrow> la_sample \<Rightarrow> int option \<times> rat option \<times> window list \<Rightarrow> int option \<times> rat option \<times> window list"
where
  "high_step channel sample st =
     (case st of (level, start_s, windows) \<Rightarrow> high_loop channel [sample] level start_s windows)"

lemma high_loop_Cons:
  "high_loop channel (s # ss) level start_s ws =
   (case high_step channel s (level, start_s, ws) of (level, start_s, ws) \<Rightarrow> high_loop channel ss level start_s ws)"
  by (cases start_s) (simp_all add: high_step_def split: option.split)

lemma high_step_cases:
  assumes inv: "open_inv t level start_s ws" and le: "t \<le> sm_time s"
    and v: "value_at s channel \<in> {None, Some 0, Some 1}"
    and st: "high_step channel s (level, start_s, ws) = (level', start_s', ws')"
  shows "open_inv (sm_time s) level' start_s' ws'"
    and "value_at s channel = Some 1 \<Longrightarrow> covered ws' start_s' (sm_time s)"
    and "t' \<le> sm_time s \<Longrightarrow> covered ws start_s t' \<Longrightarrow> covered ws' start_s' t'"
proof -
  consider (none) "value_at s channel = None" | (low) "value_at s channel = Some 0" "level = Some 0"
    | (fall) x where "value_at s channel = Some 0" "level = Some 1" "start_s = Some x"
    | (rise) "value_at s channel = Some 1" "level = Some 0"
    | (high) x where "value_at s channel = Some 1" "level = Some 1" "start_s = Some x"
    using v inv by (auto simp: open_inv_def)
  then have "open_inv (sm_time s) level' start_s' ws' \<and>
      (value_at s channel = Some 1 \<longrightarrow> covered ws' start_s' (sm_time s)) \<and>
      (t' \<le> sm_time s \<longrightarrow> covered ws start_s t' \<longrightarrow> covered ws' start_s' t')"
  proof cases
    case none
    then show ?thesis using st open_inv_later [OF inv le] by (auto simp: high_step_def)
  next
    case low
    then show ?thesis using st open_inv_later [OF inv le] inv by (auto simp: high_step_def)
  next
    case (fall x)
    then have st': "level' = Some 0" "start_s' = None" "ws' = ws @ [\<lparr>w_start = x, w_end = sm_time s\<rparr>]"
      using st by (auto simp: high_step_def)
    show ?thesis
      unfolding st' using fall inv le
      by (fastforce simp: open_inv_def covered_def contains_time_def sorted_wrt_append)
  next
    case rise
    then have st': "level' = Some 1" "start_s' = Some (sm_time s)" "ws' = ws"
      using st by (auto simp: high_step_def)
    show ?thesis
      unfolding st' using rise inv le by (fastforce simp: open_inv_def covered_def)
  next
    case (high x)
    then have st': "level' = Some 1" "start_s' = Some x" "ws' = ws"
      using st by (auto simp: high_step_def)
    show ?thesis
      unfolding st' using high inv le by (fastforce simp: open_inv_def covered_def)
  qed
  then show "open_inv (sm_time s) level' start_s' ws'"
    and "value_at s channel = Some 1 \<Longrightarrow> covered ws' start_s' (sm_time s)"
    and "t' \<le> sm_time s \<Longrightarrow> covered ws start_s t' \<Longrightarrow> covered ws' start_s' t'"
    by simp_all
qed

lemma high_loop_covers:
  assumes "open_inv t level start_s ws" and "sorted (t # map sm_time ss)"
    and "\<forall>s \<in> set ss. value_at s channel \<in> {None, Some 0, Some 1}"
    and "high_loop channel ss level start_s ws = (level', start_s', ws')"
  shows "open_inv (last (t # map sm_time ss)) level' start_s' ws' \<and>
    (\<forall>s \<in> set ss. value_at s channel = Some 1 \<longrightarrow> covered ws' start_s' (sm_time s)) \<and>
    (\<forall>t' \<le> t. covered ws start_s t' \<longrightarrow> covered ws' start_s' t')"
  using assms
proof (induction ss arbitrary: t level start_s ws)
  case (Cons s ss)
  obtain l1 st1 ws1 where step: "high_step channel s (level, start_s, ws) = (l1, st1, ws1)"
    using prod_cases3 by blast
  have le: "t \<le> sm_time s" and v: "value_at s channel \<in> {None, Some 0, Some 1}"
    using Cons.prems by auto
  note facts = high_step_cases [OF Cons.prems(1) le v step]
  have "high_loop channel ss l1 st1 ws1 = (level', start_s', ws')"
    using Cons.prems(4) unfolding high_loop_Cons step by simp
  then have IH: "open_inv (last (sm_time s # map sm_time ss)) level' start_s' ws' \<and>
      (\<forall>s \<in> set ss. value_at s channel = Some 1 \<longrightarrow> covered ws' start_s' (sm_time s)) \<and>
      (\<forall>t' \<le> sm_time s. covered ws1 st1 t' \<longrightarrow> covered ws' start_s' t')"
    using Cons.prems(2,3) facts(1) by (intro Cons.IH) auto
  then show ?case using facts(2,3) le by fastforce
qed simp

text \<open>For samples in time order whose first one carries the channel, the high windows are in order and do not
  overlap, none ends before it starts, and every sample that shows the channel high lies in one of them.\<close>

theorem high_windows_cover:
  assumes "high_windows samples channel = Inr ws" and "sorted (map sm_time samples)" and "samples \<noteq> []"
    and "\<forall>s \<in> set samples. value_at s channel \<in> {None, Some 0, Some 1}"
    and "value_at (hd samples) channel \<noteq> None"
  shows "sorted_wrt (\<lambda>a b. w_end a \<le> w_start b) ws \<and> (\<forall>w \<in> set ws. w_start w \<le> w_end w) \<and>
    (\<forall>s \<in> set samples. value_at s channel = Some 1 \<longrightarrow> in_some_window ws (sm_time s))"
proof -
  obtain s ss where samples: "samples = s # ss" using assms(3) by (cases samples) auto
  let ?start = "if value_at s channel = Some 1 then Some (sm_time s) else None"
  obtain l st ws' where loop: "high_loop channel ss (value_at s channel) ?start [] = (l, st, ws')"
    using prod_cases3 by blast
  have "open_inv (sm_time s) (value_at s channel) ?start []"
    using assms(4,5) by (auto simp: open_inv_def samples)
  from high_loop_covers [OF this _ _ loop] assms(2,4)
  have fin: "open_inv (last (sm_time s # map sm_time ss)) l st ws' \<and>
      (\<forall>s \<in> set ss. value_at s channel = Some 1 \<longrightarrow> covered ws' st (sm_time s)) \<and>
      (\<forall>t' \<le> sm_time s. covered [] ?start t' \<longrightarrow> covered ws' st t')"
    by (simp add: samples)
  have last_eq: "last (sm_time s # map sm_time ss) = sm_time (last samples)"
    by (simp add: samples last_map)
  have "value_at s channel = Some 1 \<Longrightarrow> covered [] ?start (sm_time s)"
    by (simp add: covered_def)
  then have cov: "\<forall>x \<in> set samples. value_at x channel = Some 1 \<longrightarrow> covered ws' st (sm_time x)"
    using fin by (auto simp: samples)
  have le_last: "\<forall>x \<in> set samples. sm_time x \<le> sm_time (last samples)"
    using assms(2) unfolding samples by (induction ss arbitrary: s) (auto split: if_splits)
  have ws: "ws = (if l = Some 1 \<and> st \<noteq> None
      then ws' @ [\<lparr>w_start = the st, w_end = sm_time (last samples)\<rparr>] else ws')"
    using assms(1) loop by (auto simp: high_windows_def high_windows_of_def samples Let_def split: sum.splits)
  show ?thesis
  proof (cases st)
    case None
    then show ?thesis using fin cov unfolding ws by (auto simp: open_inv_def covered_def)
  next
    case (Some x)
    then have "l = Some 1" using fin by (auto simp: open_inv_def)
    then show ?thesis
      using fin cov le_last unfolding ws Some last_eq
      by (auto simp: open_inv_def covered_def contains_time_def sorted_wrt_append)
  qed
qed

abbreviation de_sample :: "rat \<Rightarrow> int \<Rightarrow> la_sample" where
  "de_sample t v \<equiv> \<lparr>sm_time = t, sm_values = [''de'' \<mapsto> v, ''tx'' \<mapsto> 1]\<rparr>"

lemma example_windows:
  "high_windows [de_sample 0 0, de_sample 1 1, de_sample 2 0] ''de'' = Inr [\<lparr>w_start = 1, w_end = 2\<rparr>]"
  by (simp add: high_windows_def require_channel_def has_channel_def high_windows_of_def value_at_def Let_def)

theorem high_windows_cover_witness:
  "in_some_window [\<lparr>w_start = 1, w_end = 2\<rparr>] 1"
  using high_windows_cover [OF example_windows] by (simp add: value_at_def)

subsection \<open>The combined verdict\<close>

lemma gaps_from_nil: "gaps_from i counters = [] \<longleftrightarrow> successively (\<lambda>a b. b = next_counter a) counters"
  by (induction i counters rule: gaps_from.induct) (auto simp: Let_def)

lemma verdict_of_ok [simp]: "verdict_of fs = ''ok'' \<longleftrightarrow> fs = []"
  by (simp add: verdict_of_def)

lemma verdict_of_fail: "verdict_of fs = ''fail'' \<longleftrightarrow> fs \<noteq> []"
  by (simp add: verdict_of_def)

lemma if_single_nil: "(if b then [x] else []) = [] \<longleftrightarrow> \<not> b"
  by simp

lemma filter_length_all: "length (filter P xs) = length xs \<Longrightarrow> list_all P xs"
proof (induction xs)
  case (Cons x xs)
  then show ?case using length_filter_le [of P xs] by (cases "P x") auto
qed simp

lemma summarize_ok:
  assumes "us_failures (summarize_decoded_uart windows allow_gaps minimum) = []"
  shows "list_all dw_crc_ok (decoded_windows windows) \<and>
    list_all (\<lambda>w. dw_errors w = []) (decoded_windows windows) \<and>
    minimum \<le> int (length (status_windows windows)) \<and>
    (allow_gaps \<or> successively (\<lambda>a b. b = next_counter a) (List.map_filter dw_counter (status_windows windows)))"
proof -
  note parts = assms [unfolded summarize_decoded_uart_def Let_def uart_summary.select_convs
      append_is_Nil_conv if_single_nil status_counter_gaps_def gaps_from_nil]
  have "list_all dw_crc_ok (decoded_windows windows)"
    using parts by (intro filter_length_all) simp
  moreover have "\<forall>w \<in> set (decoded_windows windows). dw_errors w = []"
    using parts by (simp add: filter_empty_conv)
  ultimately show ?thesis
    using parts by (auto simp: list_all_iff)
qed

lemma analyze_ok:
  assumes "er_failures (analyze_cropped eo samples windows txs) = []"
  shows "list_all (\<lambda>w. duration_us w \<le> eo_max_de_high_us eo) windows"
    and "eo_require_tx_only_during_de eo \<Longrightarrow> list_all (in_some_window windows) txs"
    and "eo_require_initial_de_low eo \<Longrightarrow> value_at (hd samples) ''de'' = Some 0"
proof -
  note parts = assms [unfolded analyze_cropped_def Let_def electrical_report.select_convs append_is_Nil_conv
      if_single_nil map_is_Nil_conv filter_empty_conv]
  show "list_all (\<lambda>w. duration_us w \<le> eo_max_de_high_us eo) windows"
    using parts by (auto simp: list_all_iff not_less)
  show "eo_require_tx_only_during_de eo \<Longrightarrow> list_all (in_some_window windows) txs"
    using parts by (simp add: list_all_iff filter_empty_conv)
  show "eo_require_initial_de_low eo \<Longrightarrow> value_at (hd samples) ''de'' = Some 0"
    using parts by simp
qed

lemma verify_samples_Inr:
  assumes "verify_samples eo samples ignore signal gate baud allow_gaps minimum = Inr r"
  obtains cropped de txs decoded lat where "crop_samples samples ignore = Inr cropped"
    and "high_windows cropped ''de'' = Inr de" and "tx_transitions_of cropped = Inr txs"
    and "decode_uart_windows samples signal gate baud ignore = Inr decoded"
    and "r = combine_reports (analyze_cropped eo cropped de txs)
      (apply_uart_sampling_check (summarize_decoded_uart decoded allow_gaps minimum) cropped baud) lat"
  using assms unfolding verify_samples_def analyze_samples_def Let_def
  by (auto split: sum.splits)

lemma sampling_check_failures:
  "us_failures (apply_uart_sampling_check u samples baud) = [] \<Longrightarrow> us_failures u = []"
  by (auto simp: apply_uart_sampling_check_def Let_def split: if_splits)


definition tiny_capture :: "la_sample list" where
  "tiny_capture = [de_sample 0 0, de_sample (1 / 1000) 1, de_sample (1 / 500) 0]"

lemma tiny_facts:
  "crop_samples tiny_capture 0 = Inr tiny_capture"
  "high_windows tiny_capture ''de'' = Inr [\<lparr>w_start = 1 / 1000, w_end = 1 / 500\<rparr>]"
  "has_channel tiny_capture ''tx''" "\<not> has_channel tiny_capture ''rx''" "\<not> has_channel tiny_capture ''re''"
  "transition_edges tiny_capture ''tx'' = Inr []" "transition_times tiny_capture ''tx'' = Inr []"
  "hd tiny_capture = de_sample 0 0" "last tiny_capture = de_sample (1 / 500) 0"
  by (simp_all add: tiny_capture_def crop_samples_def high_windows_def require_channel_def has_channel_def
      high_windows_of_def value_at_def transition_edges_def transition_times_def Let_def)

lemma tiny_sampling: "sampling_failures tiny_capture 100 = []"
  by (simp add: tiny_capture_def sampling_failures_def uart_sampling_report_def
      estimate_uniform_sample_rate_hz_def Let_def const_defs numeral_eq_Suc)

lemma tiny_window:
  "dw_byte_count (decode_window level 0 [] (1 / 100) w) = 0"
  by (simp add: decode_window_def Let_def)

lemma tiny_uart:
  "us_failures (apply_uart_sampling_check
     (summarize_decoded_uart [decode_window level 0 [] (1 / 100) w] False 0) tiny_capture 100) = []"
  by (simp add: apply_uart_sampling_check_def tiny_sampling summarize_decoded_uart_def decoded_windows_def
      status_windows_def tiny_window status_counter_gaps_def List.map_filter_def Let_def)

lemma tiny_electrical:
  "er_failures (analyze_cropped default_electrical tiny_capture [\<lparr>w_start = 1 / 1000, w_end = 1 / 500\<rparr>] []) = []"
  by (simp add: analyze_cropped_def default_electrical_def re_failures_def re_counts_def tiny_facts
      value_at_def duration_us_def const_defs Let_def)

lemma example_report:
  "\<exists>r. verify_samples default_electrical tiny_capture 0 ''tx'' ''de'' 100 False 0 = Inr r \<and> vr_verdict r = ''ok''"
proof -
  have lat: "summarize_response_latencies tiny_capture 100 0 ''tx'' ''de'' ''rx'' = Inr latency_not_run"
    by (simp add: summarize_response_latencies_def tiny_facts)
  show ?thesis
    unfolding verify_samples_def analyze_samples_def tx_transitions_of_def decode_uart_windows_def
    by (simp add: tiny_facts lat tiny_uart tiny_electrical combine_reports_def latency_not_run_def Let_def)
qed


end
