(* ===== verification/Lp_Memory.thy ===== *)
theory Lp_Memory
  imports Prelude
begin

text \<open>
  The byte-addressed memory of the two instruction-set simulators as
  \<open>tools/hcp2_lp_emu/emulator.py\<close> reads and writes it, little endian, and the address map.  The
  memory itself is Unicorn's; what the code relies on is that a read gives back what was last
  written, which is the function update below.
\<close>

type_synonym memory = "int \<Rightarrow> byte"

definition write_bytes :: "int \<Rightarrow> bytes \<Rightarrow> memory \<Rightarrow> memory" where
  "write_bytes addr data m =
     (\<lambda>a. if addr \<le> a \<and> a < addr + int (length data) then data ! nat (a - addr) else m a)"

definition read_bytes :: "memory \<Rightarrow> int \<Rightarrow> nat \<Rightarrow> bytes" where
  "read_bytes m addr n = map (\<lambda>i. m (addr + int i)) [0..<n]"

definition write_u32 :: "int \<Rightarrow> int \<Rightarrow> memory \<Rightarrow> memory" where
  "write_u32 addr v m =
     write_bytes addr [byte_of v, byte_of (v div 0x100), byte_of (v div 0x10000), byte_of (v div 0x1000000)] m"

definition read_u32 :: "memory \<Rightarrow> int \<Rightarrow> int" where
  "read_u32 m addr =
     uint (m addr) + 0x100 * uint (m (addr + 1)) + 0x10000 * uint (m (addr + 2)) + 0x1000000 * uint (m (addr + 3))"

definition write_u16 :: "int \<Rightarrow> int \<Rightarrow> memory \<Rightarrow> memory" where
  "write_u16 addr v m = write_bytes addr [byte_of v, byte_of (v div 0x100)] m"

definition read_u16 :: "memory \<Rightarrow> int \<Rightarrow> int" where
  "read_u16 m addr = uint (m addr) + 0x100 * uint (m (addr + 1))"

definition write_u8 :: "int \<Rightarrow> int \<Rightarrow> memory \<Rightarrow> memory" where
  "write_u8 addr v m = write_bytes addr [byte_of v] m"

definition read_u8 :: "memory \<Rightarrow> int \<Rightarrow> int" where
  "read_u8 m addr = uint (m addr)"

named_theorems mem_simps \<open>reads after writes\<close>

lemma write_bytes_outside: "a < addr \<or> addr + int (length data) \<le> a \<Longrightarrow> write_bytes addr data m a = m a"
  by (auto simp: write_bytes_def)

lemma write_bytes_inside:
  "addr \<le> a \<Longrightarrow> a < addr + int (length data) \<Longrightarrow> write_bytes addr data m a = data ! nat (a - addr)"
  by (simp add: write_bytes_def)

lemma write_u32_at:
  "write_u32 addr v m addr = byte_of v"
  "write_u32 addr v m (addr + 1) = byte_of (v div 0x100)"
  "write_u32 addr v m (addr + 2) = byte_of (v div 0x10000)"
  "write_u32 addr v m (addr + 3) = byte_of (v div 0x1000000)"
  by (simp_all add: write_u32_def write_bytes_inside numeral_eq_Suc)

lemma write_u32_outside: "a < addr \<or> addr + 4 \<le> a \<Longrightarrow> write_u32 addr v m a = m a"
  by (simp add: write_u32_def write_bytes_outside)

lemma write_u16_outside: "a < addr \<or> addr + 2 \<le> a \<Longrightarrow> write_u16 addr v m a = m a"
  by (simp add: write_u16_def write_bytes_outside)

lemma write_u8_outside: "a \<noteq> addr \<Longrightarrow> write_u8 addr v m a = m a"
  unfolding write_u8_def by (rule write_bytes_outside) auto

lemma bytes_join2: "v mod 65536 = v mod 256 + 256 * (v div 256 mod 256)" for v :: int
proof -
  have "v mod 65536 = v mod (256 * 256)" by (simp only: mult_numeral_1 arith_simps)
  also have "\<dots> = 256 * (v div 256 mod 256) + v mod 256" by (rule zmod_zmult2_eq) simp
  finally show ?thesis by (simp only: add.commute)
qed

lemma bytes_join4: "v mod 256 + 256 * (v div 256 mod 256) + 65536 * (v div 65536 mod 256) +
    16777216 * (v div 16777216 mod 256) = v mod 4294967296" for v :: int
proof -
  have "v mod 4294967296 = v mod (65536 * 65536)" by (simp only: mult_numeral_1 arith_simps)
  also have "\<dots> = 65536 * (v div 65536 mod 65536) + v mod 65536" by (rule zmod_zmult2_eq) simp
  finally have split: "v mod 4294967296 = 65536 * (v div 65536 mod 65536) + v mod 65536" .
  have "v div 16777216 = v div (65536 * 256)" by (simp only: mult_numeral_1 arith_simps)
  also have "\<dots> = v div 65536 div 256" by (rule zdiv_zmult2_eq) simp
  finally have high: "v div 16777216 = v div 65536 div 256" .
  have "a + 256 * b + 65536 * c + 16777216 * d = 65536 * (c + 256 * d) + (a + 256 * b)" for a b c d :: int
    by (simp add: algebra_simps)
  then show ?thesis
    unfolding split high bytes_join2 [of v] bytes_join2 [of "v div 65536"] .
qed

lemma read_write_u32 [mem_simps]: "read_u32 (write_u32 addr v m) addr = v mod 2 ^ 32"
  unfolding read_u32_def write_u32_at uint_byte_of
  by (rule trans [OF bytes_join4 [of v]]) simp

lemma read_write_u8 [mem_simps]: "read_u8 (write_u8 addr v m) addr = v mod 256"
  by (simp add: read_u8_def write_u8_def write_bytes_inside uint_byte_of)

lemma read_write_u16 [mem_simps]: "read_u16 (write_u16 addr v m) addr = v mod 2 ^ 16"
  using bytes_join2 [of v] by (simp add: read_u16_def write_u16_def write_bytes_inside uint_byte_of)

lemma read_write_bytes [mem_simps]: "n = length data \<Longrightarrow> read_bytes (write_bytes addr data m) addr n = data"
  by (rule nth_equalityI) (simp_all add: read_bytes_def write_bytes_inside)

text \<open>Disjoint accesses: \<open>a\<close> and \<open>b\<close> are addresses of fields that do not overlap.\<close>

lemma read_u32_other [mem_simps]:
  "b + 4 \<le> a \<or> a + 4 \<le> b \<Longrightarrow> read_u32 (write_u32 a v m) b = read_u32 m b"
  "b + 4 \<le> a \<or> a + 2 \<le> b \<Longrightarrow> read_u32 (write_u16 a v m) b = read_u32 m b"
  "b + 4 \<le> a \<or> a + 1 \<le> b \<Longrightarrow> read_u32 (write_u8 a v m) b = read_u32 m b"
  "b + 4 \<le> a \<or> a + int (length data) \<le> b \<Longrightarrow> read_u32 (write_bytes a data m) b = read_u32 m b"
  by (auto simp: read_u32_def write_u32_outside write_u16_outside write_u8_outside write_bytes_outside)

lemma read_u16_other [mem_simps]:
  "b + 2 \<le> a \<or> a + 4 \<le> b \<Longrightarrow> read_u16 (write_u32 a v m) b = read_u16 m b"
  "b + 2 \<le> a \<or> a + 2 \<le> b \<Longrightarrow> read_u16 (write_u16 a v m) b = read_u16 m b"
  "b + 2 \<le> a \<or> a + 1 \<le> b \<Longrightarrow> read_u16 (write_u8 a v m) b = read_u16 m b"
  by (auto simp: read_u16_def write_u32_outside write_u16_outside write_u8_outside)

lemma read_u8_other [mem_simps]:
  "b + 1 \<le> a \<or> a + 4 \<le> b \<Longrightarrow> read_u8 (write_u32 a v m) b = read_u8 m b"
  "b \<noteq> a \<Longrightarrow> read_u8 (write_u8 a v m) b = read_u8 m b"
  "b + 1 \<le> a \<or> a + int (length data) \<le> b \<Longrightarrow> read_u8 (write_bytes a data m) b = read_u8 m b"
  by (auto simp: read_u8_def write_u32_outside write_u8_outside write_bytes_outside)

lemma read_bytes_other [mem_simps]:
  "b + int n \<le> a \<or> a + 4 \<le> b \<Longrightarrow> read_bytes (write_u32 a v m) b n = read_bytes m b n"
  "b + int n \<le> a \<or> a + 1 \<le> b \<Longrightarrow> read_bytes (write_u8 a v m) b n = read_bytes m b n"
  by (auto simp: read_bytes_def write_u32_outside write_u8_outside)

lemma read_u32_bound: "0 \<le> read_u32 m a" "read_u32 m a < 2 ^ 32"
  using uint_lt2p [of "m a"] uint_lt2p [of "m (a + 1)"] uint_lt2p [of "m (a + 2)"] uint_lt2p [of "m (a + 3)"]
    uint_ge_0 [of "m a"] uint_ge_0 [of "m (a + 1)"] uint_ge_0 [of "m (a + 2)"] uint_ge_0 [of "m (a + 3)"]
  unfolding read_u32_def by simp_all

subsection \<open>The address map\<close>

definition LP_CLOCK_HZ :: int where [const_defs]: "LP_CLOCK_HZ = 20000000"
definition UART_BITS_PER_BYTE :: int where [const_defs]: "UART_BITS_PER_BYTE = 11"
definition UART_BAUD :: int where [const_defs]: "UART_BAUD = 57600"
definition UART_BYTE_CYCLES :: int where
  "UART_BYTE_CYCLES = py_round (of_int (LP_CLOCK_HZ * UART_BITS_PER_BYTE) / of_int UART_BAUD)"

definition LP_SRAM_BASE :: int where [const_defs]: "LP_SRAM_BASE = 0x50000000"
definition LP_SRAM_MAP_SIZE :: int where [const_defs]: "LP_SRAM_MAP_SIZE = 0x10000"
definition MAILBOX_ADDR :: int where [const_defs]: "MAILBOX_ADDR = 0x50002400"
definition MAILBOX_SIZE :: int where [const_defs]: "MAILBOX_SIZE = 1280"
definition MAILBOX_MAGIC :: int where [const_defs]: "MAILBOX_MAGIC = 0x32435048"
definition MAILBOX_ABI_VERSION :: int where [const_defs]: "MAILBOX_ABI_VERSION = 8"
definition MAILBOX_FIRMWARE_VERSION :: int where [const_defs]: "MAILBOX_FIRMWARE_VERSION = 20"
definition MAILBOX_CONFIG_SEQUENCE :: int where [const_defs]: "MAILBOX_CONFIG_SEQUENCE = 1156"
definition MAILBOX_CONFIG_SLAVE_ID :: int where [const_defs]: "MAILBOX_CONFIG_SLAVE_ID = 1160"
definition MAILBOX_CONFIG_SIGNATURE :: int where [const_defs]: "MAILBOX_CONFIG_SIGNATURE = 1161"
definition MAILBOX_CONFIG_RESPONSE_DELAY_US :: int where [const_defs]: "MAILBOX_CONFIG_RESPONSE_DELAY_US = 1172"
definition MAILBOX_CONFIG_BUTTON_PRESS_US :: int where [const_defs]: "MAILBOX_CONFIG_BUTTON_PRESS_US = 1176"

definition LP_UART_BASE :: int where [const_defs]: "LP_UART_BASE = 0x600B1400"
definition LP_UART_FIFO :: int where [const_defs]: "LP_UART_FIFO = 0x600B1400"
definition LP_UART_INT_RAW :: int where [const_defs]: "LP_UART_INT_RAW = 0x600B1404"
definition LP_UART_INT_ST :: int where [const_defs]: "LP_UART_INT_ST = 0x600B1408"
definition LP_UART_INT_ENA :: int where [const_defs]: "LP_UART_INT_ENA = 0x600B140C"
definition LP_UART_INT_CLR :: int where [const_defs]: "LP_UART_INT_CLR = 0x600B1410"
definition LP_UART_STATUS :: int where [const_defs]: "LP_UART_STATUS = 0x600B141C"
definition LP_UART_CONF0 :: int where [const_defs]: "LP_UART_CONF0 = 0x600B1420"
definition LP_UART_CONF1 :: int where [const_defs]: "LP_UART_CONF1 = 0x600B1424"
definition LP_UART_FSM_STATUS :: int where [const_defs]: "LP_UART_FSM_STATUS = 0x600B1470"
definition LP_UART_REG_UPDATE :: int where [const_defs]: "LP_UART_REG_UPDATE = 0x600B1498"

definition UART_INTR_RXFIFO_FULL :: int where [const_defs]: "UART_INTR_RXFIFO_FULL = push_bit 0 1"
definition UART_INTR_TXFIFO_EMPTY :: int where [const_defs]: "UART_INTR_TXFIFO_EMPTY = push_bit 1 1"
definition UART_INTR_RXFIFO_OVF :: int where [const_defs]: "UART_INTR_RXFIFO_OVF = push_bit 4 1"
definition UART_INTR_RXFIFO_TOUT :: int where [const_defs]: "UART_INTR_RXFIFO_TOUT = push_bit 8 1"
definition UART_INTR_TX_DONE :: int where [const_defs]: "UART_INTR_TX_DONE = push_bit 14 1"

definition LP_IO_OUT_DATA :: int where [const_defs]: "LP_IO_OUT_DATA = 0x600B2000"
definition LP_IO_OUT_DATA_W1TS :: int where [const_defs]: "LP_IO_OUT_DATA_W1TS = 0x600B2004"
definition LP_IO_OUT_DATA_W1TC :: int where [const_defs]: "LP_IO_OUT_DATA_W1TC = 0x600B2008"
definition LP_IO_DE_MASK :: int where [const_defs]: "LP_IO_DE_MASK = push_bit 0 1"
definition LP_IO_RE_MASK :: int where [const_defs]: "LP_IO_RE_MASK = push_bit 1 1"

definition LPPERI_BASE :: int where [const_defs]: "LPPERI_BASE = 0x600B2800"
definition LPPERI_CLK_EN :: int where [const_defs]: "LPPERI_CLK_EN = 0x600B2800"
definition LPPERI_RESET_EN :: int where [const_defs]: "LPPERI_RESET_EN = 0x600B2804"
definition LPPERI_LP_UART_CLK_BIT :: int where [const_defs]: "LPPERI_LP_UART_CLK_BIT = push_bit 26 1"

definition PMU_BASE :: int where [const_defs]: "PMU_BASE = 0x600B0000"
definition LP_TIMER_BASE :: int where [const_defs]: "LP_TIMER_BASE = 0x600B0C00"
definition LP_I2C_ANA_MST_BASE :: int where [const_defs]: "LP_I2C_ANA_MST_BASE = 0x600B1000"
definition LP_IO_BASE :: int where [const_defs]: "LP_IO_BASE = 0x600B2000"
definition PCR_BASE :: int where [const_defs]: "PCR_BASE = 0x60096000"

definition page_of :: "int \<Rightarrow> int" where
  "page_of address = address AND NOT 0xFFF"

definition MODELED_MMIO_PAGES :: "int set" where
  "MODELED_MMIO_PAGES =
     page_of ` {PMU_BASE, LP_TIMER_BASE, LP_I2C_ANA_MST_BASE, LP_UART_BASE, LP_IO_BASE, LPPERI_BASE, PCR_BASE}"

lemma uart_byte_cycles: "UART_BYTE_CYCLES = 3819"
proof -
  have "\<lfloor>(220000000 :: rat) / 57600\<rfloor> = 3819" by (simp add: floor_eq_iff)
  then show ?thesis by (simp add: UART_BYTE_CYCLES_def py_round_def const_defs)
qed

end
