(* ===== verification/Lp_Uart.thy ===== *)
theory Lp_Uart
  imports Lp_Memory
begin

text \<open>
  The emulated LP UART and the RS-485 driver pins of \<open>tools/hcp2_lp_emu/emulator.py\<close>: the wire
  towards the core, the two 16-byte FIFOs, the transmitter that sends one byte every
  \<open>UART_BYTE_CYCLES\<close>, the echo through the transceiver, and the status registers.  The record holds
  the fields of \<open>LPEmulator\<close> that these methods use; \<open>now\<close> is its cycle counter.
\<close>

subsection \<open>State\<close>

datatype iss_event =
    Ev_Reply_Latency int int
  | Ev_De int bool
  | Ev_Re int bool
  | Ev_Master_Frame int bytes
  | Ev_Slave_Frame int bytes
  | Ev_Lp_Reset int

record uart =
  u_rx_fifo :: bytes
  u_rx_wire :: "(int \<times> byte) list"
  u_rx_last_due_cycle :: int
  u_tx_fifo :: bytes
  u_tx_next_due_cycle :: "int option"
  u_tx_output :: bytes
  u_tx_first_cycle :: "int option"
  u_echo_tx_to_rx :: bool
  u_echo_mismatch_at :: "int option"
  u_echo_count :: int
  u_tx_fifo_wedged :: bool
  u_last_master_write_cycle :: "int option"
  u_reply_latencies_us :: "rat list"
  u_de_enabled :: bool
  u_re_disabled :: bool
  u_de_events :: "(int \<times> int \<times> bool) list"
  u_re_events :: "(int \<times> int \<times> bool) list"
  u_gpio_writes :: "(int \<times> bool \<times> int) list"
  u_trace_events :: "iss_event list"
  u_tx_when_de_low :: nat
  u_rx_overflows :: nat
  u_tx_overflows :: nat
  u_rx_high_water :: nat
  u_tx_high_water :: nat
  u_max_tx_write_burst :: nat

definition new_uart :: uart where
  "new_uart =
     \<lparr>u_rx_fifo = [], u_rx_wire = [], u_rx_last_due_cycle = 0, u_tx_fifo = [], u_tx_next_due_cycle = None,
      u_tx_output = [], u_tx_first_cycle = None, u_echo_tx_to_rx = True, u_echo_mismatch_at = None,
      u_echo_count = 0, u_tx_fifo_wedged = False, u_last_master_write_cycle = None,
      u_reply_latencies_us = [], u_de_enabled = False, u_re_disabled = False, u_de_events = [],
      u_re_events = [], u_gpio_writes = [], u_trace_events = [], u_tx_when_de_low = 0,
      u_rx_overflows = 0, u_tx_overflows = 0, u_rx_high_water = 0, u_tx_high_water = 0,
      u_max_tx_write_burst = 0\<rparr>"

definition time_us :: "int \<Rightarrow> rat" where
  "time_us now = (of_int now * 1000000) / of_int LP_CLOCK_HZ"

definition trace_event :: "iss_event \<Rightarrow> uart \<Rightarrow> uart" where
  "trace_event ev u = u\<lparr>u_trace_events := u_trace_events u @ [ev]\<rparr>"

definition FIFO_SIZE :: nat where [const_defs]: "FIFO_SIZE = 16"

subsection \<open>Receiving\<close>

definition push_rx :: "byte \<Rightarrow> uart \<Rightarrow> uart" where
  "push_rx byte u =
     (if FIFO_SIZE \<le> length (u_rx_fifo u) then u\<lparr>u_rx_overflows := u_rx_overflows u + 1\<rparr>
      else u\<lparr>u_rx_fifo := u_rx_fifo u @ [byte],
             u_rx_high_water := max (u_rx_high_water u) (length (u_rx_fifo u) + 1)\<rparr>)"

fun deliver :: "int \<Rightarrow> (int \<times> byte) list \<Rightarrow> uart \<Rightarrow> (int \<times> byte) list \<times> uart" where
  "deliver now [] u = ([], u)"
| "deliver now ((due, byte) # wire) u =
     (if due \<le> now then deliver now wire (push_rx byte u) else ((due, byte) # wire, u))"

definition move_wire_to_rx :: "int \<Rightarrow> uart \<Rightarrow> uart" where
  "move_wire_to_rx now u =
     (case deliver now (u_rx_wire u) u of (wire, u) \<Rightarrow> u\<lparr>u_rx_wire := wire\<rparr>)"

subsection \<open>Transmitting\<close>

definition note_first_byte :: "int \<Rightarrow> int \<Rightarrow> uart \<Rightarrow> uart" where
  "note_first_byte now due u =
     (if u_tx_first_cycle u \<noteq> None then u
      else
        let u = u\<lparr>u_tx_first_cycle := Some due\<rparr>
        in case u_last_master_write_cycle u of
             None \<Rightarrow> u
           | Some written \<Rightarrow>
               let latency_us = of_int (due - written) * 1000000 / of_int LP_CLOCK_HZ;
                   u = u\<lparr>u_reply_latencies_us := u_reply_latencies_us u @ [latency_us]\<rparr>
               in trace_event (Ev_Reply_Latency (py_round (time_us now)) (py_round latency_us)) u)"

definition echo_byte :: "byte \<Rightarrow> uart \<Rightarrow> uart" where
  "echo_byte byte u =
     (if u_echo_tx_to_rx u \<and> u_de_enabled u \<and> \<not> u_re_disabled u
      then
        let u = u\<lparr>u_echo_count := u_echo_count u + 1\<rparr>;
            echo = (if u_echo_mismatch_at u = Some (u_echo_count u) then byte XOR 0xFF else byte)
        in push_rx echo u
      else u)"

definition send_byte :: "int \<Rightarrow> int \<Rightarrow> uart \<Rightarrow> uart" where
  "send_byte now due u =
     (let byte = hd (u_tx_fifo u);
          u = u\<lparr>u_tx_fifo := tl (u_tx_fifo u)\<rparr>;
          u = (if \<not> u_de_enabled u then u\<lparr>u_tx_when_de_low := u_tx_when_de_low u + 1\<rparr> else u);
          u = note_first_byte now due u;
          u = u\<lparr>u_tx_output := u_tx_output u @ [byte]\<rparr>;
          u = echo_byte byte u
      in u\<lparr>u_tx_next_due_cycle := (if u_tx_fifo u \<noteq> [] then Some (due + UART_BYTE_CYCLES) else None)\<rparr>)"

lemma push_rx_tx [simp]:
  "u_tx_fifo (push_rx b u) = u_tx_fifo u" "u_tx_output (push_rx b u) = u_tx_output u"
  "u_tx_next_due_cycle (push_rx b u) = u_tx_next_due_cycle u" "u_de_enabled (push_rx b u) = u_de_enabled u"
  "u_re_disabled (push_rx b u) = u_re_disabled u" "u_rx_wire (push_rx b u) = u_rx_wire u"
  "u_tx_high_water (push_rx b u) = u_tx_high_water u" "u_tx_fifo_wedged (push_rx b u) = u_tx_fifo_wedged u"
  by (simp_all add: push_rx_def)

lemma echo_byte_tx [simp]:
  "u_tx_fifo (echo_byte b u) = u_tx_fifo u" "u_tx_output (echo_byte b u) = u_tx_output u"
  "u_tx_next_due_cycle (echo_byte b u) = u_tx_next_due_cycle u" "u_de_enabled (echo_byte b u) = u_de_enabled u"
  "u_rx_wire (echo_byte b u) = u_rx_wire u" "u_tx_high_water (echo_byte b u) = u_tx_high_water u"
  "u_tx_fifo_wedged (echo_byte b u) = u_tx_fifo_wedged u"
  by (simp_all add: echo_byte_def Let_def)

lemma note_first_byte_tx [simp]:
  "u_tx_fifo (note_first_byte now due u) = u_tx_fifo u" "u_tx_output (note_first_byte now due u) = u_tx_output u"
  "u_rx_fifo (note_first_byte now due u) = u_rx_fifo u" "u_rx_wire (note_first_byte now due u) = u_rx_wire u"
  "u_de_enabled (note_first_byte now due u) = u_de_enabled u"
  "u_rx_high_water (note_first_byte now due u) = u_rx_high_water u"
  "u_tx_high_water (note_first_byte now due u) = u_tx_high_water u"
  "u_rx_overflows (note_first_byte now due u) = u_rx_overflows u"
  "u_tx_fifo_wedged (note_first_byte now due u) = u_tx_fifo_wedged u"
  by (simp_all add: note_first_byte_def trace_event_def Let_def split: option.split)

lemma send_byte_tx [simp]:
  "u_tx_fifo (send_byte now due u) = tl (u_tx_fifo u)"
  "u_tx_output (send_byte now due u) = u_tx_output u @ [hd (u_tx_fifo u)]"
  "u_tx_next_due_cycle (send_byte now due u) =
     (if tl (u_tx_fifo u) \<noteq> [] then Some (due + UART_BYTE_CYCLES) else None)"
  "u_de_enabled (send_byte now due u) = u_de_enabled u" "u_rx_wire (send_byte now due u) = u_rx_wire u"
  "u_tx_high_water (send_byte now due u) = u_tx_high_water u"
  "u_tx_fifo_wedged (send_byte now due u) = u_tx_fifo_wedged u"
  by (simp_all add: send_byte_def Let_def)

text \<open>The loop of \<open>_drain_tx\<close>: every round takes a byte out of the FIFO.\<close>

function drain_loop :: "int \<Rightarrow> uart \<Rightarrow> uart" where
  "drain_loop now u =
     (if u_tx_fifo u = [] then u
      else
        let due = (case u_tx_next_due_cycle u of None \<Rightarrow> now + UART_BYTE_CYCLES | Some d \<Rightarrow> d);
            u = u\<lparr>u_tx_next_due_cycle := Some due\<rparr>
        in if now < due then u else drain_loop now (send_byte now due u))"
  by pat_completeness auto
termination
  by (relation "measure (\<lambda>(now, u). length (u_tx_fifo u))") simp_all

declare drain_loop.simps [simp del]

definition drain_tx :: "int \<Rightarrow> uart \<Rightarrow> uart" where
  "drain_tx now u = (if u_tx_fifo_wedged u then u else drain_loop now u)"

definition write_fifo :: "int \<Rightarrow> int \<Rightarrow> uart \<Rightarrow> uart" where
  "write_fifo now value u =
     (if FIFO_SIZE \<le> length (u_tx_fifo u) then u\<lparr>u_tx_overflows := u_tx_overflows u + 1\<rparr>
      else
        let n = length (u_tx_fifo u) + 1
        in u\<lparr>u_tx_fifo := u_tx_fifo u @ [byte_of value],
             u_tx_high_water := max (u_tx_high_water u) n,
             u_max_tx_write_burst := max (u_max_tx_write_burst u) n,
             u_tx_next_due_cycle := (if u_tx_next_due_cycle u = None then Some (now + UART_BYTE_CYCLES)
                                     else u_tx_next_due_cycle u)\<rparr>)"

text \<open>\<open>read_fifo\<close>: the byte a read of the FIFO register gives, 0 when it is empty.\<close>

definition read_fifo :: "uart \<Rightarrow> byte \<times> uart" where
  "read_fifo u =
     (case u_rx_fifo u of [] \<Rightarrow> (0, u) | byte # rest \<Rightarrow> (byte, u\<lparr>u_rx_fifo := rest\<rparr>))"

subsection \<open>Driver pins\<close>

definition set_de :: "int \<Rightarrow> bool \<Rightarrow> uart \<Rightarrow> uart" where
  "set_de now enabled u =
     (if u_de_enabled u = enabled then u
      else trace_event (Ev_De (py_round (time_us now)) enabled)
        (u\<lparr>u_de_enabled := enabled,
           u_de_events := u_de_events u @ [(now, py_round (time_us now), enabled)]\<rparr>))"

definition set_re_disabled :: "int \<Rightarrow> bool \<Rightarrow> uart \<Rightarrow> uart" where
  "set_re_disabled now disabled u =
     (if u_re_disabled u = disabled then u
      else trace_event (Ev_Re (py_round (time_us now)) disabled)
        (u\<lparr>u_re_disabled := disabled,
           u_re_events := u_re_events u @ [(now, py_round (time_us now), disabled)]\<rparr>))"

text \<open>A write to the set (\<open>level = True\<close>) or clear register of the output pins.\<close>

definition write_gpio :: "int \<Rightarrow> bool \<Rightarrow> int \<Rightarrow> uart \<Rightarrow> uart" where
  "write_gpio now level value u =
     (let u = u\<lparr>u_gpio_writes := u_gpio_writes u @ [(now, level, value)]\<rparr>;
          u = (if value AND LP_IO_DE_MASK \<noteq> 0 then set_de now level u else u)
      in if value AND LP_IO_RE_MASK \<noteq> 0 then set_re_disabled now level u else u)"

subsection \<open>Status registers\<close>

definition status_word :: "uart \<Rightarrow> int" where
  "status_word u =
     push_bit 3 (int (length (u_rx_fifo u)) AND 0x1F) OR push_bit 14 1 OR push_bit 15 1 OR
     push_bit 19 (int (length (u_tx_fifo u)) AND 0x1F) OR push_bit 29 1 OR push_bit 30 1 OR push_bit 31 1"

definition fsm_word :: "uart \<Rightarrow> int" where
  "fsm_word u = (if u_tx_fifo u = [] then 0 else push_bit 4 1)"

definition interrupt_word :: "uart \<Rightarrow> int" where
  "interrupt_word u =
     (let intr = (0 :: int);
          intr = (if 10 \<le> length (u_rx_fifo u) then intr OR UART_INTR_RXFIFO_FULL else intr);
          intr = (if u_rx_fifo u \<noteq> [] then intr OR UART_INTR_RXFIFO_TOUT else intr);
          intr = (if u_rx_overflows u \<noteq> 0 then intr OR UART_INTR_RXFIFO_OVF else intr);
          intr = (if length (u_tx_fifo u) < 10 then intr OR UART_INTR_TXFIFO_EMPTY else intr)
      in if u_tx_fifo u = [] then intr OR UART_INTR_TX_DONE else intr)"

definition sync_uart_regs :: "uart \<Rightarrow> memory \<Rightarrow> memory" where
  "sync_uart_regs u m =
     (let m = write_u32 LP_UART_STATUS (status_word u) m;
          m = write_u32 LP_UART_FSM_STATUS (fsm_word u) m;
          intr = interrupt_word u;
          m = write_u32 LP_UART_INT_RAW intr m;
          int_ena = read_u32 m LP_UART_INT_ENA;
          m = write_u32 LP_UART_INT_ST (intr AND int_ena) m
      in write_u32 LP_UART_REG_UPDATE 0 m)"

subsection \<open>The invariant of the UART\<close>

definition uart_inv :: "uart \<Rightarrow> bool" where
  "uart_inv u \<longleftrightarrow>
     length (u_rx_fifo u) \<le> u_rx_high_water u \<and> u_rx_high_water u \<le> 16 \<and>
     length (u_tx_fifo u) \<le> u_tx_high_water u \<and> u_tx_high_water u \<le> 16 \<and>
     (u_tx_next_due_cycle u = None \<longleftrightarrow> u_tx_fifo u = [])"

lemma uart_inv_new [simp]: "uart_inv new_uart"
  by (simp add: uart_inv_def new_uart_def)

lemma uart_inv_push_rx: "uart_inv u \<Longrightarrow> uart_inv (push_rx b u)"
  by (auto simp: uart_inv_def push_rx_def const_defs)

lemma uart_inv_deliver: "uart_inv u \<Longrightarrow> uart_inv (snd (deliver now wire u))"
  by (induction now wire u rule: deliver.induct) (simp_all add: uart_inv_push_rx)

lemma uart_inv_wire: "uart_inv (u\<lparr>u_rx_wire := w\<rparr>) = uart_inv u"
  by (simp add: uart_inv_def)

lemma uart_inv_move: "uart_inv u \<Longrightarrow> uart_inv (move_wire_to_rx now u)"
  using uart_inv_deliver [of u now "u_rx_wire u"]
  by (auto simp: move_wire_to_rx_def uart_inv_wire split: prod.split)

text \<open>Between the bytes of a burst only the due cycle is out of step, so the receive half of the
  invariant is kept apart.\<close>

definition rx_inv :: "uart \<Rightarrow> bool" where
  "rx_inv u \<longleftrightarrow> length (u_rx_fifo u) \<le> u_rx_high_water u \<and> u_rx_high_water u \<le> 16"

lemma rx_inv_push_rx: "rx_inv u \<Longrightarrow> rx_inv (push_rx b u)"
  by (auto simp: rx_inv_def push_rx_def const_defs)

lemma rx_inv_send_byte: "rx_inv u \<Longrightarrow> rx_inv (send_byte now due u)"
proof -
  assume inv: "rx_inv u"
  have upd: "rx_inv (v\<lparr>u_tx_next_due_cycle := x\<rparr>) = rx_inv v" "rx_inv (v\<lparr>u_tx_output := y\<rparr>) = rx_inv v"
      "rx_inv (v\<lparr>u_tx_fifo := z\<rparr>) = rx_inv v" "rx_inv (v\<lparr>u_tx_when_de_low := k\<rparr>) = rx_inv v"
      "rx_inv (v\<lparr>u_echo_count := c\<rparr>) = rx_inv v" "rx_inv (note_first_byte now due v) = rx_inv v"
    for v x y z k c
    by (simp_all add: rx_inv_def)
  have "rx_inv (echo_byte b v)" if "rx_inv v" for b v
    using that by (simp add: echo_byte_def Let_def rx_inv_push_rx upd)
  then show ?thesis using inv by (simp add: send_byte_def Let_def upd)
qed

lemma uart_inv_send_byte:
  assumes "uart_inv u" and "u_tx_fifo u \<noteq> []"
  shows "uart_inv (send_byte now due u)"
  using assms rx_inv_send_byte [of u now due] by (auto simp: uart_inv_def rx_inv_def)

lemma uart_inv_drain_loop: "uart_inv u \<Longrightarrow> uart_inv (drain_loop now u)"
proof (induction now u rule: drain_loop.induct)
  case (1 now u)
  show ?case
  proof (cases "u_tx_fifo u = []")
    case True
    then show ?thesis using "1.prems" by (simp add: drain_loop.simps [of now u])
  next
    case False
    then obtain due where due: "u_tx_next_due_cycle u = Some due"
      using "1.prems" by (auto simp: uart_inv_def)
    have same: "u\<lparr>u_tx_next_due_cycle := Some due\<rparr> = u"
      using due by simp
    have "uart_inv (drain_loop now (send_byte now due u))" if "\<not> now < due"
      using "1.IH" [OF False, of due u] due same that uart_inv_send_byte [OF "1.prems" False] by simp
    then show ?thesis
      using "1.prems" False unfolding drain_loop.simps [of now u] Let_def due option.case same by simp
  qed
qed

lemma uart_inv_drain: "uart_inv u \<Longrightarrow> uart_inv (drain_tx now u)"
  by (simp add: drain_tx_def uart_inv_drain_loop)

lemma uart_inv_write_fifo: "uart_inv u \<Longrightarrow> uart_inv (write_fifo now v u)"
  by (auto simp: uart_inv_def write_fifo_def const_defs Let_def)

lemma uart_inv_read_fifo: "uart_inv u \<Longrightarrow> uart_inv (snd (read_fifo u))"
  by (auto simp: uart_inv_def read_fifo_def split: list.split)

lemma uart_inv_pins:
  "uart_inv (set_de now e u) = uart_inv u" "uart_inv (set_re_disabled now d u) = uart_inv u"
  "uart_inv (write_gpio now level v u) = uart_inv u"
  by (simp_all add: uart_inv_def set_de_def set_re_disabled_def write_gpio_def trace_event_def Let_def)

subsection \<open>Abstract ports\<close>

text \<open>
  The specification of the receive side: a queue of at most 16 bytes that counts the bytes it has to
  drop.  The specification of the send side: the bytes accepted so far, in order, of which a prefix
  has left after the time that prefix takes.
\<close>

record port =
  p_queue :: bytes
  p_lost :: nat

definition offer :: "byte \<Rightarrow> port \<Rightarrow> port" where
  "offer b p = (if length (p_queue p) < 16 then p\<lparr>p_queue := p_queue p @ [b]\<rparr> else p\<lparr>p_lost := p_lost p + 1\<rparr>)"

definition rx_port :: "uart \<Rightarrow> port" where
  "rx_port u = \<lparr>p_queue = u_rx_fifo u, p_lost = u_rx_overflows u\<rparr>"

definition tx_stream :: "uart \<Rightarrow> bytes" where
  "tx_stream u = u_tx_output u @ u_tx_fifo u"

lemma fold_offer:
  "length (p_queue p) \<le> 16 \<Longrightarrow>
   p_queue (fold offer bs p) = p_queue p @ take (16 - length (p_queue p)) bs \<and>
   p_lost (fold offer bs p) = p_lost p + (length bs - (16 - length (p_queue p)))"
proof (induction bs arbitrary: p)
  case (Cons b bs)
  show ?case
  proof (cases "length (p_queue p) < 16")
    case True
    then have "16 - length (p_queue p) = Suc (16 - length (p_queue (offer b p)))"
      by (simp add: offer_def)
    then show ?thesis using Cons.IH [of "offer b p"] True by (simp add: offer_def)
  next
    case False
    then show ?thesis using Cons.IH [of "offer b p"] Cons.prems by (simp add: offer_def)
  qed
qed simp

lemma rx_port_push: "rx_port (push_rx b u) = offer b (rx_port u)"
  by (simp add: rx_port_def push_rx_def offer_def const_defs)

lemma deliver_spec:
  "deliver now wire u = (dropWhile (\<lambda>(due, b). due \<le> now) wire,
     fold push_rx (map snd (takeWhile (\<lambda>(due, b). due \<le> now) wire)) u)"
  by (induction now wire u rule: deliver.induct) simp_all

lemma rx_port_fold: "rx_port (fold push_rx bs u) = fold offer bs (rx_port u)"
  by (induction bs arbitrary: u) (simp_all add: rx_port_push)

text \<open>C17: The receive side refines a 16-byte queue that drops and counts what does not fit: servicing the wire
  offers the bytes that are due, in order, and takes exactly these off the wire, and a FIFO read takes the oldest
  byte; so with room nothing is lost, reordered or duplicated.\<close>

theorem rx_refines_bounded_queue:
  assumes "uart_inv u"
  shows "let due = map snd (takeWhile (\<lambda>(t, b). t \<le> now) (u_rx_wire u)); u' = move_wire_to_rx now u in
    rx_port u' = fold offer due (rx_port u) \<and>
    u_rx_fifo u' = u_rx_fifo u @ take (16 - length (u_rx_fifo u)) due \<and>
    u_rx_overflows u' = u_rx_overflows u + (length due - (16 - length (u_rx_fifo u))) \<and>
    u_rx_wire u' = dropWhile (\<lambda>(t, b). t \<le> now) (u_rx_wire u) \<and>
    u_rx_fifo u' = (if u_rx_fifo u' = [] then [] else fst (read_fifo u') # u_rx_fifo (snd (read_fifo u')))"
proof -
  let ?due = "map snd (takeWhile (\<lambda>(t, b). t \<le> now) (u_rx_wire u))" and ?u' = "move_wire_to_rx now u"
  have port: "rx_port ?u' = fold offer ?due (rx_port u)"
    unfolding rx_port_fold [symmetric] move_wire_to_rx_def deliver_spec by (simp add: rx_port_def)
  have len: "length (p_queue (rx_port u)) \<le> 16"
    using assms by (simp add: rx_port_def uart_inv_def)
  have "u_rx_fifo ?u' = p_queue (rx_port ?u')" "u_rx_overflows ?u' = p_lost (rx_port ?u')"
    by (simp_all add: rx_port_def)
  then have "u_rx_fifo ?u' = u_rx_fifo u @ take (16 - length (u_rx_fifo u)) ?due"
      "u_rx_overflows ?u' = u_rx_overflows u + (length ?due - (16 - length (u_rx_fifo u)))"
    using fold_offer [OF len, of ?due] unfolding port by (simp_all add: rx_port_def)
  moreover have "u_rx_wire ?u' = dropWhile (\<lambda>(t, b). t \<le> now) (u_rx_wire u)"
    by (simp add: move_wire_to_rx_def deliver_spec)
  moreover have "u_rx_fifo v = (if u_rx_fifo v = [] then [] else fst (read_fifo v) # u_rx_fifo (snd (read_fifo v)))" for v
    by (simp add: read_fifo_def split: list.split)
  ultimately show ?thesis
    using port unfolding Let_def by blast
qed

theorem rx_refines_bounded_queue_witness:
  "u_rx_fifo (move_wire_to_rx 10 (new_uart\<lparr>u_rx_wire := [(5, 1), (9, 2), (20, 3)]\<rparr>)) = [1, 2]"
proof -
  have "uart_inv (new_uart\<lparr>u_rx_wire := [(5, 1), (9, 2), (20, 3)]\<rparr>)"
    by (simp add: uart_inv_wire)
  from rx_refines_bounded_queue [OF this, of 10] show ?thesis
    by (simp add: Let_def new_uart_def)
qed

subsection \<open>The transmitter\<close>

lemma drain_loop_unfold:
  assumes "u_tx_next_due_cycle u = Some d"
  shows "drain_loop now u =
    (if u_tx_fifo u = [] \<or> now < d then u else drain_loop now (send_byte now d u))"
proof -
  have same: "u\<lparr>u_tx_next_due_cycle := Some d\<rparr> = u" using assms by simp
  show ?thesis unfolding drain_loop.simps [of now u] Let_def assms option.case same by simp
qed

definition bytes_sent :: "int \<Rightarrow> int \<Rightarrow> nat \<Rightarrow> nat" where
  "bytes_sent now due n = (if now < due then 0 else min n (nat ((now - due) div UART_BYTE_CYCLES) + 1))"

lemma bytes_sent_Suc:
  "due \<le> now \<Longrightarrow> bytes_sent now due (Suc n) = Suc (bytes_sent now (due + UART_BYTE_CYCLES) n)"
proof -
  assume le: "due \<le> now"
  show ?thesis
  proof (cases "now < due + UART_BYTE_CYCLES")
    case True
    then have "(now - due) div UART_BYTE_CYCLES = 0"
      using le by (intro div_pos_pos_trivial) (simp_all add: uart_byte_cycles)
    then show ?thesis using le True by (simp add: bytes_sent_def)
  next
    case False
    have "(now - due) div UART_BYTE_CYCLES = (now - (due + UART_BYTE_CYCLES) + UART_BYTE_CYCLES) div UART_BYTE_CYCLES"
      by simp
    also have "\<dots> = (now - (due + UART_BYTE_CYCLES)) div UART_BYTE_CYCLES + 1"
      by (rule div_add_self2) (simp add: uart_byte_cycles)
    finally have "(now - due) div UART_BYTE_CYCLES = (now - (due + UART_BYTE_CYCLES)) div UART_BYTE_CYCLES + 1" .
    moreover have "0 \<le> (now - (due + UART_BYTE_CYCLES)) div UART_BYTE_CYCLES"
      using False by (intro pos_imp_zdiv_nonneg_iff [THEN iffD2]) (simp_all add: uart_byte_cycles)
    ultimately show ?thesis using le False by (simp add: bytes_sent_def nat_add_distrib)
  qed
qed

lemma drain_loop_sends:
  assumes "uart_inv u" and "u_tx_next_due_cycle u = Some d"
  shows "u_tx_output (drain_loop now u) = u_tx_output u @ take (bytes_sent now d (length (u_tx_fifo u))) (u_tx_fifo u)"
    and "u_tx_fifo (drain_loop now u) = drop (bytes_sent now d (length (u_tx_fifo u))) (u_tx_fifo u)"
proof -
  have "u_tx_output (drain_loop now u) = u_tx_output u @ take (bytes_sent now d (length xs)) xs \<and>
      u_tx_fifo (drain_loop now u) = drop (bytes_sent now d (length xs)) xs"
    if "u_tx_fifo u = xs" "uart_inv u" "u_tx_next_due_cycle u = Some d" for u d xs
    using that
  proof (induction xs arbitrary: u d)
    case Nil
    then show ?case by (simp add: drain_loop_unfold bytes_sent_def)
  next
    case (Cons x xs)
    show ?case
    proof (cases "now < d")
      case True
      then show ?thesis using Cons.prems by (simp add: drain_loop_unfold bytes_sent_def)
    next
      case False
      let ?v = "send_byte now d u"
      have step: "drain_loop now u = drain_loop now ?v"
        using False Cons.prems by (simp add: drain_loop_unfold)
      have inv: "uart_inv ?v" using Cons.prems by (simp add: uart_inv_send_byte)
      have n: "bytes_sent now d (length (x # xs)) = Suc (bytes_sent now (d + UART_BYTE_CYCLES) (length xs))"
        using False bytes_sent_Suc [of d now "length xs"] by simp
      show ?thesis
      proof (cases "xs = []")
        case True
        have "u_tx_fifo ?v = []" using Cons.prems True by simp
        then have "drain_loop now ?v = ?v" by (simp add: drain_loop.simps [of now ?v])
        then show ?thesis using Cons.prems True False by (simp add: step n bytes_sent_def)
      next
        case more: False
        then have "u_tx_next_due_cycle ?v = Some (d + UART_BYTE_CYCLES)" "u_tx_fifo ?v = xs"
          using Cons.prems by simp_all
        then show ?thesis
          using Cons.IH [of ?v "d + UART_BYTE_CYCLES"] inv Cons.prems(1) unfolding step n by simp
      qed
    qed
  qed
  from this [OF refl assms] show
    "u_tx_output (drain_loop now u) = u_tx_output u @ take (bytes_sent now d (length (u_tx_fifo u))) (u_tx_fifo u)"
    "u_tx_fifo (drain_loop now u) = drop (bytes_sent now d (length (u_tx_fifo u))) (u_tx_fifo u)"
    by simp_all
qed

text \<open>Servicing the transmitter at cycle now moves, in order and without loss, exactly as many bytes from the FIFO
  to the line as byte times have passed since the first of them fell due, however rarely it is serviced; a wedged
  transmitter sends nothing.\<close>

theorem drain_tx_paces_bytes:
  assumes "uart_inv u" and "u_tx_next_due_cycle u = Some d"
  shows "let n = (if u_tx_fifo_wedged u then 0 else bytes_sent now d (length (u_tx_fifo u)));
             u' = drain_tx now u in
    u_tx_output u' = u_tx_output u @ take n (u_tx_fifo u) \<and> u_tx_fifo u' = drop n (u_tx_fifo u) \<and>
    tx_stream u' = tx_stream u"
  using drain_loop_sends [OF assms, of now] by (simp add: drain_tx_def tx_stream_def Let_def)

theorem drain_tx_paces_bytes_witness:
  "u_tx_output (drain_tx 8000 (write_fifo 0 2 (write_fifo 0 1 new_uart))) = [1, 2]"
proof -
  let ?u = "write_fifo 0 2 (write_fifo 0 1 new_uart)"
  have inv: "uart_inv ?u" by (simp add: uart_inv_write_fifo)
  have due: "u_tx_next_due_cycle ?u = Some 3819"
    by (simp add: write_fifo_def new_uart_def const_defs uart_byte_cycles Let_def)
  have fields: "u_tx_fifo ?u = [1, 2]" "u_tx_output ?u = []" "\<not> u_tx_fifo_wedged ?u"
    by (simp_all add: write_fifo_def new_uart_def const_defs Let_def byte_of_def)
  have "bytes_sent 8000 3819 2 = 2"
    by (simp add: bytes_sent_def uart_byte_cycles)
  then show ?thesis
    using drain_tx_paces_bytes [OF inv due, of 8000] fields by (simp add: Let_def numeral_2_eq_2)
qed

end
