(* ===== verification/Lp_Emulator.thy ===== *)
theory Lp_Emulator
  imports Lp_Uart
begin

text \<open>
  \<open>LPEmulator\<close> of \<open>tools/hcp2_lp_emu/emulator.py\<close>: loading and checking the image, the mailbox, the
  hooks Unicorn calls, and the operations of the transport.  The Unicorn engine is the parameter
  \<open>engine\<close>: \<open>engine n em\<close> executes at most \<open>n\<close> instructions, calling the hooks, or stops with an
  error.  ELF files are given by their parsed content.
\<close>

subsection \<open>The image\<close>

record elf_segment =
  sg_load :: bool
  sg_paddr :: int
  sg_vaddr :: int
  sg_data :: bytes
  sg_memsz :: int

record elf_section =
  sh_name :: string
  sh_flags :: int
  sh_size :: int
  sh_addr :: int

record elf_image =
  elf_entry :: int
  elf_segments :: "elf_segment list"
  elf_symbols :: "(string \<times> int) list option"
  elf_sections :: "elf_section list"

record section_range =
  sr_name :: string
  sr_start :: int
  sr_size :: int

definition sr_end :: "section_range \<Rightarrow> int" where
  "sr_end s = sr_start s + sr_size s"

record layout_report =
  ly_entry :: int
  ly_load_end_before_mailbox :: int
  ly_mailbox_addr :: int
  ly_mailbox_size :: int
  ly_code_data_headroom_bytes :: int
  ly_stack_top :: int
  ly_stack_headroom_bytes :: int
  ly_sections :: "section_range list"

definition segment_addr :: "elf_segment \<Rightarrow> int" where
  "segment_addr s = (if sg_paddr s \<noteq> 0 then sg_paddr s else sg_vaddr s)"

fun load_segments :: "elf_segment list \<Rightarrow> memory \<Rightarrow> memory result" where
  "load_segments [] m = Inr m"
| "load_segments (s # ss) m =
     (if \<not> sg_load s then load_segments ss m
      else
        let addr = segment_addr s
        in if addr < LP_SRAM_BASE \<or> LP_SRAM_BASE + LP_SRAM_MAP_SIZE < addr + sg_memsz s
           then Inl (RuntimeError ''PT_LOAD outside LP SRAM'')
           else load_segments ss
                  (write_bytes (addr + int (length (sg_data s)))
                     (replicate (nat (sg_memsz s - int (length (sg_data s)))) 0)
                     (write_bytes addr (sg_data s) m)))"

definition image_sections :: "elf_image \<Rightarrow> section_range list" where
  "image_sections elf =
     map (\<lambda>s. \<lparr>sr_name = sh_name s, sr_start = sh_addr s, sr_size = sh_size s\<rparr>)
       (filter (\<lambda>s. sh_flags s AND 0x2 \<noteq> 0 \<and> sh_size s \<noteq> 0 \<and> LP_SRAM_BASE \<le> sh_addr s \<and>
                    sh_addr s < LP_SRAM_BASE + LP_SRAM_MAP_SIZE) (elf_sections elf))"

definition image_symbols :: "elf_image \<Rightarrow> string \<rightharpoonup> int" where
  "image_symbols elf =
     (case elf_symbols elf of
        None \<Rightarrow> Map.empty
      | Some syms \<Rightarrow> map_of (rev (filter (\<lambda>(name, v). name \<noteq> []) syms)))"

definition overlaps_mailbox :: "section_range \<Rightarrow> bool" where
  "overlaps_mailbox s \<longleftrightarrow> sr_start s < MAILBOX_ADDR + MAILBOX_SIZE \<and> MAILBOX_ADDR < sr_end s"

fun check_sections :: "section_range list \<Rightarrow> int \<Rightarrow> int result" where
  "check_sections [] low_end = Inr low_end"
| "check_sections (s # ss) low_end =
     (if overlaps_mailbox s then Inl (RuntimeError (''LP section overlaps mailbox: '' @ sr_name s))
      else check_sections ss
             (if sr_end s \<le> MAILBOX_ADDR \<and> sr_name s \<noteq> ''.shared_mem'' then max low_end (sr_end s) else low_end))"

definition check_layout :: "int \<Rightarrow> (string \<rightharpoonup> int) \<Rightarrow> section_range list \<Rightarrow> layout_report result" where
  "check_layout entry syms sections =
     (case check_sections sections LP_SRAM_BASE of
        Inl e \<Rightarrow> Inl e
      | Inr low_end \<Rightarrow>
        (let mailbox_end = MAILBOX_ADDR + MAILBOX_SIZE;
             stack_top = (case syms ''s_shared_mem'' of Some a \<Rightarrow> a | None \<Rightarrow> LP_SRAM_BASE + 0x3FB0);
             stack_headroom = stack_top - mailbox_end
         in if stack_headroom < 2048 then Inl (RuntimeError ''LP stack headroom below mailbox is too small'')
            else Inr \<lparr>ly_entry = entry, ly_load_end_before_mailbox = low_end, ly_mailbox_addr = MAILBOX_ADDR,
                      ly_mailbox_size = MAILBOX_SIZE, ly_code_data_headroom_bytes = MAILBOX_ADDR - low_end,
                      ly_stack_top = stack_top, ly_stack_headroom_bytes = stack_headroom,
                      ly_sections = sections\<rparr>))"

subsection \<open>The emulator\<close>

record emu =
  em_entry :: int
  em_symbols :: "string \<rightharpoonup> int"
  em_layout :: layout_report
  em_cycles :: int
  em_instructions :: int
  em_blocks :: nat
  em_fast_forward_cycles :: int
  em_last_cycle_sync :: int
  em_running :: bool
  em_uart :: uart
  em_mem :: memory
  em_mapped :: "int set"
  em_pc :: int
  em_ra :: int
  em_a0 :: int
  em_cycle_regs :: "int \<times> int"
  em_unknown_mmio :: "(int \<times> int) list"
  em_mmio_manifest :: "bool \<times> int \<times> int \<Rightarrow> nat"
  em_epoch :: int
  em_command_sequence :: int

definition upd_uart :: "(uart \<Rightarrow> uart) \<Rightarrow> emu \<Rightarrow> emu" where
  "upd_uart f em = em\<lparr>em_uart := f (em_uart em)\<rparr>"

definition upd_mem :: "(memory \<Rightarrow> memory) \<Rightarrow> emu \<Rightarrow> emu" where
  "upd_mem f em = em\<lparr>em_mem := f (em_mem em)\<rparr>"

definition mailbox_u32 :: "emu \<Rightarrow> int \<Rightarrow> int" where
  "mailbox_u32 em offset = read_u32 (em_mem em) (MAILBOX_ADDR + offset)"

definition mailbox_u16 :: "emu \<Rightarrow> int \<Rightarrow> int" where
  "mailbox_u16 em offset = read_u16 (em_mem em) (MAILBOX_ADDR + offset)"

definition mailbox_u8 :: "emu \<Rightarrow> int \<Rightarrow> int" where
  "mailbox_u8 em offset = read_u8 (em_mem em) (MAILBOX_ADDR + offset)"

definition put_u32 :: "int \<Rightarrow> int \<Rightarrow> emu \<Rightarrow> emu" where
  "put_u32 offset v = upd_mem (write_u32 (MAILBOX_ADDR + offset) v)"

definition put_u16 :: "int \<Rightarrow> int \<Rightarrow> emu \<Rightarrow> emu" where
  "put_u16 offset v = upd_mem (write_u16 (MAILBOX_ADDR + offset) v)"

definition put_u8 :: "int \<Rightarrow> int \<Rightarrow> emu \<Rightarrow> emu" where
  "put_u8 offset v = upd_mem (write_u8 (MAILBOX_ADDR + offset) v)"

definition sync_regs :: "emu \<Rightarrow> emu" where
  "sync_regs em = upd_mem (sync_uart_regs (em_uart em)) em"

definition init_mmio :: "emu \<Rightarrow> emu" where
  "init_mmio em =
     sync_regs (upd_mem (write_u32 LP_UART_REG_UPDATE 0 \<circ> write_u32 LP_UART_CONF1 (push_bit 3 10) \<circ>
       write_u32 LP_UART_CONF0 (push_bit 2 3 OR push_bit 1 2) \<circ> write_u32 LPPERI_RESET_EN 0 \<circ>
       write_u32 LPPERI_CLK_EN LPPERI_LP_UART_CLK_BIT) em)"

definition init_mailbox :: "emu \<Rightarrow> emu" where
  "init_mailbox em =
     (let em = upd_mem (write_bytes MAILBOX_ADDR (replicate (nat MAILBOX_SIZE) 0)) em;
          em = put_u32 0 MAILBOX_MAGIC em;
          em = put_u16 4 MAILBOX_ABI_VERSION em;
          em = put_u16 6 MAILBOX_SIZE em;
          em = put_u32 8 MAILBOX_FIRMWARE_VERSION em;
          em = put_u32 28 (em_epoch em) em
      in put_u32 32 0 em)"

definition DEFAULT_SIGNATURE :: bytes where
  "DEFAULT_SIGNATURE = [0x00, 0x00, 0x02, 0x05, 0x04, 0x30, 0x10, 0xFF, 0xA8, 0x45]"

text \<open>\<open>configure_hcp2\<close> writes the configuration under a sequence lock: an odd sequence number first,
  the fields, and the even successor last.\<close>

definition config_sequence :: "emu \<Rightarrow> int" where
  "config_sequence em =
     (let sequence = mailbox_u32 em MAILBOX_CONFIG_SEQUENCE + 1
      in if sequence mod 2 = 0 then sequence + 1 else sequence)"

definition write_config :: "int \<Rightarrow> bytes \<Rightarrow> int \<Rightarrow> int \<Rightarrow> emu \<Rightarrow> emu" where
  "write_config slave_id signature response_delay_us button_press_us em =
     (let em = put_u8 MAILBOX_CONFIG_SLAVE_ID slave_id em;
          em = upd_mem (write_bytes (MAILBOX_ADDR + MAILBOX_CONFIG_SIGNATURE) signature) em;
          em = put_u8 (MAILBOX_CONFIG_SIGNATURE + int (length signature)) 0 em;
          em = put_u32 MAILBOX_CONFIG_RESPONSE_DELAY_US response_delay_us em
      in put_u32 MAILBOX_CONFIG_BUTTON_PRESS_US button_press_us em)"

definition configure_hcp2 :: "int \<Rightarrow> bytes \<Rightarrow> int \<Rightarrow> int \<Rightarrow> emu \<Rightarrow> emu result" where
  "configure_hcp2 slave_id signature response_delay_us button_press_us em =
     (if length signature \<noteq> 10 then Inl (ValueError ''signature must contain exactly 10 bytes'')
      else
        let sequence = config_sequence em;
            em = put_u32 MAILBOX_CONFIG_SEQUENCE sequence em;
            em = write_config slave_id signature response_delay_us button_press_us em
        in Inr (put_u32 MAILBOX_CONFIG_SEQUENCE (sequence + 1) em))"

subsection \<open>Construction\<close>

definition blank_layout :: "int \<Rightarrow> layout_report" where
  "blank_layout entry =
     \<lparr>ly_entry = entry, ly_load_end_before_mailbox = LP_SRAM_BASE, ly_mailbox_addr = MAILBOX_ADDR,
      ly_mailbox_size = MAILBOX_SIZE, ly_code_data_headroom_bytes = 0, ly_stack_top = LP_SRAM_BASE,
      ly_stack_headroom_bytes = 0, ly_sections = []\<rparr>"

definition blank_emu :: "memory \<Rightarrow> emu" where
  "blank_emu m =
     \<lparr>em_entry = LP_SRAM_BASE + 0x80, em_symbols = Map.empty, em_layout = blank_layout (LP_SRAM_BASE + 0x80),
      em_cycles = 0, em_instructions = 0, em_blocks = 0, em_fast_forward_cycles = 0, em_last_cycle_sync = 0,
      em_running = False, em_uart = new_uart, em_mem = m, em_mapped = MODELED_MMIO_PAGES, em_pc = 0, em_ra = 0,
      em_a0 = 0, em_cycle_regs = (0, 0), em_unknown_mmio = [], em_mmio_manifest = (\<lambda>_. 0), em_epoch = 1,
      em_command_sequence = 0\<rparr>"

definition LPEmulator :: "elf_image \<Rightarrow> memory \<Rightarrow> emu result" where
  "LPEmulator elf m =
     (case load_segments (elf_segments elf) m of
        Inl e \<Rightarrow> Inl e
      | Inr m \<Rightarrow>
        (case check_layout (elf_entry elf) (image_symbols elf) (image_sections elf) of
           Inl e \<Rightarrow> Inl e
         | Inr layout \<Rightarrow>
             Inr (init_mailbox (init_mmio ((blank_emu m)
               \<lparr>em_entry := elf_entry elf, em_symbols := image_symbols elf, em_layout := layout,
                em_pc := elf_entry elf\<rparr>)))))"

subsection \<open>Hooks\<close>

definition service_serial :: "emu \<Rightarrow> emu" where
  "service_serial em = sync_regs (upd_uart (drain_tx (em_cycles em) \<circ> move_wire_to_rx (em_cycles em)) em)"

definition write_cycle_regs :: "emu \<Rightarrow> emu" where
  "write_cycle_regs em =
     em\<lparr>em_cycle_regs := (em_cycles em AND 0xFFFFFFFF, drop_bit 32 (em_cycles em) AND 0xFFFFFFFF)\<rparr>"

definition hook_block :: "int \<Rightarrow> emu \<Rightarrow> emu" where
  "hook_block sz em =
     (let approx_instructions = max 1 (sz div 2);
          em = em\<lparr>em_blocks := em_blocks em + 1, em_instructions := em_instructions em + approx_instructions,
                  em_cycles := em_cycles em + approx_instructions\<rparr>;
          em = write_cycle_regs em
      in if 128 \<le> em_cycles em - em_last_cycle_sync em
         then (service_serial em)\<lparr>em_last_cycle_sync := em_cycles em\<rparr>
         else em)"

definition fast_forward :: "int \<Rightarrow> emu \<Rightarrow> emu" where
  "fast_forward cycles em =
     (if cycles \<le> 0 then em
      else write_cycle_regs (service_serial
             (em\<lparr>em_cycles := em_cycles em + cycles,
                 em_fast_forward_cycles := em_fast_forward_cycles em + cycles\<rparr>)))"

definition return_to_caller :: "emu \<Rightarrow> emu" where
  "return_to_caller em = em\<lparr>em_pc := em_ra em\<rparr>"

definition hook_delay_code :: "int \<Rightarrow> emu \<Rightarrow> emu" where
  "hook_delay_code address em =
     (if Some address = em_symbols em ''ulp_lp_core_delay_us''
      then return_to_caller (fast_forward (em_a0 em * 16) em)
      else if Some address = em_symbols em ''ulp_lp_core_delay_cycles''
      then return_to_caller (fast_forward (em_a0 em) em)
      else if Some address = em_symbols em ''hcp2_lp_now_us''
      then return_to_caller (em\<lparr>em_a0 := \<lfloor>time_us (em_cycles em)\<rfloor> AND 0xFFFFFFFF\<rparr>)
      else em)"

definition count_mmio :: "bool \<Rightarrow> int \<Rightarrow> int \<Rightarrow> emu \<Rightarrow> emu" where
  "count_mmio is_read address sz em =
     (if 0x60000000 \<le> address
      then em\<lparr>em_mmio_manifest := (em_mmio_manifest em)
                ((is_read, address, sz) := em_mmio_manifest em (is_read, address, sz) + 1)\<rparr>
      else em)"

definition or_u32 :: "int \<Rightarrow> int \<Rightarrow> memory \<Rightarrow> memory" where
  "or_u32 address bits m = write_u32 address (read_u32 m address OR bits) m"

definition clear_u32 :: "int \<Rightarrow> int \<Rightarrow> memory \<Rightarrow> memory" where
  "clear_u32 address bits m = write_u32 address (read_u32 m address AND NOT bits) m"

definition hook_mem_read :: "int \<Rightarrow> int \<Rightarrow> emu \<Rightarrow> emu" where
  "hook_mem_read address sz em =
     (let em = service_serial (count_mmio True address sz em)
      in if address = LP_UART_FIFO then
           (case read_fifo (em_uart em) of
              (byte, u) \<Rightarrow> sync_regs (upd_mem (write_u32 LP_UART_FIFO (uint byte)) (em\<lparr>em_uart := u\<rparr>)))
         else if address \<in> {LP_UART_STATUS, LP_UART_INT_RAW, LP_UART_INT_ST, LP_UART_FSM_STATUS, LP_UART_REG_UPDATE}
         then sync_regs em
         else if address = LPPERI_CLK_EN then upd_mem (or_u32 LPPERI_CLK_EN LPPERI_LP_UART_CLK_BIT) em
         else if address = LPPERI_RESET_EN then upd_mem (clear_u32 LPPERI_RESET_EN LPPERI_LP_UART_CLK_BIT) em
         else em)"

definition mmio_write :: "int \<Rightarrow> int \<Rightarrow> emu \<Rightarrow> emu" where
  "mmio_write address value em =
     (if address = LP_UART_FIFO then upd_uart (write_fifo (em_cycles em) value) em
      else if address = LP_UART_INT_CLR then
        (if value AND UART_INTR_RXFIFO_OVF \<noteq> 0 then upd_uart (\<lambda>u. u\<lparr>u_rx_overflows := 0\<rparr>) em else em)
      else if address = LP_UART_REG_UPDATE then upd_mem (write_u32 LP_UART_REG_UPDATE 0) em
      else if address = LP_IO_OUT_DATA_W1TS then
        upd_mem (or_u32 LP_IO_OUT_DATA value) (upd_uart (write_gpio (em_cycles em) True value) em)
      else if address = LP_IO_OUT_DATA_W1TC then
        upd_mem (clear_u32 LP_IO_OUT_DATA value) (upd_uart (write_gpio (em_cycles em) False value) em)
      else em)"

definition hook_mem_write :: "int \<Rightarrow> int \<Rightarrow> int \<Rightarrow> emu \<Rightarrow> emu" where
  "hook_mem_write address sz value em =
     sync_regs (mmio_write address value (service_serial (count_mmio False address sz em)))"

definition hook_invalid_mem :: "int \<Rightarrow> int \<Rightarrow> emu \<Rightarrow> bool \<times> emu" where
  "hook_invalid_mem address sz em =
     (let page = page_of address;
          em = em\<lparr>em_unknown_mmio := em_unknown_mmio em @ [(address, sz)]\<rparr>
      in if page \<in> MODELED_MMIO_PAGES then (True, em\<lparr>em_mapped := insert page (em_mapped em)\<rparr>)
         else (False, em))"

subsection \<open>Running\<close>

type_synonym engine = "nat \<Rightarrow> emu \<Rightarrow> emu result"

definition run_emu :: "engine \<Rightarrow> nat \<Rightarrow> emu \<Rightarrow> emu result" where
  "run_emu engine instruction_budget em =
     (if instruction_budget = 0 then Inr em
      else case engine instruction_budget em of
             Inl e \<Rightarrow> Inl e
           | Inr em \<Rightarrow> Inr (service_serial em))"

definition SLICE :: nat where "SLICE = 4096"

lemma SLICE_pos [simp]: "0 < SLICE"
  by (simp add: SLICE_def)

text \<open>A condition may change the state: \<open>_serial_quiescent\<close> services the UART first.\<close>

function run_until :: "engine \<Rightarrow> (emu \<Rightarrow> bool \<times> emu) \<Rightarrow> nat \<Rightarrow> emu \<Rightarrow> (bool \<times> emu) result" where
  "run_until engine condition remaining em =
     (if remaining = 0 then Inr (condition em)
      else
        case condition em of
          (True, em) \<Rightarrow> Inr (True, em)
        | (False, em) \<Rightarrow>
            (case run_emu engine (min SLICE remaining) em of
               Inl e \<Rightarrow> Inl e
             | Inr em \<Rightarrow> run_until engine condition (remaining - min SLICE remaining) em))"
  by pat_completeness auto
termination
  by (relation "measure (\<lambda>(_, _, remaining, _). remaining)") (simp_all add: SLICE_def)

declare run_until.simps [simp del]

definition pure_condition :: "(emu \<Rightarrow> bool) \<Rightarrow> emu \<Rightarrow> bool \<times> emu" where
  "pure_condition P em = (P em, em)"

definition serial_quiescent :: "emu \<Rightarrow> bool \<times> emu" where
  "serial_quiescent em =
     (let em = service_serial em; u = em_uart em
      in (u_rx_wire u = [] \<and> u_rx_fifo u = [] \<and> u_tx_fifo u = [] \<and> u_tx_next_due_cycle u = None \<and>
          \<not> u_de_enabled u, em))"

definition heartbeat :: "emu \<Rightarrow> int" where
  "heartbeat em = mailbox_u32 em 12"

definition boot :: "engine \<Rightarrow> emu \<Rightarrow> emu result" where
  "boot engine em =
     (if em_running em then Inr em
      else case run_until engine (pure_condition (\<lambda>em. 0 < heartbeat em)) 2000000 em of
             Inl e \<Rightarrow> Inl e
           | Inr (ok, em) \<Rightarrow>
               if \<not> ok then Inl (RuntimeError ''LP firmware did not publish a heartbeat during boot'')
               else Inr (em\<lparr>em_running := True\<rparr>))"

definition skip_to :: "int \<Rightarrow> emu \<Rightarrow> emu" where
  "skip_to target_cycle em =
     (if em_cycles em < target_cycle
      then service_serial (write_cycle_regs
             (em\<lparr>em_fast_forward_cycles := em_fast_forward_cycles em + (target_cycle - em_cycles em),
                 em_cycles := target_cycle\<rparr>))
      else em)"

definition settle :: "engine \<Rightarrow> emu \<Rightarrow> emu result" where
  "settle engine em =
     (case serial_quiescent em of
        (True, em) \<Rightarrow> Inr em
      | (False, em) \<Rightarrow>
         (case run_until engine serial_quiescent 4000000 em of
            Inl e \<Rightarrow> Inl e
          | Inr (ok, em) \<Rightarrow>
              if \<not> ok then Inl (RuntimeError ''LP UART work did not quiesce before idle fast-forward'')
              else run_emu engine 4096 em))"

definition advance_time_us :: "engine \<Rightarrow> int \<Rightarrow> emu \<Rightarrow> emu result" where
  "advance_time_us engine gap_us em =
     (if gap_us \<le> 0 then Inr em
      else
        case boot engine em of
          Inl e \<Rightarrow> Inl e
        | Inr em \<Rightarrow>
           (let target_cycle = em_cycles em + \<lfloor>of_int (gap_us * LP_CLOCK_HZ) / 1000000 :: rat\<rfloor>
            in case settle engine em of
                 Inl e \<Rightarrow> Inl e
               | Inr em \<Rightarrow> Inr (skip_to target_cycle em)))"

subsection \<open>The transport\<close>

definition wire_bytes :: "int \<Rightarrow> bytes \<Rightarrow> (int \<times> byte) list" where
  "wire_bytes start data = map (\<lambda>i. (start + (int i + 1) * UART_BYTE_CYCLES, data ! i)) [0..<length data]"

definition queue_frame :: "bytes \<Rightarrow> emu \<Rightarrow> emu" where
  "queue_frame data em =
     upd_uart (\<lambda>u.
       let u = trace_event (Ev_Master_Frame (py_round (time_us (em_cycles em))) data) u;
           start = max (em_cycles em) (u_rx_last_due_cycle u);
           due = start + int (length data) * UART_BYTE_CYCLES
       in u\<lparr>u_tx_first_cycle := None, u_rx_wire := u_rx_wire u @ wire_bytes start data,
            u_rx_last_due_cycle := due, u_last_master_write_cycle := Some due\<rparr>) em"

definition write_uart :: "engine \<Rightarrow> bytes \<Rightarrow> emu \<Rightarrow> emu result" where
  "write_uart engine data em =
     (case boot engine em of Inl e \<Rightarrow> Inl e | Inr em \<Rightarrow> Inr (queue_frame data em))"

definition reply_complete :: "emu \<Rightarrow> bool" where
  "reply_complete em \<longleftrightarrow>
     u_tx_output (em_uart em) \<noteq> [] \<and> u_tx_fifo (em_uart em) = [] \<and> \<not> u_de_enabled (em_uart em)"

text \<open>The wait for a reply; \<open>None\<close> when the fuel is used up.\<close>

fun read_loop :: "nat \<Rightarrow> engine \<Rightarrow> int \<Rightarrow> emu \<Rightarrow> emu result option" where
  "read_loop 0 engine deadline em = None"
| "read_loop (Suc fuel) engine deadline em =
     (if deadline \<le> em_cycles em then Some (Inr em)
      else if reply_complete em then Some (Inr em)
      else if 32 \<le> length (u_tx_output (em_uart em)) then Some (Inr em)
      else
        case run_emu engine 8192 em of
          Inl e \<Rightarrow> Some (Inl e)
        | Inr em \<Rightarrow> if reply_complete em then Some (Inr em) else read_loop fuel engine deadline em)"

definition take_tx_output :: "emu \<Rightarrow> bytes \<times> emu" where
  "take_tx_output em =
     (let data = u_tx_output (em_uart em);
          em = upd_uart (\<lambda>u. u\<lparr>u_tx_output := []\<rparr>) em
      in (data, if data \<noteq> []
                then upd_uart (trace_event (Ev_Slave_Frame (py_round (time_us (em_cycles em))) data)) em else em))"

definition read_uart_available :: "nat \<Rightarrow> engine \<Rightarrow> rat \<Rightarrow> emu \<Rightarrow> (bytes \<times> emu) result option" where
  "read_uart_available fuel engine timeout_s em =
     (case boot engine em of
        Inl e \<Rightarrow> Some (Inl e)
      | Inr em \<Rightarrow>
          map_option (\<lambda>r. case r of Inl e \<Rightarrow> Inl e | Inr em \<Rightarrow> Inr (take_tx_output em))
            (read_loop fuel engine (em_cycles em + max 1 \<lfloor>timeout_s * of_int LP_CLOCK_HZ\<rfloor>) em))"

subsection \<open>Commands\<close>

definition COMMAND_IDS :: "(string \<times> int) list" where
  "COMMAND_IDS = [(''open'', 1), (''close'', 2), (''stop'', 3), (''vent'', 4), (''half'', 5), (''light'', 6)]"

text \<open>A new session clears the command slot; \<open>hp_reboot\<close> is a new session and nothing else.\<close>

definition begin_session :: "emu \<Rightarrow> emu" where
  "begin_session em =
     (let em = em\<lparr>em_epoch := em_epoch em + 1, em_command_sequence := 0\<rparr>;
          em = put_u32 28 (em_epoch em) em;
          em = put_u32 32 0 em;
          em = put_u32 36 0 em;
          em = put_u8 40 0 em;
          em = put_u8 42 0 em;
          em = put_u32 44 0 em
      in put_u8 97 0 em)"

definition hp_reboot :: "engine \<Rightarrow> emu \<Rightarrow> emu result" where
  "hp_reboot engine em = run_emu engine 50000 (begin_session em)"

definition post_command :: "int \<Rightarrow> emu \<Rightarrow> emu" where
  "post_command command_id em =
     (let em = em\<lparr>em_command_sequence := em_command_sequence em + 1\<rparr>;
          now_us = mailbox_u32 em 48;
          em = put_u8 40 command_id em;
          em = put_u8 41 0 em;
          em = put_u8 42 0 em;
          em = put_u32 44 (now_us + 250000) em
      in put_u32 32 (em_command_sequence em) em)"

datatype command_reply = Ack int int | Unknown_Command string | Ack_Timeout

definition command_emu :: "engine \<Rightarrow> string \<Rightarrow> emu \<Rightarrow> (command_reply \<times> emu) result" where
  "command_emu engine name em =
     (case boot engine em of
        Inl e \<Rightarrow> Inl e
      | Inr em \<Rightarrow>
     (case map_of COMMAND_IDS name of
        None \<Rightarrow> Inr (Unknown_Command name, em)
      | Some command_id \<Rightarrow>
     (case run_emu engine 50000 (begin_session em) of
        Inl e \<Rightarrow> Inl e
      | Inr em \<Rightarrow>
         (let em = post_command command_id em; sequence = em_command_sequence em
          in case run_until engine (pure_condition (\<lambda>em. mailbox_u32 em 36 = sequence)) 1000000 em of
               Inl e \<Rightarrow> Inl e
             | Inr (ok, em) \<Rightarrow>
                 Inr (if ok then Ack sequence (mailbox_u8 em 42) else Ack_Timeout, em)))))"

definition lp_reset :: "engine \<Rightarrow> emu \<Rightarrow> emu result" where
  "lp_reset engine em =
     (case boot engine em of
        Inl e \<Rightarrow> Inl e
      | Inr em \<Rightarrow>
         (let before = mailbox_u32 em 72;
              now = em_cycles em;
              em = upd_uart (\<lambda>u. set_de now False
                     ((trace_event (Ev_Lp_Reset (py_round (time_us now))) u)
                       \<lparr>u_tx_fifo := [], u_tx_next_due_cycle := None, u_tx_first_cycle := None\<rparr>)) em;
              em = em\<lparr>em_pc := em_entry em, em_ra := 0, em_running := False\<rparr>
          in case run_until engine (pure_condition (\<lambda>em. before < mailbox_u32 em 72)) 2000000 em of
               Inl e \<Rightarrow> Inl e
             | Inr (ok, em) \<Rightarrow>
                 if \<not> ok then Inl (RuntimeError ''LP firmware did not restart after LP reset'')
                 else Inr (em\<lparr>em_running := True\<rparr>)))"

definition reload_decision :: "int \<Rightarrow> int \<Rightarrow> emu \<Rightarrow> string" where
  "reload_decision heartbeat_before heartbeat_after em =
     (if mailbox_u32 em 0 \<noteq> MAILBOX_MAGIC \<or> mailbox_u16 em 4 \<noteq> MAILBOX_ABI_VERSION \<or>
         mailbox_u16 em 6 \<noteq> MAILBOX_SIZE then ''reload''
      else if mailbox_u32 em 8 \<noteq> MAILBOX_FIRMWARE_VERSION then ''reload''
      else if heartbeat_after \<noteq> heartbeat_before then ''skip'' else ''reload'')"

definition tx_abort_count :: "emu \<Rightarrow> int" where "tx_abort_count em = mailbox_u32 em 60"
definition collision_count :: "emu \<Rightarrow> int" where "collision_count em = mailbox_u32 em 64"
definition max_de_hold_us :: "emu \<Rightarrow> int" where "max_de_hold_us em = mailbox_u32 em 68"

subsection \<open>The report\<close>

definition latency_p99 :: "rat list \<Rightarrow> rat option" where
  "latency_p99 sorted_latencies =
     (if sorted_latencies = [] then None
      else Some (sorted_latencies ! min (length sorted_latencies - 1)
                   (nat (py_round (99 / 100 * of_nat (length sorted_latencies - 1))))))"

definition mailbox_counters :: "emu \<Rightarrow> (string \<times> int) list" where
  "mailbox_counters em =
     [(''mailbox_polls_seen'', mailbox_u32 em 52),
      (''mailbox_polls_answered'', mailbox_u32 em 56),
      (''mailbox_tx_abort_count'', tx_abort_count em),
      (''mailbox_collision_count'', collision_count em),
      (''mailbox_max_de_hold_us'', max_de_hold_us em),
      (''mailbox_last_poll_us'', mailbox_u32 em 76),
      (''mailbox_crc_error_count'', mailbox_u32 em 80),
      (''mailbox_rx_error_count'', mailbox_u32 em 84),
      (''mailbox_stop_trigger_fire_count'', mailbox_u16 em 98),
      (''mailbox_health_flags'', mailbox_u16 em 100),
      (''mailbox_max_rx_fifo_count'', mailbox_u16 em 102),
      (''mailbox_max_loop_us'', mailbox_u32 em 104),
      (''mailbox_loop_overrun_count'', mailbox_u32 em 108),
      (''mailbox_rx_starvation_count'', mailbox_u32 em 112),
      (''mailbox_stuck_de_count'', mailbox_u32 em 116),
      (''mailbox_repair_count'', mailbox_u32 em 120),
      (''mailbox_max_poll_rx_to_schedule_us'', mailbox_u32 em 124),
      (''mailbox_max_response_schedule_to_tx_start_us'', mailbox_u32 em 128),
      (''mailbox_max_response_tx_us'', mailbox_u32 em 132),
      (''mailbox_protocol_sequence'', mailbox_u32 em 136),
      (''mailbox_protocol_at_us'', mailbox_u32 em 140),
      (''mailbox_protocol_event_type'', mailbox_u8 em 144),
      (''mailbox_protocol_frame_type'', mailbox_u8 em 145),
      (''mailbox_protocol_len'', mailbox_u8 em 146),
      (''mailbox_protocol_head'', mailbox_u32 em 180),
      (''mailbox_protocol_tail'', mailbox_u32 em 184)]"

definition protocol_bytes :: "emu \<Rightarrow> bytes" where
  "protocol_bytes em = read_bytes (em_mem em) (MAILBOX_ADDR + 148) (nat (min (mailbox_u8 em 146) 32))"

subsection \<open>The closed-loop transport\<close>

datatype transport_reply = TR_Command command_reply | TR_Reboot | TR_Unsupported string

definition transport_command :: "engine \<Rightarrow> string \<Rightarrow> emu \<Rightarrow> (transport_reply \<times> emu) result" where
  "transport_command engine line em =
     (let parts = py_words (py_strip line)
      in if length parts = 2 \<and> parts ! 0 = ''press'' then
           (case command_emu engine (parts ! 1) em of
              Inl e \<Rightarrow> Inl e
            | Inr (reply, em) \<Rightarrow> Inr (TR_Command reply, em))
         else if py_strip line = ''hp reboot'' then
           (case hp_reboot engine em of Inl e \<Rightarrow> Inl e | Inr em \<Rightarrow> Inr (TR_Reboot, em))
         else Inr (TR_Unsupported line, em))"

text \<open>The operations of the transport, as one function.\<close>

datatype transport_op =
    Op_Write bytes
  | Op_Read nat rat
  | Op_Advance int
  | Op_Command string
  | Op_Reset

definition perform :: "engine \<Rightarrow> transport_op \<Rightarrow> emu \<Rightarrow> emu result option" where
  "perform engine op em =
     (case op of
        Op_Write data \<Rightarrow> Some (write_uart engine data em)
      | Op_Read fuel timeout_s \<Rightarrow>
          map_option (\<lambda>r. case r of Inl e \<Rightarrow> Inl e | Inr (data, em) \<Rightarrow> Inr em)
            (read_uart_available fuel engine timeout_s em)
      | Op_Advance gap_us \<Rightarrow> Some (advance_time_us engine gap_us em)
      | Op_Command line \<Rightarrow>
          Some (case transport_command engine line em of Inl e \<Rightarrow> Inl e | Inr (reply, em) \<Rightarrow> Inr em)
      | Op_Reset \<Rightarrow> Some (lp_reset engine em))"

fun perform_all :: "engine \<Rightarrow> transport_op list \<Rightarrow> emu \<Rightarrow> emu result option" where
  "perform_all engine [] em = Some (Inr em)"
| "perform_all engine (op # ops) em =
     (case perform engine op em of
        None \<Rightarrow> None
      | Some (Inl e) \<Rightarrow> Some (Inl e)
      | Some (Inr em) \<Rightarrow> perform_all engine ops em)"

end
