(* ===== verification/Lp_Emulator_Props.thy ===== *)
theory Lp_Emulator_Props
  imports Lp_Emulator
begin

text \<open>
  What the emulator guarantees for every engine that changes it only through the hooks, the memory
  and the core's registers: the FIFO bounds after any sequence of transport operations, status
  registers that tell the truth, a configuration written under its sequence lock, a mailbox no
  section of the image overlaps, and reads that return.
\<close>

subsection \<open>What the engine may do\<close>

inductive engine_steps :: "emu \<Rightarrow> emu \<Rightarrow> bool" where
  steps_refl: "engine_steps em em"
| steps_read: "engine_steps em em' \<Longrightarrow> engine_steps em (hook_mem_read a sz em')"
| steps_write: "engine_steps em em' \<Longrightarrow> engine_steps em (hook_mem_write a sz v em')"
| steps_invalid: "engine_steps em em' \<Longrightarrow> engine_steps em (snd (hook_invalid_mem a sz em'))"
| steps_block: "engine_steps em em' \<Longrightarrow> engine_steps em (hook_block sz em')"
| steps_delay: "engine_steps em em' \<Longrightarrow> engine_steps em (hook_delay_code a em')"
| steps_core: "engine_steps em em' \<Longrightarrow>
    engine_steps em (em'\<lparr>em_mem := m, em_pc := pc, em_ra := ra, em_a0 := a0\<rparr>)"

definition engine_ok :: "engine \<Rightarrow> bool" where
  "engine_ok engine \<longleftrightarrow> (\<forall>n em em'. engine n em = Inr em' \<longrightarrow> engine_steps em em')"

definition emu_inv :: "emu \<Rightarrow> bool" where
  "emu_inv em \<longleftrightarrow> uart_inv (em_uart em)"

lemma em_uart_upd [simp]:
  "em_uart (upd_mem f em) = em_uart em" "em_uart (sync_regs em) = em_uart em"
  "em_uart (write_cycle_regs em) = em_uart em" "em_uart (count_mmio r a sz em) = em_uart em"
  "em_uart (put_u32 o32 v em) = em_uart em" "em_uart (put_u16 o16 v em) = em_uart em"
  "em_uart (put_u8 o8 v em) = em_uart em" "em_uart (return_to_caller em) = em_uart em"
  "em_uart (upd_uart g em) = g (em_uart em)" "em_uart (begin_session em) = em_uart em"
  "em_uart (post_command c em) = em_uart em"
  by (simp_all add: upd_mem_def sync_regs_def write_cycle_regs_def count_mmio_def put_u32_def put_u16_def
      put_u8_def return_to_caller_def upd_uart_def begin_session_def post_command_def Let_def)

lemma em_cycles_upd [simp]:
  "em_cycles (upd_mem f em) = em_cycles em" "em_cycles (sync_regs em) = em_cycles em"
  "em_cycles (upd_uart g em) = em_cycles em" "em_cycles (count_mmio r a sz em) = em_cycles em"
  "em_cycles (service_serial em) = em_cycles em"
  by (simp_all add: upd_mem_def sync_regs_def count_mmio_def upd_uart_def service_serial_def)

lemma emu_inv_service: "emu_inv em \<Longrightarrow> emu_inv (service_serial em)"
  by (simp add: emu_inv_def service_serial_def uart_inv_drain uart_inv_move)

lemma emu_inv_quiet: "em_uart em' = em_uart em \<Longrightarrow> emu_inv em' = emu_inv em"
  by (simp add: emu_inv_def)

lemma emu_inv_fast_forward: "emu_inv em \<Longrightarrow> emu_inv (fast_forward n em)"
proof -
  assume inv: "emu_inv em"
  have "emu_inv (em\<lparr>em_cycles := c, em_fast_forward_cycles := f\<rparr>)" for c f
    using inv by (simp add: emu_inv_def)
  then show ?thesis
    using inv emu_inv_service by (simp add: fast_forward_def emu_inv_def)
qed

lemma emu_inv_read: "emu_inv em \<Longrightarrow> emu_inv (hook_mem_read a sz em)"
proof -
  assume "emu_inv em"
  then have inv: "emu_inv (service_serial (count_mmio True a sz em))"
    by (intro emu_inv_service) (simp add: emu_inv_def)
  have "uart_inv u" if "read_fifo (em_uart (service_serial (count_mmio True a sz em))) = (b, u)" for b u
    using uart_inv_read_fifo [of "em_uart (service_serial (count_mmio True a sz em))"] inv that
    by (simp add: emu_inv_def)
  then show ?thesis
    using inv by (auto simp: hook_mem_read_def Let_def emu_inv_def split: prod.split)
qed

lemma emu_inv_mmio_write: "emu_inv em \<Longrightarrow> emu_inv (mmio_write a v em)"
proof -
  have "uart_inv (u\<lparr>u_rx_overflows := 0\<rparr>) = uart_inv u" for u
    by (simp add: uart_inv_def)
  moreover assume "emu_inv em"
  ultimately show ?thesis
    by (simp add: mmio_write_def emu_inv_def uart_inv_write_fifo uart_inv_pins)
qed

lemma emu_inv_write: "emu_inv em \<Longrightarrow> emu_inv (hook_mem_write a sz v em)"
proof -
  assume "emu_inv em"
  then have "emu_inv (service_serial (count_mmio False a sz em))"
    by (intro emu_inv_service) (simp add: emu_inv_def)
  from emu_inv_mmio_write [OF this] show ?thesis
    by (simp add: hook_mem_write_def emu_inv_def)
qed

lemma emu_inv_block: "emu_inv em \<Longrightarrow> emu_inv (hook_block sz em)"
proof -
  assume inv: "emu_inv em"
  let ?em = "write_cycle_regs (em\<lparr>em_blocks := em_blocks em + 1,
      em_instructions := em_instructions em + max 1 (sz div 2), em_cycles := em_cycles em + max 1 (sz div 2)\<rparr>)"
  have "emu_inv ?em" using inv by (simp add: emu_inv_def)
  then show ?thesis
    using emu_inv_service [of ?em] by (simp add: hook_block_def Let_def emu_inv_def)
qed

lemma emu_inv_delay: "emu_inv em \<Longrightarrow> emu_inv (hook_delay_code a em)"
  using emu_inv_fast_forward [of em] by (simp add: hook_delay_code_def emu_inv_def)

text \<open>Every hook keeps the invariant, so it holds along every run of the engine.\<close>

datatype hook = H_Read int int | H_Write int int int | H_Block int | H_Delay int

primrec hook_step :: "hook \<Rightarrow> emu \<Rightarrow> emu" where
  "hook_step (H_Read a sz) em = hook_mem_read a sz em"
| "hook_step (H_Write a sz v) em = hook_mem_write a sz v em"
| "hook_step (H_Block sz) em = hook_block sz em"
| "hook_step (H_Delay a) em = hook_delay_code a em"

interpretation hooks: machine hook_step emu_inv
proof
  fix em h
  assume "emu_inv em"
  then show "emu_inv (hook_step h em)"
    by (cases h) (simp_all add: emu_inv_read emu_inv_write emu_inv_block emu_inv_delay)
qed

lemma engine_steps_inv: "engine_steps em em' \<Longrightarrow> emu_inv em \<Longrightarrow> emu_inv em'"
proof (induction rule: engine_steps.induct)
  case (steps_read em em' a sz)
  then show ?case using hooks.step_inv [of em' "H_Read a sz"] by simp
next
  case (steps_write em em' a sz v)
  then show ?case using hooks.step_inv [of em' "H_Write a sz v"] by simp
next
  case (steps_block em em' sz)
  then show ?case using hooks.step_inv [of em' "H_Block sz"] by simp
next
  case (steps_delay em em' a)
  then show ?case using hooks.step_inv [of em' "H_Delay a"] by simp
next
  case (steps_invalid em em' a sz)
  then show ?case by (simp add: hook_invalid_mem_def emu_inv_def Let_def)
qed (simp_all add: emu_inv_def)

subsection \<open>The operations\<close>

lemma run_emu_inv:
  assumes "engine_ok engine" and "run_emu engine n em = Inr em'" and "emu_inv em"
  shows "emu_inv em'"
proof (cases "n = 0")
  case True
  then show ?thesis using assms by (simp add: run_emu_def)
next
  case False
  then obtain em1 where "engine n em = Inr em1" and "em' = service_serial em1"
    using assms(2) by (auto simp: run_emu_def split: sum.splits)
  then show ?thesis
    using engine_steps_inv [of em em1] emu_inv_service [of em1] assms(1,3) unfolding engine_ok_def by blast
qed

lemma run_until_inv:
  assumes ok: "engine_ok engine" and cond: "\<And>em. emu_inv em \<Longrightarrow> emu_inv (snd (condition em))"
  shows "run_until engine condition n em = Inr (b, em') \<Longrightarrow> emu_inv em \<Longrightarrow> emu_inv em'"
proof (induction n arbitrary: em rule: less_induct)
  case (less n)
  obtain c em1 where c: "condition em = (c, em1)" by fastforce
  have inv: "emu_inv em1" using cond [OF less.prems(2)] c by simp
  show ?case
  proof (cases "n = 0 \<or> c")
    case True
    then have "run_until engine condition n em = Inr (c, em1)"
      using c by (subst run_until.simps) auto
    then have "em' = em1" using less.prems(1) by simp
    then show ?thesis using inv by simp
  next
    case False
    then obtain em2 where run: "run_emu engine (min SLICE n) em1 = Inr em2"
        and rest: "run_until engine condition (n - min SLICE n) em2 = Inr (b, em')"
      using less.prems c by (auto simp: run_until.simps [of engine condition n em] split: sum.splits)
    have "n - min SLICE n < n" using False SLICE_pos by (simp add: min_def)
    from less.IH [OF this rest run_emu_inv [OF ok run inv]] show ?thesis .
  qed
qed

lemma pure_condition_inv: "emu_inv em \<Longrightarrow> emu_inv (snd (pure_condition P em))"
  by (simp add: pure_condition_def)

lemma quiescent_inv: "emu_inv em \<Longrightarrow> emu_inv (snd (serial_quiescent em))"
  by (simp add: serial_quiescent_def Let_def emu_inv_service)

lemma run_until_pure:
  "engine_ok engine \<Longrightarrow> run_until engine (pure_condition P) n em = Inr (b, em') \<Longrightarrow> emu_inv em \<Longrightarrow> emu_inv em'"
  by (rule run_until_inv [where condition = "pure_condition P"]) (simp_all add: pure_condition_inv)

lemma run_until_quiescent:
  "engine_ok engine \<Longrightarrow> run_until engine serial_quiescent n em = Inr (b, em') \<Longrightarrow> emu_inv em \<Longrightarrow> emu_inv em'"
  by (rule run_until_inv [where condition = serial_quiescent]) (simp_all add: quiescent_inv)

lemma emu_inv_upd [simp]:
  "emu_inv (em\<lparr>em_running := r\<rparr>) = emu_inv em" "emu_inv (put_u32 o32 v em) = emu_inv em"
  "emu_inv (begin_session em) = emu_inv em" "emu_inv (post_command c em) = emu_inv em"
  "emu_inv (em\<lparr>em_pc := pc, em_ra := ra, em_running := r\<rparr>) = emu_inv em"
  by (simp_all add: emu_inv_def)

lemma boot_inv:
  assumes "engine_ok engine" and "boot engine em = Inr em'" and "emu_inv em"
  shows "emu_inv em'"
proof (cases "em_running em")
  case True
  then show ?thesis using assms by (simp add: boot_def)
next
  case False
  then obtain em1 where "run_until engine (pure_condition (\<lambda>em. 0 < heartbeat em)) 2000000 em = Inr (True, em1)"
      and "em' = em1\<lparr>em_running := True\<rparr>"
    using assms(2) by (auto simp: boot_def split: sum.splits prod.splits if_splits)
  then show ?thesis using run_until_pure [OF assms(1)] assms(3) by simp
qed

lemma write_uart_inv:
  assumes "engine_ok engine" and "write_uart engine data em = Inr em'" and "emu_inv em"
  shows "emu_inv em'"
proof -
  obtain em1 where b: "boot engine em = Inr em1" and e: "em' = queue_frame data em1"
    using assms(2) by (auto simp: write_uart_def split: sum.splits)
  have "emu_inv em1" by (rule boot_inv [OF assms(1) b assms(3)])
  then show ?thesis
    by (simp add: e emu_inv_def queue_frame_def Let_def trace_event_def uart_inv_def)
qed

lemma read_loop_inv:
  assumes "engine_ok engine"
  shows "read_loop fuel engine deadline em = Some (Inr em') \<Longrightarrow> emu_inv em \<Longrightarrow> emu_inv em'"
proof (induction fuel arbitrary: em)
  case (Suc fuel)
  show ?case
  proof (cases "deadline \<le> em_cycles em \<or> reply_complete em \<or> 32 \<le> length (u_tx_output (em_uart em))")
    case True
    then show ?thesis using Suc.prems by (auto split: if_splits)
  next
    case False
    then obtain em1 where run: "run_emu engine 8192 em = Inr em1"
        and rest: "(if reply_complete em1 then Some (Inr em1) else read_loop fuel engine deadline em1) = Some (Inr em')"
      using Suc.prems by (auto split: sum.splits)
    have "emu_inv em1" by (rule run_emu_inv [OF assms run Suc.prems(2)])
    then show ?thesis using rest Suc.IH by (auto split: if_splits)
  qed
qed simp

lemma read_uart_inv:
  assumes "engine_ok engine" and "read_uart_available fuel engine t em = Some (Inr (data, em'))" and "emu_inv em"
  shows "emu_inv em'"
proof -
  obtain em1 where b: "boot engine em = Inr em1"
    using assms(2) by (auto simp: read_uart_available_def split: sum.splits)
  obtain z deadline where z: "read_loop fuel engine deadline em1 = Some z"
      and out: "(case z of Inl e \<Rightarrow> Inl e | Inr em \<Rightarrow> Inr (take_tx_output em)) = Inr (data, em')"
    using assms(2) b unfolding read_uart_available_def by (auto simp: map_option_eq_Some)
  then obtain em2 where r: "read_loop fuel engine deadline em1 = Some (Inr em2)"
      and e: "em' = snd (take_tx_output em2)"
    by (cases z) simp_all
  have "emu_inv em2"
    by (rule read_loop_inv [OF assms(1) r boot_inv [OF assms(1) b assms(3)]])
  then show ?thesis
    by (simp add: e take_tx_output_def Let_def emu_inv_def trace_event_def uart_inv_def)
qed

lemma settle_inv:
  assumes "engine_ok engine" and "settle engine em = Inr em'" and "emu_inv em"
  shows "emu_inv em'"
proof -
  obtain q em1 where q: "serial_quiescent em = (q, em1)" by fastforce
  have inv: "emu_inv em1" using quiescent_inv [OF assms(3)] q by simp
  show ?thesis
  proof (cases q)
    case True
    then show ?thesis using assms(2) q inv by (simp add: settle_def)
  next
    case False
    then obtain em2 where r: "run_until engine serial_quiescent 4000000 em1 = Inr (True, em2)"
        and e: "run_emu engine 4096 em2 = Inr em'"
      using assms(2) q by (auto simp: settle_def split: sum.splits prod.splits if_splits)
    show ?thesis by (rule run_emu_inv [OF assms(1) e run_until_quiescent [OF assms(1) r inv]])
  qed
qed

lemma advance_inv:
  assumes "engine_ok engine" and "advance_time_us engine gap em = Inr em'" and "emu_inv em"
  shows "emu_inv em'"
proof (cases "gap \<le> 0")
  case True
  then show ?thesis using assms by (simp add: advance_time_us_def)
next
  case False
  then obtain em1 em2 target where b: "boot engine em = Inr em1" and s: "settle engine em1 = Inr em2"
      and e: "em' = skip_to target em2"
    using assms(2) by (auto simp: advance_time_us_def Let_def split: sum.splits)
  have inv: "emu_inv em2" by (rule settle_inv [OF assms(1) s boot_inv [OF assms(1) b assms(3)]])
  then have "emu_inv (write_cycle_regs (em2\<lparr>em_fast_forward_cycles := f, em_cycles := c\<rparr>))" for f c
    by (simp add: emu_inv_def)
  then show ?thesis using inv by (simp add: e skip_to_def emu_inv_service)
qed

lemma command_inv:
  assumes "engine_ok engine" and "command_emu engine name em = Inr (reply, em')" and "emu_inv em"
  shows "emu_inv em'"
proof -
  obtain em1 where b: "boot engine em = Inr em1"
    using assms(2) by (auto simp: command_emu_def split: sum.splits)
  have inv: "emu_inv em1" by (rule boot_inv [OF assms(1) b assms(3)])
  show ?thesis
  proof (cases "map_of COMMAND_IDS name")
    case None
    then show ?thesis using assms(2) b inv by (simp add: command_emu_def)
  next
    case (Some c)
    then obtain em2 ok where r: "run_emu engine 50000 (begin_session em1) = Inr em2"
        and u: "run_until engine (pure_condition (\<lambda>em. mailbox_u32 em 36 = em_command_sequence (post_command c em2)))
          1000000 (post_command c em2) = Inr (ok, em')"
      using assms(2) b by (auto simp: command_emu_def Let_def split: sum.splits prod.splits)
    have "emu_inv em2" using run_emu_inv [OF assms(1) r] inv by simp
    then show ?thesis using run_until_pure [OF assms(1) u] by simp
  qed
qed

lemma transport_command_inv:
  assumes "engine_ok engine" and "transport_command engine line em = Inr (reply, em')" and "emu_inv em"
  shows "emu_inv em'"
proof -
  consider name r where "command_emu engine name em = Inr (r, em')"
    | "hp_reboot engine em = Inr em'" | "em' = em"
    using assms(2) by (auto simp: transport_command_def Let_def split: if_splits sum.splits prod.splits)
  then show ?thesis
  proof cases
    case 1
    then show ?thesis using command_inv [OF assms(1) _ assms(3)] by blast
  next
    case 2
    then show ?thesis using run_emu_inv [OF assms(1)] assms(3) by (simp add: hp_reboot_def)
  qed (use assms(3) in simp)
qed

lemma lp_reset_inv:
  assumes "engine_ok engine" and "lp_reset engine em = Inr em'" and "emu_inv em"
  shows "emu_inv em'"
proof -
  define cut where "cut em = (upd_uart (\<lambda>u. set_de (em_cycles em) False
      ((trace_event (Ev_Lp_Reset (py_round (time_us (em_cycles em)))) u)
        \<lparr>u_tx_fifo := [], u_tx_next_due_cycle := None, u_tx_first_cycle := None\<rparr>)) em)
      \<lparr>em_pc := em_entry em, em_ra := 0, em_running := False\<rparr>" for em
  obtain em1 em2 before where b: "boot engine em = Inr em1"
      and r: "run_until engine (pure_condition (\<lambda>em. before < mailbox_u32 em 72)) 2000000 (cut em1) = Inr (True, em2)"
      and e: "em' = em2\<lparr>em_running := True\<rparr>"
    using assms(2) by (auto simp: lp_reset_def Let_def cut_def upd_uart_def split: sum.splits prod.splits if_splits)
  have inv: "emu_inv em1" by (rule boot_inv [OF assms(1) b assms(3)])
  have "uart_inv (u\<lparr>u_tx_fifo := [], u_tx_next_due_cycle := None, u_tx_first_cycle := None\<rparr>)" if "uart_inv u" for u
    using that by (auto simp: uart_inv_def)
  moreover have "uart_inv (trace_event ev u) = uart_inv u" for ev u
    by (simp add: uart_inv_def trace_event_def)
  ultimately have "emu_inv (cut em1)"
    using inv by (simp add: cut_def emu_inv_def uart_inv_pins)
  then show ?thesis using run_until_pure [OF assms(1) r] e by simp
qed

lemma perform_inv:
  assumes "engine_ok engine" and "perform engine op em = Some (Inr em')" and "emu_inv em"
  shows "emu_inv em'"
proof (cases op)
  case (Op_Write data)
  then show ?thesis using assms write_uart_inv by (simp add: perform_def)
next
  case (Op_Read fuel t)
  then obtain z where z: "read_uart_available fuel engine t em = Some z"
      and out: "(case z of Inl e \<Rightarrow> Inl e | Inr (data, em) \<Rightarrow> Inr em) = Inr em'"
    using assms(2) unfolding perform_def by (auto simp: map_option_eq_Some)
  then obtain data where "read_uart_available fuel engine t em = Some (Inr (data, em'))"
    by (cases z) auto
  then show ?thesis by (rule read_uart_inv [OF assms(1) _ assms(3)])
next
  case (Op_Advance gap)
  then show ?thesis using assms advance_inv by (simp add: perform_def)
next
  case (Op_Command line)
  then obtain reply where "transport_command engine line em = Inr (reply, em')"
    using assms(2) by (auto simp: perform_def split: sum.splits prod.splits)
  then show ?thesis by (rule transport_command_inv [OF assms(1) _ assms(3)])
next
  case Op_Reset
  then show ?thesis using assms lp_reset_inv by (simp add: perform_def)
qed

lemma perform_all_inv:
  "engine_ok engine \<Longrightarrow> perform_all engine ops em = Some (Inr em') \<Longrightarrow> emu_inv em \<Longrightarrow> emu_inv em'"
  by (induction ops arbitrary: em) (auto split: option.splits sum.splits dest: perform_inv)

lemma new_emulator_inv: "LPEmulator elf m = Inr em \<Longrightarrow> emu_inv em"
  by (auto simp: LPEmulator_def init_mailbox_def init_mmio_def blank_emu_def emu_inv_def Let_def split: sum.splits)

text \<open>C16: Whatever firmware the engine runs, as long as it reaches the emulator through the hooks, its memory and its
  registers: after any sequence of writes, reads, waits, commands and resets on a freshly loaded emulator both FIFOs
  hold at most 16 bytes, the high-water marks bound them, and a byte time is pending exactly when there is a byte
  to send.\<close>

theorem emulator_fifo_invariant:
  assumes "engine_ok engine" and "LPEmulator elf m = Inr em" and "perform_all engine ops em = Some (Inr em')"
  shows "length (u_rx_fifo (em_uart em')) \<le> u_rx_high_water (em_uart em') \<and> u_rx_high_water (em_uart em') \<le> 16 \<and>
    length (u_tx_fifo (em_uart em')) \<le> u_tx_high_water (em_uart em') \<and> u_tx_high_water (em_uart em') \<le> 16 \<and>
    (u_tx_next_due_cycle (em_uart em') = None \<longleftrightarrow> u_tx_fifo (em_uart em') = [])"
  using perform_all_inv [OF assms(1,3) new_emulator_inv [OF assms(2)]] by (simp add: emu_inv_def uart_inv_def)

text \<open>An engine that publishes a heartbeat and then only lets time pass.\<close>

definition idle_engine :: engine where
  "idle_engine n em = Inr (hook_block (2 * int n) (put_u32 12 1 em))"

lemma engine_steps_put: "engine_steps em em' \<Longrightarrow> engine_steps em (put_u32 off v em')"
proof -
  assume "engine_steps em em'"
  from steps_core [OF this, where m = "write_u32 (MAILBOX_ADDR + off) v (em_mem em')" and pc = "em_pc em'"
      and ra = "em_ra em'" and ?a0.0 = "em_a0 em'"]
  show ?thesis by (simp add: put_u32_def upd_mem_def)
qed

lemma idle_engine_ok: "engine_ok idle_engine"
  unfolding engine_ok_def idle_engine_def
  by (auto intro!: steps_block engine_steps_put steps_refl)

definition tiny_image :: elf_image where
  "tiny_image = \<lparr>elf_entry = 0x50000080, elf_segments = [], elf_symbols = None, elf_sections = []\<rparr>"

lemma tiny_loads: "\<exists>em. LPEmulator tiny_image (\<lambda>_. 0) = Inr em"
  by (simp add: LPEmulator_def tiny_image_def check_layout_def image_symbols_def image_sections_def const_defs Let_def)

lemma sync_regs_mailbox [simp]:
  "off < 0x1000 \<Longrightarrow> mailbox_u32 (sync_regs em) off = mailbox_u32 em off"
  by (simp add: mailbox_u32_def sync_regs_def upd_mem_def sync_uart_regs_def Let_def mem_simps const_defs)

lemma mailbox_same_mem: "em_mem em' = em_mem em \<Longrightarrow> mailbox_u32 em' off = mailbox_u32 em off"
  by (simp add: mailbox_u32_def)

lemma mailbox_quiet [simp]:
  "mailbox_u32 (upd_uart f em) off = mailbox_u32 em off"
  "mailbox_u32 (em\<lparr>em_cycles := c\<rparr>) off = mailbox_u32 em off"
  "mailbox_u32 (em\<lparr>em_last_cycle_sync := c\<rparr>) off = mailbox_u32 em off"
  "mailbox_u32 (write_cycle_regs em) off = mailbox_u32 em off"
  "mailbox_u32 (em\<lparr>em_blocks := b, em_instructions := i\<rparr>) off = mailbox_u32 em off"
  by (simp_all add: upd_uart_def write_cycle_regs_def mailbox_u32_def)

lemma service_mailbox: "off < 0x1000 \<Longrightarrow> mailbox_u32 (service_serial em) off = mailbox_u32 em off"
  by (simp add: service_serial_def mailbox_quiet)

lemma block_mailbox: "off < 0x1000 \<Longrightarrow> mailbox_u32 (hook_block n em) off = mailbox_u32 em off"
  by (simp add: hook_block_def Let_def mailbox_quiet service_mailbox)

lemma put_u32_mailbox: "mailbox_u32 (put_u32 off v em) off = v mod 2 ^ 32"
  by (simp add: mailbox_u32_def put_u32_def upd_mem_def mem_simps)

lemma idle_boots: "\<exists>em'. boot idle_engine em = Inr em'"
proof (cases "em_running em \<or> 0 < heartbeat em")
  case True
  then show ?thesis
    by (auto simp: boot_def run_until.simps [of _ _ 2000000] pure_condition_def)
next
  case False
  obtain em1 where em1: "run_emu idle_engine 4096 em = Inr em1"
      and eq: "em1 = service_serial (hook_block (2 * int 4096) (put_u32 12 1 em))"
    by (simp add: run_emu_def idle_engine_def)
  have "0 < heartbeat em1"
    by (simp add: eq heartbeat_def service_mailbox block_mailbox put_u32_mailbox)
  then have "run_until idle_engine (pure_condition (\<lambda>em. 0 < heartbeat em)) 1995904 em1 = Inr (True, em1)"
    by (subst run_until.simps) (simp add: pure_condition_def)
  then have "run_until idle_engine (pure_condition (\<lambda>em. 0 < heartbeat em)) 2000000 em = Inr (True, em1)"
    using False em1 by (subst run_until.simps) (simp add: pure_condition_def SLICE_def min_def)
  then show ?thesis using False by (simp add: boot_def)
qed

theorem emulator_fifo_invariant_witness:
  "\<exists>em em'. LPEmulator tiny_image (\<lambda>_. 0) = Inr em \<and>
     perform_all idle_engine [Op_Write [1, 2, 3]] em = Some (Inr em') \<and> length (u_rx_fifo (em_uart em')) \<le> 16"
proof -
  obtain em where em: "LPEmulator tiny_image (\<lambda>_. 0) = Inr em" using tiny_loads by blast
  obtain em' where run: "perform_all idle_engine [Op_Write [1, 2, 3]] em = Some (Inr em')"
    using idle_boots [of em] by (auto simp: perform_def write_uart_def)
  from emulator_fifo_invariant [OF idle_engine_ok em run] run em show ?thesis by force
qed

subsection \<open>Status registers\<close>

lemma bit_31: "bit (31 :: int) n \<longleftrightarrow> n < 5"
proof -
  have m: "(31 :: int) = mask 5" by (simp add: mask_eq_exp_minus_1)
  show ?thesis unfolding m bit_mask_iff by simp
qed

lemma and_31: "0 \<le> x \<Longrightarrow> x < 32 \<Longrightarrow> x AND 31 = x" for x :: int
proof -
  assume "0 \<le> x" "x < 32"
  moreover have "x AND 31 = take_bit 5 x"
    by (simp add: take_bit_eq_mask mask_eq_exp_minus_1)
  ultimately show ?thesis by (simp add: take_bit_eq_mod)
qed

lemma bit_push_one: "bit (push_bit k (1 :: int)) n \<longleftrightarrow> n = k"
  unfolding bit_push_bit_iff bit_1_iff by auto

lemma bit_push_field: "bit (push_bit k (x AND 0x1F)) n \<longleftrightarrow> k \<le> n \<and> n < k + 5 \<and> bit x (n - k)" for x :: int
  by (auto simp: bit_push_bit_iff bit_and_iff bit_31)

lemma bit_status_word:
  "bit (status_word u) n \<longleftrightarrow>
     3 \<le> n \<and> n < 8 \<and> bit (int (length (u_rx_fifo u))) (n - 3) \<or> n = 14 \<or> n = 15 \<or>
     19 \<le> n \<and> n < 24 \<and> bit (int (length (u_tx_fifo u))) (n - 19) \<or> n = 29 \<or> n = 30 \<or> n = 31"
  unfolding status_word_def bit_or_iff bit_push_one bit_push_field by (simp add: disj_assoc)

lemma read_u32_take: "read_u32 (write_u32 a v m) a = take_bit 32 v"
  by (simp add: mem_simps take_bit_eq_mod)

lemma status_fields:
  assumes "length (u_rx_fifo u) \<le> 16" and "length (u_tx_fifo u) \<le> 16"
  shows "drop_bit 3 (take_bit 32 (status_word u)) AND 0x1F = int (length (u_rx_fifo u))"
    and "drop_bit 19 (take_bit 32 (status_word u)) AND 0x1F = int (length (u_tx_fifo u))"
proof -
  have "drop_bit 3 (take_bit 32 (status_word u)) AND 0x1F = int (length (u_rx_fifo u)) AND 0x1F"
    by (rule bit_eqI) (auto simp: bit_and_iff bit_31 bit_drop_bit_eq bit_take_bit_iff bit_status_word)
  then show "drop_bit 3 (take_bit 32 (status_word u)) AND 0x1F = int (length (u_rx_fifo u))"
    using assms(1) by (simp add: and_31)
  have "drop_bit 19 (take_bit 32 (status_word u)) AND 0x1F = int (length (u_tx_fifo u)) AND 0x1F"
    by (rule bit_eqI) (auto simp: bit_and_iff bit_31 bit_drop_bit_eq bit_take_bit_iff bit_status_word)
  then show "drop_bit 19 (take_bit 32 (status_word u)) AND 0x1F = int (length (u_tx_fifo u))"
    using assms(2) by (simp add: and_31)
qed

lemma bit_interrupt_word:
  "bit (interrupt_word u) 0 \<longleftrightarrow> 10 \<le> length (u_rx_fifo u)"
  "bit (interrupt_word u) 8 \<longleftrightarrow> u_rx_fifo u \<noteq> []"
  "bit (interrupt_word u) 4 \<longleftrightarrow> u_rx_overflows u \<noteq> 0"
  "bit (interrupt_word u) 1 \<longleftrightarrow> length (u_tx_fifo u) < 10"
  "bit (interrupt_word u) 14 \<longleftrightarrow> u_tx_fifo u = []"
  unfolding interrupt_word_def Let_def const_defs by (simp_all add: bit_or_iff bit_push_one)

text \<open>After the registers are synchronised, the status word the core reads gives the two FIFO fill levels without
  truncation, the raw interrupt word has exactly the conditions of the FIFOs set, and the masked status word is the
  raw one under the enable mask.\<close>

theorem status_registers_truthful:
  assumes "uart_inv u"
  shows "let m' = sync_uart_regs u m; status = read_u32 m' LP_UART_STATUS; raw = read_u32 m' LP_UART_INT_RAW in
    drop_bit 3 status AND 0x1F = int (length (u_rx_fifo u)) \<and>
    drop_bit 19 status AND 0x1F = int (length (u_tx_fifo u)) \<and>
    (bit raw 0 \<longleftrightarrow> 10 \<le> length (u_rx_fifo u)) \<and> (bit raw 8 \<longleftrightarrow> u_rx_fifo u \<noteq> []) \<and>
    (bit raw 4 \<longleftrightarrow> u_rx_overflows u \<noteq> 0) \<and> (bit raw 1 \<longleftrightarrow> length (u_tx_fifo u) < 10) \<and>
    (bit raw 14 \<longleftrightarrow> u_tx_fifo u = []) \<and>
    read_u32 m' LP_UART_INT_ST = raw AND read_u32 m LP_UART_INT_ENA"
proof -
  let ?m = "sync_uart_regs u m"
  have status: "read_u32 ?m LP_UART_STATUS = take_bit 32 (status_word u)"
    by (simp add: sync_uart_regs_def Let_def const_defs mem_simps take_bit_eq_mod)
  have raw: "read_u32 ?m LP_UART_INT_RAW = take_bit 32 (interrupt_word u)"
    by (simp add: sync_uart_regs_def Let_def const_defs mem_simps take_bit_eq_mod)
  have ena: "read_u32 m LP_UART_INT_ENA = take_bit 32 (read_u32 m LP_UART_INT_ENA)"
    using read_u32_bound by (simp add: take_bit_eq_mod)
  have "read_u32 ?m LP_UART_INT_ST = take_bit 32 (interrupt_word u AND read_u32 m LP_UART_INT_ENA)"
    by (simp add: sync_uart_regs_def Let_def const_defs mem_simps take_bit_eq_mod)
  then have st: "read_u32 ?m LP_UART_INT_ST = take_bit 32 (interrupt_word u) AND read_u32 m LP_UART_INT_ENA"
    using ena by (metis take_bit_and)
  have "length (u_rx_fifo u) \<le> 16" "length (u_tx_fifo u) \<le> 16"
    using assms by (auto simp: uart_inv_def)
  note fields = status_fields [OF this]
  show ?thesis
    unfolding Let_def status raw st using fields by (simp add: bit_take_bit_iff bit_interrupt_word [simplified])
qed

theorem status_registers_truthful_witness:
  "drop_bit 19 (read_u32 (sync_uart_regs (write_fifo 0 7 new_uart) (\<lambda>_. 0)) LP_UART_STATUS) AND 0x1F = 1"
proof -
  have "uart_inv (write_fifo 0 7 new_uart)" by (simp add: uart_inv_write_fifo)
  from status_registers_truthful [OF this] show ?thesis
    by (simp add: Let_def write_fifo_def new_uart_def const_defs)
qed

subsection \<open>The configuration under its sequence lock\<close>

lemma mod_2_32_parity: "even ((x :: int) mod 2 ^ 32) = even x"
  by (simp add: even_mod_exp_div_exp_iff dvd_mod_iff)

lemma config_sequence_odd: "odd (config_sequence em)"
  unfolding config_sequence_def Let_def by (simp split: if_split) presburger

lemma config_sequence_range:
  "config_sequence em - mailbox_u32 em MAILBOX_CONFIG_SEQUENCE \<in> {1, 2}"
  by (auto simp: config_sequence_def Let_def)

lemmas put_defs = put_u32_def put_u16_def put_u8_def upd_mem_def mailbox_u32_def mailbox_u8_def mailbox_u16_def

lemma write_config_sequence:
  "length signature = 10 \<Longrightarrow>
   mailbox_u32 (write_config sl signature d b em) MAILBOX_CONFIG_SEQUENCE = mailbox_u32 em MAILBOX_CONFIG_SEQUENCE"
  by (simp add: write_config_def Let_def put_defs const_defs mem_simps)

lemma mod_neq: "(x :: int) \<noteq> y mod 2 ^ 32" if "0 \<le> x" "x < 2 ^ 32" "y - x \<in> {2, 3}"
proof
  assume "x = y mod 2 ^ 32"
  then have "(y - x) mod 2 ^ 32 = 0" by (simp add: mod_eq_dvd_iff)
  then show False using that(3) by auto
qed

text \<open>configure_hcp2 refuses a signature that has not ten bytes; otherwise the sequence number is odd while the
  fields are written, even and different from before when it returns, every configured value reads back as
  written, and nothing below the configuration block of the mailbox changes.\<close>

theorem configure_hcp2_seqlock:
  "case configure_hcp2 sl signature delay press em of
     Inl e \<Rightarrow> length signature \<noteq> 10 \<and> e = ValueError ''signature must contain exactly 10 bytes''
   | Inr em' \<Rightarrow>
       length signature = 10 \<and>
       odd (mailbox_u32 (write_config sl signature delay press
              (put_u32 MAILBOX_CONFIG_SEQUENCE (config_sequence em) em)) MAILBOX_CONFIG_SEQUENCE) \<and>
       even (mailbox_u32 em' MAILBOX_CONFIG_SEQUENCE) \<and>
       mailbox_u32 em' MAILBOX_CONFIG_SEQUENCE \<noteq> mailbox_u32 em MAILBOX_CONFIG_SEQUENCE \<and>
       mailbox_u8 em' MAILBOX_CONFIG_SLAVE_ID = sl mod 256 \<and>
       read_bytes (em_mem em') (MAILBOX_ADDR + MAILBOX_CONFIG_SIGNATURE) 10 = signature \<and>
       mailbox_u32 em' MAILBOX_CONFIG_RESPONSE_DELAY_US = delay mod 2 ^ 32 \<and>
       mailbox_u32 em' MAILBOX_CONFIG_BUTTON_PRESS_US = press mod 2 ^ 32 \<and>
       (\<forall>off. mailbox_u32 em' off = mailbox_u32 em off \<or> MAILBOX_CONFIG_SEQUENCE < off + 4)"
proof (cases "length signature = 10")
  case False
  then show ?thesis by (simp add: configure_hcp2_def)
next
  case len: True
  let ?seq = "config_sequence em"
  let ?em1 = "write_config sl signature delay press (put_u32 MAILBOX_CONFIG_SEQUENCE ?seq em)"
  let ?em' = "put_u32 MAILBOX_CONFIG_SEQUENCE (?seq + 1) ?em1"
  have during: "mailbox_u32 ?em1 MAILBOX_CONFIG_SEQUENCE = ?seq mod 2 ^ 32"
    by (simp only: write_config_sequence [OF len] put_u32_mailbox)
  have after: "mailbox_u32 ?em' MAILBOX_CONFIG_SEQUENCE = (?seq + 1) mod 2 ^ 32"
    by (rule put_u32_mailbox)
  have "(?seq + 1) - mailbox_u32 em MAILBOX_CONFIG_SEQUENCE \<in> {2, 3}"
    using config_sequence_range [of em] by auto
  then have differs: "mailbox_u32 em MAILBOX_CONFIG_SEQUENCE \<noteq> (?seq + 1) mod 2 ^ 32"
    by (intro mod_neq) (simp_all only: mailbox_u32_def read_u32_bound)
  have fields: "mailbox_u8 ?em' MAILBOX_CONFIG_SLAVE_ID = sl mod 256"
      "read_bytes (em_mem ?em') (MAILBOX_ADDR + MAILBOX_CONFIG_SIGNATURE) 10 = signature"
      "mailbox_u32 ?em' MAILBOX_CONFIG_RESPONSE_DELAY_US = delay mod 2 ^ 32"
      "mailbox_u32 ?em' MAILBOX_CONFIG_BUTTON_PRESS_US = press mod 2 ^ 32"
    using len by (simp_all add: write_config_def Let_def put_defs const_defs mem_simps)
  have frame: "mailbox_u32 ?em' off = mailbox_u32 em off" if "\<not> MAILBOX_CONFIG_SEQUENCE < off + 4" for off
    using len that by (simp add: write_config_def Let_def put_defs const_defs mem_simps)
  have "configure_hcp2 sl signature delay press em = Inr ?em'"
    using len by (simp add: configure_hcp2_def Let_def)
  moreover have "odd (mailbox_u32 ?em1 MAILBOX_CONFIG_SEQUENCE)" "even (mailbox_u32 ?em' MAILBOX_CONFIG_SEQUENCE)"
    unfolding during after mod_2_32_parity using config_sequence_odd [of em] by simp_all
  ultimately show ?thesis
    using len differs fields frame after by (simp only: sum.case) (metis (no_types, lifting))
qed

subsection \<open>The image leaves the mailbox alone\<close>

lemma check_sections_ok:
  "check_sections ss low = Inr low' \<Longrightarrow>
   low \<le> low' \<and> (\<forall>s \<in> set ss. \<not> overlaps_mailbox s) \<and>
   (\<forall>s \<in> set ss. sr_end s \<le> MAILBOX_ADDR \<longrightarrow> sr_name s \<noteq> ''.shared_mem'' \<longrightarrow> sr_end s \<le> low') \<and>
   (low \<le> MAILBOX_ADDR \<longrightarrow> low' \<le> MAILBOX_ADDR)"
proof (induction ss low rule: check_sections.induct)
  case (2 s ss low)
  let ?low = "if sr_end s \<le> MAILBOX_ADDR \<and> sr_name s \<noteq> ''.shared_mem'' then max low (sr_end s) else low"
  have no: "\<not> overlaps_mailbox s" and rest: "check_sections ss ?low = Inr low'"
    using "2.prems" by (auto split: if_splits)
  from "2.IH" [OF no rest] no show ?case by (auto split: if_splits)
qed simp

lemma check_sections_fails:
  "check_sections ss low = Inl e \<longleftrightarrow>
   (\<exists>s. List.find overlaps_mailbox ss = Some s \<and> e = RuntimeError (''LP section overlaps mailbox: '' @ sr_name s))"
  by (induction ss low rule: check_sections.induct) auto

text \<open>An image is loaded only when none of its allocated sections overlaps the mailbox and at least 2048 bytes of
  stack remain above it; the reported free space below the mailbox is then not negative and is what the highest
  section below the mailbox leaves.\<close>

theorem check_layout_sound:
  assumes "check_layout entry syms sections = Inr layout"
  shows "(\<forall>s \<in> set sections. sr_end s \<le> MAILBOX_ADDR \<or> MAILBOX_ADDR + MAILBOX_SIZE \<le> sr_start s) \<and>
    2048 \<le> ly_stack_headroom_bytes layout \<and>
    ly_stack_top layout = MAILBOX_ADDR + MAILBOX_SIZE + ly_stack_headroom_bytes layout \<and>
    0 \<le> ly_code_data_headroom_bytes layout \<and>
    (\<forall>s \<in> set sections. sr_end s \<le> MAILBOX_ADDR \<longrightarrow> sr_name s \<noteq> ''.shared_mem'' \<longrightarrow>
       sr_end s + ly_code_data_headroom_bytes layout \<le> MAILBOX_ADDR)"
proof -
  obtain low where low: "check_sections sections LP_SRAM_BASE = Inr low"
    using assms by (auto simp: check_layout_def split: sum.splits)
  have fields: "ly_code_data_headroom_bytes layout = MAILBOX_ADDR - low" "2048 \<le> ly_stack_headroom_bytes layout"
      "ly_stack_top layout = MAILBOX_ADDR + MAILBOX_SIZE + ly_stack_headroom_bytes layout"
    using assms low by (auto simp: check_layout_def Let_def split: if_splits)
  have "LP_SRAM_BASE \<le> MAILBOX_ADDR" by (simp add: const_defs)
  then show ?thesis
    using check_sections_ok [OF low] fields by (auto simp: overlaps_mailbox_def not_less)
qed

theorem check_layout_sound_witness:
  "\<exists>layout. check_layout 0x50000080 (\<lambda>_. None) [\<lparr>sr_name = ''.text'', sr_start = 0x50000000, sr_size = 0x2000\<rparr>] = Inr layout \<and>
     2048 \<le> ly_stack_headroom_bytes layout"
proof -
  obtain layout where l: "check_layout 0x50000080 (\<lambda>_. None)
      [\<lparr>sr_name = ''.text'', sr_start = 0x50000000, sr_size = 0x2000\<rparr>] = Inr layout"
    by (simp add: check_layout_def overlaps_mailbox_def sr_end_def const_defs Let_def)
  from check_layout_sound [OF l] l show ?thesis by blast
qed

subsection \<open>Reads return\<close>

definition engine_advances :: "engine \<Rightarrow> bool" where
  "engine_advances engine \<longleftrightarrow> (\<forall>n em em'. engine n em = Inr em' \<longrightarrow> n = 0 \<or> em_cycles em < em_cycles em')"

lemma read_loop_returns:
  assumes "engine_advances engine"
  shows "nat (deadline - em_cycles em) < fuel \<Longrightarrow> \<exists>r. read_loop fuel engine deadline em = Some r"
proof (induction fuel arbitrary: em)
  case (Suc fuel)
  show ?case
  proof (cases "engine 8192 em")
    case (Inr em1)
    then have "em_cycles em < em_cycles (service_serial em1)"
      using assms by (fastforce simp: engine_advances_def)
    then have "nat (deadline - em_cycles (service_serial em1)) < fuel \<or> deadline \<le> em_cycles em"
      using Suc.prems by linarith
    then show ?thesis
      using Suc.IH [of "service_serial em1"] Inr by (auto simp: run_emu_def)
  qed (simp add: run_emu_def)
qed simp

text \<open>When the engine makes time pass, a read of the UART returns: its loop ends after at most as many rounds as
  the timeout has cycles, whatever the firmware does with the line.\<close>

theorem read_uart_returns:
  assumes "engine_advances engine" and "max 1 \<lfloor>timeout_s * of_int LP_CLOCK_HZ\<rfloor> < int fuel"
  shows "\<exists>r. read_uart_available fuel engine timeout_s em = Some r"
proof (cases "boot engine em")
  case (Inr em1)
  have "nat (em_cycles em1 + max 1 \<lfloor>timeout_s * of_int LP_CLOCK_HZ\<rfloor> - em_cycles em1) < fuel"
    using assms(2) by (simp add: nat_less_iff)
  from read_loop_returns [OF assms(1) this] show ?thesis
    using Inr by (auto simp: read_uart_available_def)
qed (simp add: read_uart_available_def)

lemma idle_engine_advances: "engine_advances idle_engine"
proof -
  have adv: "em_cycles em < em_cycles (hook_block (2 * int n) em)" for n em
    by (simp add: hook_block_def Let_def write_cycle_regs_def)
  have "em_cycles em < em_cycles (hook_block (2 * int n) (put_u32 12 1 em))" for n em
    using adv [of "put_u32 12 1 em" n] by (simp add: put_u32_def)
  then show ?thesis
    by (simp add: engine_advances_def idle_engine_def)
qed

theorem read_uart_returns_witness:
  "\<exists>r. read_uart_available 3 idle_engine (1 / 10000000) (blank_emu (\<lambda>_. 0)) = Some r"
  by (rule read_uart_returns [OF idle_engine_advances]) (simp add: const_defs)

subsection \<open>Reloading\<close>

lemma fresh_mailbox:
  "mailbox_u32 (init_mailbox em) 0 = MAILBOX_MAGIC" "mailbox_u16 (init_mailbox em) 4 = MAILBOX_ABI_VERSION"
  "mailbox_u16 (init_mailbox em) 6 = MAILBOX_SIZE" "mailbox_u32 (init_mailbox em) 8 = MAILBOX_FIRMWARE_VERSION"
  by (simp_all add: init_mailbox_def Let_def put_defs const_defs mem_simps)

lemma reload_decision_fresh:
  "reload_decision before after (init_mailbox em) = (if after \<noteq> before then ''skip'' else ''reload'')"
  by (simp add: reload_decision_def fresh_mailbox)

end
