(* ===== verification/Dual_Iss.thy ===== *)
theory Dual_Iss
  imports Lp_Emulator
begin

text \<open>
  \<open>tools/hcp2_lp_emu/dual_iss.py\<close>: two instruction-set simulators that share the LP SRAM, the
  request/response block of the supervisor, and the mailbox suite.  The supervisor's engine is the
  parameter \<open>hp\<close>; it sees its own RAM and the memory of the LP emulator.  Finding a compiler and
  building the supervisor image are not modelled.
\<close>

subsection \<open>The pair of simulators\<close>

record dual =
  du_lp :: emu
  du_hp_ram :: memory
  du_hp_instructions :: int

type_synonym hp_engine = "nat \<Rightarrow> dual \<Rightarrow> dual result"

definition HP_RAM_BASE :: int where [const_defs]: "HP_RAM_BASE = 0x40800000"
definition HP_RAM_SIZE :: int where [const_defs]: "HP_RAM_SIZE = 0x10000"
definition HP_CONTROL_ADDR :: int where [const_defs]: "HP_CONTROL_ADDR = HP_RAM_BASE"
definition HP_STACK_TOP :: int where [const_defs]: "HP_STACK_TOP = HP_RAM_BASE + HP_RAM_SIZE"

definition REQ_BEGIN_SESSION :: int where [const_defs]: "REQ_BEGIN_SESSION = 1"
definition REQ_PROBE_RELOAD :: int where [const_defs]: "REQ_PROBE_RELOAD = 2"
definition REQ_SEND_COMMAND :: int where [const_defs]: "REQ_SEND_COMMAND = 3"
definition REQ_ACK_RECEIVED :: int where [const_defs]: "REQ_ACK_RECEIVED = 4"
definition REQ_READ_STATE :: int where [const_defs]: "REQ_READ_STATE = 5"
definition REQ_ARM_STOP_TRIGGER :: int where [const_defs]: "REQ_ARM_STOP_TRIGGER = 6"

definition OFF_REQUEST :: int where [const_defs]: "OFF_REQUEST = 0"
definition OFF_RESPONSE :: int where [const_defs]: "OFF_RESPONSE = 4"
definition OFF_ARG0 :: int where [const_defs]: "OFF_ARG0 = 8"
definition OFF_ARG1 :: int where [const_defs]: "OFF_ARG1 = 12"
definition OFF_ARG2 :: int where [const_defs]: "OFF_ARG2 = 16"
definition OFF_RESULT0 :: int where [const_defs]: "OFF_RESULT0 = 20"
definition OFF_RESULT1 :: int where [const_defs]: "OFF_RESULT1 = 24"
definition OFF_RESULT2 :: int where [const_defs]: "OFF_RESULT2 = 28"
definition OFF_RESULT3 :: int where [const_defs]: "OFF_RESULT3 = 32"

definition RELOAD_REQUIRED :: int where [const_defs]: "RELOAD_REQUIRED = 0"
definition RELOAD_SKIP :: int where [const_defs]: "RELOAD_SKIP = 1"
definition COMMAND_OPEN :: int where [const_defs]: "COMMAND_OPEN = 1"
definition COMMAND_RESULT_EXECUTED :: int where [const_defs]: "COMMAND_RESULT_EXECUTED = 1"

definition OFF_HEARTBEAT :: int where [const_defs]: "OFF_HEARTBEAT = 12"
definition OFF_STATE_SEQ :: int where [const_defs]: "OFF_STATE_SEQ = 16"
definition OFF_TARGET_POSITION :: int where [const_defs]: "OFF_TARGET_POSITION = 20"
definition OFF_CURRENT_POSITION :: int where [const_defs]: "OFF_CURRENT_POSITION = 21"
definition OFF_STATE :: int where [const_defs]: "OFF_STATE = 22"
definition OFF_LIGHT_ON :: int where [const_defs]: "OFF_LIGHT_ON = 23"
definition OFF_STATE_UPDATED_US :: int where [const_defs]: "OFF_STATE_UPDATED_US = 24"
definition OFF_COMMAND_SEQUENCE :: int where [const_defs]: "OFF_COMMAND_SEQUENCE = 32"
definition OFF_COMMAND_ACK_SEQUENCE :: int where [const_defs]: "OFF_COMMAND_ACK_SEQUENCE = 36"
definition OFF_COMMAND_ID :: int where [const_defs]: "OFF_COMMAND_ID = 40"
definition OFF_COMMAND_ACK_RESULT :: int where [const_defs]: "OFF_COMMAND_ACK_RESULT = 42"
definition OFF_COMMAND_DEADLINE_US :: int where [const_defs]: "OFF_COMMAND_DEADLINE_US = 44"
definition OFF_LP_TIME_US :: int where [const_defs]: "OFF_LP_TIME_US = 48"
definition OFF_POLLS_SEEN :: int where [const_defs]: "OFF_POLLS_SEEN = 52"
definition OFF_POLLS_ANSWERED :: int where [const_defs]: "OFF_POLLS_ANSWERED = 56"
definition OFF_STOP_TRIGGER_ARMED :: int where [const_defs]: "OFF_STOP_TRIGGER_ARMED = 97"

definition read_hp_u32 :: "dual \<Rightarrow> int \<Rightarrow> int" where
  "read_hp_u32 d offset = read_u32 (du_hp_ram d) (HP_CONTROL_ADDR + offset)"

definition write_hp_u32 :: "int \<Rightarrow> int \<Rightarrow> dual \<Rightarrow> dual" where
  "write_hp_u32 offset v d = d\<lparr>du_hp_ram := write_u32 (HP_CONTROL_ADDR + offset) v (du_hp_ram d)\<rparr>"

definition upd_lp :: "(emu \<Rightarrow> emu) \<Rightarrow> dual \<Rightarrow> dual" where
  "upd_lp f d = d\<lparr>du_lp := f (du_lp d)\<rparr>"

definition lp_u32 :: "dual \<Rightarrow> int \<Rightarrow> int" where
  "lp_u32 d offset = mailbox_u32 (du_lp d) offset"

definition lp_u8 :: "dual \<Rightarrow> int \<Rightarrow> int" where
  "lp_u8 d offset = mailbox_u8 (du_lp d) offset"

fun load_hp_segments :: "elf_segment list \<Rightarrow> memory \<Rightarrow> memory result" where
  "load_hp_segments [] m = Inr m"
| "load_hp_segments (s # ss) m =
     (if \<not> sg_load s then load_hp_segments ss m
      else
        let addr = segment_addr s
        in if addr < HP_RAM_BASE \<or> HP_RAM_BASE + HP_RAM_SIZE < addr + sg_memsz s
           then Inl (RuntimeError ''HP PT_LOAD outside RAM'')
           else load_hp_segments ss
                  (write_bytes (addr + int (length (sg_data s)))
                     (replicate (nat (sg_memsz s - int (length (sg_data s)))) 0)
                     (write_bytes addr (sg_data s) m)))"

definition hp_run :: "hp_engine \<Rightarrow> nat \<Rightarrow> dual \<Rightarrow> dual result" where
  "hp_run hp budget d =
     (if budget = 0 then Inr d
      else case hp budget d of
             Inl e \<Rightarrow> Inl e
           | Inr d \<Rightarrow> Inr (d\<lparr>du_hp_instructions := du_hp_instructions d + int budget\<rparr>))"

definition lp_run :: "engine \<Rightarrow> nat \<Rightarrow> dual \<Rightarrow> dual result" where
  "lp_run lp budget d =
     (case run_emu lp budget (du_lp d) of Inl e \<Rightarrow> Inl e | Inr em \<Rightarrow> Inr (d\<lparr>du_lp := em\<rparr>))"

definition new_dual :: "hp_engine \<Rightarrow> elf_image \<Rightarrow> elf_image \<Rightarrow> dual result" where
  "new_dual hp lp_elf hp_elf =
     (case LPEmulator lp_elf (\<lambda>_. 0) of
        Inl e \<Rightarrow> Inl e
      | Inr em \<Rightarrow>
         (case load_hp_segments (elf_segments hp_elf) (\<lambda>_. 0) of
            Inl e \<Rightarrow> Inl e
          | Inr ram \<Rightarrow> hp_run hp 4096 \<lparr>du_lp = em, du_hp_ram = ram, du_hp_instructions = 0\<rparr>))"

subsection \<open>Requests\<close>

record hp_result =
  hr_response :: int
  hr_result0 :: int
  hr_result1 :: int
  hr_result2 :: int
  hr_result3 :: int

definition hp_request :: "int \<Rightarrow> int \<Rightarrow> int \<Rightarrow> int \<Rightarrow> dual \<Rightarrow> dual" where
  "hp_request request arg0 arg1 arg2 d =
     (let d = write_hp_u32 OFF_ARG0 arg0 d;
          d = write_hp_u32 OFF_ARG1 arg1 d;
          d = write_hp_u32 OFF_ARG2 arg2 d;
          d = write_hp_u32 OFF_RESULT0 0 d;
          d = write_hp_u32 OFF_RESULT1 0 d;
          d = write_hp_u32 OFF_RESULT2 0 d;
          d = write_hp_u32 OFF_RESULT3 0 d;
          d = write_hp_u32 OFF_RESPONSE 0 d
      in write_hp_u32 OFF_REQUEST request d)"

definition hp_response :: "dual \<Rightarrow> hp_result option" where
  "hp_response d =
     (let response = read_hp_u32 d OFF_RESPONSE
      in if response = 0 then None
         else Some \<lparr>hr_response = response, hr_result0 = read_hp_u32 d OFF_RESULT0,
                    hr_result1 = read_hp_u32 d OFF_RESULT1, hr_result2 = read_hp_u32 d OFF_RESULT2,
                    hr_result3 = read_hp_u32 d OFF_RESULT3\<rparr>)"

fun interleave :: "hp_engine \<Rightarrow> engine \<Rightarrow> int \<Rightarrow> nat \<Rightarrow> nat \<Rightarrow> nat \<Rightarrow> dual \<Rightarrow> (hp_result \<times> dual) result" where
  "interleave hp lp request hp_slice lp_slice 0 d = Inl (RuntimeError ''HP ISS request timed out'')"
| "interleave hp lp request hp_slice lp_slice (Suc rounds) d =
     (case hp_run hp hp_slice d of
        Inl e \<Rightarrow> Inl e
      | Inr d \<Rightarrow>
     (case lp_run lp lp_slice d of
        Inl e \<Rightarrow> Inl e
      | Inr d \<Rightarrow>
     (case hp_response d of
        None \<Rightarrow> interleave hp lp request hp_slice lp_slice rounds d
      | Some response \<Rightarrow>
          if hr_response response \<noteq> request then Inl (RuntimeError ''HP ISS response mismatch'')
          else Inr (response, d))))"

text \<open>\<open>slice_instructions\<close> is the slice of the supervisor, \<open>lp_slice\<close> that of the LP core.\<close>

definition run_interleaved_until_response ::
  "hp_engine \<Rightarrow> engine \<Rightarrow> int \<Rightarrow> int \<Rightarrow> int \<Rightarrow> int \<Rightarrow> nat \<Rightarrow> nat option \<Rightarrow> nat \<Rightarrow> dual \<Rightarrow> (hp_result \<times> dual) result"
where
  "run_interleaved_until_response hp lp request arg0 arg1 arg2 slice_instructions lp_slice rounds d =
     interleave hp lp request slice_instructions
       (case lp_slice of None \<Rightarrow> slice_instructions | Some n \<Rightarrow> n) rounds
       (hp_request request arg0 arg1 arg2 d)"

definition DEFAULT_ROUNDS :: nat where "DEFAULT_ROUNDS = 200000"

definition map_reply :: "(hp_result \<Rightarrow> 'a) \<Rightarrow> (hp_result \<times> dual) result \<Rightarrow> ('a \<times> dual) result" where
  "map_reply f r = (case r of Inl e \<Rightarrow> Inl e | Inr (x, d) \<Rightarrow> Inr (f x, d))"

definition dual_begin_session :: "hp_engine \<Rightarrow> engine \<Rightarrow> int \<Rightarrow> nat \<Rightarrow> dual \<Rightarrow> (int \<times> dual) result" where
  "dual_begin_session hp lp epoch slc d =
     map_reply hr_result0 (run_interleaved_until_response hp lp REQ_BEGIN_SESSION epoch 0 0 slc None DEFAULT_ROUNDS d)"

definition probe_reload ::
  "hp_engine \<Rightarrow> engine \<Rightarrow> int \<Rightarrow> int \<Rightarrow> int \<Rightarrow> nat \<Rightarrow> nat option \<Rightarrow> dual \<Rightarrow> (int \<times> dual) result"
where
  "probe_reload hp lp heartbeat_before heartbeat_after before_polls slc lp_slc d =
     map_reply hr_result0
       (run_interleaved_until_response hp lp REQ_PROBE_RELOAD heartbeat_before heartbeat_after before_polls
          slc lp_slc DEFAULT_ROUNDS d)"

definition send_command :: "hp_engine \<Rightarrow> engine \<Rightarrow> int \<Rightarrow> int \<Rightarrow> nat \<Rightarrow> dual \<Rightarrow> (int \<times> dual) result" where
  "send_command hp lp command_id argument slc d =
     map_reply hr_result0
       (run_interleaved_until_response hp lp REQ_SEND_COMMAND command_id argument 0 slc None DEFAULT_ROUNDS d)"

definition ack_received :: "hp_engine \<Rightarrow> engine \<Rightarrow> int \<Rightarrow> nat \<Rightarrow> dual \<Rightarrow> (bool \<times> dual) result" where
  "ack_received hp lp sequence slc d =
     map_reply (\<lambda>r. hr_result0 r = 1)
       (run_interleaved_until_response hp lp REQ_ACK_RECEIVED sequence 0 0 slc None DEFAULT_ROUNDS d)"

definition ack_result :: "hp_engine \<Rightarrow> engine \<Rightarrow> int \<Rightarrow> nat \<Rightarrow> dual \<Rightarrow> (int \<times> dual) result" where
  "ack_result hp lp sequence slc d =
     map_reply hr_result1
       (run_interleaved_until_response hp lp REQ_ACK_RECEIVED sequence 0 0 slc None DEFAULT_ROUNDS d)"

definition read_state :: "hp_engine \<Rightarrow> engine \<Rightarrow> nat \<Rightarrow> bool \<Rightarrow> dual \<Rightarrow> (hp_result \<times> dual) result" where
  "read_state hp lp slc interleave_lp d =
     run_interleaved_until_response hp lp REQ_READ_STATE 0 0 0 slc
       (Some (if interleave_lp then slc else 0)) DEFAULT_ROUNDS d"

definition arm_stop_trigger ::
  "hp_engine \<Rightarrow> engine \<Rightarrow> int \<Rightarrow> int \<Rightarrow> int \<Rightarrow> nat \<Rightarrow> dual \<Rightarrow> (bool \<times> dual) result"
where
  "arm_stop_trigger hp lp target_position now_us ttl_us slc d =
     map_reply (\<lambda>r. hr_result0 r = 1)
       (run_interleaved_until_response hp lp REQ_ARM_STOP_TRIGGER target_position now_us ttl_us slc None
          DEFAULT_ROUNDS d)"

fun run_lp_until :: "engine \<Rightarrow> (dual \<Rightarrow> bool) \<Rightarrow> nat \<Rightarrow> nat \<Rightarrow> dual \<Rightarrow> (bool \<times> dual) result" where
  "run_lp_until lp condition slc 0 d = Inr (condition d, d)"
| "run_lp_until lp condition slc (Suc rounds) d =
     (if condition d then Inr (True, d)
      else case lp_run lp slc d of Inl e \<Rightarrow> Inl e | Inr d \<Rightarrow> run_lp_until lp condition slc rounds d)"

definition inject_command :: "int \<Rightarrow> int \<Rightarrow> int \<Rightarrow> int \<Rightarrow> dual \<Rightarrow> dual" where
  "inject_command epoch sequence command_id argument d =
     (let d = upd_lp (put_u32 28 epoch) d;
          d = upd_lp (put_u8 40 command_id) d;
          d = upd_lp (put_u8 41 argument) d;
          d = upd_lp (put_u8 OFF_COMMAND_ACK_RESULT 0) d;
          d = upd_lp (put_u32 OFF_COMMAND_DEADLINE_US (lp_u32 d OFF_LP_TIME_US + 250000)) d
      in upd_lp (put_u32 32 sequence) d)"

subsection \<open>The mailbox suite\<close>

definition require :: "bool \<Rightarrow> string \<Rightarrow> dual \<Rightarrow> dual result" where
  "require condition message d = (if condition then Inr d else Inl (RuntimeError message))"

text \<open>A request whose result has to be the expected value.\<close>

definition expect :: "('a \<times> dual) result \<Rightarrow> ('a \<Rightarrow> bool) \<Rightarrow> string \<Rightarrow> dual result" where
  "expect r P message = and_then r (\<lambda>(x, d). require (P x) message d)"

definition check_heartbeat :: "hp_engine \<Rightarrow> engine \<Rightarrow> nat \<Rightarrow> dual \<Rightarrow> dual result" where
  "check_heartbeat hp lp slc d =
     (let before = lp_u32 d OFF_HEARTBEAT
      in and_then (lp_run lp 100000 d) (\<lambda>d.
         let after = lp_u32 d OFF_HEARTBEAT
         in and_then (require (before < after) ''LP heartbeat did not advance'' d) (\<lambda>d.
            and_then (expect (probe_reload hp lp before after 0 slc None d) (\<lambda>r. r = RELOAD_SKIP)
              ''healthy LP was not skipped'') (\<lambda>d.
            expect (probe_reload hp lp after after 0 slc None d) (\<lambda>r. r = RELOAD_REQUIRED)
              ''stale heartbeat did not require reload''))))"

definition put_polls :: "int \<Rightarrow> int \<Rightarrow> dual \<Rightarrow> dual" where
  "put_polls heartbeat_value polls d =
     upd_lp (put_u32 OFF_POLLS_ANSWERED polls \<circ> put_u32 OFF_POLLS_SEEN polls \<circ> put_u32 OFF_HEARTBEAT heartbeat_value) d"

definition check_polls :: "hp_engine \<Rightarrow> engine \<Rightarrow> nat \<Rightarrow> dual \<Rightarrow> dual result" where
  "check_polls hp lp slc d =
     and_then (expect (probe_reload hp lp 19 20 4 slc (Some 0) (put_polls 20 4 d)) (\<lambda>r. r = RELOAD_SKIP)
       ''stalled poll counter incorrectly required reload'') (\<lambda>d.
     expect (probe_reload hp lp 20 21 4 slc (Some 0) (put_polls 21 5 d)) (\<lambda>r. r = RELOAD_SKIP)
       ''advancing poll counters did not stay healthy'')"

definition put_state :: "dual \<Rightarrow> dual" where
  "put_state d =
     upd_lp (put_u32 OFF_STATE_SEQ 2 \<circ> put_u32 OFF_STATE_UPDATED_US 123456 \<circ> put_u8 OFF_LIGHT_ON 1 \<circ>
       put_u8 OFF_STATE 0x20 \<circ> put_u8 OFF_CURRENT_POSITION 100 \<circ> put_u8 OFF_TARGET_POSITION 200) d"

definition check_seqlock :: "hp_engine \<Rightarrow> engine \<Rightarrow> nat \<Rightarrow> dual \<Rightarrow> dual result" where
  "check_seqlock hp lp slc d =
     and_then (expect (read_state hp lp slc False (upd_lp (put_u32 OFF_STATE_SEQ 1) d)) (\<lambda>r. hr_result0 r = 0)
       ''torn state read succeeded'') (\<lambda>d.
     and_then (read_state hp lp slc False (put_state d)) (\<lambda>(state, d).
     and_then (require (hr_result0 state = 1) ''valid state read failed'' d) (\<lambda>d.
     and_then (require (hr_result1 state = 0x012064C8) ''state packing mismatch'' d) (\<lambda>d.
     require (hr_result2 state = 123456) ''state timestamp mismatch'' d))))"

definition check_session_cleared :: "dual \<Rightarrow> dual result" where
  "check_session_cleared d =
     and_then (require (lp_u32 d OFF_COMMAND_SEQUENCE = 0) ''pending command sequence was not cleared'' d) (\<lambda>d.
     and_then (require (lp_u32 d OFF_COMMAND_ACK_SEQUENCE = 0) ''pending command ack was not cleared'' d) (\<lambda>d.
     and_then (require (lp_u8 d OFF_COMMAND_ID = 0) ''pending command id was not cleared'' d) (\<lambda>d.
     and_then (require (lp_u8 d OFF_COMMAND_ACK_RESULT = 0) ''ack result was not cleared'' d) (\<lambda>d.
     require (lp_u8 d OFF_STOP_TRIGGER_ARMED = 0) ''stop trigger was not cleared'' d))))"

definition check_fresh_command :: "hp_engine \<Rightarrow> engine \<Rightarrow> nat \<Rightarrow> dual \<Rightarrow> dual result" where
  "check_fresh_command hp lp slc d =
     and_then (send_command hp lp COMMAND_OPEN 0 slc d) (\<lambda>(sequence, d).
     and_then (require (sequence = 1) ''first command sequence mismatch'' d) (\<lambda>d.
     and_then (expect (run_lp_until lp (\<lambda>d. lp_u32 d OFF_COMMAND_ACK_SEQUENCE = sequence) 4096 1000 d) (\<lambda>ok. ok)
       ''fresh command was not acknowledged by LP'') (\<lambda>d.
     and_then (expect (ack_received hp lp sequence slc d) (\<lambda>ok. ok) ''HP did not observe fresh command ack'') (\<lambda>d.
     expect (ack_result hp lp sequence slc d) (\<lambda>r. r = COMMAND_RESULT_EXECUTED)
       ''fresh command ack result was not executed''))))"

definition check_epoch :: "hp_engine \<Rightarrow> engine \<Rightarrow> nat \<Rightarrow> dual \<Rightarrow> dual result" where
  "check_epoch hp lp slc d =
     and_then (dual_begin_session hp lp 0x12340000 slc d) (\<lambda>(old_epoch, d).
     and_then (lp_run lp 50000 d) (\<lambda>d.
     and_then (dual_begin_session hp lp 0x56780000 slc (inject_command old_epoch 99 COMMAND_OPEN 0 d))
       (\<lambda>(new_epoch, d).
     and_then (require (new_epoch = 0x56780000) ''new epoch mismatch'' d) (\<lambda>d.
     and_then (check_session_cleared d) (\<lambda>d.
     and_then (lp_run lp 250000 d) (\<lambda>d.
     and_then (require (lp_u32 d OFF_COMMAND_ACK_SEQUENCE = 0) ''stale epoch command was acknowledged'' d) (\<lambda>d.
     check_fresh_command hp lp slc d)))))))"

definition check_stop_trigger :: "hp_engine \<Rightarrow> engine \<Rightarrow> nat \<Rightarrow> dual \<Rightarrow> dual result" where
  "check_stop_trigger hp lp slc d =
     and_then (expect (arm_stop_trigger hp lp 120 1000 30000000 slc (upd_lp (put_u32 OFF_LP_TIME_US 1000) d))
       (\<lambda>ok. ok) ''stop trigger arm failed'') (\<lambda>d.
     and_then (require (lp_u8 d OFF_STOP_TRIGGER_ARMED = 1) ''stop trigger not armed'' d) (\<lambda>d.
     and_then (expect (dual_begin_session hp lp 0x9ABC0000 slc d) (\<lambda>e. e = 0x9ABC0000) ''epoch change failed'')
       (\<lambda>d.
     require (lp_u8 d OFF_STOP_TRIGGER_ARMED = 0) ''epoch change did not clear stop trigger'' d)))"

definition dual_boot :: "engine \<Rightarrow> dual \<Rightarrow> dual result" where
  "dual_boot lp d = (case boot lp (du_lp d) of Inl e \<Rightarrow> Inl e | Inr em \<Rightarrow> Inr (d\<lparr>du_lp := em\<rparr>))"

definition run_mailbox_suite ::
  "hp_engine \<Rightarrow> engine \<Rightarrow> elf_image \<Rightarrow> elf_image \<Rightarrow> int \<Rightarrow> (string list \<times> dual) result"
where
  "run_mailbox_suite hp lp lp_elf hp_elf slc =
     (if slc < 1 then Inl (RuntimeError ''--interleave must be positive'')
      else
        let n = nat slc
        in and_then (new_dual hp lp_elf hp_elf) (\<lambda>d.
           and_then (dual_boot lp d) (\<lambda>d.
           and_then (check_heartbeat hp lp n d) (\<lambda>d.
           and_then (check_polls hp lp n d) (\<lambda>d.
           and_then (check_seqlock hp lp n d) (\<lambda>d.
           and_then (check_epoch hp lp n d) (\<lambda>d.
           and_then (check_stop_trigger hp lp n d) (\<lambda>d.
             Inr ([''heartbeat_reload_decision'', ''poll_counters_are_diagnostic'', ''state_seqlock'',
                   ''epoch_replay'', ''stop_trigger_epoch_clear''], d)))))))))"

subsection \<open>Facts\<close>

declare and_then_Inr [simp]

lemma request_clears_response: "hp_response (hp_request request a b c d) = None"
  by (simp add: hp_response_def hp_request_def read_hp_u32_def write_hp_u32_def const_defs mem_simps Let_def)

lemma interleave_response:
  "interleave hp lp request n k rounds d = Inr (r, d') \<Longrightarrow> hr_response r = request \<and> hp_response d' = Some r"
  by (induction rounds arbitrary: d) (auto split: sum.splits option.splits if_splits)

lemma expect_Inr: "expect r P msg = Inr d \<Longrightarrow> \<exists>x. r = Inr (x, d) \<and> P x"
  by (auto simp: expect_def require_def split: if_splits)


end
