(* ===== verification/Bridge_Config.thy ===== *)
theory Bridge_Config
  imports Prelude
begin

text \<open>
  \<open>components/hcp2bridge/__init__.py\<close>: the ESPHome configuration of the bridge, that is the backend
  defaults, the validators of the component's own section and of the final configuration, and the
  code generation as the list of calls it makes.  The ESPHome schema is third-party; what reaches the
  validators is a dictionary of YAML values to which it has added the defaults of its keys.
\<close>

subsection \<open>YAML values\<close>

datatype yval =
    Y_None
  | Y_Bool bool
  | Y_Int int
  | Y_Str string
  | Y_Us int
  | Y_Bytes bytes
  | Y_Dict "(string \<times> yval) list"
  | Y_List "yval list"

type_synonym conf = "string \<rightharpoonup> yval"

definition py_truth :: "yval \<Rightarrow> bool" where
  "py_truth v =
     (case v of
        Y_None \<Rightarrow> False
      | Y_Bool b \<Rightarrow> b
      | Y_Int n \<Rightarrow> n \<noteq> 0
      | Y_Str t \<Rightarrow> t \<noteq> []
      | Y_Us n \<Rightarrow> True
      | Y_Bytes bs \<Rightarrow> bs \<noteq> []
      | Y_Dict d \<Rightarrow> d \<noteq> []
      | Y_List xs \<Rightarrow> xs \<noteq> [])"

definition conf_get :: "conf \<Rightarrow> string \<Rightarrow> yval \<Rightarrow> yval" where
  "conf_get c key d = (case c key of None \<Rightarrow> d | Some v \<Rightarrow> v)"

text \<open>\<open>config.get(key, False)\<close> as a condition; also \<open>config[key]\<close> of a key with a schema default.\<close>

definition flag :: "conf \<Rightarrow> string \<Rightarrow> bool" where
  "flag c key = py_truth (conf_get c key (Y_Bool False))"

definition setdefault :: "string \<Rightarrow> yval \<Rightarrow> conf \<Rightarrow> conf" where
  "setdefault key v c = (if c key = None then c(key \<mapsto> v) else c)"

definition as_dict_value :: "yval \<Rightarrow> conf" where
  "as_dict_value v = (case v of Y_Dict d \<Rightarrow> map_of d | _ \<Rightarrow> Map.empty)"

subsection \<open>Backend defaults\<close>

definition BACKEND_ESP32C6_LP :: string where "BACKEND_ESP32C6_LP = ''esp32c6_lp''"
definition BACKEND_HP_FALLBACK :: string where "BACKEND_HP_FALLBACK = ''hp_fallback''"
definition BACKEND_ESP32_REALTIME :: string where "BACKEND_ESP32_REALTIME = ''esp32_realtime''"
definition BACKEND_ESP32C6_HP_REALTIME :: string where "BACKEND_ESP32C6_HP_REALTIME = ''esp32c6_hp_realtime''"
definition BACKEND_ESP32C6_HP_ASM_DMA :: string where "BACKEND_ESP32C6_HP_ASM_DMA = ''esp32c6_hp_asm_dma''"
definition RS485_MODE_DE_RE :: string where "RS485_MODE_DE_RE = ''de_re''"
definition RS485_MODE_AUTO_DIRECTION :: string where "RS485_MODE_AUTO_DIRECTION = ''auto_direction''"
definition RESTART_POLICY_NO_AUTO_RESTART :: string where "RESTART_POLICY_NO_AUTO_RESTART = ''no_auto_restart''"
definition RESTART_POLICY_AUTO_RESTART :: string where "RESTART_POLICY_AUTO_RESTART = ''auto_restart''"

lemmas backend_names =
  BACKEND_ESP32C6_LP_def BACKEND_HP_FALLBACK_def BACKEND_ESP32_REALTIME_def BACKEND_ESP32C6_HP_REALTIME_def
  BACKEND_ESP32C6_HP_ASM_DMA_def RS485_MODE_DE_RE_def RS485_MODE_AUTO_DIRECTION_def
  RESTART_POLICY_NO_AUTO_RESTART_def RESTART_POLICY_AUTO_RESTART_def

definition raw_backend :: "conf \<Rightarrow> yval" where
  "raw_backend c =
     (if flag c ''hp_fallback'' then Y_Str BACKEND_HP_FALLBACK
      else conf_get c ''backend'' (Y_Str BACKEND_ESP32C6_LP))"

definition default_pins :: "string \<Rightarrow> string \<Rightarrow> string \<Rightarrow> string \<Rightarrow> conf \<Rightarrow> conf" where
  "default_pins rx tx de re c =
     (let c = setdefault ''rx_pin'' (Y_Str rx) c;
          c = setdefault ''tx_pin'' (Y_Str tx) c
      in if c ''rs485_mode'' = Some (Y_Str RS485_MODE_DE_RE)
         then setdefault ''re_pin'' (Y_Str re) (setdefault ''de_pin'' (Y_Str de) c)
         else c)"

definition apply_backend_defaults :: "conf \<Rightarrow> conf" where
  "apply_backend_defaults c =
     (let backend = raw_backend c;
          c = setdefault ''backend'' backend c;
          c = setdefault ''rs485_mode'' (Y_Str RS485_MODE_DE_RE) c;
          c = setdefault ''restart_policy'' (Y_Str RESTART_POLICY_NO_AUTO_RESTART) c;
          c = (if backend = Y_Str BACKEND_ESP32_REALTIME
               then default_pins ''GPIO16'' ''GPIO17'' ''GPIO18'' ''GPIO19'' c else c)
      in if backend \<in> {Y_Str BACKEND_ESP32C6_HP_REALTIME, Y_Str BACKEND_ESP32C6_HP_ASM_DMA}
         then default_pins ''GPIO4'' ''GPIO5'' ''GPIO0'' ''GPIO1'' c else c)"

subsection \<open>Device signature\<close>

definition validate_signature :: "string \<Rightarrow> bytes result" where
  "validate_signature v =
     (let v = filter (\<lambda>c. c \<notin> {CHR '' '', CHR '':'', CHR ''-''}) v
      in if length v \<noteq> 20 then Inl (Invalid ''device_signature must contain exactly 10 bytes'')
         else case fromhex v of
                Some bs \<Rightarrow> Inr bs
              | None \<Rightarrow> Inl (Invalid ''device_signature must be hexadecimal''))"

subsection \<open>The component's own section\<close>

definition validate_esp_idf_framework :: "bool \<Rightarrow> conf \<Rightarrow> conf result" where
  "validate_esp_idf_framework using_arduino c =
     (if using_arduino then Inl (Invalid ''hcp2bridge requires the ESP-IDF framework'') else Inr c)"

text \<open>A validator is a sequence of guarded raises; the first guard that holds decides.\<close>

fun first_error :: "(bool \<times> string) list \<Rightarrow> unit result" where
  "first_error [] = Inr ()"
| "first_error ((bad, message) # checks) = (if bad then Inl (Invalid message) else first_error checks)"

lemma first_error_ok: "first_error checks = Inr () \<longleftrightarrow> (\<forall>(bad, message) \<in> set checks. \<not> bad)"
  by (induction checks rule: first_error.induct) auto

lemma first_error_append: "first_error (xs @ ys) = Inr () \<longleftrightarrow> first_error xs = Inr () \<and> first_error ys = Inr ()"
  by (auto simp: first_error_ok)

declare first_error.simps [simp del]

definition backend_of :: "conf \<Rightarrow> yval" where
  "backend_of c = conf_get c ''backend'' Y_None"

definition backend_is :: "conf \<Rightarrow> string \<Rightarrow> bool" where
  "backend_is c name \<longleftrightarrow> backend_of c = Y_Str name"

definition mode_is :: "conf \<Rightarrow> string \<Rightarrow> bool" where
  "mode_is c mode \<longleftrightarrow> conf_get c ''rs485_mode'' Y_None = Y_Str mode"

definition backend_checks :: "conf \<Rightarrow> (bool \<times> string) list" where
  "backend_checks c =
     (let realtime = backend_is c BACKEND_ESP32_REALTIME \<or> backend_is c BACKEND_ESP32C6_HP_REALTIME;
          c6_lp = backend_is c BACKEND_ESP32C6_LP \<or> backend_is c BACKEND_HP_FALLBACK;
          hp = backend_is c BACKEND_ESP32C6_HP_REALTIME; dma = backend_is c BACKEND_ESP32C6_HP_ASM_DMA;
          uart = flag c ''bench_enable_realtime_uart''; probe = flag c ''bench_enable_asm_dma_probe''
      in [(flag c ''hp_fallback'' \<and> \<not> backend_is c BACKEND_HP_FALLBACK,
             ''hp_fallback: true conflicts with backend; use backend: hp_fallback''),
          (\<not> realtime \<and> uart, ''bench_enable_realtime_uart is only valid with realtime HCP2 backends''),
          (hp \<and> \<not> uart, ''backend: esp32c6_hp_realtime requires bench_enable_realtime_uart: true''),
          (\<not> dma \<and> probe, ''bench_enable_asm_dma_probe is only valid with backend: esp32c6_hp_asm_dma''),
          (dma \<and> \<not> probe, ''backend: esp32c6_hp_asm_dma requires bench_enable_asm_dma_probe: true''),
          (c6_lp \<and> \<not> mode_is c RS485_MODE_DE_RE, ''requires rs485_mode: de_re'')] @
         map (\<lambda>key. ((c6_lp \<or> hp \<or> dma) \<and> c key = None, key @ '' is required for backend''))
           [''rx_pin'', ''tx_pin'', ''de_pin''] @
         [(mode_is c RS485_MODE_DE_RE \<and> (c ''de_pin'' = None \<or> c ''re_pin'' = None),
             ''rs485_mode: de_re requires both de_pin and re_pin'')])"

definition validate_backend_config :: "conf \<Rightarrow> conf result" where
  "validate_backend_config c =
     (case first_error (backend_checks c) of Inl e \<Rightarrow> Inl e | Inr _ \<Rightarrow> Inr c)"

subsection \<open>The final configuration\<close>

definition time_period_is_zero :: "yval \<Rightarrow> bool" where
  "time_period_is_zero v =
     (case v of
        Y_None \<Rightarrow> True
      | Y_Us n \<Rightarrow> n = 0
      | Y_Int n \<Rightarrow> n = 0
      | Y_Str t \<Rightarrow> t \<in> {''0'', ''0s'', ''0ms'', ''0us''}
      | _ \<Rightarrow> False)"

definition pin_number :: "yval option \<Rightarrow> int option" where
  "pin_number pin_config =
     (case pin_config of
        Some (Y_Dict d) \<Rightarrow>
          (case conf_get (map_of d) ''number'' Y_None of
             Y_Int n \<Rightarrow> Some n
           | Y_Bool b \<Rightarrow> Some (if b then 1 else 0)
           | Y_Str t \<Rightarrow> py_int t
           | _ \<Rightarrow> None)
      | Some (Y_Str t) \<Rightarrow>
          if py_startswith ''GPIO'' (py_upper t) then py_int (drop 4 (py_upper t)) else None
      | _ \<Rightarrow> None)"

definition full_config_list :: "conf \<Rightarrow> string \<Rightarrow> yval list" where
  "full_config_list full key =
     (case full key of
        None \<Rightarrow> []
      | Some Y_None \<Rightarrow> []
      | Some (Y_List xs) \<Rightarrow> xs
      | Some v \<Rightarrow> [v])"

definition validate_single_instance :: "conf \<Rightarrow> unit result" where
  "validate_single_instance full =
     (if 1 < length (full_config_list full ''hcp2bridge'')
      then Inl (Invalid ''hcp2bridge currently supports only one instance'') else Inr ())"

definition uart_num :: "conf \<Rightarrow> int" where
  "uart_num c = (case conf_get c ''uart_num'' (Y_Int 1) of Y_Int n \<Rightarrow> n | _ \<Rightarrow> 0)"

definition reboot_timeout_set :: "conf \<Rightarrow> string \<Rightarrow> bool" where
  "reboot_timeout_set full domain =
     (case full domain of
        Some (Y_Dict d) \<Rightarrow> \<not> time_period_is_zero (conf_get (map_of d) ''reboot_timeout'' Y_None)
      | _ \<Rightarrow> False)"

definition safe_mode_enabled :: "conf \<Rightarrow> bool" where
  "safe_mode_enabled full =
     (case full ''safe_mode'' of Some (Y_Dict d) \<Rightarrow> \<not> flag (map_of d) ''disabled'' | _ \<Rightarrow> False)"

definition is_restart_button :: "yval \<Rightarrow> bool" where
  "is_restart_button button =
     (case button of Y_Dict d \<Rightarrow> map_of d ''platform'' = Some (Y_Str ''restart'') | _ \<Rightarrow> False)"

text \<open>The checks all three high-power backends repeat: automatic restart, over-the-air updates, the
  sources of a reboot, and restart buttons.\<close>

definition restart_checks :: "string \<Rightarrow> conf \<Rightarrow> conf \<Rightarrow> (bool \<times> string) list" where
  "restart_checks backend c full =
     [(conf_get c ''restart_policy'' Y_None = Y_Str RESTART_POLICY_AUTO_RESTART \<and>
         \<not> flag c ''bench_allow_auto_restart'',
       ''restart_policy: auto_restart requires bench_allow_auto_restart: true''),
      (py_truth (conf_get full ''ota'' Y_None) \<and> \<not> flag c ''bench_allow_unsafe_ota'',
       ''backend: '' @ backend @ '' disables OTA by default; set bench_allow_unsafe_ota for bench-only tests'')] @
     map (\<lambda>domain. (\<not> flag c ''bench_allow_reboot_sources'' \<and> reboot_timeout_set full domain,
       ''backend: '' @ backend @ '' requires '' @ domain @ ''.reboot_timeout: 0s'')) [''api'', ''wifi''] @
     [(\<not> flag c ''bench_allow_reboot_sources'' \<and> safe_mode_enabled full,
       ''backend: '' @ backend @ '' requires safe_mode.disabled: true''),
      (\<not> flag c ''bench_allow_destructive_debug_actions'' \<and>
         list_ex is_restart_button (full_config_list full ''button''),
       ''backend: '' @ backend @ '' rejects restart buttons by default'')]"

definition framework_is_idf :: "conf \<Rightarrow> bool" where
  "framework_is_idf esp32_config \<longleftrightarrow>
     as_dict_value (conf_get esp32_config ''framework'' (Y_Dict [])) ''type'' = Some (Y_Str ''esp-idf'')"

definition unicore :: "conf \<Rightarrow> bool" where
  "unicore esp32_config =
     (let framework = as_dict_value (conf_get esp32_config ''framework'' (Y_Dict []));
          sdkconfig = as_dict_value (conf_get framework ''sdkconfig_options'' (Y_Dict []))
      in case conf_get sdkconfig ''CONFIG_FREERTOS_UNICORE'' (Y_Str []) of
           Y_Str t \<Rightarrow> py_lower t \<in> {''1'', ''true'', ''yes'', ''y''}
         | Y_Bool b \<Rightarrow> b
         | Y_Int n \<Rightarrow> n = 1
         | _ \<Rightarrow> False)"

definition risky_pins :: "int set" where
  "risky_pins = {0, 1, 2, 3, 5, 12, 15}"

definition variant_is :: "conf \<Rightarrow> string \<Rightarrow> bool" where
  "variant_is esp32_config v \<longleftrightarrow> esp32_config ''variant'' = Some (Y_Str v)"

definition esp32_realtime_checks :: "conf \<Rightarrow> conf \<Rightarrow> conf \<Rightarrow> (bool \<times> string) list" where
  "esp32_realtime_checks c full esp32_config =
     [(\<not> variant_is esp32_config ''ESP32'', ''backend: esp32_realtime requires variant: ESP32''),
      (\<not> framework_is_idf esp32_config, ''backend: esp32_realtime requires the ESP-IDF framework''),
      (unicore esp32_config,
       ''backend: esp32_realtime requires dual-core FreeRTOS; CONFIG_FREERTOS_UNICORE is unsupported''),
      (c ''esp32_realtime_board_profile'' = None,
       ''backend: esp32_realtime requires esp32_realtime_board_profile''),
      (full ''psram'' \<noteq> None, ''backend: esp32_realtime supports ESP32-WROOM/no-PSRAM boards only''),
      (uart_num c = 0 \<and> \<not> flag c ''bench_allow_uart0'',
       ''backend: esp32_realtime must not use UART0 unless bench_allow_uart0 is true'')] @
     restart_checks BACKEND_ESP32_REALTIME c full @
     map (\<lambda>key. (\<not> flag c ''bench_allow_pin_conflicts'' \<and>
                  (case pin_number (c key) of None \<Rightarrow> False | Some n \<Rightarrow> n \<in> risky_pins),
                 ''backend: esp32_realtime pin is boot/UART0 sensitive: '' @ key))
       [''rx_pin'', ''tx_pin'', ''de_pin'', ''re_pin'']"

definition hp_checks :: "string \<Rightarrow> conf \<Rightarrow> conf \<Rightarrow> conf \<Rightarrow> (bool \<times> string) list" where
  "hp_checks backend c full esp32_config =
     [(\<not> variant_is esp32_config ''ESP32C6'', ''backend: '' @ backend @ '' requires variant: ESP32C6''),
      (\<not> framework_is_idf esp32_config, ''backend: '' @ backend @ '' requires the ESP-IDF framework''),
      (2 \<le> uart_num c,
       ''backend: '' @ backend @ '' requires HP UART0 or UART1; UART2 is the 16-byte LP-UART''),
      (uart_num c = 0 \<and> \<not> flag c ''bench_allow_uart0'',
       ''backend: '' @ backend @ '' must not use UART0 unless bench_allow_uart0 is true'')] @
     restart_checks backend c full"

definition validate_esp32_realtime_final :: "conf \<Rightarrow> conf \<Rightarrow> conf \<Rightarrow> unit result" where
  "validate_esp32_realtime_final c full esp32_config = first_error (esp32_realtime_checks c full esp32_config)"

definition validate_esp32c6_hp_realtime_final :: "conf \<Rightarrow> conf \<Rightarrow> conf \<Rightarrow> unit result" where
  "validate_esp32c6_hp_realtime_final c full esp32_config =
     first_error (hp_checks BACKEND_ESP32C6_HP_REALTIME c full esp32_config)"

definition validate_esp32c6_hp_asm_dma_final :: "conf \<Rightarrow> conf \<Rightarrow> conf \<Rightarrow> unit result" where
  "validate_esp32c6_hp_asm_dma_final c full esp32_config =
     first_error (hp_checks BACKEND_ESP32C6_HP_ASM_DMA c full esp32_config)"

definition final_validate_schema :: "conf \<Rightarrow> conf \<Rightarrow> unit result" where
  "final_validate_schema c full =
     (case validate_single_instance full of
        Inl e \<Rightarrow> Inl e
      | Inr _ \<Rightarrow>
          let esp32_config = as_dict_value (conf_get full ''esp32'' (Y_Dict []))
          in if backend_is c BACKEND_ESP32C6_LP then
               (if \<not> variant_is esp32_config ''ESP32C6''
                then Inl (Invalid ''backend: esp32c6_lp requires variant: ESP32C6'') else Inr ())
             else if backend_is c BACKEND_HP_FALLBACK then
               (if \<not> variant_is esp32_config ''ESP32C6''
                then Inl (Invalid ''backend: hp_fallback currently requires variant: ESP32C6'') else Inr ())
             else if backend_is c BACKEND_ESP32_REALTIME then validate_esp32_realtime_final c full esp32_config
             else if backend_is c BACKEND_ESP32C6_HP_REALTIME
             then validate_esp32c6_hp_realtime_final c full esp32_config
             else if backend_is c BACKEND_ESP32C6_HP_ASM_DMA
             then validate_esp32c6_hp_asm_dma_final c full esp32_config
             else Inl (Invalid ''unsupported hcp2bridge backend''))"

end
