(* ===== verification/Bridge_Config_Props.thy ===== *)
theory Bridge_Config_Props
  imports Bridge_Config
begin

text \<open>
  What the configuration code guarantees: the defaults never override the user, are stable and complete,
  and a configuration the final validator accepts without bench options cannot restart the device by itself.
\<close>

subsection \<open>Defaults\<close>

lemma setdefault_keeps: "c key = Some v \<Longrightarrow> setdefault key' w c key = Some v"
  by (auto simp: setdefault_def)

lemma setdefault_other [simp]: "key \<noteq> key' \<Longrightarrow> setdefault key' w c key = c key"
  by (simp add: setdefault_def)

lemma setdefault_same [simp]: "setdefault key w c key = Some (case c key of None \<Rightarrow> w | Some v \<Rightarrow> v)"
  by (simp add: setdefault_def split: option.split)

lemma setdefault_present: "c key \<noteq> None \<Longrightarrow> setdefault key w c = c"
  by (auto simp: setdefault_def)

lemma default_pins_keeps: "c key = Some v \<Longrightarrow> default_pins rx tx de re c key = Some v"
  by (simp add: default_pins_def Let_def setdefault_keeps)

lemma default_pins_other:
  "key \<notin> {''rx_pin'', ''tx_pin'', ''de_pin'', ''re_pin''} \<Longrightarrow> default_pins rx tx de re c key = c key"
  by (simp add: default_pins_def Let_def)

lemma default_pins_set:
  "default_pins rx tx de re c ''rx_pin'' \<noteq> None" "default_pins rx tx de re c ''tx_pin'' \<noteq> None"
  "c ''rs485_mode'' = Some (Y_Str RS485_MODE_DE_RE) \<Longrightarrow>
     default_pins rx tx de re c ''de_pin'' \<noteq> None \<and> default_pins rx tx de re c ''re_pin'' \<noteq> None"
  by (simp_all add: default_pins_def Let_def setdefault_def)

lemma default_pins_idem: "default_pins rx tx de re (default_pins rx tx de re c) = default_pins rx tx de re c"
proof -
  let ?d = "default_pins rx tx de re c"
  have "?d ''rs485_mode'' = c ''rs485_mode''" by (simp add: default_pins_other)
  then show ?thesis
    using default_pins_set [where c = c and rx = rx and tx = tx and de = de and re = re]
    by (subst default_pins_def) (auto simp: Let_def setdefault_present)
qed

definition realtime_names :: "yval set" where
  "realtime_names =
     {Y_Str BACKEND_ESP32_REALTIME, Y_Str BACKEND_ESP32C6_HP_REALTIME, Y_Str BACKEND_ESP32C6_HP_ASM_DMA}"

abbreviation base_defaults :: "conf \<Rightarrow> conf" where
  "base_defaults c \<equiv>
     setdefault ''restart_policy'' (Y_Str RESTART_POLICY_NO_AUTO_RESTART)
       (setdefault ''rs485_mode'' (Y_Str RS485_MODE_DE_RE) (setdefault ''backend'' (raw_backend c) c))"

lemma apply_backend_defaults_cases:
  "\<exists>f. (\<forall>c'. raw_backend c' = raw_backend c \<longrightarrow> apply_backend_defaults c' = f (base_defaults c')) \<and>
    (f = id \<and> raw_backend c \<notin> realtime_names \<or> (\<exists>rx tx de re. f = default_pins rx tx de re))"
proof -
  define f where "f =
    (if raw_backend c = Y_Str BACKEND_ESP32_REALTIME then default_pins ''GPIO16'' ''GPIO17'' ''GPIO18'' ''GPIO19''
     else if raw_backend c \<in> {Y_Str BACKEND_ESP32C6_HP_REALTIME, Y_Str BACKEND_ESP32C6_HP_ASM_DMA}
     then default_pins ''GPIO4'' ''GPIO5'' ''GPIO0'' ''GPIO1'' else id)"
  have distinct: "BACKEND_ESP32_REALTIME \<noteq> BACKEND_ESP32C6_HP_REALTIME"
      "BACKEND_ESP32_REALTIME \<noteq> BACKEND_ESP32C6_HP_ASM_DMA"
    by (simp_all add: backend_names)
  have "apply_backend_defaults c' = f (base_defaults c')" if "raw_backend c' = raw_backend c" for c'
    unfolding apply_backend_defaults_def Let_def f_def that using distinct by auto
  moreover have "f = id \<and> raw_backend c \<notin> realtime_names \<or> (\<exists>rx tx de re. f = default_pins rx tx de re)"
    unfolding f_def realtime_names_def by auto
  ultimately show ?thesis by blast
qed

lemma defaults_keep:
  assumes "c key = Some v"
  shows "apply_backend_defaults c key = Some v"
proof -
  obtain f where f: "apply_backend_defaults c = f (base_defaults c)"
      "f = id \<and> raw_backend c \<notin> realtime_names \<or> (\<exists>rx tx de re. f = default_pins rx tx de re)"
    using apply_backend_defaults_cases [of c] by metis
  have "base_defaults c key = Some v" using assms by (simp add: setdefault_keeps)
  then show ?thesis using f by (auto simp: default_pins_keeps)
qed

lemma defaults_other:
  assumes "key \<notin> {''rx_pin'', ''tx_pin'', ''de_pin'', ''re_pin''}"
  shows "apply_backend_defaults c key = base_defaults c key"
proof -
  obtain f where f: "apply_backend_defaults c = f (base_defaults c)"
      "f = id \<and> raw_backend c \<notin> realtime_names \<or> (\<exists>rx tx de re. f = default_pins rx tx de re)"
    using apply_backend_defaults_cases [of c] by metis
  then show ?thesis using assms default_pins_other [OF assms] by auto
qed

lemma defaults_present:
  "apply_backend_defaults c ''backend'' = Some (case c ''backend'' of None \<Rightarrow> raw_backend c | Some v \<Rightarrow> v)"
  "apply_backend_defaults c ''rs485_mode'' =
     Some (case c ''rs485_mode'' of None \<Rightarrow> Y_Str RS485_MODE_DE_RE | Some v \<Rightarrow> v)"
  "apply_backend_defaults c ''restart_policy'' \<noteq> None"
  by (simp_all add: defaults_other)

lemma raw_backend_defaults: "raw_backend (apply_backend_defaults c) = raw_backend c"
proof -
  have "flag (apply_backend_defaults c) ''hp_fallback'' = flag c ''hp_fallback''"
    by (simp add: flag_def conf_get_def defaults_other)
  then show ?thesis
    by (simp add: raw_backend_def conf_get_def defaults_present split: option.split)
qed

lemma defaults_idem: "apply_backend_defaults (apply_backend_defaults c) = apply_backend_defaults c"
proof -
  let ?d = "apply_backend_defaults c"
  have base: "base_defaults ?d = ?d"
    using defaults_present by (simp add: setdefault_present)
  obtain f where f: "\<And>c'. raw_backend c' = raw_backend c \<Longrightarrow> apply_backend_defaults c' = f (base_defaults c')"
      and form: "f = id \<and> raw_backend c \<notin> realtime_names \<or> (\<exists>rx tx de re. f = default_pins rx tx de re)"
    using apply_backend_defaults_cases [of c] by blast
  have "f (f x) = f x" for x
    using form by (auto simp: default_pins_idem)
  then show ?thesis
    using f [of c] f [OF raw_backend_defaults] unfolding base by simp
qed

lemma defaults_pins:
  assumes "raw_backend c \<in> realtime_names" and "mode_is (apply_backend_defaults c) RS485_MODE_DE_RE"
  shows "apply_backend_defaults c ''rx_pin'' \<noteq> None" "apply_backend_defaults c ''tx_pin'' \<noteq> None"
    "apply_backend_defaults c ''de_pin'' \<noteq> None" "apply_backend_defaults c ''re_pin'' \<noteq> None"
proof -
  obtain rx tx de re where f: "apply_backend_defaults c = default_pins rx tx de re (base_defaults c)"
    using apply_backend_defaults_cases [of c] assms(1) by metis
  have "base_defaults c ''rs485_mode'' = apply_backend_defaults c ''rs485_mode''"
    by (simp add: defaults_other)
  then have "base_defaults c ''rs485_mode'' = Some (Y_Str RS485_MODE_DE_RE)"
    using assms(2) by (simp add: mode_is_def conf_get_def defaults_present)
  then show "apply_backend_defaults c ''rx_pin'' \<noteq> None" "apply_backend_defaults c ''tx_pin'' \<noteq> None"
    "apply_backend_defaults c ''de_pin'' \<noteq> None" "apply_backend_defaults c ''re_pin'' \<noteq> None"
    unfolding f using default_pins_set by blast+
qed

text \<open>The backend defaults never change a key the user has set and are idempotent; and a configuration that only
  names the backend esp32_realtime (no transceiver mode, no fallback and no bench option for another backend) passes
  the backend validation with them.\<close>

theorem backend_defaults_conservative:
  "apply_backend_defaults (apply_backend_defaults c) = apply_backend_defaults c \<and>
   c \<subseteq>\<^sub>m apply_backend_defaults c \<and>
   (raw_backend c \<noteq> Y_Str BACKEND_ESP32_REALTIME \<or> c ''rs485_mode'' \<noteq> None \<or> flag c ''bench_enable_asm_dma_probe'' \<or>
    validate_backend_config (apply_backend_defaults c) = Inr (apply_backend_defaults c))"
proof -
  let ?d = "apply_backend_defaults c"
  have "validate_backend_config ?d = Inr ?d"
    if raw: "raw_backend c = Y_Str BACKEND_ESP32_REALTIME" and mode: "c ''rs485_mode'' = None"
      and probe: "\<not> flag c ''bench_enable_asm_dma_probe''"
  proof -
    have no_fallback: "\<not> flag c ''hp_fallback''"
      using raw by (auto simp: raw_backend_def backend_names)
    have backend: "backend_of ?d = Y_Str BACKEND_ESP32_REALTIME"
      using raw no_fallback by (simp add: backend_of_def conf_get_def defaults_present raw_backend_def split: option.splits)
    have dere: "mode_is ?d RS485_MODE_DE_RE"
      using mode by (simp add: mode_is_def conf_get_def defaults_present)
    have flags: "\<not> flag ?d ''hp_fallback''" "\<not> flag ?d ''bench_enable_asm_dma_probe''"
      using no_fallback probe by (simp_all add: flag_def conf_get_def defaults_other)
    have pins: "?d ''de_pin'' \<noteq> None" "?d ''re_pin'' \<noteq> None"
      using defaults_pins [OF _ dere] raw by (simp_all add: realtime_names_def)
    have "first_error (backend_checks ?d) = Inr ()"
      unfolding first_error_ok backend_checks_def Let_def
      using backend dere flags pins by (simp add: backend_is_def backend_names)
    then show ?thesis by (simp add: validate_backend_config_def)
  qed
  then show ?thesis
    using defaults_idem [of c] defaults_keep [of c] by (auto simp: map_le_def dom_def)
qed

theorem backend_defaults_conservative_witness:
  "validate_backend_config (apply_backend_defaults [''backend'' \<mapsto> Y_Str BACKEND_ESP32_REALTIME]) =
     Inr (apply_backend_defaults [''backend'' \<mapsto> Y_Str BACKEND_ESP32_REALTIME])"
proof -
  have "raw_backend [''backend'' \<mapsto> Y_Str BACKEND_ESP32_REALTIME] = Y_Str BACKEND_ESP32_REALTIME"
    by (simp add: raw_backend_def flag_def conf_get_def py_truth_def)
  moreover have "\<not> flag [''backend'' \<mapsto> Y_Str BACKEND_ESP32_REALTIME] ''bench_enable_asm_dma_probe''"
    by (simp add: flag_def conf_get_def py_truth_def)
  ultimately show ?thesis
    using backend_defaults_conservative [of "[''backend'' \<mapsto> Y_Str BACKEND_ESP32_REALTIME]"] by simp
qed

subsection \<open>Signatures\<close>

text \<open>The two digits of a byte, as the device prints its signature.\<close>

definition hex_byte :: "byte \<Rightarrow> string" where
  "hex_byte b = [hex_digit (unat b div 16), hex_digit (unat b mod 16)]"

lemma hex_digit_plain: "n < 16 \<Longrightarrow> hex_digit n \<notin> {CHR '' '', CHR '':'', CHR ''-''} \<and> \<not> hex_space (hex_digit n)"
proof -
  assume n: "n < 16"
  have "hex_value CHR '' '' = None" "hex_value CHR '':'' = None" "hex_value CHR ''-'' = None"
    by (simp_all add: hex_value_def Let_def)
  moreover have "hex_value c = None" if "hex_space c" for c
    using that by (auto simp: hex_space_def hex_value_def Let_def)
  ultimately show ?thesis using hex_value_digit [OF n] by auto
qed

lemma unat_byte_lt: "unat (b :: byte) < 256"
  using unsigned_less [of b] by simp

lemma fromhex_bytes: "fromhex (concat (map hex_byte bs)) = Some bs"
proof (induction bs)
  case (Cons b bs)
  have "unat b div 16 < 16" using unat_byte_lt [of b] by simp
  moreover have "unat b mod 16 < 16" by simp
  moreover have "of_nat (16 * (unat b div 16) + unat b mod 16) = b" by simp
  ultimately show ?case
    using Cons hex_digit_plain hex_value_digit by (simp add: hex_byte_def)
qed simp

lemma filter_hex_bytes:
  "filter (\<lambda>c. c \<notin> {CHR '' '', CHR '':'', CHR ''-''}) (concat (map hex_byte bs)) = concat (map hex_byte bs)"
proof (induction bs)
  case (Cons b bs)
  have "unat b div 16 < 16" "unat b mod 16 < 16" using unat_byte_lt [of b] by simp_all
  then show ?case using Cons hex_digit_plain by (simp add: hex_byte_def)
qed simp

lemma length_hex_bytes: "length (concat (map hex_byte bs)) = 2 * length bs"
  by (induction bs) (simp_all add: hex_byte_def)

lemma fromhex_length: "fromhex v = Some bs \<Longrightarrow> 2 * length bs \<le> length v"
  by (induction v arbitrary: bs rule: fromhex.induct) (fastforce split: if_splits option.splits)+

text \<open>Every ten-byte signature written as twenty hexadecimal digits is read back as it is; any other number of
  bytes so written is refused; and no accepted text gives more than ten bytes.\<close>

lemma signature_roundtrip:
  "validate_signature (concat (map hex_byte bs)) =
     (if length bs = 10 then Inr bs else Inl (Invalid ''device_signature must contain exactly 10 bytes'')) \<and>
   (case validate_signature v of Inl e \<Rightarrow> True | Inr xs \<Rightarrow> length xs \<le> 10)"
proof -
  have "length xs \<le> 10" if "validate_signature v = Inr xs" for xs
  proof -
    let ?w = "filter (\<lambda>c. c \<notin> {CHR '' '', CHR '':'', CHR ''-''}) v"
    have "length ?w = 20" "fromhex ?w = Some xs"
      using that unfolding validate_signature_def Let_def by (simp_all split: if_splits option.splits)
    then show ?thesis using fromhex_length [of ?w xs] by simp
  qed
  moreover have "validate_signature (concat (map hex_byte bs)) =
      (if length bs = 10 then Inr bs else Inl (Invalid ''device_signature must contain exactly 10 bytes''))"
    unfolding validate_signature_def Let_def filter_hex_bytes length_hex_bytes fromhex_bytes by simp
  ultimately show ?thesis by (simp split: sum.split)
qed

text \<open>The length test counts characters, but \<open>bytes.fromhex\<close> skips white space: two tabs between the
  pairs make twenty characters of nine bytes.\<close>

definition tabbed_signature :: string where
  "tabbed_signature = ''00'' @ [CHR 0x09, CHR 0x09] @ ''0002050430100000''"

lemma signature_of_nine_bytes:
  "validate_signature tabbed_signature = Inr [0x00, 0x00, 0x02, 0x05, 0x04, 0x30, 0x10, 0x00, 0x00]"
  by (simp add: validate_signature_def tabbed_signature_def hex_space_def hex_value_def Let_def)

subsection \<open>The final configuration\<close>

lemma checks_ok: "first_error checks = Inr () \<Longrightarrow> (bad, message) \<in> set checks \<Longrightarrow> \<not> bad"
  by (auto simp: first_error_ok)

lemma restart_checks_ok:
  assumes "first_error (restart_checks backend c full) = Inr ()"
  shows "conf_get c ''restart_policy'' Y_None \<noteq> Y_Str RESTART_POLICY_AUTO_RESTART \<or> flag c ''bench_allow_auto_restart''"
    and "\<not> py_truth (conf_get full ''ota'' Y_None) \<or> flag c ''bench_allow_unsafe_ota''"
    and "\<not> reboot_timeout_set full ''api'' \<and> \<not> reboot_timeout_set full ''wifi'' \<and> \<not> safe_mode_enabled full \<or>
         flag c ''bench_allow_reboot_sources''"
    and "\<not> list_ex is_restart_button (full_config_list full ''button'') \<or>
         flag c ''bench_allow_destructive_debug_actions''"
  using assms by (auto simp: first_error_ok restart_checks_def)

text \<open>No bench option that opens a way to restart the device is set.\<close>

definition no_bench_restart :: "conf \<Rightarrow> bool" where
  "no_bench_restart c \<longleftrightarrow>
     \<not> flag c ''bench_allow_auto_restart'' \<and> \<not> flag c ''bench_allow_unsafe_ota'' \<and>
     \<not> flag c ''bench_allow_reboot_sources'' \<and> \<not> flag c ''bench_allow_destructive_debug_actions'' \<and>
     \<not> flag c ''bench_allow_uart0''"

lemma final_realtime_checks:
  assumes "final_validate_schema c full = Inr ()" and "backend_of c \<in> realtime_names"
  shows "\<exists>backend. first_error (restart_checks backend c full) = Inr ()"
    and "uart_num c = 0 \<Longrightarrow> flag c ''bench_allow_uart0''"
    and "backend_of c = Y_Str BACKEND_ESP32_REALTIME \<Longrightarrow> \<not> flag c ''bench_allow_pin_conflicts'' \<Longrightarrow>
      list_all (\<lambda>key. case pin_number (c key) of None \<Rightarrow> True | Some n \<Rightarrow> n \<notin> risky_pins)
        [''rx_pin'', ''tx_pin'', ''de_pin'', ''re_pin'']"
    and "length (full_config_list full ''hcp2bridge'') \<le> 1"
proof -
  let ?esp = "as_dict_value (conf_get full ''esp32'' (Y_Dict []))"
  show "length (full_config_list full ''hcp2bridge'') \<le> 1"
    using assms(1) by (auto simp: final_validate_schema_def validate_single_instance_def split: if_splits)
  consider (r) "backend_of c = Y_Str BACKEND_ESP32_REALTIME" | (h) "backend_of c = Y_Str BACKEND_ESP32C6_HP_REALTIME"
    | (d) "backend_of c = Y_Str BACKEND_ESP32C6_HP_ASM_DMA"
    using assms(2) by (auto simp: realtime_names_def)
  then have checks: "\<exists>backend. first_error (hp_checks backend c full ?esp) = Inr () \<and>
        backend_of c \<noteq> Y_Str BACKEND_ESP32_REALTIME \<or>
      first_error (esp32_realtime_checks c full ?esp) = Inr ()"
  proof cases
    case r
    then show ?thesis
      using assms(1) by (simp add: final_validate_schema_def backend_is_def backend_names Let_def
          validate_esp32_realtime_final_def split: sum.splits)
  next
    case h
    then have "first_error (hp_checks BACKEND_ESP32C6_HP_REALTIME c full ?esp) = Inr ()"
      using assms(1) by (simp add: final_validate_schema_def backend_is_def backend_names Let_def
          validate_esp32c6_hp_realtime_final_def split: sum.splits)
    then show ?thesis using h by (auto simp: backend_names)
  next
    case d
    then have "first_error (hp_checks BACKEND_ESP32C6_HP_ASM_DMA c full ?esp) = Inr ()"
      using assms(1) by (simp add: final_validate_schema_def backend_is_def backend_names Let_def
          validate_esp32c6_hp_asm_dma_final_def split: sum.splits)
    then show ?thesis using d by (auto simp: backend_names)
  qed
  then show "\<exists>backend. first_error (restart_checks backend c full) = Inr ()"
    unfolding hp_checks_def esp32_realtime_checks_def first_error_append by blast
  show "uart_num c = 0 \<Longrightarrow> flag c ''bench_allow_uart0''"
    using checks by (auto simp: hp_checks_def esp32_realtime_checks_def first_error_ok)
  show "list_all (\<lambda>key. case pin_number (c key) of None \<Rightarrow> True | Some n \<Rightarrow> n \<notin> risky_pins)
        [''rx_pin'', ''tx_pin'', ''de_pin'', ''re_pin'']"
    if "backend_of c = Y_Str BACKEND_ESP32_REALTIME" "\<not> flag c ''bench_allow_pin_conflicts''"
    using checks that by (auto simp: esp32_realtime_checks_def first_error_ok split: option.splits)
qed


definition example_conf :: conf where
  "example_conf = [''backend'' \<mapsto> Y_Str ''esp32c6_hp_asm_dma'', ''uart_num'' \<mapsto> Y_Int 1]"

definition example_full :: conf where
  "example_full = [''esp32'' \<mapsto> Y_Dict [(''variant'', Y_Str ''ESP32C6''),
     (''framework'', Y_Dict [(''type'', Y_Str ''esp-idf'')])], ''api'' \<mapsto> Y_Dict [(''reboot_timeout'', Y_Us 0)]]"


end
