(* ===== verification/Hil_Commands.thy ===== *)
theory Hil_Commands
  imports Simulator
begin

text \<open>
  \<open>tools/hcp2_hil_load.py\<close>, the commands of a run: the arguments, the load commands of the presets, the mapping
  of buttons to ESPHome objects, the API key, the command mode, and the two senders of button presses.  The
  \<open>aioesphomeapi\<close> client is third-party: the entities it lists and the outcome of its calls are parameters.
\<close>

subsection \<open>Arguments\<close>

record hil_args =
  ha_serial :: string
  ha_cycles :: int
  ha_duration_hours :: "rat option"
  ha_repeat :: int
  ha_settle_s :: rat
  ha_speed_factor :: rat
  ha_missed_poll_threshold :: int
  ha_preset :: string
  ha_esp_host :: "string option"
  ha_esp_api_port :: int
  ha_esp_http_port :: int
  ha_health_check :: string
  ha_esp_api_key :: "string option"
  ha_api_key_secret :: string
  ha_esp_expected_name :: "string option"
  ha_esp_cover_object_id :: "string option"
  ha_esp_button_object_id :: "string list"
  ha_command_mode :: string
  ha_fault :: "string list"
  ha_fault_every_cycles :: int
  ha_fault_cycle :: "int list"
  ha_command :: "string option"
  ha_scenario :: string
  ha_door_travel_cycles :: int
  ha_reverse_profile :: string
  ha_reverse_dwell_cycles :: int
  ha_stop_latency_cycles :: int
  ha_overshoot_raw_ticks :: int
  ha_half_position_raw :: int
  ha_vent_position_raw :: int
  ha_goto_position_raw :: int
  ha_obstruction_cycle :: "int option"
  ha_obstruction_no_reverse :: bool
  ha_speculative_obstruction_flags :: bool
  ha_expect_button :: "string list"
  ha_pre_command :: "string list"
  ha_load_command :: "string list"
  ha_post_command :: "string list"
  ha_progress_interval_s :: rat
  ha_abort_on_miss :: bool
  ha_process_nice :: int
  ha_cpu_affinity :: "string option"
  ha_la_input :: "string option"
  ha_la_channels :: "string option"
  ha_la_ignore_before_us :: rat
  ha_la_min_status_frames :: int
  ha_la_allow_re_high_during_de :: bool

text \<open>The defaults of the parser, with the one required option.\<close>

definition default_hil_args :: "string \<Rightarrow> hil_args" where
  "default_hil_args serial =
     \<lparr>ha_serial = serial, ha_cycles = 1000, ha_duration_hours = None, ha_repeat = 1, ha_settle_s = 0,
      ha_speed_factor = DEFAULT_SPEED_FACTOR, ha_missed_poll_threshold = DEFAULT_MISSED_POLL_THRESHOLD,
      ha_preset = ''none'', ha_esp_host = None, ha_esp_api_port = 6053, ha_esp_http_port = 80,
      ha_health_check = ''auto'', ha_esp_api_key = None, ha_api_key_secret = ''api_key_supramatic_4_dev'',
      ha_esp_expected_name = None, ha_esp_cover_object_id = None, ha_esp_button_object_id = [],
      ha_command_mode = ''auto'', ha_fault = [], ha_fault_every_cycles = 0, ha_fault_cycle = [],
      ha_command = None, ha_scenario = ''steady'', ha_door_travel_cycles = DEFAULT_DOOR_TRAVEL_CYCLES,
      ha_reverse_profile = ''stop_then_reverse'', ha_reverse_dwell_cycles = 4, ha_stop_latency_cycles = 1,
      ha_overshoot_raw_ticks = 1, ha_half_position_raw = DEFAULT_HALF_POSITION,
      ha_vent_position_raw = DEFAULT_VENT_POSITION, ha_goto_position_raw = 80, ha_obstruction_cycle = None,
      ha_obstruction_no_reverse = False, ha_speculative_obstruction_flags = False, ha_expect_button = [],
      ha_pre_command = [], ha_load_command = [], ha_post_command = [], ha_progress_interval_s = 60,
      ha_abort_on_miss = False, ha_process_nice = 0, ha_cpu_affinity = None, ha_la_input = None,
      ha_la_channels = None, ha_la_ignore_before_us = 0, ha_la_min_status_frames = 0,
      ha_la_allow_re_high_during_de = False\<rparr>"

definition FAULTS :: "string set" where
  "FAULTS =
     {''bad-byte-count'', ''corrupt-crc'', ''duplicate'', ''garbage'', ''jitter'', ''split'', ''truncated'',
      ''wrong-register'', ''wrong-slave''}"

text \<open>The \<open>choices\<close> of the parser.\<close>

definition hil_choices_ok :: "hil_args \<Rightarrow> bool" where
  "hil_choices_ok a \<longleftrightarrow>
     ha_preset a \<in> {''none'', ''hostile''} \<and> ha_health_check a \<in> {''auto'', ''never'', ''require''} \<and>
     ha_command_mode a \<in> {''auto'', ''native-api'', ''emulated''} \<and> list_all (\<lambda>f. f \<in> FAULTS) (ha_fault a) \<and>
     (case ha_command a of None \<Rightarrow> True | Some c \<Rightarrow> c \<in> {''open'', ''close'', ''light''}) \<and>
     ha_scenario a \<in> SCENARIOS \<and> ha_reverse_profile a \<in> REVERSAL_PROFILES \<and>
     list_all (\<lambda>b. b \<in> {''open'', ''close'', ''stop'', ''vent'', ''half'', ''light''}) (ha_expect_button a)"

text \<open>An optional string as a condition.\<close>

definition given :: "string option \<Rightarrow> bool" where
  "given t = (case t of None \<Rightarrow> False | Some t \<Rightarrow> t \<noteq> [])"

definition text_or_empty :: "string option \<Rightarrow> string" where
  "text_or_empty t = (case t of None \<Rightarrow> [] | Some t \<Rightarrow> t)"

subsection \<open>Load commands\<close>

text \<open>\<open>shlex.quote\<close>.\<close>

definition shell_safe :: "char \<Rightarrow> bool" where
  "shell_safe c =
     (let n = (of_char c :: nat)
      in 48 \<le> n \<and> n \<le> 57 \<or> 65 \<le> n \<and> n \<le> 90 \<or> 97 \<le> n \<and> n \<le> 122 \<or> c \<in> set ''_@%+=:,./-'')"

definition shell_quote :: "string \<Rightarrow> string" where
  "shell_quote t =
     (if t = [] then [CHR 0x27, CHR 0x27]
      else if list_all shell_safe t then t
      else CHR 0x27 # py_replace_char CHR 0x27 [CHR 0x27, CHR 0x22, CHR 0x27, CHR 0x22, CHR 0x27] t @ [CHR 0x27])"

definition reconnect_script :: "string \<Rightarrow> int \<Rightarrow> string" where
  "reconnect_script host api_port =
     (let nl = [CHR 0x0A]
      in ''import socket,time;'' @ ''host='' @ py_repr host @ '';port='' @ py_str_int api_port @ '';'' @
         nl @ ''while True:'' @ nl @
         ''    s=socket.socket(socket.AF_INET, socket.SOCK_STREAM)'' @ nl @
         ''    s.settimeout(0.25)'' @ nl @
         ''    try:'' @ nl @
         ''        s.connect((host, port))'' @ nl @
         ''    except OSError:'' @ nl @
         ''        pass'' @ nl @
         ''    finally:'' @ nl @
         ''        s.close()'' @ nl @
         ''    time.sleep(0.05)'' @ nl)"

definition hostile_load_commands :: "string \<Rightarrow> string \<Rightarrow> int \<Rightarrow> string list" where
  "hostile_load_commands sys_executable host api_port =
     [''ping -i 0.2 '' @ shell_quote host,
      shell_quote sys_executable @ '' -c '' @ shell_quote (reconnect_script host api_port)]"

definition effective_load_commands :: "string \<Rightarrow> hil_args \<Rightarrow> string list result" where
  "effective_load_commands sys_executable a =
     (if ha_preset a = ''hostile'' then
        (if \<not> given (ha_esp_host a) then Inl (ValueError ''--preset hostile requires --esp-host'')
         else Inr (ha_load_command a @
           hostile_load_commands sys_executable (text_or_empty (ha_esp_host a)) (ha_esp_api_port a)))
      else Inr (ha_load_command a))"

subsection \<open>Buttons and modes\<close>

type_synonym button_map = "(string \<times> string) list"

definition BUTTONS :: "string set" where
  "BUTTONS = {''open'', ''close'', ''stop'', ''half'', ''vent'', ''light''}"

fun parse_buttons_into :: "button_map \<Rightarrow> string list \<Rightarrow> button_map result" where
  "parse_buttons_into mapping [] = Inr mapping"
| "parse_buttons_into mapping (value # rest) =
     (if CHR ''='' \<notin> set value
      then Inl (ValueError (''--esp-button-object-id must be BUTTON=OBJECT_ID, got '' @ py_repr value))
      else let button = py_lower (py_strip (fst (py_split1 CHR ''='' value)));
               object_id = py_strip (snd (py_split1 CHR ''='' value))
           in if button \<notin> BUTTONS
              then Inl (ValueError (''unsupported ESPHome button mapping '' @ py_repr button))
              else if object_id = []
              then Inl (ValueError (''empty ESPHome object_id for '' @ py_repr button))
              else parse_buttons_into (dict_put button object_id mapping) rest)"

definition parse_button_object_ids :: "string list \<Rightarrow> button_map result" where
  "parse_button_object_ids values = parse_buttons_into [] values"

text \<open>
  \<open>load_api_key\<close>: the pattern \<open>^name:\s*["']?([^"'\n#]+)\<close> on the text of the secrets file.  When no character
  follows the optional quote, the white space gives its last character that is not a newline back to the group, which
  is blank after \<open>strip\<close>.
\<close>

definition key_char :: "char \<Rightarrow> bool" where
  "key_char c \<longleftrightarrow> c \<notin> {CHR 0x22, CHR 0x27, CHR 0x0A, CHR ''#''}"

definition key_group :: "string \<Rightarrow> string option" where
  "key_group rest =
     (let blanks = takeWhile py_space rest; body = dropWhile py_space rest;
          unquoted = (case body of c # cs \<Rightarrow> if c = CHR 0x22 \<or> c = CHR 0x27 then cs else body | [] \<Rightarrow> body);
          group = takeWhile key_char unquoted
      in if group \<noteq> [] then Some (py_strip group)
         else if list_ex (\<lambda>c. c \<noteq> CHR 0x0A) blanks then Some []
         else None)"

fun search_key :: "string \<Rightarrow> bool \<Rightarrow> string \<Rightarrow> string option" where
  "search_key name line_start [] = None"
| "search_key name line_start (c # cs) =
     (case (if line_start \<and> py_startswith (name @ '':'') (c # cs)
            then key_group (drop (length name + 1) (c # cs)) else None) of
        Some key \<Rightarrow> Some key
      | None \<Rightarrow> search_key name (c = CHR 0x0A) cs)"

definition load_api_key :: "string option \<Rightarrow> string option \<Rightarrow> string \<Rightarrow> string option" where
  "load_api_key api_key secrets secret_name =
     (if given api_key then api_key
      else case secrets of None \<Rightarrow> None | Some txt \<Rightarrow> search_key secret_name True txt)"

definition scenario_uses_esphome_commands :: "hil_args \<Rightarrow> bool" where
  "scenario_uses_esphome_commands a \<longleftrightarrow>
     ha_scenario a \<noteq> ''steady'' \<or> ha_command a = Some ''open'' \<or> ha_command a = Some ''close''"

definition resolve_command_mode :: "hil_args \<Rightarrow> button_map \<Rightarrow> string" where
  "resolve_command_mode a ids =
     (if ha_command_mode a = ''native-api'' then ''native-api''
      else if ha_command_mode a = ''emulated'' then ''emulated''
      else if given (ha_esp_cover_object_id a) \<or> ids \<noteq> [] then ''native-api''
      else if scenario_uses_esphome_commands a then ''emulated''
      else ''none'')"

subsection \<open>The sender of the native API\<close>

record entity =
  en_kind :: string
  en_object_id :: string
  en_key :: int
  en_device_id :: int

datatype api_call = Press_Button int int | Cover_Position int rat | Cover_Stop int

record native_sender =
  ns_cover_object_id :: "string option"
  ns_button_object_ids :: button_map
  ns_cover_key :: "int option"
  ns_cover_device_id :: int
  ns_button_keys :: "(string \<times> int \<times> int) list"
  ns_entity_object_ids :: "(string \<times> string list) list"
  ns_errors :: "string list"
  ns_commands :: "(string \<times> bool) list"

definition NativeApiCommandSender :: "string option \<Rightarrow> button_map \<Rightarrow> native_sender" where
  "NativeApiCommandSender cover_object_id ids =
     \<lparr>ns_cover_object_id = cover_object_id, ns_button_object_ids = ids, ns_cover_key = None,
      ns_cover_device_id = 0, ns_button_keys = [], ns_entity_object_ids = [], ns_errors = [], ns_commands = []\<rparr>"

definition objects_of :: "string \<Rightarrow> native_sender \<Rightarrow> string list" where
  "objects_of kind s = (case map_of (ns_entity_object_ids s) kind of None \<Rightarrow> [] | Some ids \<Rightarrow> ids)"

definition index_buttons :: "entity \<Rightarrow> button_map \<Rightarrow> (string \<times> int \<times> int) list \<Rightarrow> (string \<times> int \<times> int) list" where
  "index_buttons e ids keys =
     fold (\<lambda>(button, wanted) keys.
       if en_object_id e = wanted then dict_put button (en_key e, en_device_id e) keys else keys) ids keys"

definition index_entity :: "entity \<Rightarrow> native_sender \<Rightarrow> native_sender" where
  "index_entity e s =
     (let s = (if en_object_id e \<noteq> []
               then s\<lparr>ns_entity_object_ids := dict_put (en_kind e) (objects_of (en_kind e) s @ [en_object_id e])
                        (ns_entity_object_ids s)\<rparr>
               else s);
          s = (if en_kind e = ''CoverInfo'' \<and> Some (en_object_id e) = ns_cover_object_id s
               then s\<lparr>ns_cover_key := Some (en_key e), ns_cover_device_id := en_device_id e\<rparr> else s)
      in if en_kind e = ''ButtonInfo''
         then s\<lparr>ns_button_keys := index_buttons e (ns_button_object_ids s) (ns_button_keys s)\<rparr>
         else s)"

definition index_entities :: "entity list \<Rightarrow> native_sender \<Rightarrow> native_sender" where
  "index_entities entities s = fold index_entity entities s"

definition missing_button_keys :: "native_sender \<Rightarrow> string list" where
  "missing_button_keys s =
     filter (\<lambda>b. map_of (ns_button_keys s) b = None) (map fst (ns_button_object_ids s))"

definition validate_entities :: "native_sender \<Rightarrow> unit result" where
  "validate_entities s =
     (if given (ns_cover_object_id s) \<and> ns_cover_key s = None
      then Inl (RuntimeError (''could not find cover object_id '' @ py_repr (text_or_empty (ns_cover_object_id s))))
      else if missing_button_keys s \<noteq> []
      then Inl (RuntimeError ''could not find ESPHome button object_ids'')
      else Inr ())"

text \<open>\<open>start\<close> waits for the worker thread, which connects, lists the entities and validates them.\<close>

definition start_native :: "entity list result \<Rightarrow> native_sender \<Rightarrow> native_sender result" where
  "start_native listed s =
     (case listed of
        Inl e \<Rightarrow> Inl e
      | Inr entities \<Rightarrow>
         (case validate_entities (index_entities entities s) of
            Inl e \<Rightarrow> Inl e
          | Inr _ \<Rightarrow> Inr (index_entities entities s)))"

definition native_send :: "string \<Rightarrow> native_sender \<Rightarrow> api_call result" where
  "native_send button s =
     (case map_of (ns_button_keys s) button of
        Some (key, device_id) \<Rightarrow> Inr (Press_Button key device_id)
      | None \<Rightarrow>
         (case ns_cover_key s of
            None \<Rightarrow> Inl (RuntimeError (''no command path configured for '' @ py_repr button))
          | Some key \<Rightarrow>
              if button = ''open'' then Inr (Cover_Position key 1)
              else if button = ''close'' then Inr (Cover_Position key 0)
              else if button = ''stop'' then Inr (Cover_Stop key)
              else Inl (RuntimeError (''no command path configured for '' @ py_repr button))))"

text \<open>\<open>_record_done\<close>: the client call of a completed command may have raised, as its type and message.\<close>

definition record_done ::
  "(api_call \<Rightarrow> string option) \<Rightarrow> string \<Rightarrow> native_sender \<Rightarrow> native_sender"
where
  "record_done client button s =
     (case (case native_send button s of
              Inl (RuntimeError message) \<Rightarrow> Some (''RuntimeError: '' @ message)
            | Inl _ \<Rightarrow> Some []
            | Inr call \<Rightarrow> client call) of
        None \<Rightarrow> s\<lparr>ns_commands := ns_commands s @ [(button, True)]\<rparr>
      | Some err \<Rightarrow>
          s\<lparr>ns_errors := ns_errors s @ [''press '' @ button @ '': '' @ err],
            ns_commands := ns_commands s @ [(button, False)]\<rparr>)"

lemma map_of_index_buttons:
  "b \<notin> fst ` set ids \<Longrightarrow> map_of (index_buttons e ids keys) b = map_of keys b"
  by (induction ids arbitrary: keys) (auto simp: index_buttons_def)

text \<open>A started sender has a key for every configured button, so that no press of one is refused for want of a path.\<close>

lemma started_sender_has_keys:
  assumes "start_native listed s = Inr s'" and "b \<in> fst ` set (ns_button_object_ids s')"
  shows "\<exists>key device_id. native_send b s' = Inr (Press_Button key device_id)"
proof -
  obtain entities where "validate_entities s' = Inr ()"
    using assms(1) by (auto simp: start_native_def split: sum.splits)
  then have "missing_button_keys s' = []"
    by (simp add: validate_entities_def split: if_splits)
  then have "map_of (ns_button_keys s') b \<noteq> None"
    using assms(2) by (auto simp: missing_button_keys_def filter_empty_conv)
  then show ?thesis
    by (auto simp: native_send_def)
qed

lemma record_done_errors: "length (ns_errors s) \<le> length (ns_errors (record_done client b s))"
  by (simp add: record_done_def split: option.split sum.split exn.split)

subsection \<open>The sender of emulated commands\<close>

text \<open>
  The environment of the simulator in which the sender's list of commands is part of the transport's state.
\<close>

definition with_commands :: "'t env \<Rightarrow> ('t \<times> string list) env" where
  "with_commands env =
     \<lparr>e_write = \<lambda>data (t, cs). (case e_write env data t of (ns, t) \<Rightarrow> (ns, t, cs)),
      e_read_available = \<lambda>timeout (t, cs). (case e_read_available env timeout t of (bs, ns, t) \<Rightarrow> (bs, ns, t, cs)),
      e_command = \<lambda>line (t, cs). (case e_command env line t of (ack, ns, t) \<Rightarrow> (ack, ns, t, cs)),
      e_command_sender = None,
      e_advance_time_us = (case e_advance_time_us env of
         None \<Rightarrow> None | Some advance \<Rightarrow> Some (\<lambda>us (t, cs). (advance us t, cs))),
      e_oversleep = e_oversleep env, e_uniform = e_uniform env, e_randrange = e_randrange env,
      e_class_name = e_class_name env, e_low_latency_enabled = e_low_latency_enabled env,
      e_low_latency_error = e_low_latency_error env\<rparr>"

definition acknowledging ::
  "string \<Rightarrow> ('t \<times> string list) env \<Rightarrow> ('t \<times> string list) env"
where
  "acknowledging prefix env =
     env\<lparr>e_command_sender := Some (\<lambda>button (t, cs). (Inr (prefix @ button), 0, t, cs @ [button]))\<rparr>"

definition emulated_env :: "'t env \<Rightarrow> ('t \<times> string list) env" where
  "emulated_env env = acknowledging ''OK emulated-esphome '' (with_commands env)"

definition native_env :: "'t env \<Rightarrow> ('t \<times> string list) env" where
  "native_env env = acknowledging ''OK api-scheduled '' (with_commands env)"

end
