(* ===== verification/Hil_Health.thy ===== *)
theory Hil_Health
  imports Prelude
begin

text \<open>
  \<open>tools/hcp2_hil_load.py\<close>, the classification of the firmware's \<open>/health\<close> document: the lookup of
  numbers and flags in its sections, the reasons that block a run, the warnings, and the verdict.
\<close>

subsection \<open>JSON values\<close>

text \<open>What \<open>json.loads\<close> returns; an object as its pairs, with distinct keys, and numbers finite.\<close>

datatype jval =
    JNull
  | JBool bool
  | JInt int
  | JFloat rat
  | JStr string
  | JList "jval list"
  | JObj "(string \<times> jval) list"

type_synonym jobj = "(string \<times> jval) list"

definition jget :: "jobj \<Rightarrow> string \<Rightarrow> jval" where
  "jget payload name = (case map_of payload name of None \<Rightarrow> JNull | Some v \<Rightarrow> v)"

text \<open>\<open>str(value)\<close>: the text of floats and of containers is a parameter.\<close>

definition text_of :: "(jval \<Rightarrow> string) \<Rightarrow> jval \<Rightarrow> string" where
  "text_of str_other v =
     (case v of
        JNull \<Rightarrow> ''None''
      | JBool b \<Rightarrow> if b then ''True'' else ''False''
      | JInt n \<Rightarrow> py_str_int n
      | JStr t \<Rightarrow> t
      | _ \<Rightarrow> str_other v)"

definition py_trunc :: "rat \<Rightarrow> int" where
  "py_trunc x = (if x < 0 then \<lceil>x\<rceil> else \<lfloor>x\<rfloor>)"

fun int_value :: "jval \<Rightarrow> int \<Rightarrow> int" where
  "int_value JNull d = d"
| "int_value (JBool b) d = of_bool b"
| "int_value (JInt n) d = n"
| "int_value (JFloat x) d = py_trunc x"
| "int_value (JStr t) d = (case py_int t of None \<Rightarrow> d | Some n \<Rightarrow> n)"
| "int_value (JList xs) d = d"
| "int_value (JObj fields) d = d"

text \<open>The text of a list or an object starts with a bracket, so that it is none of the words.\<close>

definition bool_value :: "jval \<Rightarrow> bool \<Rightarrow> bool" where
  "bool_value v d =
     (case v of
        JNull \<Rightarrow> d
      | JBool b \<Rightarrow> b
      | JInt n \<Rightarrow> n \<noteq> 0
      | JFloat x \<Rightarrow> x \<noteq> 0
      | JStr t \<Rightarrow>
          (let word = py_lower (py_strip t)
           in if word \<in> {''1'', ''true'', ''yes'', ''on'', ''ok''} then True
              else if word \<in> {''0'', ''false'', ''no'', ''off'', ''fail''} then False
              else d)
      | JList _ \<Rightarrow> d
      | JObj _ \<Rightarrow> d)"

fun nested_in :: "string list \<Rightarrow> jobj \<Rightarrow> string \<Rightarrow> jval" where
  "nested_in [] payload name = jget payload name"
| "nested_in (section # rest) payload name =
     (case jget payload section of
        JObj fields \<Rightarrow> if map_of fields name \<noteq> None then jget fields name else nested_in rest payload name
      | _ \<Rightarrow> nested_in rest payload name)"

definition nested_int :: "jobj \<Rightarrow> string \<Rightarrow> int \<Rightarrow> int" where
  "nested_int payload name d = int_value (nested_in [''checks'', ''lp'', ''stats''] payload name) d"

definition nested_bool :: "jobj \<Rightarrow> string \<Rightarrow> bool \<Rightarrow> bool" where
  "nested_bool payload name d = bool_value (nested_in [''checks'', ''lp'', ''stats''] payload name) d"

subsection \<open>The classification\<close>

definition LP_HEALTH_FLAG_RX_STARVATION :: int where [const_defs]: "LP_HEALTH_FLAG_RX_STARVATION = 0x0002"
definition DEVICE_HEALTH_STALE_POLL_MS :: int where [const_defs]: "DEVICE_HEALTH_STALE_POLL_MS = 1000"

record classification =
  cl_verdict :: string
  cl_continuity :: string
  cl_firmware_verdict :: string
  cl_firmware_reasons :: "string list"
  cl_fault_expected :: bool
  cl_blocking :: "string list"
  cl_warnings :: "string list"
  cl_health_flags :: int
  cl_rx_starvations :: int
  cl_last_poll_age_ms :: int

definition firmware_reasons_of :: "(jval \<Rightarrow> string) \<Rightarrow> jobj \<Rightarrow> string list" where
  "firmware_reasons_of str_other payload =
     (case jget payload ''reasons'' of JList xs \<Rightarrow> map (text_of str_other) xs | _ \<Rightarrow> [])"

definition verdict_is :: "jobj \<Rightarrow> string \<Rightarrow> bool" where
  "verdict_is payload v \<longleftrightarrow> jget payload ''verdict'' = JStr v"

definition legacy_ota_only_fail :: "(jval \<Rightarrow> string) \<Rightarrow> jobj \<Rightarrow> bool" where
  "legacy_ota_only_fail str_other payload \<longleftrightarrow>
     verdict_is payload ''fail'' \<and> jget payload ''safe_for_ota_restart'' = JBool False \<and>
     firmware_reasons_of str_other payload = []"

definition firmware_ok :: "(jval \<Rightarrow> string) \<Rightarrow> jobj \<Rightarrow> bool" where
  "firmware_ok str_other payload \<longleftrightarrow> verdict_is payload ''ok'' \<or> legacy_ota_only_fail str_other payload"

definition bus_names :: "string list" where
  "bus_names = [''lp_mode'', ''lp_seen'', ''bus_online'', ''valid_broadcast'']"

definition counter_names :: "string list" where
  "counter_names = [''missed_polls'', ''tx_aborts'', ''collisions'', ''loop_overruns'', ''stuck_de_recoveries'']"

definition reason_int :: "string \<Rightarrow> int \<Rightarrow> string" where
  "reason_int name n = name @ '':'' @ py_str_int n"

definition bus_reasons :: "jobj \<Rightarrow> string list" where
  "bus_reasons payload = filter (\<lambda>name. \<not> nested_bool payload name True) bus_names"

definition counter_reasons :: "jobj \<Rightarrow> string list" where
  "counter_reasons payload =
     map (\<lambda>name. reason_int name (nested_int payload name 0))
       (filter (\<lambda>name. nested_int payload name 0 \<noteq> 0) counter_names)"

text \<open>The lists \<open>blocking\<close> and \<open>warnings\<close> as the function fills them.\<close>

type_synonym reasons = "string list \<times> string list"

definition block :: "string \<Rightarrow> reasons \<Rightarrow> reasons" where
  "block reason r = (fst r @ [reason], snd r)"

definition warn :: "string \<Rightarrow> reasons \<Rightarrow> reasons" where
  "warn reason r = (fst r, snd r @ [reason])"

definition raw_missed_step :: "bool \<Rightarrow> jobj \<Rightarrow> reasons \<Rightarrow> reasons" where
  "raw_missed_step ok payload r =
     (let raw = nested_int payload ''raw_missed_polls'' 0;
          pending_response = nested_bool payload ''pending_response'' False
      in if raw = 0 then r
         else if raw = 1 \<and> pending_response \<and> ok \<and> fst r = [] then warn ''raw_missed_polls_pending:1'' r
         else block (reason_int ''raw_missed_polls'' raw) r)"

definition poll_age_step :: "jobj \<Rightarrow> reasons \<Rightarrow> reasons" where
  "poll_age_step payload r =
     (let age = nested_int payload ''last_poll_age_ms'' 0
      in if DEVICE_HEALTH_STALE_POLL_MS < age then block (reason_int ''last_poll_age_ms'' age) r else r)"

definition non_rx_flags :: "jobj \<Rightarrow> int" where
  "non_rx_flags payload = nested_int payload ''health_flags'' 0 AND NOT LP_HEALTH_FLAG_RX_STARVATION"

definition flags_step :: "bool \<Rightarrow> jobj \<Rightarrow> reasons \<Rightarrow> reasons" where
  "flags_step ok payload r =
     (let flags = non_rx_flags payload
      in if flags = 0 then r
         else if ok \<and> fst r = [] then warn (''lp_health_flags_sticky:0x'' @ format_hex 4 flags) r
         else block (''lp_health_flags_non_rx:0x'' @ format_hex 4 flags) r)"

definition has_rx_warning :: "jobj \<Rightarrow> bool" where
  "has_rx_warning payload \<longleftrightarrow>
     nested_int payload ''rx_starvations'' 0 \<noteq> 0 \<or>
     nested_int payload ''health_flags'' 0 AND LP_HEALTH_FLAG_RX_STARVATION \<noteq> 0"

definition rx_step :: "bool \<Rightarrow> bool \<Rightarrow> jobj \<Rightarrow> reasons \<Rightarrow> reasons" where
  "rx_step ok fault_expected payload r =
     (let n = nested_int payload ''rx_starvations'' 0
      in if \<not> has_rx_warning payload then r
         else if ok \<and> fst r = [] then warn (reason_int ''rx_starvations_sticky'' n) r
         else if fault_expected \<and> fst r = [] then warn (reason_int ''rx_starvations_during_fault_injection'' n) r
         else block (reason_int ''rx_starvations'' n) r)"

fun firmware_step :: "string set \<Rightarrow> string list \<Rightarrow> reasons \<Rightarrow> reasons" where
  "firmware_step allowed [] r = r"
| "firmware_step allowed (reason # rest) r =
     firmware_step allowed rest
       (if reason \<notin> allowed \<and> reason \<notin> set (fst r) then block (''firmware:'' @ reason) r else r)"

definition allowed_reasons :: "bool \<Rightarrow> bool \<Rightarrow> string set" where
  "allowed_reasons ok fault_expected =
     (if fault_expected \<or> ok then {''lp_health_flags'', ''rx_starvations''} else {})"

text \<open>Everything up to the loop over the firmware's own reasons.\<close>

definition transport_reasons :: "bool \<Rightarrow> bool \<Rightarrow> jobj \<Rightarrow> reasons" where
  "transport_reasons ok fault_expected payload =
     rx_step ok fault_expected payload (flags_step ok payload (poll_age_step payload
       (raw_missed_step ok payload (bus_reasons payload @ counter_reasons payload, []))))"

definition all_reasons :: "(jval \<Rightarrow> string) \<Rightarrow> bool \<Rightarrow> jobj \<Rightarrow> reasons" where
  "all_reasons str_other fault_expected payload =
     (let ok = firmware_ok str_other payload;
          named = firmware_reasons_of str_other payload;
          r = firmware_step (allowed_reasons ok fault_expected) named
                (transport_reasons ok fault_expected payload)
      in if verdict_is payload ''fail'' \<and> \<not> legacy_ota_only_fail str_other payload \<and> named = [] \<and> r = ([], [])
         then block ''firmware:fail'' r else r)"

definition classify_device_health :: "(jval \<Rightarrow> string) \<Rightarrow> jobj \<Rightarrow> bool \<Rightarrow> classification" where
  "classify_device_health str_other payload fault_expected =
     (let r = all_reasons str_other fault_expected payload
      in \<lparr>cl_verdict = (if fst r \<noteq> [] then ''fail'' else if snd r \<noteq> [] then ''warn'' else ''ok''),
          cl_continuity = (if fst r \<noteq> [] then ''fail'' else ''ok''),
          cl_firmware_verdict = (case map_of payload ''verdict'' of
             None \<Rightarrow> ''unknown'' | Some v \<Rightarrow> text_of str_other v),
          cl_firmware_reasons = firmware_reasons_of str_other payload,
          cl_fault_expected = fault_expected, cl_blocking = fst r, cl_warnings = snd r,
          cl_health_flags = nested_int payload ''health_flags'' 0,
          cl_rx_starvations = nested_int payload ''rx_starvations'' 0,
          cl_last_poll_age_ms = nested_int payload ''last_poll_age_ms'' 0\<rparr>)"

subsection \<open>What a verdict says of the document\<close>

text \<open>No step removes a blocking reason.\<close>

lemma fst_block [simp]: "fst (block reason r) \<noteq> []"
  by (simp add: block_def)

lemma fst_warn [simp]: "fst (warn reason r) = fst r"
  by (simp add: warn_def)

lemma snd_warn [simp]: "snd (warn reason r) \<noteq> []"
  by (simp add: warn_def)

lemma raw_missed_step_ok:
  "fst (raw_missed_step ok payload r) = [] \<longleftrightarrow>
   fst r = [] \<and> (nested_int payload ''raw_missed_polls'' 0 = 0 \<or>
     nested_int payload ''raw_missed_polls'' 0 = 1 \<and> nested_bool payload ''pending_response'' False \<and> ok)"
  by (auto simp: raw_missed_step_def Let_def)

lemma poll_age_step_ok:
  "fst (poll_age_step payload r) = [] \<longleftrightarrow>
   fst r = [] \<and> nested_int payload ''last_poll_age_ms'' 0 \<le> DEVICE_HEALTH_STALE_POLL_MS"
  by (auto simp: poll_age_step_def Let_def)

lemma flags_step_ok:
  "fst (flags_step ok payload r) = [] \<longleftrightarrow> fst r = [] \<and> (non_rx_flags payload = 0 \<or> ok)"
  by (auto simp: flags_step_def Let_def)

lemma rx_step_ok:
  "fst (rx_step ok fault_expected payload r) = [] \<longleftrightarrow>
   fst r = [] \<and> (\<not> has_rx_warning payload \<or> ok \<or> fault_expected)"
  by (auto simp: rx_step_def Let_def)

lemma firmware_step_ok:
  "fst (firmware_step allowed named r) = [] \<longleftrightarrow> fst r = [] \<and> set named \<subseteq> allowed"
proof (induction named arbitrary: r)
  case (Cons reason rest)
  then show ?case by (cases "fst r = []") auto
qed simp

lemma firmware_step_same: "set named \<subseteq> allowed \<Longrightarrow> firmware_step allowed named r = r"
  by (induction named) auto

lemmas reason_steps = raw_missed_step_ok poll_age_step_ok flags_step_ok rx_step_ok

lemma bus_reasons_Nil: "bus_reasons payload = [] \<longleftrightarrow> list_all (\<lambda>name. nested_bool payload name True) bus_names"
  by (simp add: bus_reasons_def filter_empty_conv list_all_iff)

lemma counter_reasons_Nil:
  "counter_reasons payload = [] \<longleftrightarrow> list_all (\<lambda>name. nested_int payload name 0 = 0) counter_names"
  by (simp add: counter_reasons_def filter_empty_conv list_all_iff)

lemma transport_reasons_ok:
  "fst (transport_reasons ok fault_expected payload) = [] \<longleftrightarrow>
   list_all (\<lambda>name. nested_bool payload name True) bus_names \<and>
   list_all (\<lambda>name. nested_int payload name 0 = 0) counter_names \<and>
   (nested_int payload ''raw_missed_polls'' 0 = 0 \<or>
     nested_int payload ''raw_missed_polls'' 0 = 1 \<and> nested_bool payload ''pending_response'' False \<and> ok) \<and>
   nested_int payload ''last_poll_age_ms'' 0 \<le> DEVICE_HEALTH_STALE_POLL_MS \<and>
   (non_rx_flags payload = 0 \<or> ok) \<and> (\<not> has_rx_warning payload \<or> ok \<or> fault_expected)"
  by (simp add: transport_reasons_def reason_steps bus_reasons_Nil counter_reasons_Nil conj_assoc)

lemma all_reasons_ok:
  assumes "fst (all_reasons str_other fault_expected payload) = []"
  shows "fst (transport_reasons (firmware_ok str_other payload) fault_expected payload) = []"
    and "set (firmware_reasons_of str_other payload) \<subseteq>
      allowed_reasons (firmware_ok str_other payload) fault_expected"
    and "all_reasons str_other fault_expected payload =
      transport_reasons (firmware_ok str_other payload) fault_expected payload"
proof -
  let ?ok = "firmware_ok str_other payload"
  let ?t = "transport_reasons ?ok fault_expected payload"
  let ?named = "firmware_reasons_of str_other payload"
  let ?r = "firmware_step (allowed_reasons ?ok fault_expected) ?named ?t"
  have eq: "all_reasons str_other fault_expected payload = ?r"
    using assms by (auto simp: all_reasons_def Let_def split: if_splits)
  then show 1: "fst ?t = []" and 2: "set ?named \<subseteq> allowed_reasons ?ok fault_expected"
    using assms by (simp_all add: firmware_step_ok)
  show "all_reasons str_other fault_expected payload = ?t"
    unfolding eq using 2 by (rule firmware_step_same)
qed

lemma classify_sel:
  "cl_continuity (classify_device_health str_other payload fault_expected) = ''ok'' \<longleftrightarrow>
     fst (all_reasons str_other fault_expected payload) = []"
  "cl_verdict (classify_device_health str_other payload fault_expected) = ''ok'' \<longleftrightarrow>
     all_reasons str_other fault_expected payload = ([], [])"
  by (auto simp: classify_device_health_def Let_def prod_eq_iff)

text \<open>A failing firmware verdict is passed only for the receiver diagnostics that the injected faults cause,
  or when it names no reason and only refuses an over-the-air restart.\<close>

lemma firmware_failure_not_passed:
  assumes "verdict_is payload ''fail''" and "\<not> legacy_ota_only_fail str_other payload"
    and "cl_verdict (classify_device_health str_other payload fault_expected) = ''ok''"
  shows "fault_expected" and "firmware_reasons_of str_other payload \<noteq> []"
    and "set (firmware_reasons_of str_other payload) \<subseteq> {''lp_health_flags'', ''rx_starvations''}"
proof -
  have none: "all_reasons str_other fault_expected payload = ([], [])"
    using assms(3) by (simp add: classify_sel)
  then have named: "set (firmware_reasons_of str_other payload) \<subseteq>
      allowed_reasons (firmware_ok str_other payload) fault_expected"
    by (intro all_reasons_ok) simp
  moreover have "\<not> firmware_ok str_other payload"
    using assms(1,2) by (simp add: firmware_ok_def verdict_is_def)
  moreover show "firmware_reasons_of str_other payload \<noteq> []"
    using assms(1,2) none by (auto simp: all_reasons_def Let_def block_def split: if_splits)
  ultimately show "fault_expected"
      and "set (firmware_reasons_of str_other payload) \<subseteq> {''lp_health_flags'', ''rx_starvations''}"
    by (auto simp: allowed_reasons_def split: if_splits)
qed

text \<open>C15: a device whose continuity is classified as \<open>ok\<close> has its low-power core and the bus up, lost no poll and
  aborted no transmission, was polled in the last second, and shows sticky diagnostics only if its firmware declares the
  recent window healthy; the starvation of the receiver is also tolerated while faults are injected.  A failing firmware
  verdict with reasons is passed only for the two diagnostics that injected faults cause.\<close>

theorem healthy_device_lost_nothing:
  assumes "cl_continuity (classify_device_health str_other payload fault_expected) = ''ok''"
  shows "list_all (\<lambda>name. nested_bool payload name True) bus_names \<and>
    list_all (\<lambda>name. nested_int payload name 0 = 0) counter_names \<and>
    (nested_int payload ''raw_missed_polls'' 0 = 0 \<or>
      nested_int payload ''raw_missed_polls'' 0 = 1 \<and> nested_bool payload ''pending_response'' False \<and>
      firmware_ok str_other payload) \<and>
    nested_int payload ''last_poll_age_ms'' 0 \<le> 1000 \<and>
    (non_rx_flags payload = 0 \<or> firmware_ok str_other payload) \<and>
    (has_rx_warning payload \<longrightarrow> firmware_ok str_other payload \<or> fault_expected) \<and>
    (firmware_ok str_other payload \<or> fault_expected \<or> firmware_reasons_of str_other payload = [])"
proof -
  have none: "fst (all_reasons str_other fault_expected payload) = []"
    using assms by (simp add: classify_sel)
  have "firmware_ok str_other payload \<or> fault_expected \<or> firmware_reasons_of str_other payload = []"
    using all_reasons_ok(2) [OF none] by (auto simp: allowed_reasons_def split: if_splits)
  then show ?thesis
    using all_reasons_ok(1) [OF none, unfolded transport_reasons_ok]
    by (simp add: DEVICE_HEALTH_STALE_POLL_MS_def)
qed

definition example_health :: jobj where
  "example_health = [(''verdict'', JStr ''ok''), (''reasons'', JList []),
     (''lp'', JObj [(''missed_polls'', JInt 0), (''raw_missed_polls'', JInt 1), (''health_flags'', JInt 6)]),
     (''checks'', JObj [(''pending_response'', JBool True), (''bus_online'', JStr ''yes'')])]"

theorem healthy_device_lost_nothing_witness:
  "list_all (\<lambda>name. nested_int example_health name 0 = 0) counter_names"
proof -
  have "cl_continuity (classify_device_health (\<lambda>_. []) example_health False) = ''ok''"
    by code_simp
  then show ?thesis
    by (rule healthy_device_lost_nothing [THEN conjunct2, THEN conjunct1])
qed

end
