(* ===== verification/Hil_Load.thy ===== *)
theory Hil_Load
  imports Hil_Commands Hil_Health Hil_La_Report
begin

text \<open>
  \<open>tools/hcp2_hil_load.py\<close>, the runs: the checks of the arguments, one session with its shell commands, load
  processes, sender, simulation, device health and logic capture, and the suite that repeats it.  What the host
  does is a record of outcomes; a session returns its report or the exception it raises, and the list of the effects it
  had on the host in their order.
\<close>

subsection \<open>Durations, paths and the door\<close>

definition build_door_model :: "hil_args \<Rightarrow> door_model result" where
  "build_door_model a =
     new_door POSITION_CLOSED POSITION_CLOSED STATE_CLOSED
       \<lparr>dp_travel_cycles = ha_door_travel_cycles a, dp_reversal_profile = ha_reverse_profile a,
        dp_reverse_dwell_cycles = ha_reverse_dwell_cycles a, dp_stop_latency_cycles = ha_stop_latency_cycles a,
        dp_overshoot_raw_ticks = ha_overshoot_raw_ticks a, dp_half_position = ha_half_position_raw a,
        dp_vent_position = ha_vent_position_raw a, dp_obstruction_cycle = ha_obstruction_cycle a,
        dp_obstruction_reverses = (\<not> ha_obstruction_no_reverse a),
        dp_speculative_obstruction_flags = ha_speculative_obstruction_flags a\<rparr>"

text \<open>\<open>Path.stem\<close> and \<open>Path.suffix\<close> of the last component of a path.\<close>

definition path_stem_suffix :: "string \<Rightarrow> string \<times> string" where
  "path_stem_suffix name =
     (let tail = takeWhile (\<lambda>c. c \<noteq> CHR ''.'') (rev name);
          i = length name - length tail - 1
      in if CHR ''.'' \<in> set name \<and> 0 < i \<and> i < length name - 1
         then (take i name, drop i name) else (name, []))"

definition indexed_trace_path :: "(string \<times> string) option \<Rightarrow> int \<Rightarrow> int \<Rightarrow> (string \<times> string) option" where
  "indexed_trace_path path run_index repeat_count =
     (case path of
        None \<Rightarrow> None
      | Some (parent, name) \<Rightarrow>
          if repeat_count = 1 then Some (parent, name)
          else case path_stem_suffix name of
            (stem, suffix) \<Rightarrow> Some (parent, stem @ ''.run'' @ zfill 2 (py_str_int run_index) @ suffix))"

definition effective_cycles :: "hil_args \<Rightarrow> int result" where
  "effective_cycles a =
     (case ha_duration_hours a of
        Some hours \<Rightarrow> cycles_for_duration_hours hours (ha_speed_factor a)
      | None \<Rightarrow> Inr (ha_cycles a))"

definition effective_duration_s :: "hil_args \<Rightarrow> rat option result" where
  "effective_duration_s a =
     (case ha_duration_hours a of
        None \<Rightarrow> Inr None
      | Some hours \<Rightarrow>
          if hours \<le> 0 then Inl (ValueError ''duration must be positive'') else Inr (Some (hours * 3600)))"

subsection \<open>Processes\<close>

datatype effect =
    Ran_Shell string
  | Started_Load nat
  | Stopped_Load nat
  | Started_Sender
  | Stopped_Sender
  | Opened_Serial
  | Ran_Simulation
  | Closed_Serial
  | Fetched_Health

record load =
  ld_command :: string
  ld_returncode :: "int option"
  ld_terminated :: bool
  ld_killed :: bool

definition start_load :: "string \<Rightarrow> load" where
  "start_load command =
     \<lparr>ld_command = command, ld_returncode = None, ld_terminated = False, ld_killed = False\<rparr>"

text \<open>What \<open>poll\<close>, the wait after \<open>terminate\<close> and the wait after \<open>kill\<close> return; no value is a time-out.\<close>

record stop_outcome =
  so_poll :: "int option"
  so_wait :: "int option"
  so_wait_killed :: "int option"

definition stop_load :: "stop_outcome \<Rightarrow> load \<Rightarrow> load result" where
  "stop_load oc l =
     (case so_poll oc of
        Some code \<Rightarrow> Inr (l\<lparr>ld_returncode := Some code\<rparr>)
      | None \<Rightarrow>
         (case so_wait oc of
            Some code \<Rightarrow> Inr (l\<lparr>ld_terminated := True, ld_returncode := Some code\<rparr>)
          | None \<Rightarrow>
             (case so_wait_killed oc of
                Some code \<Rightarrow> Inr (l\<lparr>ld_terminated := True, ld_killed := True, ld_returncode := Some code\<rparr>)
              | None \<Rightarrow> Inl (Raised ''TimeoutExpired'' (ld_command l)))))"

text \<open>The last loop of \<open>finally\<close>: a process that survives \<open>kill\<close> for five seconds ends it.\<close>

fun stop_loads :: "(nat \<Rightarrow> stop_outcome) \<Rightarrow> nat \<Rightarrow> load list \<Rightarrow> load list result \<times> effect list" where
  "stop_loads ocs i [] = (Inr [], [])"
| "stop_loads ocs i (l # ls) =
     (case stop_load (ocs i) l of
        Inl e \<Rightarrow> (Inl e, [Stopped_Load i])
      | Inr l \<Rightarrow>
         (case stop_loads ocs (Suc i) ls of
            (Inl e, effs) \<Rightarrow> (Inl e, Stopped_Load i # effs)
          | (Inr ls, effs) \<Rightarrow> (Inr (l # ls), Stopped_Load i # effs)))"

subsection \<open>Tuning of the host\<close>

datatype tuning_error =
    TE_Nice string
  | TE_Unavailable
  | TE_Bad_Cpu string
  | TE_Empty
  | TE_Affinity string

record tuning =
  tu_nice_applied :: bool
  tu_affinity_applied :: bool
  tu_effective :: "int list"
  tu_errors :: "tuning_error list"

text \<open>\<open>os.nice\<close> fails with a text; \<open>os.sched_setaffinity\<close> may be missing, fails with a text or leaves a set.\<close>

record tuning_outcome =
  to_nice :: "string option"
  to_affinity :: "(int list \<Rightarrow> string + int list) option"

fun parse_cpus :: "string list \<Rightarrow> string + int list" where
  "parse_cpus [] = Inr []"
| "parse_cpus (item # rest) =
     (if py_strip item = [] then parse_cpus rest
      else case py_int (py_strip item) of
        None \<Rightarrow> Inl (py_strip item)
      | Some n \<Rightarrow> (case parse_cpus rest of Inl bad \<Rightarrow> Inl bad | Inr ns \<Rightarrow> Inr (List.insert n ns)))"

definition apply_affinity :: "tuning_outcome \<Rightarrow> string \<Rightarrow> tuning \<Rightarrow> tuning" where
  "apply_affinity oc affinity t =
     (case to_affinity oc of
        None \<Rightarrow> t\<lparr>tu_errors := tu_errors t @ [TE_Unavailable]\<rparr>
      | Some set_affinity \<Rightarrow>
         (case parse_cpus (py_split CHR '','' affinity) of
            Inl bad \<Rightarrow> t\<lparr>tu_errors := tu_errors t @ [TE_Bad_Cpu bad]\<rparr>
          | Inr cpus \<Rightarrow>
              if cpus = [] then t\<lparr>tu_errors := tu_errors t @ [TE_Empty]\<rparr>
              else case set_affinity cpus of
                Inl err \<Rightarrow> t\<lparr>tu_errors := tu_errors t @ [TE_Affinity err]\<rparr>
              | Inr effective \<Rightarrow> t\<lparr>tu_affinity_applied := True, tu_effective := sort effective\<rparr>))"

definition apply_host_tuning :: "tuning_outcome \<Rightarrow> hil_args \<Rightarrow> tuning" where
  "apply_host_tuning oc a =
     (let t = \<lparr>tu_nice_applied = False, tu_affinity_applied = False, tu_effective = [], tu_errors = []\<rparr>;
          t = (if ha_process_nice a = 0 then t
               else case to_nice oc of
                 None \<Rightarrow> t\<lparr>tu_nice_applied := True\<rparr>
               | Some err \<Rightarrow> t\<lparr>tu_errors := tu_errors t @ [TE_Nice err]\<rparr>)
      in if given (ha_cpu_affinity a) then apply_affinity oc (text_or_empty (ha_cpu_affinity a)) t else t)"

subsection \<open>Device health and logic capture\<close>

datatype http_outcome = Http_Reply int "jval option" | Http_Failed string

record device_health =
  dh_status :: "int option"
  dh_verdict :: string
  dh_continuity :: string
  dh_classification :: "classification option"

definition health_unknown :: "int option \<Rightarrow> device_health" where
  "health_unknown status =
     \<lparr>dh_status = status, dh_verdict = ''unavailable'', dh_continuity = ''unknown'', dh_classification = None\<rparr>"

definition fetch_device_health ::
  "(jval \<Rightarrow> string) \<Rightarrow> http_outcome \<Rightarrow> hil_args \<Rightarrow> device_health option"
where
  "fetch_device_health str_other oc a =
     (if ha_health_check a = ''never'' \<or> \<not> given (ha_esp_host a) then None
      else Some (case oc of
        Http_Failed _ \<Rightarrow> health_unknown None
      | Http_Reply status body \<Rightarrow>
         (case body of
            Some (JObj payload) \<Rightarrow>
              (let c = classify_device_health str_other payload (ha_fault a \<noteq> [])
               in \<lparr>dh_status = Some status, dh_verdict = cl_verdict c, dh_continuity = cl_continuity c,
                   dh_classification = Some c\<rparr>)
          | _ \<Rightarrow> health_unknown (Some status))))"

text \<open>The capture file: the samples that \<open>load_samples\<close> returns for a channel map.\<close>

type_synonym capture = "(string \<rightharpoonup> string) \<Rightarrow> la_sample list result"

definition analyze_logic_capture :: "capture \<Rightarrow> hil_args \<Rightarrow> verify_report option result" where
  "analyze_logic_capture load_samples a =
     (if ha_la_input a = None then Inr None
      else case parse_channel_map (text_or_empty (ha_la_channels a)) of
        Inl e \<Rightarrow> Inl e
      | Inr channels \<Rightarrow>
         (case load_samples channels of
            Inl e \<Rightarrow> Inl e
          | Inr samples \<Rightarrow>
             (case verify_samples
                     (default_electrical\<lparr>eo_allow_re_high_during_de := ha_la_allow_re_high_during_de a\<rparr>)
                     samples (ha_la_ignore_before_us a) ''tx'' ''de'' DEFAULT_HCP2_BAUD False
                     (ha_la_min_status_frames a) of
                Inl e \<Rightarrow> Inl e
              | Inr rep \<Rightarrow> Inr (Some rep))))"

subsection \<open>One session\<close>

record 't outcomes =
  oc_pre :: "nat \<Rightarrow> int"
  oc_post :: "nat \<Rightarrow> int"
  oc_tuning :: tuning_outcome
  oc_secrets :: "string option"
  oc_entities :: "entity list result"
  oc_client :: "api_call \<Rightarrow> string option"
  oc_completed :: nat
  oc_serial :: "'t result"
  oc_clock :: nat
  oc_env :: "'t env"
  oc_stop :: "nat \<Rightarrow> stop_outcome"
  oc_http :: http_outcome
  oc_str_other :: "jval \<Rightarrow> string"
  oc_capture :: capture

record session =
  se_run_index :: int
  se_args :: hil_args
  se_command_mode :: string
  se_cycles :: int
  se_api_encryption :: string
  se_button_ids :: button_map
  se_host_tuning :: "tuning option"
  se_pre :: "(string \<times> int) list"
  se_loads :: "load list"
  se_post :: "(string \<times> int) list"
  se_commands :: "string list"
  se_command_errors :: "string list"
  se_simulation :: "report option"
  se_health :: "device_health option"
  se_logic :: "verify_report option"
  se_latency_authority :: string
  se_verdict :: string

definition session_checks :: "hil_args \<Rightarrow> int \<Rightarrow> (bool \<times> string) list" where
  "session_checks a cycles =
     [(cycles < 1, ''--cycles must be positive''),
      (ha_speed_factor a \<le> 0, ''--speed-factor must be positive''),
      (ha_progress_interval_s a < 0, ''--progress-interval-s must not be negative''),
      (ha_fault_every_cycles a < 0, ''--fault-every-cycles must not be negative''),
      (ha_door_travel_cycles a < 1, ''--door-travel-cycles must be positive''),
      (ha_reverse_dwell_cycles a < 0 \<or> ha_stop_latency_cycles a < 0, ''door cycle delays must not be negative'')]"

definition mode_checks :: "hil_args \<Rightarrow> string \<Rightarrow> button_map \<Rightarrow> (bool \<times> string) list" where
  "mode_checks a mode ids =
     [(mode = ''native-api'' \<and> scenario_uses_esphome_commands a \<and>
         \<not> (given (ha_esp_cover_object_id a) \<or> ids \<noteq> []),
       ''native API command mode requires --esp-cover-object-id or --esp-button-object-id for command scenarios''),
      (mode = ''native-api'' \<and> \<not> given (ha_esp_host a), ''native API command injection requires --esp-host''),
      (mode = ''emulated'' \<and> ha_expect_button a \<noteq> [],
       ''--expect-button requires decoded HCP2 output; emulated command mode records emulated_button_observations instead'')]"

fun first_failed :: "(bool \<times> string) list \<Rightarrow> unit result" where
  "first_failed [] = Inr ()"
| "first_failed ((bad, message) # rest) = (if bad then Inl (ValueError message) else first_failed rest)"

text \<open>Everything before the first effect: the checks in their order, and the empty report.\<close>

definition new_session ::
  "'t outcomes \<Rightarrow> hil_args \<Rightarrow> int \<Rightarrow> int \<Rightarrow> string \<Rightarrow> button_map \<Rightarrow> session"
where
  "new_session oc a run_index cycles mode ids =
     \<lparr>se_run_index = run_index, se_args = a, se_command_mode = mode, se_cycles = cycles,
      se_api_encryption =
        (if given (load_api_key (ha_esp_api_key a) (oc_secrets oc) (ha_api_key_secret a))
         then ''noise'' else ''plaintext''),
      se_button_ids = ids,
      se_host_tuning = (if run_index = 1 then Some (apply_host_tuning (oc_tuning oc) a) else None),
      se_pre = [], se_loads = [], se_post = [], se_commands = [], se_command_errors = [],
      se_simulation = None, se_health = None, se_logic = None,
      se_latency_authority = ''host_round_trip_until_logic_analyzer'', se_verdict = ''not-run''\<rparr>"

definition prepare_session ::
  "string \<Rightarrow> 't outcomes \<Rightarrow> hil_args \<Rightarrow> int \<Rightarrow> string list option \<Rightarrow>
   (session \<times> rat option \<times> string list) result"
where
  "prepare_session sys_executable oc a run_index load_commands =
     (case effective_cycles a of
        Inl e \<Rightarrow> Inl e
      | Inr cycles \<Rightarrow>
     (case effective_duration_s a of
        Inl e \<Rightarrow> Inl e
      | Inr duration_s \<Rightarrow>
     (case first_failed (session_checks a cycles) of
        Inl e \<Rightarrow> Inl e
      | Inr _ \<Rightarrow>
     (case (case load_commands of
              None \<Rightarrow> effective_load_commands sys_executable a | Some commands \<Rightarrow> Inr commands) of
        Inl e \<Rightarrow> Inl e
      | Inr commands \<Rightarrow>
     (case parse_button_object_ids (ha_esp_button_object_id a) of
        Inl e \<Rightarrow> Inl e
      | Inr ids \<Rightarrow>
         (let mode = resolve_command_mode a ids
          in case first_failed (mode_checks a mode ids) of
               Inl e \<Rightarrow> Inl e
             | Inr _ \<Rightarrow> Inr (new_session oc a run_index cycles mode ids, duration_s, commands)))))))"

fun run_pre :: "(nat \<Rightarrow> int) \<Rightarrow> nat \<Rightarrow> string list \<Rightarrow> (string \<times> int) list \<times> bool" where
  "run_pre codes i [] = ([], True)"
| "run_pre codes i (command # rest) =
     (if codes i \<noteq> 0 then ([(command, codes i)], False)
      else case run_pre codes (Suc i) rest of (records, ok) \<Rightarrow> ((command, codes i) # records, ok))"

definition sim_options_of :: "hil_args \<Rightarrow> string \<Rightarrow> door_model \<Rightarrow> sim_options" where
  "sim_options_of a mode door =
     default_options
       \<lparr>o_speed_factor := ha_speed_factor a, o_missed_poll_threshold := ha_missed_poll_threshold a,
        o_expected_buttons := set (ha_expect_button a), o_abort_on_first_miss := ha_abort_on_miss a,
        o_scenario := ha_scenario a, o_door_model := Some door,
        o_fault_every_cycles := ha_fault_every_cycles a, o_fault_cycles := set (ha_fault_cycle a),
        o_goto_position := ha_goto_position_raw a, o_emulate_commands := (mode = ''emulated'')\<rparr>"

text \<open>Construction and run of the simulator on a transport; the report, and the final state of the transport.\<close>

definition simulate ::
  "hil_args \<Rightarrow> string \<Rightarrow> int \<Rightarrow> rat option \<Rightarrow> 't env \<Rightarrow> nat \<Rightarrow> 't \<Rightarrow> (report \<times> 't) result"
where
  "simulate a mode cycles duration_s env now transport =
     (case build_door_model a of
        Inl e \<Rightarrow> Inl e
      | Inr door \<Rightarrow>
     (case SupraMaticSimulator transport now (sim_options_of a mode door) of
        Inl e \<Rightarrow> Inl e
      | Inr s \<Rightarrow>
     (case simulator_run env cycles (set (ha_fault a)) (ha_command a) duration_s s of
        Inl e \<Rightarrow> Inl e
      | Inr s \<Rightarrow> Inr (s_report s, s_transport s))))"

text \<open>With a sender, the commands it accepted come back with the report.\<close>

definition simulate_mode ::
  "'t outcomes \<Rightarrow> hil_args \<Rightarrow> string \<Rightarrow> int \<Rightarrow> rat option \<Rightarrow> 't \<Rightarrow> (report \<times> string list) result"
where
  "simulate_mode oc a mode cycles duration_s transport =
     (if mode = ''none'' then
        (case simulate a mode cycles duration_s (oc_env oc) (oc_clock oc) transport of
           Inl e \<Rightarrow> Inl e | Inr (r, _) \<Rightarrow> Inr (r, []))
      else
        (case simulate a mode cycles duration_s
                (if mode = ''emulated'' then emulated_env (oc_env oc) else native_env (oc_env oc))
                (oc_clock oc) (transport, []) of
           Inl e \<Rightarrow> Inl e | Inr (r, _, commands) \<Rightarrow> Inr (r, commands)))"

text \<open>The commands of the native sender complete in the background: so many of them before its errors are read.\<close>

definition sender_errors :: "'t outcomes \<Rightarrow> string \<Rightarrow> native_sender \<Rightarrow> string list \<Rightarrow> string list" where
  "sender_errors oc mode sender commands =
     (if mode = ''native-api''
      then ns_errors (fold (record_done (oc_client oc)) (take (oc_completed oc) commands) sender)
      else [])"

definition simulated_verdict :: "string \<Rightarrow> string list \<Rightarrow> report \<Rightarrow> string" where
  "simulated_verdict mode errors r =
     (if r_verdict r = ''ok'' \<and> errors \<noteq> []
      then (if mode = ''native-api'' then ''native-api-command-failed'' else ''emulated-command-failed'')
      else r_verdict r)"

text \<open>The body of \<open>try\<close> after the load processes are started, with its effects.\<close>

definition start_sender :: "'t outcomes \<Rightarrow> session \<Rightarrow> native_sender result \<times> effect list" where
  "start_sender oc se =
     (let sender = NativeApiCommandSender (ha_esp_cover_object_id (se_args se)) (se_button_ids se)
      in if se_command_mode se = ''native-api'' then (start_native (oc_entities oc) sender, [Started_Sender])
         else (Inr sender, if se_command_mode se = ''emulated'' then [Started_Sender] else []))"

definition session_body :: "'t outcomes \<Rightarrow> rat option \<Rightarrow> session \<Rightarrow> session result \<times> effect list" where
  "session_body oc duration_s se =
     (case start_sender oc se of
        (Inl e, effs) \<Rightarrow> (Inl e, effs)
      | (Inr sender, effs) \<Rightarrow>
         (case oc_serial oc of
            Inl e \<Rightarrow> (Inl e, effs)
          | Inr transport \<Rightarrow>
             (case simulate_mode oc (se_args se) (se_command_mode se) (se_cycles se) duration_s transport of
                Inl e \<Rightarrow> (Inl e, effs @ [Opened_Serial])
              | Inr (r, commands) \<Rightarrow>
                  (let errors = sender_errors oc (se_command_mode se) sender commands
                   in (Inr (se\<lparr>se_simulation := Some r, se_commands := commands, se_command_errors := errors,
                               se_verdict := simulated_verdict (se_command_mode se) errors r\<rparr>),
                       effs @ [Opened_Serial, Ran_Simulation])))))"

text \<open>\<open>finally\<close>: the port and the sender that were started, then every load process.\<close>

definition cleanup :: "effect list \<Rightarrow> effect list" where
  "cleanup effs =
     (if Opened_Serial \<in> set effs then [Closed_Serial] else []) @
     (if Started_Sender \<in> set effs then [Stopped_Sender] else [])"

definition guarded_body ::
  "'t outcomes \<Rightarrow> rat option \<Rightarrow> string list \<Rightarrow> session \<Rightarrow> session result \<times> effect list"
where
  "guarded_body oc duration_s commands se =
     (case session_body oc duration_s se of
        (res, effs) \<Rightarrow>
         (case stop_loads (oc_stop oc) 0 (map start_load commands) of
            (stopped, stop_effs) \<Rightarrow>
             (case stopped of
                Inl e \<Rightarrow> Inl e
              | Inr loads \<Rightarrow> (case res of Inl e \<Rightarrow> Inl e | Inr se \<Rightarrow> Inr (se\<lparr>se_loads := loads\<rparr>)),
              map Started_Load [0..<length commands] @ effs @ cleanup effs @ stop_effs)))"

fun run_post :: "(nat \<Rightarrow> int) \<Rightarrow> nat \<Rightarrow> string list \<Rightarrow> session \<Rightarrow> session" where
  "run_post codes i [] se = se"
| "run_post codes i (command # rest) se =
     run_post codes (Suc i) rest
       (se\<lparr>se_post := se_post se @ [(command, codes i)],
           se_verdict := (if se_verdict se = ''ok'' \<and> codes i \<noteq> 0 then ''post-command-failed''
                          else se_verdict se)\<rparr>)"

definition add_health :: "'t outcomes \<Rightarrow> session \<Rightarrow> session" where
  "add_health oc se =
     (case fetch_device_health (oc_str_other oc) (oc_http oc) (se_args se) of
        None \<Rightarrow> se
      | Some dh \<Rightarrow>
          se\<lparr>se_health := Some dh,
             se_verdict :=
               (if se_verdict se = ''ok'' \<and> dh_continuity dh = ''fail'' then ''device-health-failed''
                else if se_verdict se = ''ok'' \<and> ha_health_check (se_args se) = ''require'' \<and>
                  dh_continuity dh = ''unknown'' then ''device-health-unavailable''
                else se_verdict se)\<rparr>)"

definition add_logic :: "'t outcomes \<Rightarrow> session \<Rightarrow> session result" where
  "add_logic oc se =
     (case analyze_logic_capture (oc_capture oc) (se_args se) of
        Inl e \<Rightarrow> Inl e
      | Inr None \<Rightarrow> Inr se
      | Inr (Some rep) \<Rightarrow>
          Inr (se\<lparr>se_logic := Some rep,
                  se_latency_authority :=
                    (if lr_matched_pairs (vr_latency rep) \<noteq> 0 then ''logic_analyzer''
                     else se_latency_authority se),
                  se_verdict :=
                    (if se_verdict se = ''ok'' \<and> vr_verdict rep = ''fail'' then ''logic-analyzer-failed''
                     else se_verdict se)\<rparr>))"

definition finish_session :: "'t outcomes \<Rightarrow> session \<Rightarrow> session result" where
  "finish_session oc se =
     add_logic oc (add_health oc (run_post (oc_post oc) 0 (ha_post_command (se_args se)) se))"

definition run_session ::
  "string \<Rightarrow> 't outcomes \<Rightarrow> hil_args \<Rightarrow> int \<Rightarrow> string list option \<Rightarrow> session result \<times> effect list"
where
  "run_session sys_executable oc a run_index load_commands =
     (case prepare_session sys_executable oc a run_index load_commands of
        Inl e \<Rightarrow> (Inl e, [])
      | Inr (se, duration_s, commands) \<Rightarrow>
         (case run_pre (oc_pre oc) 0 (ha_pre_command a) of
            (records, ok) \<Rightarrow>
              (let pre_effs = map (Ran_Shell \<circ> fst) records; se = se\<lparr>se_pre := records\<rparr>
               in if \<not> ok then (Inr (se\<lparr>se_verdict := ''pre-command-failed''\<rparr>), pre_effs)
                  else case guarded_body oc duration_s commands se of
                    (Inl e, effs) \<Rightarrow> (Inl e, pre_effs @ effs)
                  | (Inr se, effs) \<Rightarrow>
                      (finish_session oc se,
                       pre_effs @ effs @ map Ran_Shell (ha_post_command a) @
                       (if fetch_device_health (oc_str_other oc) (oc_http oc) a = None then []
                        else [Fetched_Health])))))"

subsection \<open>The suite\<close>

record aggregate =
  ag_args :: hil_args
  ag_command_mode :: string
  ag_cycles_per_run :: int
  ag_verdict :: string
  ag_total_polls_sent :: int
  ag_total_replies :: int
  ag_total_misses :: int
  ag_max_consecutive_misses :: int
  ag_worst_host_rtt_max_ms :: "rat option"
  ag_worst_host_rtt_p99_ms :: "rat option"
  ag_runs :: "session list"

definition simulations :: "session list \<Rightarrow> report list" where
  "simulations runs = List.map_filter se_simulation runs"

fun suite_verdict :: "session list \<Rightarrow> string" where
  "suite_verdict [] = ''ok''"
| "suite_verdict (run # rest) = (if se_verdict run \<noteq> ''ok'' then se_verdict run else suite_verdict rest)"

definition worst :: "rat list \<Rightarrow> rat option" where
  "worst xs = (case xs of [] \<Rightarrow> None | x # ys \<Rightarrow> Some (foldl max x ys))"

definition p99_of :: "report \<Rightarrow> rat option" where
  "p99_of r = (if r_latencies_ms r = [] then None else percentile (sort (r_latencies_ms r)) 99)"

definition aggregate_reports :: "hil_args \<Rightarrow> session list \<Rightarrow> aggregate result" where
  "aggregate_reports a runs =
     (case parse_button_object_ids (ha_esp_button_object_id a) of
        Inl e \<Rightarrow> Inl e
      | Inr ids \<Rightarrow>
     (case effective_cycles a of
        Inl e \<Rightarrow> Inl e
      | Inr cycles \<Rightarrow>
         (let sims = simulations runs
          in Inr \<lparr>ag_args = a, ag_command_mode = resolve_command_mode a ids, ag_cycles_per_run = cycles,
                  ag_verdict = suite_verdict runs,
                  ag_total_polls_sent = sum_list (map r_polls_sent sims),
                  ag_total_replies = sum_list (map r_replies sims),
                  ag_total_misses = sum_list (map r_misses sims),
                  ag_max_consecutive_misses =
                    (case map r_max_consecutive_misses sims of [] \<Rightarrow> 0 | x # ys \<Rightarrow> foldl max x ys),
                  ag_worst_host_rtt_max_ms = worst (List.map_filter r_latency_max_seen_ms sims),
                  ag_worst_host_rtt_p99_ms = worst (List.map_filter p99_of sims),
                  ag_runs = runs\<rparr>)))"

text \<open>The runs from \<open>index\<close> to \<open>repeat\<close>; the loop ends with the first run that is not \<open>ok\<close>.\<close>

function run_suite_loop ::
  "string \<Rightarrow> (int \<Rightarrow> 't outcomes) \<Rightarrow> hil_args \<Rightarrow> string list \<Rightarrow> int \<Rightarrow> session list \<Rightarrow> session list result"
where
  "run_suite_loop sys_executable ocs a commands index runs =
     (if ha_repeat a < index then Inr runs
      else case fst (run_session sys_executable (ocs index) a index (Some commands)) of
        Inl e \<Rightarrow> Inl e
      | Inr se \<Rightarrow>
          if se_verdict se \<noteq> ''ok'' then Inr (runs @ [se])
          else run_suite_loop sys_executable ocs a commands (index + 1) (runs @ [se]))"
  by pat_completeness auto
termination
  by (relation "measure (\<lambda>(_, _, a, _, index, _). nat (ha_repeat a + 1 - index))") auto

declare run_suite_loop.simps [simp del]

datatype suite_report = Single session | Aggregate aggregate

definition run_suite :: "string \<Rightarrow> (int \<Rightarrow> 't outcomes) \<Rightarrow> hil_args \<Rightarrow> suite_report result" where
  "run_suite sys_executable ocs a =
     (if ha_repeat a < 1 then Inl (ValueError ''--repeat must be positive'')
      else if ha_settle_s a < 0 then Inl (ValueError ''--settle-s must be non-negative'')
      else case effective_load_commands sys_executable a of
        Inl e \<Rightarrow> Inl e
      | Inr commands \<Rightarrow>
          if ha_repeat a = 1 then
            (case fst (run_session sys_executable (ocs 1) a 1 (Some commands)) of
               Inl e \<Rightarrow> Inl e | Inr se \<Rightarrow> Inr (Single se))
          else case run_suite_loop sys_executable ocs a commands 1 [] of
            Inl e \<Rightarrow> Inl e
          | Inr runs \<Rightarrow> (case aggregate_reports a runs of Inl e \<Rightarrow> Inl e | Inr ag \<Rightarrow> Inr (Aggregate ag)))"

definition suite_report_verdict :: "suite_report \<Rightarrow> string" where
  "suite_report_verdict rep = (case rep of Single se \<Rightarrow> se_verdict se | Aggregate ag \<Rightarrow> ag_verdict ag)"

text \<open>\<open>main\<close>: the exit code.\<close>

definition hil_main :: "string \<Rightarrow> (int \<Rightarrow> 't outcomes) \<Rightarrow> hil_args \<Rightarrow> int" where
  "hil_main sys_executable ocs a =
     (case run_suite sys_executable ocs a of
        Inl _ \<Rightarrow> 2
      | Inr rep \<Rightarrow> if suite_report_verdict rep = ''ok'' then 0 else 1)"

end
