(* ===== verification/Hil_Load_Props.thy ===== *)
theory Hil_Load_Props
  imports Hil_Load Simulator_Props
begin

text \<open>
  Properties of the load runs: an \<open>ok\<close> session means that every part of it was, the load processes do not outlive
  a session, and the suite reports the first run that failed.
\<close>

subsection \<open>The verdict of a session\<close>

lemma first_failed_ok: "first_failed checks = Inr () \<longleftrightarrow> list_all (\<lambda>(bad, _). \<not> bad) checks"
  by (induction checks rule: first_failed.induct) auto

lemma run_pre_ok:
  "run_pre codes i commands = (records, True) \<Longrightarrow>
   map fst records = commands \<and> list_all (\<lambda>(_, code). code = 0) records"
  by (induction codes i commands arbitrary: records rule: run_pre.induct)
     (auto split: if_splits prod.splits)

lemma run_post_same [upd_simps]:
  "se_args (run_post codes i commands se) = se_args se"
  "se_pre (run_post codes i commands se) = se_pre se"
  "se_simulation (run_post codes i commands se) = se_simulation se"
  "se_command_errors (run_post codes i commands se) = se_command_errors se"
  "se_health (run_post codes i commands se) = se_health se"
  "se_logic (run_post codes i commands se) = se_logic se"
  by (induction codes i commands se rule: run_post.induct) simp_all

lemma run_post_records:
  "se_post (run_post codes i commands se) =
   se_post se @ zip commands (map codes [i..<i + length commands])"
  by (induction codes i commands se rule: run_post.induct) (simp_all add: upt_conv_Cons del: upt_Suc)

lemma run_post_verdict:
  "se_verdict (run_post codes i commands se) =
   (if se_verdict se = ''ok'' \<and> \<not> list_all (\<lambda>code. code = 0) (map codes [i..<i + length commands])
    then ''post-command-failed'' else se_verdict se)"
  by (induction codes i commands se rule: run_post.induct) (simp_all add: upt_conv_Cons del: upt_Suc)

lemma zip_codes_zero: "list_all (\<lambda>code. code = 0) codes \<Longrightarrow> list_all (\<lambda>(_, code). code = 0) (zip xs codes)"
  by (auto simp: list_all_iff dest: set_zip_rightD)

lemma run_post_ok:
  assumes "se_verdict (run_post codes i commands se) = ''ok''" and "se_post se = []"
  shows "se_verdict se = ''ok''" and "map fst (se_post (run_post codes i commands se)) = commands"
    and "list_all (\<lambda>(_, code). code = 0) (se_post (run_post codes i commands se))"
  using assms by (auto simp: run_post_verdict run_post_records zip_codes_zero split: if_splits)

text \<open>The health of the device and the capture can only lower the verdict.\<close>

definition health_passed :: "session \<Rightarrow> bool" where
  "health_passed se \<longleftrightarrow>
     (case se_health se of
        None \<Rightarrow> ha_health_check (se_args se) = ''never'' \<or> \<not> given (ha_esp_host (se_args se))
      | Some dh \<Rightarrow> dh_continuity dh = ''ok'' \<or>
          dh_continuity dh = ''unknown'' \<and> ha_health_check (se_args se) \<noteq> ''require'')"

definition capture_passed :: "session \<Rightarrow> bool" where
  "capture_passed se \<longleftrightarrow>
     (case se_logic se of None \<Rightarrow> ha_la_input (se_args se) = None | Some rep \<Rightarrow> vr_verdict rep = ''ok'')"

lemma fetched_continuity:
  "fetch_device_health str_other oc a = Some dh \<Longrightarrow> dh_continuity dh \<in> {''ok'', ''fail'', ''unknown''}"
  by (auto simp: fetch_device_health_def health_unknown_def classify_device_health_def Let_def
      split: if_splits http_outcome.splits option.splits jval.splits)

lemma add_health_same [upd_simps]:
  "se_args (add_health oc se) = se_args se" "se_pre (add_health oc se) = se_pre se"
  "se_post (add_health oc se) = se_post se" "se_simulation (add_health oc se) = se_simulation se"
  "se_command_errors (add_health oc se) = se_command_errors se" "se_logic (add_health oc se) = se_logic se"
  by (simp_all add: add_health_def split: option.split)

lemma add_health_ok:
  assumes "se_verdict (add_health oc se) = ''ok''" and "se_health se = None"
  shows "se_verdict se = ''ok'' \<and> health_passed (add_health oc se)"
proof (cases "fetch_device_health (oc_str_other oc) (oc_http oc) (se_args se)")
  case None
  then have "ha_health_check (se_args se) = ''never'' \<or> \<not> given (ha_esp_host (se_args se))"
    by (simp add: fetch_device_health_def split: if_splits)
  then show ?thesis
    using assms None by (simp add: add_health_def health_passed_def)
next
  case (Some dh)
  then show ?thesis
    using assms fetched_continuity [OF Some]
    by (auto simp: add_health_def health_passed_def split: if_splits)
qed

lemma verified_verdict: "verify_samples eo samples us signal gate baud gaps n = Inr rep \<Longrightarrow>
    vr_verdict rep = ''ok'' \<or> vr_verdict rep = ''fail''"
  by (auto simp: verify_samples_def combine_reports_def verdict_of_def Let_def split: sum.splits if_splits)

lemma add_logic_ok:
  assumes "add_logic oc se = Inr se'" and "se_verdict se' = ''ok''" and "se_logic se = None"
  shows "se_verdict se = ''ok'' \<and> capture_passed se'" and "se_args se' = se_args se" and "se_pre se' = se_pre se"
    and "se_post se' = se_post se" and "se_simulation se' = se_simulation se"
    and "se_command_errors se' = se_command_errors se" and "health_passed se' = health_passed se"
proof -
  show "se_verdict se = ''ok'' \<and> capture_passed se'"
    using assms by (auto simp: add_logic_def analyze_logic_capture_def capture_passed_def
        dest!: verified_verdict split: sum.splits option.splits if_splits)
qed (use assms(1) in \<open>auto simp: add_logic_def health_passed_def split: sum.splits option.splits\<close>)

lemma prepared_session:
  assumes "prepare_session py oc a i lc = Inr (se, d, commands)"
  shows "se_args se = a" "se_post se = []" "se_health se = None" "se_logic se = None" "se_simulation se = None"
    and "se_command_errors se = []"
  using assms by (auto simp: prepare_session_def new_session_def Let_def split: sum.splits)

lemma body_session:
  assumes "session_body oc d se = (Inr se', effs)"
  obtains r errors commands where "se' = se\<lparr>se_simulation := Some r, se_commands := commands,
      se_command_errors := errors, se_verdict := simulated_verdict (se_command_mode se) errors r\<rparr>"
  using assms by (auto simp: session_body_def Let_def split: sum.splits prod.splits)

lemma simulated_verdict_ok: "simulated_verdict mode errors r = ''ok'' \<Longrightarrow> r_verdict r = ''ok'' \<and> errors = []"
  by (auto simp: simulated_verdict_def split: if_splits)

lemma guarded_session:
  assumes "guarded_body oc d commands se = (Inr se', effs)"
  obtains r errors sent loads where "se' = se\<lparr>se_simulation := Some r, se_commands := sent,
      se_command_errors := errors, se_verdict := simulated_verdict (se_command_mode se) errors r, se_loads := loads\<rparr>"
proof -
  obtain se1 effs1 loads where "session_body oc d se = (Inr se1, effs1)" and se': "se' = se1\<lparr>se_loads := loads\<rparr>"
    using assms by (auto simp: guarded_body_def split: sum.splits prod.splits)
  from this(1) show ?thesis
    by (rule body_session) (use that se' in auto)
qed

text \<open>The shape of a session that returns: the shell command that failed, or the end of the whole sequence.\<close>

lemma run_session_cases:
  assumes "run_session py oc a i lc = (Inr se', effs)"
  obtains (failed) "se_verdict se' = ''pre-command-failed''"
  | (finished) se r errors sent loads records where "se_args se = a" and "se_post se = []"
      and "se_health se = None" and "se_logic se = None" and "map fst records = ha_pre_command a"
      and "list_all (\<lambda>(_, code). code = 0) records"
      and "finish_session oc (se\<lparr>se_pre := records, se_simulation := Some r, se_commands := sent,
        se_command_errors := errors, se_verdict := simulated_verdict (se_command_mode se) errors r,
        se_loads := loads\<rparr>) = Inr se'"
proof -
  obtain se d commands where p: "prepare_session py oc a i lc = Inr (se, d, commands)"
    using assms by (auto simp: run_session_def split: sum.splits)
  note se = prepared_session [OF p]
  obtain records ok where pre: "run_pre (oc_pre oc) 0 (ha_pre_command a) = (records, ok)"
    by (cases "run_pre (oc_pre oc) 0 (ha_pre_command a)")
  show ?thesis
  proof (cases ok)
    case False
    then show ?thesis
      using assms p pre by (intro failed) (auto simp: run_session_def Let_def)
  next
    case True
    obtain se1 effs1 where g: "guarded_body oc d commands (se\<lparr>se_pre := records\<rparr>) = (Inr se1, effs1)"
        and fin: "finish_session oc se1 = Inr se'"
      using assms p pre True by (auto simp: run_session_def Let_def split: sum.splits prod.splits)
    show ?thesis
      using g by (rule guarded_session)
        (use finished [of se records] se run_pre_ok [of _ _ _ records] pre True fin in auto)
  qed
qed

text \<open>What an \<open>ok\<close> verdict of a session promises.\<close>

definition session_passed :: "hil_args \<Rightarrow> session \<Rightarrow> bool" where
  "session_passed a se \<longleftrightarrow>
     se_args se = a \<and> map fst (se_pre se) = ha_pre_command a \<and> map fst (se_post se) = ha_post_command a \<and>
     list_all (\<lambda>(_, code). code = 0) (se_pre se @ se_post se) \<and>
     (case se_simulation se of None \<Rightarrow> False | Some r \<Rightarrow> r_verdict r = ''ok'') \<and>
     se_command_errors se = [] \<and> health_passed se \<and> capture_passed se"

lemma finish_session_ok:
  assumes "finish_session oc se = Inr se'" and "se_verdict se' = ''ok''"
    and "se_post se = []" and "se_health se = None" and "se_logic se = None"
  shows "se_verdict se = ''ok''" and "se_args se' = se_args se" and "se_pre se' = se_pre se"
    and "map fst (se_post se') = ha_post_command (se_args se)" and "list_all (\<lambda>(_, code). code = 0) (se_post se')"
    and "se_simulation se' = se_simulation se" and "se_command_errors se' = se_command_errors se"
    and "health_passed se'" and "capture_passed se'"
proof -
  let ?p = "run_post (oc_post oc) 0 (ha_post_command (se_args se)) se"
  let ?h = "add_health oc ?p"
  have same: "se_logic ?p = None" "se_health ?p = None"
    using assms(4,5) by (simp_all add: upd_simps)
  have logic: "add_logic oc ?h = Inr se'"
    using assms(1) by (simp add: finish_session_def)
  note l = add_logic_ok [OF this assms(2)]
  have h: "se_verdict ?p = ''ok''" "health_passed ?h"
    using add_health_ok [of oc ?p] l(1) same by (simp_all add: upd_simps)
  note p = run_post_ok [OF h(1) assms(3)]
  show "se_verdict se = ''ok''" and "se_args se' = se_args se" and "se_pre se' = se_pre se"
    and "map fst (se_post se') = ha_post_command (se_args se)" and "list_all (\<lambda>(_, code). code = 0) (se_post se')"
    and "se_simulation se' = se_simulation se" and "se_command_errors se' = se_command_errors se"
    and "health_passed se'" and "capture_passed se'"
    using l p h(2) same by (simp_all add: upd_simps)
qed

lemma session_ok_passed:
  assumes "run_session py oc a i lc = (Inr se', effs)" and "se_verdict se' = ''ok''"
  shows "session_passed a se'"
  using assms(1)
proof (cases rule: run_session_cases)
  case failed
  then show ?thesis using assms(2) by simp
next
  case (finished se r errors sent loads records)
  note f = finish_session_ok [OF finished(7) assms(2)]
  show ?thesis
    using f finished(1-6) by (auto simp: session_passed_def dest!: simulated_verdict_ok)
qed

subsection \<open>The suite\<close>

lemma suite_verdict_ok: "suite_verdict runs = ''ok'' \<longleftrightarrow> list_all (\<lambda>se. se_verdict se = ''ok'') runs"
  by (induction runs) auto

lemma suite_loop_ok:
  "run_suite_loop py ocs a commands index runs = Inr runs' \<Longrightarrow> suite_verdict runs' = ''ok'' \<Longrightarrow>
   \<exists>fin. runs' = runs @ fin \<and>
     map (\<lambda>i. fst (run_session py (ocs i) a i (Some commands))) [index..ha_repeat a] = map Inr fin"
proof (induction py ocs a commands index runs arbitrary: runs' rule: run_suite_loop.induct)
  case (1 py ocs a commands index runs)
  show ?case
  proof (cases "ha_repeat a < index")
    case True
    then show ?thesis using 1(2) by (simp add: run_suite_loop.simps)
  next
    case False
    obtain se where se: "fst (run_session py (ocs index) a index (Some commands)) = Inr se"
      using 1(2) False by (subst (asm) run_suite_loop.simps) (auto split: sum.splits)
    have ok: "se_verdict se = ''ok''"
      using 1(2,3) False se by (subst (asm) run_suite_loop.simps) (auto simp: suite_verdict_ok split: if_splits)
    have "run_suite_loop py ocs a commands (index + 1) (runs @ [se]) = Inr runs'"
      using 1(2) False se ok by (subst (asm) run_suite_loop.simps) simp
    then obtain finished where "runs' = (runs @ [se]) @ finished"
        "map (\<lambda>i. fst (run_session py (ocs i) a i (Some commands))) [index + 1..ha_repeat a] = map Inr finished"
      using 1(1) [OF False se] ok 1(3) by blast
    then show ?thesis
      using se False by (intro exI [of _ "se # finished"]) (simp add: upto.simps [of index])
  qed
qed

text \<open>C2: The exit code 0 means that everything passed: the configured number of sessions ran, and in each of them
  every shell command succeeded, the simulation ended with the verdict \<open>ok\<close>, no press of a button failed, the device
  health, unless it is switched off, is not a failure and known where it is required, and a configured logic capture
  verified.\<close>

theorem exit_zero_means_all_passed:
  assumes "hil_main py ocs a = 0"
  shows "\<exists>commands runs. 1 \<le> ha_repeat a \<and> effective_load_commands py a = Inr commands \<and>
    map (\<lambda>i. fst (run_session py (ocs i) a i (Some commands))) [1..ha_repeat a] = map Inr runs \<and>
    list_all (session_passed a) runs"
proof -
  obtain rep where rep: "run_suite py ocs a = Inr rep" "suite_report_verdict rep = ''ok''"
    using assms by (auto simp: hil_main_def split: sum.splits if_splits)
  then obtain commands where c: "1 \<le> ha_repeat a" "effective_load_commands py a = Inr commands"
    by (auto simp: run_suite_def split: if_splits sum.splits)
  let ?run = "\<lambda>i. fst (run_session py (ocs i) a i (Some commands))"
  obtain runs where runs: "map ?run [1..ha_repeat a] = map Inr runs" "list_all (\<lambda>se. se_verdict se = ''ok'') runs"
  proof (cases "ha_repeat a = 1")
    case True
    then obtain se where "?run 1 = Inr se" "se_verdict se = ''ok''"
      using rep c by (auto simp: run_suite_def suite_report_verdict_def split: sum.splits if_splits)
    then show ?thesis using that [of "[se]"] True by simp
  next
    case False
    then obtain fin where "run_suite_loop py ocs a commands 1 [] = Inr fin" "suite_verdict fin = ''ok''"
      using rep c by (auto simp: run_suite_def suite_report_verdict_def aggregate_reports_def Let_def
          split: sum.splits if_splits)
    then show ?thesis using that [of fin] suite_loop_ok suite_verdict_ok by fastforce
  qed
  have "session_passed a se" if "se \<in> set runs" for se
  proof -
    have "Inr se \<in> set (map ?run [1..ha_repeat a])"
      unfolding runs(1) using that by simp
    then obtain i where "?run i = Inr se" by (metis (no_types, lifting) imageE list.set_map)
    moreover have "se_verdict se = ''ok''"
      using runs(2) that by (simp add: list_all_iff)
    ultimately show ?thesis
      using session_ok_passed [of py "ocs i" a i "Some commands" se] by (metis prod.collapse)
  qed
  then show ?thesis
    using c runs(1) by (auto simp: list_all_iff)
qed

text \<open>A process that ends within five seconds of \<open>kill\<close> at the latest.\<close>

definition stoppable :: "stop_outcome \<Rightarrow> bool" where
  "stoppable oc \<longleftrightarrow> so_poll oc \<noteq> None \<or> so_wait oc \<noteq> None \<or> so_wait_killed oc \<noteq> None"

lemma stop_load_stoppable: "stoppable oc \<Longrightarrow> \<exists>l'. stop_load oc l = Inr l' \<and> ld_returncode l' \<noteq> None"
  by (auto simp: stoppable_def stop_load_def split: option.split)

lemma stop_loads_all:
  assumes "\<And>i. stoppable (ocs i)"
  shows "\<exists>ls'. stop_loads ocs i ls = (Inr ls', map Stopped_Load [i..<i + length ls]) \<and>
    list_all (\<lambda>l. ld_returncode l \<noteq> None) ls' \<and> length ls' = length ls"
proof (induction ls arbitrary: i)
  case (Cons l ls)
  obtain l' where "stop_load (ocs i) l = Inr l'" "ld_returncode l' \<noteq> None"
    using stop_load_stoppable [OF assms] by blast
  then show ?case
    using Cons.IH [of "Suc i"] by (auto simp: upt_conv_Cons simp del: upt_Suc)
qed simp

text \<open>A host on which everything goes well, with the accessory of the simulator's witnesses.\<close>

definition good_host :: "int \<Rightarrow> bytes outcomes" where
  "good_host i =
     \<lparr>oc_pre = \<lambda>_. 0, oc_post = \<lambda>_. 0, oc_tuning = \<lparr>to_nice = None, to_affinity = None\<rparr>, oc_secrets = None,
      oc_entities = Inr [], oc_client = \<lambda>_. None, oc_completed = 0, oc_serial = Inr [], oc_clock = 0,
      oc_env = accessory_env, oc_stop = \<lambda>_. \<lparr>so_poll = None, so_wait = Some 0, so_wait_killed = None\<rparr>,
      oc_http = Http_Reply 200 (Some (JObj example_health)), oc_str_other = \<lambda>_. [], oc_capture = \<lambda>_. Inr []\<rparr>"

definition good_args :: hil_args where
  "good_args = (default_hil_args ''/dev/ttyUSB0'')\<lparr>ha_esp_host := Some ''door.local'', ha_preset := ''hostile'',
     ha_pre_command := [''true''], ha_post_command := [''true''], ha_health_check := ''require''\<rparr>"

lemma good_simulation:
  "\<exists>r t. simulate good_args ''none'' 1000 None accessory_env 0 [] = Inr (r, t) \<and> r_verdict r = ''ok''"
proof -
  obtain door where door: "build_door_model good_args = Inr door"
    by (auto simp: build_door_model_def new_door_def post_init_def good_args_def default_hil_args_def
        REVERSAL_PROFILES_def const_defs Let_def)
  obtain s :: "bytes sim" where s: "SupraMaticSimulator [] 0 (sim_options_of good_args ''none'' door) = Inr s" "calm s"
    by (auto simp: SupraMaticSimulator_def sim_options_of_def default_options_def good_args_def
        default_hil_args_def build_scenario_actions_def SCENARIOS_def COUNTER_PROFILES_def calm_def verdict_ok_def
        SimulationReport_def const_defs)
  have a: "set (ha_fault good_args) = {}" "ha_command good_args = None"
    by (simp_all add: good_args_def default_hil_args_def)
  obtain s' where "simulator_run accessory_env 1000 {} None None s = Inr s'" "r_verdict (s_report s') = ''ok''"
    using calm_run_ok [OF s(2)] by blast
  then show ?thesis
    using door s(1) a by (simp add: simulate_def)
qed

lemmas good_defs = good_args_def default_hil_args_def given_def text_or_empty_def

lemma good_prepare:
  "\<exists>se. prepare_session py (good_host 1) good_args 1 (Some commands) = Inr (se, None, commands) \<and>
     se_args se = good_args \<and> se_command_mode se = ''none'' \<and> se_cycles se = 1000 \<and> se_post se = []"
  by (simp add: prepare_session_def effective_cycles_def effective_duration_s_def session_checks_def
      first_failed_ok [symmetric] parse_button_object_ids_def resolve_command_mode_def
      scenario_uses_esphome_commands_def mode_checks_def new_session_def good_defs const_defs Let_def)

lemma good_stop_loads: "\<exists>loads effs. stop_loads (oc_stop (good_host 1)) 0 ls = (Inr loads, effs)"
  using stop_loads_all [of "oc_stop (good_host 1)" 0 ls] by (auto simp: good_host_def stoppable_def)

lemma good_session:
  "\<exists>se effs. run_session py (good_host 1) good_args 1 (Some commands) = (Inr se, effs) \<and> se_verdict se = ''ok''"
proof -
  obtain se where se: "prepare_session py (good_host 1) good_args 1 (Some commands) = Inr (se, None, commands)"
      "se_args se = good_args" "se_command_mode se = ''none''" "se_cycles se = 1000" "se_post se = []"
    using good_prepare by blast
  obtain r t where r: "simulate good_args ''none'' 1000 None accessory_env 0 [] = Inr (r, t)" "r_verdict r = ''ok''"
    using good_simulation by blast
  obtain loads effs where stop: "stop_loads (oc_stop (good_host 1)) 0 (map start_load commands) = (Inr loads, effs)"
    using good_stop_loads by blast
  define se1 where "se1 = se\<lparr>se_pre := [(''true'', 0)], se_simulation := Some r, se_commands := [],
    se_command_errors := [], se_verdict := ''ok'', se_loads := loads\<rparr>"
  have pre: "run_pre (oc_pre (good_host 1)) 0 (ha_pre_command good_args) = ([(''true'', 0)], True)"
    by (simp add: good_host_def good_args_def)
  have body: "\<exists>effs. guarded_body (good_host 1) None commands (se\<lparr>se_pre := [(''true'', 0)]\<rparr>) = (Inr se1, effs)"
    using se(2-4) r stop by (simp add: guarded_body_def session_body_def start_sender_def simulate_mode_def
        sender_errors_def simulated_verdict_def good_host_def se1_def Let_def)
  have health: "\<exists>dh. fetch_device_health (\<lambda>_. []) (Http_Reply 200 (Some (JObj example_health))) good_args = Some dh \<and>
      dh_continuity dh = ''ok''"
  proof -
    have "cl_continuity (classify_device_health (\<lambda>_. []) example_health False) = ''ok''"
      by code_simp
    then show ?thesis
      by (simp add: fetch_device_health_def good_defs Let_def)
  qed
  have finish: "\<exists>se'. finish_session (good_host 1) se1 = Inr se' \<and> se_verdict se' = ''ok''"
    using se(2) health by (auto simp: finish_session_def add_health_def add_logic_def analyze_logic_capture_def
        se1_def good_host_def good_args_def default_hil_args_def)
  show ?thesis
    using se(1) pre body finish by (auto simp: run_session_def Let_def)
qed

theorem exit_zero_means_all_passed_witness:
  "\<exists>commands runs. effective_load_commands ''python3'' good_args = Inr commands \<and>
    map (\<lambda>i. fst (run_session ''python3'' (good_host i) good_args i (Some commands))) [1..ha_repeat good_args] =
      map Inr runs \<and> list_all (session_passed good_args) runs"
proof -
  obtain commands where c: "effective_load_commands ''python3'' good_args = Inr commands"
    by (simp add: effective_load_commands_def good_defs)
  obtain se effs where "run_session ''python3'' (good_host 1) good_args 1 (Some commands) = (Inr se, effs)"
      "se_verdict se = ''ok''"
    using good_session by blast
  then have "hil_main ''python3'' good_host good_args = 0"
    using c by (simp add: hil_main_def run_suite_def suite_report_verdict_def good_args_def default_hil_args_def)
  then show ?thesis
    using exit_zero_means_all_passed by blast
qed

subsection \<open>Load processes\<close>

text \<open>The effects of the body concern the port and the sender only.\<close>

lemma body_effects:
  "session_body oc d se = (res, effs) \<Longrightarrow> set effs \<subseteq> {Started_Sender, Opened_Serial, Ran_Simulation}"
  by (auto simp: session_body_def start_sender_def Let_def split: sum.splits prod.splits if_splits)

definition is_shell :: "effect \<Rightarrow> bool" where
  "is_shell eff \<longleftrightarrow> (case eff of Ran_Shell _ \<Rightarrow> True | Fetched_Health \<Rightarrow> True | _ \<Rightarrow> False)"

definition released :: "effect list \<Rightarrow> bool" where
  "released effs \<longleftrightarrow>
     list_all (\<lambda>eff. eff \<in> {Started_Sender, Opened_Serial, Ran_Simulation, Closed_Serial, Stopped_Sender}) effs \<and>
     (Opened_Serial \<in> set effs \<longleftrightarrow> Closed_Serial \<in> set effs) \<and>
     (Started_Sender \<in> set effs \<longleftrightarrow> Stopped_Sender \<in> set effs)"

lemma body_released:
  assumes "session_body oc d se = (res, effs)"
  shows "released (effs @ cleanup effs)"
  using body_effects [OF assms] by (auto simp: released_def cleanup_def list_all_iff)

lemma guarded_effects:
  assumes "\<And>i. stoppable (oc_stop oc i)" and "guarded_body oc d commands se = (res, effs)"
  shows "\<exists>during. effs = map Started_Load [0..<length commands] @ during @ map Stopped_Load [0..<length commands] \<and>
    released during"
proof -
  obtain res1 effs1 where b: "session_body oc d se = (res1, effs1)"
    by (cases "session_body oc d se")
  obtain ls where "stop_loads (oc_stop oc) 0 (map start_load commands) = (Inr ls, map Stopped_Load [0..<length commands])"
    using stop_loads_all [of "oc_stop oc" 0 "map start_load commands", OF assms(1)] by auto
  then have "effs = map Started_Load [0..<length commands] @ (effs1 @ cleanup effs1) @ map Stopped_Load [0..<length commands]"
    using assms(2) b by (simp add: guarded_body_def)
  then show ?thesis
    using body_released [OF b] by blast
qed

lemma shells: "list_all is_shell (map (Ran_Shell \<circ> fst) records)" "list_all is_shell (map Ran_Shell cs)"
  by (simp_all add: list_all_iff is_shell_def)



end
