(* ===== verification/Py_Text.thy ===== *)
theory Py_Text
  imports Prelude
begin

text \<open>
  More of Python's text functions, in ASCII: \<open>splitlines\<close>, \<open>split\<close> with a limit, the test whether a text occurs in another, and
  integers in other bases.
\<close>

text \<open>\<open>splitlines\<close>: the ASCII line boundaries; a carriage return and a newline are one.\<close>

definition line_break :: "char \<Rightarrow> bool" where
  "line_break c \<longleftrightarrow> of_char c \<in> {10 :: nat, 11, 12, 13, 28, 29, 30}"

fun split_lines :: "string \<Rightarrow> string \<Rightarrow> string list" where
  "split_lines acc [] = (if acc = [] then [] else [acc])"
| "split_lines acc (c # cs) =
     (if c = CHR 0x0D \<and> cs \<noteq> [] \<and> hd cs = CHR 0x0A then acc # split_lines [] (tl cs)
      else if line_break c then acc # split_lines [] cs
      else split_lines (acc @ [c]) cs)"

text \<open>\<open>int(text, 16)\<close>: blanks around, a sign, a \<open>0x\<close> prefix and single underscores between digits are allowed.\<close>

fun hex_digits_value :: "nat \<Rightarrow> string \<Rightarrow> nat option" where
  "hex_digits_value acc [] = Some acc"
| "hex_digits_value acc (c # cs) =
     (case hex_value c of None \<Rightarrow> None | Some d \<Rightarrow> hex_digits_value (16 * acc + d) cs)"

definition hex_groups_value :: "string \<Rightarrow> nat option" where
  "hex_groups_value t =
     (let groups = py_split CHR ''_'' t
      in if list_ex (\<lambda>g. g = []) groups then None else hex_digits_value 0 (concat groups))"

definition unsigned_hex_value :: "string \<Rightarrow> nat option" where
  "unsigned_hex_value t =
     (if py_lower (take 2 t) = ''0x''
      then hex_groups_value (if take 1 (drop 2 t) = ''_'' then drop 3 t else drop 2 t)
      else hex_groups_value t)"

definition int16 :: "string \<Rightarrow> int result" where
  "int16 t =
     (let value = (case py_strip t of
            [] \<Rightarrow> None
          | c # cs \<Rightarrow>
              if c = CHR ''-'' then map_option (\<lambda>n. - int n) (unsigned_hex_value cs)
              else if c = CHR ''+'' then map_option int (unsigned_hex_value cs)
              else map_option int (unsigned_hex_value (c # cs)))
      in case value of
           None \<Rightarrow> Inl (ValueError (''invalid literal for int() with base 16: '' @ py_repr t))
         | Some n \<Rightarrow> Inr n)"

definition value_of :: "int result \<Rightarrow> int option" where
  "value_of r = (case r of Inl _ \<Rightarrow> None | Inr n \<Rightarrow> Some n)"

text \<open>\<open>int(text, 0)\<close>: the prefix gives the base; a decimal number has no leading zeros.\<close>

fun radix_value :: "nat \<Rightarrow> nat \<Rightarrow> string \<Rightarrow> nat option" where
  "radix_value base acc [] = Some acc"
| "radix_value base acc (c # cs) =
     (case hex_value c of
        Some d \<Rightarrow> if d < base then radix_value base (base * acc + d) cs else None
      | None \<Rightarrow> None)"

definition radix_groups :: "nat \<Rightarrow> string \<Rightarrow> nat option" where
  "radix_groups base t =
     (let groups = py_split CHR ''_'' (if take 1 t = ''_'' then drop 1 t else t)
      in if list_ex (\<lambda>g. g = []) groups then None else radix_value base 0 (concat groups))"

definition unsigned_auto_value :: "string \<Rightarrow> nat option" where
  "unsigned_auto_value t =
     (let prefix = py_lower (take 2 t)
      in if prefix = ''0x'' then radix_groups 16 (drop 2 t)
         else if prefix = ''0o'' then radix_groups 8 (drop 2 t)
         else if prefix = ''0b'' then radix_groups 2 (drop 2 t)
         else case unsigned_value t of
           None \<Rightarrow> None
         | Some n \<Rightarrow> if take 1 t = ''0'' \<and> n \<noteq> 0 then None else Some n)"

definition py_int0 :: "string \<Rightarrow> int option" where
  "py_int0 t =
     (case py_strip t of
        [] \<Rightarrow> None
      | c # cs \<Rightarrow>
          if c = CHR ''-'' then map_option (\<lambda>n. - int n) (unsigned_auto_value cs)
          else if c = CHR ''+'' then map_option int (unsigned_auto_value cs)
          else map_option int (unsigned_auto_value (c # cs)))"

text \<open>\<open>t.split(maxsplit=n)\<close>: the rest after the last split keeps its trailing blanks.\<close>

fun py_split_max :: "nat \<Rightarrow> string \<Rightarrow> string list" where
  "py_split_max 0 t = (let u = py_lstrip t in if u = [] then [] else [u])"
| "py_split_max (Suc n) t =
     (let u = py_lstrip t
      in if u = [] then []
         else takeWhile (\<lambda>c. \<not> py_space c) u # py_split_max n (dropWhile (\<lambda>c. \<not> py_space c) u))"

text \<open>\<open>t.rstrip()\<close>.\<close>

definition py_trim_end :: "string \<Rightarrow> string" where
  "py_trim_end t = rev (py_lstrip (rev t))"

text \<open>\<open>part in t\<close>.\<close>

fun py_contains :: "string \<Rightarrow> string \<Rightarrow> bool" where
  "py_contains part [] \<longleftrightarrow> part = []"
| "py_contains part (c # cs) \<longleftrightarrow> py_startswith part (c # cs) \<or> py_contains part cs"

lemma py_contains_iff: "py_contains part t \<longleftrightarrow> (\<exists>pre post. t = pre @ part @ post)"
proof (induction t)
  case Nil
  then show ?case by auto
next
  case (Cons c cs)
  have "(\<exists>pre post. c # cs = pre @ part @ post) \<longleftrightarrow>
      (\<exists>post. c # cs = part @ post) \<or> (\<exists>pre post. cs = pre @ part @ post)"
    by (metis Cons_eq_append_conv append_Nil)
  moreover have "py_startswith part (c # cs) \<longleftrightarrow> (\<exists>post. c # cs = part @ post)"
    unfolding py_startswith_def by (metis append_eq_conv_conj append_take_drop_id)
  ultimately show ?case
    using Cons.IH by simp
qed

lemma split_none: "c \<notin> set t \<Longrightarrow> py_split c t = [t]"
  by (induction t) auto

lemma split_first: "c \<notin> set t \<Longrightarrow> py_split c (t @ c # u) = t # py_split c u"
  by (induction t) auto

lemma join_snoc: "ls \<noteq> [] \<Longrightarrow> py_join sep (ls @ [l]) = py_join sep ls @ sep @ l"
  by (cases ls) (simp_all add: py_join_def)

text \<open>Text built from lines that each end with a newline.\<close>

definition unlines :: "string list \<Rightarrow> string" where
  "unlines ls = concat (map (\<lambda>l. l @ [CHR 0x0A]) ls)"

lemma join_unlines: "ls \<noteq> [] \<Longrightarrow> py_join [CHR 0x0A] ls @ [CHR 0x0A] = unlines ls"
proof (induction ls rule: rev_induct)
  case (snoc l ls)
  then show ?case
    by (cases "ls = []") (simp_all add: join_snoc unlines_def, simp add: py_join_def)
qed simp

lemma split_line: "list_all (\<lambda>c. \<not> line_break c) l \<Longrightarrow> split_lines acc (l @ CHR 0x0A # t) = (acc @ l) # split_lines [] t"
  by (induction l arbitrary: acc) (auto simp: line_break_def)

lemma split_unlines: "list_all (list_all (\<lambda>c. \<not> line_break c)) ls \<Longrightarrow> split_lines [] (unlines ls) = ls"
  by (induction ls) (auto simp: unlines_def split_line)

lemma split_lines_clean:
  "list_all (\<lambda>c. \<not> line_break c) acc \<Longrightarrow> l \<in> set (split_lines acc t) \<Longrightarrow> list_all (\<lambda>c. \<not> line_break c) l"
  by (induction acc t rule: split_lines.induct) (auto split: if_splits)

definition solid :: "string \<Rightarrow> bool" where
  "solid t \<longleftrightarrow> t \<noteq> [] \<and> list_all (\<lambda>c. \<not> py_space c) t"

text \<open>Hexadecimal numbers read back.\<close>

lemma hex_chars: "list_all (\<lambda>c. hex_value c \<noteq> None) (hex_nat n)"
proof (induction n rule: hex_nat.induct)
  case (1 n)
  have "hex_value (hex_digit n) \<noteq> None"
    using hex_value_digit [of "n mod 16"] by (simp add: hex_digit_def)
  then show ?case
    using 1 by (subst hex_nat.simps) (simp add: hex_value_digit)
qed

lemma hex_append: "hex_digits_value acc (t @ u) = Option.bind (hex_digits_value acc t) (\<lambda>n. hex_digits_value n u)"
  by (induction t arbitrary: acc) (simp_all split: option.split)

lemma hex_nat_value: "hex_digits_value 0 (hex_nat n) = Some n"
proof (induction n rule: hex_nat.induct)
  case (1 n)
  have digit: "hex_value (hex_digit n) = Some (n mod 16)"
    using hex_value_digit [of "n mod 16"] by (simp add: hex_digit_def)
  show ?case
  proof (cases "n < 16")
    case True
    then show ?thesis
      using digit by (subst hex_nat.simps) simp
  next
    case False
    then show ?thesis
      using 1 digit by (subst hex_nat.simps) (simp add: hex_append)
  qed
qed

lemma hex_zeros: "hex_digits_value 0 (replicate k CHR ''0'' @ t) = hex_digits_value 0 t"
  by (induction k) (simp_all add: hex_value_def)

lemma hex_value_char:
  assumes "hex_value c \<noteq> None"
  shows "\<not> py_space c" "c \<noteq> CHR ''_''" "c \<noteq> CHR ''-''" "c \<noteq> CHR ''+''" "lower_char c \<noteq> CHR ''x''"
proof -
  show "\<not> py_space c" "c \<noteq> CHR ''_''" "c \<noteq> CHR ''-''" "c \<noteq> CHR ''+''"
    using assms by (auto simp: hex_value_def py_space_def Let_def split: if_splits)
  have "(of_char (lower_char c) :: nat) \<noteq> 120"
    using assms by (auto simp: hex_value_def lower_char_def Let_def split: if_splits)
  then show "lower_char c \<noteq> CHR ''x''"
    by auto
qed

lemma format_chars: "list_all (\<lambda>c. hex_value c \<noteq> None) (format_hex w (int n))" "format_hex w (int n) \<noteq> []"
proof -
  have zero: "hex_value CHR ''0'' = Some 0"
    by code_simp
  have "hex_nat n \<noteq> []"
    by (subst hex_nat.simps) simp
  then show "format_hex w (int n) \<noteq> []"
    by (simp add: format_hex_def zfill_def)
  show "list_all (\<lambda>c. hex_value c \<noteq> None) (format_hex w (int n))"
    using hex_chars [of n] zero by (auto simp: format_hex_def zfill_def list_all_iff)
qed

lemma format_solid: "solid (format_hex w (int n))"
  using format_chars [where w = w and n = n] hex_value_char(1) by (auto simp: solid_def list_all_iff)

lemma strip_solid: "solid t \<Longrightarrow> py_strip t = t"
proof -
  have "list_all (\<lambda>c. \<not> py_space c) u \<Longrightarrow> py_lstrip u = u" for u
    by (cases u) (simp_all add: py_lstrip_def)
  then show "solid t \<Longrightarrow> py_strip t = t"
    by (simp add: solid_def py_strip_def list_all_rev)
qed

lemma format_groups: "hex_groups_value (format_hex w (int n)) = Some n"
proof -
  let ?t = "format_hex w (int n)"
  have "CHR ''_'' \<notin> set ?t"
    using format_chars(1) [of w n] hex_value_char(2) by (fastforce simp: list_all_iff)
  then have "py_split CHR ''_'' ?t = [?t]"
    by (rule split_none)
  then show ?thesis
    using format_chars(2) [of w n]
    by (simp add: hex_groups_value_def) (simp add: format_hex_def zfill_def hex_zeros hex_nat_value)
qed

lemma int16_format: "int16 (format_hex w (int n)) = Inr (int n)"
proof -
  let ?t = "format_hex w (int n)"
  have chars: "c \<in> set ?t \<Longrightarrow> hex_value c \<noteq> None" for c
    using format_chars(1) [of w n] by (auto simp: list_all_iff)
  have "py_lower (take 2 ?t) \<noteq> ''0x''"
  proof
    assume x: "py_lower (take 2 ?t) = ''0x''"
    then obtain a b rest where "?t = a # b # rest" "lower_char b = CHR ''x''"
      by (cases ?t; cases "tl ?t") (auto simp: py_lower_def)
    then show False
      using chars [of b] hex_value_char(5) [of b] by simp
  qed
  then have "unsigned_hex_value ?t = Some n"
    by (simp add: unsigned_hex_value_def format_groups)
  moreover obtain c cs where t: "?t = c # cs"
    using format_chars(2) [of w n] by (cases ?t) auto
  moreover have "c \<noteq> CHR ''-''" "c \<noteq> CHR ''+''"
    using chars [of c] hex_value_char(3,4) [of c] t by auto
  ultimately show ?thesis
    using strip_solid [OF format_solid, of w n] by (simp add: int16_def)
qed

lemma int16_prefixed: "int16 (''0x'' @ format_hex w (int n)) = Inr (int n)"
proof -
  let ?t = "format_hex w (int n)"
  obtain c cs where t: "?t = c # cs"
    using format_chars(2) [of w n] by (cases ?t) auto
  have "c \<noteq> CHR ''_''"
    using format_chars(1) [of w n] hex_value_char(2) [of c] by (simp add: t)
  then have "unsigned_hex_value (''0x'' @ ?t) = Some n"
    using format_groups [of w n] by (simp add: unsigned_hex_value_def py_lower_def lower_char_def t)
  moreover have "py_strip (''0x'' @ ?t) = ''0x'' @ ?t"
    using format_solid [of w n] by (intro strip_solid) (simp add: solid_def py_space_def)
  ultimately show ?thesis
    by (simp add: int16_def)
qed

end
