(* ===== verification/Trace_Compare.thy ===== *)
theory Trace_Compare
  imports Hil_Health Py_Text
begin

text \<open>
  \<open>tools/compare_hcp2_traces.py\<close>: loading a canonical trace from a JSON report, a JSONL file or a prefixed log, and the
  comparison of two traces by the numbers of their events, the raw frames and the reply latencies.  \<open>json.loads\<close> is a
  parameter that returns no value where it raises.
\<close>

subsection \<open>Loading\<close>

definition TRACE_PREFIX :: string where "TRACE_PREFIX = ''HCP2_TRACE ''"
definition FRAME_TYPES :: "string list" where "FRAME_TYPES = [''master_frame'', ''slave_frame'']"
definition REQUIRED_TYPES :: "string list" where
  "REQUIRED_TYPES = [''master_frame'', ''slave_frame'', ''reply_latency'', ''de'']"

type_synonym json_loads = "string \<Rightarrow> jval option"

text \<open>The text after the first occurrence of a separator, if it occurs: \<open>t.split(sep, 1)[1]\<close>.\<close>

fun after_first :: "string \<Rightarrow> string \<Rightarrow> string option" where
  "after_first sep [] = (if sep = [] then Some [] else None)"
| "after_first sep (c # cs) =
     (if py_startswith sep (c # cs) then Some (drop (length sep) (c # cs)) else after_first sep cs)"

fun load_all :: "json_loads \<Rightarrow> string list \<Rightarrow> jval list result" where
  "load_all loads [] = Inr []"
| "load_all loads (t # ts) =
     (case loads t of
        None \<Rightarrow> Inl (ValueError ''JSONDecodeError'')
      | Some v \<Rightarrow> (case load_all loads ts of Inl e \<Rightarrow> Inl e | Inr vs \<Rightarrow> Inr (v # vs)))"

definition load_trace_prefixed_log :: "json_loads \<Rightarrow> string \<Rightarrow> jval list result" where
  "load_trace_prefixed_log loads txt =
     load_all loads (List.map_filter (after_first TRACE_PREFIX) (split_lines [] txt))"

text \<open>\<open>payload.get(section, {}).get(name, default)\<close>; \<open>get\<close> of a value that is no object raises.\<close>

definition report_trace :: "jval \<Rightarrow> jval result" where
  "report_trace payload =
     (case payload of
        JObj entries \<Rightarrow>
          (let fallback = (case map_of entries ''trace'' of Some v \<Rightarrow> v | None \<Rightarrow> jget entries ''events'')
           in case map_of entries ''lp_emu'' of
                None \<Rightarrow> Inr fallback
              | Some (JObj lp) \<Rightarrow> Inr (case map_of lp ''trace'' of Some v \<Rightarrow> v | None \<Rightarrow> fallback)
              | Some _ \<Rightarrow> Inl (Raised ''AttributeError'' ''get''))
      | _ \<Rightarrow> Inl (Raised ''AttributeError'' ''get''))"

definition load_jsonl :: "json_loads \<Rightarrow> string \<Rightarrow> jval list result" where
  "load_jsonl loads txt = load_all loads (filter (\<lambda>line. py_strip line \<noteq> []) (split_lines [] txt))"

definition load_canonical_trace :: "json_loads \<Rightarrow> string \<Rightarrow> jval list result" where
  "load_canonical_trace loads txt =
     (if after_first TRACE_PREFIX txt \<noteq> None then load_trace_prefixed_log loads txt
      else case (if py_startswith [CHR ''{''] (py_lstrip txt) then loads txt else None) of
        Some payload \<Rightarrow>
          if payload = JNull then load_jsonl loads txt
          else (case report_trace payload of
            Inl e \<Rightarrow> Inl e
          | Inr (JList trace) \<Rightarrow> Inr trace
          | Inr _ \<Rightarrow> Inl (ValueError ''file does not contain lp_emu.trace, trace, or events''))
      | None \<Rightarrow> load_jsonl loads txt)"

subsection \<open>Events\<close>

text \<open>An event is an object; \<open>event.get\<close> of anything else raises, before any comparison.\<close>

fun events_of :: "jval list \<Rightarrow> jobj list result" where
  "events_of [] = Inr []"
| "events_of (JObj entries # vs) = (case events_of vs of Inl e \<Rightarrow> Inl e | Inr es \<Rightarrow> Inr (entries # es))"
| "events_of (v # vs) = Inl (Raised ''AttributeError'' ''get'')"

definition count_by_type :: "(jval \<Rightarrow> string) \<Rightarrow> jobj list \<Rightarrow> string \<Rightarrow> nat" where
  "count_by_type str_other events t =
     length (filter (\<lambda>e. text_of str_other (jget e ''type'') = t) events)"

definition has_type :: "string \<Rightarrow> jobj \<Rightarrow> bool" where
  "has_type t e \<longleftrightarrow> jget e ''type'' = JStr t"

definition raw_of :: "(jval \<Rightarrow> string) \<Rightarrow> jobj \<Rightarrow> string" where
  "raw_of str_other e = (case map_of e ''raw'' of None \<Rightarrow> [] | Some v \<Rightarrow> text_of str_other v)"

definition raw_sequence :: "(jval \<Rightarrow> string) \<Rightarrow> jobj list \<Rightarrow> string \<Rightarrow> string list" where
  "raw_sequence str_other events t = map (raw_of str_other) (filter (has_type t) events)"

definition number_of :: "jval \<Rightarrow> rat option" where
  "number_of v =
     (case v of JInt n \<Rightarrow> Some (of_int n) | JFloat x \<Rightarrow> Some x | JBool b \<Rightarrow> Some (of_bool b) | _ \<Rightarrow> None)"

definition trace_latencies :: "jobj list \<Rightarrow> rat list" where
  "trace_latencies events =
     List.map_filter (\<lambda>e. number_of (jget e ''latency_us'')) (filter (has_type ''reply_latency'') events)"

definition rat_sum :: "rat list \<Rightarrow> rat" where
  "rat_sum xs = foldl (+) 0 xs"

definition latency_summary :: "rat list \<Rightarrow> (string \<times> rat option) list" where
  "latency_summary values =
     (case values of
        [] \<Rightarrow> [(''min'', None), (''mean'', None), (''max'', None)]
      | v # vs \<Rightarrow> [(''min'', Some (foldl min v vs)), (''mean'', Some (rat_sum values / of_nat (length values))),
          (''max'', Some (foldl max v vs))])"

subsection \<open>The comparison\<close>

datatype cmp_failure =
    Empty_Trace bool
  | Missing_Events bool string
  | Count_Differs string nat nat
  | Sequence_Differs string nat
  | Latency_Differs string rat

definition count_failures :: "string \<Rightarrow> nat \<Rightarrow> nat \<Rightarrow> cmp_failure list" where
  "count_failures t left right =
     (if left = 0 then [Missing_Events True t] else []) @ (if right = 0 then [Missing_Events False t] else []) @
     (if left \<noteq> right then [Count_Differs t left right] else [])"

fun first_diff :: "string list \<Rightarrow> string list \<Rightarrow> nat" where
  "first_diff (x # xs) (y # ys) = (if x \<noteq> y then 0 else Suc (first_diff xs ys))"
| "first_diff xs ys = 0"

definition sequence_failures :: "string \<Rightarrow> string list \<Rightarrow> string list \<Rightarrow> cmp_failure list" where
  "sequence_failures t left right = (if left \<noteq> right then [Sequence_Differs t (first_diff left right)] else [])"

definition latency_delta :: "(string \<times> rat option) list \<Rightarrow> (string \<times> rat option) list \<Rightarrow> string \<Rightarrow> rat option" where
  "latency_delta left right key =
     (case (map_of left key, map_of right key) of
        (Some (Some l), Some (Some r)) \<Rightarrow> Some \<bar>l - r\<bar>
      | _ \<Rightarrow> None)"

definition latency_failures ::
  "rat \<Rightarrow> (string \<times> rat option) list \<Rightarrow> (string \<times> rat option) list \<Rightarrow> cmp_failure list"
where
  "latency_failures tolerance left right =
     concat (map (\<lambda>key. case latency_delta left right key of
         None \<Rightarrow> []
       | Some d \<Rightarrow> if tolerance < d then [Latency_Differs key d] else [])
       [''min'', ''mean'', ''max''])"

record comparison =
  co_verdict :: string
  co_failures :: "cmp_failure list"
  co_left_latency :: "(string \<times> rat option) list"
  co_right_latency :: "(string \<times> rat option) list"
  co_latency_delta :: "(string \<times> rat option) list"

definition compare_events ::
  "(jval \<Rightarrow> string) \<Rightarrow> string set \<Rightarrow> rat \<Rightarrow> jobj list \<Rightarrow> jobj list \<Rightarrow> comparison"
where
  "compare_events str_other optional tolerance left right =
     (let required = filter (\<lambda>t. t \<notin> optional) REQUIRED_TYPES;
          l = latency_summary (trace_latencies left); r = latency_summary (trace_latencies right);
          failures =
            (if left = [] then [Empty_Trace True] else []) @ (if right = [] then [Empty_Trace False] else []) @
            concat (map (\<lambda>t. count_failures t (count_by_type str_other left t) (count_by_type str_other right t)) required) @
            concat (map (\<lambda>t. sequence_failures t (raw_sequence str_other left t) (raw_sequence str_other right t)) FRAME_TYPES) @
            latency_failures tolerance l r
      in \<lparr>co_verdict = (if failures \<noteq> [] then ''fail'' else ''ok''), co_failures = failures,
          co_left_latency = l, co_right_latency = r,
          co_latency_delta = map (\<lambda>key. (key, latency_delta l r key)) [''min'', ''mean'', ''max'']\<rparr>)"

definition compare_traces ::
  "json_loads \<Rightarrow> (jval \<Rightarrow> string) \<Rightarrow> string set \<Rightarrow> rat \<Rightarrow> string \<Rightarrow> string \<Rightarrow> comparison result"
where
  "compare_traces loads str_other optional tolerance left_text right_text =
     (case load_canonical_trace loads left_text of
        Inl e \<Rightarrow> Inl e
      | Inr left \<Rightarrow>
     (case load_canonical_trace loads right_text of
        Inl e \<Rightarrow> Inl e
      | Inr right \<Rightarrow>
     (case events_of left of
        Inl e \<Rightarrow> Inl e
      | Inr left \<Rightarrow>
         (case events_of right of
            Inl e \<Rightarrow> Inl e
          | Inr right \<Rightarrow> Inr (compare_events str_other optional tolerance left right)))))"

definition compare_main ::
  "json_loads \<Rightarrow> (jval \<Rightarrow> string) \<Rightarrow> string set \<Rightarrow> rat \<Rightarrow> string \<Rightarrow> string \<Rightarrow> int"
where
  "compare_main loads str_other optional tolerance left_text right_text =
     (case compare_traces loads str_other optional tolerance left_text right_text of
        Inl _ \<Rightarrow> 1
      | Inr c \<Rightarrow> if co_failures c = [] then 0 else 1)"

subsection \<open>What the comparison establishes\<close>

lemma count_failures_Nil: "count_failures t l r = [] \<longleftrightarrow> l = r \<and> l \<noteq> 0"
  by (auto simp: count_failures_def)

lemma sequence_failures_Nil: "sequence_failures t l r = [] \<longleftrightarrow> l = r"
  by (simp add: sequence_failures_def)

lemma first_diff_correct:
  "xs \<noteq> ys \<Longrightarrow> take (first_diff xs ys) xs = take (first_diff xs ys) ys \<and>
   (first_diff xs ys < length xs \<and> first_diff xs ys < length ys \<longrightarrow> xs ! first_diff xs ys \<noteq> ys ! first_diff xs ys)"
  by (induction xs ys rule: first_diff.induct) auto

text \<open>The two summaries are within the tolerance of each other, where both exist.\<close>

definition latencies_close :: "rat \<Rightarrow> rat list \<Rightarrow> rat list \<Rightarrow> bool" where
  "latencies_close tolerance left right \<longleftrightarrow>
     list_all (\<lambda>key. case latency_delta (latency_summary left) (latency_summary right) key of
         None \<Rightarrow> True | Some d \<Rightarrow> d \<le> tolerance) [''min'', ''mean'', ''max'']"

lemma latency_failures_Nil:
  "latency_failures tolerance (latency_summary left) (latency_summary right) = [] \<longleftrightarrow>
   latencies_close tolerance left right"
  by (auto simp: latency_failures_def latencies_close_def split: option.splits if_splits)

definition traces_agree :: "(jval \<Rightarrow> string) \<Rightarrow> string set \<Rightarrow> rat \<Rightarrow> jobj list \<Rightarrow> jobj list \<Rightarrow> bool" where
  "traces_agree str_other optional tolerance left right \<longleftrightarrow>
     left \<noteq> [] \<and> right \<noteq> [] \<and>
     list_all (\<lambda>t. t \<in> optional \<or> count_by_type str_other left t = count_by_type str_other right t \<and>
       count_by_type str_other left t \<noteq> 0) REQUIRED_TYPES \<and>
     list_all (\<lambda>t. raw_sequence str_other left t = raw_sequence str_other right t) FRAME_TYPES \<and>
     latencies_close tolerance (trace_latencies left) (trace_latencies right)"

lemma compare_events_ok:
  "co_failures (compare_events str_other optional tolerance left right) = [] \<longleftrightarrow>
   traces_agree str_other optional tolerance left right"
  by (auto simp: compare_events_def traces_agree_def Let_def count_failures_Nil sequence_failures_Nil
      latency_failures_Nil list_all_iff)

lemma latency_delta_commute: "latency_delta l r key = latency_delta r l key"
  by (auto simp: latency_delta_def abs_minus_commute split: option.splits)

lemma traces_agree_commute:
  "traces_agree str_other optional tolerance left right = traces_agree str_other optional tolerance right left"
  by (auto simp: traces_agree_def latencies_close_def latency_delta_commute list_all_iff)

definition loaded_events :: "json_loads \<Rightarrow> string \<Rightarrow> jobj list result" where
  "loaded_events loads txt =
     (case load_canonical_trace loads txt of Inl e \<Rightarrow> Inl e | Inr vs \<Rightarrow> events_of vs)"

lemma compare_main_zero:
  "compare_main loads str_other optional tolerance left_text right_text = 0 \<longleftrightarrow>
   (\<exists>left right. loaded_events loads left_text = Inr left \<and> loaded_events loads right_text = Inr right \<and>
     traces_agree str_other optional tolerance left right)"
  by (auto simp: compare_main_def compare_traces_def loaded_events_def compare_events_ok split: sum.splits)


end
