(* ===== verification/Mock_Server.thy ===== *)
theory Mock_Server
  imports Hil_Health
begin

text \<open>
  \<open>tools/hcp2_debug_mock_server.py\<close>: the mock of the bridge's debug server, that is the generator of protocol records, the
  documents it serves, the routes, the text frames of its WebSocket, and the single slot for a WebSocket client.
  Sockets, threads and \<open>http.server\<close> are not modelled; the milliseconds of a record are a function of its number.
\<close>

subsection \<open>The embedded page\<close>

text \<open>The text before and after the first occurrence of a separator, if it occurs.\<close>

fun find_split :: "string \<Rightarrow> string \<Rightarrow> (string \<times> string) option" where
  "find_split sep [] = (if sep = [] then Some ([], []) else None)"
| "find_split sep (c # cs) =
     (if py_startswith sep (c # cs) then Some ([], drop (length sep) (c # cs))
      else map_option (\<lambda>(front, rest). (c # front, rest)) (find_split sep cs))"

definition open_marker :: string where "open_marker = [CHR ''R'', CHR 0x22] @ ''HTML(''"
definition close_marker :: string where "close_marker = '')HTML'' @ [CHR 0x22]"

definition extract_debug_html :: "string \<Rightarrow> string result" where
  "extract_debug_html txt =
     (case find_split open_marker txt of
        None \<Rightarrow> Inl (RuntimeError ''no R HTML literal found'')
      | Some (_, body) \<Rightarrow>
         (case find_split close_marker body of
            None \<Rightarrow> Inl (RuntimeError ''unterminated R HTML literal'')
          | Some (html, _) \<Rightarrow>
              if py_endswith ''</html>'' (py_lower (py_strip html)) then Inr html
              else Inl (RuntimeError ''extracted HTML does not end with </html>'')))"

subsection \<open>The generator\<close>

definition RESPONSE_DELAY_US :: int where [const_defs]: "RESPONSE_DELAY_US = 4200"
definition FRAME_STATUS_POLL :: string where "FRAME_STATUS_POLL = ''status_poll''"
definition FRAME_BROADCAST :: string where "FRAME_BROADCAST = ''broadcast_status''"

definition MOCK_SCENARIOS :: "string list" where
  "MOCK_SCENARIOS =
     [''nominal'', ''missed_polls'', ''bad_crc'', ''collisions'', ''tx_abort'', ''stale'', ''disconnect'',
      ''hp_fallback'', ''soak'']"

record mock =
  mk_scenario :: string
  mk_seq :: int
  mk_event_us :: int
  mk_polls_seen :: int
  mk_polls_answered :: int
  mk_lp_heartbeat :: int
  mk_position :: rat
  mk_target :: rat
  mk_state_name :: string
  mk_state_raw :: int
  mk_light :: bool
  mk_obstruction :: bool
  mk_log_enabled :: bool
  mk_recent :: "string list"
  mk_missed_polls :: int
  mk_tx_aborts :: int
  mk_collisions :: int
  mk_crc_errors :: int
  mk_rx_errors :: int
  mk_lp_resets :: int
  mk_cycle :: int
  mk_jitter_seed :: int

definition RECENT_CAP :: nat where "RECENT_CAP = 600"

definition MockState :: "string \<Rightarrow> mock" where
  "MockState scenario =
     \<lparr>mk_scenario = scenario, mk_seq = 1, mk_event_us = 1000000, mk_polls_seen = 0, mk_polls_answered = 0,
      mk_lp_heartbeat = 0, mk_position = 0, mk_target = 0, mk_state_name = ''closed'', mk_state_raw = 0,
      mk_light = False, mk_obstruction = False, mk_log_enabled = (scenario \<noteq> ''off''), mk_recent = [],
      mk_missed_polls = 0, mk_tx_aborts = 0, mk_collisions = 0, mk_crc_errors = 0, mk_rx_errors = 0,
      mk_lp_resets = 0, mk_cycle = 0, mk_jitter_seed = 0\<rparr>"

text \<open>\<open>struct.pack("<H", n)\<close> of a number in range, and \<open>_hex\<close>.\<close>

definition pack_u16 :: "int \<Rightarrow> bytes" where
  "pack_u16 n = [byte_of n, byte_of (n div 256)]"

definition hex_upper :: "bytes \<Rightarrow> string" where
  "hex_upper data = concat (map (\<lambda>b. py_upper (format_hex 2 (uint b))) data)"

text \<open>\<open>_record\<close> and \<open>_push\<close>: the next number, its time, and the record at the end of the batch.\<close>

type_synonym clock = "int \<Rightarrow> int"

definition push_record :: "clock \<Rightarrow> jobj \<Rightarrow> jobj list \<times> mock \<Rightarrow> jobj list \<times> mock" where
  "push_record clock entries = (\<lambda>(recs, s).
     (recs @ [[(''seq'', JInt (mk_seq s)), (''ms'', JInt (clock (mk_seq s)))] @ entries],
      s\<lparr>mk_seq := mk_seq s + 1\<rparr>))"

definition protocol_entries :: "mock \<Rightarrow> int \<Rightarrow> string \<Rightarrow> string \<Rightarrow> int \<Rightarrow> string \<Rightarrow> jobj" where
  "protocol_entries s us event frame len hex =
     [(''type'', JStr ''protocol''), (''source'', JStr (if mk_scenario s = ''hp_fallback'' then ''hp'' else ''lp'')),
      (''event_us'', JInt us), (''event'', JStr event), (''frame'', JStr frame), (''len'', JInt len),
      (''hex'', JStr hex)]"

definition trace_entries :: "int \<Rightarrow> string \<Rightarrow> int \<Rightarrow> int \<Rightarrow> jobj" where
  "trace_entries us event event_id value =
     [(''type'', JStr ''lp_trace''), (''event_us'', JInt us), (''event'', JStr event), (''event_id'', JInt event_id),
      (''value'', JInt value)]"

definition start_cycle :: "mock \<Rightarrow> mock" where
  "start_cycle s =
     s\<lparr>mk_cycle := mk_cycle s + 1, mk_event_us := (mk_event_us s + 70000) AND 0xFFFFFFFF,
       mk_lp_heartbeat := mk_lp_heartbeat s + 1, mk_polls_seen := mk_polls_seen s + 1\<rparr>"

definition status_poll_record :: "mock \<Rightarrow> jobj" where
  "status_poll_record s =
     protocol_entries s (mk_event_us s) ''rx'' FRAME_STATUS_POLL 5
       (''0217'' @ hex_upper (pack_u16 (mk_cycle s AND 0xFFFF)) @ ''00'')"

definition drops :: "mock \<Rightarrow> bool" where
  "drops s \<longleftrightarrow> mk_scenario s = ''missed_polls'' \<and> mk_cycle s mod 7 \<in> {0, 1, 2}"

definition corrupts :: "mock \<Rightarrow> bool" where
  "corrupts s \<longleftrightarrow> mk_scenario s = ''bad_crc'' \<and> mk_cycle s mod 5 = 0"

definition collision_step :: "clock \<Rightarrow> jobj list \<times> mock \<Rightarrow> jobj list \<times> mock" where
  "collision_step clock = (\<lambda>(recs, s).
     if mk_scenario s = ''collisions'' \<and> mk_cycle s mod 11 = 0 then
       (let s = s\<lparr>mk_collisions := mk_collisions s + 1\<rparr>
        in push_record clock (trace_entries (mk_event_us s + 120) ''collision'' 9 (mk_collisions s)) (recs, s))
     else (recs, s))"

definition abort_step :: "clock \<Rightarrow> jobj list \<times> mock \<Rightarrow> jobj list \<times> mock" where
  "abort_step clock = (\<lambda>(recs, s).
     if mk_scenario s = ''tx_abort'' \<and> mk_cycle s mod 13 = 0 then
       (let s = s\<lparr>mk_tx_aborts := mk_tx_aborts s + 1\<rparr>
        in push_record clock (trace_entries (mk_event_us s + 80) ''tx_abort'' 8 (mk_tx_aborts s)) (recs, s))
     else (recs, s))"

definition reply_hex :: "rat \<Rightarrow> string" where
  "reply_hex position = ''0217'' @ hex_upper (pack_u16 (py_trunc (position * 200))) @ ''059C4100030600''"

definition reply_step :: "clock \<Rightarrow> jobj list \<times> mock \<Rightarrow> jobj list \<times> mock" where
  "reply_step clock = (\<lambda>(recs, s).
     if corrupts s then
       (let s = s\<lparr>mk_crc_errors := mk_crc_errors s + 1\<rparr>
        in push_record clock (protocol_entries s (mk_event_us s + 1500) ''bad_crc'' FRAME_BROADCAST 9
             ''02170A0000020504DEAD'') (recs, s))
     else if drops s then (recs, s\<lparr>mk_missed_polls := mk_missed_polls s + 1\<rparr>)
     else
       (let s = s\<lparr>mk_jitter_seed := (mk_jitter_seed s * 1103515245 + 12345) AND 0x7FFFFFFF\<rparr>;
            jitter = mk_jitter_seed s mod 220 - 60;
            tx_us = (mk_event_us s + RESPONSE_DELAY_US + jitter) AND 0xFFFFFFFF;
            s = s\<lparr>mk_polls_answered := mk_polls_answered s + 1\<rparr>
        in push_record clock (protocol_entries s tx_us ''tx'' FRAME_BROADCAST 14 (reply_hex (mk_position s))) (recs, s)))"

definition poll_cycle :: "clock \<Rightarrow> jobj list \<times> mock \<Rightarrow> jobj list \<times> mock" where
  "poll_cycle clock = (\<lambda>(recs, s).
     let s = start_cycle s
     in reply_step clock (abort_step clock (collision_step clock
          (push_record clock (status_poll_record s) (recs, s)))))"

definition state_step :: "clock \<Rightarrow> jobj list \<times> mock \<Rightarrow> jobj list \<times> mock" where
  "state_step clock = (\<lambda>(recs, s).
     if mk_cycle s mod 8 = 0 then
       push_record clock
         [(''type'', JStr ''state''), (''source'', JStr ''broadcast''),
          (''target_position'', JInt (py_trunc (mk_target s * 200))),
          (''current_position'', JInt (py_trunc (mk_position s * 200))),
          (''state'', JStr (mk_state_name s)), (''state_raw'', JInt (mk_state_raw s)), (''light'', JBool (mk_light s)),
          (''bus_online'', JBool True), (''obstruction'', JBool (mk_obstruction s))] (recs, s)
     else (recs, s))"

definition command_step :: "clock \<Rightarrow> jobj list \<times> mock \<Rightarrow> jobj list \<times> mock" where
  "command_step clock = (\<lambda>(recs, s).
     if mk_cycle s mod 40 = 0 then
       push_record clock (trace_entries (mk_event_us s + 10) ''command'' 2 1)
         (push_record clock
            [(''type'', JStr ''command''), (''phase'', JStr ''execute''), (''button'', JStr ''open''),
             (''ok'', JBool True), (''reason'', JStr ''lp_mailbox'')] (recs, s))
     else (recs, s))"

text \<open>\<open>json.dumps\<close> with compact separators, of the values records hold: their strings need no escapes.\<close>

definition quoted :: "string \<Rightarrow> string" where
  "quoted t = CHR 0x22 # t @ [CHR 0x22]"

definition dump_value :: "jval \<Rightarrow> string" where
  "dump_value v =
     (case v of JInt n \<Rightarrow> py_str_int n | JBool b \<Rightarrow> if b then ''true'' else ''false'' | JStr t \<Rightarrow> quoted t
      | _ \<Rightarrow> ''null'')"

definition dump_record :: "jobj \<Rightarrow> string" where
  "dump_record rec = ''{'' @ py_join '','' (map (\<lambda>(k, v). quoted k @ '':'' @ dump_value v) rec) @ ''}''"

definition keep_recent :: "string list \<Rightarrow> string list" where
  "keep_recent lines = drop (length lines - RECENT_CAP) lines"

definition batch_cycles :: "mock \<Rightarrow> nat" where
  "batch_cycles s = (if mk_scenario s = ''soak'' then 6 else 4)"

definition batch_records :: "clock \<Rightarrow> mock \<Rightarrow> jobj list \<times> mock" where
  "batch_records clock s =
     command_step clock (state_step clock ((poll_cycle clock ^^ batch_cycles s) ([], s)))"

definition generate_batch :: "clock \<Rightarrow> mock \<Rightarrow> string list \<times> mock" where
  "generate_batch clock s =
     (if \<not> mk_log_enabled s then ([], s)
      else case batch_records clock s of
        (recs, s) \<Rightarrow>
          (let lines = map dump_record recs
           in (lines, s\<lparr>mk_recent := keep_recent (mk_recent s @ lines)\<rparr>)))"

subsection \<open>The documents\<close>

definition newline :: string where "newline = [CHR 0x0A]"

definition recent_ndjson :: "mock \<Rightarrow> string" where
  "recent_ndjson s = (if mk_recent s \<noteq> [] then py_join newline (mk_recent s) @ newline else [])"

definition mock_reasons :: "mock \<Rightarrow> string list" where
  "mock_reasons s =
     (if mk_scenario s = ''hp_fallback'' then [''hp_fallback_enabled''] else []) @
     (if mk_missed_polls s \<noteq> 0 then [''missed_polls''] else []) @
     (if mk_tx_aborts s \<noteq> 0 then [''tx_aborts''] else []) @
     (if mk_collisions s \<noteq> 0 then [''collisions''] else []) @
     (if mk_crc_errors s \<noteq> 0 then [''lp_health_flags''] else [])"

definition protocol_log_doc :: "mock \<Rightarrow> jobj" where
  "protocol_log_doc s =
     [(''enabled'', JBool (mk_log_enabled s)), (''used'', JInt (int (length (py_join newline (mk_recent s))))),
      (''capacity'', JInt 49152), (''overwritten_records'', JInt 0), (''overwritten_bytes'', JInt 0),
      (''dropped_records'', JInt 0), (''dropped_bytes'', JInt 0), (''next_seq'', JInt (mk_seq s)),
      (''storage'', JStr ''ram''), (''mode'', JStr ''ring''), (''flash_writes'', JBool False), (''ready'', JBool True)]"

definition websocket_doc :: jobj where
  "websocket_doc =
     [(''connected'', JBool True), (''connects'', JInt 1), (''disconnects'', JInt 0), (''rejects'', JInt 0),
      (''peer_closes'', JInt 0), (''read_failures'', JInt 0), (''write_failures'', JInt 0), (''last_errno'', JInt 0),
      (''last_close_reason'', JStr ''none'')]"

definition round3 :: "rat \<Rightarrow> rat" where
  "round3 x = of_int (py_round (x * 1000)) / 1000"

definition mock_stats :: "int \<Rightarrow> mock \<Rightarrow> jobj" where
  "mock_stats now_ms s =
     [(''protocol'', JStr ''hcp2''),
      (''mode'', JStr (if mk_scenario s = ''hp_fallback'' then ''hp_fallback'' else ''lp'')),
      (''uptime_ms'', JInt now_ms), (''bus_online'', JBool True), (''valid_broadcast'', JBool True),
      (''state'', JStr (mk_state_name s)), (''position'', JFloat (round3 (mk_position s))),
      (''polls_seen'', JInt (mk_polls_seen s)), (''polls_answered'', JInt (mk_polls_answered s)),
      (''missed_polls'', JInt (mk_missed_polls s)), (''raw_missed_polls'', JInt (mk_missed_polls s)),
      (''pending_response'', JBool False), (''crc_errors'', JInt (mk_crc_errors s)),
      (''rx_errors'', JInt (mk_rx_errors s)), (''tx_aborts'', JInt (mk_tx_aborts s)),
      (''collisions'', JInt (mk_collisions s)), (''lp_heartbeat'', JInt (mk_lp_heartbeat s)),
      (''lp_resets'', JInt (mk_lp_resets s)), (''hp_resets'', JInt 0), (''build'', JStr ''mock dev 2026-06-15''),
      (''command_sequence'', JInt 1), (''last_command'', JStr ''open''), (''last_command_age_ms'', JInt 3200),
      (''protocol_log'', JObj (protocol_log_doc s)), (''websocket'', JObj websocket_doc)]"

definition mock_door :: "mock \<Rightarrow> jobj" where
  "mock_door s =
     [(''target_position_raw'', JInt (py_trunc (mk_target s * 200))),
      (''current_position_raw'', JInt (py_trunc (mk_position s * 200))), (''state_raw'', JInt (mk_state_raw s)),
      (''state'', JStr (mk_state_name s)), (''light'', JBool (mk_light s)), (''obstruction'', JBool (mk_obstruction s))]"

definition mock_lp :: "mock \<Rightarrow> jobj" where
  "mock_lp s =
     [(''health_flags'', JInt (if mk_crc_errors s \<noteq> 0 then 1 else 0)), (''max_rx_fifo'', JInt 14),
      (''max_loop_us'', JInt 180), (''max_poll_rx_to_schedule_us'', JInt 90),
      (''max_response_schedule_to_tx_start_us'', JInt 160), (''max_response_tx_us'', JInt 1790),
      (''max_de_hold_us'', JInt 6200), (''last_poll_age_ms'', JInt 12), (''loop_overruns'', JInt 0),
      (''rx_starvations'', JInt 0), (''stuck_de_recoveries'', JInt 0), (''mailbox_repairs'', JInt 0)]"

definition mock_hp :: jobj where
  "mock_hp = [(''resets'', JInt 0), (''panic_resets'', JInt 0), (''wdt_resets'', JInt 0), (''brownout_resets'', JInt 0)]"

definition mock_checks :: "mock \<Rightarrow> bool \<Rightarrow> jobj" where
  "mock_checks s ok =
     [(''lp_mode'', JBool (mk_scenario s \<noteq> ''hp_fallback'')), (''lp_seen'', JBool True), (''bus_online'', JBool True),
      (''valid_broadcast'', JBool True), (''last_poll_age_ms'', JInt 12), (''polls_seen'', JInt (mk_polls_seen s)),
      (''polls_answered'', JInt (mk_polls_answered s)), (''missed_polls'', JInt (mk_missed_polls s)),
      (''raw_missed_polls'', JInt (mk_missed_polls s)), (''pending_response'', JBool False),
      (''health_flags'', JInt (if mk_crc_errors s \<noteq> 0 then 1 else 0)), (''tx_aborts'', JInt (mk_tx_aborts s)),
      (''collisions'', JInt (mk_collisions s)), (''loop_overruns'', JInt 0), (''rx_starvations'', JInt 0),
      (''stuck_de_recoveries'', JInt 0), (''max_de_hold_us'', JInt 6200),
      (''continuity_good_ms'', JInt (if ok then 5000 else 0)), (''diagnostic_clear_ms'', JInt 3000),
      (''diagnostic_warning'', JBool False)]"

definition mock_health :: "int \<Rightarrow> mock \<Rightarrow> jobj" where
  "mock_health now_ms s =
     (let reasons = mock_reasons s; ok = reasons = []
      in [(''verdict'', JStr (if ok then ''ok'' else ''fail'')), (''safe_for_ota_restart'', JBool ok),
          (''reasons'', JList (map JStr reasons)), (''warnings'', JList []), (''checks'', JObj (mock_checks s ok)),
          (''stats'', JObj (mock_stats now_ms s)), (''door'', JObj (mock_door s)), (''lp'', JObj (mock_lp s)),
          (''hp'', JObj mock_hp)])"

definition mock_support :: "int \<Rightarrow> mock \<Rightarrow> jobj" where
  "mock_support now_ms s =
     [(''device'', JStr ''hcp2bridge''), (''target'', JStr ''supramatic_series_4''),
      (''stats'', JObj (mock_stats now_ms s)), (''health'', JObj (mock_health now_ms s)),
      (''door'', JObj (mock_door s)), (''lp'', JObj (mock_lp s)), (''hp'', JObj mock_hp)]"

end
