(* ===== verification/Mock_Web.thy ===== *)
theory Mock_Web
  imports Mock_Server
begin

text \<open>
  \<open>tools/hcp2_debug_mock_server.py\<close>, the web side: the routes with what they do to the state, the WebSocket text frames
  with a receiver for them, the push loop, the slot that admits one WebSocket client as a step relation over the
  interleaved handler threads, and the fixture of canonical records.
\<close>

subsection \<open>Routes\<close>

datatype body = Page | Json jobj | Plain string | Blank | Upgrade_Socket

record response =
  rs_status :: int
  rs_type :: string
  rs_body :: body

definition json_response :: "int \<Rightarrow> jobj \<Rightarrow> response" where
  "json_response status doc = \<lparr>rs_status = status, rs_type = ''application/json'', rs_body = Json doc\<rparr>"

definition text_response :: "int \<Rightarrow> string \<Rightarrow> response" where
  "text_response status txt =
     \<lparr>rs_status = status, rs_type = ''text/plain; charset=utf-8'', rs_body = Plain txt\<rparr>"

definition path_of :: "string \<Rightarrow> string" where
  "path_of target = takeWhile (\<lambda>c. c \<noteq> CHR ''?'') target"

definition CONTROL_PATHS :: "string list" where
  "CONTROL_PATHS = [''/control/hp/restart'', ''/control/hp/cpu_reset'', ''/control/hp/panic'']"

definition do_GET :: "int \<Rightarrow> string \<Rightarrow> mock \<Rightarrow> response \<times> mock" where
  "do_GET now_ms target s =
     (let path = path_of target; log_doc = (\<lambda>s. json_response 200 (protocol_log_doc s))
      in if path = ''/hcp2_log/ws''
         then (\<lparr>rs_status = 101, rs_type = [], rs_body = Upgrade_Socket\<rparr>, s)
         else if path = ''/'' \<or> path = ''/index.html''
         then (\<lparr>rs_status = 200, rs_type = ''text/html; charset=utf-8'', rs_body = Page\<rparr>, s)
         else if path = ''/favicon.ico'' then (\<lparr>rs_status = 204, rs_type = ''image/x-icon'', rs_body = Blank\<rparr>, s)
         else if path = ''/stats'' then (json_response 200 (mock_stats now_ms s), s)
         else if path = ''/health'' \<or> path = ''/preflight''
         then (json_response (if mock_reasons s = [] then 200 else 503) (mock_health now_ms s), s)
         else if path = ''/support'' then (json_response 200 (mock_support now_ms s), s)
         else if path \<in> set CONTROL_PATHS
         then (json_response 405 [(''ok'', JBool False), (''error'', JStr ''POST required'')], s)
         else if path = ''/hcp2_log/start''
         then (let s = s\<lparr>mk_log_enabled := True\<rparr> in (log_doc s, s))
         else if path = ''/hcp2_log/stop''
         then (let s = s\<lparr>mk_log_enabled := False\<rparr> in (log_doc s, s))
         else if path = ''/hcp2_log/clear''
         then (let s = s\<lparr>mk_recent := []\<rparr> in (log_doc s, s))
         else if path = ''/hcp2_log''
         then (\<lparr>rs_status = 200, rs_type = ''application/x-ndjson; charset=utf-8'', rs_body = Plain (recent_ndjson s)\<rparr>, s)
         else if path = ''/hcp2_log.bin''
         then (\<lparr>rs_status = 200, rs_type = ''application/octet-stream'', rs_body = Plain (recent_ndjson s)\<rparr>, s)
         else (text_response 404 (''not found'' @ newline), s))"

text \<open>\<open>path.rsplit("/", 1)[1]\<close>.\<close>

definition last_part :: "string \<Rightarrow> string" where
  "last_part path = rev (takeWhile (\<lambda>c. c \<noteq> CHR ''/'') (rev path))"

definition do_POST :: "int \<Rightarrow> string \<Rightarrow> response" where
  "do_POST uptime_ms target =
     (let path = path_of target
      in if path \<in> set CONTROL_PATHS then
           (if uptime_ms < 70000 then
              json_response 409
                [(''ok'', JBool False), (''error'', JStr ''boot validation pending''), (''uptime_ms'', JInt uptime_ms),
                 (''retry_after_ms'', JInt (70000 - uptime_ms))]
            else
              json_response 202
                [(''ok'', JBool True), (''action'', JStr (last_part path)), (''delay_ms'', JInt 250),
                 (''lp_expected'', JStr ''running''),
                 (''message'', JStr (last_part path @ '' scheduled by mock server''))])
         else text_response 404 (''not found'' @ newline))"

text \<open>The upgrade request: \<open>Upgrade\<close> and \<open>Sec-WebSocket-Key\<close>, and \<open>[?&]replace=(1|true)\b\<close> in the target.\<close>

definition word_char :: "char \<Rightarrow> bool" where
  "word_char c =
     (let n = (of_char c :: nat)
      in 48 \<le> n \<and> n \<le> 57 \<or> 65 \<le> n \<and> n \<le> 90 \<or> 97 \<le> n \<and> n \<le> 122 \<or> c = CHR ''_'')"

definition word_ends :: "string \<Rightarrow> bool" where
  "word_ends rest \<longleftrightarrow> rest = [] \<or> \<not> word_char (hd rest)"

fun wants_replace :: "string \<Rightarrow> bool" where
  "wants_replace [] = False"
| "wants_replace (c # cs) =
     ((c = CHR ''?'' \<or> c = CHR ''&'') \<and>
        (py_startswith ''replace=1'' cs \<and> word_ends (drop 9 cs) \<or>
         py_startswith ''replace=true'' cs \<and> word_ends (drop 12 cs)) \<or>
      wants_replace cs)"

definition upgrade_ok :: "string option \<Rightarrow> string option \<Rightarrow> bool" where
  "upgrade_ok upgrade key \<longleftrightarrow>
     py_lower (case upgrade of None \<Rightarrow> [] | Some t \<Rightarrow> t) = ''websocket'' \<and>
     (case key of None \<Rightarrow> False | Some t \<Rightarrow> t \<noteq> [])"

subsection \<open>WebSocket text frames\<close>

text \<open>\<open>n.to_bytes(8, "big")\<close>.\<close>

fun be_bytes :: "nat \<Rightarrow> nat \<Rightarrow> bytes" where
  "be_bytes 0 n = []"
| "be_bytes (Suc k) n = be_bytes k (n div 256) @ [of_nat n]"

definition ws_text_frame :: "bytes \<Rightarrow> bytes result" where
  "ws_text_frame data =
     (let n = length data
      in if n < 126 then Inr ([0x81, of_nat n] @ data)
         else if n < 65536 then Inr ([0x81, 126, of_nat (n div 256), of_nat n] @ data)
         else if n < 2 ^ 64 then Inr ([0x81, 127] @ be_bytes 8 n @ data)
         else Inl (Raised ''OverflowError'' ''int too big to convert''))"

text \<open>A receiver of unmasked text frames (RFC 6455): the payload of the first frame and the rest of the stream.\<close>

definition be_value :: "bytes \<Rightarrow> nat" where
  "be_value bs = foldl (\<lambda>acc b. 256 * acc + unat b) 0 bs"

definition take_exact :: "nat \<Rightarrow> bytes \<Rightarrow> (bytes \<times> bytes) option" where
  "take_exact n bs = (if n \<le> length bs then Some (take n bs, drop n bs) else None)"

definition receive_frame :: "bytes \<Rightarrow> (bytes \<times> bytes) option" where
  "receive_frame bs =
     (case bs of
        b0 # b1 # rest \<Rightarrow>
          if b0 \<noteq> 0x81 then None
          else if unat b1 < 126 then take_exact (unat b1) rest
          else if b1 = 126 then
            (case take_exact 2 rest of None \<Rightarrow> None | Some (len, rest) \<Rightarrow> take_exact (be_value len) rest)
          else if b1 = 127 then
            (case take_exact 8 rest of None \<Rightarrow> None | Some (len, rest) \<Rightarrow> take_exact (be_value len) rest)
          else None
      | _ \<Rightarrow> None)"

subsection \<open>The push loop\<close>

record pusher =
  pu_started :: rat
  pu_last_health :: rat
  pu_last_log :: rat

datatype push_event = Send_Health | Send_Log "string list" | Stop_Loop

definition disconnects :: "rat \<Rightarrow> mock \<Rightarrow> pusher \<Rightarrow> bool" where
  "disconnects now s p \<longleftrightarrow> mk_scenario s = ''disconnect'' \<and> 4 < now - pu_started p"

definition feed_live :: "rat \<Rightarrow> mock \<Rightarrow> pusher \<Rightarrow> bool" where
  "feed_live now s p \<longleftrightarrow> \<not> (mk_scenario s = ''stale'' \<and> 3 < now - pu_started p)"

text \<open>One iteration: the messages it sends, while every send succeeds, or the end of the loop.\<close>

definition push_health :: "rat \<Rightarrow> mock \<Rightarrow> pusher \<Rightarrow> push_event list \<times> pusher" where
  "push_health now s p =
     (if feed_live now s p \<and> 1 / 2 \<le> now - pu_last_health p then ([Send_Health], p\<lparr>pu_last_health := now\<rparr>)
      else ([], p))"

definition push_log :: "clock \<Rightarrow> rat \<Rightarrow> mock \<Rightarrow> pusher \<Rightarrow> push_event list \<times> mock \<times> pusher" where
  "push_log clock now s p =
     (if feed_live now s p \<and> 1 / 4 \<le> now - pu_last_log p then
        (case generate_batch clock s of
           (lines, s) \<Rightarrow> (if lines \<noteq> [] then [Send_Log lines] else [], s, p\<lparr>pu_last_log := now\<rparr>))
      else ([], s, p))"

definition push_iteration :: "clock \<Rightarrow> rat \<Rightarrow> mock \<times> pusher \<Rightarrow> push_event list \<times> mock \<times> pusher" where
  "push_iteration clock now = (\<lambda>(s, p).
     if disconnects now s p then ([Stop_Loop], s, p)
     else case push_health now s p of
       (health, p) \<Rightarrow> (case push_log clock now s p of (logs, s, p) \<Rightarrow> (health @ logs, s, p)))"

subsection \<open>The WebSocket slot\<close>

text \<open>
  The handler threads share \<open>ws_active\<close> and \<open>ws_rejects\<close> under \<open>ws_lock\<close>: admission and release are atomic.  A client
  is running from its admission to its release; a replaced client is told to stop and runs on until it notices.
\<close>

record slot =
  sl_active :: "nat option"
  sl_running :: "nat list"
  sl_stopped :: "nat list"
  sl_rejects :: nat

definition init_slot :: slot where
  "init_slot = \<lparr>sl_active = None, sl_running = [], sl_stopped = [], sl_rejects = 0\<rparr>"

definition admit :: "nat \<Rightarrow> slot \<Rightarrow> slot" where
  "admit c sl = sl\<lparr>sl_active := Some c, sl_running := c # sl_running sl\<rparr>"

definition connect_client :: "nat \<Rightarrow> bool \<Rightarrow> slot \<Rightarrow> bool \<times> slot" where
  "connect_client c replace sl =
     (case sl_active sl of
        Some old \<Rightarrow>
          if replace then (True, admit c (sl\<lparr>sl_stopped := old # sl_stopped sl\<rparr>))
          else (False, sl\<lparr>sl_rejects := sl_rejects sl + 1\<rparr>)
      | None \<Rightarrow> (True, admit c sl))"

text \<open>\<open>_handle_ws\<close> up to the handshake: the status of the answer, 101 for an admitted client.\<close>

definition handle_ws :: "string option \<Rightarrow> string option \<Rightarrow> string \<Rightarrow> nat \<Rightarrow> slot \<Rightarrow> int \<times> slot" where
  "handle_ws upgrade key target c sl =
     (if \<not> upgrade_ok upgrade key then (400, sl)
      else case connect_client c (wants_replace target) sl of
        (True, sl) \<Rightarrow> (101, sl)
      | (False, sl) \<Rightarrow> (409, sl))"

definition release_client :: "nat \<Rightarrow> slot \<Rightarrow> slot" where
  "release_client c sl =
     (let sl = (if sl_active sl = Some c then sl\<lparr>sl_active := None\<rparr> else sl)
      in sl\<lparr>sl_running := filter (\<lambda>d. d \<noteq> c) (sl_running sl)\<rparr>)"

inductive slot_step :: "slot \<Rightarrow> slot \<Rightarrow> bool" where
  step_connect: "c \<notin> set (sl_running sl) \<Longrightarrow> c \<notin> set (sl_stopped sl) \<Longrightarrow>
    slot_step sl (snd (handle_ws upgrade key target c sl))"
| step_release: "c \<in> set (sl_running sl) \<Longrightarrow> slot_step sl (release_client c sl)"

inductive slot_reachable :: "slot \<Rightarrow> bool" where
  reach_init: "slot_reachable init_slot"
| reach_step: "slot_reachable sl \<Longrightarrow> slot_step sl sl' \<Longrightarrow> slot_reachable sl'"

inductive_cases slot_stepE: "slot_step sl sl'"

text \<open>The clients that the push loop serves: running and not told to stop.\<close>

definition live_clients :: "slot \<Rightarrow> nat list" where
  "live_clients sl = filter (\<lambda>c. c \<notin> set (sl_stopped sl)) (sl_running sl)"

subsection \<open>The fixture\<close>

definition add_canonical :: "jobj \<Rightarrow> jobj list \<Rightarrow> jobj list" where
  "add_canonical entries out =
     out @ [[(''seq'', JInt (1 + int (length out))), (''ms'', JInt (1000 + 12 * int (length out)))] @ entries]"

definition protocol_doc :: "int \<Rightarrow> string \<Rightarrow> string \<Rightarrow> int \<Rightarrow> string \<Rightarrow> jobj" where
  "protocol_doc us event frame len hex =
     [(''type'', JStr ''protocol''), (''source'', JStr ''lp''), (''event_us'', JInt us), (''event'', JStr event),
      (''frame'', JStr frame), (''len'', JInt len), (''hex'', JStr hex)]"

definition JITTERS :: "int list" where "JITTERS = [-40, 15, 60, -10, 120, 5]"

definition canonical_cycle :: "nat \<Rightarrow> jobj list \<Rightarrow> jobj list" where
  "canonical_cycle i out =
     (let us = 1000000 + 70000 * (int i + 1)
      in add_canonical
           (protocol_doc (us + RESPONSE_DELAY_US + JITTERS ! i) ''tx'' FRAME_BROADCAST 14
              (''0217'' @ hex_upper (pack_u16 (int i * 8)) @ ''059C4100030600''))
           (add_canonical (protocol_doc us ''rx'' FRAME_STATUS_POLL 5 ''02170A0000'') out))"

definition command_doc :: "string \<Rightarrow> string \<Rightarrow> bool \<Rightarrow> string \<Rightarrow> jobj" where
  "command_doc phase button ok reason =
     [(''type'', JStr ''command''), (''phase'', JStr phase), (''button'', JStr button), (''ok'', JBool ok),
      (''reason'', JStr reason)]"

definition control_doc :: "string \<Rightarrow> jobj" where
  "control_doc action = [(''type'', JStr ''control''), (''action'', JStr action), (''enabled'', JBool True)]"

definition canonical_tail :: "int \<Rightarrow> jobj list" where
  "canonical_tail us =
     [[(''type'', JStr ''state''), (''source'', JStr ''broadcast''), (''target_position'', JInt 200),
       (''current_position'', JInt 40), (''state'', JStr ''opening''), (''state_raw'', JInt 2), (''light'', JBool True),
       (''bus_online'', JBool True), (''obstruction'', JBool False)],
      command_doc ''queue'' ''open'' True ''lp_mailbox'',
      trace_entries (us + 50) ''command'' 2 1,
      protocol_doc (us + 90000) ''bad_crc'' FRAME_BROADCAST 9 ''02170A0000020504DEAD'',
      protocol_doc (us + 95000) ''rx_error'' ''none'' 0 [],
      trace_entries (us + 96000) ''collision'' 9 1,
      trace_entries (us + 97000) ''tx_abort'' 8 1,
      [(''type'', JStr ''lp_trace_overflow''), (''dropped'', JInt 3)],
      command_doc ''execute'' ''close'' False ''busy'']"

definition canonical_records :: "jobj list" where
  "canonical_records =
     (let start = add_canonical (control_doc ''start'') (add_canonical (control_doc ''boot'') []);
          polled = fold canonical_cycle [0..<6] start
      in fold add_canonical (canonical_tail (1000000 + 70000 * 6)) polled)"

end
