(* ===== verification/Mock_Props.thy ===== *)
theory Mock_Props
  imports Mock_Web
begin

text \<open>
  Properties of the mock server: the accounts of its generator, what the load runner's classifier says of its health
  document, the WebSocket frames, and the slot for one client.
\<close>

subsection \<open>The generator\<close>

text \<open>Every poll is answered, dropped or corrupted, and the ring keeps at most its capacity.\<close>

definition mock_accounts :: "mock \<Rightarrow> bool" where
  "mock_accounts s \<longleftrightarrow>
     mk_polls_seen s = mk_polls_answered s + mk_missed_polls s + mk_crc_errors s \<and> mk_cycle s = mk_polls_seen s \<and>
     mk_lp_heartbeat s = mk_polls_seen s \<and> 0 \<le> mk_polls_answered s \<and> 0 \<le> mk_missed_polls s \<and>
     0 \<le> mk_crc_errors s \<and> 0 \<le> mk_tx_aborts s \<and> 0 \<le> mk_collisions s \<and>
     0 \<le> mk_event_us s \<and> mk_event_us s < 2 ^ 32"

definition mock_inv :: "mock \<Rightarrow> bool" where
  "mock_inv s \<longleftrightarrow> mock_accounts s \<and> length (mk_recent s) \<le> RECENT_CAP"

text \<open>The records of a batch are numbered consecutively.\<close>

definition numbered :: "int \<Rightarrow> jobj list \<times> mock \<Rightarrow> bool" where
  "numbered first rs \<longleftrightarrow>
     map (\<lambda>r. jget r ''seq'') (fst rs) = map (\<lambda>i. JInt (first + int i)) [0..<length (fst rs)] \<and>
     mk_seq (snd rs) = first + int (length (fst rs))"

lemma numbered_push: "numbered first (recs, s) \<Longrightarrow> numbered first (push_record clock entries (recs, s))"
  by (simp add: numbered_def push_record_def jget_def)

lemma numbered_seq: "mk_seq s' = mk_seq s \<Longrightarrow> numbered first (recs, s') = numbered first (recs, s)"
  by (simp add: numbered_def)

lemma numbered_steps:
  assumes "numbered first rs"
  shows "numbered first (collision_step clock rs)" "numbered first (abort_step clock rs)"
    "numbered first (reply_step clock rs)" "numbered first (state_step clock rs)"
    "numbered first (command_step clock rs)"
  using assms by (cases rs; simp add: collision_step_def abort_step_def reply_step_def state_step_def command_step_def
      Let_def push_record_def numbered_def jget_def)+

lemma numbered_poll_cycle:
  assumes "numbered first rs"
  shows "numbered first (poll_cycle clock rs)"
proof -
  obtain recs s where rs: "rs = (recs, s)" by (cases rs)
  have "numbered first (recs, start_cycle s)"
    using assms rs numbered_seq [of "start_cycle s" s] by (simp add: start_cycle_def)
  then show ?thesis
    unfolding rs poll_cycle_def prod.case Let_def by (intro numbered_steps numbered_push)
qed

lemma snd_push_record [simp]: "snd (push_record clock entries rs) = (snd rs)\<lparr>mk_seq := mk_seq (snd rs) + 1\<rparr>"
  by (cases rs) (simp add: push_record_def)

lemma wrap32: "0 \<le> x AND 0xFFFFFFFF \<and> x AND 0xFFFFFFFF < (2 :: int) ^ 32"
proof -
  have "x AND 0xFFFFFFFF = take_bit 32 x"
    by (simp add: take_bit_eq_mask mask_numeral)
  then show ?thesis
    using take_bit_int_less_exp [of 32 x] by simp
qed

lemma accounts_poll_cycle:
  "mock_accounts (snd rs) \<Longrightarrow> mock_accounts (snd (poll_cycle clock rs)) \<and>
   mk_recent (snd (poll_cycle clock rs)) = mk_recent (snd rs) \<and>
   mk_polls_seen (snd (poll_cycle clock rs)) = mk_polls_seen (snd rs) + 1"
  using wrap32 [of "mk_event_us (snd rs) + 70000"]
  by (cases rs) (simp add: poll_cycle_def reply_step_def abort_step_def collision_step_def start_cycle_def
      push_record_def corrupts_def drops_def mock_accounts_def Let_def)

lemma accounts_cycles:
  "mock_accounts (snd rs) \<Longrightarrow> mock_accounts (snd ((poll_cycle clock ^^ n) rs)) \<and>
   mk_recent (snd ((poll_cycle clock ^^ n) rs)) = mk_recent (snd rs) \<and>
   mk_polls_seen (snd ((poll_cycle clock ^^ n) rs)) = mk_polls_seen (snd rs) + int n"
  by (induction n) (simp_all add: accounts_poll_cycle)

lemma numbered_cycles: "numbered first rs \<Longrightarrow> numbered first ((poll_cycle clock ^^ n) rs)"
  by (induction n) (simp_all add: numbered_poll_cycle)

lemma only_seq:
  "\<exists>k. snd (if b then push_record clock e (recs, s) else (recs, s)) = s\<lparr>mk_seq := k\<rparr>"
  "\<exists>k. snd (if b then push_record clock e (push_record clock e' (recs, s)) else (recs, s)) = s\<lparr>mk_seq := k\<rparr>"
proof -
  have keep: "\<exists>k. s = s\<lparr>mk_seq := k\<rparr>"
    by (rule exI [of _ "mk_seq s"]) simp
  show "\<exists>k. snd (if b then push_record clock e (recs, s) else (recs, s)) = s\<lparr>mk_seq := k\<rparr>"
    using keep by (cases b) (simp_all, metis)
  show "\<exists>k. snd (if b then push_record clock e (push_record clock e' (recs, s)) else (recs, s)) = s\<lparr>mk_seq := k\<rparr>"
    using keep by (cases b) (simp_all, metis)
qed

lemma tail_steps:
  "\<exists>k. snd (state_step clock rs) = (snd rs)\<lparr>mk_seq := k\<rparr>"
  "\<exists>k. snd (command_step clock rs) = (snd rs)\<lparr>mk_seq := k\<rparr>"
  unfolding state_step_def command_step_def by (cases rs; simp only: prod.case snd_conv only_seq)+

lemma accounts_tail:
  "mock_accounts (snd (command_step clock (state_step clock rs))) = mock_accounts (snd rs)"
  "mk_recent (snd (command_step clock (state_step clock rs))) = mk_recent (snd rs)"
  "mk_polls_seen (snd (command_step clock (state_step clock rs))) = mk_polls_seen (snd rs)"
proof -
  obtain k l where "snd (command_step clock (state_step clock rs)) = (snd (state_step clock rs))\<lparr>mk_seq := k\<rparr>"
      "snd (state_step clock rs) = (snd rs)\<lparr>mk_seq := l\<rparr>"
    using tail_steps by metis
  then show "mock_accounts (snd (command_step clock (state_step clock rs))) = mock_accounts (snd rs)"
    "mk_recent (snd (command_step clock (state_step clock rs))) = mk_recent (snd rs)"
    "mk_polls_seen (snd (command_step clock (state_step clock rs))) = mk_polls_seen (snd rs)"
    by (simp_all add: mock_accounts_def)
qed

lemma length_keep_recent: "length (keep_recent lines) \<le> RECENT_CAP"
  by (simp add: keep_recent_def)

lemma batch_facts:
  assumes "mock_accounts s" and "batch_records clock s = (recs, s')"
  shows "mock_accounts s'" and "mk_recent s' = mk_recent s" and "numbered (mk_seq s) (recs, s')"
    and "mk_polls_seen s' = mk_polls_seen s + int (batch_cycles s)"
proof -
  let ?c = "(poll_cycle clock ^^ batch_cycles s) ([], s)"
  have s': "snd (command_step clock (state_step clock ?c)) = s'"
    using assms(2) by (simp add: batch_records_def)
  show "mock_accounts s'" and "mk_recent s' = mk_recent s"
    and "mk_polls_seen s' = mk_polls_seen s + int (batch_cycles s)"
    using accounts_cycles [where rs = "([], s)" and clock = clock and n = "batch_cycles s"] assms(1) accounts_tail [of clock ?c] by (simp_all add: s')
  have "numbered (mk_seq s) ([], s)" by (simp add: numbered_def)
  then have "numbered (mk_seq s) (command_step clock (state_step clock ?c))"
    by (intro numbered_steps numbered_cycles)
  then show "numbered (mk_seq s) (recs, s')"
    using assms(2) by (simp add: batch_records_def)
qed

lemma mock_inv_recent: "mock_accounts (s\<lparr>mk_recent := lines\<rparr>) = mock_accounts s"
  by (simp add: mock_accounts_def)

lemma generate_batch_inv: "mock_inv s \<Longrightarrow> mock_inv (snd (generate_batch clock s))"
proof -
  assume s: "mock_inv s"
  obtain recs s' where b: "batch_records clock s = (recs, s')" by (cases "batch_records clock s")
  show ?thesis
    using s batch_facts [OF _ b] b
    by (simp add: generate_batch_def mock_inv_def mock_inv_recent length_keep_recent Let_def)
qed

interpretation mock: machine "\<lambda>clock s. snd (generate_batch clock s)" mock_inv
  by unfold_locales (rule generate_batch_inv)

lemma mock_inv_init: "mock_inv (MockState scenario)"
  by (simp add: mock_inv_def mock_accounts_def MockState_def)

text \<open>After any number of batches, whatever the clock says, the counters add up.\<close>

lemma mock_run_inv: "mock_inv (fold (\<lambda>clock s. snd (generate_batch clock s)) clocks (MockState scenario))"
  by (rule mock.run_inv) (rule mock_inv_init)

subsection \<open>Health\<close>

text \<open>The numbers and flags that the classifier looks up in the mock's document.\<close>

lemma nested_mock:
  "nested_in [''checks'', ''lp'', ''stats''] (mock_health now_ms s) name =
   (if map_of (mock_checks s (mock_reasons s = [])) name \<noteq> None
    then jget (mock_checks s (mock_reasons s = [])) name
    else nested_in [''lp'', ''stats''] (mock_health now_ms s) name)"
  by (simp add: mock_health_def Let_def jget_def)

lemma mock_firmware:
  "firmware_reasons_of str_other (mock_health now_ms s) = mock_reasons s"
  "verdict_is (mock_health now_ms s) ''ok'' \<longleftrightarrow> mock_reasons s = []"
  "verdict_is (mock_health now_ms s) ''fail'' \<longleftrightarrow> mock_reasons s \<noteq> []"
  "jget (mock_health now_ms s) ''safe_for_ota_restart'' = JBool (mock_reasons s = [])"
  by (simp_all add: firmware_reasons_of_def verdict_is_def mock_health_def jget_def Let_def text_of_def o_def)

lemma mock_reasons_Nil:
  "mock_reasons s = [] \<longleftrightarrow> mk_scenario s \<noteq> ''hp_fallback'' \<and> mk_missed_polls s = 0 \<and> mk_tx_aborts s = 0 \<and>
     mk_collisions s = 0 \<and> mk_crc_errors s = 0"
  by (simp add: mock_reasons_def)

lemma mock_firmware_ok: "firmware_ok str_other (mock_health now_ms s) \<longleftrightarrow> mock_reasons s = []"
  by (auto simp: firmware_ok_def legacy_ota_only_fail_def mock_firmware)

lemma mock_lookup:
  "nested_in [''checks'', ''lp'', ''stats''] (mock_health now_ms s) ''lp_mode'' = JBool (mk_scenario s \<noteq> ''hp_fallback'')"
  "nested_in [''checks'', ''lp'', ''stats''] (mock_health now_ms s) ''lp_seen'' = JBool True"
  "nested_in [''checks'', ''lp'', ''stats''] (mock_health now_ms s) ''bus_online'' = JBool True"
  "nested_in [''checks'', ''lp'', ''stats''] (mock_health now_ms s) ''valid_broadcast'' = JBool True"
  "nested_in [''checks'', ''lp'', ''stats''] (mock_health now_ms s) ''missed_polls'' = JInt (mk_missed_polls s)"
  "nested_in [''checks'', ''lp'', ''stats''] (mock_health now_ms s) ''raw_missed_polls'' = JInt (mk_missed_polls s)"
  "nested_in [''checks'', ''lp'', ''stats''] (mock_health now_ms s) ''tx_aborts'' = JInt (mk_tx_aborts s)"
  "nested_in [''checks'', ''lp'', ''stats''] (mock_health now_ms s) ''collisions'' = JInt (mk_collisions s)"
  "nested_in [''checks'', ''lp'', ''stats''] (mock_health now_ms s) ''loop_overruns'' = JInt 0"
  "nested_in [''checks'', ''lp'', ''stats''] (mock_health now_ms s) ''stuck_de_recoveries'' = JInt 0"
  "nested_in [''checks'', ''lp'', ''stats''] (mock_health now_ms s) ''rx_starvations'' = JInt 0"
  "nested_in [''checks'', ''lp'', ''stats''] (mock_health now_ms s) ''last_poll_age_ms'' = JInt 12"
  "nested_in [''checks'', ''lp'', ''stats''] (mock_health now_ms s) ''health_flags'' =
     JInt (if mk_crc_errors s \<noteq> 0 then 1 else 0)"
  by (simp_all only: nested_mock) (simp_all add: mock_checks_def jget_def)

lemma mock_transport_ok:
  "fst (transport_reasons ok fault_expected (mock_health now_ms s)) = [] \<longleftrightarrow>
   mk_scenario s \<noteq> ''hp_fallback'' \<and> mk_missed_polls s = 0 \<and> mk_tx_aborts s = 0 \<and> mk_collisions s = 0 \<and>
   (mk_crc_errors s = 0 \<or> ok)"
  if "mk_missed_polls s = 1 \<longrightarrow> \<not> ok"
  using that unfolding transport_reasons_ok bus_names_def counter_names_def list.pred_inject nested_bool_def nested_int_def
    mock_lookup has_rx_warning_def non_rx_flags_def
  by (auto simp: bool_value_def const_defs)

text \<open>The mock and the load runner agree: whatever scenario the mock plays and whatever its counters are, its own
  verdict is \<open>ok\<close> exactly when the classifier of the load runner finds continuity in its health document, with and
  without injected faults.\<close>

theorem mock_health_agrees:
  "cl_continuity (classify_device_health str_other (mock_health now_ms s) fault_expected) = ''ok'' \<longleftrightarrow>
   jget (mock_health now_ms s) ''verdict'' = JStr ''ok''"
proof -
  have verdict: "jget (mock_health now_ms s) ''verdict'' = JStr ''ok'' \<longleftrightarrow> mock_reasons s = []"
    using mock_firmware(2) by (simp add: verdict_is_def)
  show ?thesis
  proof (cases "mock_reasons s = []")
    case True
    then have "fst (transport_reasons True fault_expected (mock_health now_ms s)) = []"
      using mock_transport_ok [of s True] mock_reasons_Nil by simp
    then have "fst (all_reasons str_other fault_expected (mock_health now_ms s)) = []"
      using True by (simp add: all_reasons_def mock_firmware mock_firmware_ok)
    then show ?thesis using True by (simp add: classify_sel verdict)
  next
    case False
    have "fst (transport_reasons False fault_expected (mock_health now_ms s)) \<noteq> []"
      using False mock_transport_ok [of s False] mock_reasons_Nil by auto
    then have "fst (all_reasons str_other fault_expected (mock_health now_ms s)) \<noteq> []"
      using all_reasons_ok(1) [of str_other fault_expected "mock_health now_ms s"] False mock_firmware_ok by metis
    then show ?thesis using False by (simp add: classify_sel verdict)
  qed
qed

subsection \<open>WebSocket frames\<close>

lemma be_value_append: "be_value (bs @ [b]) = 256 * be_value bs + unat b"
  by (simp add: be_value_def)

lemma unat_of_nat_byte: "unat (of_nat n :: byte) = n mod 256"
  by (simp add: unat_of_nat)

lemma be_value_bytes: "n < 256 ^ k \<Longrightarrow> be_value (be_bytes k n) = n"
proof (induction k arbitrary: n)
  case 0
  then show ?case by (simp add: be_value_def)
next
  case (Suc k)
  then have "n div 256 < 256 ^ k"
    by (simp add: less_mult_imp_div_less mult.commute)
  then show ?case
    using Suc.IH by (simp add: be_value_append unat_of_nat_byte)
qed

lemma length_be_bytes [simp]: "length (be_bytes k n) = k"
  by (induction k arbitrary: n) simp_all

lemma be_bytes_2: "be_bytes 2 n = [of_nat (n div 256), of_nat n]"
  by (simp add: numeral_2_eq_2)

lemma take_exact_append: "take_exact (length a) (a @ b) = Some (a, b)"
  by (simp add: take_exact_def)

text \<open>A WebSocket text frame is read back by a receiver as the text that was sent, for every length of the text in
  each of the three length formats, and whatever follows it in the stream.\<close>

theorem ws_frame_roundtrip:
  assumes "ws_text_frame data = Inr frame"
  shows "receive_frame (frame @ rest) = Some (data, rest)"
proof -
  let ?n = "length data"
  consider (short) "?n < 126" | (mid) "126 \<le> ?n" "?n < 65536" | (long) "65536 \<le> ?n" "?n < 2 ^ 64"
    using assms by (auto simp: ws_text_frame_def Let_def split: if_splits)
  then show ?thesis
  proof cases
    case short
    then have "frame = [0x81, of_nat ?n] @ data"
      using assms by (simp add: ws_text_frame_def Let_def)
    then show ?thesis
      using short take_exact_append [of data rest] by (simp add: receive_frame_def unat_of_nat_byte)
  next
    case mid
    then have "frame = [0x81, 126] @ be_bytes 2 ?n @ data"
      using assms by (simp add: ws_text_frame_def Let_def be_bytes_2)
    then show ?thesis
      using mid take_exact_append [of "be_bytes 2 ?n" "data @ rest"] be_value_bytes [of ?n 2] take_exact_append [of data rest]
      by (simp add: receive_frame_def)
  next
    case long
    then have "frame = [0x81, 127] @ be_bytes 8 ?n @ data"
      using assms by (simp add: ws_text_frame_def Let_def)
    then show ?thesis
      using long take_exact_append [of "be_bytes 8 ?n" "data @ rest"] be_value_bytes [of ?n 8] take_exact_append [of data rest]
      by (simp add: receive_frame_def)
  qed
qed

theorem ws_frame_roundtrip_witness:
  "\<exists>frame. ws_text_frame (replicate 126 0x7B) = Inr frame \<and>
     receive_frame (frame @ [0x88, 0x00]) = Some (replicate 126 0x7B, [0x88, 0x00])"
proof -
  obtain frame where f: "ws_text_frame (replicate 126 0x7B) = Inr frame"
    by (simp add: ws_text_frame_def)
  from ws_frame_roundtrip [OF f] show ?thesis using f by blast
qed

subsection \<open>The WebSocket slot\<close>

text \<open>Clients that run and were not told to stop are the active one, and no client runs twice.\<close>

definition slot_inv :: "slot \<Rightarrow> bool" where
  "slot_inv sl \<longleftrightarrow>
     distinct (sl_running sl) \<and>
     live_clients sl = (case sl_active sl of None \<Rightarrow> [] | Some c \<Rightarrow> [c])"

lemma slot_inv_init: "slot_inv init_slot"
  by (simp add: slot_inv_def init_slot_def live_clients_def)

lemma slot_inv_connect:
  assumes "slot_inv sl" and "c \<notin> set (sl_running sl)" and "c \<notin> set (sl_stopped sl)"
  shows "slot_inv (snd (connect_client c replace sl))"
proof (cases "sl_active sl")
  case None
  then show ?thesis
    using assms by (simp add: slot_inv_def connect_client_def admit_def live_clients_def)
next
  case (Some old)
  then have live: "filter (\<lambda>d. d \<notin> set (sl_stopped sl)) (sl_running sl) = [old]"
    using assms(1) by (simp add: slot_inv_def live_clients_def)
  then have "old \<in> set (filter (\<lambda>d. d \<notin> set (sl_stopped sl)) (sl_running sl))"
    by simp
  then have "old \<in> set (sl_running sl)" by simp
  then have "c \<noteq> old" using assms(2) by blast
  moreover have "filter (\<lambda>d. d \<noteq> old \<and> d \<notin> set (sl_stopped sl)) (sl_running sl) = []"
    using arg_cong [OF live, of "filter (\<lambda>d. d \<noteq> old)"] by (simp add: filter_filter conj_commute)
  ultimately show ?thesis
    using Some assms by (auto simp: slot_inv_def connect_client_def admit_def live_clients_def)
qed

lemma slot_inv_release:
  assumes "slot_inv sl" and "c \<in> set (sl_running sl)"
  shows "slot_inv (release_client c sl)"
proof -
  have live: "live_clients (release_client c sl) = filter (\<lambda>d. d \<noteq> c) (live_clients sl)"
    by (simp add: live_clients_def release_client_def Let_def filter_filter conj_commute)
  show ?thesis
    using assms(1) unfolding slot_inv_def live
    by (auto simp: release_client_def Let_def split: option.splits)
qed

lemma slot_inv_reachable: "slot_reachable sl \<Longrightarrow> slot_inv sl"
proof (induction rule: slot_reachable.induct)
  case reach_init
  show ?case by (rule slot_inv_init)
next
  case (reach_step sl sl')
  from reach_step.hyps(2) show ?case
  proof (rule slot_stepE)
    fix c upgrade key target
    assume "sl' = snd (handle_ws upgrade key target c sl)" and "c \<notin> set (sl_running sl)" and "c \<notin> set (sl_stopped sl)"
    then show "slot_inv sl'"
      using reach_step.IH slot_inv_connect [of sl c "wants_replace target"]
      by (auto simp: handle_ws_def split: prod.split bool.split)
  next
    fix c
    assume "sl' = release_client c sl" and "c \<in> set (sl_running sl)"
    then show "slot_inv sl'"
      using reach_step.IH slot_inv_release by simp
  qed
qed

text \<open>C39: However the handler threads interleave, at most one WebSocket client is served: in every reachable state the
  clients that run and have not been told to stop are exactly the one the server holds as active, also after take-overs
  and when a replaced client releases its connection late.\<close>

theorem one_live_client:
  assumes "slot_reachable sl"
  shows "live_clients sl = (case sl_active sl of None \<Rightarrow> [] | Some c \<Rightarrow> [c])"
  using slot_inv_reachable [OF assms] by (simp add: slot_inv_def)

definition slot_1 :: slot where
  "slot_1 = snd (handle_ws (Some ''websocket'') (Some ''k'') ''/hcp2_log/ws'' 7 init_slot)"

definition slot_2 :: slot where
  "slot_2 = snd (handle_ws (Some ''WebSocket'') (Some ''k'') ''/hcp2_log/ws?replace=1'' 2 slot_1)"

theorem one_live_client_witness:
  "live_clients (release_client 7 slot_2) = [2] \<and> sl_active (release_client 7 slot_2) = Some 2"
proof -
  have eval: "sl_running slot_1 = [7]" "sl_stopped slot_1 = []" "sl_running slot_2 = [2, 7]"
      "sl_active (release_client 7 slot_2) = Some 2"
    by code_simp+
  have "slot_step init_slot slot_1"
    unfolding slot_1_def by (rule step_connect) (simp_all add: init_slot_def)
  moreover have "slot_step slot_1 slot_2"
    unfolding slot_2_def by (rule step_connect) (simp_all add: eval)
  moreover have "slot_step slot_2 (release_client 7 slot_2)"
    by (rule step_release) (simp add: eval)
  ultimately have "slot_reachable (release_client 7 slot_2)"
    using reach_init reach_step by blast
  from one_live_client [OF this] show ?thesis by (simp add: eval)
qed

end
