(* ===== verification/Transports.thy ===== *)
theory Transports
  imports Simulator
begin

text \<open>
  \<open>tools/supramatic_sim/transport.py\<close>: what the transports of the virtual drive do around the operating system.  The
  file descriptor, the pipes and the process of the host responder are the record host; its fields are the calls
  the code makes.  The model covers the command lines, the loop that writes a frame in portions, reading, the
  commands over the pipe, and the order of the steps of close.
\<close>

subsection \<open>The host responder\<close>

text \<open>
  \<open>os.write\<close> takes a prefix or raises \<open>BlockingIOError\<close>; \<open>os.read\<close> returns bytes or raises the same; a wait
  returns the code or times out; \<open>None\<close> stands for the exception or the time-out.
\<close>

record 'p host =
  h_os_write :: "bytes \<Rightarrow> 'p \<Rightarrow> nat option \<times> 'p"
  h_select_write :: "'p \<Rightarrow> 'p"
  h_select_read :: "rat \<Rightarrow> 'p \<Rightarrow> bool \<times> 'p"
  h_os_read :: "nat \<Rightarrow> 'p \<Rightarrow> bytes option \<times> 'p"
  h_piped :: bool
  h_send_line :: "string \<Rightarrow> 'p \<Rightarrow> 'p"
  h_read_line :: "'p \<Rightarrow> string \<times> 'p"

definition responder_options :: "int \<Rightarrow> int \<Rightarrow> int \<Rightarrow> string list" where
  "responder_options response_delay_us slave_id button_press_us =
     [''--slave-id'', py_str_int slave_id, ''--response-delay-us'', py_str_int response_delay_us,
      ''--button-press-us'', py_str_int button_press_us]"

definition pty_command :: "string \<Rightarrow> string \<Rightarrow> int \<Rightarrow> int \<Rightarrow> int \<Rightarrow> string list" where
  "pty_command responder slave_path response_delay_us slave_id button_press_us =
     [responder, ''--device'', slave_path] @ responder_options response_delay_us slave_id button_press_us"

definition socketpair_command :: "string \<Rightarrow> int \<Rightarrow> int \<Rightarrow> int \<Rightarrow> int \<Rightarrow> string list" where
  "socketpair_command responder fd response_delay_us slave_id button_press_us =
     [responder, ''--fd'', py_str_int fd] @ responder_options response_delay_us slave_id button_press_us"

definition read_ready :: "'p host \<Rightarrow> 'p \<Rightarrow> string result \<times> 'p" where
  "read_ready h p =
     (case h_read_line h p of (line, p) \<Rightarrow>
        (let ready = py_strip line
         in if py_startswith ''READY'' ready then (Inr ready, p)
            else (Inl (RuntimeError (''host_responder did not start: '' @ py_repr ready)), p)))"

text \<open>
  The loop of \<open>write\<close>: the portions the descriptor took, in their order.  It may wait forever for a descriptor that
  never takes anything.
\<close>

partial_function (option) write_loop :: "'p host \<Rightarrow> bytes \<Rightarrow> 'p \<Rightarrow> (bytes list \<times> 'p) option" where
  "write_loop h data p =
     (if data = [] then Some ([], p)
      else case h_os_write h data p of
        (None, p) \<Rightarrow> write_loop h data (h_select_write h p)
      | (Some n, p) \<Rightarrow>
          Option.bind (write_loop h (drop n data) p) (\<lambda>(portions, p). Some (take n data # portions, p)))"

definition host_read_available :: "'p host \<Rightarrow> rat \<Rightarrow> 'p \<Rightarrow> bytes \<times> 'p" where
  "host_read_available h timeout p =
     (case h_select_read h (max timeout 0) p of
        (readable, p) \<Rightarrow>
          if \<not> readable then ([], p)
          else case h_os_read h 4096 p of
            (None, p) \<Rightarrow> ([], p)
          | (Some bs, p) \<Rightarrow> (bs, p))"

definition py_rstrip :: "string \<Rightarrow> string" where
  "py_rstrip t = rev (py_lstrip (rev t))"

definition host_command :: "'p host \<Rightarrow> string \<Rightarrow> 'p \<Rightarrow> string result \<times> 'p" where
  "host_command h line p =
     (if \<not> h_piped h then (Inl (RuntimeError ''host_responder command pipe is closed''), p)
      else case h_read_line h (h_send_line h (py_rstrip line @ [CHR 0x0A]) p) of
        (reply, p) \<Rightarrow> (Inr (py_strip reply), p))"

subsection \<open>Closing\<close>

datatype close_step =
    Sent_Quit
  | Closed_Fd
  | Terminated
  | Killed
  | Reaped int

text \<open>
  \<open>poll\<close> before and after the descriptor is closed, and the waits after \<open>terminate\<close> and \<open>kill\<close>.  Errors of \<open>quit\<close> and
  of \<open>os.close\<close> are swallowed.
\<close>

record close_outcome =
  co_poll_before :: "int option"
  co_poll_after :: "int option"
  co_wait :: "int option"
  co_wait_killed :: "int option"

definition host_close :: "bool \<Rightarrow> close_outcome \<Rightarrow> unit result \<times> close_step list" where
  "host_close stdin_open oc =
     (let quit = (if stdin_open \<and> co_poll_before oc = None then [Sent_Quit] else []) @ [Closed_Fd]
      in case co_poll_after oc of
           Some code \<Rightarrow> (Inr (), quit @ [Reaped code])
         | None \<Rightarrow>
            (case co_wait oc of
               Some code \<Rightarrow> (Inr (), quit @ [Terminated, Reaped code])
             | None \<Rightarrow>
                (case co_wait_killed oc of
                   Some code \<Rightarrow> (Inr (), quit @ [Terminated, Killed, Reaped code])
                 | None \<Rightarrow> (Inl (Raised ''TimeoutExpired'' ''2''), quit @ [Terminated, Killed]))))"

subsection \<open>The serial port\<close>

text \<open>\<open>SerialTransport.command\<close> raises; \<open>set_low_latency_mode\<close> is optional and may raise.\<close>

definition serial_command :: "string \<Rightarrow> (string \<times> string) + string" where
  "serial_command line =
     Inl (''RuntimeError'', ''serial transport cannot handle local responder command '' @ py_repr line)"

definition low_latency :: "(string \<times> string) option option \<Rightarrow> bool \<times> string option" where
  "low_latency oc =
     (case oc of
        None \<Rightarrow> (False, None)
      | Some None \<Rightarrow> (True, None)
      | Some (Some (cls, msg)) \<Rightarrow> (False, Some (cls @ '': '' @ msg)))"

definition serial_env :: "(string \<times> string) option option \<Rightarrow> 't env \<Rightarrow> 't env" where
  "serial_env oc port =
     port\<lparr>e_command := \<lambda>line t. (serial_command line, 0, t), e_advance_time_us := None,
          e_class_name := ''SerialTransport'', e_low_latency_enabled := fst (low_latency oc),
          e_low_latency_error := snd (low_latency oc)\<rparr>"

subsection \<open>A frame reaches the descriptor whole\<close>

text \<open>
  What the operating system promises: a write takes at least one byte and no more than it was given, and after finitely
  many waits the descriptor takes something again.
\<close>

definition fair_host :: "'p host \<Rightarrow> ('p \<Rightarrow> nat) \<Rightarrow> bool" where
  "fair_host h patience \<longleftrightarrow>
     (\<forall>data p n p'. data \<noteq> [] \<longrightarrow> h_os_write h data p = (Some n, p') \<longrightarrow> 1 \<le> n \<and> n \<le> length data) \<and>
     (\<forall>data p p'. data \<noteq> [] \<longrightarrow> h_os_write h data p = (None, p') \<longrightarrow> patience (h_select_write h p') < patience p)"

lemma fair_write: "fair_host h r \<Longrightarrow> data \<noteq> [] \<Longrightarrow> h_os_write h data p = (Some n, p') \<Longrightarrow> 1 \<le> n \<and> n \<le> length data"
  unfolding fair_host_def by blast

lemma fair_wait: "fair_host h r \<Longrightarrow> data \<noteq> [] \<Longrightarrow> h_os_write h data p = (None, p') \<Longrightarrow> r (h_select_write h p') < r p"
  unfolding fair_host_def by blast

lemma write_loop_returns:
  assumes "fair_host h patience"
  shows "\<exists>portions p'. write_loop h data p = Some (portions, p') \<and> concat portions = data \<and>
    list_all (\<lambda>portion. portion \<noteq> []) portions"
proof (induction "(data, p)" arbitrary: data p
    rule: wf_induct_rule [OF wf_measures [of "[\<lambda>(data, p). length data, \<lambda>(data, p). patience p]"]])
  case (1 data p)
  show ?case
  proof (cases "data = []")
    case False
    obtain r p1 where w: "h_os_write h data p = (r, p1)" by fastforce
    show ?thesis
    proof (cases r)
      case None
      have "patience (h_select_write h p1) < patience p"
        using fair_wait [OF assms False] w None by simp
      then have "\<exists>portions p'. write_loop h data (h_select_write h p1) = Some (portions, p') \<and>
          concat portions = data \<and> list_all (\<lambda>portion. portion \<noteq> []) portions"
        by (intro 1) simp_all
      then show ?thesis
        using False w None by (simp add: write_loop.simps [of h data p])
    next
      case (Some n)
      have n: "1 \<le> n" "n \<le> length data"
        using fair_write [OF assms False] w Some by auto
      then obtain portions p' where "write_loop h (drop n data) p1 = Some (portions, p')"
          "concat portions = drop n data" "list_all (\<lambda>portion. portion \<noteq> []) portions"
        using 1 [of "drop n data" p1] False by auto
      then show ?thesis
        using False w Some n by (simp add: write_loop.simps [of h data p])
    qed
  qed (simp add: write_loop.simps)
qed

text \<open>Writing a frame to the host responder returns as soon as the descriptor does not refuse for ever, and whatever
  portions it takes, together they are the frame, in order and without a repetition.\<close>

theorem frame_written_whole:
  assumes "fair_host h patience"
  shows "\<exists>portions p'. write_loop h data p = Some (portions, p') \<and> concat portions = data \<and>
    list_all (\<lambda>portion. portion \<noteq> []) portions"
  using assms by (rule write_loop_returns)

text \<open>A descriptor that refuses every other call and takes at most two bytes.\<close>

definition slow_host :: "bool host" where
  "slow_host =
     \<lparr>h_os_write = \<lambda>data ready. if ready then (Some (min 2 (length data)), False) else (None, False),
      h_select_write = \<lambda>_. True, h_select_read = \<lambda>_ p. (False, p), h_os_read = \<lambda>_ p. (None, p), h_piped = True,
      h_send_line = \<lambda>_ p. p, h_read_line = \<lambda>p. (''READY'', p)\<rparr>"

lemma slow_host_fair: "fair_host slow_host (\<lambda>ready. if ready then 0 else 1)"
  by (auto simp: fair_host_def slow_host_def Suc_le_eq min_def split: if_splits)

theorem frame_written_whole_witness:
  "\<exists>portions p'. write_loop slow_host [1, 2, 3, 4, 5] True = Some (portions, p') \<and>
    concat portions = [1, 2, 3, 4, 5] \<and> list_all (\<lambda>portion. portion \<noteq> []) portions"
  by (rule frame_written_whole [OF slow_host_fair])

end
