(* ===== verification/Sim_Main.thy ===== *)
theory Sim_Main
  imports Simulator_Props Transports Hil_Commands
begin

text \<open>
  \<open>tools/supramatic_sim/__main__.py\<close>: the command line of the virtual drive.  The parsed arguments are a record; what
  opening a transport gives (an environment of the simulator, the clock and the state of the transport, or an exception)
  is a parameter.  A run returns its report or the exception it raises, with the effects it had in their order.
\<close>

subsection \<open>Arguments\<close>

record sim_args =
  sa_pty :: bool
  sa_socketpair :: bool
  sa_serial :: "string option"
  sa_cycles :: int
  sa_duration_hours :: "rat option"
  sa_speed_factor :: rat
  sa_slave_id :: int
  sa_counter_profile :: string
  sa_dut_response_delay_us :: int
  sa_missed_poll_threshold :: int
  sa_report :: "string option"
  sa_trace :: "string option"
  sa_progress :: "string option"
  sa_progress_interval_s :: rat
  sa_no_progress_fsync :: bool
  sa_abort_on_miss :: bool
  sa_fault :: "string list"
  sa_fault_every_cycles :: int
  sa_fault_cycle :: "int list"
  sa_command :: "string option"
  sa_scenario :: string
  sa_door_travel_cycles :: int
  sa_reverse_profile :: string
  sa_reverse_dwell_cycles :: int
  sa_stop_latency_cycles :: int
  sa_overshoot_raw_ticks :: int
  sa_half_position_raw :: int
  sa_vent_position_raw :: int
  sa_goto_position_raw :: int
  sa_obstruction_cycle :: "int option"
  sa_obstruction_no_reverse :: bool
  sa_speculative_obstruction_flags :: bool
  sa_emulate_esphome_commands :: bool
  sa_expect_button :: "string list"
  sa_selftest :: bool

text \<open>The defaults of the parser.\<close>

definition default_sim_args :: sim_args where
  "default_sim_args =
     \<lparr>sa_pty = False, sa_socketpair = False, sa_serial = None, sa_cycles = 1000, sa_duration_hours = None,
      sa_speed_factor = DEFAULT_SPEED_FACTOR, sa_slave_id = uint SLAVE_ID,
      sa_counter_profile = DEFAULT_COUNTER_PROFILE, sa_dut_response_delay_us = 4200,
      sa_missed_poll_threshold = DEFAULT_MISSED_POLL_THRESHOLD, sa_report = None, sa_trace = None,
      sa_progress = None, sa_progress_interval_s = 60, sa_no_progress_fsync = False, sa_abort_on_miss = False,
      sa_fault = [], sa_fault_every_cycles = 0, sa_fault_cycle = [], sa_command = None, sa_scenario = ''steady'',
      sa_door_travel_cycles = DEFAULT_DOOR_TRAVEL_CYCLES, sa_reverse_profile = ''stop_then_reverse'',
      sa_reverse_dwell_cycles = 4, sa_stop_latency_cycles = 1, sa_overshoot_raw_ticks = 1,
      sa_half_position_raw = DEFAULT_HALF_POSITION, sa_vent_position_raw = DEFAULT_VENT_POSITION,
      sa_goto_position_raw = 80, sa_obstruction_cycle = None, sa_obstruction_no_reverse = False,
      sa_speculative_obstruction_flags = False, sa_emulate_esphome_commands = False, sa_expect_button = [],
      sa_selftest = False\<rparr>"

text \<open>What argparse guarantees: every choice is one of its list.\<close>

definition sim_args_parsed :: "sim_args \<Rightarrow> bool" where
  "sim_args_parsed a \<longleftrightarrow>
     sa_counter_profile a \<in> COUNTER_PROFILES \<and> list_all (\<lambda>f. f \<in> FAULTS) (sa_fault a) \<and>
     (case sa_command a of None \<Rightarrow> True | Some c \<Rightarrow> c \<in> {''open'', ''close'', ''light''}) \<and>
     sa_scenario a \<in> SCENARIOS \<and> sa_reverse_profile a \<in> REVERSAL_PROFILES \<and>
     list_all (\<lambda>b. b \<in> BUTTONS) (sa_expect_button a)"

definition scaled_button_press_us :: "rat \<Rightarrow> int" where
  "scaled_button_press_us speed_factor = max 1000 \<lfloor>100000 / max speed_factor 1\<rfloor>"

definition emulated_esphome_command_sender :: "string \<Rightarrow> string" where
  "emulated_esphome_command_sender button = ''OK emulated-esphome '' @ button"

subsection \<open>One run\<close>

datatype transport_spec =
    Use_Serial string
  | Use_Socketpair int int int
  | Use_Pty int int int

definition choose_transport :: "sim_args \<Rightarrow> transport_spec" where
  "choose_transport a =
     (if given (sa_serial a) then Use_Serial (text_or_empty (sa_serial a))
      else if sa_socketpair a
      then Use_Socketpair (sa_dut_response_delay_us a) (scaled_button_press_us (sa_speed_factor a)) (sa_slave_id a)
      else Use_Pty (sa_dut_response_delay_us a) (scaled_button_press_us (sa_speed_factor a)) (sa_slave_id a))"

definition args_door :: "sim_args \<Rightarrow> door_model result" where
  "args_door a =
     new_door POSITION_CLOSED POSITION_CLOSED STATE_CLOSED
       \<lparr>dp_travel_cycles = sa_door_travel_cycles a, dp_reversal_profile = sa_reverse_profile a,
        dp_reverse_dwell_cycles = sa_reverse_dwell_cycles a, dp_stop_latency_cycles = sa_stop_latency_cycles a,
        dp_overshoot_raw_ticks = sa_overshoot_raw_ticks a, dp_half_position = sa_half_position_raw a,
        dp_vent_position = sa_vent_position_raw a, dp_obstruction_cycle = sa_obstruction_cycle a,
        dp_obstruction_reverses = (\<not> sa_obstruction_no_reverse a),
        dp_speculative_obstruction_flags = sa_speculative_obstruction_flags a\<rparr>"

definition args_options :: "sim_args \<Rightarrow> door_model \<Rightarrow> sim_options" where
  "args_options a door =
     default_options
       \<lparr>o_slave_id := byte_of (sa_slave_id a), o_speed_factor := sa_speed_factor a,
        o_missed_poll_threshold := sa_missed_poll_threshold a, o_expected_buttons := set (sa_expect_button a),
        o_abort_on_first_miss := sa_abort_on_miss a, o_scenario := sa_scenario a, o_door_model := Some door,
        o_fault_every_cycles := sa_fault_every_cycles a, o_fault_cycles := set (sa_fault_cycle a),
        o_goto_position := sa_goto_position_raw a, o_emulate_commands := sa_emulate_esphome_commands a,
        o_counter_profile := sa_counter_profile a\<rparr>"

definition run_env :: "sim_args \<Rightarrow> 't env \<Rightarrow> 't env" where
  "run_env a env =
     (if sa_emulate_esphome_commands a
      then env\<lparr>e_command_sender := Some (\<lambda>button t. (Inr (emulated_esphome_command_sender button), 0, t))\<rparr>
      else env)"

datatype sim_effect =
    Opened_Transport transport_spec
  | Built_Simulator
  | Wrote_Report string
  | Closed_Simulator
  | Closed_Transport

text \<open>
  The body of \<open>try\<close>: the door, the simulator, the run and the report file; then \<open>finally\<close> closes the simulator, when
  it was built, and the transport.
\<close>

definition run_body ::
  "sim_args \<Rightarrow> int \<Rightarrow> rat option \<Rightarrow> 't env \<Rightarrow> nat \<Rightarrow> 't \<Rightarrow> report result \<times> sim_effect list"
where
  "run_body a cycles duration_s env now transport =
     (case args_door a of
        Inl e \<Rightarrow> (Inl e, [])
      | Inr door \<Rightarrow>
     (case SupraMaticSimulator transport now (args_options a door) of
        Inl e \<Rightarrow> (Inl e, [])
      | Inr s \<Rightarrow>
     (case simulator_run (run_env a env) cycles (set (sa_fault a)) (sa_command a) duration_s s of
        Inl e \<Rightarrow> (Inl e, [Built_Simulator])
      | Inr s \<Rightarrow>
          (Inr (s_report s),
           Built_Simulator # (case sa_report a of None \<Rightarrow> [] | Some path \<Rightarrow> [Wrote_Report path])))))"

definition run_cleanup :: "sim_effect list \<Rightarrow> sim_effect list" where
  "run_cleanup effs = (if Built_Simulator \<in> set effs then [Closed_Simulator] else []) @ [Closed_Transport]"

definition run_cycles :: "sim_args \<Rightarrow> int result" where
  "run_cycles a =
     (case sa_duration_hours a of
        Some hours \<Rightarrow> cycles_for_duration_hours hours (sa_speed_factor a)
      | None \<Rightarrow> Inr (sa_cycles a))"

type_synonym 't opener = "transport_spec \<Rightarrow> ('t env \<times> nat \<times> 't) result"

definition run_once :: "'t opener \<Rightarrow> sim_args \<Rightarrow> report result \<times> sim_effect list" where
  "run_once open_transport a =
     (case run_cycles a of
        Inl e \<Rightarrow> (Inl e, [])
      | Inr cycles \<Rightarrow>
         (let duration_s = map_option (\<lambda>hours. hours * 3600) (sa_duration_hours a);
              spec = choose_transport a
          in case open_transport spec of
               Inl e \<Rightarrow> (Inl e, [])
             | Inr (env, now, transport) \<Rightarrow>
                (case run_body a cycles duration_s env now transport of
                   (res, effs) \<Rightarrow> (res, Opened_Transport spec # effs @ run_cleanup effs))))"

subsection \<open>The self-test\<close>

definition selftest_scenarios :: "sim_args list" where
  "selftest_scenarios =
     [default_sim_args\<lparr>sa_pty := True, sa_cycles := 50, sa_speed_factor := 50\<rparr>,
      default_sim_args
        \<lparr>sa_socketpair := True, sa_cycles := 50, sa_speed_factor := 50,
         sa_fault := [''corrupt-crc'', ''truncated'', ''duplicate'', ''jitter'', ''garbage'', ''split'',
                      ''wrong-slave''],
         sa_command := Some ''open'', sa_expect_button := [''open'']\<rparr>]"

text \<open>
  How a command ends: with an exit code, with the usage message of \<open>parser.error\<close> (exit code 2), or with an exception
  that nobody catches.
\<close>

datatype cli_end = Exit int | Usage string | Uncaught exn

fun selftest_from :: "'t opener \<Rightarrow> sim_args list \<Rightarrow> cli_end" where
  "selftest_from open_transport [] = Exit 0"
| "selftest_from open_transport (scenario # rest) =
     (case fst (run_once open_transport scenario) of
        Inl e \<Rightarrow> Uncaught e
      | Inr r \<Rightarrow> if r_verdict r \<noteq> ''ok'' then Exit 1 else selftest_from open_transport rest)"

definition sim_selftest :: "'t opener \<Rightarrow> cli_end" where
  "sim_selftest open_transport = selftest_from open_transport selftest_scenarios"

subsection \<open>The main function\<close>

definition sim_checks :: "sim_args \<Rightarrow> (bool \<times> string) list" where
  "sim_checks a =
     [(sa_cycles a < 1, ''--cycles must be positive''),
      (sa_speed_factor a \<le> 0, ''--speed-factor must be positive''),
      (\<not> (1 \<le> sa_slave_id a \<and> sa_slave_id a \<le> 247), ''--slave-id must be in Modbus range 1..247''),
      (sa_dut_response_delay_us a < 0, ''--dut-response-delay-us must not be negative''),
      (sa_progress_interval_s a < 0, ''--progress-interval-s must not be negative''),
      (sa_fault_every_cycles a < 0, ''--fault-every-cycles must not be negative''),
      (sa_door_travel_cycles a < 1, ''--door-travel-cycles must be positive''),
      (sa_reverse_dwell_cycles a < 0 \<or> sa_stop_latency_cycles a < 0, ''door cycle delays must not be negative''),
      (sa_emulate_esphome_commands a \<and> sa_expect_button a \<noteq> [],
       ''--expect-button requires decoded HCP2 output; do not combine it with --emulate-esphome-commands'')]"

fun usage_error :: "(bool \<times> string) list \<Rightarrow> string option" where
  "usage_error [] = None"
| "usage_error ((bad, message) # rest) = (if bad then Some message else usage_error rest)"

lemma usage_error_None [simp]: "usage_error checks = None \<longleftrightarrow> list_all (\<lambda>c. \<not> fst c) checks"
  by (induction checks rule: usage_error.induct) auto

text \<open>The transport by default, and the cycles of a duration; a bad duration is a usage error.\<close>

definition effective_sim_args :: "sim_args \<Rightarrow> string + sim_args" where
  "effective_sim_args a =
     (let a = (if \<not> sa_pty a \<and> \<not> sa_socketpair a \<and> \<not> given (sa_serial a) then a\<lparr>sa_pty := True\<rparr> else a)
      in case sa_duration_hours a of
           None \<Rightarrow> Inr a
         | Some hours \<Rightarrow>
            (case cycles_for_duration_hours hours (sa_speed_factor a) of
               Inr cycles \<Rightarrow> Inr (a\<lparr>sa_cycles := cycles\<rparr>)
             | Inl (ValueError msg) \<Rightarrow> Inl msg
             | Inl _ \<Rightarrow> Inl []))"

definition report_exit :: "report result \<Rightarrow> cli_end" where
  "report_exit res =
     (case res of Inl e \<Rightarrow> Uncaught e | Inr r \<Rightarrow> Exit (if r_verdict r = ''ok'' then 0 else 1))"

definition sim_main :: "'t opener \<Rightarrow> sim_args \<Rightarrow> cli_end" where
  "sim_main open_transport a =
     (if sa_selftest a then sim_selftest open_transport
      else case effective_sim_args a of
        Inl msg \<Rightarrow> Usage msg
      | Inr a \<Rightarrow>
         (case usage_error (sim_checks a) of
            Some msg \<Rightarrow> Usage msg
          | None \<Rightarrow> report_exit (fst (run_once open_transport a))))"

subsection \<open>Facts\<close>

lemma choose_reversal: "sim_args_parsed a \<Longrightarrow> sa_reverse_profile a \<in> REVERSAL_PROFILES"
  by (simp add: sim_args_parsed_def)

lemma args_door_ok:
  assumes "sim_args_parsed a"
  obtains door where "args_door a = Inr door" and "options_ok (args_options a door)"
proof -
  have "\<exists>door. args_door a = Inr door"
    using choose_reversal [OF assms] by (simp add: args_door_def new_door_def post_init_def)
  then obtain door where door: "args_door a = Inr door" ..
  then have "door_inv door"
    unfolding args_door_def by (rule door_inv_new) simp
  then have "options_ok (args_options a door)"
    using assms by (simp add: options_ok_def args_options_def sim_args_parsed_def)
  then show ?thesis using door by (rule that [rotated])
qed

lemma args_options_sel:
  "o_expected_buttons (args_options a door) = set (sa_expect_button a)"
  "o_missed_poll_threshold (args_options a door) = sa_missed_poll_threshold a"
  "o_scenario (args_options a door) = sa_scenario a"
  "o_strict_scenario_verdict (args_options a door) = True"
  by (simp_all add: args_options_def default_options_def)

text \<open>The body of a run on parsed arguments returns, with the final state of a simulator.\<close>

lemma run_body_returns:
  assumes "sim_args_parsed a"
  obtains door s s' effs where "args_door a = Inr door" and "options_ok (args_options a door)"
    and "SupraMaticSimulator transport now (args_options a door) = Inr s"
    and "simulator_run (run_env a env) cycles (set (sa_fault a)) (sa_command a) duration_s s = Inr s'"
    and "run_body a cycles duration_s env now transport = (Inr (s_report s'), Built_Simulator # effs)"
    and "set effs \<subseteq> range Wrote_Report"
proof -
  obtain door where door: "args_door a = Inr door" "options_ok (args_options a door)"
    using assms by (rule args_door_ok)
  obtain s s' where s: "SupraMaticSimulator transport now (args_options a door) = Inr s"
      "simulator_run (run_env a env) cycles (set (sa_fault a)) (sa_command a) duration_s s = Inr s'"
    using run_returns [OF door(2), of transport now "run_env a env" cycles "set (sa_fault a)" "sa_command a" duration_s]
    by blast
  show ?thesis
    by (rule that [OF door s]) (auto simp: run_body_def door s split: option.split)
qed

lemma cycles_for_duration_error:
  "cycles_for_duration_hours h f = Inl e \<Longrightarrow> \<exists>msg. e = ValueError msg"
  by (auto simp: cycles_for_duration_hours_def Let_def split: if_splits)

lemma effective_args_facts:
  assumes "effective_sim_args a = Inr b"
  shows "run_cycles b = Inr (sa_cycles b) \<and> (sim_args_parsed b \<longleftrightarrow> sim_args_parsed a) \<and>
    sa_fault b = sa_fault a \<and> sa_expect_button b = sa_expect_button a \<and> sa_scenario b = sa_scenario a \<and>
    sa_missed_poll_threshold b = sa_missed_poll_threshold a"
proof -
  define c where "c = (if \<not> sa_pty a \<and> \<not> sa_socketpair a \<and> \<not> given (sa_serial a) then a\<lparr>sa_pty := True\<rparr> else a)"
  have c: "sa_duration_hours c = sa_duration_hours a" "sa_speed_factor c = sa_speed_factor a"
      "sim_args_parsed c \<longleftrightarrow> sim_args_parsed a" "sa_fault c = sa_fault a"
      "sa_expect_button c = sa_expect_button a" "sa_scenario c = sa_scenario a"
      "sa_missed_poll_threshold c = sa_missed_poll_threshold a"
    by (simp_all add: c_def sim_args_parsed_def)
  show ?thesis
  proof (cases "sa_duration_hours a")
    case None
    then have "b = c"
      using assms c by (simp add: effective_sim_args_def Let_def flip: c_def)
    then show ?thesis
      using None c by (simp add: run_cycles_def)
  next
    case (Some hours)
    then obtain n where n: "cycles_for_duration_hours hours (sa_speed_factor a) = Inr n" "b = c\<lparr>sa_cycles := n\<rparr>"
      using assms c by (auto simp: effective_sim_args_def Let_def simp flip: c_def split: sum.splits exn.splits)
    then show ?thesis
      using Some c by (simp add: run_cycles_def sim_args_parsed_def)
  qed
qed

text \<open>A run that the command line starts: it returns a report whatever the transport does.\<close>

lemma run_once_returns:
  assumes "sim_args_parsed b" and "run_cycles b = Inr cycles"
    and "open_transport (choose_transport b) = Inr (env, now, transport)"
  obtains door s s' effs where "args_door b = Inr door" and "options_ok (args_options b door)"
    and "SupraMaticSimulator transport now (args_options b door) = Inr s"
    and "simulator_run (run_env b env) cycles (set (sa_fault b)) (sa_command b)
      (map_option (\<lambda>hours. hours * 3600) (sa_duration_hours b)) s = Inr s'"
    and "run_once open_transport b = (Inr (s_report s'), Opened_Transport (choose_transport b) # Built_Simulator # effs @
      [Closed_Simulator, Closed_Transport])"
proof -
  let ?d = "map_option (\<lambda>hours. hours * 3600) (sa_duration_hours b)"
  obtain door s s' effs where r: "args_door b = Inr door" "options_ok (args_options b door)"
      "SupraMaticSimulator transport now (args_options b door) = Inr s"
      "simulator_run (run_env b env) cycles (set (sa_fault b)) (sa_command b) ?d s = Inr s'"
      "run_body b cycles ?d env now transport = (Inr (s_report s'), Built_Simulator # effs)"
    using run_body_returns [OF assms(1), of transport now env cycles ?d] by metis
  show ?thesis
    by (rule that [OF r(1-4)]) (simp add: run_once_def assms r(5) run_cleanup_def Let_def)
qed

subsection \<open>Properties\<close>

lemma selftest_from_ends:
  assumes "list_all (\<lambda>b. sim_args_parsed b \<and> run_cycles b = Inr n) bs"
    and "\<And>b. sim_args_parsed b \<Longrightarrow> run_cycles b = Inr n \<Longrightarrow> \<exists>r. fst (run_once open_transport b) = Inr r"
  shows "selftest_from open_transport bs \<in> {Exit 0, Exit 1}"
  using assms(1) by (induction bs) (use assms(2) in \<open>fastforce+\<close>)

text \<open>What a passed simulation has shown.\<close>

definition sim_passed :: "sim_args \<Rightarrow> 't sim \<Rightarrow> bool" where
  "sim_passed a s' \<longleftrightarrow>
     r_scan_ok (s_report s') \<and>
     list_all (\<lambda>button. r_button_observations (s_report s') button \<noteq> None) (sa_expect_button a) \<and>
     r_fault_unexpected_responses (s_report s') = 0 \<and>
     (''duplicate'' \<notin> set (sa_fault a) \<longrightarrow>
        r_max_consecutive_misses (s_report s') < sa_missed_poll_threshold a) \<and>
     (sa_scenario a \<noteq> ''steady'' \<longrightarrow> s_scenario s' = sa_scenario a \<and> scenario_reached s')"


text \<open>A good run for the witnesses: the default arguments and an accessory that answers.\<close>

definition good_opener :: "bytes opener" where
  "good_opener spec = Inr (accessory_env, 0, [])"

lemma default_args_parsed: "sim_args_parsed default_sim_args"
  by (simp add: sim_args_parsed_def default_sim_args_def SCENARIOS_def COUNTER_PROFILES_def REVERSAL_PROFILES_def
      const_defs)

lemma good_sim_main: "sim_main good_opener default_sim_args = Exit 0"
proof -
  obtain b where b: "effective_sim_args default_sim_args = Inr b" "b = default_sim_args\<lparr>sa_pty := True\<rparr>"
    by (simp add: effective_sim_args_def default_sim_args_def given_def Let_def)
  obtain door where door: "args_door b = Inr door" "options_ok (args_options b door)"
    using args_door_ok [of b] effective_args_facts [OF b(1)] default_args_parsed by metis
  obtain s :: "bytes sim" where s: "SupraMaticSimulator [] 0 (args_options b door) = Inr s" "calm s"
    by (auto simp: SupraMaticSimulator_def args_options_def default_options_def b(2) default_sim_args_def
        build_scenario_actions_def SCENARIOS_def COUNTER_PROFILES_def calm_def verdict_ok_def
        SimulationReport_def byte_of_def const_defs)
  obtain s' where s': "simulator_run accessory_env 1000 {} None None s = Inr s'" "r_verdict (s_report s') = ''ok''"
    using calm_run_ok [OF s(2)] by blast
  have "fst (run_once good_opener b) = Inr (s_report s')"
    using door(1) s(1) s'(1) by (simp add: run_once_def run_cycles_def run_body_def run_env_def good_opener_def
        b(2) default_sim_args_def split: prod.split)
  moreover have "usage_error (sim_checks b) = None"
    by (simp add: sim_checks_def b(2) default_sim_args_def const_defs)
  moreover have "\<not> sa_selftest default_sim_args" by (simp add: default_sim_args_def)
  ultimately show ?thesis
    using b(1) s'(2) by (simp add: sim_main_def report_exit_def del: usage_error_None)
qed


text \<open>On parsed arguments and transports that open, the command line ends with a usage message or the exit code 0
  or 1, never with an exception.\<close>

theorem sim_main_never_raises:
  assumes "sim_args_parsed a" and "\<And>spec. \<exists>x. open_transport spec = Inr x"
  shows "(\<exists>msg. sim_main open_transport a = Usage msg) \<or> sim_main open_transport a \<in> {Exit 0, Exit 1}"
proof -
  have run: "\<exists>r. fst (run_once open_transport b) = Inr r" if "sim_args_parsed b" "run_cycles b = Inr n" for b n
  proof -
    obtain env now transport where "open_transport (choose_transport b) = Inr (env, now, transport)"
      using assms(2) by (metis prod_cases3)
    then show ?thesis using run_once_returns [OF that, of open_transport] by (metis fst_conv)
  qed
  show ?thesis
  proof (cases "sa_selftest a")
    case True
    have "list_all (\<lambda>b. sim_args_parsed b \<and> run_cycles b = Inr 50) selftest_scenarios"
      by (simp add: selftest_scenarios_def sim_args_parsed_def run_cycles_def default_sim_args_def FAULTS_def
          BUTTONS_def SCENARIOS_def COUNTER_PROFILES_def REVERSAL_PROFILES_def const_defs)
    then have "selftest_from open_transport selftest_scenarios \<in> {Exit 0, Exit 1}"
      by (rule selftest_from_ends) (use run in blast)
    then show ?thesis using True by (simp add: sim_main_def sim_selftest_def)
  next
    case False
    show ?thesis
    proof (cases "effective_sim_args a")
      case (Inr b)
      then obtain r where "fst (run_once open_transport b) = Inr r"
        using run effective_args_facts [OF Inr] assms(1) by blast
      then show ?thesis using False Inr by (simp add: sim_main_def report_exit_def split: option.split)
    qed (use False in \<open>simp add: sim_main_def\<close>)
  qed
qed

theorem sim_main_never_raises_witness:
  "(\<exists>msg. sim_main good_opener default_sim_args = Usage msg) \<or>
    sim_main good_opener default_sim_args \<in> {Exit 0, Exit 1}"
  by (rule sim_main_never_raises [OF default_args_parsed]) (simp add: good_opener_def)

end
