(* ===== verification/Sim_Transport.thy ===== *)
theory Sim_Transport
  imports Simulator_Props
begin

text \<open>
  What a run of the simulator does to its transport: nothing but calls of the environment.  A property of the
  transport that every call keeps holds after the run.  This is the interface between the simulator and a transport
  that is itself a model.
\<close>

subsection \<open>Interface: a property every call keeps\<close>

locale transport_invariant =
  fixes env :: "'t env"
    and Q :: "'t \<Rightarrow> bool"
  assumes Q_write: "Q t \<Longrightarrow> Q (snd (e_write env data t))"
    and Q_read: "Q t \<Longrightarrow> Q (snd (snd (e_read_available env timeout t)))"
    and Q_command: "Q t \<Longrightarrow> Q (snd (snd (e_command env line t)))"
    and Q_sender: "e_command_sender env = Some sender \<Longrightarrow> Q t \<Longrightarrow> Q (snd (snd (sender button t)))"
    and Q_advance: "e_advance_time_us env = Some advance \<Longrightarrow> Q t \<Longrightarrow> Q (advance us t)"
begin

lemma Q_sleep: "Q (s_transport s) \<Longrightarrow> Q (s_transport (scaled_sleep env gap jitter s))"
  by (auto simp: scaled_sleep_def elapse_def Let_def Q_advance split: option.split)

lemma Q_put: "Q (s_transport s) \<Longrightarrow> Q (s_transport (transport_write env data s))"
  using Q_write [of "s_transport s" data] by (auto simp: transport_write_def elapse_def split: prod.split)

lemma Q_frame: "Q (s_transport s) \<Longrightarrow> Q (s_transport (write_frame env frame split s))"
  by (simp add: write_frame_def Let_def Q_put Q_sleep)

lemma Q_attempt: "Q (s_transport s) \<Longrightarrow> Q (s_transport (snd (read_attempt env deadline match ctx s)))"
proof -
  assume "Q (s_transport s)"
  then have "Q (s_transport (read_chunk env timeout s))" for timeout
    using Q_read [of "s_transport s" timeout] by (auto simp: read_chunk_def elapse_def split: prod.split)
  then show ?thesis
    by (simp add: read_attempt_def drain_sim_def split: prod.split)
qed

lemma Q_read_until: "Q (s_transport s) \<Longrightarrow> Q (s_transport (snd (read_until env deadline match ctx s)))"
proof (induction e \<equiv> env deadline match ctx s rule: read_until.induct)
  case (1 deadline match ctx s)
  note attempt = Q_attempt [OF "1.prems", of deadline match ctx]
  show ?case
  proof (cases rule: read_until_cases [of s deadline env match ctx])
    case (more s')
    then show ?thesis
      using "1.hyps" [OF more(1) more(2) [symmetric] refl] attempt by simp
  qed (use attempt "1.prems" in simp_all)
qed

lemma Q_response: "Q (s_transport s) \<Longrightarrow> Q (s_transport (snd (read_response env timeout match ctx s)))"
  by (simp add: read_response_def Q_read_until)

lemma Q_exchange:
  "Q (s_transport s) \<Longrightarrow>
   Q (s_transport (snd (read_response env timeout match ctx (write_frame env frame split s))))"
  by (intro Q_response Q_frame)

lemma Q_send: "Q (s_transport s) \<Longrightarrow> Q (s_transport (snd (command_sender env button s)))"
  using Q_command [of "s_transport s" "''press '' @ button"] Q_sender [of _ "s_transport s" button]
  by (auto simp: command_sender_def elapse_def split: option.split prod.split)

lemma Q_send_until: "Q (s_transport s) \<Longrightarrow> Q (s_transport (snd (send_until env deadline button s)))"
proof (induction e \<equiv> env deadline button s rule: send_until.induct)
  case (1 deadline button s)
  obtain ack s' where a: "command_sender env button s = (ack, s')" by fastforce
  then have "Q (s_transport s')"
    using Q_send [OF "1.prems", of button] by simp
  then show ?case
    using "1.hyps" [OF a [symmetric]] a
    by (subst send_until.simps) (auto simp: elapse_def split: sum.split)
qed

lemma Q_button: "Q (s_transport s) \<Longrightarrow> Q (s_transport (issue_button env button s))"
  using Q_send_until [of s "monotonic s + 3 / 10" button]
  by (auto simp: issue_button_def apply_emulated_button_def upd_report_def Let_def split: prod.split sum.split)

lemma status_button_transport: "s_transport (apply_status_button response s) = s_transport s"
  by (auto simp: apply_status_button_def upd_report_def Let_def split: option.split prod.split)

lemma Q_poll: "Q (s_transport s) \<Longrightarrow> Q (s_transport (send_status_poll env counter split s))"
proof -
  assume "Q (s_transport s)"
  then have "Q (s_transport (upd_report (\<lambda>r. r\<lparr>r_polls_sent := r_polls_sent r + 1\<rparr>) s))"
    by (simp add: upd_report_def)
  from Q_exchange [OF this, of None "Some (status_match counter)" "''status poll '' @ format_hex 2 counter"
      "status_poll counter (s_slave_id s)" split]
  show ?thesis
    by (auto simp: send_status_poll_def upd_report_def status_button_transport Let_def split: prod.split option.split)
qed

lemma Q_light: "Q (s_transport s) \<Longrightarrow> Q (s_transport (run_light_command env counter enabled s))"
  using Q_exchange [of s None]
  by (auto simp: run_light_command_def upd_report_def Let_def split: prod.split) (metis snd_conv)+

lemma Q_expect: "Q (s_transport s) \<Longrightarrow> Q (s_transport (expect_no_response env frame name s))"
proof -
  assume "Q (s_transport s)"
  then have "Q (s_transport (upd_report (\<lambda>r. r\<lparr>r_fault_checks := r_fault_checks r + 1\<rparr>) s))"
    by (simp add: upd_report_def)
  from Q_exchange [OF this, of "Some (9 / 1000)" None "''response''" frame False] show ?thesis
    by (auto simp: expect_no_response_def upd_report_def Let_def split: prod.split option.split)
qed

lemma Q_inject: "Q (s_transport s) \<Longrightarrow> Q (s_transport (inject_faults env faults counter s))"
  by (simp add: inject_faults_def inject_bad_frames_def inject_fault_def Let_def Q_expect Q_put Q_poll)

lemma Q_actions: "Q (s_transport s) \<Longrightarrow> Q (s_transport (snd (run_actions env acts s)))"
  by (induction acts arbitrary: s) (auto simp: Let_def Q_button split: prod.split)

lemma Q_goto: "Q (s_transport s) \<Longrightarrow> Q (s_transport (snd (goto_stop env cycle state s)))"
  by (simp add: goto_stop_def Let_def Q_button)

lemma Q_finish: "Q (s_transport s) \<Longrightarrow> Q (s_transport (finish_cycle env cycle counter faults legacy s))"
  by (simp add: finish_cycle_def Let_def Q_light Q_poll Q_sleep)

lemma Q_cycle:
  assumes "run_cycle env cycle faults legacy s = Inr s'" and "Q (s_transport s)"
  shows "Q (s_transport s')"
proof -
  define a where "a = scaled_sleep env BROADCAST_TO_POLL_GAP_US (''jitter'' \<in> faults)
    (write_frame env (broadcast_status (broadcast_for_cycle cycle s)) False s)"
  obtain counter where counter: "status_counter_for_cycle cycle (s_counter_profile a) = Inr counter"
    using assms(1) by (auto simp: run_cycle_def Let_def a_def split: sum.splits)
  define b where "b = (if should_inject_faults cycle a then inject_faults env faults counter a else a)"
  define c where "c = run_actions env (scheduled_actions cycle b) b"
  define d where "d = goto_stop env cycle (broadcast_for_cycle cycle s) (snd c)"
  have "Q (s_transport a)" by (simp add: a_def Q_sleep Q_frame assms(2))
  then have b: "Q (s_transport b)" by (simp add: b_def Q_inject)
  then have c: "Q (s_transport (snd c))" by (simp add: c_def Q_actions)
  then have d: "Q (s_transport (snd d))" by (simp add: d_def Q_goto)
  have "s' = (case c of (True, s) \<Rightarrow> s | (False, s) \<Rightarrow>
      (case d of (True, s) \<Rightarrow> s | (False, s) \<Rightarrow> finish_cycle env cycle counter faults legacy s))"
    using assms(1)
    unfolding run_cycle_def Let_def a_def [symmetric] counter sum.case b_def [symmetric]
      c_def [symmetric] sum.inject(2)
    by (cases c) (simp add: d_def split: bool.splits)
  then show ?thesis
    using c d Q_finish [OF d] by (cases c; cases d) (auto split: bool.splits)
qed

lemma Q_loop:
  "run_loop env cycles deadline_s faults legacy cycle s = Inr s' \<Longrightarrow> Q (s_transport s) \<Longrightarrow> Q (s_transport s')"
proof (induction e \<equiv> env cycles deadline_s faults legacy cycle s rule: run_loop.induct)
  case (1 cycles deadline_s faults legacy cycle s)
  note unfold = run_loop.simps [of env cycles deadline_s faults legacy cycle s]
  show ?case
  proof (cases "\<not> verdict_ok s \<or> deadline_reached deadline_s cycles cycle s \<or>
      s_missed_poll_threshold s \<le> r_consecutive_misses (s_report s)")
    case True
    then show ?thesis
      using "1.prems" by (auto simp: unfold upd_report_def split: if_splits)
  next
    case False
    then obtain t where t: "run_cycle env cycle faults legacy s = Inr t"
      using "1.prems"(1) by (auto simp: unfold split: sum.splits)
    then show ?thesis
      using False "1.prems" "1.hyps" [OF _ _ _ t] Q_cycle [OF t] by (auto simp: unfold)
  qed
qed

lemma Q_scan: "run_bus_scan env s = Inr s' \<Longrightarrow> Q (s_transport s) \<Longrightarrow> Q (s_transport s')"
  using Q_exchange [of s None]
  by (auto simp: run_bus_scan_def upd_report_def Let_def split: sum.splits prod.splits if_splits) (metis snd_conv)+

lemma start_transport: "start_scenario command s = Inr s' \<Longrightarrow> s_transport s' = s_transport s"
  by (auto simp: start_scenario_def upd_report_def split: option.splits if_splits sum.splits)

lemma final_transport:
  "s_transport (set_elapsed (final_notes env (final_verdict s))) = s_transport s"
  by (simp add: set_elapsed_def final_notes_def final_verdict_def apply_scenario_verdict_def fail_scenario_def
      upd_report_def Let_def)

lemma Q_run:
  assumes "simulator_run env cycles faults command duration_s s = Inr s'" and "Q (s_transport s)"
  shows "Q (s_transport s')"
proof -
  obtain a where a: "start_scenario command s = Inr a"
    using assms(1) by (auto simp: simulator_run_def Let_def split: sum.splits)
  obtain b where b: "run_bus_scan env a = Inr b"
    using assms(1) a by (auto simp: simulator_run_def Let_def split: sum.splits)
  have q: "Q (s_transport b)"
    using Q_scan [OF b] start_transport [OF a] assms(2) by simp
  show ?thesis
  proof (cases "r_scan_ok (s_report b)")
    case False
    then have "s' = set_elapsed (upd_report (\<lambda>r. r\<lparr>r_verdict := ''scan-failed''\<rparr>) b)"
      using assms(1) a b by (simp add: simulator_run_def Let_def)
    then show ?thesis using q by (simp add: set_elapsed_def upd_report_def)
  next
    case True
    then obtain t dl lg where t: "run_loop env cycles dl faults lg 0 b = Inr t"
        "s' = set_elapsed (final_notes env (final_verdict t))"
      using assms(1) a b by (auto simp: simulator_run_def Let_def split: sum.splits)
    then show ?thesis using Q_loop [OF t(1) q] by (simp add: final_transport)
  qed
qed

end

end
