(* ===== verification/Closed_Loop.thy ===== *)
theory Closed_Loop
  imports Sim_Main Sim_Transport Lp_Emulator_Props Dual_Iss
begin

text \<open>
  \<open>tools/hcp2_lp_emu/__main__.py\<close>: the virtual drive against the emulated low-power core.  The emulator of Lp_Emulator
  is the transport of the simulator of Simulator: \<open>LPEmuTransport\<close> becomes an environment whose calls are the emulator's
  operations.
\<close>

subsection \<open>The emulator as a transport\<close>

text \<open>
  An exception of a write, a read or a wait leaves the simulator and ends the run, so the first one is kept and what
  the run does after it does not matter; likewise a read that never returns.  An exception of a command is
  caught by the simulator: the call returns its class and message, and the emulator is left in a state that the engine
  determines.
\<close>

datatype stuck = Threw exn | Waits_Forever

record lp_link =
  ll_emu :: emu
  ll_stuck :: "stuck option"

text \<open>What is not part of the program: the engine, the state it leaves behind, real time, and the random draws.\<close>

record machine_room =
  mr_engine :: engine
  mr_after_fault :: "exn \<Rightarrow> emu \<Rightarrow> emu"
  mr_wall_ns :: "emu \<Rightarrow> nat"
  mr_oversleep :: "nat \<Rightarrow> nat"
  mr_uniform :: "nat \<Rightarrow> rat"
  mr_randrange :: "nat \<Rightarrow> nat \<Rightarrow> nat"

definition command_text :: "command_reply \<Rightarrow> string" where
  "command_text reply =
     (case reply of
        Ack sequence code \<Rightarrow> ''OK ack='' @ py_str_int sequence @ '' result='' @ py_str_int code
      | Unknown_Command name \<Rightarrow> ''ERR unknown command '' @ name
      | Ack_Timeout \<Rightarrow> ''ERR command ack timeout'')"

definition reply_text :: "transport_reply \<Rightarrow> string" where
  "reply_text reply =
     (case reply of
        TR_Command r \<Rightarrow> command_text r
      | TR_Reboot \<Rightarrow> ''OK reboot''
      | TR_Unsupported line \<Rightarrow> ''ERR unsupported command '' @ py_repr line)"

text \<open>The class and message of an exception; the runtime errors of the emulator are \<open>LPEmuError\<close>.\<close>

definition exn_parts :: "exn \<Rightarrow> string \<times> string" where
  "exn_parts e =
     (case e of
        ValueError m \<Rightarrow> (''ValueError'', m)
      | RuntimeError m \<Rightarrow> (''LPEmuError'', m)
      | Invalid m \<Rightarrow> (''Invalid'', m)
      | SystemExit m \<Rightarrow> (''SystemExit'', m)
      | Raised cls m \<Rightarrow> (cls, m))"

definition lp_update :: "emu result \<Rightarrow> lp_link \<Rightarrow> lp_link" where
  "lp_update r l = (case r of Inl e \<Rightarrow> l\<lparr>ll_stuck := Some (Threw e)\<rparr> | Inr em \<Rightarrow> l\<lparr>ll_emu := em\<rparr>)"

definition lp_write :: "machine_room \<Rightarrow> bytes \<Rightarrow> lp_link \<Rightarrow> nat \<times> lp_link" where
  "lp_write mr data l =
     (if ll_stuck l \<noteq> None then (0, l)
      else (mr_wall_ns mr (ll_emu l), lp_update (write_uart (mr_engine mr) data (ll_emu l)) l))"

definition read_fuel :: "rat \<Rightarrow> nat" where
  "read_fuel timeout_s = Suc (nat (max 1 \<lfloor>timeout_s * of_int LP_CLOCK_HZ\<rfloor>))"

definition lp_read :: "machine_room \<Rightarrow> rat \<Rightarrow> lp_link \<Rightarrow> bytes \<times> nat \<times> lp_link" where
  "lp_read mr timeout l =
     (if ll_stuck l \<noteq> None then ([], 0, l)
      else case read_uart_available (read_fuel timeout) (mr_engine mr) timeout (ll_emu l) of
        None \<Rightarrow> ([], 0, l\<lparr>ll_stuck := Some Waits_Forever\<rparr>)
      | Some (Inl e) \<Rightarrow> ([], 0, l\<lparr>ll_stuck := Some (Threw e)\<rparr>)
      | Some (Inr (data, em)) \<Rightarrow> (data, mr_wall_ns mr (ll_emu l), l\<lparr>ll_emu := em\<rparr>))"

definition lp_command :: "machine_room \<Rightarrow> string \<Rightarrow> lp_link \<Rightarrow> ((string \<times> string) + string) \<times> nat \<times> lp_link" where
  "lp_command mr line l =
     (if ll_stuck l \<noteq> None then (Inr [], 0, l)
      else case transport_command (mr_engine mr) line (ll_emu l) of
        Inl e \<Rightarrow> (Inl (exn_parts e), mr_wall_ns mr (ll_emu l), l\<lparr>ll_emu := mr_after_fault mr e (ll_emu l)\<rparr>)
      | Inr (reply, em) \<Rightarrow> (Inr (reply_text reply), mr_wall_ns mr (ll_emu l), l\<lparr>ll_emu := em\<rparr>))"

definition lp_advance :: "machine_room \<Rightarrow> int \<Rightarrow> lp_link \<Rightarrow> lp_link" where
  "lp_advance mr gap_us l =
     (if ll_stuck l \<noteq> None then l else lp_update (advance_time_us (mr_engine mr) gap_us (ll_emu l)) l)"

definition lp_env :: "machine_room \<Rightarrow> lp_link env" where
  "lp_env mr =
     \<lparr>e_write = lp_write mr, e_read_available = lp_read mr, e_command = lp_command mr, e_command_sender = None,
      e_advance_time_us = Some (lp_advance mr), e_oversleep = mr_oversleep mr, e_uniform = mr_uniform mr,
      e_randrange = mr_randrange mr, e_class_name = ''LPEmuTransport'', e_low_latency_enabled = False,
      e_low_latency_error = None\<rparr>"

subsection \<open>Arguments\<close>

definition LP_FAULTS :: "string set" where
  "LP_FAULTS = {''corrupt-crc'', ''truncated'', ''duplicate'', ''jitter'', ''garbage'', ''split''}"

definition STARTUP_COMMANDS :: "string set" where
  "STARTUP_COMMANDS = {''open'', ''close'', ''stop'', ''vent'', ''half'', ''light''}"

record lp_args =
  la_cycles :: int
  la_speed_factor :: rat
  la_missed_poll_threshold :: int
  la_counter_profile :: string
  la_trace :: bool
  la_fault :: "string list"
  la_command :: "string option"
  la_startup_command :: "string option"
  la_startup_idle_us :: int
  la_rvc_smoke :: bool
  la_dual :: bool
  la_interleave :: int

definition default_lp_args :: lp_args where
  "default_lp_args =
     \<lparr>la_cycles = 1000, la_speed_factor = 1000000, la_missed_poll_threshold = DEFAULT_MISSED_POLL_THRESHOLD,
      la_counter_profile = DEFAULT_COUNTER_PROFILE, la_trace = False, la_fault = [], la_command = None,
      la_startup_command = None, la_startup_idle_us = 0, la_rvc_smoke = False, la_dual = False,
      la_interleave = 64\<rparr>"

definition lp_args_parsed :: "lp_args \<Rightarrow> bool" where
  "lp_args_parsed a \<longleftrightarrow>
     la_counter_profile a \<in> COUNTER_PROFILES \<and> list_all (\<lambda>f. f \<in> LP_FAULTS) (la_fault a) \<and>
     (case la_command a of None \<Rightarrow> True | Some c \<Rightarrow> c \<in> {''open'', ''close'', ''light''}) \<and>
     (case la_startup_command a of None \<Rightarrow> True | Some c \<Rightarrow> c \<in> STARTUP_COMMANDS)"

subsection \<open>The closed loop\<close>

text \<open>The constructor of \<open>LPEmuTransport\<close> on a loaded image: the emulator, booted.\<close>

definition LPEmuTransport :: "machine_room \<Rightarrow> elf_image \<Rightarrow> memory \<Rightarrow> emu result" where
  "LPEmuTransport mr elf m = and_then (LPEmulator elf m) (boot (mr_engine mr))"

definition startup :: "machine_room \<Rightarrow> lp_args \<Rightarrow> emu \<Rightarrow> emu result" where
  "startup mr a em =
     (case la_startup_command a of
        None \<Rightarrow> Inr em
      | Some command \<Rightarrow>
         (case transport_command (mr_engine mr) (''press '' @ command) em of
            Inl e \<Rightarrow> Inl e
          | Inr (reply, em) \<Rightarrow>
              if \<not> py_startswith ''OK'' (reply_text reply)
              then Inl (RuntimeError (''startup command '' @ py_repr command @ '' failed: '' @ reply_text reply))
              else if 0 < la_startup_idle_us a then advance_time_us (mr_engine mr) (la_startup_idle_us a) em
              else Inr em))"

definition loop_options :: "lp_args \<Rightarrow> sim_options" where
  "loop_options a =
     default_options
       \<lparr>o_speed_factor := la_speed_factor a, o_missed_poll_threshold := la_missed_poll_threshold a,
        o_counter_profile := la_counter_profile a\<rparr>"

definition loop_result :: "lp_link sim \<Rightarrow> (report \<times> emu) result option" where
  "loop_result s =
     (case ll_stuck (s_transport s) of
        None \<Rightarrow> Some (Inr (s_report s, ll_emu (s_transport s)))
      | Some (Threw e) \<Rightarrow> Some (Inl e)
      | Some Waits_Forever \<Rightarrow> None)"

definition run_closed_loop ::
  "machine_room \<Rightarrow> nat \<Rightarrow> (elf_image \<times> memory) result \<Rightarrow> lp_args \<Rightarrow> (report \<times> emu) result option"
where
  "run_closed_loop mr now img a =
     (case and_then img (\<lambda>(elf, m). and_then (LPEmuTransport mr elf m) (startup mr a)) of
        Inl e \<Rightarrow> Some (Inl e)
      | Inr em \<Rightarrow>
     (case SupraMaticSimulator \<lparr>ll_emu = em, ll_stuck = None\<rparr> now (loop_options a) of
        Inl e \<Rightarrow> Some (Inl e)
      | Inr s \<Rightarrow>
     (case simulator_run (lp_env mr) (la_cycles a) (set (la_fault a)) (la_command a) None s of
        Inl e \<Rightarrow> Some (Inl e)
      | Inr s \<Rightarrow> loop_result s)))"

definition electrical_faults :: "emu \<Rightarrow> bool" where
  "electrical_faults em \<longleftrightarrow>
     em_unknown_mmio em \<noteq> [] \<or> u_tx_overflows (em_uart em) \<noteq> 0 \<or> u_tx_when_de_low (em_uart em) \<noteq> 0"

definition closed_loop_exit :: "(report \<times> emu) result \<Rightarrow> cli_end" where
  "closed_loop_exit res =
     (case res of
        Inl e \<Rightarrow> Exit 1
      | Inr (r, em) \<Rightarrow>
          if r_verdict r \<noteq> ''ok'' then Exit 1 else if electrical_faults em then Exit 1 else Exit 0)"

subsection \<open>The main function\<close>

definition dual_checks :: "lp_args \<Rightarrow> (bool \<times> string) list" where
  "dual_checks a =
     [(la_interleave a < 1, ''--interleave must be positive''),
      (la_trace a, ''--trace is only valid for closed-loop LP emulation''),
      (la_fault a \<noteq> [], ''--fault is only valid for closed-loop LP emulation''),
      (la_command a \<noteq> None, ''--command is only valid for closed-loop LP emulation'')]"

definition loop_checks :: "lp_args \<Rightarrow> (bool \<times> string) list" where
  "loop_checks a =
     [(la_cycles a < 1, ''--cycles must be positive''),
      (la_speed_factor a \<le> 0, ''--speed-factor must be positive'')]"

definition lp_main ::
  "machine_room \<Rightarrow> hp_engine \<Rightarrow> nat \<Rightarrow> bool result \<Rightarrow> (elf_image \<times> memory) result \<Rightarrow> (elf_image \<times> elf_image) result \<Rightarrow>
   lp_args \<Rightarrow> cli_end option"
where
  "lp_main mr hp now smoke img dual_images a =
     (if la_rvc_smoke a then Some (Exit (if smoke = Inr True then 0 else 1))
      else if la_dual a then
        (case usage_error (dual_checks a) of
           Some msg \<Rightarrow> Some (Usage msg)
         | None \<Rightarrow>
             Some (case and_then dual_images (\<lambda>(lp_elf, hp_elf).
                          run_mailbox_suite hp (mr_engine mr) lp_elf hp_elf (la_interleave a)) of
                     Inl e \<Rightarrow> Exit 1
                   | Inr _ \<Rightarrow> Exit 0))
      else
        (case usage_error (loop_checks a) of
           Some msg \<Rightarrow> Some (Usage msg)
         | None \<Rightarrow> map_option closed_loop_exit (run_closed_loop mr now img a)))"

subsection \<open>The transport keeps the invariant of the emulator\<close>

text \<open>
  The engine reaches the emulator only through the hooks, the memory and the registers; so does whatever it leaves behind
  when it raises.
\<close>

definition room_ok :: "machine_room \<Rightarrow> bool" where
  "room_ok mr \<longleftrightarrow> engine_ok (mr_engine mr) \<and> (\<forall>e em. emu_inv em \<longrightarrow> emu_inv (mr_after_fault mr e em))"

definition link_inv :: "lp_link \<Rightarrow> bool" where
  "link_inv l \<longleftrightarrow> emu_inv (ll_emu l)"

lemma lp_env_sel [simp]:
  "e_write (lp_env mr) = lp_write mr" "e_read_available (lp_env mr) = lp_read mr"
  "e_command (lp_env mr) = lp_command mr" "e_command_sender (lp_env mr) = None"
  "e_advance_time_us (lp_env mr) = Some (lp_advance mr)"
  by (simp_all add: lp_env_def)

lemma link_write: "room_ok mr \<Longrightarrow> link_inv l \<Longrightarrow> link_inv (snd (lp_write mr data l))"
  using write_uart_inv by (auto simp: room_ok_def link_inv_def lp_write_def lp_update_def split: sum.split)

lemma link_read: "room_ok mr \<Longrightarrow> link_inv l \<Longrightarrow> link_inv (snd (snd (lp_read mr timeout l)))"
  using read_uart_inv
  by (fastforce simp: room_ok_def link_inv_def lp_read_def split: option.split sum.split prod.split)

lemma link_command: "room_ok mr \<Longrightarrow> link_inv l \<Longrightarrow> link_inv (snd (snd (lp_command mr line l)))"
  using transport_command_inv
  by (fastforce simp: room_ok_def link_inv_def lp_command_def split: sum.split prod.split)

lemma link_advance: "room_ok mr \<Longrightarrow> link_inv l \<Longrightarrow> link_inv (lp_advance mr us l)"
  using advance_inv by (auto simp: room_ok_def link_inv_def lp_advance_def lp_update_def split: sum.split)

interpretation link: transport_invariant "lp_env mr" "\<lambda>l. room_ok mr \<longrightarrow> link_inv l" for mr
  by unfold_locales (auto simp: link_write link_read link_command link_advance)

subsection \<open>The transport answers\<close>

definition answers :: "lp_link \<Rightarrow> bool" where
  "answers l \<longleftrightarrow> ll_stuck l \<noteq> Some Waits_Forever"

lemma read_fuel_enough:
  assumes "engine_advances engine"
  shows "read_uart_available (read_fuel timeout) engine timeout em \<noteq> None"
proof (cases "boot engine em")
  case (Inr em1)
  have "nat (em_cycles em1 + max 1 \<lfloor>timeout * of_int LP_CLOCK_HZ\<rfloor> - em_cycles em1) < read_fuel timeout"
    by (simp add: read_fuel_def)
  from read_loop_returns [OF assms this] show ?thesis
    using Inr by (auto simp: read_uart_available_def)
qed (simp add: read_uart_available_def)

lemma answers_read:
  "engine_advances (mr_engine mr) \<Longrightarrow> answers l \<Longrightarrow> answers (snd (snd (lp_read mr timeout l)))"
  using read_fuel_enough [of "mr_engine mr" timeout "ll_emu l"]
  by (auto simp: answers_def lp_read_def split: option.split sum.split)

interpretation answers: transport_invariant "lp_env mr" "\<lambda>l. engine_advances (mr_engine mr) \<longrightarrow> answers l" for mr
  by unfold_locales
    (auto simp: answers_read, auto simp: answers_def lp_write_def lp_command_def lp_advance_def lp_update_def
      split: sum.split)

subsection \<open>A run of the loop\<close>

lemma loop_options_ok:
  assumes "lp_args_parsed a"
  shows "options_ok (loop_options a)" and "finite (o_expected_buttons (loop_options a))"
    and "o_missed_poll_threshold (loop_options a) = la_missed_poll_threshold a"
    and "o_scenario (loop_options a) = ''steady''"
  using assms by (simp_all add: options_ok_def loop_options_def default_options_def lp_args_parsed_def SCENARIOS_def)

lemma booted_inv: "engine_ok (mr_engine mr) \<Longrightarrow> LPEmuTransport mr elf m = Inr em \<Longrightarrow> emu_inv em"
  using new_emulator_inv boot_inv by (auto simp: LPEmuTransport_def result_simps)

lemma startup_inv: "engine_ok (mr_engine mr) \<Longrightarrow> startup mr a em = Inr em' \<Longrightarrow> emu_inv em \<Longrightarrow> emu_inv em'"
  using transport_command_inv advance_inv
  by (fastforce simp: startup_def split: option.splits sum.splits prod.splits if_splits)

text \<open>How the loop ends: before the simulator starts, or with the final state of a simulator.\<close>

lemma run_closed_loop_cases:
  assumes "lp_args_parsed a"
  obtains (failed) e where "run_closed_loop mr now img a = Some (Inl e)"
  | (ran) em s s' where "engine_ok (mr_engine mr) \<longrightarrow> emu_inv em"
      and "SupraMaticSimulator \<lparr>ll_emu = em, ll_stuck = None\<rparr> now (loop_options a) = Inr s"
      and "s_transport s = \<lparr>ll_emu = em, ll_stuck = None\<rparr>"
      and "simulator_run (lp_env mr) (la_cycles a) (set (la_fault a)) (la_command a) None s = Inr s'"
      and "run_closed_loop mr now img a = loop_result s'"
proof (cases "and_then img (\<lambda>(elf, m). and_then (LPEmuTransport mr elf m) (startup mr a))")
  case (Inl e)
  then show ?thesis by (intro failed [of e]) (simp add: run_closed_loop_def)
next
  case (Inr em)
  then have inv: "engine_ok (mr_engine mr) \<longrightarrow> emu_inv em"
    using startup_inv booted_inv by (fastforce simp: result_simps)
  obtain s s' where s: "SupraMaticSimulator \<lparr>ll_emu = em, ll_stuck = None\<rparr> now (loop_options a) = Inr s"
      "simulator_run (lp_env mr) (la_cycles a) (set (la_fault a)) (la_command a) None s = Inr s'"
    using run_returns [OF loop_options_ok(1) [OF assms], of "\<lparr>ll_emu = em, ll_stuck = None\<rparr>" now "lp_env mr"
        "la_cycles a" "set (la_fault a)" "la_command a" None]
    by blast
  have t: "s_transport s = \<lparr>ll_emu = em, ll_stuck = None\<rparr>"
    using s(1) by (auto simp: SupraMaticSimulator_def split: if_splits sum.splits prod.splits)
  show ?thesis
    by (rule ran [OF inv s(1) t s(2)]) (use Inr s in \<open>simp add: run_closed_loop_def del: and_then_Inr\<close>)
qed


text \<open>A room with an engine that only lets time pass.\<close>

definition idle_room :: machine_room where
  "idle_room =
     \<lparr>mr_engine = idle_engine, mr_after_fault = \<lambda>_ em. em, mr_wall_ns = \<lambda>_. 1, mr_oversleep = \<lambda>_. 0,
      mr_uniform = \<lambda>_. 1, mr_randrange = \<lambda>_ _. 0\<rparr>"

lemma idle_room_ok: "room_ok idle_room" "engine_advances (mr_engine idle_room)"
  by (simp_all add: room_ok_def idle_room_def idle_engine_ok idle_engine_advances)

lemma default_lp_args_ok: "lp_args_parsed default_lp_args"
  by (simp add: lp_args_parsed_def default_lp_args_def COUNTER_PROFILES_def const_defs)


text \<open>C40: When the engine makes time pass the closed loop always ends: with a usage message or with an exit code, whatever
  the image, the firmware and the arguments are.\<close>

theorem closed_loop_ends:
  assumes "lp_args_parsed a" and "engine_advances (mr_engine mr)"
  shows "\<exists>fin. lp_main mr hp now smoke img dual_images a = Some fin"
proof -
  have "\<exists>res. run_closed_loop mr now img a = Some res"
    using assms(1)
  proof (cases rule: run_closed_loop_cases [of a mr now img])
    case (ran em s s')
    have "engine_advances (mr_engine mr) \<longrightarrow> answers (s_transport s)" by (simp add: ran(3) answers_def)
    from answers.Q_run [OF ran(4) this] assms(2) show ?thesis
      unfolding ran(5) by (auto simp: loop_result_def answers_def split: option.split stuck.split)
  qed blast
  then show ?thesis
    by (auto simp: lp_main_def split: option.split)
qed

theorem closed_loop_ends_witness:
  "\<exists>fin. lp_main idle_room (\<lambda>_ d. Inr d) 0 (Inr True) (Inr (tiny_image, \<lambda>_. 0)) (Inr (tiny_image, tiny_image))
     default_lp_args = Some fin"
  by (rule closed_loop_ends [OF default_lp_args_ok idle_room_ok(2)])

end
