(* ===== verification/Closeout_Plan.thy ===== *)
theory Closeout_Plan
  imports Hil_Commands
begin

text \<open>
  \<open>tools/hcp2_closeout.py\<close>, the plan and its commands: the steps of a plan with their optional keys, the built-in
  plans, the argument lists of the capture, the verifier, the restart and the upload, and how they are joined for the
  shell.  A key that a JSON plan leaves out is \<open>None\<close>; a plan whose values have other types than the code converts them
  to is outside the model.  Paths are strings; their normalisation by pathlib is not modelled.
\<close>

subsection \<open>Plans\<close>

record la_step =
  lt_output :: "string option"
  lt_sigrok_cli :: "string option"
  lt_driver :: "string option"
  lt_samplerate :: "string option"
  lt_duration :: "string option"
  lt_channels :: "string option"
  lt_output_format :: "string option"
  lt_verify :: "bool option"
  lt_verify_output :: "string option"
  lt_baud :: "int option"
  lt_max_de_high_us :: "int option"
  lt_min_status_frames :: "int option"
  lt_allow_tx_outside_de :: bool
  lt_allow_initial_de_high :: bool
  lt_allow_initial_tx_low :: bool
  lt_allow_re_high :: bool
  lt_allow_re_high_during_de :: bool
  lt_allow_de_without_tx :: bool
  lt_allow_status_gaps :: bool
  lt_ignore_before_us :: "int option"

definition plain_la :: la_step where
  "plain_la =
     \<lparr>lt_output = None, lt_sigrok_cli = None, lt_driver = None, lt_samplerate = None, lt_duration = None,
      lt_channels = None, lt_output_format = None, lt_verify = None, lt_verify_output = None, lt_baud = None,
      lt_max_de_high_us = None, lt_min_status_frames = None, lt_allow_tx_outside_de = False,
      lt_allow_initial_de_high = False, lt_allow_initial_tx_low = False, lt_allow_re_high = False,
      lt_allow_re_high_during_de = False, lt_allow_de_without_tx = False, lt_allow_status_gaps = False,
      lt_ignore_before_us = None\<rparr>"

record during_command =
  dc_name :: "string option"
  dc_delay_s :: rat
  dc_command :: "string option"

record step =
  st_name :: string
  st_cycles :: int
  st_trace :: bool
  st_faults :: "string list"
  st_pre_commands :: "string list"
  st_during_commands :: "during_command list"
  st_during_timeout_s :: rat
  st_load_commands :: "string list"
  st_post_commands :: "string list"
  st_la :: "la_step option"
  st_la_wait_timeout_s :: rat
  st_speed_factor :: rat
  st_missed_poll_threshold :: int
  st_expect_buttons :: "string list"
  st_command :: "string option"

text \<open>A step with no key but its name: the defaults of the \<open>get\<close> calls.\<close>

definition plain_step :: "string \<Rightarrow> step" where
  "plain_step name =
     \<lparr>st_name = name, st_cycles = 1000, st_trace = True, st_faults = [], st_pre_commands = [],
      st_during_commands = [], st_during_timeout_s = 120, st_load_commands = [], st_post_commands = [],
      st_la = None, st_la_wait_timeout_s = 180, st_speed_factor = DEFAULT_SPEED_FACTOR,
      st_missed_poll_threshold = DEFAULT_MISSED_POLL_THRESHOLD, st_expect_buttons = [], st_command = None\<rparr>"

type_synonym plan = "step list"

definition sorted_faults :: "string list" where
  "sorted_faults =
     [''bad-byte-count'', ''corrupt-crc'', ''duplicate'', ''garbage'', ''jitter'', ''split'', ''truncated'',
      ''wrong-register'', ''wrong-slave'']"

definition DEFAULT_PLAN :: plan where
  "DEFAULT_PLAN =
     [(plain_step ''runtime'')\<lparr>st_cycles := 1000\<rparr>,
      (plain_step ''fault-recovery'')\<lparr>st_cycles := 250, st_faults := sorted_faults\<rparr>]"

definition LA_PLAN :: plan where
  "LA_PLAN =
     [(plain_step ''la-runtime'')
        \<lparr>st_cycles := 160, st_speed_factor := 1,
         st_la := Some (plain_la
           \<lparr>lt_duration := Some ''14s'', lt_samplerate := Some ''1MHz'',
            lt_channels := Some ''rx=D0,tx=D2,re=D5,de=D7'', lt_min_status_frames := Some 80,
            lt_max_de_high_us := Some 9000, lt_allow_initial_de_high := True, lt_allow_initial_tx_low := True,
            lt_allow_re_high_during_de := True\<rparr>)\<rparr>]"

definition OTA_RESTART_CYCLES :: int where [const_defs]: "OTA_RESTART_CYCLES = 500"
definition API_RESTART_CYCLES :: int where [const_defs]: "API_RESTART_CYCLES = 350"

subsection \<open>Arguments for the shell\<close>

text \<open>\<open>shlex.join\<close>.\<close>

definition shlex_join :: "string list \<Rightarrow> string" where
  "shlex_join words = py_join '' '' (map shell_quote words)"

definition or_default :: "'a \<Rightarrow> 'a option \<Rightarrow> 'a" where
  "or_default d v = (case v of None \<Rightarrow> d | Some x \<Rightarrow> x)"

definition under :: "string \<Rightarrow> string \<Rightarrow> string" where
  "under dir name = (if take 1 name = ''/'' then name else dir @ ''/'' @ name)"

text \<open>The path a step names, or the default one, below the output directory unless it is absolute.\<close>

definition step_output :: "string \<Rightarrow> string option \<Rightarrow> string \<Rightarrow> string" where
  "step_output output_dir raw fallback =
     (if given raw then under output_dir (text_or_empty raw) else output_dir @ ''/'' @ fallback)"

definition CHANNELS :: string where "CHANNELS = ''rx=D0,tx=D2,re=D5,de=D7''"

definition capture_output :: "string \<Rightarrow> step \<Rightarrow> la_step \<Rightarrow> string" where
  "capture_output output_dir s la = step_output output_dir (lt_output la) (st_name s @ ''-la.csv'')"

definition capture_command :: "string \<Rightarrow> string \<Rightarrow> step \<Rightarrow> la_step \<Rightarrow> string list" where
  "capture_command sys_executable output_dir s la =
     [sys_executable, ''-m'', ''tools.hcp2_hil_la'', ''capture'',
      ''--sigrok-cli'', or_default ''sigrok-cli'' (lt_sigrok_cli la),
      ''--driver'', or_default ''fx2lafw'' (lt_driver la),
      ''--samplerate'', or_default ''500k'' (lt_samplerate la),
      ''--duration'', or_default ''10s'' (lt_duration la),
      ''--channels'', or_default CHANNELS (lt_channels la),
      ''--output'', capture_output output_dir s la,
      ''--output-format'', or_default ''csv'' (lt_output_format la)]"

definition verify_flags :: "la_step \<Rightarrow> string list" where
  "verify_flags la =
     (if lt_allow_tx_outside_de la then [''--allow-tx-outside-de''] else []) @
     (if lt_allow_initial_de_high la then [''--allow-initial-de-high''] else []) @
     (if lt_allow_initial_tx_low la then [''--allow-initial-tx-low''] else []) @
     (if lt_allow_re_high la then [''--allow-re-high''] else []) @
     (if lt_allow_re_high_during_de la then [''--allow-re-high-during-de''] else []) @
     (if lt_allow_de_without_tx la then [''--allow-de-without-tx''] else []) @
     (if lt_allow_status_gaps la then [''--allow-status-gaps''] else []) @
     (case lt_ignore_before_us la of None \<Rightarrow> [] | Some us \<Rightarrow> [''--ignore-before-us'', py_str_int us])"

definition verify_command :: "string \<Rightarrow> string \<Rightarrow> step \<Rightarrow> la_step \<Rightarrow> string list" where
  "verify_command sys_executable output_dir s la =
     [sys_executable, ''-m'', ''tools.hcp2_hil_la'', ''verify'',
      ''--input'', capture_output output_dir s la,
      ''--channels'', or_default CHANNELS (lt_channels la),
      ''--baud'', py_str_int (or_default 57600 (lt_baud la)),
      ''--max-de-high-us'', py_str_int (or_default 9000 (lt_max_de_high_us la)),
      ''--min-status-frames'', py_str_int (or_default 0 (lt_min_status_frames la)),
      ''--output'', step_output output_dir (lt_verify_output la) (st_name s @ ''-la-verify.json'')] @
     verify_flags la"

subsection \<open>Arguments of the command\<close>

record closeout_args =
  ca_serial :: "string option"
  ca_preset :: string
  ca_output_dir :: string
  ca_fail_fast :: bool
  ca_print_template :: bool
  ca_api_restart :: bool
  ca_sigrok_cli :: "string option"
  ca_esp_host :: string
  ca_esp_device :: "string option"
  ca_esp_api_port :: int
  ca_expected_name :: string
  ca_restart_object_id :: string
  ca_api_key :: "string option"
  ca_api_key_secret :: string
  ca_secrets_file :: string
  ca_esphome_config :: string
  ca_skip_esphome_compile :: bool

text \<open>The defaults of the parser with an empty environment.\<close>

definition default_closeout_args :: "string \<Rightarrow> closeout_args" where
  "default_closeout_args serial =
     \<lparr>ca_serial = Some serial, ca_preset = ''basic'', ca_output_dir = ''captures/hcp2/closeout'',
      ca_fail_fast = False, ca_print_template = False, ca_api_restart = False, ca_sigrok_cli = None,
      ca_esp_host = ''supramatic-4-dev.local'', ca_esp_device = None, ca_esp_api_port = 6053,
      ca_expected_name = ''supramatic-4-dev'', ca_restart_object_id = ''garage_door_hcp2_dev_restart'',
      ca_api_key = None, ca_api_key_secret = ''api_key_supramatic_4_dev'',
      ca_secrets_file = ''configs/secrets.yaml'', ca_esphome_config = ''configs/supramatic-4-dev.yaml'',
      ca_skip_esphome_compile = False\<rparr>"

text \<open>
  The surroundings of the process: the interpreter, whether the console script stands beside it, the variables the code
  reads, the programs on the path, and the plan file, when there is one.
\<close>

record surroundings =
  su_executable :: string
  su_console_script :: "string \<Rightarrow> string option"
  su_env_api_key :: "string option"
  su_env_sigrok :: "string option"
  su_on_path :: "string \<Rightarrow> bool"
  su_secrets :: "string option"
  su_plan_file :: "plan option"

definition console_command :: "surroundings \<Rightarrow> string \<Rightarrow> string list" where
  "console_command su name = (case su_console_script su name of Some path \<Rightarrow> [path] | None \<Rightarrow> [''uv'', ''run'', name])"

definition closeout_api_key :: "surroundings \<Rightarrow> string option \<Rightarrow> string \<Rightarrow> string option" where
  "closeout_api_key su api_key secret_name =
     (if given api_key then api_key
      else if given (su_env_api_key su) then su_env_api_key su
      else load_api_key None (su_secrets su) secret_name)"

definition api_restart_command :: "surroundings \<Rightarrow> closeout_args \<Rightarrow> string" where
  "api_restart_command su a =
     shlex_join
       [su_executable su, ''-m'', ''tools.hcp2_closeout'', ''--api-restart'',
        ''--esp-host'', ca_esp_host a, ''--esp-api-port'', py_str_int (ca_esp_api_port a),
        ''--expected-name'', ca_expected_name a, ''--restart-object-id'', ca_restart_object_id a,
        ''--secrets-file'', ca_secrets_file a, ''--api-key-secret'', ca_api_key_secret a]"

definition ota_upload_command :: "surroundings \<Rightarrow> closeout_args \<Rightarrow> string" where
  "ota_upload_command su a =
     shlex_join (console_command su ''esphome'' @
       [''upload'', ca_esphome_config a, ''--device'', text_or_empty (ca_esp_device a)])"

definition esphome_compile_command :: "surroundings \<Rightarrow> closeout_args \<Rightarrow> string" where
  "esphome_compile_command su a =
     shlex_join (console_command su ''esphome'' @ [''compile'', ca_esphome_config a])"

definition build_ota_restart_plan :: "surroundings \<Rightarrow> closeout_args \<Rightarrow> plan" where
  "build_ota_restart_plan su a =
     [(plain_step ''ota-upload'')
        \<lparr>st_cycles := OTA_RESTART_CYCLES, st_speed_factor := 1,
         st_pre_commands := (if ca_skip_esphome_compile a then [] else [esphome_compile_command su a]),
         st_during_timeout_s := 240,
         st_during_commands :=
           [\<lparr>dc_name = Some ''esphome-ota-upload'', dc_delay_s = 2, dc_command = Some (ota_upload_command su a)\<rparr>]\<rparr>,
      (plain_step ''api-restart'')
        \<lparr>st_cycles := API_RESTART_CYCLES, st_speed_factor := 1, st_during_timeout_s := 90,
         st_during_commands :=
           [\<lparr>dc_name = Some ''esphome-api-restart'', dc_delay_s = 2,
             dc_command = Some (api_restart_command su a)\<rparr>]\<rparr>]"

definition builtin_plan :: "surroundings \<Rightarrow> closeout_args \<Rightarrow> plan result" where
  "builtin_plan su a =
     (case su_plan_file su of
        Some plan \<Rightarrow> Inr plan
      | None \<Rightarrow>
          if ca_preset a = ''basic'' then Inr DEFAULT_PLAN
          else if ca_preset a = ''la'' then Inr LA_PLAN
          else if ca_preset a = ''ota-restart'' then Inr (build_ota_restart_plan su a)
          else if ca_preset a = ''full'' then Inr (DEFAULT_PLAN @ LA_PLAN @ build_ota_restart_plan su a)
          else Inl (ValueError (''unknown preset '' @ py_repr (ca_preset a))))"

text \<open>An empty \<open>la\<close> entry is none.\<close>

definition step_la :: "step \<Rightarrow> la_step option" where
  "step_la s = (if st_la s = Some plain_la then None else st_la s)"

definition apply_sigrok :: "string \<Rightarrow> bool \<Rightarrow> step \<Rightarrow> step" where
  "apply_sigrok sigrok_cli override s =
     (case step_la s of
        None \<Rightarrow> s
      | Some la \<Rightarrow>
          if override \<or> lt_sigrok_cli la = None
          then s\<lparr>st_la := Some (la\<lparr>lt_sigrok_cli := Some sigrok_cli\<rparr>)\<rparr> else s)"

definition apply_sigrok_cli :: "string \<Rightarrow> bool \<Rightarrow> plan \<Rightarrow> plan" where
  "apply_sigrok_cli sigrok_cli override plan = map (apply_sigrok sigrok_cli override) plan"

definition sigrok_choice :: "surroundings \<Rightarrow> closeout_args \<Rightarrow> string" where
  "sigrok_choice su a =
     (if given (ca_sigrok_cli a) then text_or_empty (ca_sigrok_cli a)
      else if given (su_env_sigrok su) then text_or_empty (su_env_sigrok su)
      else ''sigrok-cli'')"

definition prepare_plan :: "surroundings \<Rightarrow> closeout_args \<Rightarrow> plan result" where
  "prepare_plan su a =
     (case builtin_plan su a of
        Inl e \<Rightarrow> Inl e
      | Inr plan \<Rightarrow> Inr (apply_sigrok_cli (sigrok_choice su a) (ca_sigrok_cli a \<noteq> None) plan))"

text \<open>The programs the captures of a plan need, and those that are not there.\<close>

definition plan_programs :: "plan \<Rightarrow> string list" where
  "plan_programs plan =
     map (\<lambda>la. or_default ''sigrok-cli'' (lt_sigrok_cli la)) (List.map_filter step_la plan)"

definition preflight_plan :: "surroundings \<Rightarrow> plan \<Rightarrow> unit result" where
  "preflight_plan su plan =
     (let missing = filter (\<lambda>p. \<not> su_on_path su p) (plan_programs plan)
      in if missing = [] then Inr ()
         else Inl (SystemExit (''sigrok-cli preflight failed: could not execute '' @
                py_join '', '' (sort (remdups missing)) @
                ''. Install sigrok-cli, put it on PATH, set HCP2_SIGROK_CLI, '' @
                ''or pass --sigrok-cli /path/to/sigrok-cli.'')))"

subsection \<open>The restart over the native API\<close>

text \<open>
  \<open>api_restart_async\<close>: the last button of the listed entities with the wanted object id is pressed, and the client is
  disconnected whatever happens.  The client is third-party: connecting may fail, and it lists the entities.
\<close>

datatype restart_effect = Connected | Pressed int int | Disconnected

definition find_restart :: "string \<Rightarrow> entity list \<Rightarrow> (int \<times> int) option" where
  "find_restart wanted entities =
     fold (\<lambda>e found. if en_kind e = ''ButtonInfo'' \<and> en_object_id e = wanted
                       then Some (en_key e, en_device_id e) else found) entities None"

definition button_ids :: "entity list \<Rightarrow> string list" where
  "button_ids entities = map en_object_id (filter (\<lambda>e. en_kind e = ''ButtonInfo'') entities)"

definition api_restart ::
  "unit result \<Rightarrow> entity list result \<Rightarrow> string \<Rightarrow> unit result \<times> restart_effect list"
where
  "api_restart connect listed wanted =
     (case connect of
        Inl e \<Rightarrow> (Inl e, [])
      | Inr _ \<Rightarrow>
         (case listed of
            Inl e \<Rightarrow> (Inl e, [Connected, Disconnected])
          | Inr entities \<Rightarrow>
             (case find_restart wanted entities of
                None \<Rightarrow>
                  (Inl (RuntimeError (''Could not find restart button '' @ py_repr wanted @ ''; buttons: ['' @
                     py_join '', '' (map py_repr (button_ids entities)) @ '']'')), [Connected, Disconnected])
              | Some (key, device_id) \<Rightarrow> (Inr (), [Connected, Pressed key device_id, Disconnected]))))"

subsection \<open>The shell reads the commands back\<close>

text \<open>
  How a POSIX shell splits a command into words, for words without expansion: blanks separate them, single quotes keep
  everything, double quotes everything but the characters that are special in them.  Other characters are not
  accepted here.
\<close>

datatype quoting = Bare | Single_Quoted | Double_Quoted

fun sh_words :: "quoting \<Rightarrow> string option \<Rightarrow> string \<Rightarrow> string list option" where
  "sh_words Bare word [] = Some (case word of None \<Rightarrow> [] | Some w \<Rightarrow> [w])"
| "sh_words Bare word (c # cs) =
     (if c = CHR '' '' then map_option (\<lambda>ws. (case word of None \<Rightarrow> ws | Some w \<Rightarrow> w # ws)) (sh_words Bare None cs)
      else if c = CHR 0x27 then sh_words Single_Quoted (Some (text_or_empty word)) cs
      else if c = CHR 0x22 then sh_words Double_Quoted (Some (text_or_empty word)) cs
      else if shell_safe c then sh_words Bare (Some (text_or_empty word @ [c])) cs
      else None)"
| "sh_words Single_Quoted word [] = None"
| "sh_words Single_Quoted word (c # cs) =
     (if c = CHR 0x27 then sh_words Bare word cs else sh_words Single_Quoted (Some (text_or_empty word @ [c])) cs)"
| "sh_words Double_Quoted word [] = None"
| "sh_words Double_Quoted word (c # cs) =
     (if c = CHR 0x22 then sh_words Bare word cs
      else if c \<in> {CHR ''$'', CHR 0x60, CHR 0x5C} then None
      else sh_words Double_Quoted (Some (text_or_empty word @ [c])) cs)"

lemma safe_plain: "shell_safe c \<Longrightarrow> c \<noteq> CHR '' '' \<and> c \<noteq> CHR 0x27 \<and> c \<noteq> CHR 0x22"
  by (auto simp: shell_safe_def Let_def)

lemma sh_words_safe:
  "list_all shell_safe t \<Longrightarrow> t \<noteq> [] \<or> word \<noteq> None \<Longrightarrow>
   sh_words Bare word (t @ cs) = sh_words Bare (Some (text_or_empty word @ t)) cs"
proof (induction t arbitrary: word)
  case Nil
  then show ?case by (auto simp: text_or_empty_def)
next
  case (Cons c t)
  then show ?case
    using safe_plain [of c] by (simp add: text_or_empty_def [of "Some x" for x])
qed

lemma sh_words_single:
  "sh_words Single_Quoted (Some w)
     (py_replace_char CHR 0x27 [CHR 0x27, CHR 0x22, CHR 0x27, CHR 0x22, CHR 0x27] t @ CHR 0x27 # cs) =
   sh_words Bare (Some (w @ t)) cs"
  by (induction t arbitrary: w) (simp_all add: py_replace_char_def text_or_empty_def)

lemma sh_words_quoted: "sh_words Bare None (shell_quote t @ cs) = sh_words Bare (Some t) cs"
proof (cases "t \<noteq> [] \<and> list_all shell_safe t")
  case True
  then show ?thesis
    using sh_words_safe [of t None cs] by (simp add: shell_quote_def text_or_empty_def)
next
  case False
  then show ?thesis
    using sh_words_single [of "[]" t cs] by (auto simp: shell_quote_def text_or_empty_def)
qed

lemma shlex_join_Cons:
  "shlex_join (w # ws) = shell_quote w @ concat (map (\<lambda>u. CHR '' '' # shell_quote u) ws)"
  by (simp add: shlex_join_def py_join_def comp_def)

lemma sh_words_tail:
  "sh_words Bare (Some w) (concat (map (\<lambda>u. CHR '' '' # shell_quote u) ws)) = Some (w # ws)"
  by (induction ws arbitrary: w) (simp_all add: sh_words_quoted)

text \<open>The shell that runs a joined command reads back exactly the list of arguments it was made of, whatever
  characters the host names, paths, file names and object ids contain.\<close>

theorem shell_reads_arguments: "sh_words Bare None (shlex_join args) = Some args"
proof (cases args)
  case (Cons w ws)
  then show ?thesis by (simp only: shlex_join_Cons sh_words_quoted sh_words_tail)
qed (simp add: shlex_join_def py_join_def)

end
