(* ===== verification/Closeout.thy ===== *)
theory Closeout
  imports Closeout_Plan Simulator_Props Sim_Main
begin

text \<open>
  \<open>tools/hcp2_closeout.py\<close>, the runs: one step with its shell commands, load processes, logic capture and simulation,
  the plan, and the exit code.  What the host does is a record of outcomes, in the manner of Hil_Load; a step returns
  its report or the exception it raises, with the effects it had in their order.
\<close>

subsection \<open>Processes\<close>

definition tail_text :: "nat \<Rightarrow> string \<Rightarrow> string" where
  "tail_text limit t = (if limit < length t then drop (length t - limit) t else t)"

record command_record =
  cr_name :: string
  cr_command :: string
  cr_returncode :: int

record load_record =
  lo_name :: string
  lo_command :: string
  lo_returncode :: int
  lo_terminated :: bool

text \<open>
  What the calls of \<open>stop_load\<close> return: the first \<open>poll\<close>, the patient wait of a capture, the waits after \<open>terminate\<close> and
  after \<open>kill\<close>, and whether the pipes are closed within a second; no value is a time-out.
\<close>

record closing =
  cl_poll :: "int option"
  cl_patient :: "int option"
  cl_wait :: "int option"
  cl_wait_killed :: "int option"
  cl_pipes_closed :: bool

definition end_process :: "bool \<Rightarrow> closing \<Rightarrow> (int \<times> bool) option" where
  "end_process terminate oc =
     (case cl_poll oc of
        Some code \<Rightarrow> Some (code, False)
      | None \<Rightarrow>
         (case (if terminate then None else cl_patient oc) of
            Some code \<Rightarrow> Some (code, False)
          | None \<Rightarrow>
             (case cl_wait oc of
                Some code \<Rightarrow> Some (code, True)
              | None \<Rightarrow> map_option (\<lambda>code. (code, True)) (cl_wait_killed oc))))"

definition close_load :: "bool \<Rightarrow> closing \<Rightarrow> string \<Rightarrow> string \<Rightarrow> load_record result" where
  "close_load terminate oc name command =
     (case end_process terminate oc of
        None \<Rightarrow> Inl (Raised ''TimeoutExpired'' name)
      | Some (code, terminated) \<Rightarrow>
          if \<not> cl_pipes_closed oc then Inl (Raised ''TimeoutExpired'' name)
          else Inr \<lparr>lo_name = name, lo_command = command, lo_returncode = code, lo_terminated = terminated\<rparr>)"

subsection \<open>One step\<close>

datatype step_effect =
    Shell string
  | Began string
  | Ended string
  | Opened
  | Simulated
  | Closed

record 't step_host =
  sh_pre :: "nat \<Rightarrow> int"
  sh_post :: "nat \<Rightarrow> int"
  sh_finished :: "(nat \<times> int) list"
  sh_capture :: closing
  sh_load :: "nat \<Rightarrow> closing"
  sh_serial :: "('t env \<times> nat \<times> 't) result"
  sh_verifier :: int

record step_report =
  sr_name :: string
  sr_cycles :: int
  sr_pre :: "command_record list"
  sr_during :: "command_record list"
  sr_loads :: "load_record list"
  sr_post :: "command_record list"
  sr_la_capture :: "load_record option"
  sr_la_verify :: "command_record option"
  sr_simulation :: "report option"
  sr_verdict :: string

definition new_step_report :: "step \<Rightarrow> step_report" where
  "new_step_report s =
     \<lparr>sr_name = st_name s, sr_cycles = st_cycles s, sr_pre = [], sr_during = [], sr_loads = [], sr_post = [],
      sr_la_capture = None, sr_la_verify = None, sr_simulation = None, sr_verdict = ''not-run''\<rparr>"

definition sub_name :: "string \<Rightarrow> string \<Rightarrow> nat \<Rightarrow> string" where
  "sub_name name kind i = name @ '':'' @ kind @ '':'' @ py_str_int (int i)"

definition step_valid :: "step \<Rightarrow> unit result" where
  "step_valid s =
     (if st_cycles s \<le> 0 then Inl (ValueError (st_name s @ '': cycles must be positive''))
      else let unknown = sort (filter (\<lambda>f. f \<notin> FAULTS) (remdups (st_faults s)))
           in if unknown \<noteq> []
              then Inl (ValueError (st_name s @ '': unknown faults: '' @ py_join '', '' unknown))
              else Inr ())"

text \<open>The commands before the run, up to the first that fails.\<close>

fun pre_records :: "string \<Rightarrow> (nat \<Rightarrow> int) \<Rightarrow> nat \<Rightarrow> string list \<Rightarrow> command_record list" where
  "pre_records name codes i [] = []"
| "pre_records name codes i (command # rest) =
     \<lparr>cr_name = sub_name name ''pre'' i, cr_command = command, cr_returncode = codes i\<rparr> #
     (if codes i \<noteq> 0 then [] else pre_records name codes (Suc i) rest)"

text \<open>
  The commands beside the run: those whose thread ended within the time-out, in the order they ended.  A thread that is
  still running, or whose specification has no command, leaves no record.
\<close>

definition during_record :: "string \<Rightarrow> during_command list \<Rightarrow> nat \<times> int \<Rightarrow> command_record option" where
  "during_record name specs fin =
     (case fin of (i, code) \<Rightarrow>
        if i < length specs then
          map_option (\<lambda>command.
              \<lparr>cr_name = or_default (sub_name name ''during'' i) (dc_name (specs ! i)), cr_command = command,
               cr_returncode = code\<rparr>)
            (dc_command (specs ! i))
        else None)"

definition during_records :: "step \<Rightarrow> (nat \<times> int) list \<Rightarrow> command_record list" where
  "during_records s finished = List.map_filter (during_record (st_name s) (st_during_commands s)) finished"

definition step_options :: "step \<Rightarrow> sim_options" where
  "step_options s =
     default_options
       \<lparr>o_speed_factor := st_speed_factor s, o_missed_poll_threshold := st_missed_poll_threshold s,
        o_expected_buttons := set (st_expect_buttons s)\<rparr>"

text \<open>The body of \<open>try\<close>: the port, the simulator and its run.\<close>

definition simulate_step :: "'t step_host \<Rightarrow> step \<Rightarrow> report result \<times> step_effect list" where
  "simulate_step h s =
     (case sh_serial h of
        Inl e \<Rightarrow> (Inl e, [])
      | Inr (env, now, transport) \<Rightarrow>
         (case SupraMaticSimulator transport now (step_options s) of
            Inl e \<Rightarrow> (Inl e, [Opened])
          | Inr sim \<Rightarrow>
             (case simulator_run env (st_cycles s) (set (st_faults s)) (st_command s) None sim of
                Inl e \<Rightarrow> (Inl e, [Opened])
              | Inr sim \<Rightarrow> (Inr (s_report sim), [Opened, Simulated]))))"

text \<open>The end of \<open>finally\<close>: the capture first, then the load processes; a process that will not end stops the loop.\<close>

fun close_all :: "(string \<times> string \<times> bool \<times> closing) list \<Rightarrow> load_record list result \<times> step_effect list" where
  "close_all [] = (Inr [], [])"
| "close_all ((name, command, terminate, oc) # rest) =
     (case close_load terminate oc name command of
        Inl e \<Rightarrow> (Inl e, [Ended name])
      | Inr l \<Rightarrow>
         (case close_all rest of
            (Inl e, effs) \<Rightarrow> (Inl e, Ended name # effs)
          | (Inr ls, effs) \<Rightarrow> (Inr (l # ls), Ended name # effs)))"

definition capture_process :: "string \<Rightarrow> string \<Rightarrow> 't step_host \<Rightarrow> step \<Rightarrow> (string \<times> string \<times> bool \<times> closing) list" where
  "capture_process sys_executable output_dir h s =
     (case step_la s of
        None \<Rightarrow> []
      | Some la \<Rightarrow>
          [(st_name s @ '':la-capture'', shlex_join (capture_command sys_executable output_dir s la), False,
            sh_capture h)])"

definition load_processes :: "'t step_host \<Rightarrow> step \<Rightarrow> (string \<times> string \<times> bool \<times> closing) list" where
  "load_processes h s =
     map (\<lambda>(i, command). (sub_name (st_name s) ''load'' i, command, True, sh_load h i))
       (enumerate 0 (st_load_commands s))"

text \<open>After \<open>finally\<close>: the verdict is lowered, never raised.\<close>

definition lower :: "bool \<Rightarrow> string \<Rightarrow> string \<Rightarrow> string" where
  "lower bad reason verdict = (if bad \<and> verdict = ''ok'' then reason else verdict)"

definition verify_record :: "string \<Rightarrow> string \<Rightarrow> 't step_host \<Rightarrow> step \<Rightarrow> command_record option" where
  "verify_record sys_executable output_dir h s =
     (case step_la s of
        None \<Rightarrow> None
      | Some la \<Rightarrow>
          if or_default True (lt_verify la)
          then Some \<lparr>cr_name = st_name s @ '':la-verify'',
                     cr_command = shlex_join (verify_command sys_executable output_dir s la),
                     cr_returncode = sh_verifier h\<rparr>
          else None)"

definition add_capture :: "command_record option \<Rightarrow> load_record list \<Rightarrow> step_report \<Rightarrow> step_report" where
  "add_capture verification captures r =
     (case captures of
        [] \<Rightarrow> r
      | l # _ \<Rightarrow>
          if lo_returncode l = 0
          then r\<lparr>sr_la_capture := Some l, sr_la_verify := verification,
                 sr_verdict := lower (case verification of None \<Rightarrow> False | Some v \<Rightarrow> cr_returncode v \<noteq> 0)
                   ''la-verify-failed'' (sr_verdict r)\<rparr>
          else r\<lparr>sr_la_capture := Some l, sr_verdict := lower True ''la-capture-failed'' (sr_verdict r)\<rparr>)"

definition check_during :: "step_report \<Rightarrow> step_report" where
  "check_during r =
     r\<lparr>sr_verdict := lower (list_ex (\<lambda>c. cr_returncode c \<noteq> 0) (sr_during r)) ''during-command-failed'' (sr_verdict r)\<rparr>"

definition check_loads :: "step_report \<Rightarrow> step_report" where
  "check_loads r =
     r\<lparr>sr_verdict := lower (list_ex (\<lambda>l. lo_returncode l \<notin> {0, -15, 143}) (sr_loads r)) ''load-command-failed''
         (sr_verdict r)\<rparr>"

fun add_post :: "(nat \<Rightarrow> int) \<Rightarrow> nat \<Rightarrow> string list \<Rightarrow> step_report \<Rightarrow> step_report" where
  "add_post codes i [] r = r"
| "add_post codes i (command # rest) r =
     add_post codes (Suc i) rest
       (r\<lparr>sr_post := sr_post r @
            [\<lparr>cr_name = sub_name (sr_name r) ''post'' i, cr_command = command, cr_returncode = codes i\<rparr>],
          sr_verdict := lower (codes i \<noteq> 0) ''post-command-failed'' (sr_verdict r)\<rparr>)"

definition finish_step ::
  "string \<Rightarrow> string \<Rightarrow> 't step_host \<Rightarrow> step \<Rightarrow> load_record list \<Rightarrow> report \<Rightarrow> step_report \<Rightarrow> step_report"
where
  "finish_step sys_executable output_dir h s ended sim r =
     (let n = length (capture_process sys_executable output_dir h s);
          r = r\<lparr>sr_simulation := Some sim, sr_verdict := r_verdict sim,
                sr_during := during_records s (sh_finished h), sr_loads := drop n ended\<rparr>;
          r = add_capture (verify_record sys_executable output_dir h s) (take n ended) r
      in add_post (sh_post h) 0 (st_post_commands s) (check_loads (check_during r)))"

definition run_simulation_step ::
  "string \<Rightarrow> string \<Rightarrow> 't step_host \<Rightarrow> step \<Rightarrow> step_report result \<times> step_effect list"
where
  "run_simulation_step sys_executable output_dir h s =
     (case step_valid s of
        Inl e \<Rightarrow> (Inl e, [])
      | Inr _ \<Rightarrow>
         (let pre = pre_records (st_name s) (sh_pre h) 0 (st_pre_commands s);
              pre_effs = map (Shell \<circ> cr_command) pre;
              r = (new_step_report s)\<lparr>sr_pre := pre\<rparr>
          in if list_ex (\<lambda>c. cr_returncode c \<noteq> 0) pre
             then (Inr (r\<lparr>sr_verdict := ''pre-command-failed''\<rparr>), pre_effs)
             else
               (let processes = capture_process sys_executable output_dir h s @ load_processes h s
                in case simulate_step h s of
                  (res, sim_effs) \<Rightarrow>
                (case close_all processes of
                  (ended, close_effs) \<Rightarrow>
                    (let effs = pre_effs @ map (Began \<circ> fst) processes @ sim_effs @
                           (if Opened \<in> set sim_effs then [Closed] else []) @ close_effs
                     in case ended of
                          Inl e \<Rightarrow> (Inl e, effs)
                        | Inr ls \<Rightarrow>
                           (case res of
                              Inl e \<Rightarrow> (Inl e, effs)
                            | Inr sim \<Rightarrow>
                                (Inr (finish_step sys_executable output_dir h s ls sim r), effs)))))))"

subsection \<open>The plan\<close>

fun run_steps ::
  "string \<Rightarrow> string \<Rightarrow> bool \<Rightarrow> nat \<Rightarrow> (nat \<Rightarrow> 't step_host) \<Rightarrow> plan \<Rightarrow> step_report list result"
where
  "run_steps sys_executable output_dir fail_fast i hosts [] = Inr []"
| "run_steps sys_executable output_dir fail_fast i hosts (s # rest) =
     (case fst (run_simulation_step sys_executable output_dir (hosts i) s) of
        Inl e \<Rightarrow> Inl e
      | Inr r \<Rightarrow>
          if sr_verdict r \<noteq> ''ok'' \<and> fail_fast then Inr [r]
          else case run_steps sys_executable output_dir fail_fast (Suc i) hosts rest of
            Inl e \<Rightarrow> Inl e
          | Inr rs \<Rightarrow> Inr (r # rs))"

definition plan_verdict :: "step_report list \<Rightarrow> string" where
  "plan_verdict reports = (if list_all (\<lambda>r. sr_verdict r = ''ok'') reports then ''ok'' else ''fail'')"

definition closeout_main ::
  "surroundings \<Rightarrow> (nat \<Rightarrow> 't step_host) \<Rightarrow> unit result \<Rightarrow> entity list result \<Rightarrow> closeout_args \<Rightarrow> cli_end"
where
  "closeout_main su hosts connect listed a =
     (let a = (if ca_esp_device a = None then a\<lparr>ca_esp_device := Some (ca_esp_host a)\<rparr> else a)
      in if ca_api_restart a then
           (case fst (api_restart connect listed (ca_restart_object_id a)) of
              Inl e \<Rightarrow> Uncaught e | Inr _ \<Rightarrow> Exit 0)
         else case prepare_plan su a of
           Inl e \<Rightarrow> Uncaught e
         | Inr plan \<Rightarrow>
             if ca_print_template a then Exit 0
             else if \<not> given (ca_serial a) then Usage ''--serial is required unless --api-restart is used''
             else case preflight_plan su plan of
               Inl e \<Rightarrow> Uncaught e
             | Inr _ \<Rightarrow>
                (case run_steps (su_executable su) (ca_output_dir a) (ca_fail_fast a) 0 hosts plan of
                   Inl e \<Rightarrow> Uncaught e
                 | Inr reports \<Rightarrow> Exit (if plan_verdict reports = ''ok'' then 0 else 1)))"

subsection \<open>What a passed step has shown\<close>

definition step_passed :: "step \<Rightarrow> step_report \<Rightarrow> bool" where
  "step_passed s r \<longleftrightarrow>
     length (sr_pre r) = length (st_pre_commands s) \<and> list_all (\<lambda>c. cr_returncode c = 0) (sr_pre r) \<and>
     (\<exists>sim. sr_simulation r = Some sim \<and> r_verdict sim = ''ok'') \<and>
     (step_la s \<noteq> None \<longrightarrow> (\<exists>l. sr_la_capture r = Some l \<and> lo_returncode l = 0)) \<and>
     (\<forall>la. step_la s = Some la \<and> or_default True (lt_verify la) \<longrightarrow>
        (\<exists>v. sr_la_verify r = Some v \<and> cr_returncode v = 0)) \<and>
     list_all (\<lambda>c. cr_returncode c = 0) (sr_during r) \<and>
     length (sr_loads r) = length (st_load_commands s) \<and>
     list_all (\<lambda>l. lo_returncode l \<in> {0, -15, 143}) (sr_loads r) \<and>
     length (sr_post r) = length (st_post_commands s) \<and> list_all (\<lambda>c. cr_returncode c = 0) (sr_post r)"

lemma lower_ok [simp]: "lower bad reason v = ''ok'' \<longleftrightarrow> v = ''ok'' \<and> (\<not> bad \<or> reason = ''ok'')"
  by (auto simp: lower_def)

lemma pre_records_ok:
  "list_all (\<lambda>c. cr_returncode c = 0) (pre_records name codes i cmds) \<Longrightarrow>
   length (pre_records name codes i cmds) = length cmds"
  by (induction cmds arbitrary: i) (auto split: if_splits)

lemma add_post_same:
  "sr_pre (add_post codes i cmds r) = sr_pre r" "sr_simulation (add_post codes i cmds r) = sr_simulation r"
  "sr_la_capture (add_post codes i cmds r) = sr_la_capture r" "sr_la_verify (add_post codes i cmds r) = sr_la_verify r"
  "sr_during (add_post codes i cmds r) = sr_during r" "sr_loads (add_post codes i cmds r) = sr_loads r"
  "length (sr_post (add_post codes i cmds r)) = length (sr_post r) + length cmds"
  by (induction cmds arbitrary: i r) simp_all

lemma add_post_verdict: "sr_verdict (add_post codes i cmds r) = ''ok'' \<Longrightarrow> sr_verdict r = ''ok''"
  by (induction cmds arbitrary: i r) fastforce+

lemma add_post_ok:
  "sr_verdict (add_post codes i cmds r) = ''ok'' \<Longrightarrow> list_all (\<lambda>c. cr_returncode c = 0) (sr_post r) \<Longrightarrow>
   list_all (\<lambda>c. cr_returncode c = 0) (sr_post (add_post codes i cmds r))"
proof (induction cmds arbitrary: i r)
  case (Cons command cmds)
  have "codes i = 0"
    using add_post_verdict [of codes "Suc i" cmds] Cons.prems(1) by fastforce
  then show ?case
    using Cons by simp
qed simp

lemma check_same:
  "sr_pre (check_loads (check_during r)) = sr_pre r" "sr_simulation (check_loads (check_during r)) = sr_simulation r"
  "sr_la_capture (check_loads (check_during r)) = sr_la_capture r"
  "sr_la_verify (check_loads (check_during r)) = sr_la_verify r" "sr_during (check_loads (check_during r)) = sr_during r"
  "sr_loads (check_loads (check_during r)) = sr_loads r" "sr_post (check_loads (check_during r)) = sr_post r"
  by (simp_all add: check_loads_def check_during_def)

lemma check_ok:
  "sr_verdict (check_loads (check_during r)) = ''ok'' \<longleftrightarrow>
     sr_verdict r = ''ok'' \<and> list_all (\<lambda>c. cr_returncode c = 0) (sr_during r) \<and>
     list_all (\<lambda>l. lo_returncode l \<in> {0, -15, 143}) (sr_loads r)"
  by (auto simp: check_loads_def check_during_def list_ex_iff list_all_iff)

lemma add_capture_same:
  "sr_pre (add_capture v ls r) = sr_pre r" "sr_simulation (add_capture v ls r) = sr_simulation r"
  "sr_during (add_capture v ls r) = sr_during r" "sr_loads (add_capture v ls r) = sr_loads r"
  "sr_post (add_capture v ls r) = sr_post r"
  by (simp_all add: add_capture_def split: list.split)

lemma add_capture_ok:
  assumes "sr_verdict (add_capture v ls r) = ''ok''"
  shows "sr_verdict r = ''ok'' \<and>
    (\<forall>l rest. ls = l # rest \<longrightarrow> lo_returncode l = 0 \<and> sr_la_capture (add_capture v ls r) = Some l \<and>
       sr_la_verify (add_capture v ls r) = v \<and> (\<forall>c. v = Some c \<longrightarrow> cr_returncode c = 0))"
  using assms by (auto simp: add_capture_def split: list.splits if_splits option.splits)

lemma close_all_length: "close_all ps = (Inr ls, effs) \<Longrightarrow> length ls = length ps"
  by (induction ps arbitrary: ls effs) (auto split: sum.splits prod.splits)

text \<open>A step that returns with the verdict \<open>ok\<close> came to its end, and every part of it passed.\<close>

lemma step_ok_passed:
  assumes "fst (run_simulation_step py dir h s) = Inr r" and "sr_verdict r = ''ok''"
  shows "step_passed s r"
proof -
  define pre where "pre = pre_records (st_name s) (sh_pre h) 0 (st_pre_commands s)"
  define ps where "ps = capture_process py dir h s @ load_processes h s"
  have pre: "list_all (\<lambda>c. cr_returncode c = 0) pre"
    using assms by (auto simp: run_simulation_step_def Let_def pre_def list_ex_iff list_all_iff split: sum.splits if_splits)
  obtain ls sim effs where run: "close_all ps = (Inr ls, effs)"
      and r: "r = finish_step py dir h s ls sim ((new_step_report s)\<lparr>sr_pre := pre\<rparr>)"
    using assms by (auto simp: run_simulation_step_def Let_def pre_def ps_def split: sum.splits if_splits prod.splits)
  define n where "n = length (capture_process py dir h s)"
  define a where "a = (new_step_report s)\<lparr>sr_pre := pre, sr_simulation := Some sim, sr_verdict := r_verdict sim,
    sr_during := during_records s (sh_finished h), sr_loads := drop n ls\<rparr>"
  define v where "v = verify_record py dir h s"
  have fin: "r = add_post (sh_post h) 0 (st_post_commands s) (check_loads (check_during (add_capture v (take n ls) a)))"
    by (simp add: r finish_step_def Let_def a_def n_def v_def)
  have post0: "sr_post a = []" by (simp add: a_def new_step_report_def)
  have post: "sr_verdict (check_loads (check_during (add_capture v (take n ls) a))) = ''ok''"
      "list_all (\<lambda>c. cr_returncode c = 0) (sr_post r)"
    using add_post_ok [of "sh_post h" 0 "st_post_commands s" "check_loads (check_during (add_capture v (take n ls) a))"]
      add_post_verdict [of "sh_post h" 0 "st_post_commands s"] assms(2)
    by (simp_all add: fin check_same add_capture_same post0)
  note checks = post(1) [unfolded check_ok]
  note cap = add_capture_ok [OF conjunct1 [OF checks]]
  have len: "length ls = length ps" by (rule close_all_length [OF run])
  have loads: "length (drop n ls) = length (st_load_commands s)"
    using len by (simp add: ps_def n_def load_processes_def)
  have caught: "\<exists>l rest. take n ls = l # rest" if "step_la s = Some la" for la
  proof -
    have "n = 1" using that by (simp add: n_def capture_process_def)
    then show ?thesis using len that by (cases ls) (auto simp: ps_def capture_process_def)
  qed
  have verified: "v \<noteq> None" if "step_la s = Some la" "or_default True (lt_verify la)" for la
    using that by (simp add: v_def verify_record_def)
  have lengths: "length pre = length (st_pre_commands s)"
    using pre_records_ok pre unfolding pre_def by blast
  have sel: "sr_pre r = pre" "sr_simulation r = Some sim" "sr_during r = sr_during a" "sr_loads r = drop n ls"
      "length (sr_post r) = length (st_post_commands s)"
      "sr_la_capture r = sr_la_capture (add_capture v (take n ls) a)"
      "sr_la_verify r = sr_la_verify (add_capture v (take n ls) a)"
    by (simp_all add: fin add_post_same check_same add_capture_same post0) (simp_all add: a_def)
  have during: "list_all (\<lambda>c. cr_returncode c = 0) (sr_during a)"
      "list_all (\<lambda>l. lo_returncode l \<in> {0, -15, 143}) (drop n ls)"
    using checks by (simp_all add: add_capture_same a_def)
  have sim: "r_verdict sim = ''ok''"
    using conjunct1 [OF cap] by (simp add: a_def)
  have captured: "\<exists>l. sr_la_capture r = Some l \<and> lo_returncode l = 0" if "step_la s \<noteq> None"
    using that caught conjunct2 [OF cap] unfolding sel by fastforce
  have verification: "\<exists>c. sr_la_verify r = Some c \<and> cr_returncode c = 0"
    if "step_la s = Some la \<and> or_default True (lt_verify la)" for la
    using that caught [of la] verified [of la] conjunct2 [OF cap] unfolding sel by fastforce
  show ?thesis
    unfolding step_passed_def using pre lengths sim loads during post(2) captured verification
    by (simp only: sel) blast
qed

lemma run_steps_ok:
  "run_steps py dir ff i hosts plan = Inr reports \<Longrightarrow> list_all (\<lambda>r. sr_verdict r = ''ok'') reports \<Longrightarrow>
   length reports = length plan \<and>
   (\<forall>k < length plan. fst (run_simulation_step py dir (hosts (i + k)) (plan ! k)) = Inr (reports ! k))"
proof (induction plan arbitrary: i reports)
  case (Cons s plan)
  obtain r rs where r: "fst (run_simulation_step py dir (hosts i) s) = Inr r" "reports = r # rs"
      "run_steps py dir ff (Suc i) hosts plan = Inr rs \<or> sr_verdict r \<noteq> ''ok'' "
    using Cons.prems(1) by (auto split: sum.splits if_splits)
  then have "run_steps py dir ff (Suc i) hosts plan = Inr rs" "list_all (\<lambda>r. sr_verdict r = ''ok'') rs"
    using Cons.prems(2) by auto
  from Cons.IH [OF this] show ?case
    using r(1,2) by (auto simp: less_Suc_eq_0_disj)
qed simp

text \<open>C5: The exit code 0 of a closeout means that the plan was prepared, its programs are there, and every step of it
  ran to its end and passed: the commands before and after it succeeded, the simulation ended with the verdict \<open>ok\<close>, a
  configured capture was recorded and, unless switched off, verified, every load process ended in one of the accepted
  ways, and every command beside the run that ended in time succeeded.\<close>

theorem closeout_exit_zero:
  assumes "closeout_main su hosts connect listed a = Exit 0"
    and "\<not> ca_api_restart a" and "\<not> ca_print_template a"
  shows "\<exists>b plan reports. prepare_plan su b = Inr plan \<and> preflight_plan su plan = Inr () \<and>
    b = a\<lparr>ca_esp_device := Some (case ca_esp_device a of None \<Rightarrow> ca_esp_host a | Some d \<Rightarrow> d)\<rparr> \<and>
    length reports = length plan \<and>
    (\<forall>k < length plan. fst (run_simulation_step (su_executable su) (ca_output_dir a) (hosts k) (plan ! k)) = Inr (reports ! k) \<and>
       step_passed (plan ! k) (reports ! k))"
proof -
  define b where "b = a\<lparr>ca_esp_device := Some (case ca_esp_device a of None \<Rightarrow> ca_esp_host a | Some d \<Rightarrow> d)\<rparr>"
  have b: "(if ca_esp_device a = None then a\<lparr>ca_esp_device := Some (ca_esp_host a)\<rparr> else a) = b"
    by (cases "ca_esp_device a") (simp_all add: b_def)
  have same: "ca_api_restart b = ca_api_restart a" "ca_print_template b = ca_print_template a"
      "ca_output_dir b = ca_output_dir a" "ca_fail_fast b = ca_fail_fast a"
    by (simp_all add: b_def)
  obtain plan reports where p: "prepare_plan su b = Inr plan" "preflight_plan su plan = Inr ()"
      and run: "run_steps (su_executable su) (ca_output_dir a) (ca_fail_fast a) 0 hosts plan = Inr reports"
      and ok: "list_all (\<lambda>r. sr_verdict r = ''ok'') reports"
    using assms
    by (auto simp: closeout_main_def b Let_def same plan_verdict_def split: sum.splits if_splits)
  note steps = run_steps_ok [OF run ok, simplified]
  have "step_passed (plan ! k) (reports ! k)" if "k < length plan" for k
    using step_ok_passed [of "su_executable su" "ca_output_dir a" "hosts k" "plan ! k" "reports ! k"] steps ok that
    by (simp add: list_all_length)
  then show ?thesis
    using p steps b_def by blast
qed

text \<open>Nothing but the records reads the commands beside the run.\<close>

lemma during_irrelevant [simp]:
  "step_la (s\<lparr>st_during_commands := specs\<rparr>) = step_la s"
  "step_valid (s\<lparr>st_during_commands := specs\<rparr>) = step_valid s"
  "step_options (s\<lparr>st_during_commands := specs\<rparr>) = step_options s"
  "capture_output dir (s\<lparr>st_during_commands := specs\<rparr>) = capture_output dir s"
  "new_step_report (s\<lparr>st_during_commands := specs\<rparr>) = new_step_report s"
  "load_processes h (s\<lparr>st_during_commands := specs\<rparr>) = load_processes h s"
  by (simp_all add: step_la_def step_valid_def step_options_def capture_output_def new_step_report_def
      load_processes_def fun_eq_iff Let_def)

lemma during_irrelevant_commands [simp]:
  "capture_command py dir (s\<lparr>st_during_commands := specs\<rparr>) = capture_command py dir s"
  "verify_command py dir (s\<lparr>st_during_commands := specs\<rparr>) = verify_command py dir s"
  by (simp_all add: capture_command_def verify_command_def fun_eq_iff)

lemma during_irrelevant_runs [simp]:
  "capture_process py dir h (s\<lparr>st_during_commands := specs\<rparr>) = capture_process py dir h s"
  "verify_record py dir h (s\<lparr>st_during_commands := specs\<rparr>) = verify_record py dir h s"
  "simulate_step h (s\<lparr>st_during_commands := specs\<rparr>) = simulate_step h s"
  by (simp_all add: capture_process_def verify_record_def simulate_step_def
      split: option.split sum.split prod.split)


subsection \<open>A good host\<close>

text \<open>Every command succeeds, the accessory answers, and the capture records and verifies.\<close>

definition good_closing :: closing where
  "good_closing = \<lparr>cl_poll = Some 0, cl_patient = None, cl_wait = None, cl_wait_killed = None, cl_pipes_closed = True\<rparr>"

definition good_step_host :: "bytes step_host" where
  "good_step_host =
     \<lparr>sh_pre = \<lambda>_. 0, sh_post = \<lambda>_. 0, sh_finished = [(0, 0)], sh_capture = good_closing, sh_load = \<lambda>_. good_closing,
      sh_serial = Inr (accessory_env, 0, []), sh_verifier = 0\<rparr>"

definition good_plan :: plan where
  "good_plan =
     [(plain_step ''runtime'')
        \<lparr>st_pre_commands := [''make''], st_load_commands := [''ping host''],
         st_during_commands := [\<lparr>dc_name = None, dc_delay_s = 1, dc_command = Some ''date''\<rparr>],
         st_la := Some (plain_la\<lparr>lt_duration := Some ''1s''\<rparr>)\<rparr>]"

definition good_surroundings :: surroundings where
  "good_surroundings =
     \<lparr>su_executable = ''python3'', su_console_script = \<lambda>_. None, su_env_api_key = None, su_env_sigrok = None,
      su_on_path = \<lambda>_. True, su_secrets = None, su_plan_file = Some good_plan\<rparr>"

definition good_step :: step where
  "good_step = apply_sigrok ''sigrok-cli'' False (good_plan ! 0)"

lemma good_step_eq:
  "good_step = (good_plan ! 0)\<lparr>st_la := Some (plain_la\<lparr>lt_duration := Some ''1s'', lt_sigrok_cli := Some ''sigrok-cli''\<rparr>)\<rparr>"
  by (simp add: good_step_def apply_sigrok_def step_la_def good_plan_def plain_la_def)

lemma good_step_sel:
  "st_name good_step = ''runtime''" "st_cycles good_step = 1000" "st_faults good_step = []"
  "st_pre_commands good_step = [''make'']" "st_load_commands good_step = [''ping host'']"
  "st_post_commands good_step = []"
  "st_during_commands good_step = [\<lparr>dc_name = None, dc_delay_s = 1, dc_command = Some ''date''\<rparr>]"
  "\<exists>la. step_la good_step = Some la \<and> lt_verify la = None"
  by (simp_all add: good_step_eq good_plan_def plain_step_def step_la_def plain_la_def)

lemma good_step_simulation:
  "\<exists>r. simulate_step good_step_host good_step = (Inr r, [Opened, Simulated]) \<and> r_verdict r = ''ok''"
proof -
  obtain s :: "bytes sim" where s: "SupraMaticSimulator [] 0 (step_options good_step) = Inr s"
    using example_options_ok(1) by (auto simp: step_options_def good_step_eq good_plan_def plain_step_def
        SupraMaticSimulator_def default_options_def build_scenario_actions_def SCENARIOS_def COUNTER_PROFILES_def
        const_defs door_closed_def new_door_def post_init_def default_params_def REVERSAL_PROFILES_def Let_def)
  moreover have "step_options good_step = example_options"
    by (simp add: step_options_def good_step_eq good_plan_def plain_step_def example_options_def default_options_def)
  ultimately have "SupraMaticSimulator [] 0 example_options = Inr s" by simp
  from accessory_run_ok [OF this, of 1000] obtain s' where
    "simulator_run accessory_env 1000 {} None None s = Inr s'" "r_verdict (s_report s') = ''ok''" by blast
  then show ?thesis
    using s by (simp add: simulate_step_def good_step_host_def good_step_eq good_plan_def plain_step_def)
qed

lemma good_host_finished:
  "sh_finished good_step_host = [(0, 0)]" "good_step_host = good_step_host\<lparr>sh_finished := [(0, 0)]\<rparr>"
  by (simp_all add: good_step_host_def)

lemma good_step_runs:
  assumes "sh_finished h = [] \<or> sh_finished h = [(0, 0)]" and "h = good_step_host\<lparr>sh_finished := sh_finished h\<rparr>"
  shows "\<exists>r effs. run_simulation_step py dir h good_step = (Inr r, effs) \<and> sr_verdict r = ''ok''"
proof -
  obtain sim where sim: "simulate_step good_step_host good_step = (Inr sim, [Opened, Simulated])" "r_verdict sim = ''ok''"
    using good_step_simulation by blast
  have same: "simulate_step h good_step = simulate_step good_step_host good_step"
    by (subst assms(2)) (simp add: simulate_step_def)
  have host: "sh_pre h = (\<lambda>_. 0)" "sh_post h = (\<lambda>_. 0)" "sh_capture h = good_closing" "sh_load h = (\<lambda>_. good_closing)"
      "sh_verifier h = 0"
    by (subst assms(2), simp add: good_step_host_def)+
  obtain la where la: "step_la good_step = Some la" "lt_verify la = None"
    using good_step_sel(8) by blast
  show ?thesis
    using assms(1) sim la good_step_sel(1-7)
    by (auto simp: run_simulation_step_def step_valid_def same host capture_process_def load_processes_def
        close_load_def end_process_def good_closing_def finish_step_def add_capture_def verify_record_def
        check_during_def check_loads_def lower_def during_records_def during_record_def map_filter_simps
        or_default_def Let_def)
qed

theorem closeout_exit_zero_witness:
  "\<exists>plan reports. prepare_plan good_surroundings (default_closeout_args ''/dev/ttyUSB0''\<lparr>ca_esp_device := Some ''supramatic-4-dev.local''\<rparr>) = Inr plan \<and>
    length plan = 1 \<and> step_passed (plan ! 0) (reports ! 0)"
proof -
  let ?a = "default_closeout_args ''/dev/ttyUSB0''"
  let ?b = "?a\<lparr>ca_esp_device := Some ''supramatic-4-dev.local''\<rparr>"
  have plan: "prepare_plan good_surroundings ?b = Inr [good_step]"
    by (simp add: prepare_plan_def builtin_plan_def good_surroundings_def sigrok_choice_def apply_sigrok_cli_def
        default_closeout_args_def given_def good_step_def good_plan_def)
  have pre: "preflight_plan good_surroundings [good_step] = Inr ()"
    by (simp add: preflight_plan_def good_surroundings_def)
  obtain r effs where r: "run_simulation_step ''python3'' (ca_output_dir ?b) good_step_host good_step = (Inr r, effs)"
      "sr_verdict r = ''ok''"
    using good_step_runs [of good_step_host "''python3''" "ca_output_dir ?b"] good_host_finished by auto
  have a: "ca_esp_device ?a = None" "\<not> ca_api_restart ?a" "\<not> ca_print_template ?a"
      "ca_esp_host ?a = ''supramatic-4-dev.local''" "given (ca_serial ?a)" "su_executable good_surroundings = ''python3''"
    by (simp_all add: default_closeout_args_def good_surroundings_def given_def)
  have "closeout_main good_surroundings (\<lambda>_. good_step_host) (Inr ()) (Inr []) ?a = Exit 0"
    using r plan pre a by (simp add: closeout_main_def Let_def plan_verdict_def)
  from closeout_exit_zero [OF this a(2,3)] obtain plan' reports where
    "prepare_plan good_surroundings ?b = Inr plan'" "\<forall>k < length plan'. step_passed (plan' ! k) (reports ! k)"
    using a by auto
  with plan show ?thesis by (intro exI [of _ "[good_step]"] exI [of _ reports]) auto
qed


end
