(* ===== verification/Hcp1_Proxy.thy ===== *)
theory Hcp1_Proxy
  imports Prelude
begin

text \<open>
  \<open>tools/hcp_proxy_client.py\<close>: the CRC-8 of the HCP1 frames by table, the decoder that looks for frames at the end of
  a sliding window of received bytes, the lines of the proxy's TCP stream, and what the client sends.
\<close>

subsection \<open>The checksum\<close>

definition CRC_TABLE :: "byte list" where
  "CRC_TABLE =
    [0x00, 0x07, 0x0E, 0x09, 0x1C, 0x1B, 0x12, 0x15, 0x38, 0x3F, 0x36, 0x31, 0x24, 0x23, 0x2A, 0x2D,
     0x70, 0x77, 0x7E, 0x79, 0x6C, 0x6B, 0x62, 0x65, 0x48, 0x4F, 0x46, 0x41, 0x54, 0x53, 0x5A, 0x5D,
     0xE0, 0xE7, 0xEE, 0xE9, 0xFC, 0xFB, 0xF2, 0xF5, 0xD8, 0xDF, 0xD6, 0xD1, 0xC4, 0xC3, 0xCA, 0xCD,
     0x90, 0x97, 0x9E, 0x99, 0x8C, 0x8B, 0x82, 0x85, 0xA8, 0xAF, 0xA6, 0xA1, 0xB4, 0xB3, 0xBA, 0xBD,
     0xC7, 0xC0, 0xC9, 0xCE, 0xDB, 0xDC, 0xD5, 0xD2, 0xFF, 0xF8, 0xF1, 0xF6, 0xE3, 0xE4, 0xED, 0xEA,
     0xB7, 0xB0, 0xB9, 0xBE, 0xAB, 0xAC, 0xA5, 0xA2, 0x8F, 0x88, 0x81, 0x86, 0x93, 0x94, 0x9D, 0x9A,
     0x27, 0x20, 0x29, 0x2E, 0x3B, 0x3C, 0x35, 0x32, 0x1F, 0x18, 0x11, 0x16, 0x03, 0x04, 0x0D, 0x0A,
     0x57, 0x50, 0x59, 0x5E, 0x4B, 0x4C, 0x45, 0x42, 0x6F, 0x68, 0x61, 0x66, 0x73, 0x74, 0x7D, 0x7A,
     0x89, 0x8E, 0x87, 0x80, 0x95, 0x92, 0x9B, 0x9C, 0xB1, 0xB6, 0xBF, 0xB8, 0xAD, 0xAA, 0xA3, 0xA4,
     0xF9, 0xFE, 0xF7, 0xF0, 0xE5, 0xE2, 0xEB, 0xEC, 0xC1, 0xC6, 0xCF, 0xC8, 0xDD, 0xDA, 0xD3, 0xD4,
     0x69, 0x6E, 0x67, 0x60, 0x75, 0x72, 0x7B, 0x7C, 0x51, 0x56, 0x5F, 0x58, 0x4D, 0x4A, 0x43, 0x44,
     0x19, 0x1E, 0x17, 0x10, 0x05, 0x02, 0x0B, 0x0C, 0x21, 0x26, 0x2F, 0x28, 0x3D, 0x3A, 0x33, 0x34,
     0x4E, 0x49, 0x40, 0x47, 0x52, 0x55, 0x5C, 0x5B, 0x76, 0x71, 0x78, 0x7F, 0x6A, 0x6D, 0x64, 0x63,
     0x3E, 0x39, 0x30, 0x37, 0x22, 0x25, 0x2C, 0x2B, 0x06, 0x01, 0x08, 0x0F, 0x1A, 0x1D, 0x14, 0x13,
     0xAE, 0xA9, 0xA0, 0xA7, 0xB2, 0xB5, 0xBC, 0xBB, 0x96, 0x91, 0x98, 0x9F, 0x8A, 0x8D, 0x84, 0x83,
     0xDE, 0xD9, 0xD0, 0xD7, 0xC2, 0xC5, 0xCC, 0xCB, 0xE6, 0xE1, 0xE8, 0xEF, 0xFA, 0xFD, 0xF4, 0xF3]"

definition crc8_step :: "byte \<Rightarrow> byte \<Rightarrow> byte" where
  "crc8_step crc b = CRC_TABLE ! unat (b XOR crc)"

definition crc8 :: "bytes \<Rightarrow> byte" where
  "crc8 data = foldl crc8_step 0xF3 data"

text \<open>The polynomial \<open>x^8 + x^2 + x + 1\<close>, one bit at a time: what the table tabulates.\<close>

definition poly_shift :: "byte \<Rightarrow> byte" where
  "poly_shift c = (if bit c 7 then push_bit 1 c XOR 0x07 else push_bit 1 c)"

definition poly_step :: "byte \<Rightarrow> byte \<Rightarrow> byte" where
  "poly_step crc b = (poly_shift ^^ 8) (crc XOR b)"

text \<open>The entries for \<open>2 k\<close> and \<open>2 k + 1\<close> follow from the entry for \<open>k\<close>, so that the table is doubled seven times
  from its first two entries.\<close>

definition double_table :: "byte list \<Rightarrow> byte list" where
  "double_table ts = concat (map (\<lambda>t. [poly_shift t, poly_shift t XOR 0x07]) ts)"

lemma double_table_simps [simp]:
  "double_table [] = []" "double_table (t # ts) = poly_shift t # (poly_shift t XOR 0x07) # double_table ts"
  by (simp_all add: double_table_def)

lemma table_levels:
  "double_table [0, 7] = take 4 CRC_TABLE"
  "double_table (take 4 CRC_TABLE) = take 8 CRC_TABLE"
  "double_table (take 8 CRC_TABLE) = take 16 CRC_TABLE"
  "double_table (take 16 CRC_TABLE) = take 32 CRC_TABLE"
  "double_table (take 32 CRC_TABLE) = take 64 CRC_TABLE"
  by (simp_all add: CRC_TABLE_def poly_shift_def)

lemma table_level_64: "double_table (take 64 CRC_TABLE) = take 128 CRC_TABLE"
  by (simp add: CRC_TABLE_def poly_shift_def)

lemma table_level_128: "double_table (take 128 CRC_TABLE) = CRC_TABLE"
  by (simp add: CRC_TABLE_def poly_shift_def)

definition poly8 :: "byte \<Rightarrow> byte" where
  "poly8 c = (poly_shift ^^ 8) c"

lemma poly_shift_xor: "poly_shift (x XOR y) = poly_shift x XOR poly_shift y"
  by (simp add: poly_shift_def bit_xor_iff push_bit_xor xor.assoc xor.left_commute xor.commute)

lemma poly8_xor: "poly8 (x XOR y) = poly8 x XOR poly8 y"
proof -
  have "(poly_shift ^^ n) (x XOR y) = (poly_shift ^^ n) x XOR (poly_shift ^^ n) y" for n
    by (induction n) (simp_all add: poly_shift_xor)
  then show ?thesis by (simp add: poly8_def)
qed

lemma poly_shift_small: "k < 128 \<Longrightarrow> poly_shift (word_of_nat k) = word_of_nat (2 * k)"
proof -
  assume k: "k < 128"
  have "\<not> bit (word_of_nat k :: byte) 7"
    using k by (subst bit_of_nat_iff) (simp add: bit_iff_odd)
  then show ?thesis
    by (simp add: poly_shift_def push_bit_eq_mult mult.commute)
qed

lemma poly8_even: "k < 128 \<Longrightarrow> poly8 (word_of_nat (2 * k)) = poly_shift (poly8 (word_of_nat k))"
  unfolding poly8_def poly_shift_small [symmetric] by (simp add: funpow_swap1)

lemma funpow_8: "(f ^^ 8) x = f (f (f (f (f (f (f (f x)))))))"
  by (simp add: eval_nat_numeral)

lemma poly8_one: "poly8 1 = 7"
  by (simp add: poly8_def funpow_8 poly_shift_def)

lemma poly8_odd: "k < 128 \<Longrightarrow> poly8 (word_of_nat (2 * k + 1)) = poly_shift (poly8 (word_of_nat k)) XOR 7"
proof -
  assume k: "k < 128"
  have "(word_of_nat (2 * k + 1) :: byte) = word_of_nat (2 * k) XOR 1"
    by (simp add: xor_one_eq)
  then show ?thesis
    using k by (simp only: poly8_xor poly8_even poly8_one)
qed

lemma upt_double: "[0..<2 * n] = concat (map (\<lambda>k. [2 * k, 2 * k + 1]) [0..<n])"
  by (induction n) simp_all

lemma double_table_poly:
  assumes "m \<le> 128"
  shows "double_table (map (\<lambda>n. poly8 (word_of_nat n)) [0..<m]) = map (\<lambda>n. poly8 (word_of_nat n)) [0..<2 * m]"
  unfolding upt_double map_concat map_map double_table_def o_def
  by (rule arg_cong [of _ _ concat], rule map_cong [OF refl]) (use assms poly8_even poly8_odd in simp)

lemma poly8_table: "map (\<lambda>n. poly8 (word_of_nat n)) [0..<256] = CRC_TABLE"
proof -
  let ?t = "\<lambda>m. map (\<lambda>n. poly8 (word_of_nat n)) [0..<m]"
  have "poly8 0 = 0"
    using poly8_xor [of 0 0] by simp
  then have "?t 2 = [0, 7]"
    using poly8_one by (simp add: upt_rec)
  then have 4: "?t 4 = take 4 CRC_TABLE"
    using double_table_poly [of 2] table_levels(1) by simp
  then have 8: "?t 8 = take 8 CRC_TABLE"
    using double_table_poly [of 4] table_levels(2) by simp
  then have 16: "?t 16 = take 16 CRC_TABLE"
    using double_table_poly [of 8] table_levels(3) by simp
  then have 32: "?t 32 = take 32 CRC_TABLE"
    using double_table_poly [of 16] table_levels(4) by simp
  then have 64: "?t 64 = take 64 CRC_TABLE"
    using double_table_poly [of 32] table_levels(5) by simp
  then have "?t 128 = take 128 CRC_TABLE"
    using double_table_poly [of 64] table_level_64 by simp
  then show ?thesis
    using double_table_poly [of 128] table_level_128 by simp
qed

lemma table_entry: "CRC_TABLE ! unat x = poly8 x"
proof -
  have "unat x < 2 ^ LENGTH(8)" by (rule unsigned_less)
  then show ?thesis
    by (simp add: poly8_table [symmetric])
qed

lemma crc8_step_poly: "crc8_step crc b = poly_step crc b"
  by (simp add: crc8_step_def poly_step_def table_entry poly8_def xor.commute)

lemma poly_shift_0: "poly_shift x = 0 \<Longrightarrow> x = 0"
proof -
  assume x: "poly_shift x = 0"
  define y where "y = push_bit 1 x"
  have y: "bit y n \<longleftrightarrow> n < 8 \<and> 1 \<le> n \<and> bit x (n - 1)" for n
    unfolding y_def by (subst bit_push_bit_iff) auto
  have "\<not> bit x 7"
  proof
    assume "bit x 7"
    then have "y = 7" using x by (simp only: poly_shift_def word_xor_eq_0_iff if_True y_def)
    then have "bit y 0" by simp
    then show False by (simp only: y) simp
  qed
  moreover have "y = 0" using x calculation by (simp only: poly_shift_def if_False y_def)
  then have "\<not> bit x n" if "n < 7" for n
    using y [of "Suc n"] that by simp
  ultimately have "\<not> bit x n" if "n < 8" for n
    using that by (cases "n = 7") auto
  then show "x = 0" by (intro bit_word_eqI) simp
qed

lemma poly8_inj: "poly8 x = poly8 y \<longleftrightarrow> x = y"
proof (rule linear_inj [OF poly8_xor])
  have "(poly_shift ^^ n) z = 0 \<Longrightarrow> z = 0" for n z
    by (induction n) (auto dest: poly_shift_0)
  then show "poly8 z = 0 \<Longrightarrow> z = 0" for z by (simp add: poly8_def)
qed

interpretation crc8: byte_checksum crc8_step
  by unfold_locales (simp_all add: crc8_step_def table_entry poly8_inj xor_cancel_left xor_cancel_right)

text \<open>The receiver's check: the checksum of a frame with its checksum byte is zero, and only of such frames.\<close>

lemma crc8_append: "crc8 (payload @ [b]) = 0 \<longleftrightarrow> b = crc8 payload"
proof -
  have "poly8 x = 0 \<longleftrightarrow> x = 0" for x
    using poly8_inj [of x 0] poly8_xor [of 0 0] by simp
  then show ?thesis
    by (auto simp: crc8_def crc8_step_def table_entry word_xor_eq_0_iff)
qed

subsection \<open>The decoder\<close>

definition hex_bytes :: "bytes \<Rightarrow> string" where
  "hex_bytes data = py_join '' '' (map (\<lambda>b. py_upper (format_hex 2 (uint b))) data)"

definition STATUS_NAMES :: "(string \<times> int) list" where
  "STATUS_NAMES =
     [(''open'', 0x0001), (''closed'', 0x0002), (''relay'', 0x0004), (''light'', 0x0008), (''error'', 0x0010),
      (''direction'', 0x0020), (''moving'', 0x0040), (''venting'', 0x0080), (''prewarn'', 0x0100)]"

definition status_bits :: "int \<Rightarrow> string" where
  "status_bits status =
     (let active = map fst (filter (\<lambda>(_, m). status AND m \<noteq> 0) STATUS_NAMES)
      in if active \<noteq> [] then py_join '','' active else ''none'')"

definition describe_frame :: "bytes \<Rightarrow> string" where
  "describe_frame frame =
     (if length frame = 5 \<and> frame ! 0 = 0x00 then
        (let status = uint (frame ! 2) OR push_bit 8 (uint (frame ! 3))
         in ''  decoded broadcast status=0x'' @ py_upper (format_hex 4 status) @ '' bits='' @ status_bits status @
            '' frame='' @ hex_bytes frame)
      else if length frame = 5 \<and> frame ! 0 = 0x28 \<and> frame ! 2 = 0x01
      then ''  decoded slave-scan frame='' @ hex_bytes frame
      else if length frame = 4 \<and> frame ! 0 = 0x28 \<and> frame ! 2 = 0x20
      then ''  decoded status-request frame='' @ hex_bytes frame
      else ''  decoded crc-ok len='' @ py_str_int (int (length frame)) @ '' frame='' @ hex_bytes frame)"

definition WINDOW :: nat where "WINDOW = 24"

text \<open>\<open>deque.append\<close> with a maximal length.\<close>

definition push_window :: "bytes \<Rightarrow> byte \<Rightarrow> bytes" where
  "push_window window b =
     (let w = window @ [b] in drop (length w - WINDOW) w)"

definition last_bytes :: "nat \<Rightarrow> bytes \<Rightarrow> bytes" where
  "last_bytes n data = drop (length data - n) data"

definition hcp1_frame :: "bytes \<Rightarrow> bool" where
  "hcp1_frame frame \<longleftrightarrow> uint (frame ! 1) AND 0x0F + 3 = int (length frame) \<and> crc8 frame = 0"

definition tail_frames :: "bytes \<Rightarrow> bytes list" where
  "tail_frames data =
     filter hcp1_frame (map (\<lambda>n. last_bytes n data) [4..<min (length data) 16 + 1])"

definition decode_tail :: "bytes \<Rightarrow> string list" where
  "decode_tail data = map describe_frame (tail_frames data)"

fun feed :: "bytes \<Rightarrow> bytes \<Rightarrow> string list \<times> bytes" where
  "feed [] window = ([], window)"
| "feed (b # data) window =
     (let window = push_window window b
      in case feed data window of (out, window') \<Rightarrow> (decode_tail window @ out, window'))"

subsection \<open>The client\<close>

text \<open>\<open>t.split(maxsplit=n)\<close>: the rest of the text is the last part.\<close>

fun py_split_words :: "nat \<Rightarrow> string \<Rightarrow> string list" where
  "py_split_words 0 t = (if py_lstrip t = [] then [] else [py_lstrip t])"
| "py_split_words (Suc n) t =
     (let t = py_lstrip t
      in if t = [] then []
         else takeWhile (\<lambda>c. \<not> py_space c) t # py_split_words n (dropWhile (\<lambda>c. \<not> py_space c) t))"

definition decode_line :: "bool \<Rightarrow> string \<Rightarrow> bytes \<Rightarrow> string list \<times> bytes" where
  "decode_line no_decode line window =
     (let parts = py_split_words 3 line
      in if \<not> no_decode \<and> length parts = 4 \<and> parts ! 0 = ''RX''
         then (case fromhex (parts ! 3) of None \<Rightarrow> ([], window) | Some data \<Rightarrow> feed data window)
         else ([], window))"

fun decode_lines :: "bool \<Rightarrow> string list \<Rightarrow> bytes \<Rightarrow> string list \<times> bytes" where
  "decode_lines no_decode [] window = ([], window)"
| "decode_lines no_decode (line # lines) window =
     (case decode_line no_decode line window of (out, window) \<Rightarrow>
        (case decode_lines no_decode lines window of (outs, window) \<Rightarrow> (out @ outs, window)))"

text \<open>The receive loop of \<open>main\<close>: complete lines are taken off the buffer after each chunk.\<close>

fun take_lines :: "bytes \<Rightarrow> bytes \<Rightarrow> bytes list \<times> bytes" where
  "take_lines acc [] = ([], acc)"
| "take_lines acc (b # data) =
     (if b = 0x0A then (case take_lines [] data of (lines, rest) \<Rightarrow> (acc # lines, rest))
      else take_lines (acc @ [b]) data)"

fun receive :: "bytes \<Rightarrow> bytes list \<Rightarrow> bytes list \<times> bytes" where
  "receive buffer [] = ([], buffer)"
| "receive buffer (chunk # chunks) =
     (case take_lines [] (buffer @ chunk) of (lines, buffer) \<Rightarrow>
        (case receive buffer chunks of (rest, buffer) \<Rightarrow> (lines @ rest, buffer)))"

record proxy_args =
  pa_host :: "string option"
  pa_port :: int
  pa_http_stream :: bool
  pa_http_port :: int
  pa_http_url :: "string option"
  pa_token :: "string option"
  pa_tx :: "string option"
  pa_tx_break :: "string option"

definition some_text :: "string option \<Rightarrow> bool" where
  "some_text t = (case t of None \<Rightarrow> False | Some t \<Rightarrow> t \<noteq> [])"

datatype client_plan =
    Usage_Error
  | Refused
  | Read_Url string
  | Connect string int "string list"

definition sent_lines :: "proxy_args \<Rightarrow> string list" where
  "sent_lines a =
     (if some_text (pa_token a) then [''AUTH '' @ the (pa_token a)] else []) @
     (if some_text (pa_tx a) then [''TX '' @ the (pa_tx a)] else []) @
     (if some_text (pa_tx_break a) then [''TXB '' @ the (pa_tx_break a)] else [])"

definition client_plan :: "proxy_args \<Rightarrow> client_plan" where
  "client_plan a =
     (if \<not> some_text (pa_host a) \<and> \<not> some_text (pa_http_url a) then Usage_Error
      else if pa_http_stream a \<or> some_text (pa_http_url a) then
        (if some_text (pa_tx a) \<or> some_text (pa_tx_break a) \<or> some_text (pa_token a) then Refused
         else Read_Url (if some_text (pa_http_url a) then the (pa_http_url a)
                else ''http://'' @ (case pa_host a of None \<Rightarrow> ''None'' | Some h \<Rightarrow> h) @ '':'' @
                     py_str_int (pa_http_port a) @ ''/stream''))
      else Connect (case pa_host a of None \<Rightarrow> [] | Some h \<Rightarrow> h) (pa_port a) (sent_lines a))"

subsection \<open>What the decoder finds\<close>

lemma length_push_window: "length w \<le> WINDOW \<Longrightarrow> length (push_window w b) \<le> WINDOW"
  by (simp add: push_window_def Let_def)

lemma feed_append:
  "feed (a @ b) window =
   (case feed a window of (out, window') \<Rightarrow> (case feed b window' of (out', window'') \<Rightarrow> (out @ out', window'')))"
  by (induction a arbitrary: window) (simp_all add: Let_def split: prod.split)

lemma last_bytes_last: "last_bytes n (last_bytes n x @ y) = last_bytes n (x @ y)"
proof (cases "n \<le> length x")
  case True
  then have "drop (length (x @ y) - n) (x @ y) = drop (length y) (drop (length x - n) (x @ y))"
    by (simp add: drop_drop add.commute)
  also have "\<dots> = drop (length y) (drop (length x - n) x @ y)"
    using True by simp
  finally show ?thesis
    using True by (simp add: last_bytes_def)
qed (simp add: last_bytes_def)

lemma push_window_last: "push_window window b = last_bytes WINDOW (window @ [b])"
  by (simp add: push_window_def last_bytes_def Let_def)

lemma feed_window: "snd (feed data window) = last_bytes WINDOW (window @ data)" if "length window \<le> WINDOW"
  using that
proof (induction data arbitrary: window)
  case Nil
  then show ?case by (simp add: last_bytes_def)
next
  case (Cons b data)
  have "last_bytes WINDOW (push_window window b @ data) = last_bytes WINDOW (window @ b # data)"
    by (simp add: push_window_last last_bytes_last)
  then show ?case
    using Cons.IH [OF length_push_window [OF Cons.prems, of b]]
    by (cases "feed data (push_window window b)") (simp add: Let_def)
qed

text \<open>\<open>decode_tail\<close> looks at every length a frame may have, so that a frame is reported when its last byte arrives.\<close>

lemma tail_frames_iff:
  "frame \<in> set (tail_frames data) \<longleftrightarrow>
   hcp1_frame frame \<and> 4 \<le> length frame \<and> length frame \<le> 16 \<and> (\<exists>front. data = front @ frame)"
proof
  assume "frame \<in> set (tail_frames data)"
  then obtain n where n: "hcp1_frame frame" "frame = last_bytes n data" "4 \<le> n" "n < min (length data) 16 + 1"
    by (auto simp: tail_frames_def)
  then have "data = take (length data - n) data @ frame" "length frame = n"
    by (simp_all add: last_bytes_def)
  then show "hcp1_frame frame \<and> 4 \<le> length frame \<and> length frame \<le> 16 \<and> (\<exists>front. data = front @ frame)"
    using n by (intro conjI) auto
next
  assume "hcp1_frame frame \<and> 4 \<le> length frame \<and> length frame \<le> 16 \<and> (\<exists>front. data = front @ frame)"
  then obtain front where f: "hcp1_frame frame" "4 \<le> length frame" "length frame \<le> 16" "data = front @ frame"
    by blast
  then have "frame = last_bytes (length frame) data" by (simp add: last_bytes_def)
  moreover have "length frame \<in> set [4..<min (length data) 16 + 1]"
    using f(2-4) by (simp add: min_def del: upt_Suc)
  ultimately have "frame \<in> set (map (\<lambda>n. last_bytes n data) [4..<min (length data) 16 + 1])"
    by (metis image_eqI list.set_map)
  then show "frame \<in> set (tail_frames data)"
    using f(1) unfolding tail_frames_def set_filter by blast
qed

lemma feed_snoc:
  "fst (feed (data @ [b]) window) = fst (feed data window) @ decode_tail (push_window (snd (feed data window)) b)"
  by (simp add: feed_append Let_def split: prod.split)

lemma window_suffix:
  assumes "length window \<le> WINDOW" and "length frame \<le> WINDOW" and "frame \<noteq> []"
  shows "\<exists>front. push_window (snd (feed (butlast frame) window)) (last frame) = front @ frame"
proof -
  have "push_window (snd (feed (butlast frame) window)) (last frame) = snd (feed (butlast frame @ [last frame]) window)"
    by (simp add: feed_append Let_def split: prod.split)
  also have "\<dots> = last_bytes WINDOW (window @ frame)"
    using assms(1,3) by (simp add: feed_window)
  also have "\<dots> = drop (length window + length frame - WINDOW) window @ frame"
    using assms(2) by (simp add: last_bytes_def)
  finally show ?thesis by blast
qed

text \<open>Every HCP1 frame of 4 to 16 bytes that ends the stream is reported, whatever came before it.\<close>

lemma frame_reported:
  assumes "hcp1_frame frame" and "4 \<le> length frame" and "length frame \<le> 16" and "length window \<le> WINDOW"
  shows "describe_frame frame \<in> set (fst (feed (front @ frame) window))"
proof -
  obtain out window' where w: "feed front window = (out, window')" by (cases "feed front window")
  have "window' = last_bytes WINDOW (window @ front)"
    using feed_window [OF assms(4), of front] w by simp
  then have window': "length window' \<le> WINDOW" by (simp add: last_bytes_def)
  have ne: "frame \<noteq> []" using assms(2) by auto
  obtain front' where "push_window (snd (feed (butlast frame) window')) (last frame) = front' @ frame"
    using window_suffix [OF window' _ ne] assms(3) by (auto simp: WINDOW_def)
  then have "frame \<in> set (tail_frames (push_window (snd (feed (butlast frame) window')) (last frame)))"
    using assms(1-3) by (simp add: tail_frames_iff)
  then have "describe_frame frame \<in> set (fst (feed (butlast frame @ [last frame]) window'))"
    unfolding feed_snoc by (simp add: decode_tail_def)
  then show ?thesis
    using ne w by (cases "feed frame window'") (simp add: feed_append)
qed

text \<open>Whatever is reported is a run of the received bytes that passes the checksum.\<close>

lemma reported_frame:
  assumes "line \<in> set (fst (feed data window))" and "length window \<le> WINDOW"
  shows "\<exists>frame front rest. window @ data = front @ frame @ rest \<and> line = describe_frame frame \<and>
    hcp1_frame frame \<and> 4 \<le> length frame \<and> length frame \<le> 16"
  using assms
proof (induction data rule: rev_induct)
  case (snoc b data)
  show ?case
  proof (cases "line \<in> set (fst (feed data window))")
    case True
    then obtain frame front rest where "window @ data = front @ frame @ rest" "line = describe_frame frame"
        "hcp1_frame frame" "4 \<le> length frame" "length frame \<le> 16"
      using snoc.IH snoc.prems(2) by blast
    moreover from this have "window @ data @ [b] = front @ frame @ rest @ [b]" by (metis append.assoc)
    ultimately show ?thesis by blast
  next
    case False
    then have "line \<in> set (decode_tail (push_window (snd (feed data window)) b))"
      using snoc.prems(1) by (simp add: feed_snoc)
    then obtain frame where f: "frame \<in> set (tail_frames (push_window (snd (feed data window)) b))"
        "line = describe_frame frame"
      by (auto simp: decode_tail_def)
    then obtain front where front: "push_window (snd (feed data window)) b = front @ frame" "hcp1_frame frame"
        "4 \<le> length frame" "length frame \<le> 16"
      by (auto simp: tail_frames_iff)
    have "push_window (snd (feed data window)) b = snd (feed (data @ [b]) window)"
      by (simp add: feed_append Let_def split: prod.split)
    also have "\<dots> = last_bytes WINDOW (window @ data @ [b])"
      using snoc.prems(2) by (simp add: feed_window)
    finally obtain front' where "window @ data @ [b] = front' @ front @ frame"
      using front(1) by (metis append_take_drop_id last_bytes_def)
    then have "window @ data @ [b] = (front' @ front) @ frame @ []" by simp
    then show ?thesis using f(2) front(2-4) by blast
  qed
qed simp

text \<open>The lines do not depend on how the stream is cut into chunks.\<close>

lemma take_lines_append:
  "take_lines acc (a @ b) =
   (case take_lines acc a of (lines, rest) \<Rightarrow> (case take_lines rest b of (lines', rest') \<Rightarrow> (lines @ lines', rest')))"
  by (induction a arbitrary: acc) (simp_all split: prod.split)

lemma take_lines_acc: "0x0A \<notin> set acc \<Longrightarrow> take_lines [] (acc @ data) = take_lines acc data"
proof -
  assume acc: "0x0A \<notin> set acc"
  have "take_lines pre acc = ([], pre @ acc)" for pre
    using acc by (induction acc arbitrary: pre) auto
  then show ?thesis by (simp add: take_lines_append)
qed

lemma take_lines_rest: "0x0A \<notin> set acc \<Longrightarrow> 0x0A \<notin> set (snd (take_lines acc data))"
  by (induction acc data rule: take_lines.induct) (auto split: prod.split)

lemma receive_concat: "0x0A \<notin> set buffer \<Longrightarrow> receive buffer chunks = take_lines [] (buffer @ concat chunks)"
proof (induction chunks arbitrary: buffer)
  case Nil
  then show ?case using take_lines_acc [of buffer "[]"] by simp
next
  case (Cons chunk chunks)
  obtain lines rest where t: "take_lines [] (buffer @ chunk) = (lines, rest)"
    by (cases "take_lines [] (buffer @ chunk)")
  then have rest: "0x0A \<notin> set rest"
    using take_lines_rest [of "[]" "buffer @ chunk"] by simp
  have "take_lines [] (buffer @ concat (chunk # chunks)) = take_lines [] ((buffer @ chunk) @ concat chunks)"
    by simp
  also have "\<dots> = (case take_lines rest (concat chunks) of (lines', rest') \<Rightarrow> (lines @ lines', rest'))"
    by (simp only: take_lines_append [of "[]" "buffer @ chunk"] t prod.case)
  finally show ?case
    using Cons.IH [OF rest] t rest by (simp add: take_lines_acc)
qed

text \<open>A client that is not told to transmit sends nothing, and the HTTP monitor mode never does.\<close>

lemma passive_client:
  "client_plan a = Connect host port lines \<Longrightarrow> pa_token a = None \<Longrightarrow> pa_tx a = None \<Longrightarrow>
   pa_tx_break a = None \<Longrightarrow> lines = []"
  by (auto simp: client_plan_def sent_lines_def some_text_def split: if_splits)

text \<open>The table-driven CRC-8 is the polynomial division by x^8 + x^2 + x + 1, bit by bit, from the initial value 0xF3;
  a frame passes the check exactly when its last byte is the checksum of the bytes before it; and changing one byte of a
  frame always changes the checksum.\<close>

theorem crc8_is_polynomial:
  "crc8 data = foldl poly_step 0xF3 data \<and> (crc8 (payload @ [b]) = 0 \<longleftrightarrow> b = crc8 payload) \<and>
   (i < length data \<and> data ! i \<noteq> b \<longrightarrow> crc8 (data[i := b]) \<noteq> crc8 data)"
proof -
  have "crc8_step = poly_step" by (intro ext) (rule crc8_step_poly)
  then show ?thesis
    using crc8.byte_change_detected [where xs = data and c = "0xF3" and i = i and b = b] crc8_append [of payload b]
    by (auto simp: crc8_def)
qed

theorem crc8_is_polynomial_witness:
  "crc8 ([0x00, 0x02, 0x01, 0x00][2 := 0x02]) \<noteq> crc8 [0x00, 0x02, 0x01, 0x00]"
  by (rule crc8_is_polynomial [of "[0x00, 0x02, 0x01, 0x00]" "[]" "0x02" 2, THEN conjunct2, THEN conjunct2, THEN mp])
     simp


end
