(* ===== verification/Phone_Qr.thy ===== *)
theory Phone_Qr
  imports Hcp1_Proxy Py_Text
begin

text \<open>
  The machine-readable part of \<open>tools/run_phone_video_sync_capture.py\<close>: the payload of the QR code that a video of the
  display carries, its checksum and base-36 fields, the parser with its two older formats, and the sequence of commands
  that a command line names.
\<close>

subsection \<open>Payload\<close>

definition BASE36_ALPHABET :: string where
  "BASE36_ALPHABET = ''0123456789ABCDEFGHIJKLMNOPQRSTUVWXYZ''"

definition QR_SEQ_MODULUS :: int where
  "QR_SEQ_MODULUS = 36 ^ 3"

definition QR_ELAPSED_MODULUS :: int where
  "QR_ELAPSED_MODULUS = 36 ^ 4"

definition ascii_bytes :: "string \<Rightarrow> bytes result" where
  "ascii_bytes t =
     (if list_all (\<lambda>c. (of_char c :: nat) < 128) t then Inr (map (\<lambda>c. of_nat (of_char c)) t)
      else Inl (Raised ''UnicodeEncodeError'' []))"

definition qr_crc_shift :: "byte \<Rightarrow> byte" where
  "qr_crc_shift crc = (if crc AND 0x80 \<noteq> 0 then push_bit 1 crc XOR 0x07 else push_bit 1 crc)"

definition qr_crc_step :: "byte \<Rightarrow> byte \<Rightarrow> byte" where
  "qr_crc_step crc b = (qr_crc_shift ^^ 8) (crc XOR b)"

definition qr_payload_crc8 :: "bytes \<Rightarrow> byte" where
  "qr_payload_crc8 payload = foldl qr_crc_step 0xA5 payload"

fun base36_digits :: "nat \<Rightarrow> nat \<Rightarrow> string" where
  "base36_digits value 0 = []"
| "base36_digits value (Suc width) = base36_digits (value div 36) width @ [BASE36_ALPHABET ! (value mod 36)]"

definition base36_encode :: "int \<Rightarrow> nat \<Rightarrow> string" where
  "base36_encode value width = base36_digits (nat (max 0 value)) width"

fun index_from :: "nat \<Rightarrow> string \<Rightarrow> char \<Rightarrow> nat option" where
  "index_from n [] c = None"
| "index_from n (x # xs) c = (if x = c then Some n else index_from (n + 1) xs c)"

definition base36_digit :: "char \<Rightarrow> nat result" where
  "base36_digit c =
     (case index_from 0 BASE36_ALPHABET c of None \<Rightarrow> Inl (ValueError ''substring not found'') | Some n \<Rightarrow> Inr n)"

definition base36_decode :: "string \<Rightarrow> nat result" where
  "base36_decode t =
     foldl (\<lambda>r c. and_then r (\<lambda>value. and_then (base36_digit c) (\<lambda>d. Inr (value * 36 + d)))) (Inr 0) t"

definition qr_body :: "int \<Rightarrow> int \<Rightarrow> int \<Rightarrow> string" where
  "qr_body seq event_code elapsed_tenths =
     base36_encode (event_code mod 36) 1 @ base36_encode (seq mod QR_SEQ_MODULUS) 3 @
     base36_encode (elapsed_tenths mod QR_ELAPSED_MODULUS) 4"

definition phone_sync_qr_payload :: "int \<Rightarrow> int \<Rightarrow> int \<Rightarrow> string result" where
  "phone_sync_qr_payload seq event_code elapsed_tenths =
     (let body = qr_body seq event_code elapsed_tenths
      in and_then (ascii_bytes body) (\<lambda>data. Inr (body @ base36_encode (uint (qr_payload_crc8 data)) 2)))"

subsection \<open>Parser\<close>

record qr_fields =
  qr_seq :: int
  qr_event_code :: int
  qr_elapsed_tenths :: int

definition checked_fields ::
  "string \<Rightarrow> int result \<Rightarrow> int result \<Rightarrow> int result \<Rightarrow> int result \<Rightarrow> qr_fields result"
where
  "checked_fields body actual seq event_code elapsed =
     and_then (ascii_bytes body) (\<lambda>data.
     and_then actual (\<lambda>crc.
       if crc \<noteq> uint (qr_payload_crc8 data) then Inl (ValueError ''QR payload CRC mismatch'')
       else and_then seq (\<lambda>s. and_then event_code (\<lambda>e. and_then elapsed (\<lambda>t.
         Inr \<lparr>qr_seq = s, qr_event_code = e, qr_elapsed_tenths = t\<rparr>)))))"

definition nat_result :: "nat result \<Rightarrow> int result" where
  "nat_result r = and_then r (\<lambda>n. Inr (int n))"

definition slice :: "nat \<Rightarrow> nat \<Rightarrow> string \<Rightarrow> string" where
  "slice a b t = take (b - a) (drop a t)"

definition parse_base36 :: "string \<Rightarrow> qr_fields result" where
  "parse_base36 payload =
     checked_fields (take 8 payload) (nat_result (base36_decode (slice 8 10 payload)))
       (nat_result (base36_decode (slice 1 4 payload))) (nat_result (base36_decode (slice 0 1 payload)))
       (nat_result (base36_decode (slice 4 8 payload)))"

definition parse_compact :: "string \<Rightarrow> qr_fields result" where
  "parse_compact payload =
     checked_fields (take 14 payload) (int16 (slice 14 16 payload)) (int16 (slice 2 8 payload))
       (int16 (slice 8 10 payload)) (int16 (slice 10 14 payload))"

definition parse_parts :: "string list \<Rightarrow> qr_fields result" where
  "parse_parts parts =
     checked_fields (py_join '':'' (take 4 parts)) (int16 (parts ! 4)) (int16 (parts ! 1)) (int16 (parts ! 2))
       (int16 (parts ! 3))"

definition parse_stripped :: "string \<Rightarrow> qr_fields result" where
  "parse_stripped payload =
     (if length payload = 10 \<and> list_all (\<lambda>c. c \<in> set BASE36_ALPHABET) payload then parse_base36 payload
      else if py_startswith ''G1'' payload \<and> length payload = 16 then parse_compact payload
      else
        let parts = py_split CHR '':'' payload
        in if length parts = 5 \<and> hd parts = ''GDS1'' then parse_parts parts
           else Inl (ValueError ''not a garage phone-sync QR payload''))"

definition parse_phone_sync_qr_payload :: "string \<Rightarrow> qr_fields result" where
  "parse_phone_sync_qr_payload payload = parse_stripped (py_strip payload)"

subsection \<open>The checksum\<close>

lemma qr_crc_shift_poly: "qr_crc_shift crc = poly_shift crc"
proof -
  have "crc AND 0x80 \<noteq> 0 \<longleftrightarrow> bit crc 7"
    using and_exp_eq_0_iff_not_bit [of crc 7] by simp
  then show ?thesis
    by (simp add: qr_crc_shift_def poly_shift_def)
qed

lemma qr_crc_step_poly: "qr_crc_step crc b = poly8 (crc XOR b)"
  by (simp add: qr_crc_step_def poly8_def qr_crc_shift_poly [abs_def])

interpretation qr_crc: byte_checksum qr_crc_step
  by unfold_locales (simp_all add: qr_crc_step_poly poly8_inj xor_cancel_left xor_cancel_right)

subsection \<open>Base 36\<close>

lemma alphabet_index: "n < 36 \<Longrightarrow> base36_digit (BASE36_ALPHABET ! n) = Inr n"
proof -
  have "list_all (\<lambda>n. base36_digit (BASE36_ALPHABET ! n) = Inr n) [0..<36]"
    by code_simp
  then show "n < 36 \<Longrightarrow> base36_digit (BASE36_ALPHABET ! n) = Inr n"
    by (simp add: list_all_iff)
qed

lemma length_alphabet: "length BASE36_ALPHABET = 36"
  by (simp add: BASE36_ALPHABET_def)

lemma alphabet_digit: "base36_digit c = Inr d \<Longrightarrow> d < 36 \<and> BASE36_ALPHABET ! d = c"
proof -
  have "index_from n xs c = Some d \<Longrightarrow> n \<le> d \<and> d < n + length xs \<and> xs ! (d - n) = c" for n xs d
    by (induction n xs c rule: index_from.induct) (auto simp: nth_Cons' split: if_splits)
  from this [of 0 BASE36_ALPHABET d] show "base36_digit c = Inr d \<Longrightarrow> d < 36 \<and> BASE36_ALPHABET ! d = c"
    by (simp add: base36_digit_def length_alphabet split: option.splits)
qed

lemma alphabet_has_digit: "c \<in> set BASE36_ALPHABET \<Longrightarrow> \<exists>d < 36. base36_digit c = Inr d"
  by (metis alphabet_index in_set_conv_nth length_alphabet)

lemma length_base36 [simp]: "length (base36_digits v w) = w" "length (base36_encode x w) = w"
  by (induction w arbitrary: v) (simp_all add: base36_encode_def)

lemma set_base36: "set (base36_digits v w) \<subseteq> set BASE36_ALPHABET"
  by (induction w arbitrary: v) (simp_all add: length_alphabet)

lemma decode_digits: "base36_decode (base36_digits v w) = Inr (v mod 36 ^ w)"
proof (induction w arbitrary: v)
  case (Suc w)
  have "v mod 36 ^ Suc w = v div 36 mod 36 ^ w * 36 + v mod 36"
    using mod_mult2_eq [of v 36 "36 ^ w"] by simp
  then show ?case
    using Suc [of "v div 36"] by (simp add: base36_decode_def alphabet_index)
qed (simp add: base36_decode_def)

lemma decode_encode: "0 \<le> x \<Longrightarrow> x < 36 ^ w \<Longrightarrow> base36_decode (base36_encode x w) = Inr (nat x)"
  by (simp add: base36_encode_def decode_digits nat_less_iff)

subsection \<open>Facts about payloads\<close>

lemma set_encode: "set (base36_encode x w) \<subseteq> set BASE36_ALPHABET"
  by (simp add: base36_encode_def set_base36)

lemma alphabet_facts:
  "\<forall>c \<in> set BASE36_ALPHABET. (of_char c :: nat) < 128 \<and> \<not> py_space c \<and> c \<noteq> CHR '':''"
  by (simp add: BASE36_ALPHABET_def py_space_def)

lemma strip_plain:
  assumes "\<forall>c \<in> set t. \<not> py_space c"
  shows "py_strip t = t"
proof -
  have "py_lstrip u = u" if "\<forall>c \<in> set u. \<not> py_space c" for u
    using that by (cases u) (simp_all add: py_lstrip_def)
  from this [of t] this [of "rev t"] show ?thesis
    using assms by (simp add: py_strip_def)
qed

lemma strip_alphabet: "set t \<subseteq> set BASE36_ALPHABET \<Longrightarrow> py_strip t = t"
  using alphabet_facts by (intro strip_plain) blast

definition char_byte :: "char \<Rightarrow> byte" where
  "char_byte c = of_nat (of_char c)"

lemma ascii_alphabet: "set t \<subseteq> set BASE36_ALPHABET \<Longrightarrow> ascii_bytes t = Inr (map char_byte t)"
  using alphabet_facts by (auto simp: ascii_bytes_def list_all_iff char_byte_def)

lemma char_byte_inj: "char_byte c = char_byte d \<longleftrightarrow> c = d"
proof -
  have "(of_char x :: nat) < 256" for x :: char
    by (metis nat_of_char_less_256)
  then have "unat (char_byte x) = of_char x" for x
    by (simp add: char_byte_def unat_of_nat)
  then show ?thesis
    by (metis of_char_eq_iff)
qed

lemma length_qr_body [simp]: "length (qr_body seq ev t) = 8"
  by (simp add: qr_body_def)

lemma set_qr_body: "set (qr_body seq ev t) \<subseteq> set BASE36_ALPHABET"
  using set_encode by (auto simp: qr_body_def)

definition qr_text :: "int \<Rightarrow> int \<Rightarrow> int \<Rightarrow> string" where
  "qr_text seq ev t =
     qr_body seq ev t @ base36_encode (uint (qr_payload_crc8 (map char_byte (qr_body seq ev t)))) 2"

lemma payload_text: "phone_sync_qr_payload seq ev t = Inr (qr_text seq ev t)"
  by (simp add: phone_sync_qr_payload_def ascii_alphabet set_qr_body qr_text_def Let_def)

lemma length_qr_text [simp]: "length (qr_text seq ev t) = 10"
  by (simp add: qr_text_def)

lemma set_qr_text: "set (qr_text seq ev t) \<subseteq> set BASE36_ALPHABET"
  using set_qr_body set_encode by (auto simp: qr_text_def)

lemma crc_digits: "base36_decode (base36_encode (uint (crc :: byte)) 2) = Inr (unat crc)"
proof -
  have "uint crc < 2 ^ LENGTH(8)"
    by (rule uint_bounded)
  then show ?thesis
    by (subst decode_encode) simp_all
qed

lemma parse_alphabet:
  assumes "length p = 10" "set p \<subseteq> set BASE36_ALPHABET"
  shows "parse_phone_sync_qr_payload p = parse_base36 p"
proof -
  have "list_all (\<lambda>c. c \<in> set BASE36_ALPHABET) p"
    using assms(2) by (auto simp: list_all_iff)
  then show ?thesis
    by (simp add: parse_phone_sync_qr_payload_def strip_alphabet [OF assms(2)] parse_stripped_def assms(1))
qed

lemma parse_payload:
  "parse_phone_sync_qr_payload (qr_text seq ev t) =
     Inr \<lparr>qr_seq = seq mod QR_SEQ_MODULUS, qr_event_code = ev mod 36, qr_elapsed_tenths = t mod QR_ELAPSED_MODULUS\<rparr>"
proof -
  let ?b = "qr_body seq ev t"
  have "take 8 (qr_text seq ev t) = ?b" "slice 8 10 (qr_text seq ev t) =
      base36_encode (uint (qr_payload_crc8 (map char_byte ?b))) 2"
    "slice 0 1 (qr_text seq ev t) = base36_encode (ev mod 36) 1"
    "slice 1 4 (qr_text seq ev t) = base36_encode (seq mod QR_SEQ_MODULUS) 3"
    "slice 4 8 (qr_text seq ev t) = base36_encode (t mod QR_ELAPSED_MODULUS) 4"
    by (simp_all add: qr_text_def slice_def) (simp_all add: qr_body_def)
  moreover have "base36_decode (base36_encode (ev mod 36) 1) = Inr (nat (ev mod 36))"
    "base36_decode (base36_encode (seq mod QR_SEQ_MODULUS) 3) = Inr (nat (seq mod QR_SEQ_MODULUS))"
    "base36_decode (base36_encode (t mod QR_ELAPSED_MODULUS) 4) = Inr (nat (t mod QR_ELAPSED_MODULUS))"
    by (simp_all add: decode_encode QR_SEQ_MODULUS_def QR_ELAPSED_MODULUS_def)
  ultimately show ?thesis
    by (simp add: parse_alphabet set_qr_text parse_base36_def checked_fields_def nat_result_def crc_digits
        ascii_alphabet set_qr_body QR_SEQ_MODULUS_def QR_ELAPSED_MODULUS_def)
qed

text \<open>One wrong character.\<close>

lemma decode_alphabet: "set t \<subseteq> set BASE36_ALPHABET \<Longrightarrow> \<exists>n < 36 ^ length t. base36_decode t = Inr n"
proof (induction t rule: rev_induct)
  case (snoc c t)
  then obtain n where n: "n < 36 ^ length t" "base36_decode t = Inr n"
    by auto
  obtain d where d: "d < 36" "base36_digit c = Inr d"
    using snoc.prems alphabet_has_digit [of c] by auto
  have "n * 36 + d < (n + 1) * 36"
    using d(1) by simp
  also have "\<dots> \<le> 36 ^ length t * 36"
    using n(1) by (intro mult_le_mono1) simp
  finally show ?case
    using n(2) d(2) by (simp add: base36_decode_def)
qed (simp add: base36_decode_def)

lemma digit_inj: "base36_digit c = Inr n \<Longrightarrow> base36_digit d = Inr n \<Longrightarrow> c = d"
  by (metis alphabet_digit)

lemma decode_two:
  assumes "{a, b, c, d} \<subseteq> set BASE36_ALPHABET" "base36_decode [a, b] = base36_decode [c, d]"
  shows "a = c \<and> b = d"
proof -
  obtain i j k l where d: "base36_digit a = Inr i" "base36_digit b = Inr j" "base36_digit c = Inr k"
    "base36_digit d = Inr l" and less: "j < 36" "l < 36"
    using assms(1) alphabet_has_digit by (metis insert_subset)
  have "i * 36 + j = k * 36 + l"
    using assms(2) by (simp add: base36_decode_def d)
  then have "(i * 36 + j) div 36 = (k * 36 + l) div 36" "(i * 36 + j) mod 36 = (k * 36 + l) mod 36"
    by simp_all
  then have "i = k" "j = l"
    using less by simp_all
  then show ?thesis
    using d digit_inj by blast
qed

lemma count_split: "length (py_split c t) = Suc (count_list t c)"
proof (induction c t rule: py_split.induct)
  case (2 c x xs)
  then show ?case
    by (cases "py_split c xs") auto
qed simp

lemma count_strip: "count_list (py_strip t) c \<le> count_list t c"
proof -
  have "count_list (py_lstrip u) c \<le> count_list u c" for u
    unfolding py_lstrip_def by (induction u) auto
  from this [of t] this [of "rev (py_lstrip t)"] show ?thesis
    by (simp add: py_strip_def)
qed

lemma length_strip: "length (py_strip t) \<le> length t"
  using length_dropWhile_le [of py_space t] length_dropWhile_le [of py_space "rev (py_lstrip t)"]
  by (simp add: py_strip_def py_lstrip_def)

lemma lstrip_keeps: "length (py_lstrip t) = length t \<Longrightarrow> py_lstrip t = t"
  using takeWhile_dropWhile_id [of py_space t]
  by (metis append_self_conv2 length_0_conv length_append add_cancel_left_left py_lstrip_def)

lemma length_lstrip: "length (py_lstrip t) \<le> length t"
  by (simp add: py_lstrip_def length_dropWhile_le)

lemma strip_keeps: "length (py_strip t) = length t \<Longrightarrow> py_strip t = t"
proof -
  assume same: "length (py_strip t) = length t"
  have "length (py_strip t) \<le> length (py_lstrip t)"
    using length_lstrip [of "rev (py_lstrip t)"] by (simp add: py_strip_def)
  then have a: "length (py_lstrip t) = length t"
    using same length_lstrip [of t] by linarith
  then have b: "py_lstrip t = t"
    by (rule lstrip_keeps)
  have "length (py_lstrip (rev t)) = length (rev t)"
    using same by (simp add: py_strip_def b)
  then have "py_lstrip (rev t) = rev t"
    by (rule lstrip_keeps)
  then show "py_strip t = t"
    by (simp add: py_strip_def b)
qed

lemma two_elements: "length xs = 2 \<Longrightarrow> \<exists>a b. xs = [a, b]"
  by (auto simp: length_Suc_conv numeral_2_eq_2)

lemma not_a_payload:
  assumes "length p = 10" "count_list p CHR '':'' \<le> 1" "\<not> set p \<subseteq> set BASE36_ALPHABET"
  shows "parse_phone_sync_qr_payload p = Inl (ValueError ''not a garage phone-sync QR payload'')"
proof -
  have "length (py_strip p) = 10 \<Longrightarrow> \<not> list_all (\<lambda>c. c \<in> set BASE36_ALPHABET) (py_strip p)"
    using strip_keeps [of p] assms by (auto simp: list_all_iff)
  moreover have "length (py_strip p) \<noteq> 16" "length (py_split CHR '':'' (py_strip p)) \<noteq> 5"
    using assms(1,2) count_strip [of p "CHR '':''"] length_strip [of p] by (simp_all add: count_split)
  ultimately show ?thesis
    by (auto simp: parse_phone_sync_qr_payload_def parse_stripped_def Let_def)
qed

lemma count_alphabet: "set t \<subseteq> set BASE36_ALPHABET \<Longrightarrow> count_list t CHR '':'' = 0"
  using alphabet_facts by (auto simp: count_list_0_iff)

lemma count_update: "count_list (t[i := c]) d \<le> count_list t d + 1"
proof (induction t arbitrary: i)
  case (Cons x t)
  show ?case
    using Cons [of "i - 1"] by (cases i) auto
qed simp

text \<open>A payload of the alphabet with a wrong checksum is refused.\<close>

lemma crc_mismatch:
  assumes "length p = 10" "set p \<subseteq> set BASE36_ALPHABET"
    "base36_decode (slice 8 10 p) \<noteq> Inr (unat (qr_payload_crc8 (map char_byte (take 8 p))))"
  shows "parse_phone_sync_qr_payload p = Inl (ValueError ''QR payload CRC mismatch'')"
proof -
  have sub: "set (take 8 p) \<subseteq> set BASE36_ALPHABET" "set (slice 8 10 p) \<subseteq> set BASE36_ALPHABET"
    using assms(2) by (auto simp: slice_def dest: in_set_takeD in_set_dropD)
  obtain n where n: "base36_decode (slice 8 10 p) = Inr n"
    using decode_alphabet [OF sub(2)] by blast
  then have "int n \<noteq> uint (qr_payload_crc8 (map char_byte (take 8 p)))"
    using assms(3) by (metis nat_int unat_eq_nat_uint)
  then show ?thesis
    using n by (simp add: parse_alphabet [OF assms(1,2)] parse_base36_def checked_fields_def nat_result_def
        ascii_alphabet [OF sub(1)])
qed

lemma changed_character:
  assumes "i < 10" "c \<noteq> qr_text seq ev t ! i"
  shows "\<exists>msg. parse_phone_sync_qr_payload ((qr_text seq ev t)[i := c]) = Inl (ValueError msg)"
proof (cases "c \<in> set BASE36_ALPHABET")
  case False
  let ?p = "(qr_text seq ev t)[i := c]"
  have "c \<in> set ?p"
    using assms(1) by (simp add: set_update_memI)
  then have "\<not> set ?p \<subseteq> set BASE36_ALPHABET"
    using False by blast
  then show ?thesis
    using not_a_payload [of ?p] count_update [of "qr_text seq ev t" i c "CHR '':''"] set_qr_text
    by (simp add: count_alphabet)
next
  case True
  let ?b = "qr_body seq ev t" and ?p = "(qr_text seq ev t)[i := c]"
  let ?crc = "base36_encode (uint (qr_payload_crc8 (map char_byte ?b))) 2"
  have sub: "set ?p \<subseteq> set BASE36_ALPHABET"
    using True set_qr_text set_update_subset_insert by fastforce
  have "base36_decode (slice 8 10 ?p) \<noteq> Inr (unat (qr_payload_crc8 (map char_byte (take 8 ?p))))"
  proof (cases "i < 8")
    case True
    then have "slice 8 10 ?p = ?crc" and body: "take 8 ?p = ?b[i := c]"
      by (simp_all add: qr_text_def slice_def list_update_append)
    moreover have "map char_byte ?b ! i \<noteq> char_byte c"
      using True assms(2) by (simp add: char_byte_inj qr_text_def nth_append eq_commute)
    then have "qr_payload_crc8 ((map char_byte ?b)[i := char_byte c]) \<noteq> qr_payload_crc8 (map char_byte ?b)"
      unfolding qr_payload_crc8_def using True by (intro qr_crc.byte_change_detected) simp_all
    ultimately show ?thesis
      by (simp add: crc_digits map_update) (metis word_unat_eq_iff)
  next
    case False
    define j where "j = i - 8"
    have j: "i = j + 8" "j < 2"
      using False assms(1) by (simp_all add: j_def)
    then have tail: "slice 8 10 ?p = ?crc[j := c]" and body: "take 8 ?p = ?b"
      by (simp_all add: qr_text_def slice_def list_update_append)
    have other: "c \<noteq> ?crc ! j"
      using assms(2) j by (simp add: qr_text_def nth_append)
    obtain a b where ab: "?crc = [a, b]"
      using two_elements [OF length_base36(2)] by blast
    have "set [a, b] \<subseteq> set BASE36_ALPHABET"
      unfolding ab [symmetric] by (rule set_encode)
    then have two: "{a, b, c} \<subseteq> set BASE36_ALPHABET"
      using \<open>c \<in> set BASE36_ALPHABET\<close> by simp
    have "j = 0 \<or> j = 1"
      using j(2) by linarith
    then have "base36_decode ([a, b][j := c]) \<noteq> base36_decode [a, b]"
    proof
      assume "j = 0"
      then show ?thesis
        using other two decode_two [of c b a b] ab by auto
    next
      assume "j = 1"
      then show ?thesis
        using other two decode_two [of a c a b] ab by auto
    qed
    then have "base36_decode (?crc[j := c]) \<noteq> base36_decode ?crc"
      by (simp only: ab not_False_eq_True)
    then show ?thesis
      by (simp add: tail body crc_digits)
  qed
  then show ?thesis
    using crc_mismatch [OF _ sub] by simp
qed

subsection \<open>Properties\<close>

text \<open>Whatever integers the display shows, the payload it draws parses back to them, each within its field.\<close>

theorem qr_round_trip:
  "and_then (phone_sync_qr_payload seq event_code tenths) parse_phone_sync_qr_payload =
     Inr \<lparr>qr_seq = seq mod 36 ^ 3, qr_event_code = event_code mod 36, qr_elapsed_tenths = tenths mod 36 ^ 4\<rparr>"
  by (simp add: payload_text parse_payload QR_SEQ_MODULUS_def QR_ELAPSED_MODULUS_def)

text \<open>C33: A QR payload in which one character was read wrongly, whatever it was read as, is never accepted.\<close>

theorem qr_wrong_character_refused:
  assumes "phone_sync_qr_payload seq event_code tenths = Inr payload" "i < length payload" "c \<noteq> payload ! i"
  shows "\<exists>msg. parse_phone_sync_qr_payload (payload[i := c]) = Inl (ValueError msg)"
proof -
  have p: "payload = qr_text seq event_code tenths"
    using assms(1) by (simp add: payload_text)
  show ?thesis
    using assms(2,3) unfolding p by (intro changed_character) simp_all
qed

theorem qr_wrong_character_refused_witness:
  "\<exists>msg. parse_phone_sync_qr_payload ((qr_text 5 3 100)[0 := CHR ''?'']) = Inl (ValueError msg)"
proof (rule qr_wrong_character_refused [OF payload_text])
  have "CHR ''?'' \<notin> set (qr_text 5 3 100)"
    using set_qr_text [of 5 3 100] by (auto simp: BASE36_ALPHABET_def)
  then show "CHR ''?'' \<noteq> qr_text 5 3 100 ! 0"
    by (metis length_greater_0_conv length_qr_text nth_mem zero_less_numeral list.size(3) less_numeral_extra(3))
qed simp

end
