(* ===== verification/Py_Float.thy ===== *)
theory Py_Float
  imports Prelude
begin

text \<open>
  What the interactive tools use of Python's \<open>float\<close>: \<open>float(text)\<close> with its special values, comparisons with a number,
  and \<open>f"{x:g}"\<close>.  A finite float is a rational number.
\<close>

datatype pyfloat = Finite rat | PosInf | NegInf | NaN

text \<open>Digits with single underscores between them, as their value and their count.\<close>

definition digit_groups :: "string \<Rightarrow> (nat \<times> nat) option" where
  "digit_groups t =
     (case unsigned_value t of
        Some n \<Rightarrow> Some (n, length (filter (\<lambda>c. c \<noteq> CHR ''_'') t))
      | None \<Rightarrow> None)"

definition optional_digits :: "string \<Rightarrow> (nat \<times> nat) option" where
  "optional_digits t = (if t = [] then Some (0, 0) else digit_groups t)"

definition scale10 :: "rat \<Rightarrow> int \<Rightarrow> rat" where
  "scale10 x e = (if e \<ge> 0 then x * 10 ^ nat e else x / 10 ^ nat (- e))"

definition exponent_value :: "string \<Rightarrow> int option" where
  "exponent_value t =
     (case t of
        [] \<Rightarrow> None
      | c # cs \<Rightarrow>
          if c = CHR ''-'' then map_option (\<lambda>n. - int n) (unsigned_value cs)
          else if c = CHR ''+'' then map_option int (unsigned_value cs)
          else map_option int (unsigned_value t))"

definition mantissa_value :: "string \<Rightarrow> rat option" where
  "mantissa_value t =
     (let whole = takeWhile (\<lambda>c. c \<noteq> CHR ''.'') t; point = dropWhile (\<lambda>c. c \<noteq> CHR ''.'') t
      in if whole = [] \<and> length point \<le> 1 then None
         else case (optional_digits whole, optional_digits (drop 1 point)) of
           (Some (a, _), Some (b, k)) \<Rightarrow> Some (of_nat a + of_nat b / 10 ^ k)
         | _ \<Rightarrow> None)"

definition unsigned_float :: "string \<Rightarrow> pyfloat option" where
  "unsigned_float t =
     (let low = py_lower t;
          mantissa = takeWhile (\<lambda>c. c \<noteq> CHR ''e'') low; rest = dropWhile (\<lambda>c. c \<noteq> CHR ''e'') low
      in if low \<in> {''inf'', ''infinity''} then Some PosInf
         else if low = ''nan'' then Some NaN
         else case (mantissa_value mantissa, if rest = [] then Some 0 else exponent_value (drop 1 rest)) of
           (Some m, Some e) \<Rightarrow> Some (Finite (scale10 m e))
         | _ \<Rightarrow> None)"

definition negate :: "pyfloat \<Rightarrow> pyfloat" where
  "negate f = (case f of Finite x \<Rightarrow> Finite (- x) | PosInf \<Rightarrow> NegInf | NegInf \<Rightarrow> PosInf | NaN \<Rightarrow> NaN)"

definition py_float :: "string \<Rightarrow> pyfloat option" where
  "py_float text =
     (case py_strip text of
        [] \<Rightarrow> None
      | c # cs \<Rightarrow>
          if c = CHR ''-'' then map_option negate (unsigned_float cs)
          else if c = CHR ''+'' then unsigned_float cs
          else unsigned_float (c # cs))"

text \<open>\<open>value < x\<close> and \<open>value > x\<close> for a number \<open>x\<close>; both are false of a NaN.\<close>

definition float_less :: "pyfloat \<Rightarrow> rat \<Rightarrow> bool" where
  "float_less f x = (case f of Finite y \<Rightarrow> y < x | PosInf \<Rightarrow> False | NegInf \<Rightarrow> True | NaN \<Rightarrow> False)"

definition float_greater :: "pyfloat \<Rightarrow> rat \<Rightarrow> bool" where
  "float_greater f x = (case f of Finite y \<Rightarrow> y > x | PosInf \<Rightarrow> True | NegInf \<Rightarrow> False | NaN \<Rightarrow> False)"

subsection \<open>Six significant digits\<close>

text \<open>
  For \<open>0 < x < 1000\<close>: the decimals that six significant digits need, and the rounded digits.  \<open>fuel\<close> bounds the search
  for the first digit of a number below one.
\<close>

fun leading_zeros :: "nat \<Rightarrow> rat \<Rightarrow> nat" where
  "leading_zeros 0 x = 0"
| "leading_zeros (Suc fuel) x = (if x \<ge> 1 then 0 else Suc (leading_zeros fuel (10 * x)))"

definition g_decimals :: "nat \<Rightarrow> rat \<Rightarrow> nat" where
  "g_decimals fuel x =
     (if x \<ge> 100 then 3 else if x \<ge> 10 then 4 else if x \<ge> 1 then 5 else 5 + leading_zeros fuel x)"

fun strip_zeros :: "nat \<Rightarrow> nat \<Rightarrow> nat \<times> nat" where
  "strip_zeros n k = (if k = 0 \<or> n mod 10 \<noteq> 0 then (n, k) else strip_zeros (n div 10) (k - 1))"

declare strip_zeros.simps [simp del]

text \<open>The digits and the number of decimals, trailing zeros stripped.\<close>

definition g_digits :: "nat \<Rightarrow> rat \<Rightarrow> nat \<times> nat" where
  "g_digits fuel x =
     (if x = 0 then (0, 0)
      else let k = g_decimals fuel x in strip_zeros (nat (py_round (x * 10 ^ k))) k)"

definition g_value :: "nat \<Rightarrow> rat \<Rightarrow> rat" where
  "g_value fuel x = (let (n, k) = g_digits fuel x in of_nat n / 10 ^ k)"

definition g_text :: "nat \<Rightarrow> rat \<Rightarrow> string" where
  "g_text fuel x =
     (let (n, k) = g_digits fuel x; digits = dec_nat n
      in if k = 0 then digits
         else if n \<noteq> 0 \<and> k > length digits + 3
         then take 1 digits @ (if length digits > 1 then ''.'' @ drop 1 digits else []) @ ''e-'' @
              zfill 2 (dec_nat (k - length digits + 1))
         else dec_nat (n div 10 ^ k) @ ''.'' @ zfill k (dec_nat (n mod 10 ^ k)))"

lemma strip_zeros_value: "(of_nat (fst (strip_zeros n k)) / 10 ^ snd (strip_zeros n k) :: rat) = of_nat n / 10 ^ k"
proof (induction n k rule: strip_zeros.induct)
  case (1 n k)
  have "(of_nat n :: rat) / 10 ^ k = of_nat (n div 10) / 10 ^ (k - 1)" if "n mod 10 = 0" "k \<noteq> 0"
  proof -
    have "(of_nat n :: rat) = of_nat (n div 10) * 10"
      using that by (metis add.right_neutral div_mult_mod_eq of_nat_mult of_nat_numeral)
    then show ?thesis
      using that by (cases k) simp_all
  qed
  with 1 show ?case
    by (subst strip_zeros.simps, subst (2) strip_zeros.simps) auto
qed

end
