(* ===== verification/Phone_Sync.thy ===== *)
theory Phone_Sync
  imports Phone_Qr Py_Float
begin

text \<open>
  The coordinator of \<open>tools/run_phone_video_sync_capture.py\<close>: the command sequence of a run, the state machine that
  schedules, sends and awaits its commands, the keys of the display, one frame of its loop, what a frame shows, and the two
  workers that receive the commands.  One call of a handler reads the clock once; the trace lists the recorded events and
  the submitted commands, the newest first.
\<close>

subsection \<open>The sequence\<close>

record seq_step =
  sp_action :: string
  sp_target_state :: string
  sp_label :: string
  sp_position :: "rat option"

definition named_step :: "string \<Rightarrow> string \<Rightarrow> string \<Rightarrow> seq_step" where
  "named_step action target label =
     \<lparr>sp_action = action, sp_target_state = target, sp_label = label, sp_position = None\<rparr>"

definition target_step :: "rat \<Rightarrow> string \<Rightarrow> seq_step" where
  "target_step percent label =
     \<lparr>sp_action = ''target'', sp_target_state = ''Position'', sp_label = label, sp_position = Some percent\<rparr>"

definition PRESETS :: "(string \<times> seq_step list) list" where
  "PRESETS =
     [(''position_targets'',
       [named_step ''open'' ''Open'' ''calibrate_open'', named_step ''close'' ''Closed'' ''calibrate_close'',
        target_step 25 ''target_25_from_closed'', named_step ''close'' ''Closed'' ''reset_closed_after_25'',
        target_step 50 ''target_50_from_closed'', named_step ''close'' ''Closed'' ''reset_closed_after_50'',
        named_step ''open'' ''Open'' ''setup_open_for_descending_targets'', target_step 75 ''target_75_from_open'',
        named_step ''open'' ''Open'' ''reset_open_after_75'', target_step 50 ''target_50_from_open'',
        named_step ''close'' ''Closed'' ''final_close'']),
      (''position_targets_no_calibration'',
       [target_step 25 ''target_25_from_closed'', named_step ''close'' ''Closed'' ''reset_closed_after_25'',
        target_step 50 ''target_50_from_closed'', named_step ''close'' ''Closed'' ''reset_closed_after_50'',
        target_step 75 ''target_75_from_closed'', named_step ''close'' ''Closed'' ''reset_closed_after_75'',
        named_step ''open'' ''Open'' ''setup_open_for_descending_targets'', target_step 75 ''target_75_from_open'',
        named_step ''open'' ''Open'' ''reset_open_after_75'', target_step 50 ''target_50_from_open'',
        named_step ''open'' ''Open'' ''reset_open_after_50'', target_step 25 ''target_25_from_open'',
        named_step ''close'' ''Closed'' ''final_close'']),
      (''full_and_vent'',
       [named_step ''open'' ''Open'' ''full_open'', named_step ''close'' ''Closed'' ''full_close'',
        named_step ''vent'' ''Venting'' ''vent_from_closed'',
        named_step ''open'' ''Open'' ''setup_open_for_vent_from_open'',
        named_step ''vent'' ''Venting'' ''vent_from_open'', named_step ''close'' ''Closed'' ''final_close''])]"

text \<open>\<open>^(?:target|position)[:=_-]?(\d+(?:\.\d+)?)$\<close>: the number, or no match.\<close>

definition all_digits :: "string \<Rightarrow> bool" where
  "all_digits t \<longleftrightarrow> t \<noteq> [] \<and> list_all (\<lambda>c. digit_value c \<noteq> None) t"

definition decimal_value :: "string \<Rightarrow> rat option" where
  "decimal_value t =
     (let whole = takeWhile (\<lambda>c. c \<noteq> CHR ''.'') t; point = dropWhile (\<lambda>c. c \<noteq> CHR ''.'') t
      in if all_digits whole \<and> (point = [] \<or> all_digits (tl point))
         then map_option (\<lambda>n. of_nat n / 10 ^ length (drop 1 point)) (digits_value 0 (whole @ drop 1 point))
         else None)"

definition target_percent :: "string \<Rightarrow> rat option" where
  "target_percent action =
     (let rest = (if py_startswith ''target'' action then drop 6 action else drop 8 action)
      in decimal_value
           (case rest of
              [] \<Rightarrow> []
            | c # cs \<Rightarrow> if c \<in> {CHR '':'', CHR ''='', CHR ''_'', CHR ''-''} then cs else rest))"

definition parse_action :: "string \<Rightarrow> seq_step result" where
  "parse_action action =
     (if action = ''open'' then Inr (named_step ''open'' ''Open'' ''open'')
      else if action = ''close'' then Inr (named_step ''close'' ''Closed'' ''close'')
      else if action \<in> {''vent'', ''venting''} then Inr (named_step ''vent'' ''Venting'' ''vent'')
      else if py_startswith ''target'' action \<or> py_startswith ''position'' action then
        (case target_percent action of
           None \<Rightarrow> Inl (SystemExit (''Unsupported target sequence action: '' @ action))
         | Some percent \<Rightarrow>
             if percent < 0 \<or> percent > 100
             then Inl (SystemExit (''Target position must be 0..100: '' @ action))
             else Inr (target_step (g_value (length action) percent)
                    (''target_'' @ g_text (length action) percent)))
      else Inl (SystemExit (''Unsupported sequence action: '' @ action)))"

fun parse_items :: "string list \<Rightarrow> seq_step list result" where
  "parse_items [] = Inr []"
| "parse_items (item # items) =
     (let action = py_lower (py_strip item)
      in if action = [] then parse_items items
         else and_then (parse_action action) (\<lambda>st. and_then (parse_items items) (\<lambda>sts. Inr (st # sts))))"

definition parse_sequence :: "string \<Rightarrow> seq_step list result" where
  "parse_sequence sequence =
     (case map_of PRESETS sequence of
        Some steps \<Rightarrow> Inr steps
      | None \<Rightarrow> parse_items (py_split CHR '','' sequence))"

subsection \<open>State\<close>

datatype hcp_value = HText string | HNumber rat | HFlag bool | HNone

record sync_args =
  sa_command_delay :: rat
  sa_initial_delay :: rat
  sa_settle_delay :: rat
  sa_motion_timeout :: rat
  sa_vent_observe_duration :: rat
  sa_vent_motion_timeout :: rat
  sa_target_tolerance :: rat
  sa_exit_stop_grace :: rat
  sa_dry_run :: bool

record scheduled_action =
  sd_action :: string
  sd_label :: string
  sd_delay_s :: rat
  sd_due_s :: rat
  sd_position :: "rat option"

datatype sync_effect =
    Event string string
  | Submit string "rat option"

record coordinator =
  cs_steps :: "seq_step list"
  cs_started :: rat
  cs_hcp :: "(string \<times> hcp_value) list"
  cs_last_state :: string
  cs_error :: "string option"
  cs_scheduled :: "scheduled_action option"
  cs_index :: int
  cs_waiting :: "string option"
  cs_wait_started :: "rat option"
  cs_done :: bool
  cs_event_code :: nat
  cs_flash_until :: rat
  cs_flash_color :: string
  cs_flash_label :: string
  cs_visual_seq :: nat
  cs_stop :: bool
  cs_trace :: "sync_effect list"

definition EVENT_NAMES :: "(nat \<times> string) list" where
  "EVENT_NAMES =
     [(0, ''idle''), (1, ''scheduled_open''), (2, ''scheduled_close''), (3, ''command_open''), (4, ''command_close''),
      (5, ''hcp_opening''), (6, ''hcp_closing''), (7, ''hcp_open''), (8, ''hcp_closed''), (9, ''manual_marker''),
      (10, ''cancel''), (11, ''startup''), (12, ''scheduled_vent''), (13, ''command_vent''), (14, ''hcp_venting''),
      (15, ''sequence_done''), (16, ''scheduled_target''), (17, ''command_target''), (18, ''target_reached'')]"

text \<open>For each action: its schedule event and colour, and its command event and colour.\<close>

definition SCHEDULE_EVENT :: "(string \<times> nat \<times> string) list" where
  "SCHEDULE_EVENT =
     [(''open'', 1, ''#0b4dff''), (''close'', 2, ''#ff2020''), (''vent'', 12, ''#8a2be2''), (''target'', 16, ''#9a6b00'')]"

definition COMMAND_EVENT :: "(string \<times> nat \<times> string) list" where
  "COMMAND_EVENT =
     [(''open'', 3, ''#00ff88''), (''close'', 4, ''#ff66aa''), (''vent'', 13, ''#b86bff''), (''target'', 17, ''#ffd166'')]"

definition new_coordinator :: "seq_step list \<Rightarrow> rat \<Rightarrow> coordinator" where
  "new_coordinator steps now =
     \<lparr>cs_steps = steps, cs_started = now, cs_hcp = [], cs_last_state = [], cs_error = None, cs_scheduled = None,
      cs_index = - 1, cs_waiting = None, cs_wait_started = None, cs_done = False, cs_event_code = 11,
      cs_flash_until = now + 1, cs_flash_color = ''#ffffff'', cs_flash_label = ''STARTUP'', cs_visual_seq = 0,
      cs_stop = False, cs_trace = []\<rparr>"

subsection \<open>Recording\<close>

definition add_event :: "string \<Rightarrow> string \<Rightarrow> coordinator \<Rightarrow> coordinator" where
  "add_event kind label s = s\<lparr>cs_trace := Event kind label # cs_trace s\<rparr>"

definition set_flash :: "rat \<Rightarrow> nat \<Rightarrow> string \<Rightarrow> string \<Rightarrow> rat \<Rightarrow> coordinator \<Rightarrow> coordinator" where
  "set_flash now code color label duration_s s =
     s\<lparr>cs_event_code := code, cs_flash_color := color, cs_flash_label := label, cs_flash_until := now + duration_s\<rparr>"

definition set_error :: "rat \<Rightarrow> string \<Rightarrow> coordinator \<Rightarrow> coordinator" where
  "set_error now message s =
     set_flash now 10 ''#ffcc00'' ''ERROR'' 2 (add_event ''error'' ''runtime_error'' (s\<lparr>cs_error := Some message\<rparr>))"

definition request_exit :: "coordinator \<Rightarrow> coordinator" where
  "request_exit s = (add_event ''control'' ''exit_requested'' s)\<lparr>cs_stop := True\<rparr>"

definition marker :: "rat \<Rightarrow> coordinator \<Rightarrow> coordinator" where
  "marker now s =
     set_flash now 9 ''#ffffff'' ''MARKER'' 1 (add_event ''manual_marker'' ''marker_flash'' s)"

subsection \<open>Scheduling\<close>

definition schedule_action ::
  "rat \<Rightarrow> string \<Rightarrow> rat \<Rightarrow> string \<Rightarrow> rat option \<Rightarrow> coordinator \<Rightarrow> coordinator"
where
  "schedule_action now action delay label position s =
     (case map_of SCHEDULE_EVENT action of
        None \<Rightarrow> set_error now (''Unsupported action: '' @ action) s
      | Some (code, color) \<Rightarrow>
          set_flash now code color (py_upper action @ '' SCHEDULED'') (9 / 10)
            (add_event ''schedule'' (action @ ''_scheduled'')
              (s\<lparr>cs_scheduled := Some \<lparr>sd_action = action, sd_label = (if label = [] then action else label),
                 sd_delay_s = delay, sd_due_s = now + delay, sd_position = position\<rparr>\<rparr>)))"

definition cancel_scheduled :: "rat \<Rightarrow> coordinator \<Rightarrow> coordinator" where
  "cancel_scheduled now s =
     set_flash now 10 ''#ffff00'' ''CANCELLED'' (7 / 10)
       (add_event ''schedule'' ''cancelled'' (s\<lparr>cs_scheduled := None\<rparr>))"

definition finish_sequence :: "rat \<Rightarrow> coordinator \<Rightarrow> coordinator" where
  "finish_sequence now s =
     request_exit
       (set_flash now 15 ''#ffffff'' ''SEQUENCE DONE'' 2
         (add_event ''sequence'' ''done''
           (s\<lparr>cs_done := True, cs_waiting := None, cs_wait_started := None\<rparr>)))"

definition schedule_step :: "rat \<Rightarrow> rat \<Rightarrow> seq_step \<Rightarrow> coordinator \<Rightarrow> coordinator" where
  "schedule_step now delay st s = schedule_action now (sp_action st) delay (sp_label st) (sp_position st) s"

definition advance_sequence :: "sync_args \<Rightarrow> rat \<Rightarrow> bool \<Rightarrow> coordinator \<Rightarrow> coordinator" where
  "advance_sequence a now initial s =
     (let next_index = (if initial then 0 else cs_index s + 1)
      in if next_index \<ge> int (length (cs_steps s)) then finish_sequence now s
         else schedule_step now (if initial then sa_initial_delay a else sa_settle_delay a)
                (cs_steps s ! nat next_index)
                (add_event ''sequence'' ''step_scheduled''
                  (s\<lparr>cs_index := next_index, cs_waiting := None, cs_wait_started := None\<rparr>)))"

definition start_auto_sequence :: "sync_args \<Rightarrow> rat \<Rightarrow> coordinator \<Rightarrow> coordinator" where
  "start_auto_sequence a now s =
     (if cs_steps s = [] then set_error now ''Automatic sequence is empty'' s
      else if cs_index s \<ge> 0 \<or> cs_done s then s
      else advance_sequence a now True (add_event ''sequence'' ''start'' s))"

definition start_or_cancel :: "sync_args \<Rightarrow> rat \<Rightarrow> coordinator \<Rightarrow> coordinator" where
  "start_or_cancel a now s =
     (if cs_scheduled s \<noteq> None then cancel_scheduled now s
      else if cs_index s < 0 \<and> \<not> cs_done s then start_auto_sequence a now s
      else marker now s)"

subsection \<open>Sending and waiting\<close>

definition current_step :: "coordinator \<Rightarrow> seq_step option" where
  "current_step s =
     (if 0 \<le> cs_index s \<and> cs_index s < int (length (cs_steps s)) then Some (cs_steps s ! nat (cs_index s)) else None)"

definition on_sequence_command_sent :: "rat \<Rightarrow> string \<Rightarrow> coordinator \<Rightarrow> coordinator" where
  "on_sequence_command_sent now action s =
     (case current_step s of
        None \<Rightarrow> s
      | Some st \<Rightarrow>
          if sp_action st \<noteq> action then s
          else add_event ''sequence'' ''waiting_for_state''
                 (s\<lparr>cs_waiting := Some (sp_target_state st), cs_wait_started := Some now\<rparr>))"

definition is_idle_cover_operation :: "hcp_value \<Rightarrow> bool" where
  "is_idle_cover_operation value =
     (case value of
        HNone \<Rightarrow> True
      | HText t \<Rightarrow> py_lower (py_strip t) \<in> {[], ''0'', ''idle'', ''cover_operation_idle''}
      | HNumber x \<Rightarrow> \<bar>x\<bar> < 1
      | HFlag b \<Rightarrow> \<not> b)"

definition float_of_value :: "hcp_value \<Rightarrow> pyfloat option" where
  "float_of_value value =
     (case value of
        HNone \<Rightarrow> None
      | HText t \<Rightarrow> py_float t
      | HNumber x \<Rightarrow> Some (Finite x)
      | HFlag b \<Rightarrow> Some (Finite (if b then 1 else 0)))"

definition hcp_get :: "coordinator \<Rightarrow> string \<Rightarrow> hcp_value" where
  "hcp_get s name = (case map_of (cs_hcp s) name of None \<Rightarrow> HNone | Some v \<Rightarrow> v)"

definition near_target :: "sync_args \<Rightarrow> coordinator \<Rightarrow> bool" where
  "near_target a s =
     (case (float_of_value (hcp_get s ''cover_position''), Option.bind (current_step s) sp_position) of
        (Some (Finite x), Some target) \<Rightarrow> \<bar>x * 100 - target\<bar> \<le> sa_target_tolerance a
      | _ \<Rightarrow> False)"

text \<open>The event that ends the wait, if one does.\<close>

definition wait_over :: "sync_args \<Rightarrow> string \<Rightarrow> rat \<Rightarrow> coordinator \<Rightarrow> string option" where
  "wait_over a target elapsed s =
     (let idle = is_idle_cover_operation (hcp_get s ''cover_operation'')
      in if py_lower (cs_last_state s) = py_lower target then Some ''target_state_reached''
         else if py_lower target = ''position'' \<and> idle
         then (if near_target a s then Some ''target_position_reached'' else None)
         else if py_lower target = ''venting'' \<and> elapsed \<ge> sa_vent_observe_duration a \<and> idle
         then Some ''vent_observe_duration_elapsed''
         else None)"

definition wait_timeout :: "sync_args \<Rightarrow> string \<Rightarrow> rat" where
  "wait_timeout a target = (if py_lower target = ''venting'' then sa_vent_motion_timeout a else sa_motion_timeout a)"

definition service_sequence_wait :: "sync_args \<Rightarrow> rat \<Rightarrow> coordinator \<Rightarrow> coordinator" where
  "service_sequence_wait a now s =
     (case (cs_waiting s, cs_wait_started s) of
        (Some target, Some started) \<Rightarrow>
          if target = [] then s
          else (case wait_over a target (now - started) s of
              Some label \<Rightarrow>
                advance_sequence a now False
                  ((add_event ''sequence'' label s)\<lparr>cs_waiting := None, cs_wait_started := None\<rparr>)
            | None \<Rightarrow>
                if now - started > wait_timeout a target
                then request_exit (set_error now (''Timed out waiting for HCP state '' @ target) s)
                else s)
      | _ \<Rightarrow> s)"

text \<open>\<open>f"{x:.0f}"\<close> of a percentage.\<close>

definition percent_text :: "rat \<Rightarrow> string" where
  "percent_text x = py_str_int (py_round x)"

definition submit :: "string \<Rightarrow> rat option \<Rightarrow> coordinator \<Rightarrow> coordinator" where
  "submit action position s = s\<lparr>cs_trace := Submit action position # cs_trace s\<rparr>"

text \<open>
  A worker takes a command and changes the coordinator: it records the submission, or an error, or simulated feedback.
\<close>

type_synonym worker = "rat \<Rightarrow> string \<Rightarrow> rat option \<Rightarrow> coordinator \<Rightarrow> coordinator"

definition send_due :: "worker \<Rightarrow> rat \<Rightarrow> scheduled_action \<Rightarrow> coordinator \<Rightarrow> coordinator" where
  "send_due worker now sd s =
     (let action = sd_action sd;
          (code, color) = (case map_of COMMAND_EVENT action of Some cc \<Rightarrow> cc | None \<Rightarrow> (0, []));
          label = (case sd_position sd of
              Some x \<Rightarrow> if action = ''target'' then ''SEND '' @ percent_text x @ ''%'' else ''SEND '' @ py_upper action
            | None \<Rightarrow> ''SEND '' @ py_upper action)
      in on_sequence_command_sent now action
           (worker now action (sd_position sd)
             (set_flash now code color label (6 / 5)
               (add_event ''command'' (action @ ''_command_requested'') s))))"

definition tick :: "sync_args \<Rightarrow> worker \<Rightarrow> rat \<Rightarrow> coordinator \<Rightarrow> coordinator" where
  "tick a worker now s =
     service_sequence_wait a now
       (case cs_scheduled s of
          Some sd \<Rightarrow> if now \<ge> sd_due_s sd then send_due worker now sd (s\<lparr>cs_scheduled := None\<rparr>) else s
        | None \<Rightarrow> s)"

subsection \<open>States from the opener\<close>

record hcp_payload =
  hp_state :: "hcp_value option"
  hp_position :: "hcp_value option"
  hp_operation :: "hcp_value option"

definition no_payload :: hcp_payload where
  "no_payload = \<lparr>hp_state = None, hp_position = None, hp_operation = None\<rparr>"

definition value_text :: "(rat \<Rightarrow> string) \<Rightarrow> hcp_value \<Rightarrow> string" where
  "value_text number_text v =
     (case v of
        HText t \<Rightarrow> t
      | HNumber x \<Rightarrow> number_text x
      | HFlag b \<Rightarrow> (if b then ''True'' else ''False'')
      | HNone \<Rightarrow> ''None'')"

definition STATE_FLASH :: "(string \<times> nat \<times> string \<times> string) list" where
  "STATE_FLASH =
     [(''opening'', 5, ''#00aaff'', ''HCP OPENING''), (''closing'', 6, ''#ff8800'', ''HCP CLOSING''),
      (''open'', 7, ''#00ff00'', ''HCP OPEN''), (''closed'', 8, ''#ff0000'', ''HCP CLOSED''),
      (''venting'', 14, ''#bf7bff'', ''HCP VENTING'')]"

definition put_given :: "string \<Rightarrow> hcp_value option \<Rightarrow> (string \<times> hcp_value) list \<Rightarrow> (string \<times> hcp_value) list" where
  "put_given name v d = (case v of None \<Rightarrow> d | Some x \<Rightarrow> dict_put name x d)"

definition store_state :: "(rat \<Rightarrow> string) \<Rightarrow> string \<Rightarrow> hcp_payload \<Rightarrow> coordinator \<Rightarrow> coordinator" where
  "store_state number_text object_id payload s =
     (let hcp = put_given object_id (hp_state payload) (cs_hcp s);
          text = (case hp_state payload of None \<Rightarrow> [] | Some v \<Rightarrow> value_text number_text v)
      in if object_id = ''garage_door_state''
         then s\<lparr>cs_hcp := hcp, cs_last_state := (if text = [] then cs_last_state s else text)\<rparr>
         else if object_id = ''garage_door''
         then s\<lparr>cs_hcp := put_given ''cover_operation'' (hp_operation payload)
                  (put_given ''cover_position'' (hp_position payload) hcp)\<rparr>
         else s\<lparr>cs_hcp := hcp\<rparr>)"

definition update_hcp_state ::
  "(rat \<Rightarrow> string) \<Rightarrow> rat \<Rightarrow> string \<Rightarrow> hcp_payload \<Rightarrow> coordinator \<Rightarrow> coordinator"
where
  "update_hcp_state number_text now object_id payload s =
     (let t = add_event ''native_api_state'' object_id (store_state number_text object_id payload s)
      in if cs_last_state t = cs_last_state s then t
         else case map_of STATE_FLASH (py_lower (cs_last_state t)) of
           None \<Rightarrow> t
         | Some (code, color, label) \<Rightarrow> set_flash now code color label (4 / 5) t)"

subsection \<open>What a frame shows\<close>

record scheduled_view =
  sv_action :: string
  sv_total_s :: rat
  sv_remaining_s :: rat
  sv_elapsed_s :: rat
  sv_progress :: rat

record display_view =
  dv_run_elapsed_s :: rat
  dv_run_elapsed_tenths :: int
  dv_event_code :: nat
  dv_event_name :: string
  dv_flash_active :: bool
  dv_scheduled :: "scheduled_view option"
  dv_wait_elapsed_s :: "rat option"
  dv_current_step_progress :: rat
  dv_automation_progress :: rat

definition scheduled_view_of :: "rat \<Rightarrow> scheduled_action \<Rightarrow> scheduled_view" where
  "scheduled_view_of now sd =
     (let total_s = max (1 / 10) (sd_delay_s sd); remaining_s = max 0 (sd_due_s sd - now);
          elapsed_s = min total_s (max 0 (total_s - remaining_s))
      in \<lparr>sv_action = sd_action sd, sv_total_s = total_s, sv_remaining_s = remaining_s, sv_elapsed_s = elapsed_s,
          sv_progress = elapsed_s / total_s\<rparr>)"

definition step_progress :: "sync_args \<Rightarrow> rat \<Rightarrow> coordinator \<Rightarrow> rat" where
  "step_progress a now s =
     (if cs_done s then 1
      else if cs_index s < 0 then 0
      else case (cs_scheduled s, cs_wait_started s) of
        (Some sd, _) \<Rightarrow> sv_progress (scheduled_view_of now sd)
      | (None, Some started) \<Rightarrow>
          let total_s = (if map_option py_lower (cs_waiting s) = Some ''venting'' then sa_vent_observe_duration a
                         else sa_motion_timeout a)
          in min 1 (max 0 (now - started) / max (1 / 10) total_s)
      | (None, None) \<Rightarrow> 0)"

definition automation_progress :: "sync_args \<Rightarrow> rat \<Rightarrow> coordinator \<Rightarrow> rat" where
  "automation_progress a now s =
     (let n = length (cs_steps s)
      in if cs_done s then 1
         else if cs_index s \<ge> 0 \<and> n > 0
         then min 1 (max 0 ((of_int (cs_index s) + step_progress a now s) / of_nat n))
         else 0)"

definition int_of_float :: "rat \<Rightarrow> int" where
  "int_of_float x = (if x \<ge> 0 then \<lfloor>x\<rfloor> else \<lceil>x\<rceil>)"

definition display_state :: "sync_args \<Rightarrow> rat \<Rightarrow> coordinator \<Rightarrow> display_view" where
  "display_state a now s =
     (let code = (if now \<le> cs_flash_until s then cs_event_code s else 0)
      in \<lparr>dv_run_elapsed_s = now - cs_started s,
          dv_run_elapsed_tenths = int_of_float ((now - cs_started s) * 10) AND 0xFFFF,
          dv_event_code = code,
          dv_event_name = (case map_of EVENT_NAMES code of None \<Rightarrow> ''unknown'' | Some t \<Rightarrow> t),
          dv_flash_active = (now \<le> cs_flash_until s),
          dv_scheduled = map_option (scheduled_view_of now) (cs_scheduled s),
          dv_wait_elapsed_s = map_option (\<lambda>started. max 0 (now - started)) (cs_wait_started s),
          dv_current_step_progress = step_progress a now s,
          dv_automation_progress = automation_progress a now s\<rparr>)"

definition log_visual_frame :: "coordinator \<Rightarrow> coordinator" where
  "log_visual_frame s = s\<lparr>cs_visual_seq := Suc (cs_visual_seq s) mod 0x1000000\<rparr>"

definition frame_payload :: "sync_args \<Rightarrow> rat \<Rightarrow> coordinator \<Rightarrow> string result" where
  "frame_payload a now s =
     phone_sync_qr_payload (int (cs_visual_seq (log_visual_frame s))) (int (dv_event_code (display_state a now s)))
       (dv_run_elapsed_tenths (display_state a now s))"

subsection \<open>The display\<close>

record display =
  ds_sync :: coordinator
  ds_exit_pending :: bool
  ds_exit_due :: rat
  ds_gone :: bool

definition cover_moving :: "coordinator \<Rightarrow> bool" where
  "cover_moving s \<longleftrightarrow> \<not> is_idle_cover_operation (hcp_get s ''cover_operation'')"

definition on_exit :: "sync_args \<Rightarrow> worker \<Rightarrow> rat \<Rightarrow> display \<Rightarrow> display" where
  "on_exit a worker now d =
     (let s = ds_sync d
      in if ds_exit_pending d then d\<lparr>ds_sync := request_exit s\<rparr>
         else if sa_dry_run a \<or> \<not> cover_moving s then
           (if cs_index s \<ge> 0 \<and> \<not> cs_done s \<and> cs_scheduled s \<noteq> None
            then d\<lparr>ds_sync := request_exit (cancel_scheduled now s)\<rparr>
            else d\<lparr>ds_sync := request_exit s\<rparr>)
         else d\<lparr>ds_exit_pending := True, ds_exit_due := now + sa_exit_stop_grace a,
                ds_sync := worker now ''stop'' None
                  (set_flash now 10 ''#ffcc00'' ''STOP THEN EXIT'' (sa_exit_stop_grace a)
                    (add_event ''control'' ''graceful_exit_stop_requested'' s))\<rparr>)"

definition service_pending_exit :: "rat \<Rightarrow> display \<Rightarrow> display" where
  "service_pending_exit now d =
     (if ds_exit_pending d \<and> (\<not> cover_moving (ds_sync d) \<or> now \<ge> ds_exit_due d)
      then d\<lparr>ds_sync := request_exit (ds_sync d)\<rparr>
      else d)"

definition draw :: "sync_args \<Rightarrow> worker \<Rightarrow> rat \<Rightarrow> display \<Rightarrow> display" where
  "draw a worker now d =
     (let d' = service_pending_exit now (d\<lparr>ds_sync := log_visual_frame (tick a worker now (ds_sync d))\<rparr>)
      in d'\<lparr>ds_gone := cs_stop (ds_sync d')\<rparr>)"

definition new_display :: "seq_step list \<Rightarrow> rat \<Rightarrow> display" where
  "new_display steps now =
     \<lparr>ds_sync = new_coordinator steps now, ds_exit_pending = False, ds_exit_due = 0, ds_gone = False\<rparr>"

text \<open>What happens to the display: a frame, a key, a state from the opener.  A destroyed window has no frames and no keys.\<close>

datatype display_input = Frame | Space | MarkKey | QuitKey | Reported string hcp_payload

definition display_step ::
  "sync_args \<Rightarrow> worker \<Rightarrow> (rat \<Rightarrow> string) \<Rightarrow> rat \<times> display_input \<Rightarrow> display \<Rightarrow> display"
where
  "display_step a worker number_text inp d =
     (let (now, i) = inp; s = ds_sync d
      in case i of
           Reported object_id payload \<Rightarrow> d\<lparr>ds_sync := update_hcp_state number_text now object_id payload s\<rparr>
         | Frame \<Rightarrow> if ds_gone d then d else draw a worker now d
         | Space \<Rightarrow> if ds_gone d then d else d\<lparr>ds_sync := start_or_cancel a now s\<rparr>
         | MarkKey \<Rightarrow> if ds_gone d then d else d\<lparr>ds_sync := marker now s\<rparr>
         | QuitKey \<Rightarrow> if ds_gone d then d else on_exit a worker now d)"

subsection \<open>Workers\<close>

text \<open>
  \<open>NativeApiWorker.submit_cover_command\<close>: \<open>ready\<close> is whether the connection and the cover's key are there.  What the
  submitted coroutine does with the client is the call below; its failure is reported as an error.
\<close>

datatype cover_call = CoverPosition rat | CoverStop | VentButton

definition send_cover_command :: "bool \<Rightarrow> string \<Rightarrow> rat option \<Rightarrow> cover_call result" where
  "send_cover_command vent_found action position =
     (if action = ''open'' then Inr (CoverPosition 1)
      else if action = ''close'' then Inr (CoverPosition 0)
      else if action = ''vent'' then
        (if vent_found then Inr VentButton
         else Inl (RuntimeError ''Cannot send vent command because garage_door_vent was not discovered''))
      else if action = ''stop'' then Inr CoverStop
      else case (if action = ''target'' then position else None) of
        Some x \<Rightarrow> Inr (CoverPosition (max 0 (min 1 (x / 100))))
      | None \<Rightarrow> Inl (ValueError (''Unsupported cover action: '' @ action)))"

definition exn_message :: "exn \<Rightarrow> string" where
  "exn_message e =
     (case e of ValueError m \<Rightarrow> m | RuntimeError m \<Rightarrow> m | Invalid m \<Rightarrow> m | SystemExit m \<Rightarrow> m | Raised _ m \<Rightarrow> m)"

definition native_worker :: "bool \<Rightarrow> bool \<Rightarrow> worker" where
  "native_worker ready vent_found now action position s =
     (if \<not> ready then set_error now ''ESPHome API is not ready'' s
      else case send_cover_command vent_found action position of
        Inl e \<Rightarrow> set_error now (''ESPHome command failed: '' @ exn_message e) (submit action position s)
      | Inr call \<Rightarrow> add_event ''native_api_command'' (''cover_'' @ action @ ''_sent'') (submit action position s))"

text \<open>The entity a run needs before it starts.\<close>

definition requires_vent_button :: "seq_step list \<Rightarrow> bool" where
  "requires_vent_button steps = list_ex (\<lambda>st. sp_action st = ''vent'') steps"

subsection \<open>Dry run\<close>

text \<open>
  The worker of a dry run: it answers a command with the states of a moving door at once and, when its timer fires, with
  those of the reached target.
\<close>

record dry_plan =
  dp_moving_state :: string
  dp_target_state :: string
  dp_moving_position :: rat
  dp_target_position :: rat
  dp_moving_operation :: string
  dp_moving_raw :: string
  dp_target_raw :: string

definition clamp_unit :: "rat \<Rightarrow> rat" where
  "clamp_unit x = max 0 (min 1 x)"

definition simulation_plan :: "rat \<Rightarrow> string \<Rightarrow> rat option \<Rightarrow> coordinator \<Rightarrow> dry_plan result" where
  "simulation_plan current action position s =
     (if action = ''open'' then
        Inr \<lparr>dp_moving_state = ''Opening'', dp_target_state = ''Open'', dp_moving_position = 1 / 2,
             dp_target_position = 1, dp_moving_operation = ''OPENING'', dp_moving_raw = ''0xD00040'',
             dp_target_raw = ''0xD00001''\<rparr>
      else if action = ''close'' then
        Inr \<lparr>dp_moving_state = ''Closing'', dp_target_state = ''Closed'', dp_moving_position = 1 / 2,
             dp_target_position = 0, dp_moving_operation = ''CLOSING'', dp_moving_raw = ''0xD00060'',
             dp_target_raw = ''0xD00002''\<rparr>
      else if action = ''vent'' then
        (let closing = (map_option sp_label (current_step s) = Some ''vent_from_open'')
         in Inr \<lparr>dp_moving_state = (if closing then ''Closing'' else ''Opening''), dp_target_state = ''Venting'',
                 dp_moving_position = 3 / 5, dp_target_position = 1 / 5,
                 dp_moving_operation = (if closing then ''CLOSING'' else ''OPENING''), dp_moving_raw = ''0xD00080'',
                 dp_target_raw = ''0xD00081''\<rparr>)
      else case (if action = ''target'' then position else None) of
        Some x \<Rightarrow>
          (let target = clamp_unit (x / 100); opening = (target \<ge> current)
           in Inr \<lparr>dp_moving_state = (if opening then ''Opening'' else ''Closing''), dp_target_state = ''Stopped'',
                   dp_moving_position = (current + target) / 2, dp_target_position = target,
                   dp_moving_operation = (if opening then ''OPENING'' else ''CLOSING''),
                   dp_moving_raw = (if opening then ''0xD00040'' else ''0xD00060''), dp_target_raw = ''0xD00000''\<rparr>)
      | None \<Rightarrow> Inl (ValueError (''Unsupported cover action: '' @ action)))"

definition state_payload :: "hcp_value \<Rightarrow> hcp_payload" where
  "state_payload v = no_payload\<lparr>hp_state := Some v\<rparr>"

definition publish_state ::
  "(rat \<Rightarrow> string) \<Rightarrow> rat \<Rightarrow> string \<Rightarrow> rat \<Rightarrow> string \<Rightarrow> string \<Rightarrow> coordinator \<Rightarrow> coordinator"
where
  "publish_state nt now state position operation raw s =
     update_hcp_state nt now ''garage_door_state'' (state_payload (HText state))
       (update_hcp_state nt now ''garage_door''
         (no_payload\<lparr>hp_position := Some (HNumber position), hp_operation := Some (HText operation)\<rparr>)
         (update_hcp_state nt now ''garage_door_light'' (state_payload (HFlag False))
           (update_hcp_state nt now ''garage_door_obstruction_state'' (state_payload (HFlag False))
             (update_hcp_state nt now ''garage_door_raw_hcp_status_hex'' (state_payload (HText raw))
               (update_hcp_state nt now ''garage_door_valid_hcp_broadcast'' (state_payload (HFlag True)) s)))))"

record dry_worker =
  dw_position :: rat
  dw_stopped :: bool
  dw_timers :: "(rat \<times> dry_plan) list"

text \<open>\<open>submit_cover_command\<close>: the worker with its new timer, and the coordinator.\<close>

definition dry_submit ::
  "(rat \<Rightarrow> string) \<Rightarrow> rat \<Rightarrow> rat \<Rightarrow> string \<Rightarrow> rat option \<Rightarrow> dry_worker \<times> coordinator \<Rightarrow>
   (dry_worker \<times> coordinator) result"
where
  "dry_submit nt duration_s now action position ws =
     (let (w, s) = ws
      in if dw_stopped w then Inr ws
         else and_then (simulation_plan (dw_position w) action position s) (\<lambda>plan.
           Inr (w\<lparr>dw_position := dp_moving_position plan, dw_timers := dw_timers w @ [(now + duration_s, plan)]\<rparr>,
                publish_state nt now (dp_moving_state plan) (dp_moving_position plan) (dp_moving_operation plan)
                  (dp_moving_raw plan) (add_event ''dry_run_command'' (action @ ''_simulated'') s))))"

definition dry_finish :: "(rat \<Rightarrow> string) \<Rightarrow> rat \<Rightarrow> dry_plan \<Rightarrow> dry_worker \<times> coordinator \<Rightarrow> dry_worker \<times> coordinator" where
  "dry_finish nt now plan ws =
     (let (w, s) = ws
      in if dw_stopped w then ws
         else (w\<lparr>dw_position := dp_target_position plan,
                 dw_timers := filter (\<lambda>(due, _). due > now) (dw_timers w)\<rparr>,
               add_event ''dry_run_command'' ''target_state_simulated''
                 (publish_state nt now (dp_target_state plan) (dp_target_position plan) ''IDLE'' (dp_target_raw plan) s)))"

definition dry_stop :: "dry_worker \<Rightarrow> dry_worker" where
  "dry_stop w = w\<lparr>dw_stopped := True, dw_timers := []\<rparr>"

definition dry_start :: "(rat \<Rightarrow> string) \<Rightarrow> rat \<Rightarrow> coordinator \<Rightarrow> coordinator" where
  "dry_start nt now s = publish_state nt now ''Closed'' 0 ''IDLE'' ''0xD00002'' (add_event ''dry_run'' ''started'' s)"

end
