(* ===== verification/Phone_Sync_Props.thy ===== *)
theory Phone_Sync_Props
  imports Phone_Sync "HOL-Library.Sublist"
begin

text \<open>
  What the coordinator of a phone-video capture guarantees: the commands it sends are those of the parsed sequence, in
  order and each after the one before it has reached its state; progress values stay between 0 and 1; and what a
  quit key does not stop.
\<close>

subsection \<open>Parsed sequences\<close>

definition step_ok :: "seq_step \<Rightarrow> bool" where
  "step_ok st \<longleftrightarrow> sp_target_state st \<noteq> [] \<and>
     (sp_action st \<in> {''open'', ''close'', ''vent''} \<and> sp_position st = None \<or>
      sp_action st = ''target'' \<and> (\<exists>x. sp_position st = Some x))"

lemma step_ok_plain [simp]:
  "action \<in> {''open'', ''close'', ''vent''} \<Longrightarrow> target \<noteq> [] \<Longrightarrow> step_ok (named_step action target label)"
  "step_ok (target_step x label)"
  by (simp_all add: step_ok_def named_step_def target_step_def)

lemma parse_action_ok: "parse_action action = Inr st \<Longrightarrow> step_ok st"
  by (auto simp: parse_action_def split: if_splits option.splits)

lemma parse_items_ok: "parse_items items = Inr sts \<Longrightarrow> \<forall>st \<in> set sts. step_ok st"
  by (induction items arbitrary: sts)
    (auto simp: Let_def and_then_Inr dest: parse_action_ok split: if_splits)

lemma presets_ok: "map_of PRESETS sequence = Some sts \<Longrightarrow> \<forall>st \<in> set sts. step_ok st"
  by (auto simp: PRESETS_def split: if_splits)

lemma parse_sequence_ok: "parse_sequence sequence = Inr sts \<Longrightarrow> \<forall>st \<in> set sts. step_ok st"
  using presets_ok parse_items_ok by (auto simp: parse_sequence_def split: option.splits)

subsection \<open>The moves of a trace\<close>

datatype move = Sent string "rat option" | Passed

definition move_of :: "sync_effect \<Rightarrow> move option" where
  "move_of e =
     (case e of
        Submit action position \<Rightarrow> if action = ''stop'' then None else Some (Sent action position)
      | Event kind label \<Rightarrow>
          if kind = ''sequence'' \<and>
            label \<in> {''target_state_reached'', ''target_position_reached'', ''vent_observe_duration_elapsed''}
          then Some Passed else None)"

definition moves :: "coordinator \<Rightarrow> move list" where
  "moves s = rev (List.map_filter move_of (cs_trace s))"

definition sent :: "seq_step \<Rightarrow> move" where
  "sent st = Sent (sp_action st) (sp_position st)"

definition script :: "seq_step list \<Rightarrow> move list" where
  "script steps = concat (map (\<lambda>st. [sent st, Passed]) steps)"

lemma script_simps [simp]: "script [] = []" "script (xs @ ys) = script xs @ script ys" "script [st] = [sent st, Passed]"
  by (simp_all add: script_def)

text \<open>What the recording operations leave unchanged.\<close>

lemma flash_simps [simp]:
  "cs_trace (set_flash now c col l d s) = cs_trace s" "cs_index (set_flash now c col l d s) = cs_index s"
  "cs_steps (set_flash now c col l d s) = cs_steps s" "cs_waiting (set_flash now c col l d s) = cs_waiting s"
  "cs_done (set_flash now c col l d s) = cs_done s" "cs_scheduled (set_flash now c col l d s) = cs_scheduled s"
  "cs_wait_started (set_flash now c col l d s) = cs_wait_started s" "cs_stop (set_flash now c col l d s) = cs_stop s"
  "cs_hcp (set_flash now c col l d s) = cs_hcp s"
  by (simp_all add: set_flash_def)

lemma event_simps [simp]:
  "cs_trace (add_event k l s) = Event k l # cs_trace s" "cs_index (add_event k l s) = cs_index s"
  "cs_steps (add_event k l s) = cs_steps s" "cs_waiting (add_event k l s) = cs_waiting s"
  "cs_done (add_event k l s) = cs_done s" "cs_scheduled (add_event k l s) = cs_scheduled s"
  "cs_wait_started (add_event k l s) = cs_wait_started s" "cs_stop (add_event k l s) = cs_stop s"
  "cs_hcp (add_event k l s) = cs_hcp s"
  by (simp_all add: add_event_def)

lemma submit_simps [simp]:
  "cs_trace (submit a p s) = Submit a p # cs_trace s" "cs_index (submit a p s) = cs_index s"
  "cs_steps (submit a p s) = cs_steps s" "cs_waiting (submit a p s) = cs_waiting s"
  "cs_done (submit a p s) = cs_done s" "cs_scheduled (submit a p s) = cs_scheduled s"
  "cs_stop (submit a p s) = cs_stop s"
  by (simp_all add: submit_def)

subsection \<open>The invariant of the automation\<close>

definition scheduled_ok :: "coordinator \<Rightarrow> bool" where
  "scheduled_ok s \<longleftrightarrow>
     (case cs_scheduled s of
        None \<Rightarrow> True
      | Some sd \<Rightarrow> sd_action sd = sp_action (cs_steps s ! nat (cs_index s)) \<and>
          sd_position sd = sp_position (cs_steps s ! nat (cs_index s)))"

definition not_begun :: "coordinator \<Rightarrow> bool" where
  "not_begun s \<longleftrightarrow>
     cs_index s = - 1 \<and> moves s = [] \<and> cs_scheduled s = None \<and> cs_waiting s = None \<and> \<not> cs_done s"

definition step_due :: "coordinator \<Rightarrow> bool" where
  "step_due s \<longleftrightarrow>
     0 \<le> cs_index s \<and> cs_index s < int (length (cs_steps s)) \<and>
     moves s = script (take (nat (cs_index s)) (cs_steps s)) \<and> cs_waiting s = None \<and> scheduled_ok s \<and> \<not> cs_done s"

definition step_sent :: "coordinator \<Rightarrow> bool" where
  "step_sent s \<longleftrightarrow>
     0 \<le> cs_index s \<and> cs_index s < int (length (cs_steps s)) \<and>
     moves s = script (take (nat (cs_index s)) (cs_steps s)) @ [sent (cs_steps s ! nat (cs_index s))] \<and>
     cs_scheduled s = None \<and> \<not> cs_done s"

definition all_done :: "coordinator \<Rightarrow> bool" where
  "all_done s \<longleftrightarrow>
     cs_done s \<and> moves s = script (cs_steps s) \<and> cs_scheduled s = None \<and> cs_waiting s = None \<and> 0 \<le> cs_index s"

definition sync_inv :: "coordinator \<Rightarrow> bool" where
  "sync_inv s \<longleftrightarrow>
     (\<forall>st \<in> set (cs_steps s). step_ok st) \<and> (not_begun s \<or> step_due s \<or> step_sent s \<or> all_done s)"

lemmas sync_states = not_begun_def step_due_def step_sent_def all_done_def scheduled_ok_def

lemma moves_event [simp]:
  "cs_trace t = Event k l # cs_trace s \<Longrightarrow>
    moves t = moves s @ (case move_of (Event k l) of None \<Rightarrow> [] | Some m \<Rightarrow> [m])"
  by (simp add: moves_def List.map_filter_def split: option.splits)

lemma moves_cong: "cs_trace t = cs_trace s \<Longrightarrow> moves t = moves s"
  by (simp add: moves_def)

text \<open>An operation that touches nothing the automation depends on.\<close>

definition same_automation :: "coordinator \<Rightarrow> coordinator \<Rightarrow> bool" where
  "same_automation s t \<longleftrightarrow>
     cs_steps t = cs_steps s \<and> cs_index t = cs_index s \<and> cs_scheduled t = cs_scheduled s \<and>
     cs_waiting t = cs_waiting s \<and> cs_done t = cs_done s \<and> moves t = moves s"

lemma same_keeps: "same_automation s t \<Longrightarrow> sync_inv t = sync_inv s"
  by (simp add: same_automation_def sync_inv_def sync_states cong: option.case_cong)

lemma same_refl [simp]: "same_automation s s"
  by (simp add: same_automation_def)

lemma same_trans: "same_automation s t \<Longrightarrow> same_automation t u \<Longrightarrow> same_automation s u"
  by (simp add: same_automation_def)

lemma flash_same [simp]: "same_automation s (set_flash now c col l d s)"
  by (simp add: same_automation_def moves_def)

lemma flash_same_iff [simp]: "same_automation s (set_flash now c col l d t) = same_automation s t"
  by (simp add: same_automation_def moves_def)

lemma event_same [simp]: "move_of (Event k l) = None \<Longrightarrow> same_automation s (add_event k l t) = same_automation s t"
  by (simp add: same_automation_def moves_def List.map_filter_def)

lemma plain_events [simp]:
  "kind \<noteq> ''sequence'' \<Longrightarrow> move_of (Event kind l) = None"
  "l \<notin> {''target_state_reached'', ''target_position_reached'', ''vent_observe_duration_elapsed''} \<Longrightarrow>
    move_of (Event k l) = None"
  by (simp_all add: move_of_def)

lemma set_error_same [simp]: "same_automation s (set_error now msg t) = same_automation s t"
  by (simp add: set_error_def) (simp add: same_automation_def moves_def)

lemma request_exit_same [simp]: "same_automation s (request_exit t) = same_automation s t"
  by (simp add: request_exit_def same_automation_def moves_def List.map_filter_def)

lemma marker_same [simp]: "same_automation s (marker now s)"
  by (simp add: marker_def)

lemma update_same: "same_automation s (update_hcp_state nt now object_id payload s)"
proof -
  have "same_automation s (store_state nt object_id payload s)"
    by (simp add: store_state_def same_automation_def moves_def Let_def)
  then show ?thesis
    by (simp add: update_hcp_state_def Let_def split: option.split)
qed

lemma map_schedule: "step_ok st \<Longrightarrow> \<exists>code color. map_of SCHEDULE_EVENT (sp_action st) = Some (code, color)"
  by (auto simp: step_ok_def SCHEDULE_EVENT_def)

text \<open>Scheduling a step of the sequence.\<close>

lemma schedule_step_facts:
  assumes "step_ok st"
  shows "\<exists>sd. cs_scheduled (schedule_step now delay st s) = Some sd \<and> sd_action sd = sp_action st \<and>
      sd_position sd = sp_position st"
    and "cs_steps (schedule_step now delay st s) = cs_steps s" "cs_index (schedule_step now delay st s) = cs_index s"
    and "cs_waiting (schedule_step now delay st s) = cs_waiting s" "cs_done (schedule_step now delay st s) = cs_done s"
    and "moves (schedule_step now delay st s) = moves s" "cs_stop (schedule_step now delay st s) = cs_stop s"
proof -
  obtain code color where "map_of SCHEDULE_EVENT (sp_action st) = Some (code, color)"
    using map_schedule [OF assms] by blast
  then show "\<exists>sd. cs_scheduled (schedule_step now delay st s) = Some sd \<and> sd_action sd = sp_action st \<and>
      sd_position sd = sp_position st"
    and "cs_steps (schedule_step now delay st s) = cs_steps s" "cs_index (schedule_step now delay st s) = cs_index s"
    and "cs_waiting (schedule_step now delay st s) = cs_waiting s" "cs_done (schedule_step now delay st s) = cs_done s"
    and "moves (schedule_step now delay st s) = moves s" "cs_stop (schedule_step now delay st s) = cs_stop s"
    by (simp_all add: schedule_step_def schedule_action_def moves_def List.map_filter_def)
qed

lemma finish_inv:
  assumes "\<forall>st \<in> set (cs_steps s). step_ok st" "moves s = script (cs_steps s)" "cs_scheduled s = None"
    "0 \<le> cs_index s"
  shows "sync_inv (finish_sequence now s)"
proof -
  have "moves (finish_sequence now s) = moves s"
    by (simp add: finish_sequence_def request_exit_def moves_def List.map_filter_def)
  then have "all_done (finish_sequence now s)"
    using assms by (simp add: all_done_def finish_sequence_def request_exit_def)
  moreover have "cs_steps (finish_sequence now s) = cs_steps s"
    by (simp add: finish_sequence_def request_exit_def)
  ultimately show ?thesis
    using assms(1) by (simp add: sync_inv_def)
qed

lemma sequence_advance_inv:
  assumes steps: "\<forall>st \<in> set (cs_steps s). step_ok st" and "cs_steps s \<noteq> []" "\<not> cs_done s"
    and idx: "initial \<Longrightarrow> moves s = []" "\<not> initial \<Longrightarrow> 0 \<le> cs_index s \<and> cs_index s < int (length (cs_steps s)) \<and>
      moves s = script (take (Suc (nat (cs_index s))) (cs_steps s))"
    and "cs_scheduled s = None"
  shows "sync_inv (advance_sequence a now initial s)"
proof -
  define k where "k = (if initial then 0 else Suc (nat (cs_index s)))"
  have m: "moves s = script (take k (cs_steps s))"
    using idx by (simp add: k_def)
  have next_k: "(if initial then 0 else cs_index s + 1) = int k"
    using idx by (simp add: k_def)
  show ?thesis
  proof (cases "k \<ge> length (cs_steps s)")
    case True
    then have "advance_sequence a now initial s = finish_sequence now s"
      by (simp only: advance_sequence_def next_k Let_def) simp
    moreover have "0 \<le> cs_index s"
      using True assms(2) idx by (cases initial) (simp_all add: k_def)
    ultimately show ?thesis
      using True m steps assms(6) by (simp add: finish_inv)
  next
    case False
    then have ok: "step_ok (cs_steps s ! k)"
      using steps by simp
    define t where "t = add_event ''sequence'' ''step_scheduled''
      (s\<lparr>cs_index := int k, cs_waiting := None, cs_wait_started := None\<rparr>)"
    define delay where "delay = (if initial then sa_initial_delay a else sa_settle_delay a)"
    have adv: "advance_sequence a now initial s = schedule_step now delay (cs_steps s ! k) t"
      using False by (simp only: advance_sequence_def next_k Let_def t_def delay_def) simp
    have t: "cs_index t = int k" "cs_steps t = cs_steps s" "cs_waiting t = None" "\<not> cs_done t" "moves t = moves s"
      using assms(3) by (simp_all add: t_def moves_def List.map_filter_def)
    note facts = schedule_step_facts [OF ok, of now delay t]
    obtain sd where sd: "cs_scheduled (schedule_step now delay (cs_steps s ! k) t) = Some sd"
      "sd_action sd = sp_action (cs_steps s ! k)" "sd_position sd = sp_position (cs_steps s ! k)"
      using facts(1) by blast
    have "step_due (schedule_step now delay (cs_steps s ! k) t)"
      using False m by (simp add: step_due_def scheduled_ok_def facts(2-6) t sd)
    then show ?thesis
      using steps by (simp add: sync_inv_def adv facts(2) t)
  qed
qed

lemma start_inv:
  assumes "sync_inv s"
  shows "sync_inv (start_or_cancel a now s)"
proof -
  have cancel: "sync_inv (cancel_scheduled now s)"
  proof -
    have "same_automation (s\<lparr>cs_scheduled := None\<rparr>) (cancel_scheduled now s)"
      by (simp add: cancel_scheduled_def)
    moreover have "sync_inv (s\<lparr>cs_scheduled := None\<rparr>)"
      using assms by (auto simp: sync_inv_def sync_states moves_def)
    ultimately show ?thesis
      by (simp add: same_keeps)
  qed
  have start: "sync_inv (start_auto_sequence a now s)" if "cs_index s < 0" "\<not> cs_done s"
  proof -
    have n: "not_begun s" "\<forall>st \<in> set (cs_steps s). step_ok st"
      using assms that by (auto simp: sync_inv_def sync_states)
    then have "sync_inv (advance_sequence a now True (add_event ''sequence'' ''start'' s))" if "cs_steps s \<noteq> []"
      using that by (intro sequence_advance_inv) (auto simp: not_begun_def moves_def List.map_filter_def)
    moreover have "sync_inv (set_error now ''Automatic sequence is empty'' s)"
      using assms by (simp add: same_keeps [OF iffD2 [OF set_error_same same_refl]])
    ultimately show ?thesis
      using that by (simp add: start_auto_sequence_def)
  qed
  show ?thesis
    using assms cancel start by (simp add: start_or_cancel_def same_keeps [OF marker_same])
qed

lemma wait_events: "wait_over a target elapsed s = Some label \<Longrightarrow> move_of (Event ''sequence'' label) = Some Passed"
  by (auto simp: wait_over_def move_of_def Let_def split: if_splits)

lemma wait_inv:
  assumes "sync_inv s"
  shows "sync_inv (service_sequence_wait a now s)"
proof (cases "cs_waiting s = None \<or> cs_wait_started s = None")
  case True
  then show ?thesis
    using assms by (auto simp: service_sequence_wait_def split: option.split)
next
  case False
  then obtain target started where w: "cs_waiting s = Some target" "cs_wait_started s = Some started"
    by auto
  then have st: "step_sent s" and ok: "\<forall>st \<in> set (cs_steps s). step_ok st"
    using assms by (auto simp: sync_inv_def sync_states)
  show ?thesis
  proof (cases "wait_over a target (now - started) s")
    case None
    then show ?thesis
      using assms w
      by (simp add: service_sequence_wait_def
          same_keeps [OF iffD2 [OF request_exit_same iffD2 [OF set_error_same same_refl]]])
  next
    case (Some label)
    let ?t = "(add_event ''sequence'' label s)\<lparr>cs_waiting := None, cs_wait_started := None\<rparr>"
    have "moves ?t = moves s @ [Passed]"
      using wait_events [OF Some] by (simp add: moves_def List.map_filter_def)
    then have "moves ?t = script (take (Suc (nat (cs_index s))) (cs_steps s))"
      using st by (auto simp: step_sent_def take_Suc_conv_app_nth nat_less_iff)
    moreover have "cs_steps s \<noteq> []"
      using st by (auto simp: step_sent_def)
    ultimately have "sync_inv (advance_sequence a now False ?t)"
      using st ok by (intro sequence_advance_inv) (auto simp: step_sent_def)
    then show ?thesis
      using assms w Some by (simp add: service_sequence_wait_def)
  qed
qed

subsection \<open>Workers\<close>

lemma moves_submit: "moves (submit action position s) = moves s @ (if action = ''stop'' then [] else [Sent action position])"
  by (simp add: moves_def List.map_filter_def submit_def move_of_def)

lemma map_command: "step_ok st \<Longrightarrow> sp_action st \<noteq> ''stop''"
  by (auto simp: step_ok_def)

text \<open>What the coordinator relies on: a worker submits the command it is given and leaves the automation alone.\<close>

locale command_worker =
  fixes send :: worker
  assumes send_same: "same_automation (submit action position s) (send now action position s)"
begin

lemma send_due_inv:
  assumes "step_due s" "\<forall>st \<in> set (cs_steps s). step_ok st" "cs_scheduled s = Some sd"
  shows "sync_inv (send_due send now sd (s\<lparr>cs_scheduled := None\<rparr>))"
proof -
  let ?i = "nat (cs_index s)"
  let ?st = "cs_steps s ! ?i"
  define t where "t = set_flash now
      (fst (case map_of COMMAND_EVENT (sd_action sd) of Some cc \<Rightarrow> cc | None \<Rightarrow> (0, [])))
      (snd (case map_of COMMAND_EVENT (sd_action sd) of Some cc \<Rightarrow> cc | None \<Rightarrow> (0, [])))
      (case sd_position sd of
         Some x \<Rightarrow> if sd_action sd = ''target'' then ''SEND '' @ percent_text x @ ''%'' else ''SEND '' @ py_upper (sd_action sd)
       | None \<Rightarrow> ''SEND '' @ py_upper (sd_action sd)) (6 / 5)
      (add_event ''command'' (sd_action sd @ ''_command_requested'') (s\<lparr>cs_scheduled := None\<rparr>))"
  define u where "u = send now (sd_action sd) (sd_position sd) t"
  have due: "send_due send now sd (s\<lparr>cs_scheduled := None\<rparr>) = on_sequence_command_sent now (sd_action sd) u"
    by (simp add: send_due_def t_def u_def Let_def split: prod.split)
  have st: "?i < length (cs_steps s)" "0 \<le> cs_index s" "sd_action sd = sp_action ?st" "sd_position sd = sp_position ?st"
    "moves s = script (take ?i (cs_steps s))" "\<not> cs_done s"
    using assms(1,3) by (simp_all add: step_due_def scheduled_ok_def nat_less_iff)
  have t: "cs_steps t = cs_steps s" "cs_index t = cs_index s" "cs_scheduled t = None" "\<not> cs_done t" "moves t = moves s"
    using st by (simp_all add: t_def moves_def List.map_filter_def)
  have u: "cs_steps u = cs_steps s" "cs_index u = cs_index s" "cs_scheduled u = None" "\<not> cs_done u"
    "moves u = moves s @ [sent ?st]"
    using send_same [of "sd_action sd" "sd_position sd" t now] st t map_command [of ?st] assms(2)
    by (simp_all add: same_automation_def u_def moves_submit sent_def)
  have cur: "current_step u = Some ?st"
    using st by (simp add: current_step_def u)
  define v where "v = on_sequence_command_sent now (sd_action sd) u"
  have "v = add_event ''sequence'' ''waiting_for_state''
      (u\<lparr>cs_waiting := Some (sp_target_state ?st), cs_wait_started := Some now\<rparr>)"
    by (simp add: v_def on_sequence_command_sent_def cur st)
  then have "step_sent v" "cs_steps v = cs_steps s"
    using st u by (simp_all add: step_sent_def moves_def List.map_filter_def)
  then show ?thesis
    using assms(2) by (simp add: due sync_inv_def flip: v_def)
qed

lemma tick_inv:
  assumes "sync_inv s"
  shows "sync_inv (tick a send now s)"
proof (cases "cs_scheduled s")
  case None
  then show ?thesis
    using wait_inv [OF assms] by (simp add: tick_def)
next
  case (Some sd)
  then have "step_due s" "\<forall>st \<in> set (cs_steps s). step_ok st"
    using assms by (auto simp: sync_inv_def sync_states)
  then have "sync_inv (send_due send now sd (s\<lparr>cs_scheduled := None\<rparr>))"
    using Some by (rule send_due_inv)
  then show ?thesis
    using assms Some by (simp add: tick_def wait_inv)
qed

lemma stop_same: "same_automation s (send now ''stop'' position s)"
  using send_same [of "''stop''" position s now] by (simp add: same_automation_def moves_submit)

lemma exit_inv:
  assumes "sync_inv (ds_sync d)"
  shows "sync_inv (ds_sync (on_exit a send now d))"
proof -
  have cancel: "sync_inv (cancel_scheduled now (ds_sync d))" if "cs_scheduled (ds_sync d) \<noteq> None"
    using start_inv [OF assms, of a now] that by (simp add: start_or_cancel_def)
  have stop: "sync_inv (send now ''stop'' None (set_flash now 10 ''#ffcc00'' ''STOP THEN EXIT'' grace
      (add_event ''control'' ''graceful_exit_stop_requested'' (ds_sync d))))" for grace
    using assms same_keeps [OF same_trans [OF _ stop_same], of "ds_sync d"] by simp
  have exit: "sync_inv t \<Longrightarrow> sync_inv (request_exit t)" for t
    by (simp add: same_keeps [OF iffD2 [OF request_exit_same same_refl]])
  show ?thesis
    using assms cancel stop exit by (auto simp: on_exit_def Let_def)
qed

lemma draw_inv:
  assumes "sync_inv (ds_sync d)"
  shows "sync_inv (ds_sync (draw a send now d))"
proof -
  have "sync_inv (log_visual_frame (tick a send now (ds_sync d)))"
  proof -
    have "same_automation t (log_visual_frame t)" for t
      by (simp add: log_visual_frame_def same_automation_def moves_def)
    then show ?thesis
      using tick_inv [OF assms] same_keeps by blast
  qed
  then show ?thesis
    by (simp add: draw_def service_pending_exit_def Let_def same_keeps [OF iffD2 [OF request_exit_same same_refl]])
qed

lemma display_inv:
  "sync_inv (ds_sync d) \<Longrightarrow> sync_inv (ds_sync (display_step a send nt inp d))"
  by (auto simp: display_step_def Let_def draw_inv exit_inv start_inv same_keeps [OF marker_same]
      same_keeps [OF update_same] split: prod.split display_input.split)

end

interpretation native: command_worker "native_worker True vent_found" for vent_found
  by unfold_locales (auto simp: native_worker_def split: sum.split)

interpretation display: machine "display_step a (native_worker True vent_found) nt" "\<lambda>d. sync_inv (ds_sync d)"
  for a vent_found nt
  by unfold_locales (rule native.display_inv)

lemma steps_kept [simp]:
  "cs_steps (set_error now msg s) = cs_steps s" "cs_steps (request_exit s) = cs_steps s"
  "cs_steps (marker now s) = cs_steps s" "cs_steps (cancel_scheduled now s) = cs_steps s"
  "cs_steps (schedule_step now delay st s) = cs_steps s" "cs_steps (finish_sequence now s) = cs_steps s"
  by (simp_all add: set_error_def request_exit_def marker_def cancel_scheduled_def schedule_step_def
      schedule_action_def finish_sequence_def split: option.split prod.split)

lemma steps_advance [simp]: "cs_steps (advance_sequence a now initial s) = cs_steps s"
  by (simp add: advance_sequence_def Let_def)

lemma steps_start [simp]: "cs_steps (start_or_cancel a now s) = cs_steps s"
  by (simp add: start_or_cancel_def start_auto_sequence_def)

lemma steps_wait [simp]: "cs_steps (service_sequence_wait a now s) = cs_steps s"
  by (simp add: service_sequence_wait_def split: option.split)

lemma steps_update [simp]: "cs_steps (update_hcp_state nt now object_id payload s) = cs_steps s"
  using update_same by (simp add: same_automation_def)

lemma steps_native [simp]: "cs_steps (native_worker True vent_found now action position s) = cs_steps s"
  using native.send_same by (simp add: same_automation_def)

lemma steps_tick [simp]: "cs_steps (tick a (native_worker True vent_found) now s) = cs_steps s"
  by (simp add: tick_def send_due_def on_sequence_command_sent_def Let_def split: option.split prod.split)

lemma steps_display: "cs_steps (ds_sync (display_step a (native_worker True v) nt inp d)) = cs_steps (ds_sync d)"
  by (simp add: display_step_def draw_def on_exit_def service_pending_exit_def log_visual_frame_def Let_def
      split: prod.split display_input.split)

lemma steps_run:
  "cs_steps (ds_sync (fold (display_step a (native_worker True v) nt) inputs d)) = cs_steps (ds_sync d)"
  by (induction inputs arbitrary: d) (simp_all add: steps_display)

lemma new_inv: "\<forall>st \<in> set steps. step_ok st \<Longrightarrow> sync_inv (new_coordinator steps now)"
  by (simp add: sync_inv_def not_begun_def new_coordinator_def moves_def List.map_filter_def)

lemma inv_prefix:
  assumes "sync_inv s"
  shows "prefix (moves s) (script (cs_steps s)) \<and> (cs_done s \<longrightarrow> moves s = script (cs_steps s))"
proof -
  have p: "prefix (script (take k steps)) (script steps)" for k steps
    by (metis append_take_drop_id prefixI script_simps(2))
  have q: "prefix (script (take k steps) @ [sent (steps ! k)]) (script steps)" if "k < length steps" for k steps
  proof -
    have "script steps = script (take k steps @ steps ! k # drop (Suc k) steps)"
      using that by (simp add: id_take_nth_drop [symmetric])
    also have "\<dots> = (script (take k steps) @ [sent (steps ! k)]) @ Passed # script (drop (Suc k) steps)"
      by (simp add: script_def)
    finally show ?thesis
      by (simp only: prefixI)
  qed
  show ?thesis
    using assms p q by (auto simp: sync_inv_def not_begun_def step_due_def step_sent_def all_done_def nat_less_iff)
qed

subsection \<open>Traces only grow\<close>

lemma trace_advance: "\<exists>new. cs_trace (advance_sequence a now initial s) = new @ cs_trace s"
  by (simp add: advance_sequence_def finish_sequence_def request_exit_def schedule_step_def schedule_action_def
      set_error_def Let_def split: option.split prod.split)

lemma trace_wait: "\<exists>new. cs_trace (service_sequence_wait a now s) = new @ cs_trace s"
proof -
  have "\<exists>new. cs_trace (advance_sequence a now False
      ((add_event ''sequence'' label s)\<lparr>cs_waiting := None, cs_wait_started := None\<rparr>)) = new @ cs_trace s" for label
    using trace_advance [of a now False "(add_event ''sequence'' label s)\<lparr>cs_waiting := None, cs_wait_started := None\<rparr>"]
    by auto
  then show ?thesis
    by (simp add: service_sequence_wait_def request_exit_def set_error_def split: option.split)
qed

lemma native_trace: "\<exists>ev. cs_trace (native_worker True v now action position s) = ev # Submit action position # cs_trace s"
  by (simp add: native_worker_def set_error_def split: sum.split)

lemma native_scheduled [simp]:
  "cs_scheduled (native_worker True v now action position s) = cs_scheduled s"
  using native.send_same by (simp add: same_automation_def)

lemma native_hcp [simp]: "cs_hcp (native_worker True v now action position s) = cs_hcp s"
  by (simp add: native_worker_def set_error_def submit_def split: sum.split)

text \<open>A scheduled command that is due is submitted by the next frame.\<close>

lemma tick_submits:
  assumes "cs_scheduled s = Some sd" "sd_due_s sd \<le> now"
  shows "\<exists>new old. cs_trace (tick a (native_worker True v) now s) =
    new @ Submit (sd_action sd) (sd_position sd) # old @ cs_trace s"
proof -
  define t where "t = send_due (native_worker True v) now sd (s\<lparr>cs_scheduled := None\<rparr>)"
  have sent: "\<exists>new. cs_trace (on_sequence_command_sent now action u) = new @ cs_trace u" for action u
    by (simp add: on_sequence_command_sent_def split: option.split)
  obtain p ev where "cs_trace t = p @ ev # Submit (sd_action sd) (sd_position sd) #
      Event ''command'' (sd_action sd @ ''_command_requested'') # cs_trace s"
  proof -
    define b where "b = set_flash now
      (fst (case map_of COMMAND_EVENT (sd_action sd) of Some cc \<Rightarrow> cc | None \<Rightarrow> (0, [])))
      (snd (case map_of COMMAND_EVENT (sd_action sd) of Some cc \<Rightarrow> cc | None \<Rightarrow> (0, [])))
      (case sd_position sd of
         Some x \<Rightarrow> if sd_action sd = ''target'' then ''SEND '' @ percent_text x @ ''%'' else ''SEND '' @ py_upper (sd_action sd)
       | None \<Rightarrow> ''SEND '' @ py_upper (sd_action sd)) (6 / 5)
      (add_event ''command'' (sd_action sd @ ''_command_requested'') (s\<lparr>cs_scheduled := None\<rparr>))"
    have t: "t = on_sequence_command_sent now (sd_action sd) (native_worker True v now (sd_action sd) (sd_position sd) b)"
      by (simp add: t_def b_def send_due_def Let_def split: prod.split)
    obtain ev where ev: "cs_trace (native_worker True v now (sd_action sd) (sd_position sd) b) =
        ev # Submit (sd_action sd) (sd_position sd) # cs_trace b"
      using native_trace by blast
    obtain p where "cs_trace t = p @ cs_trace (native_worker True v now (sd_action sd) (sd_position sd) b)"
      using sent t by blast
    then show ?thesis
      using that ev by (simp add: b_def)
  qed
  moreover obtain q where "cs_trace (tick a (native_worker True v) now s) = q @ cs_trace t"
    using trace_wait [of a now t] assms by (auto simp: tick_def t_def)
  ultimately show ?thesis
    by (intro exI [of _ "q @ p @ [ev]"] exI [of _ "[Event ''command'' (sd_action sd @ ''_command_requested'')]"]) simp
qed

lemma exit_trace [simp]: "cs_trace (request_exit s) = Event ''control'' ''exit_requested'' # cs_trace s"
  by (simp add: request_exit_def)

lemma draw_trace: "\<exists>new. cs_trace (ds_sync (draw a w now d)) = new @ cs_trace (tick a w now (ds_sync d))"
  by (simp add: draw_def service_pending_exit_def log_visual_frame_def Let_def)

subsection \<open>Properties\<close>

text \<open>C7: Whatever keys are pressed, states reported and frames drawn, in whatever order and at whatever times, the
  commands the coordinator sends follow the parsed sequence: each command is the next step's, and each but the first comes
  after the step before it was seen to have reached its state.  A sequence counts as done only when all of it was sent and
  reached.\<close>

theorem commands_follow_sequence:
  assumes "parse_sequence sequence = Inr steps"
  shows "let s = ds_sync (fold (display_step a (native_worker True vent_found) nt) inputs (new_display steps now))
    in prefix (moves s) (script steps) \<and> (cs_done s \<longrightarrow> moves s = script steps)"
proof -
  have "sync_inv (ds_sync (new_display steps now))"
    using parse_sequence_ok [OF assms] by (simp add: new_display_def new_inv)
  then have "sync_inv (ds_sync (fold (display_step a (native_worker True vent_found) nt) inputs (new_display steps now)))"
    by (rule display.run_inv)
  from inv_prefix [OF this] show ?thesis
    by (simp add: steps_run Let_def) (simp add: new_display_def new_coordinator_def)
qed

definition sample_args :: sync_args where
  "sample_args =
     \<lparr>sa_command_delay = 10, sa_initial_delay = 15, sa_settle_delay = 1, sa_motion_timeout = 90,
      sa_vent_observe_duration = 20, sa_vent_motion_timeout = 35, sa_target_tolerance = 3, sa_exit_stop_grace = 5,
      sa_dry_run = False\<rparr>"

lemma parse_open: "parse_sequence ''open'' = Inr [named_step ''open'' ''Open'' ''open'']"
  by (simp add: parse_sequence_def PRESETS_def parse_action_def py_strip_def py_lstrip_def py_space_def py_lower_def
      lower_char_def Let_def)

theorem commands_follow_sequence_witness:
  "let s = ds_sync (fold (display_step sample_args (native_worker True True) (\<lambda>_. [])) [(0, Space), (20, Frame)]
      (new_display [named_step ''open'' ''Open'' ''open''] 0))
   in prefix (moves s) (script [named_step ''open'' ''Open'' ''open'']) \<and>
      (cs_done s \<longrightarrow> moves s = script [named_step ''open'' ''Open'' ''open''])"
  by (rule commands_follow_sequence [OF parse_open])


definition moving_display :: display where
  "moving_display =
     (let d = new_display [named_step ''open'' ''Open'' ''open''] 0
      in d\<lparr>ds_sync := update_hcp_state (\<lambda>_. []) 1 ''garage_door''
            (no_payload\<lparr>hp_operation := Some (HNumber 1)\<rparr>) (start_or_cancel sample_args 0 (ds_sync d))\<rparr>)"

lemma moving_display_facts:
  "\<exists>sd. cs_scheduled (ds_sync moving_display) = Some sd \<and> sd_due_s sd = 15 \<and> sd_action sd = ''open'' \<and>
     sd_position sd = None"
  "cover_moving (ds_sync moving_display)" "\<not> ds_exit_pending moving_display"
  by (simp_all add: moving_display_def Let_def new_display_def new_coordinator_def start_or_cancel_def
      start_auto_sequence_def advance_sequence_def schedule_step_def schedule_action_def named_step_def
      SCHEDULE_EVENT_def update_hcp_state_def store_state_def no_payload_def put_given_def cover_moving_def hcp_get_def
      is_idle_cover_operation_def add_event_def set_flash_def sample_args_def)


text \<open>Progress shown to the viewer is a fraction: the current step's, the sequence's and the countdown's progress lie
  between 0 and 1, and the elapsed time in the QR code fits its 16 bits.\<close>

theorem progress_bounds:
  "let v = display_state a now s
   in 0 \<le> dv_current_step_progress v \<and> dv_current_step_progress v \<le> 1 \<and>
      0 \<le> dv_automation_progress v \<and> dv_automation_progress v \<le> 1 \<and>
      0 \<le> dv_run_elapsed_tenths v \<and> dv_run_elapsed_tenths v < 65536 \<and>
      pred_option (\<lambda>sv. 0 \<le> sv_progress sv \<and> sv_progress sv \<le> 1) (dv_scheduled v)"
proof -
  have sv: "0 \<le> sv_progress (scheduled_view_of now sd) \<and> sv_progress (scheduled_view_of now sd) \<le> 1" for sd
  proof -
    have "0 < max (1 / 10) (sd_delay_s sd)"
      by (simp add: less_max_iff_disj)
    then show ?thesis
      by (simp add: scheduled_view_of_def Let_def divide_le_eq_1 zero_le_divide_iff) 
  qed
  have "0 \<le> max 0 (now - started) / max (1 / 10) total" for started total :: rat
    by (simp add: zero_le_divide_iff le_max_iff_disj)
  then have "0 \<le> step_progress a now s \<and> step_progress a now s \<le> 1"
    using sv by (simp add: step_progress_def Let_def split: option.split)
  moreover have "0 \<le> automation_progress a now s \<and> automation_progress a now s \<le> 1"
    by (simp add: automation_progress_def Let_def)
  moreover have "0 \<le> x AND 0xFFFF \<and> x AND 0xFFFF < 65536" for x :: int
    using take_bit_eq_mask [of 16 x] by (simp add: mask_numeral flip: take_bit_eq_mask)
  ultimately show ?thesis
    using sv by (cases "cs_scheduled s") (simp_all add: display_state_def Let_def)
qed

text \<open>Each frame can be matched with the log: its QR payload parses back to the frame number, the event code and the
  elapsed tenths that the frame shows.\<close>

theorem frame_readable:
  "and_then (frame_payload a now s) parse_phone_sync_qr_payload =
     Inr \<lparr>qr_seq = int (Suc (cs_visual_seq s) mod 0x1000000) mod 36 ^ 3,
          qr_event_code = int (dv_event_code (display_state a now s)) mod 36,
          qr_elapsed_tenths = dv_run_elapsed_tenths (display_state a now s)\<rparr>"
proof -
  have "0 \<le> dv_run_elapsed_tenths (display_state a now s) \<and> dv_run_elapsed_tenths (display_state a now s) < 65536"
    using take_bit_eq_mask [of 16] by (simp add: display_state_def Let_def mask_numeral flip: take_bit_eq_mask)
  then show ?thesis
    by (simp add: frame_payload_def payload_text parse_payload log_visual_frame_def QR_SEQ_MODULUS_def
        QR_ELAPSED_MODULUS_def)
qed

text \<open>A wait that is over leads to the next step or, after the last one, to the end of the sequence.\<close>

lemma wait_passed:
  assumes "sync_inv s" "cs_waiting s = Some target" "target \<noteq> []" "cs_wait_started s = Some started"
    "wait_over a target (now - started) s = Some label"
  shows "let t = service_sequence_wait a now s
    in cs_done t \<and> cs_stop t \<or> cs_waiting t = None \<and> cs_index t = cs_index s + 1 \<and> cs_scheduled t \<noteq> None"
proof -
  have s: "step_sent s" "\<forall>st \<in> set (cs_steps s). step_ok st"
    using assms(1,2) by (auto simp: sync_inv_def sync_states)
  define u where "u = (add_event ''sequence'' label s)\<lparr>cs_waiting := None, cs_wait_started := None\<rparr>"
  have w: "service_sequence_wait a now s = advance_sequence a now False u"
    using assms by (simp add: service_sequence_wait_def u_def)
  have u: "cs_index u = cs_index s" "cs_steps u = cs_steps s"
    by (simp_all add: u_def)
  show ?thesis
  proof (cases "cs_index s + 1 \<ge> int (length (cs_steps s))")
    case True
    then show ?thesis
      by (simp add: w advance_sequence_def u finish_sequence_def request_exit_def Let_def)
  next
    case False
    then have "nat (cs_index s + 1) < length (cs_steps s)"
      using s(1) by (simp add: step_sent_def nat_less_iff)
    then have "step_ok (cs_steps s ! nat (cs_index s + 1))"
      using s(2) by simp
    note f = schedule_step_facts [OF this, where now = now and delay = "sa_settle_delay a"]
    define q where "q = add_event ''sequence'' ''step_scheduled''
      (u\<lparr>cs_index := cs_index s + 1, cs_waiting := None, cs_wait_started := None\<rparr>)"
    have r: "advance_sequence a now False u =
        schedule_step now (sa_settle_delay a) (cs_steps s ! nat (cs_index s + 1)) q"
      using False by (simp add: advance_sequence_def u q_def Let_def)
    obtain sd where "cs_scheduled (advance_sequence a now False u) = Some sd"
      using f(1) [where s = q] r by auto
    moreover have "cs_waiting (advance_sequence a now False u) = None"
      "cs_index (advance_sequence a now False u) = cs_index s + 1"
      unfolding r f(3) f(4) by (simp_all add: q_def)
    ultimately show ?thesis
      by (simp add: w)
  qed
qed


definition waiting_sync :: coordinator where
  "waiting_sync = tick sample_args (native_worker True True) 15
     (start_or_cancel sample_args 0 (new_coordinator [named_step ''open'' ''Open'' ''open''] 0))"

lemma waiting_sync_facts:
  "sync_inv waiting_sync" "cs_waiting waiting_sync = Some ''Open''" "cs_wait_started waiting_sync = Some 15"
  "current_step waiting_sync = Some (named_step ''open'' ''Open'' ''open'')"
proof -
  show "sync_inv waiting_sync"
    unfolding waiting_sync_def by (intro native.tick_inv start_inv new_inv) simp
  show "cs_waiting waiting_sync = Some ''Open''" "cs_wait_started waiting_sync = Some 15"
    "current_step waiting_sync = Some (named_step ''open'' ''Open'' ''open'')"
    by (simp_all add: waiting_sync_def new_coordinator_def start_or_cancel_def
      start_auto_sequence_def advance_sequence_def schedule_step_def schedule_action_def named_step_def
      SCHEDULE_EVENT_def add_event_def set_flash_def sample_args_def tick_def send_due_def [unfolded Let_def] COMMAND_EVENT_def
      native_worker_def send_cover_command_def submit_def on_sequence_command_sent_def current_step_def
      service_sequence_wait_def wait_over_def [unfolded Let_def] hcp_get_def is_idle_cover_operation_def py_lower_def lower_char_def
      wait_timeout_def)
qed


subsection \<open>Dry runs reach every step\<close>

lemma finish_state:
  assumes "state \<noteq> []"
  shows "cs_last_state (publish_state nt now state position operation raw s) = state"
    "hcp_get (publish_state nt now state position operation raw s) ''cover_operation'' = HText operation"
    "hcp_get (publish_state nt now state position operation raw s) ''cover_position'' = HNumber position"
    "same_automation s (publish_state nt now state position operation raw s)"
proof -
  have keep: "cs_last_state (update_hcp_state nt now object_id payload s) = cs_last_state (store_state nt object_id payload s)"
    "cs_hcp (update_hcp_state nt now object_id payload s) = cs_hcp (store_state nt object_id payload s)"
    for object_id payload s
    by (simp_all add: update_hcp_state_def Let_def split: option.split prod.split) (simp_all add: add_event_def set_flash_def)
  show "cs_last_state (publish_state nt now state position operation raw s) = state"
    using assms by (simp add: publish_state_def keep store_state_def state_payload_def no_payload_def value_text_def)
  show "hcp_get (publish_state nt now state position operation raw s) ''cover_operation'' = HText operation"
    "hcp_get (publish_state nt now state position operation raw s) ''cover_position'' = HNumber position"
    by (simp_all add: hcp_get_def publish_state_def keep store_state_def state_payload_def no_payload_def put_given_def Let_def)
  show "same_automation s (publish_state nt now state position operation raw s)"
    unfolding publish_state_def by (intro same_trans [OF _ update_same] same_refl)
qed

definition step_matches :: "seq_step \<Rightarrow> bool" where
  "step_matches st \<longleftrightarrow>
     (sp_action st, sp_target_state st) \<in> {(''open'', ''Open''), (''close'', ''Closed''), (''vent'', ''Venting'')} \<or>
     sp_action st = ''target'' \<and> sp_target_state st = ''Position'' \<and> pred_option (\<lambda>x. 0 \<le> x \<and> x \<le> 100) (sp_position st)"

lemma current_same: "same_automation s t \<Longrightarrow> current_step t = current_step s"
  by (simp add: same_automation_def current_step_def)

lemma idle_text: "is_idle_cover_operation (HText ''IDLE'')"
  by code_simp

lemma lower_names: "py_lower ''Stopped'' = ''stopped''" "py_lower ''Position'' = ''position''"
  by code_simp+

lemma plan_passes:
  assumes "step_matches st" "simulation_plan current (sp_action st) (sp_position st) u = Inr plan"
    "current_step s = Some st" "0 \<le> sa_target_tolerance a"
  shows "\<exists>label. wait_over a (sp_target_state st) elapsed
    (publish_state nt now (dp_target_state plan) (dp_target_position plan) ''IDLE'' (dp_target_raw plan) s) = Some label"
proof -
  have "dp_target_state plan \<noteq> []"
    using assms(2) by (auto simp: simulation_plan_def Let_def split: if_splits option.splits)
  define t where "t = publish_state nt now (dp_target_state plan) (dp_target_position plan) ''IDLE'' (dp_target_raw plan) s"
  note facts = finish_state [OF \<open>dp_target_state plan \<noteq> []\<close>, where nt = nt and now = now and
      position = "dp_target_position plan" and operation = "''IDLE''" and raw = "dp_target_raw plan" and s = s,
      folded t_def]
  have cur: "current_step t = Some st"
    using current_same [OF facts(4)] assms(3) by simp
  have "\<exists>label. wait_over a (sp_target_state st) elapsed t = Some label" (is ?reached)
    using assms(1) unfolding step_matches_def
  proof
    assume p: "(sp_action st, sp_target_state st) \<in> {(''open'', ''Open''), (''close'', ''Closed''), (''vent'', ''Venting'')}"
    then have "dp_target_state plan = sp_target_state st"
      using assms(2) by (auto simp: simulation_plan_def Let_def)
    then show ?reached
      by (simp add: wait_over_def facts Let_def)
  next
    assume p: "sp_action st = ''target'' \<and> sp_target_state st = ''Position'' \<and>
      pred_option (\<lambda>x. 0 \<le> x \<and> x \<le> 100) (sp_position st)"
    then obtain x where x: "sp_position st = Some x" "0 \<le> x" "x \<le> 100"
      using assms(2) by (cases "sp_position st") (auto simp: simulation_plan_def)
    then have "dp_target_position plan = x / 100" "dp_target_state plan = ''Stopped''"
      using assms(2) p by (auto simp: simulation_plan_def clamp_unit_def Let_def)
    then show ?reached
      using x p assms(4)
      by (simp add: wait_over_def facts near_target_def cur float_of_value_def idle_text lower_names Let_def)
  qed
  then show ?thesis
    by (simp add: t_def)
qed

lemma wait_over_event: "wait_over a target elapsed (add_event k l s) = wait_over a target elapsed s"
proof -
  have "current_step (add_event k l s) = current_step s" "hcp_get (add_event k l s) = hcp_get s"
    "cs_last_state (add_event k l s) = cs_last_state s"
    by (simp_all add: current_step_def hcp_get_def fun_eq_iff) (simp add: add_event_def)
  then show ?thesis
    by (simp add: wait_over_def near_target_def)
qed

lemma publish_state_started: "cs_wait_started (publish_state nt now state position operation raw s) = cs_wait_started s"
proof -
  have "cs_wait_started (store_state nt object_id payload s) = cs_wait_started s" for object_id payload s
    by (simp add: store_state_def Let_def)
  then have "cs_wait_started (update_hcp_state nt now object_id payload s) = cs_wait_started s" for object_id payload s
    by (simp add: update_hcp_state_def Let_def split: option.split prod.split)
  then show ?thesis
    by (simp add: publish_state_def)
qed

text \<open>A dry run never gets stuck: when the simulated door reports the end of the movement for the awaited step, the next
  frame goes on to the next step or, after the last one, finishes the sequence.\<close>

theorem dry_run_goes_on:
  assumes "sync_inv s" "current_step s = Some st" "step_matches st" "cs_waiting s = Some (sp_target_state st)"
    "cs_wait_started s = Some started" "0 \<le> sa_target_tolerance a" "\<not> dw_stopped w"
    "simulation_plan current (sp_action st) (sp_position st) u = Inr plan"
  shows "let t = tick a send now (snd (dry_finish nt fired plan (w, s)))
    in cs_done t \<and> cs_stop t \<or> cs_index t = cs_index s + 1 \<and> cs_scheduled t \<noteq> None"
proof -
  define p where "p = publish_state nt fired (dp_target_state plan) (dp_target_position plan) ''IDLE'' (dp_target_raw plan) s"
  have "dp_target_state plan \<noteq> []"
    using assms(8) by (auto simp: simulation_plan_def Let_def split: if_splits option.splits)
  then have same: "same_automation s p"
    unfolding p_def by (rule finish_state(4))
  define t where "t = add_event ''dry_run_command'' ''target_state_simulated'' p"
  have fin: "snd (dry_finish nt fired plan (w, s)) = t"
    using assms(7) by (simp add: dry_finish_def t_def p_def)
  have same': "same_automation s t"
    using same by (simp add: t_def)
  have inv: "sync_inv t"
    using assms(1) same_keeps [OF same'] by simp
  have waiting: "cs_waiting t = Some (sp_target_state st)" "cs_index t = cs_index s"
    using same' assms(4) by (simp_all add: same_automation_def)
  obtain label where "wait_over a (sp_target_state st) (now - started) p = Some label"
    using plan_passes [OF assms(3,8,2,6)] unfolding p_def by blast
  then have over: "wait_over a (sp_target_state st) (now - started) t = Some label"
    by (simp add: t_def wait_over_event)
  have started: "cs_wait_started t = Some started"
    using assms(5) by (simp add: t_def p_def publish_state_started)
  have sent: "step_sent t"
    using inv waiting by (auto simp: sync_inv_def sync_states)
  have "sp_target_state st \<noteq> []"
    using assms(3) by (auto simp: step_matches_def)
  from wait_passed [OF inv waiting(1) this started over] show ?thesis
    using sent by (auto simp: fin waiting(2) tick_def step_sent_def Let_def)
qed

theorem dry_run_goes_on_witness:
  "\<exists>plan. simulation_plan 0 ''open'' None waiting_sync = Inr plan \<and>
    (let t = tick sample_args (native_worker True True) 20 (snd (dry_finish (\<lambda>_. []) 19 plan
        (\<lparr>dw_position = 0, dw_stopped = False, dw_timers = []\<rparr>, waiting_sync)))
     in cs_done t \<and> cs_stop t \<or> cs_index t = cs_index waiting_sync + 1 \<and> cs_scheduled t \<noteq> None)"
proof -
  let ?st = "named_step ''open'' ''Open'' ''open''"
  obtain plan where plan: "simulation_plan 0 (sp_action ?st) (sp_position ?st) waiting_sync = Inr plan"
    by (simp add: simulation_plan_def named_step_def)
  have "step_matches ?st" "0 \<le> sa_target_tolerance sample_args" "cs_waiting waiting_sync = Some (sp_target_state ?st)"
    by (simp_all add: step_matches_def named_step_def sample_args_def waiting_sync_facts)
  moreover have "\<not> dw_stopped \<lparr>dw_position = 0, dw_stopped = False, dw_timers = []\<rparr>"
    by simp
  ultimately have "let t = tick sample_args (native_worker True True) 20 (snd (dry_finish (\<lambda>_. []) 19 plan
        (\<lparr>dw_position = 0, dw_stopped = False, dw_timers = []\<rparr>, waiting_sync)))
     in cs_done t \<and> cs_stop t \<or> cs_index t = cs_index waiting_sync + 1 \<and> cs_scheduled t \<noteq> None"
    by (intro dry_run_goes_on [OF waiting_sync_facts(1,4) _ _ waiting_sync_facts(3) _ _ plan])
  then show ?thesis
    using plan by (intro exI [of _ plan]) (simp add: named_step_def)
qed

end
