(* ===== verification/Session.thy ===== *)
theory Session
  imports Py_Float
begin

text \<open>
  Programs of the interactive tools: a program reads and changes a session and ends with a value or an exception.  A
  session holds what is still to be typed, the number of HTTP requests made, and the trace of its effects, the newest
  first.  The section on triples gives the rules by which statements about all runs of a program are proved.
\<close>

type_synonym ('s, 'a) prog = "'s \<Rightarrow> 'a result \<times> 's"

definition ret :: "'a \<Rightarrow> ('s, 'a) prog" where
  "ret x s = (Inr x, s)"

definition throw :: "exn \<Rightarrow> ('s, 'a) prog" where
  "throw e s = (Inl e, s)"

definition andthen :: "('s, 'a) prog \<Rightarrow> ('a \<Rightarrow> ('s, 'b) prog) \<Rightarrow> ('s, 'b) prog" where
  "andthen m f s = (case m s of (Inl e, t) \<Rightarrow> (Inl e, t) | (Inr x, t) \<Rightarrow> f x t)"

definition seq :: "('s, unit) prog \<Rightarrow> ('s, 'b) prog \<Rightarrow> ('s, 'b) prog" where
  "seq m n = andthen m (\<lambda>_. n)"

definition modify :: "('s \<Rightarrow> 's) \<Rightarrow> ('s, unit) prog" where
  "modify f s = (Inr (), f s)"

definition fetch :: "('s \<Rightarrow> 'a) \<Rightarrow> ('s, 'a) prog" where
  "fetch f s = (Inr (f s), s)"

definition do_if :: "bool \<Rightarrow> ('s, unit) prog \<Rightarrow> ('s, unit) prog" where
  "do_if b m = (if b then m else ret ())"

text \<open>A loop that asks until its body has an answer.  The fuel is one more than the lines left to be typed: every round of the
  loops below reads one, and reading without a line left is an exception.\<close>

fun repeat_until :: "nat \<Rightarrow> ('s, 'a option) prog \<Rightarrow> ('s, 'a) prog" where
  "repeat_until 0 body = throw (Raised ''OutOfFuel'' [])"
| "repeat_until (Suc n) body = andthen body (\<lambda>r. case r of Some x \<Rightarrow> ret x | None \<Rightarrow> repeat_until n body)"

fun for_each :: "'a list \<Rightarrow> ('a \<Rightarrow> ('s, unit) prog) \<Rightarrow> ('s, unit) prog" where
  "for_each [] f = ret ()"
| "for_each (x # xs) f = seq (f x) (for_each xs f)"

subsection \<open>Effects\<close>

datatype prompt =
    Presence
  | EnterPrompt string
  | YesNoPrompt string bool
  | NumberPrompt string
  | TextPrompt string

datatype service =
    CoverService string
  | SetPosition pyfloat
  | SetTargetNumber pyfloat
  | ToggleLight

datatype tool_effect =
    Asked prompt string
  | Request string bool
  | Sent string
  | Polled string
  | Service service bool
  | Recorded string string
  | Saved string bytes
  | Wrote string
  | Did string
  | Slept rat

datatype typed = Line string | CtrlC

record tool_session =
  ss_typed :: "typed list"
  ss_requests :: nat
  ss_trace :: "tool_effect list"

definition emit :: "tool_effect \<Rightarrow> ('x tool_session_scheme, unit) prog" where
  "emit e = modify (\<lambda>s. s\<lparr>ss_trace := e # ss_trace s\<rparr>)"

text \<open>\<open>input()\<close>: a line, a keyboard interrupt, or the end of the input.\<close>

definition ask :: "prompt \<Rightarrow> ('x tool_session_scheme, string) prog" where
  "ask p s =
     (case ss_typed s of
        [] \<Rightarrow> (Inl (Raised ''EOFError'' ''EOF when reading a line''), s)
      | CtrlC # ts \<Rightarrow> (Inl (Raised ''KeyboardInterrupt'' []), s\<lparr>ss_typed := ts\<rparr>)
      | Line t # ts \<Rightarrow> (Inr t, s\<lparr>ss_typed := ts, ss_trace := Asked p t # ss_trace s\<rparr>))"

definition until_answer :: "('x tool_session_scheme, 'a option) prog \<Rightarrow> ('x tool_session_scheme, 'a) prog" where
  "until_answer body s = repeat_until (Suc (length (ss_typed s))) body s"

text \<open>A body that reads a line in every round that has no answer never exhausts the fuel.\<close>

definition reads_line :: "('x tool_session_scheme, 'a option) prog \<Rightarrow> bool" where
  "reads_line body \<longleftrightarrow>
     (\<forall>s. case body s of
        (Inr None, t) \<Rightarrow> length (ss_typed t) < length (ss_typed s)
      | (Inl e, t) \<Rightarrow> e \<noteq> Raised ''OutOfFuel'' []
      | _ \<Rightarrow> True)"

lemma fuel_enough:
  "reads_line body \<Longrightarrow> length (ss_typed s) < n \<Longrightarrow> fst (repeat_until n body s) \<noteq> Inl (Raised ''OutOfFuel'' [])"
proof (induction n arbitrary: s)
  case (Suc n)
  show ?case
  proof (cases "body s")
    case (Pair r t)
    have b: "case (r, t) of (Inr None, t) \<Rightarrow> length (ss_typed t) < length (ss_typed s)
        | (Inl e, t) \<Rightarrow> e \<noteq> Raised ''OutOfFuel'' [] | _ \<Rightarrow> True"
      using Suc.prems(1) by (auto simp: reads_line_def Pair [symmetric])
    show ?thesis
    proof (cases r)
      case (Inl e)
      then show ?thesis
        using b by (simp add: andthen_def Pair)
    next
      case (Inr x)
      then show ?thesis
        using b Suc.IH [OF Suc.prems(1), of t] Suc.prems(2)
        by (cases x) (simp_all add: andthen_def Pair ret_def)
    qed
  qed
qed simp

lemma until_answer_fuel: "reads_line body \<Longrightarrow> fst (until_answer body s) \<noteq> Inl (Raised ''OutOfFuel'' [])"
  by (simp add: until_answer_def fuel_enough del: repeat_until.simps)

subsection \<open>HTTP\<close>

text \<open>An answer as \<open>HttpResult\<close> has it; the JSON value is represented by its truth.\<close>

record http_result =
  hr_ok :: bool
  hr_status :: "nat option"
  hr_body :: bytes
  hr_text :: string
  hr_json :: bool

text \<open>The answer to the n-th request, and to which path.\<close>

type_synonym http = "nat \<Rightarrow> string \<Rightarrow> http_result"

definition http_request :: "http \<Rightarrow> string \<Rightarrow> ('x tool_session_scheme, http_result) prog" where
  "http_request http path s =
     (let r = http (ss_requests s) path
      in (Inr r, s\<lparr>ss_requests := ss_requests s + 1, ss_trace := Request path (hr_ok r) # ss_trace s\<rparr>))"

definition usable :: "http_result \<Rightarrow> bool" where
  "usable r \<longleftrightarrow> hr_ok r \<and> py_strip (hr_text r) \<noteq> ''busy''"

fun get_again :: "http \<Rightarrow> string \<Rightarrow> nat \<Rightarrow> http_result \<Rightarrow> ('x tool_session_scheme, http_result) prog" where
  "get_again http path 0 r = ret r"
| "get_again http path (Suc retries) r =
     (if usable r then ret r
      else seq (emit (Slept (1 / 2))) (andthen (http_request http path) (get_again http path retries)))"

definition http_get :: "http \<Rightarrow> string \<Rightarrow> nat \<Rightarrow> ('x tool_session_scheme, http_result) prog" where
  "http_get http path retries = andthen (http_request http path) (get_again http path retries)"

definition http_save :: "http \<Rightarrow> string \<Rightarrow> string \<Rightarrow> ('x tool_session_scheme, http_result) prog" where
  "http_save http path filename =
     andthen (http_get http path 0) (\<lambda>r. seq (emit (Saved filename (hr_body r))) (ret r))"

fun save_again :: "http \<Rightarrow> string \<Rightarrow> string \<Rightarrow> nat \<Rightarrow> http_result \<Rightarrow> ('x tool_session_scheme, http_result) prog" where
  "save_again http path filename 0 r = ret r"
| "save_again http path filename (Suc n) r =
     (if hr_ok r \<and> hr_body r \<noteq> [] then ret r
      else seq (emit (Slept 1)) (andthen (http_save http path filename) (save_again http path filename n)))"

definition http_save_nonempty :: "http \<Rightarrow> string \<Rightarrow> string \<Rightarrow> nat \<Rightarrow> ('x tool_session_scheme, http_result) prog" where
  "http_save_nonempty http path filename attempts =
     andthen (http_save http path filename) (save_again http path filename (attempts - 1))"

subsection \<open>Triples\<close>

text \<open>From a state with \<open>P\<close>, a normal end has \<open>Q\<close> of its value and state, an exception \<open>E\<close> of its state.\<close>

definition triple :: "('s \<Rightarrow> bool) \<Rightarrow> ('s, 'a) prog \<Rightarrow> ('a \<Rightarrow> 's \<Rightarrow> bool) \<Rightarrow> ('s \<Rightarrow> bool) \<Rightarrow> bool" where
  "triple P m Q E \<longleftrightarrow> (\<forall>s. P s \<longrightarrow> (case m s of (Inr x, t) \<Rightarrow> Q x t | (Inl e, t) \<Rightarrow> E t))"

lemma tripleI: "(\<And>s. P s \<Longrightarrow> case m s of (Inr x, t) \<Rightarrow> Q x t | (Inl e, t) \<Rightarrow> E t) \<Longrightarrow> triple P m Q E"
  by (simp add: triple_def)

lemma triple_ret: "(\<And>s. P s \<Longrightarrow> Q x s) \<Longrightarrow> triple P (ret x) Q E"
  by (simp add: triple_def ret_def)

lemma triple_throw: "(\<And>s. P s \<Longrightarrow> E s) \<Longrightarrow> triple P (throw e) Q E"
  by (simp add: triple_def throw_def)

lemma triple_andthen: "triple P m R E \<Longrightarrow> (\<And>x. triple (R x) (f x) Q E) \<Longrightarrow> triple P (andthen m f) Q E"
  by (fastforce simp: triple_def andthen_def split: prod.splits sum.splits)

lemma triple_seq: "triple P m (\<lambda>_. R) E \<Longrightarrow> triple R n Q E \<Longrightarrow> triple P (seq m n) Q E"
  unfolding seq_def by (rule triple_andthen)

lemma triple_modify: "(\<And>s. P s \<Longrightarrow> Q () (f s)) \<Longrightarrow> triple P (modify f) Q E"
  by (simp add: triple_def modify_def)

lemma triple_fetch: "(\<And>s. P s \<Longrightarrow> Q (f s) s) \<Longrightarrow> triple P (fetch f) Q E"
  by (simp add: triple_def fetch_def)

lemma triple_weaken:
  "triple P m Q E \<Longrightarrow> (\<And>s. P' s \<Longrightarrow> P s) \<Longrightarrow> (\<And>x s. Q x s \<Longrightarrow> Q' x s) \<Longrightarrow> (\<And>s. E s \<Longrightarrow> E' s) \<Longrightarrow> triple P' m Q' E'"
  by (fastforce simp: triple_def split: prod.splits sum.splits)

lemma triple_do_if: "triple P m (\<lambda>_. Q) E \<Longrightarrow> (\<And>s. P s \<Longrightarrow> Q s) \<Longrightarrow> triple P (do_if b m) (\<lambda>_. Q) E"
  by (simp add: do_if_def triple_ret)

lemma triple_if: "(b \<Longrightarrow> triple P m Q E) \<Longrightarrow> (\<not> b \<Longrightarrow> triple P n Q E) \<Longrightarrow> triple P (if b then m else n) Q E"
  by simp

lemma triple_for_each: "(\<And>x. x \<in> set xs \<Longrightarrow> triple P (f x) (\<lambda>_. P) E) \<Longrightarrow> triple P (for_each xs f) (\<lambda>_. P) E"
  by (induction xs) (auto intro: triple_ret triple_seq)

lemma triple_repeat:
  "triple P body (\<lambda>r s. case r of None \<Rightarrow> P s | Some x \<Rightarrow> Q x s) E \<Longrightarrow> (\<And>s. P s \<Longrightarrow> E s) \<Longrightarrow>
    triple P (repeat_until n body) Q E"
proof (induction n)
  case (Suc n)
  show ?case
    unfolding repeat_until.simps
  proof (rule triple_andthen [OF Suc.prems(1)])
    show "triple (\<lambda>s. case r of None \<Rightarrow> P s | Some x \<Rightarrow> Q x s)
        (case r of None \<Rightarrow> repeat_until n body | Some x \<Rightarrow> ret x) Q E" for r
      using Suc.IH [OF Suc.prems] by (cases r) (simp_all add: triple_ret)
  qed
qed (simp add: triple_throw)

lemma triple_until:
  "triple P body (\<lambda>r s. case r of None \<Rightarrow> P s | Some x \<Rightarrow> Q x s) E \<Longrightarrow> (\<And>s. P s \<Longrightarrow> E s) \<Longrightarrow>
    triple P (until_answer body) Q E"
  using triple_repeat [of P body Q E] by (simp add: triple_def until_answer_def del: repeat_until.simps)

lemma triple_run: "triple P m Q E \<Longrightarrow> P s \<Longrightarrow> case m s of (Inr x, t) \<Rightarrow> Q x t | (Inl e, t) \<Rightarrow> E t"
  by (simp add: triple_def)

text \<open>An invariant that a program keeps whichever way it ends.\<close>

definition preserving :: "('s \<Rightarrow> bool) \<Rightarrow> ('s, 'a) prog \<Rightarrow> bool" where
  "preserving P m \<longleftrightarrow> (\<forall>s. P s \<longrightarrow> P (snd (m s)))"

lemma keeps_triple: "preserving P m \<longleftrightarrow> triple P m (\<lambda>_. P) P"
  by (simp add: preserving_def triple_def case_prod_unfold split: sum.split)

named_theorems keeps \<open>programs that keep an invariant of the trace\<close>

lemma keeps_ret [keeps]: "preserving P (ret x)"
  by (simp add: preserving_def ret_def)

lemma keeps_throw [keeps]: "preserving P (throw e)"
  by (simp add: preserving_def throw_def)

lemma keeps_fetch [keeps]: "preserving P (fetch f)"
  by (simp add: preserving_def fetch_def)

lemma keeps_andthen [keeps]: "preserving P m \<Longrightarrow> (\<And>x. preserving P (f x)) \<Longrightarrow> preserving P (andthen m f)"
  by (simp add: preserving_def andthen_def case_prod_unfold split: sum.split)

lemma keeps_seq [keeps]: "preserving P m \<Longrightarrow> preserving P n \<Longrightarrow> preserving P (seq m n)"
  unfolding seq_def by (rule keeps_andthen)

lemma keeps_do_if [keeps]: "preserving P m \<Longrightarrow> preserving P (do_if b m)"
  by (simp add: do_if_def keeps_ret)

lemma keeps_if [keeps]: "(b \<Longrightarrow> preserving P m) \<Longrightarrow> (\<not> b \<Longrightarrow> preserving P n) \<Longrightarrow> preserving P (if b then m else n)"
  by simp

lemma keeps_repeat [keeps]: "preserving P body \<Longrightarrow> preserving P (repeat_until n body)"
  by (induction n) (auto intro!: keeps split: option.split)

lemma keeps_until [keeps]: "preserving P body \<Longrightarrow> preserving P (until_answer body)"
  using keeps_repeat [of P body] by (simp add: preserving_def until_answer_def del: repeat_until.simps)

lemma keeps_for_each [keeps]: "(\<And>x. preserving P (f x)) \<Longrightarrow> preserving P (for_each xs f)"
  by (induction xs) (auto intro: keeps)

lemma triple_keeps: "preserving P m \<Longrightarrow> (\<And>s. P s \<Longrightarrow> E s) \<Longrightarrow> triple P m (\<lambda>_. P) E"
  unfolding keeps_triple by (rule triple_weaken)

text \<open>Both a kept statement and one about the value.\<close>

lemma triple_conj:
  "triple P m Q E \<Longrightarrow> triple P m R E \<Longrightarrow> triple P m (\<lambda>x s. Q x s \<and> R x s) E"
  by (fastforce simp: triple_def split: prod.splits sum.splits)

lemma emit_pair: "emit e s = (Inr (), s\<lparr>ss_trace := e # ss_trace s\<rparr>)"
  by (simp add: emit_def modify_def)

lemma triple_emit: "(\<And>s. P s \<Longrightarrow> Q () (s\<lparr>ss_trace := e # ss_trace s\<rparr>)) \<Longrightarrow> triple P (emit e) Q E"
  by (simp add: triple_def emit_pair)

lemma get_again_request:
  "Request path (hr_ok r) \<in> set (ss_trace s) \<Longrightarrow>
    \<exists>r' t. get_again http path n r s = (Inr r', t) \<and> Request path (hr_ok r') \<in> set (ss_trace t)"
  by (induction n arbitrary: r s)
    (auto simp: ret_def seq_def andthen_def emit_pair http_request_def Let_def)

text \<open>The answer of a request is that of one of the requests made.\<close>

lemma get_request:
  "\<exists>r t. http_get http path n s = (Inr r, t) \<and> Request path (hr_ok r) \<in> set (ss_trace t)"
  by (simp add: http_get_def andthen_def http_request_def Let_def get_again_request)

lemma triple_get_request: "triple P (http_get http path n) (\<lambda>r s. hr_ok r \<longrightarrow> Request path True \<in> set (ss_trace s)) E"
proof (rule tripleI)
  fix s
  show "case http_get http path n s of (Inr r, t) \<Rightarrow> hr_ok r \<longrightarrow> Request path True \<in> set (ss_trace t) | (Inl e, t) \<Rightarrow> E t"
    using get_request [of http path n s] by (auto split: prod.split sum.split)
qed

text \<open>Programs that always end with a value.\<close>

definition returns :: "('s, 'a) prog \<Rightarrow> bool" where
  "returns m \<longleftrightarrow> (\<forall>s. \<exists>x t. m s = (Inr x, t))"

lemma returns_ret [keeps]: "returns (ret x)"
  by (simp add: returns_def ret_def)

lemma returns_andthen [keeps]: "returns m \<Longrightarrow> (\<And>x. returns (f x)) \<Longrightarrow> returns (andthen m f)"
  by (simp add: returns_def andthen_def split: prod.split sum.split) (metis sum.distinct(1) prod.inject sum.inject(2))

lemma returns_seq [keeps]: "returns m \<Longrightarrow> returns n \<Longrightarrow> returns (seq m n)"
  unfolding seq_def by (rule returns_andthen)

lemma returns_emit [keeps]: "returns (emit e)"
  by (simp add: returns_def emit_pair)

lemma returns_get [keeps]: "returns (http_get http path n)"
  unfolding returns_def using get_request [of http path n] by blast

lemma returns_for_each [keeps]: "(\<And>x. returns (f x)) \<Longrightarrow> returns (for_each xs f)"
  by (induction xs) (auto intro: keeps)

lemma returns_triple: "returns m \<Longrightarrow> triple P m (\<lambda>_ _. True) (\<lambda>_. False)"
  by (auto simp: returns_def triple_def split: prod.split sum.split) (metis Inr_not_Inl Pair_inject)

subsection \<open>Interface: a statement about the trace\<close>

text \<open>
  The statements about a tool's trace are not changed by requests, waits, saved files and recorded events.  What follows
  holds of every such statement: the client that talks HTTP, in all its forms, keeps it.
\<close>

locale trace_statement =
  fixes T :: "tool_effect list \<Rightarrow> bool"
  assumes on_request: "T t \<Longrightarrow> T (Request path ok # t)"
    and on_slept: "T t \<Longrightarrow> T (Slept x # t)"
    and on_saved: "T t \<Longrightarrow> T (Saved filename body # t)"
    and on_wrote: "T t \<Longrightarrow> T (Wrote filename # t)"
    and on_recorded: "T t \<Longrightarrow> T (Recorded kind label # t)"
begin

definition holds :: "'x tool_session_scheme \<Rightarrow> bool" where
  "holds s \<longleftrightarrow> T (ss_trace s)"

lemma keeps_emit: "(\<And>t. T t \<Longrightarrow> T (e # t)) \<Longrightarrow> preserving holds (emit e)"
  by (simp add: preserving_def emit_def modify_def holds_def)

lemma keeps_effects [keeps]:
  "preserving holds (emit (Slept x))" "preserving holds (emit (Saved filename body))"
  "preserving holds (emit (Recorded kind label))" "preserving holds (emit (Wrote filename))"
  by (auto intro: keeps_emit on_slept on_saved on_recorded on_wrote)

lemma keeps_other [keeps]: "(\<And>s. ss_trace (f s) = ss_trace s) \<Longrightarrow> preserving holds (modify f)"
  by (simp add: preserving_def modify_def holds_def)

lemma keeps_request [keeps]: "preserving holds (http_request http path)"
  by (simp add: preserving_def http_request_def holds_def on_request Let_def)

lemma keeps_get_again [keeps]: "preserving holds (get_again http path retries r)"
  by (induction retries arbitrary: r) (auto intro: keeps)

lemma keeps_get [keeps]: "preserving holds (http_get http path retries)"
  by (simp add: http_get_def keeps)

lemma keeps_save [keeps]: "preserving holds (http_save http path filename)"
  by (simp add: http_save_def keeps)

lemma keeps_save_again [keeps]: "preserving holds (save_again http path filename n r)"
  by (induction n arbitrary: r) (auto intro: keeps)

lemma keeps_save_nonempty [keeps]: "preserving holds (http_save_nonempty http path filename attempts)"
  by (simp add: http_save_nonempty_def keeps)

end

end
