(* ===== verification/Hcp_Calibration.thy ===== *)
theory Hcp_Calibration
  imports Session Hil_Commands
begin

text \<open>
  \<open>tools/run_hcp_timing_calibration.py\<close>: one calibration run.  The client of the native API, the clock and the HTTP
  server are parameters: whether the client connects, the entities it lists, the texts of the state sensor that the polls
  of each wait see before its deadline, and the answer to each request.
\<close>

record cal_args =
  ca_yes :: bool
  ca_sequence :: string
  ca_settle_time :: rat
  ca_key_arg :: "string option"
  ca_env_key :: "string option"
  ca_env_device_key :: "string option"
  ca_secrets :: "string option"
  ca_secrets_name :: string
  ca_cover_id :: string

record cal_host =
  ch_http :: http
  ch_client_error :: "exn option"
  ch_entities :: "entity list"
  ch_polls :: "nat \<Rightarrow> string list"

subsection \<open>The API key\<close>

text \<open>\<open>re.search(r"api_key_supramatic_e2:\s*[\"']?([^\"'\n#]+)", text)\<close>, with the group stripped.\<close>

fun find_key :: "string \<Rightarrow> string \<Rightarrow> string option" where
  "find_key name [] = None"
| "find_key name (c # cs) =
     (case (if py_startswith (name @ '':'') (c # cs) then key_group (drop (length name + 1) (c # cs)) else None) of
        Some key \<Rightarrow> Some key
      | None \<Rightarrow> find_key name cs)"

definition calibration_key :: "cal_args \<Rightarrow> string result" where
  "calibration_key a =
     (if given (ca_key_arg a) then Inr (the (ca_key_arg a))
      else if given (ca_env_key a) then Inr (the (ca_env_key a))
      else if given (ca_env_device_key a) then Inr (the (ca_env_device_key a))
      else case ca_secrets a of
        None \<Rightarrow> Inl (Raised ''FileNotFoundError'' (ca_secrets_name a))
      | Some text \<Rightarrow>
          (case find_key ''api_key_supramatic_e2'' text of
             None \<Rightarrow> Inl (SystemExit (''Could not find api_key_supramatic_e2 in '' @ ca_secrets_name a))
           | Some key \<Rightarrow> Inr key))"

definition of_result :: "'a result \<Rightarrow> ('s, 'a) prog" where
  "of_result r = (case r of Inl e \<Rightarrow> throw e | Inr x \<Rightarrow> ret x)"

subsection \<open>The session of the native API\<close>

fun cover_key_of :: "string \<Rightarrow> entity list \<Rightarrow> int option \<Rightarrow> int option" where
  "cover_key_of cover_id [] found = found"
| "cover_key_of cover_id (e # es) found =
     cover_key_of cover_id es
       (if en_kind e = ''CoverInfo'' \<and> en_object_id e = cover_id then Some (en_key e) else found)"

definition connect_session :: "cal_args \<Rightarrow> cal_host \<Rightarrow> (tool_session, int) prog" where
  "connect_session a h =
     (case ch_client_error h of
        Some e \<Rightarrow> throw e
      | None \<Rightarrow>
          (case cover_key_of (ca_cover_id a) (ch_entities h) None of
             None \<Rightarrow> throw (SystemExit (''Could not find cover object_id '' @ py_repr (ca_cover_id a)))
           | Some key \<Rightarrow> seq (emit (Slept 2)) (ret key)))"

definition send_cover :: "string \<Rightarrow> (tool_session, unit) prog" where
  "send_cover action =
     (if action \<in> {''open'', ''close'', ''stop''} then emit (Sent action)
      else throw (ValueError (''Unsupported cover action: '' @ action)))"

fun wait_for_text_state :: "string \<Rightarrow> string list \<Rightarrow> (tool_session, bool) prog" where
  "wait_for_text_state expected [] = ret False"
| "wait_for_text_state expected (text # texts) =
     seq (emit (Polled text))
       (if py_lower text = py_lower expected then seq (emit (Slept 2)) (ret True)
        else seq (emit (Slept (1 / 4))) (wait_for_text_state expected texts))"

subsection \<open>The run\<close>

definition expected_state :: "string \<Rightarrow> string" where
  "expected_state action = (if action = ''open'' then ''Open'' else ''Closed'')"

definition log_request :: "cal_host \<Rightarrow> string \<times> string \<Rightarrow> (tool_session, unit) prog" where
  "log_request h lp =
     (let (label, path) = lp
      in andthen (http_get (ch_http h) path 2) (\<lambda>r.
         seq (emit (Recorded ''esp_http'' label))
           (if hr_ok r then ret () else throw (SystemExit (''ESP HTTP '' @ label @ '' failed'')))))"

definition run_action :: "cal_args \<Rightarrow> cal_host \<Rightarrow> nat \<times> string \<Rightarrow> (tool_session, unit) prog" where
  "run_action a h item =
     (let (i, raw) = item; action = py_lower (py_strip raw); expected = expected_state action
      in if action \<notin> {''open'', ''close''} then throw (SystemExit (''Unsupported sequence action: '' @ action))
         else seq (emit (Recorded ''native_api_command'' (''cover_'' @ action @ ''_start'')))
           (seq (send_cover action)
             (seq (emit (Recorded ''native_api_command'' (''cover_'' @ action @ ''_sent'')))
               (andthen (wait_for_text_state expected (ch_polls h i)) (\<lambda>reached.
                 seq (emit (Recorded ''native_api_wait'' (''wait_'' @ py_lower expected)))
                   (if reached then emit (Slept (ca_settle_time a))
                    else throw (SystemExit (''timeout waiting for '' @ expected))))))))"

definition downloads :: "(string \<times> string) list" where
  "downloads =
     [(''esp-stats-final.json'', ''/stats''), (''esp-broadcast-status-final.json'', ''/broadcast_status''),
      (''esp-recent-final.txt'', ''/recent''), (''persistent-log.json'', ''/persistent_log''),
      (''persistent-log.bin'', ''/persistent_log.bin'')]"

definition download :: "cal_host \<Rightarrow> string \<times> string \<Rightarrow> (tool_session, unit) prog" where
  "download h fp =
     (let (filename, path) = fp
      in andthen
           (if filename = ''persistent-log.json'' then http_save_nonempty (ch_http h) path filename 3
            else http_save (ch_http h) path filename) (\<lambda>_.
         emit (Recorded ''download'' filename)))"

definition confirm_presence :: "bool \<Rightarrow> (tool_session, unit) prog" where
  "confirm_presence yes = do_if (\<not> yes) (andthen (ask Presence) (\<lambda>_. ret ()))"

definition log_setup :: "(string \<times> string) list" where
  "log_setup =
     [(''persistent_log_clear'', ''/persistent_log/clear''), (''persistent_log_start'', ''/persistent_log/start'')]"

definition calibration_cycle :: "cal_args \<Rightarrow> cal_host \<Rightarrow> (tool_session, unit) prog" where
  "calibration_cycle a h =
     andthen (of_result (calibration_key a)) (\<lambda>_.
     seq (confirm_presence (ca_yes a))
       (seq (for_each log_setup (log_request h))
         (andthen (connect_session a h) (\<lambda>_.
         seq (emit (Recorded ''native_api'' ''initial_state''))
           (seq (for_each (enumerate 0 (py_split CHR '','' (ca_sequence a))) (run_action a h))
             (andthen (http_get (ch_http h) ''/persistent_log/stop'' 2) (\<lambda>_.
               seq (emit (Recorded ''esp_http'' ''persistent_log_stop''))
                 (for_each downloads (download h)))))))))"

text \<open>The log the analyzer is given: the binary one when the JSON one was saved empty.\<close>

definition analyzer_log :: "tool_effect list \<Rightarrow> string" where
  "analyzer_log trace =
     (case map_of (List.map_filter (\<lambda>e. case e of Saved f b \<Rightarrow> Some (f, b) | _ \<Rightarrow> None) trace) ''persistent-log.json'' of
        Some (_ # _) \<Rightarrow> ''persistent-log.json''
      | _ \<Rightarrow> ''persistent-log.bin'')"

end
