(* ===== verification/Hcp_Calibration_Props.thy ===== *)
theory Hcp_Calibration_Props
  imports Hcp_Calibration
begin

text \<open>
  What a calibration run may do to the door: no command before the presence prompt and a cleared and started log, no
  command before the one before it was seen to reach its end position, and only the commands of the sequence.
\<close>

subsection \<open>Statements about the trace\<close>

definition is_sent :: "tool_effect \<Rightarrow> bool" where
  "is_sent e = (case e of Sent _ \<Rightarrow> True | _ \<Rightarrow> False)"

lemma is_sent_simps [simp]:
  "is_sent (Sent a)" "\<not> is_sent (Asked p l)" "\<not> is_sent (Request path ok)" "\<not> is_sent (Polled t)"
  "\<not> is_sent (Service sv ok)" "\<not> is_sent (Recorded k l)" "\<not> is_sent (Saved f b)" "\<not> is_sent (Wrote f)" "\<not> is_sent (Did a)" "\<not> is_sent (Slept x)"
  by (simp_all add: is_sent_def)

text \<open>The last command sent, and whether a poll after it saw its end position.\<close>

definition since_sent :: "tool_effect list \<Rightarrow> tool_effect list" where
  "since_sent t = takeWhile (\<lambda>e. \<not> is_sent e) t"

definition last_sent :: "tool_effect list \<Rightarrow> string option" where
  "last_sent t =
     (case dropWhile (\<lambda>e. \<not> is_sent e) t of
        Sent a # _ \<Rightarrow> Some a
      | _ \<Rightarrow> None)"

definition saw_state :: "string \<Rightarrow> tool_effect list \<Rightarrow> bool" where
  "saw_state state t \<longleftrightarrow> (\<exists>x. Polled x \<in> set (since_sent t) \<and> py_lower x = py_lower state)"

definition settled :: "tool_effect list \<Rightarrow> bool" where
  "settled t \<longleftrightarrow> (case last_sent t of None \<Rightarrow> True | Some a \<Rightarrow> saw_state (expected_state a) t)"

definition log_running :: "bool \<Rightarrow> tool_effect list \<Rightarrow> bool" where
  "log_running yes t \<longleftrightarrow>
     (yes \<or> (\<exists>line. Asked Presence line \<in> set t)) \<and>
     Request ''/persistent_log/clear'' True \<in> set t \<and> Request ''/persistent_log/start'' True \<in> set t"

text \<open>Every command of the trace was sent when it might be.\<close>

fun cal_safe :: "bool \<Rightarrow> tool_effect list \<Rightarrow> bool" where
  "cal_safe yes [] = True"
| "cal_safe yes (e # t) \<longleftrightarrow>
     cal_safe yes t \<and>
     (case e of Sent a \<Rightarrow> a \<in> {''open'', ''close''} \<and> log_running yes t \<and> settled t | _ \<Rightarrow> True)"

lemma since_sent_simps [simp]:
  "since_sent [] = []" "\<not> is_sent e \<Longrightarrow> since_sent (e # t) = e # since_sent t" "since_sent (Sent a # t) = []"
  by (simp_all add: since_sent_def)

lemma last_sent_simps [simp]:
  "last_sent [] = None" "\<not> is_sent e \<Longrightarrow> last_sent (e # t) = last_sent t" "last_sent (Sent a # t) = Some a"
  by (simp_all add: last_sent_def)

lemma saw_state_more: "saw_state x t \<Longrightarrow> \<not> is_sent e \<Longrightarrow> saw_state x (e # t)"
  by (auto simp: saw_state_def)

lemma settled_more: "settled t \<Longrightarrow> \<not> is_sent e \<Longrightarrow> settled (e # t)"
  by (auto simp: settled_def saw_state_more split: option.splits)

lemma log_running_more: "log_running yes t \<Longrightarrow> log_running yes (e # t)"
  by (auto simp: log_running_def)

lemma cal_safe_more: "cal_safe yes t \<Longrightarrow> \<not> is_sent e \<Longrightarrow> cal_safe yes (e # t)"
  by (cases e) simp_all

definition confirmed :: "bool \<Rightarrow> tool_effect list \<Rightarrow> bool" where
  "confirmed yes t \<longleftrightarrow> yes \<or> (\<exists>line. Asked Presence line \<in> set t)"

text \<open>Between commands; after a command.\<close>

definition at_rest :: "bool \<Rightarrow> tool_effect set \<Rightarrow> tool_effect list \<Rightarrow> bool" where
  "at_rest yes before t \<longleftrightarrow> cal_safe yes t \<and> settled t \<and> confirmed yes t \<and> before \<subseteq> set t"

definition moving_to :: "bool \<Rightarrow> string \<Rightarrow> tool_effect list \<Rightarrow> bool" where
  "moving_to yes action t \<longleftrightarrow> cal_safe yes t \<and> log_running yes t \<and> last_sent t = Some action"

interpretation at_rest: trace_statement "at_rest yes before" for yes before
  by unfold_locales (auto simp: at_rest_def confirmed_def settled_more)

interpretation moving: trace_statement "moving_to yes action" for yes action
  by unfold_locales (auto simp: moving_to_def log_running_def)

interpretation safe: trace_statement "cal_safe yes" for yes
  by unfold_locales auto

text \<open>The commands of a trace, in the order they were sent.\<close>

definition commands_sent :: "tool_effect list \<Rightarrow> string list" where
  "commands_sent t = rev (List.map_filter (\<lambda>e. case e of Sent a \<Rightarrow> Some a | _ \<Rightarrow> None) t)"

lemma commands_sent_simps [simp]:
  "commands_sent [] = []" "commands_sent (Sent a # t) = commands_sent t @ [a]"
  "\<not> is_sent e \<Longrightarrow> commands_sent (e # t) = commands_sent t"
  by (simp_all add: commands_sent_def List.map_filter_def is_sent_def split: tool_effect.splits)

interpretation same_sent: trace_statement "\<lambda>t. commands_sent t = xs" for xs
  by unfold_locales auto

subsection \<open>The parts of a run\<close>

abbreviation any_end :: "bool \<Rightarrow> tool_session \<Rightarrow> bool" where
  "any_end yes s \<equiv> cal_safe yes (ss_trace s)"

lemma at_rest_safe: "at_rest.holds yes before s \<Longrightarrow> any_end yes s"
  by (simp add: at_rest.holds_def at_rest_def)

lemma moving_safe: "moving.holds yes action s \<Longrightarrow> any_end yes s"
  by (simp add: moving.holds_def moving_to_def)

lemma log_request_triple:
  "triple (at_rest.holds yes before) (log_request h (label, path))
     (\<lambda>_. at_rest.holds yes (insert (Request path True) before)) (any_end yes)"
proof -
  have "triple (at_rest.holds yes before) (http_get (ch_http h) path 2)
      (\<lambda>r s. at_rest.holds yes before s \<and> (hr_ok r \<longrightarrow> Request path True \<in> set (ss_trace s))) (any_end yes)"
    by (intro triple_conj triple_get_request triple_keeps at_rest.keeps_get) (rule at_rest_safe)
  moreover have "triple (\<lambda>s. at_rest.holds yes before s \<and> (hr_ok r \<longrightarrow> Request path True \<in> set (ss_trace s)))
      (seq (emit (Recorded ''esp_http'' label))
        (if hr_ok r then ret () else throw (SystemExit (''ESP HTTP '' @ label @ '' failed''))))
      (\<lambda>_. at_rest.holds yes (insert (Request path True) before)) (any_end yes)" for r
    by (rule triple_seq [where R = "\<lambda>s. at_rest.holds yes before s \<and> (hr_ok r \<longrightarrow> Request path True \<in> set (ss_trace s))"])
      (auto intro!: triple_emit triple_ret triple_throw simp: at_rest.holds_def at_rest_def settled_more confirmed_def)
  ultimately show ?thesis
    unfolding log_request_def Let_def prod.case by (rule triple_andthen)
qed

definition log_effects :: "tool_effect set" where
  "log_effects = {Request ''/persistent_log/clear'' True, Request ''/persistent_log/start'' True}"

lemma log_setup_triple:
  "triple (at_rest.holds yes {}) (for_each log_setup (log_request h)) (\<lambda>_. at_rest.holds yes log_effects) (any_end yes)"
proof -
  have "triple (at_rest.holds yes {}) (seq (log_request h (''persistent_log_clear'', ''/persistent_log/clear''))
      (seq (log_request h (''persistent_log_start'', ''/persistent_log/start'')) (ret ())))
      (\<lambda>_. at_rest.holds yes {Request ''/persistent_log/start'' True, Request ''/persistent_log/clear'' True}) (any_end yes)"
    by (rule triple_seq [OF log_request_triple triple_seq [OF log_request_triple triple_ret]])
  then show ?thesis
    by (simp add: log_setup_def log_effects_def insert_commute)
qed

lemma wait_triple:
  "triple (moving.holds yes action) (wait_for_text_state (expected_state action) texts)
     (\<lambda>reached s. moving.holds yes action s \<and> (reached \<longrightarrow> settled (ss_trace s))) (any_end yes)"
proof (induction texts)
  case Nil
  then show ?case
    by (simp add: triple_ret)
next
  case (Cons seen texts)
  have polled: "triple (moving.holds yes action) (emit (Polled seen))
      (\<lambda>_ s. moving.holds yes action s \<and> (py_lower seen = py_lower (expected_state action) \<longrightarrow> settled (ss_trace s)))
      (any_end yes)"
    by (rule triple_emit)
      (auto simp: moving.holds_def moving_to_def log_running_more settled_def saw_state_def)
  have slept: "triple (\<lambda>s. moving.holds yes action s \<and> settled (ss_trace s)) (seq (emit (Slept 2)) (ret True))
      (\<lambda>reached s. moving.holds yes action s \<and> (reached \<longrightarrow> settled (ss_trace s))) (any_end yes)"
    by (rule triple_seq [where R = "\<lambda>s. moving.holds yes action s \<and> settled (ss_trace s)"])
      (auto intro!: triple_emit triple_ret simp: moving.holds_def moving_to_def settled_more log_running_more)
  have again: "triple (moving.holds yes action) (seq (emit (Slept (1 / 4))) (wait_for_text_state (expected_state action) texts))
      (\<lambda>reached s. moving.holds yes action s \<and> (reached \<longrightarrow> settled (ss_trace s))) (any_end yes)"
    by (rule triple_seq [OF triple_keeps [OF moving.keeps_effects(1) moving_safe] Cons.IH])
  show ?case
    unfolding wait_for_text_state.simps
    by (rule triple_seq [OF polled], rule triple_if)
      (rule triple_weaken [OF slept] triple_weaken [OF again], simp_all)+
qed

lemma at_rest_running:
  "at_rest.holds yes log_effects s \<longleftrightarrow>
     cal_safe yes (ss_trace s) \<and> settled (ss_trace s) \<and> log_running yes (ss_trace s)"
  by (auto simp: at_rest.holds_def at_rest_def log_effects_def log_running_def confirmed_def)

lemma run_action_triple:
  "triple (at_rest.holds yes log_effects) (run_action a h item) (\<lambda>_. at_rest.holds yes log_effects) (any_end yes)"
proof (cases item)
  case (Pair i raw)
  define action where "action = py_lower (py_strip raw)"
  show ?thesis
  proof (cases "action \<in> {''open'', ''close''}")
    case False
    then show ?thesis
      by (simp add: Pair run_action_def Let_def triple_throw [OF at_rest_safe] flip: action_def)
  next
    case True
    have send: "triple (at_rest.holds yes log_effects) (send_cover action) (\<lambda>_. moving.holds yes action) (any_end yes)"
      using True by (auto intro!: triple_emit simp: send_cover_def at_rest_running moving.holds_def moving_to_def log_running_more)
    have finish: "triple (\<lambda>s. moving.holds yes action s \<and> (reached \<longrightarrow> settled (ss_trace s)))
        (seq (emit (Recorded ''native_api_wait'' label))
          (if reached then emit (Slept (ca_settle_time a)) else throw (SystemExit msg)))
        (\<lambda>_. at_rest.holds yes log_effects) (any_end yes)" for reached label msg
      by (rule triple_seq [where R = "\<lambda>s. moving.holds yes action s \<and> (reached \<longrightarrow> settled (ss_trace s))"])
        (auto intro!: triple_emit triple_throw simp: moving.holds_def moving_to_def settled_more log_running_more at_rest_running)
    have "run_action a h item =
        seq (emit (Recorded ''native_api_command'' (''cover_'' @ action @ ''_start'')))
          (seq (send_cover action)
            (seq (emit (Recorded ''native_api_command'' (''cover_'' @ action @ ''_sent'')))
              (andthen (wait_for_text_state (expected_state action) (ch_polls h i)) (\<lambda>reached.
                seq (emit (Recorded ''native_api_wait'' (''wait_'' @ py_lower (expected_state action))))
                  (if reached then emit (Slept (ca_settle_time a))
                   else throw (SystemExit (''timeout waiting for '' @ expected_state action)))))))"
      using True unfolding Pair run_action_def Let_def prod.case action_def [symmetric]
      by (simp only: not_True_eq_False if_False)
    then show ?thesis
      by (simp only:)
        (rule triple_seq [OF triple_keeps [OF at_rest.keeps_effects(3) at_rest_safe]
          triple_seq [OF send triple_seq [OF triple_keeps [OF moving.keeps_effects(3) moving_safe]
            triple_andthen [OF wait_triple finish]]]])
  qed
qed

lemma of_result_keeps [keeps]: "preserving P (of_result r)"
  by (simp add: of_result_def keeps_ret keeps_throw split: sum.split)

lemma confirm_triple:
  "triple (\<lambda>s. ss_trace s = []) (confirm_presence yes) (\<lambda>_. at_rest.holds yes {}) (any_end yes)"
  by (auto simp: confirm_presence_def do_if_def triple_def andthen_def ask_def ret_def at_rest.holds_def at_rest_def
      settled_def confirmed_def split: list.split typed.split)

lemma connect_keeps: "preserving (at_rest.holds yes before) (connect_session a h)"
  by (auto simp: connect_session_def split: option.split intro: keeps at_rest.keeps_effects)

lemma download_keeps: "preserving (at_rest.holds yes before) (download h fp)"
  by (cases fp) (auto simp: download_def intro!: keeps at_rest.keeps_effects at_rest.keeps_save at_rest.keeps_save_nonempty)

lemma run_cycle_safe:
  "triple (\<lambda>s. ss_trace s = []) (calibration_cycle a h) (\<lambda>_. at_rest.holds (ca_yes a) log_effects) (any_end (ca_yes a))"
  unfolding calibration_cycle_def
  by (rule triple_andthen [OF triple_keeps [OF of_result_keeps]
        triple_seq [OF confirm_triple triple_seq [OF log_setup_triple
          triple_andthen [OF triple_keeps [OF connect_keeps at_rest_safe]
            triple_seq [OF triple_keeps [OF at_rest.keeps_effects(3) at_rest_safe]
              triple_seq [OF triple_for_each [OF run_action_triple]
                triple_andthen [OF triple_keeps [OF at_rest.keeps_get at_rest_safe]
                  triple_seq [OF triple_keeps [OF at_rest.keeps_effects(3) at_rest_safe]
                    triple_keeps [OF keeps_for_each [OF download_keeps] at_rest_safe]]]]]]]]]) simp

subsection \<open>All commands are sent\<close>

abbreviation sent_so_far :: "string list \<Rightarrow> tool_session \<Rightarrow> bool" where
  "sent_so_far xs \<equiv> same_sent.holds xs"

lemma wait_keeps_sent: "preserving (sent_so_far xs) (wait_for_text_state expected texts)"
  by (induction texts) (auto intro!: keeps same_sent.keeps_effects same_sent.keeps_emit)

lemma log_request_keeps_sent: "preserving (sent_so_far xs) (log_request h lp)"
  by (cases lp) (auto simp: log_request_def intro!: keeps same_sent.keeps_effects same_sent.keeps_get)

definition action_of :: "string \<Rightarrow> string" where
  "action_of raw = py_lower (py_strip raw)"

lemma run_action_sends:
  "triple (sent_so_far xs) (run_action a h (i, raw)) (\<lambda>_. sent_so_far (xs @ [action_of raw])) (\<lambda>_. True)"
proof (cases "action_of raw \<in> {''open'', ''close''}")
  case False
  then show ?thesis
    by (simp add: run_action_def Let_def triple_throw flip: action_of_def)
next
  case True
  have send: "triple (sent_so_far xs) (send_cover (action_of raw)) (\<lambda>_. sent_so_far (xs @ [action_of raw])) (\<lambda>_. True)"
    using True by (auto intro!: triple_emit simp: send_cover_def same_sent.holds_def)
  show ?thesis
    using True unfolding run_action_def Let_def prod.case action_of_def [symmetric]
    by (simp only: not_True_eq_False if_False)
      (rule triple_seq [OF triple_keeps [OF same_sent.keeps_effects(3)] triple_seq [OF send triple_keeps]];
       auto intro!: keeps same_sent.keeps_effects wait_keeps_sent)
qed

lemma actions_send:
  "triple (sent_so_far xs) (for_each (enumerate n raws) (run_action a h))
     (\<lambda>_. sent_so_far (xs @ map action_of raws)) (\<lambda>_. True)"
proof (induction raws arbitrary: n xs)
  case Nil
  then show ?case
    by (simp add: triple_ret)
next
  case (Cons raw raws)
  show ?case
    using triple_seq [OF run_action_sends Cons.IH, of xs a h n raw "Suc n"] by simp
qed

lemma confirm_keeps_sent: "preserving (sent_so_far xs) (confirm_presence yes)"
  by (auto simp: confirm_presence_def do_if_def preserving_def andthen_def ask_def ret_def same_sent.holds_def
      split: list.split typed.split)

lemma connect_keeps_sent: "preserving (sent_so_far xs) (connect_session a h)"
  by (auto simp: connect_session_def split: option.split intro: keeps same_sent.keeps_effects)

lemma download_keeps_sent: "preserving (sent_so_far xs) (download h fp)"
  by (cases fp) (auto simp: download_def intro!: keeps same_sent.keeps_effects same_sent.keeps_save same_sent.keeps_save_nonempty)

lemma run_cycle_sends:
  "triple (sent_so_far []) (calibration_cycle a h) (\<lambda>_. sent_so_far (map action_of (py_split CHR '','' (ca_sequence a)))) (\<lambda>_. True)"
  unfolding calibration_cycle_def
  by (rule triple_andthen [OF triple_keeps [OF of_result_keeps]
        triple_seq [OF triple_keeps [OF confirm_keeps_sent]
          triple_seq [OF triple_keeps [OF keeps_for_each [OF log_request_keeps_sent]]
            triple_andthen [OF triple_keeps [OF connect_keeps_sent]
              triple_seq [OF triple_keeps [OF same_sent.keeps_effects(3)]
                triple_seq [OF actions_send [of "[]", simplified]
                  triple_andthen [OF triple_keeps [OF same_sent.keeps_get]
                    triple_seq [OF triple_keeps [OF same_sent.keeps_effects(3)]
                      triple_keeps [OF keeps_for_each [OF download_keeps_sent]]]]]]]]]]) simp_all

subsection \<open>Properties\<close>

definition new_calibration :: "typed list \<Rightarrow> tool_session" where
  "new_calibration ts = \<lparr>ss_typed = ts, ss_requests = 0, ss_trace = []\<rparr>"

text \<open>C8: Whatever the opener, the log server and the operator do, a calibration run sends the door no command before the
  operator confirmed (or \<open>--yes\<close> was given) and the log was cleared and started, only \<open>open\<close> and \<open>close\<close>, and
  none before a poll saw the end position of the command before it; a run that ends normally has sent exactly the
  configured sequence and seen its last end position.\<close>

theorem calibration_run_safe:
  "case calibration_cycle a h (new_calibration ts) of (r, s) \<Rightarrow>
     cal_safe (ca_yes a) (ss_trace s) \<and>
     (r = Inr () \<longrightarrow> commands_sent (ss_trace s) = map action_of (py_split CHR '','' (ca_sequence a)) \<and>
       settled (ss_trace s))"
proof -
  have start: "ss_trace (new_calibration ts) = []" "sent_so_far [] (new_calibration ts)"
    by (simp_all add: new_calibration_def same_sent.holds_def)
  show ?thesis
    using triple_run [OF run_cycle_safe start(1), of a h] triple_run [OF run_cycle_sends start(2), of a h]
    by (auto simp: at_rest_running same_sent.holds_def split: prod.splits sum.splits)
qed

definition sample_cal_args :: cal_args where
  "sample_cal_args =
     \<lparr>ca_yes = True, ca_sequence = ''open'', ca_settle_time = 4, ca_key_arg = Some ''k'', ca_env_key = None,
      ca_env_device_key = None, ca_secrets = None, ca_secrets_name = ''s'', ca_cover_id = ''garage_door''\<rparr>"

definition sample_cal_host :: cal_host where
  "sample_cal_host =
     \<lparr>ch_http = \<lambda>_ _. \<lparr>hr_ok = True, hr_status = Some 200, hr_body = [1], hr_text = [], hr_json = True\<rparr>,
      ch_client_error = None,
      ch_entities = [\<lparr>en_kind = ''CoverInfo'', en_object_id = ''garage_door'', en_key = 3, en_device_id = 0\<rparr>],
      ch_polls = \<lambda>_. [''Opening'', ''Open'']\<rparr>"

lemma sample_run_ends: "fst (calibration_cycle sample_cal_args sample_cal_host (new_calibration [])) = Inr ()"
proof -
  have words: "py_split CHR '','' ''open'' = [''open'']" "py_strip ''open'' = ''open''" "py_lower ''open'' = ''open''"
    "py_lower ''Open'' = ''open''" "py_lower ''Opening'' = ''opening''" "py_strip [] = []"
    by code_simp+
  have again: "usable r \<Longrightarrow> get_again http path 2 r = ret r"
    "hr_ok q \<Longrightarrow> hr_body q \<noteq> [] \<Longrightarrow> save_again http path filename 2 q = ret q" for http path filename r q
    by (simp_all add: numeral_2_eq_2)
  show ?thesis
    by (simp add: again calibration_cycle_def sample_cal_args_def sample_cal_host_def new_calibration_def calibration_key_def given_def
        of_result_def confirm_presence_def do_if_def log_setup_def log_request_def connect_session_def run_action_def
        send_cover_def expected_state_def downloads_def download_def http_get_def http_request_def usable_def
        http_save_def http_save_nonempty_def andthen_def seq_def ret_def emit_pair words Let_def)
qed

theorem calibration_run_safe_witness:
  "commands_sent (ss_trace (snd (calibration_cycle sample_cal_args sample_cal_host (new_calibration [])))) = [''open'']"
proof -
  have "map action_of (py_split CHR '','' (ca_sequence sample_cal_args)) = [''open'']"
    by code_simp
  then show ?thesis
    using calibration_run_safe [of sample_cal_args sample_cal_host "[]"] sample_run_ends
    by (simp add: case_prod_unfold)
qed

end
