(* ===== verification/Hcp_Timing.thy ===== *)
theory Hcp_Timing
  imports Prelude
begin

text \<open>
  \<open>tools/analyze_hcp_timing.py\<close>: the decoder of the persistent HCP log, and the alignment of its commands and status
  changes with the curves extracted from videos.  A record has the keys that both loaders give it; times are rationals
  in seconds.  Parsing JSON and drawing are not modelled.
\<close>

subsection \<open>Names\<close>

definition TARGET_BITS :: "(string \<times> string) list" where
  "TARGET_BITS = [(''open'', ''open''), (''close'', ''closed'')]"

definition TYPE_NAMES :: "(nat \<times> string) list" where
  "TYPE_NAMES =
     [(1, ''rx''), (2, ''tx''), (3, ''gap''), (4, ''frame''), (5, ''command''), (6, ''status''), (7, ''control'')]"

definition SOURCE_NAMES :: "(nat \<times> string) list" where
  "SOURCE_NAMES =
     [(0, ''raw''), (10, ''broadcast''), (11, ''broadcast-len1''), (12, ''scan''), (13, ''status-request''),
      (20, ''scan-invalid''), (21, ''broadcast-invalid''), (22, ''broadcast-len1-invalid''),
      (23, ''status-request-invalid''), (24, ''unknown-valid''), (255, ''other'')]"

definition PHASE_NAMES :: "(nat \<times> string) list" where
  "PHASE_NAMES =
     [(0, ''none''), (1, ''start''), (2, ''stop''), (3, ''clear''), (10, ''queued''), (11, ''sent''),
      (12, ''blocked''), (13, ''expired''), (14, ''dropped''), (15, ''cancelled''), (16, ''skipped''),
      (255, ''other'')]"

definition REASON_NAMES :: "(nat \<times> string) list" where
  "REASON_NAMES =
     [(0, ''none''), (1, ''listen_only''), (2, ''close_disabled''), (3, ''impulse_disabled''),
      (4, ''raw_stop_disabled''), (5, ''stale_broadcast''), (6, ''unsafe_state''), (7, ''error_or_prewarn''),
      (8, ''previous_command_pending''), (9, ''state_already_matches''), (10, ''status_request_timeout''),
      (11, ''bus_state_stale''), (12, ''stop_before_fetch''), (13, ''venting_from_open_close_disabled''),
      (14, ''obstruction_active''), (255, ''other'')]"

definition ACTION_NAMES :: "(nat \<times> string) list" where
  "ACTION_NAMES =
     [(0x10FF, ''stop''), (0x1001, ''open''), (0x1002, ''close''), (0x1004, ''impulse''),
      (0x1008, ''toggle_light''), (0x1010, ''venting''), (0x1000, ''none''), (0x0000, ''none'')]"

definition STATUS_BITS :: "(string \<times> nat) list" where
  "STATUS_BITS =
     [(''open'', 0x0001), (''closed'', 0x0002), (''relay'', 0x0004), (''light'', 0x0008), (''error'', 0x0010),
      (''direction_closing'', 0x0020), (''moving'', 0x0040), (''venting'', 0x0080), (''prewarn'', 0x0100)]"

definition name_or_unknown :: "(nat \<times> string) list \<Rightarrow> nat \<Rightarrow> string" where
  "name_or_unknown names n = (case map_of names n of None \<Rightarrow> ''unknown'' | Some t \<Rightarrow> t)"

subsection \<open>The binary log\<close>

definition read_u16_at :: "bytes \<Rightarrow> nat \<Rightarrow> nat" where
  "read_u16_at data offset = unat (data ! offset) OR push_bit 8 (unat (data ! (offset + 1)))"

definition read_u32_at :: "bytes \<Rightarrow> nat \<Rightarrow> nat" where
  "read_u32_at data offset =
     unat (data ! offset) OR push_bit 8 (unat (data ! (offset + 1))) OR
     push_bit 16 (unat (data ! (offset + 2))) OR push_bit 24 (unat (data ! (offset + 3)))"

definition log_status_bits :: "nat \<Rightarrow> (string \<times> bool) list" where
  "log_status_bits status = map (\<lambda>(name, bits). (name, status AND bits \<noteq> 0)) STATUS_BITS"

definition hex_word :: "nat \<Rightarrow> string" where
  "hex_word value = ''0x'' @ py_upper (format_hex 4 (int value))"

definition hex_upper_bytes :: "bytes \<Rightarrow> string" where
  "hex_upper_bytes data = concat (map (\<lambda>b. py_upper (format_hex 2 (uint b))) data)"

record log_record =
  lg_seq :: nat
  lg_type :: string
  lg_source :: string
  lg_phase :: string
  lg_reason :: string
  lg_flags :: nat
  lg_crc :: string
  lg_first_ms :: nat
  lg_last_ms :: nat
  lg_first_micros :: nat
  lg_last_micros :: nat
  lg_repeat :: nat
  lg_status :: nat
  lg_status_hex :: string
  lg_action :: string
  lg_action_hex :: string
  lg_state :: nat
  lg_bits :: "(string \<times> bool) list"
  lg_hex :: string

text \<open>One record from its payload: the bytes after the length byte.\<close>

definition decode_payload :: "bytes \<Rightarrow> log_record" where
  "decode_payload payload =
     (let status = read_u16_at payload 26; action = read_u16_at payload 28; n = read_u16_at payload 32
      in \<lparr>lg_seq = read_u32_at payload 6,
          lg_type = name_or_unknown TYPE_NAMES (unat (payload ! 0)),
          lg_source = name_or_unknown SOURCE_NAMES (unat (payload ! 2)),
          lg_phase = name_or_unknown PHASE_NAMES (unat (payload ! 3)),
          lg_reason = name_or_unknown REASON_NAMES (unat (payload ! 4)),
          lg_flags = unat (payload ! 1),
          lg_crc = (if payload ! 1 AND 0x01 \<noteq> 0 then ''ok'' else ''unknown_or_bad''),
          lg_first_ms = read_u32_at payload 10, lg_last_ms = read_u32_at payload 14,
          lg_first_micros = read_u32_at payload 18, lg_last_micros = read_u32_at payload 22,
          lg_repeat = (if n = 0 then 1 else n),
          lg_status = status, lg_status_hex = hex_word status,
          lg_action = name_or_unknown ACTION_NAMES action, lg_action_hex = hex_word action,
          lg_state = read_u16_at payload 30, lg_bits = log_status_bits status,
          lg_hex = hex_upper_bytes (take (unat (payload ! 5)) (drop 34 payload))\<rparr>)"

text \<open>
  The loop over the blob, as the records, the number of entries it gave up, and the bytes left over.  An entry whose length
  byte is impossible ends the loop; one whose two lengths disagree is skipped.
\<close>

record log_scan =
  sc_records :: "log_record list"
  sc_dropped :: nat
  sc_left :: nat

definition with_record :: "log_record \<Rightarrow> log_scan \<Rightarrow> log_scan" where
  "with_record r s = s\<lparr>sc_records := r # sc_records s\<rparr>"

function scan_log :: "bytes \<Rightarrow> log_scan" where
  "scan_log blob =
     (if blob = [] then \<lparr>sc_records = [], sc_dropped = 0, sc_left = 0\<rparr>
      else
        let total_len = unat (hd blob)
        in if total_len < 35 \<or> length blob < total_len
           then \<lparr>sc_records = [], sc_dropped = 1, sc_left = length blob\<rparr>
           else
             let payload = take (total_len - 1) (tl blob); rest = drop total_len blob
             in if unat (payload ! 5) + 35 \<noteq> total_len
                then (scan_log rest)\<lparr>sc_dropped := sc_dropped (scan_log rest) + 1\<rparr>
                else with_record (decode_payload payload) (scan_log rest))"
  by pat_completeness auto
termination
  by (relation "measure length") (auto simp: not_less)

declare scan_log.simps [simp del]

record persistent_log =
  pl_format_version :: "string option"
  pl_dropped_records :: nat
  pl_dropped_bytes :: nat
  pl_records :: "log_record list"

definition load_binary_persistent_log :: "bytes \<Rightarrow> persistent_log" where
  "load_binary_persistent_log blob =
     (let s = scan_log blob
      in \<lparr>pl_format_version = None, pl_dropped_records = sc_dropped s, pl_dropped_bytes = sc_left s,
          pl_records = sc_records s\<rparr>)"

text \<open>
  The choice of the loader: a \<open>.bin\<close> path is binary; an empty file stands for the binary file beside it, if there is one;
  everything else is JSON, whose parser is a parameter.
\<close>

definition load_persistent_log ::
  "(bytes \<Rightarrow> persistent_log result) \<Rightarrow> string \<Rightarrow> bytes \<Rightarrow> bytes option \<Rightarrow> persistent_log result"
where
  "load_persistent_log json_load suffix contents bin_file =
     (if suffix = ''.bin'' then Inr (load_binary_persistent_log contents)
      else case (if contents = [] then bin_file else None) of
        Some blob \<Rightarrow> Inr (load_binary_persistent_log blob)
      | None \<Rightarrow> json_load contents)"

subsection \<open>Alignment\<close>

definition record_time_s :: "log_record \<Rightarrow> rat" where
  "record_time_s r = of_nat (lg_first_ms r) / 1000"

definition command_records :: "log_record list \<Rightarrow> log_record list" where
  "command_records records =
     filter (\<lambda>r. lg_type r = ''command'' \<and> lg_phase r = ''sent'' \<and> map_of TARGET_BITS (lg_action r) \<noteq> None) records"

definition status_records :: "log_record list \<Rightarrow> log_record list" where
  "status_records records =
     filter (\<lambda>r. lg_type r \<in> {''frame'', ''status''} \<and> lg_source r \<in> {''broadcast'', ''broadcast-len1''} \<and>
       (lg_crc r = ''ok'' \<or> lg_type r = ''status'')) records"

definition has_bit :: "log_record \<Rightarrow> string \<Rightarrow> bool" where
  "has_bit r name = (map_of (lg_bits r) name = Some True)"

definition record_state :: "log_record \<Rightarrow> string" where
  "record_state r =
     (if has_bit r ''open'' then ''open''
      else if has_bit r ''closed'' then ''closed''
      else if has_bit r ''moving'' \<and> has_bit r ''direction_closing'' then ''closing''
      else if has_bit r ''moving'' then ''opening''
      else if has_bit r ''venting'' then ''venting''
      else ''unknown_or_stopped'')"

record transition =
  tn_seq :: nat
  tn_time_s :: rat
  tn_relative_s :: rat
  tn_status_hex :: string
  tn_state :: string
  tn_source :: string
  tn_hex :: string

definition transition_of :: "rat \<Rightarrow> log_record \<Rightarrow> transition" where
  "transition_of start_s r =
     \<lparr>tn_seq = lg_seq r, tn_time_s = record_time_s r, tn_relative_s = record_time_s r - start_s,
      tn_status_hex = lg_status_hex r, tn_state = record_state r, tn_source = lg_source r, tn_hex = lg_hex r\<rparr>"

fun transitions_from :: "rat \<Rightarrow> rat \<Rightarrow> string option \<Rightarrow> log_record list \<Rightarrow> transition list" where
  "transitions_from start_s end_s last_status [] = []"
| "transitions_from start_s end_s last_status (r # rs) =
     (if record_time_s r < start_s \<or> end_s < record_time_s r then transitions_from start_s end_s last_status rs
      else if Some (lg_status_hex r) = last_status then transitions_from start_s end_s last_status rs
      else transition_of start_s r # transitions_from start_s end_s (Some (lg_status_hex r)) rs)"

definition transitions_between :: "log_record list \<Rightarrow> rat \<Rightarrow> rat \<Rightarrow> transition list" where
  "transitions_between statuses start_s end_s = transitions_from start_s end_s None statuses"

definition find_endpoint :: "log_record list \<Rightarrow> rat \<Rightarrow> string \<Rightarrow> rat \<Rightarrow> log_record option" where
  "find_endpoint statuses command_s target_bit ignore_old_end_state_s =
     find (\<lambda>r. \<not> record_time_s r < command_s + ignore_old_end_state_s \<and> has_bit r target_bit) statuses"

record endpoint_facts =
  ef_seq :: nat
  ef_log_time_s :: rat
  ef_relative_s :: rat
  ef_status_hex :: string
  ef_hex :: string
  ef_state :: string
  ef_transitions :: "transition list"

record video_facts =
  vf_start_log_time_s :: rat
  vf_start_relative_s :: rat
  vf_minus_video_s :: rat

record aligned_cycle =
  ac_direction :: string
  ac_action :: string
  ac_command_seq :: nat
  ac_command_s :: rat
  ac_command_relative_s :: rat
  ac_command_hex :: string
  ac_video_duration_s :: "rat option"
  ac_error :: "string option"
  ac_endpoint :: "endpoint_facts option"
  ac_video :: "video_facts option"

definition endpoint_of :: "log_record list \<Rightarrow> rat \<Rightarrow> log_record \<Rightarrow> endpoint_facts" where
  "endpoint_of statuses command_s r =
     \<lparr>ef_seq = lg_seq r, ef_log_time_s = record_time_s r, ef_relative_s = record_time_s r - command_s,
      ef_status_hex = lg_status_hex r, ef_hex = lg_hex r, ef_state = record_state r,
      ef_transitions = transitions_between statuses command_s (record_time_s r + 2)\<rparr>"

definition video_of :: "rat \<Rightarrow> rat \<Rightarrow> rat \<Rightarrow> video_facts" where
  "video_of command_s endpoint_s video_s =
     \<lparr>vf_start_log_time_s = endpoint_s - video_s, vf_start_relative_s = endpoint_s - video_s - command_s,
      vf_minus_video_s = endpoint_s - command_s - video_s\<rparr>"

text \<open>The curves of the lookup file, as the duration they give for a direction when it is a number.\<close>

type_synonym curves = "string \<Rightarrow> rat option"

definition align_command :: "log_record list \<Rightarrow> curves \<Rightarrow> rat \<Rightarrow> rat \<Rightarrow> log_record \<Rightarrow> aligned_cycle" where
  "align_command statuses curves ignore_old_end_state_s first_record_s r =
     (let direction = (if lg_action r = ''open'' then ''opening'' else ''closing'');
          command_s = record_time_s r;
          target_bit = (case map_of TARGET_BITS (lg_action r) of Some t \<Rightarrow> t | None \<Rightarrow> []);
          c = \<lparr>ac_direction = direction, ac_action = lg_action r, ac_command_seq = lg_seq r,
               ac_command_s = command_s, ac_command_relative_s = command_s - first_record_s,
               ac_command_hex = lg_action_hex r, ac_video_duration_s = curves direction, ac_error = None,
               ac_endpoint = None, ac_video = None\<rparr>
      in case find_endpoint statuses command_s target_bit ignore_old_end_state_s of
           None \<Rightarrow> c\<lparr>ac_error := Some (''no HCP '' @ target_bit @ '' endpoint after command'')\<rparr>
         | Some e \<Rightarrow>
             c\<lparr>ac_endpoint := Some (endpoint_of statuses command_s e),
               ac_video := map_option (video_of command_s (record_time_s e)) (curves direction)\<rparr>)"

definition first_record_s :: "log_record list \<Rightarrow> rat" where
  "first_record_s records = (case records of [] \<Rightarrow> 0 | r # _ \<Rightarrow> record_time_s r)"

definition analyze_alignment :: "persistent_log \<Rightarrow> curves \<Rightarrow> rat \<Rightarrow> aligned_cycle list" where
  "analyze_alignment plog curves ignore_old_end_state_s =
     map (align_command (status_records (pl_records plog)) curves ignore_old_end_state_s
           (first_record_s (pl_records plog)))
       (command_records (pl_records plog))"

subsection \<open>The summary\<close>

text \<open>\<open>f"{x:.3f}"\<close>.\<close>

definition fixed3 :: "rat \<Rightarrow> string" where
  "fixed3 x =
     (let n = nat (py_round (\<bar>x\<bar> * 1000))
      in (if x < 0 then ''-'' else []) @ dec_nat (n div 1000) @ ''.'' @ zfill 3 (dec_nat (n mod 1000)))"

definition format_float :: "rat option \<Rightarrow> string" where
  "format_float value = (case value of None \<Rightarrow> [] | Some x \<Rightarrow> fixed3 x)"

definition table_row :: "aligned_cycle \<Rightarrow> string" where
  "table_row c =
     ''| '' @ ac_direction c @ '' | '' @ py_str_int (int (ac_command_seq c)) @ '' | '' @
     (case ac_endpoint c of None \<Rightarrow> [] | Some e \<Rightarrow> py_str_int (int (ef_seq e))) @ '' | '' @
     format_float (map_option ef_relative_s (ac_endpoint c)) @ '' | '' @
     format_float (ac_video_duration_s c) @ '' | '' @
     format_float (map_option vf_minus_video_s (ac_video c)) @ '' | '' @
     (case ac_endpoint c of Some e \<Rightarrow> ef_status_hex e
      | None \<Rightarrow> (case ac_error c of None \<Rightarrow> [] | Some msg \<Rightarrow> msg)) @ '' |''"

definition py_title :: "string \<Rightarrow> string" where
  "py_title t = (case t of [] \<Rightarrow> [] | c # cs \<Rightarrow> upper_char c # py_lower cs)"

definition quoted_s :: "string \<Rightarrow> string" where
  "quoted_s t = [CHR 0x60] @ t @ [CHR 0x60]"

definition transition_line :: "transition \<Rightarrow> string" where
  "transition_line t =
     ''  - '' @ quoted_s (''+'' @ fixed3 (tn_relative_s t) @ ''s'') @ '' '' @ quoted_s (tn_status_hex t) @ '' '' @
     tn_state t @ '' '' @ quoted_s (tn_hex t)"

definition cycle_section :: "aligned_cycle \<Rightarrow> string list" where
  "cycle_section c =
     [''## '' @ py_title (ac_direction c), []] @
     (case ac_error c of
        Some msg \<Rightarrow> [''- Error: '' @ quoted_s msg, []]
      | None \<Rightarrow>
          [''- Command sent at log time: '' @ quoted_s (fixed3 (ac_command_s c) @ ''s'')] @
          (case ac_endpoint c of
             None \<Rightarrow> []
           | Some e \<Rightarrow>
               [''- HCP endpoint after command: '' @ quoted_s (fixed3 (ef_relative_s e) @ ''s'')]) @
          (case ac_video c of
             None \<Rightarrow> []
           | Some v \<Rightarrow>
               [''- Estimated video-curve motion start after command: '' @
                quoted_s (fixed3 (vf_start_relative_s v) @ ''s'')]) @
          [''- Status transitions:''] @
          (case ac_endpoint c of None \<Rightarrow> [] | Some e \<Rightarrow> map transition_line (ef_transitions e)) @ [[]])"

definition summary_head :: "string list" where
  "summary_head =
     [''# HCP To Video Timing Alignment'', [],
      ''The existing ArUco-derived opening and closing curves are used as the motion shape.'',
      ''Each HCP endpoint bit is treated as the fully stopped endpoint, so the residual is a combined command-to-motion-start and endpoint-report offset.'',
      [],
      ''| Direction | Command seq | Endpoint seq | HCP duration s | Video duration s | Combined offset s | Endpoint status |'',
      ''| --- | ---: | ---: | ---: | ---: | ---: | --- |'']"

definition summary_text :: "aligned_cycle list \<Rightarrow> string" where
  "summary_text cycles =
     py_join [CHR 0x0A] (summary_head @ map table_row cycles @ [[]] @ concat (map cycle_section cycles)) @ [CHR 0x0A]"

subsection \<open>Facts about the alignment\<close>

lemma transitions_adjacent:
  "distinct_adj (map tn_status_hex (transitions_from a b old rs)) \<and>
   (transitions_from a b old rs = [] \<or> Some (tn_status_hex (hd (transitions_from a b old rs))) \<noteq> old)"
  by (induction a b old rs rule: transitions_from.induct)
    (auto simp: transition_of_def distinct_adj_Cons neq_Nil_conv split: if_splits)

lemma transitions_window:
  "t \<in> set (transitions_from a b old rs) \<Longrightarrow>
    a \<le> tn_time_s t \<and> tn_time_s t \<le> b \<and> tn_relative_s t = tn_time_s t - a"
  by (induction a b old rs rule: transitions_from.induct) (auto simp: transition_of_def split: if_splits)

lemma transitions_complete:
  "r \<in> set rs \<Longrightarrow> a \<le> record_time_s r \<Longrightarrow> record_time_s r \<le> b \<Longrightarrow>
    Some (lg_status_hex r) = old \<or> lg_status_hex r \<in> tn_status_hex ` set (transitions_from a b old rs)"
  by (induction a b old rs rule: transitions_from.induct) (auto simp: transition_of_def split: if_splits)

lemma find_endpoint_first:
  assumes "find_endpoint statuses command_s target ignore_s = Some r"
  shows "\<exists>pre post. statuses = pre @ r # post \<and> command_s + ignore_s \<le> record_time_s r \<and> has_bit r target \<and>
    (\<forall>q \<in> set pre. command_s + ignore_s \<le> record_time_s q \<longrightarrow> \<not> has_bit q target)"
proof -
  obtain i where i: "i < length statuses" "r = statuses ! i" "has_bit r target" "command_s + ignore_s \<le> record_time_s r"
    "\<forall>j < i. command_s + ignore_s \<le> record_time_s (statuses ! j) \<longrightarrow> \<not> has_bit (statuses ! j) target"
    using assms by (auto simp: find_endpoint_def find_Some_iff not_less)
  then have "statuses = take i statuses @ r # drop (Suc i) statuses"
    by (simp add: id_take_nth_drop)
  with i show ?thesis
    by (intro exI [of _ "take i statuses"] exI [of _ "drop (Suc i) statuses"])
      (auto simp: in_set_conv_nth)
qed

lemma aligned_from_command:
  assumes "c \<in> set (analyze_alignment plog curves ignore_s)"
  obtains r where "r \<in> set (command_records (pl_records plog))"
    "c = align_command (status_records (pl_records plog)) curves ignore_s (first_record_s (pl_records plog)) r"
  using assms by (auto simp: analyze_alignment_def)

lemma command_target:
  assumes "r \<in> set (command_records records)"
  obtains "lg_action r = ''open''" "map_of TARGET_BITS (lg_action r) = Some ''open''"
    | "lg_action r = ''close''" "map_of TARGET_BITS (lg_action r) = Some ''closed''"
  using assms by (auto simp: command_records_def TARGET_BITS_def split: if_splits)

definition target_of :: "aligned_cycle \<Rightarrow> string" where
  "target_of c = (if ac_action c = ''open'' then ''open'' else ''closed'')"

lemma align_command_cases:
  assumes "r \<in> set (command_records records)" "c = align_command statuses curves ignore_s first r"
  shows "ac_command_s c = record_time_s r \<and>
    ac_endpoint c = map_option (endpoint_of statuses (record_time_s r))
      (find_endpoint statuses (record_time_s r) (target_of c) ignore_s) \<and>
    ac_video_duration_s c = curves (if ac_action c = ''open'' then ''opening'' else ''closing'') \<and>
    (\<forall>v. ac_video c = Some v \<longrightarrow> (\<exists>e d. ac_endpoint c = Some e \<and> ac_video_duration_s c = Some d \<and>
       v = video_of (record_time_s r) (ef_log_time_s e) d))"
  by (rule command_target [OF assms(1)])
    (auto simp: assms(2) align_command_def target_of_def Let_def endpoint_of_def split: option.splits)

text \<open>An aligned cycle rests on the log.  Its endpoint is the first status record, at least the ignored time after
  the command, that has the target's end-position bit; the listed transitions lie between the command and two seconds
  after the endpoint, no two neighbours have the same status, and the endpoint's status is among them; the video's start
  plus its duration is the endpoint's time.\<close>

theorem aligned_cycle_sound:
  assumes "c \<in> set (analyze_alignment plog curves ignore_s)" "ac_endpoint c = Some e" "0 \<le> ignore_s"
  shows "\<exists>pre r post. status_records (pl_records plog) = pre @ r # post \<and>
      ac_command_s c + ignore_s \<le> record_time_s r \<and> has_bit r (target_of c) \<and>
      (\<forall>q \<in> set pre. ac_command_s c + ignore_s \<le> record_time_s q \<longrightarrow> \<not> has_bit q (target_of c)) \<and>
      ef_seq e = lg_seq r \<and> ef_log_time_s e = record_time_s r \<and>
      ac_command_s c + ef_relative_s e = ef_log_time_s e \<and>
      distinct_adj (map tn_status_hex (ef_transitions e)) \<and>
      (\<forall>t \<in> set (ef_transitions e). ac_command_s c \<le> tn_time_s t \<and> tn_time_s t \<le> ef_log_time_s e + 2) \<and>
      lg_status_hex r \<in> tn_status_hex ` set (ef_transitions e) \<and>
      (\<forall>v d. ac_video c = Some v \<longrightarrow> ac_video_duration_s c = Some d \<longrightarrow>
        vf_start_log_time_s v + d = ef_log_time_s e \<and> vf_minus_video_s v + d = ef_relative_s e)"
proof -
  let ?st = "status_records (pl_records plog)"
  obtain cmd where cmd: "cmd \<in> set (command_records (pl_records plog))"
    "c = align_command ?st curves ignore_s (first_record_s (pl_records plog)) cmd"
    by (rule aligned_from_command [OF assms(1)])
  note facts = align_command_cases [OF cmd]
  obtain r where r: "find_endpoint ?st (record_time_s cmd) (target_of c) ignore_s = Some r"
    "e = endpoint_of ?st (record_time_s cmd) r"
    using facts assms(2)
    by (cases "find_endpoint ?st (record_time_s cmd) (target_of c) ignore_s") auto
  obtain pre post where p: "?st = pre @ r # post" "record_time_s cmd + ignore_s \<le> record_time_s r"
    "has_bit r (target_of c)"
    "\<forall>q \<in> set pre. record_time_s cmd + ignore_s \<le> record_time_s q \<longrightarrow> \<not> has_bit q (target_of c)"
    using find_endpoint_first [OF r(1)] by blast
  have "lg_status_hex r \<in> tn_status_hex ` set (ef_transitions e)"
    using transitions_complete [of r ?st "record_time_s cmd" "record_time_s r + 2" None] p assms(3)
    by (simp add: r(2) endpoint_of_def transitions_between_def)
  moreover have "distinct_adj (map tn_status_hex (ef_transitions e))"
    using transitions_adjacent by (simp add: r(2) endpoint_of_def transitions_between_def)
  moreover have "\<forall>t \<in> set (ef_transitions e). record_time_s cmd \<le> tn_time_s t \<and> tn_time_s t \<le> ef_log_time_s e + 2"
    using transitions_window by (fastforce simp: r(2) endpoint_of_def transitions_between_def)
  moreover have "\<forall>v d. ac_video c = Some v \<longrightarrow> ac_video_duration_s c = Some d \<longrightarrow>
      vf_start_log_time_s v + d = ef_log_time_s e \<and> vf_minus_video_s v + d = ef_relative_s e"
    using facts assms(2) r(2) by (auto simp: video_of_def endpoint_of_def)
  ultimately show ?thesis
    using p facts by (intro exI [of _ pre] exI [of _ r] exI [of _ post]) (simp add: r(2) endpoint_of_def)
qed

definition sample_record :: "nat \<Rightarrow> string \<Rightarrow> nat \<Rightarrow> nat \<Rightarrow> log_record" where
  "sample_record n kind ms status =
     \<lparr>lg_seq = n, lg_type = kind, lg_source = ''broadcast'', lg_phase = ''sent'', lg_reason = ''none'', lg_flags = 1,
      lg_crc = ''ok'', lg_first_ms = ms, lg_last_ms = ms, lg_first_micros = 0, lg_last_micros = 0, lg_repeat = 1,
      lg_status = status, lg_status_hex = hex_word status, lg_action = ''open'', lg_action_hex = ''0x1001'',
      lg_state = 0, lg_bits = log_status_bits status, lg_hex = []\<rparr>"

definition sample_log :: persistent_log where
  "sample_log =
     \<lparr>pl_format_version = None, pl_dropped_records = 0, pl_dropped_bytes = 0,
      pl_records = [sample_record 1 ''command'' 1000 0, sample_record 2 ''frame'' 9000 1]\<rparr>"

lemma sample_cycle:
  "ac_endpoint (hd (analyze_alignment sample_log (\<lambda>_. Some 7) 1)) =
     Some (endpoint_of [sample_record 2 ''frame'' 9000 1] 1 (sample_record 2 ''frame'' 9000 1))"
  "hd (analyze_alignment sample_log (\<lambda>_. Some 7) 1) \<in> set (analyze_alignment sample_log (\<lambda>_. Some 7) 1)"
  "ac_command_s (hd (analyze_alignment sample_log (\<lambda>_. Some 7) 1)) = 1"
  by (simp_all add: sample_log_def analyze_alignment_def command_records_def status_records_def sample_record_def
      TARGET_BITS_def align_command_def find_endpoint_def has_bit_def log_status_bits_def STATUS_BITS_def
      record_time_s_def Let_def)

theorem aligned_cycle_sound_witness:
  "\<exists>e. ac_endpoint (hd (analyze_alignment sample_log (\<lambda>_. Some 7) 1)) = Some e \<and> 1 + ef_relative_s e = ef_log_time_s e"
  using aligned_cycle_sound [OF sample_cycle(2,1)] by (auto simp: sample_cycle)

end
