(* ===== verification/Hcp_Log_Writer.thy ===== *)
theory Hcp_Log_Writer
  imports Hcp_Timing
begin

text \<open>
  The writer of the persistent HCP log in \<open>components/uapbridge_esp/uapbridge_esp.cpp\<close>: one record as bytes, the
  merging of a repeated record into the last one, the start, stop and clear requests, and the download, which sends the
  used part of the buffer.  A second definition keeps the log as a list of entries; the last section shows that the
  buffer always holds the encoding of that list and that \<open>tools/analyze_hcp_timing.py\<close> reads exactly its entries.
\<close>

unbundle bit_operations_syntax

subsection \<open>Little-endian fields\<close>

definition plog_u16 :: "16 word \<Rightarrow> bytes" where
  "plog_u16 v = [ucast v, ucast (drop_bit 8 v)]"

definition plog_u32 :: "32 word \<Rightarrow> bytes" where
  "plog_u32 v = [ucast v, ucast (drop_bit 8 v), ucast (drop_bit 16 v), ucast (drop_bit 24 v)]"

lemma length_plog [simp]: "length (plog_u16 v) = 2" "length (plog_u32 w) = 4"
  by (simp_all add: plog_u16_def plog_u32_def)

lemma le_bytes_u16:
  "unat (ucast v :: byte) OR push_bit 8 (unat (ucast (drop_bit 8 v) :: byte)) = unat v" for v :: "16 word"
  apply (rule bit_eqI)
  apply (auto simp: bit_simps not_less)
  apply (drule bit_imp_le_length, simp)+
  done

lemma le_bytes_u32:
  "unat (ucast v :: byte) OR push_bit 8 (unat (ucast (drop_bit 8 v) :: byte)) OR
   push_bit 16 (unat (ucast (drop_bit 16 v) :: byte)) OR push_bit 24 (unat (ucast (drop_bit 24 v) :: byte)) = unat v"
  (is "?l = _") for v :: "32 word"
proof (rule bit_eqI)
  fix n :: nat
  consider "n < 8" | "8 \<le> n" "n < 16" | "16 \<le> n" "n < 24" | "24 \<le> n" "n < 32" | "32 \<le> n"
    by linarith
  then show "bit ?l n \<longleftrightarrow> bit (unat v) n"
    by cases (auto simp: bit_simps dest: bit_imp_le_length)
qed

lemma read_u16_0: "read_u16_at (a # b # rest) 0 = unat a OR push_bit 8 (unat b)"
  by (simp add: read_u16_at_def)

lemma read_u32_0:
  "read_u32_at (a # b # c # d # rest) 0 =
     unat a OR push_bit 8 (unat b) OR push_bit 16 (unat c) OR push_bit 24 (unat d)"
  by (simp add: read_u32_at_def numeral_2_eq_2 numeral_3_eq_3)

lemma read_plog:
  "read_u16_at (plog_u16 v @ rest) 0 = unat v"
  "read_u32_at (plog_u32 w @ rest) 0 = unat w"
  unfolding plog_u16_def plog_u32_def append_Cons append_Nil read_u16_0 read_u32_0
  by (rule le_bytes_u16, rule le_bytes_u32)

lemma read_skip:
  "length pre \<le> n \<Longrightarrow> read_u16_at (pre @ rest) n = read_u16_at rest (n - length pre)"
  "length pre \<le> n \<Longrightarrow> read_u32_at (pre @ rest) n = read_u32_at rest (n - length pre)"
  "0 < n \<Longrightarrow> read_u16_at (b # rest) n = read_u16_at rest (n - 1)"
  "0 < n \<Longrightarrow> read_u32_at (b # rest) n = read_u32_at rest (n - 1)"
  by (auto simp: read_u16_at_def read_u32_at_def nth_append Suc_diff_le)

lemmas read_fields = read_plog read_skip

subsection \<open>Records\<close>

text \<open>The fields of a record, without its length byte and data length.\<close>

record entry =
  en_type :: byte
  en_flags :: byte
  en_source :: byte
  en_phase :: byte
  en_reason :: byte
  en_seq :: "32 word"
  en_first_ms :: "32 word"
  en_last_ms :: "32 word"
  en_first_us :: "32 word"
  en_last_us :: "32 word"
  en_status :: "16 word"
  en_action :: "16 word"
  en_state :: "16 word"
  en_repeat :: "16 word"
  en_data :: bytes

definition DATA_LEN :: nat where
  "DATA_LEN = 32"

definition encode_payload :: "entry \<Rightarrow> bytes" where
  "encode_payload e =
     [en_type e, en_flags e, en_source e, en_phase e, en_reason e, of_nat (length (en_data e))] @
     plog_u32 (en_seq e) @ plog_u32 (en_first_ms e) @ plog_u32 (en_last_ms e) @ plog_u32 (en_first_us e) @
     plog_u32 (en_last_us e) @ plog_u16 (en_status e) @ plog_u16 (en_action e) @ plog_u16 (en_state e) @
     plog_u16 (en_repeat e) @ en_data e"

definition encode_entry :: "entry \<Rightarrow> bytes" where
  "encode_entry e = of_nat (35 + length (en_data e)) # encode_payload e"

abbreviation encode_log :: "entry list \<Rightarrow> bytes" where
  "encode_log es \<equiv> concat (map encode_entry es)"

lemma length_encode_entry [simp]: "length (encode_entry e) = 35 + length (en_data e)"
  by (simp add: encode_entry_def encode_payload_def)

subsection \<open>What the decoder reads\<close>

text \<open>The record the analyzer should show for an entry.\<close>

definition shown :: "entry \<Rightarrow> log_record" where
  "shown e =
     \<lparr>lg_seq = unat (en_seq e),
      lg_type = name_or_unknown TYPE_NAMES (unat (en_type e)),
      lg_source = name_or_unknown SOURCE_NAMES (unat (en_source e)),
      lg_phase = name_or_unknown PHASE_NAMES (unat (en_phase e)),
      lg_reason = name_or_unknown REASON_NAMES (unat (en_reason e)),
      lg_flags = unat (en_flags e),
      lg_crc = (if en_flags e AND 1 \<noteq> 0 then ''ok'' else ''unknown_or_bad''),
      lg_first_ms = unat (en_first_ms e), lg_last_ms = unat (en_last_ms e),
      lg_first_micros = unat (en_first_us e), lg_last_micros = unat (en_last_us e),
      lg_repeat = (if en_repeat e = 0 then 1 else unat (en_repeat e)),
      lg_status = unat (en_status e), lg_status_hex = hex_word (unat (en_status e)),
      lg_action = name_or_unknown ACTION_NAMES (unat (en_action e)), lg_action_hex = hex_word (unat (en_action e)),
      lg_state = unat (en_state e), lg_bits = log_status_bits (unat (en_status e)),
      lg_hex = hex_upper_bytes (en_data e)\<rparr>"

lemma payload_fields:
  defines "p e \<equiv> encode_payload e"
  shows "p e ! 0 = en_type e" "p e ! 1 = en_flags e" "p e ! 2 = en_source e" "p e ! 3 = en_phase e"
    "p e ! 4 = en_reason e" "p e ! 5 = of_nat (length (en_data e))" "drop 34 (p e) = en_data e"
  by (simp_all add: p_def encode_payload_def eval_nat_numeral)

lemma payload_words:
  defines "p e \<equiv> encode_payload e"
  shows "read_u32_at (p e) 6 = unat (en_seq e)"
    "read_u32_at (p e) 10 = unat (en_first_ms e)"
    "read_u32_at (p e) 14 = unat (en_last_ms e)"
    "read_u32_at (p e) 18 = unat (en_first_us e)"
    "read_u32_at (p e) 22 = unat (en_last_us e)"
    "read_u16_at (p e) 26 = unat (en_status e)"
    "read_u16_at (p e) 28 = unat (en_action e)"
    "read_u16_at (p e) 30 = unat (en_state e)"
    "read_u16_at (p e) 32 = unat (en_repeat e)"
  by (simp_all add: p_def encode_payload_def read_fields)

lemma decode_encoded [simp]:
  assumes "length (en_data e) < 256"
  shows "decode_payload (encode_payload e) = shown e"
  using assms
  by (simp add: decode_payload_def shown_def payload_fields payload_words Let_def unat_of_nat unat_eq_0
      del: One_nat_def)

text \<open>The data of an entry fits its length byte.\<close>

definition entry_ok :: "entry \<Rightarrow> bool" where
  "entry_ok e \<longleftrightarrow> length (en_data e) \<le> DATA_LEN"

lemma with_record_sel [simp]:
  "sc_records (with_record r s) = r # sc_records s"
  "sc_dropped (with_record r s) = sc_dropped s"
  "sc_left (with_record r s) = sc_left s"
  by (simp_all add: with_record_def)

lemma scan_entry:
  assumes "entry_ok e"
  shows "scan_log (encode_entry e @ rest) = with_record (shown e) (scan_log rest)"
proof -
  have small: "length (en_data e) < 221"
    using assms by (simp add: entry_ok_def DATA_LEN_def)
  let ?n = "35 + length (en_data e)"
  have hd: "encode_entry e @ rest = of_nat ?n # encode_payload e @ rest"
    by (simp add: encode_entry_def)
  have len: "length (encode_payload e) = 34 + length (en_data e)"
    using length_encode_entry [of e] by (simp add: encode_entry_def)
  have n: "unat (of_nat ?n :: byte) = ?n"
    using small by (simp only: unat_of_nat) simp
  have d: "unat (encode_payload e ! 5) = length (en_data e)"
    using small by (simp add: payload_fields unat_of_nat)
  have five: "(encode_payload e @ rest') ! 5 = encode_payload e ! 5" for rest'
    by (simp add: nth_append len)
  show ?thesis
    using small
    by (subst scan_log.simps) (simp only: hd n list.sel drop_Cons' len, simp add: len d five Let_def)
qed

lemma scan_entries:
  assumes "\<forall>e \<in> set es. entry_ok e"
  shows "scan_log (encode_log es @ rest) =
    (scan_log rest)\<lparr>sc_records := map shown es @ sc_records (scan_log rest)\<rparr>"
  using assms by (induction es) (simp_all add: scan_entry with_record_def)

lemma scan_nil [simp]: "scan_log [] = \<lparr>sc_records = [], sc_dropped = 0, sc_left = 0\<rparr>"
  by (simp add: scan_log.simps)

text \<open>A download that breaks off inside a record: the bytes of that record are the ones left over.\<close>

lemma scan_partial:
  assumes "entry_ok e" "0 < k" "k < length (encode_entry e)"
  shows "scan_log (take k (encode_entry e)) = \<lparr>sc_records = [], sc_dropped = 1, sc_left = k\<rparr>"
proof -
  let ?n = "35 + length (en_data e)"
  have n: "unat (of_nat ?n :: byte) = ?n"
    using assms(1) by (simp only: unat_of_nat) (simp add: entry_ok_def DATA_LEN_def)
  have "take k (encode_entry e) = of_nat ?n # take (k - 1) (encode_payload e)"
    using assms(2) by (cases k) (simp_all add: encode_entry_def)
  moreover have "length (take k (encode_entry e)) = k"
    using assms(3) by simp
  ultimately show ?thesis
    using assms(3) n by (subst scan_log.simps) (simp add: Let_def del: of_nat_add)
qed

subsection \<open>The writer\<close>

text \<open>
  What \<open>append_persistent_log_record_\<close> is called with, and what it reads of the clock (\<open>millis()\<close>, \<open>micros()\<close>) and of
  the door state while it runs.  The data pointer is \<open>None\<close> or the bytes it points to.
\<close>

record plog_event =
  ev_type :: byte
  ev_source :: byte
  ev_phase :: byte
  ev_reason :: byte
  ev_action :: "16 word"
  ev_status :: "16 word"
  ev_data :: "bytes option"
  ev_len :: nat
  ev_flags :: byte
  ev_timestamp_us :: "32 word"
  ev_now_ms :: "32 word"
  ev_now_us :: "32 word"
  ev_state :: "16 word"

definition PLOG_TYPE_CONTROL :: byte where
  "PLOG_TYPE_CONTROL = 7"

definition NO_RECORD :: nat where
  "NO_RECORD = 0xFFFFFFFF"

definition TARGET_RAM_CAPACITY :: nat where
  "TARGET_RAM_CAPACITY = 6 * 1024 * 1024"

definition FALLBACK_RAM_CAPACITY :: nat where
  "FALLBACK_RAM_CAPACITY = 16384"

definition u32 :: "nat \<Rightarrow> nat" where
  "u32 n = n mod 2 ^ 32"

record log_buffer =
  pw_enabled :: bool
  pw_ready :: bool
  pw_ram :: "bytes option"
  pw_capacity :: nat
  pw_used :: nat
  pw_last_pos :: nat
  pw_last_len :: nat
  pw_next_seq :: "32 word"
  pw_dropped_records :: "32 word"
  pw_dropped_bytes :: "32 word"

definition poke :: "nat \<Rightarrow> bytes \<Rightarrow> bytes \<Rightarrow> bytes" where
  "poke pos bs ram = take pos ram @ bs @ drop (pos + length bs) ram"

definition stored_len :: "plog_event \<Rightarrow> nat" where
  "stored_len ev = (if ev_len ev > DATA_LEN then DATA_LEN else ev_len ev)"

definition total_len :: "plog_event \<Rightarrow> nat" where
  "total_len ev = 1 + (34 + stored_len ev)"

definition event_us :: "plog_event \<Rightarrow> 32 word" where
  "event_us ev = (if ev_timestamp_us ev = 0 then ev_now_us ev else ev_timestamp_us ev)"

text \<open>Whether the last record in the buffer is one this event repeats.\<close>

definition last_reachable :: "plog_event \<Rightarrow> log_buffer \<Rightarrow> bytes \<Rightarrow> bool" where
  "last_reachable ev s ram \<longleftrightarrow>
     pw_last_pos s \<noteq> NO_RECORD \<and> pw_last_len s = total_len ev \<and>
     u32 (pw_last_pos s + total_len ev) \<le> pw_used s \<and> unat (ram ! pw_last_pos s) = total_len ev"

definition same_record :: "plog_event \<Rightarrow> bytes \<Rightarrow> bool" where
  "same_record ev payload \<longleftrightarrow>
     payload ! 0 = ev_type ev \<and> payload ! 1 = ev_flags ev \<and> payload ! 2 = ev_source ev \<and>
     payload ! 3 = ev_phase ev \<and> payload ! 4 = ev_reason ev \<and> unat (payload ! 5) = stored_len ev \<and>
     read_u16_at payload 26 = unat (ev_status ev) \<and> read_u16_at payload 28 = unat (ev_action ev) \<and>
     read_u16_at payload 30 = unat (ev_state ev) \<and>
     (case ev_data ev of
        Some d \<Rightarrow> stored_len ev > 0 \<longrightarrow> take (stored_len ev) (drop 34 payload) = take (stored_len ev) d
      | None \<Rightarrow> True)"

definition mergeable :: "plog_event \<Rightarrow> log_buffer \<Rightarrow> bytes \<Rightarrow> bool" where
  "mergeable ev s ram \<longleftrightarrow>
     last_reachable ev s ram \<and> same_record ev (drop (pw_last_pos s + 1) ram) \<and>
     read_u16_at (drop (pw_last_pos s + 1) ram) 32 < 0xFFFF"

definition bump_repeat :: "plog_event \<Rightarrow> nat \<Rightarrow> bytes \<Rightarrow> bytes" where
  "bump_repeat ev pos ram =
     poke (pos + 1 + 32) (plog_u16 (of_nat (read_u16_at (drop (pos + 1) ram) 32 + 1)))
       (poke (pos + 1 + 22) (plog_u32 (event_us ev)) (poke (pos + 1 + 14) (plog_u32 (ev_now_ms ev)) ram))"

text \<open>The new record, built in a zeroed array.\<close>

definition record_data :: "plog_event \<Rightarrow> bytes" where
  "record_data ev =
     (case ev_data ev of
        Some d \<Rightarrow> take (stored_len ev) d
      | None \<Rightarrow> replicate (stored_len ev) 0)"

definition new_entry :: "plog_event \<Rightarrow> 32 word \<Rightarrow> entry" where
  "new_entry ev seq =
     \<lparr>en_type = ev_type ev, en_flags = ev_flags ev, en_source = ev_source ev, en_phase = ev_phase ev,
      en_reason = ev_reason ev, en_seq = seq, en_first_ms = ev_now_ms ev, en_last_ms = ev_now_ms ev,
      en_first_us = event_us ev, en_last_us = event_us ev, en_status = ev_status ev, en_action = ev_action ev,
      en_state = ev_state ev, en_repeat = 1, en_data = record_data ev\<rparr>"

definition write_record :: "plog_event \<Rightarrow> bytes \<Rightarrow> log_buffer \<Rightarrow> log_buffer" where
  "write_record ev ram s =
     s\<lparr>pw_ram := Some (poke (pw_used s) (encode_entry (new_entry ev (pw_next_seq s))) ram),
       pw_next_seq := pw_next_seq s + 1, pw_used := u32 (pw_used s + total_len ev),
       pw_last_pos := pw_used s, pw_last_len := total_len ev\<rparr>"

definition drop_record :: "nat \<Rightarrow> log_buffer \<Rightarrow> log_buffer" where
  "drop_record n s =
     s\<lparr>pw_dropped_records := pw_dropped_records s + 1, pw_dropped_bytes := pw_dropped_bytes s + of_nat n\<rparr>"

definition append_record :: "plog_event \<Rightarrow> log_buffer \<Rightarrow> log_buffer" where
  "append_record ev s =
     (if \<not> pw_enabled s \<and> ev_type ev \<noteq> PLOG_TYPE_CONTROL then s
      else case (if pw_ready s \<and> pw_capacity s \<noteq> 0 then pw_ram s else None) of
        None \<Rightarrow> drop_record (ev_len ev) s
      | Some ram \<Rightarrow>
          if mergeable ev s ram then s\<lparr>pw_ram := Some (bump_repeat ev (pw_last_pos s) ram)\<rparr>
          else if u32 (pw_used s + total_len ev) > pw_capacity s then drop_record (total_len ev) s
          else write_record ev ram s)"

text \<open>
  \<open>setup_persistent_log_\<close>: the buffer is allocated once; \<open>psram\<close> is the memory \<open>heap_caps_malloc\<close> returned, if it did.
\<close>

definition setup_buffers :: "bytes option \<Rightarrow> log_buffer \<Rightarrow> log_buffer" where
  "setup_buffers psram s =
     (if pw_ram s \<noteq> None then s
      else case psram of
        Some memory \<Rightarrow> s\<lparr>pw_ram := Some memory, pw_capacity := TARGET_RAM_CAPACITY\<rparr>
      | None \<Rightarrow> s\<lparr>pw_ram := Some (replicate FALLBACK_RAM_CAPACITY 0), pw_capacity := FALLBACK_RAM_CAPACITY\<rparr>)"

definition setup_log :: "bytes option \<Rightarrow> log_buffer \<Rightarrow> log_buffer" where
  "setup_log psram s =
     (let t = setup_buffers psram s in t\<lparr>pw_ready := pw_ram t \<noteq> None \<and> pw_capacity t > 0\<rparr>)"

definition reset_store :: "log_buffer \<Rightarrow> log_buffer" where
  "reset_store s =
     s\<lparr>pw_next_seq := 1, pw_used := 0, pw_dropped_records := 0, pw_dropped_bytes := 0,
       pw_last_pos := NO_RECORD, pw_last_len := 0\<rparr>"

definition clear_log :: "bytes option \<Rightarrow> log_buffer \<Rightarrow> log_buffer" where
  "clear_log psram s = reset_store (setup_log psram s)"

definition downloaded :: "log_buffer \<Rightarrow> bytes" where
  "downloaded s = (case pw_ram s of None \<Rightarrow> [] | Some ram \<Rightarrow> take (pw_used s) ram)"

text \<open>
  The requests of the debug server and the events in between; the records that start and stop write are events with type
  control.
\<close>

datatype log_op = Start "bytes option" plog_event | Stop plog_event | Clear "bytes option" |
  Format "bytes option" | Log plog_event

definition control_event :: "byte \<Rightarrow> plog_event \<Rightarrow> plog_event" where
  "control_event phase ev =
     ev\<lparr>ev_type := PLOG_TYPE_CONTROL, ev_source := 0, ev_phase := phase, ev_reason := 0, ev_action := 0,
        ev_data := None, ev_len := 0, ev_flags := 0\<rparr>"

fun log_step :: "log_op \<Rightarrow> log_buffer \<Rightarrow> log_buffer" where
  "log_step (Start psram ev) s = append_record (control_event 1 ev) ((setup_log psram s)\<lparr>pw_enabled := True\<rparr>)"
| "log_step (Stop ev) s = (append_record (control_event 2 ev) s)\<lparr>pw_enabled := False\<rparr>"
| "log_step (Clear psram) s = clear_log psram s"
| "log_step (Format psram) s = clear_log psram (setup_log psram (s\<lparr>pw_enabled := False\<rparr>))"
| "log_step (Log ev) s = append_record ev s"

definition initial_buffer :: log_buffer where
  "initial_buffer =
     \<lparr>pw_enabled = False, pw_ready = False, pw_ram = None, pw_capacity = FALLBACK_RAM_CAPACITY, pw_used = 0,
      pw_last_pos = NO_RECORD, pw_last_len = 0, pw_next_seq = 1, pw_dropped_records = 0, pw_dropped_bytes = 0\<rparr>"

subsection \<open>The log as a list of entries\<close>

record abs_log =
  al_enabled :: bool
  al_capacity :: "nat option"
  al_entries :: "entry list"
  al_seq :: "32 word"

definition repeats :: "plog_event \<Rightarrow> entry \<Rightarrow> bool" where
  "repeats ev e \<longleftrightarrow>
     en_type e = ev_type ev \<and> en_flags e = ev_flags ev \<and> en_source e = ev_source ev \<and> en_phase e = ev_phase ev \<and>
     en_reason e = ev_reason ev \<and> en_status e = ev_status ev \<and> en_action e = ev_action ev \<and>
     en_state e = ev_state ev \<and> en_data e = record_data ev \<and> unat (en_repeat e) < 0xFFFF"

definition bumped :: "plog_event \<Rightarrow> entry \<Rightarrow> entry" where
  "bumped ev e = e\<lparr>en_last_ms := ev_now_ms ev, en_last_us := event_us ev, en_repeat := en_repeat e + 1\<rparr>"

definition record_event :: "plog_event \<Rightarrow> abs_log \<Rightarrow> abs_log" where
  "record_event ev l =
     (if \<not> al_enabled l \<and> ev_type ev \<noteq> PLOG_TYPE_CONTROL then l
      else case al_capacity l of
        None \<Rightarrow> l
      | Some capacity \<Rightarrow>
          if al_entries l \<noteq> [] \<and> repeats ev (last (al_entries l))
          then l\<lparr>al_entries := butlast (al_entries l) @ [bumped ev (last (al_entries l))]\<rparr>
          else if length (encode_log (al_entries l)) + total_len ev > capacity then l
          else l\<lparr>al_entries := al_entries l @ [new_entry ev (al_seq l)], al_seq := al_seq l + 1\<rparr>)"

definition allocate :: "bytes option \<Rightarrow> abs_log \<Rightarrow> abs_log" where
  "allocate psram l =
     (if al_capacity l \<noteq> None then l
      else l\<lparr>al_capacity := Some (if psram = None then FALLBACK_RAM_CAPACITY else TARGET_RAM_CAPACITY)\<rparr>)"

fun abs_step :: "log_op \<Rightarrow> abs_log \<Rightarrow> abs_log" where
  "abs_step (Start psram ev) l = record_event (control_event 1 ev) ((allocate psram l)\<lparr>al_enabled := True\<rparr>)"
| "abs_step (Stop ev) l = (record_event (control_event 2 ev) l)\<lparr>al_enabled := False\<rparr>"
| "abs_step (Clear psram) l = (allocate psram l)\<lparr>al_entries := [], al_seq := 1\<rparr>"
| "abs_step (Format psram) l = (allocate psram l)\<lparr>al_enabled := False, al_entries := [], al_seq := 1\<rparr>"
| "abs_step (Log ev) l = record_event ev l"

definition initial_log :: abs_log where
  "initial_log = \<lparr>al_enabled = False, al_capacity = None, al_entries = [], al_seq = 1\<rparr>"

text \<open>A pointer covers the length passed with it; allocated memory has the size asked for.\<close>

definition event_ok :: "plog_event \<Rightarrow> bool" where
  "event_ok ev \<longleftrightarrow> (case ev_data ev of None \<Rightarrow> ev_len ev = 0 | Some d \<Rightarrow> ev_len ev \<le> length d)"

definition memory_ok :: "bytes option \<Rightarrow> bool" where
  "memory_ok psram \<longleftrightarrow> (case psram of None \<Rightarrow> True | Some m \<Rightarrow> length m = TARGET_RAM_CAPACITY)"

fun op_ok :: "log_op \<Rightarrow> bool" where
  "op_ok (Start psram ev) \<longleftrightarrow> memory_ok psram"
| "op_ok (Stop ev) \<longleftrightarrow> True"
| "op_ok (Clear psram) \<longleftrightarrow> memory_ok psram"
| "op_ok (Format psram) \<longleftrightarrow> memory_ok psram"
| "op_ok (Log ev) \<longleftrightarrow> event_ok ev"

subsection \<open>The buffer holds the list\<close>

definition last_known :: "log_buffer \<Rightarrow> entry list \<Rightarrow> bool" where
  "last_known s es \<longleftrightarrow>
     (if es = [] then pw_last_pos s = NO_RECORD
      else pw_last_pos s = length (encode_log (butlast es)) \<and> pw_last_len s = length (encode_entry (last es)))"

definition holds_log :: "log_buffer \<Rightarrow> abs_log \<Rightarrow> bytes \<Rightarrow> bool" where
  "holds_log s l ram \<longleftrightarrow>
     pw_ready s \<and> al_capacity l = Some (pw_capacity s) \<and> length ram = pw_capacity s \<and> 0 < pw_capacity s \<and>
     pw_capacity s \<le> TARGET_RAM_CAPACITY \<and> pw_used s = length (encode_log (al_entries l)) \<and>
     (\<exists>rest. ram = encode_log (al_entries l) @ rest)"

definition represents :: "log_buffer \<Rightarrow> abs_log \<Rightarrow> bool" where
  "represents s l \<longleftrightarrow>
     pw_enabled s = al_enabled l \<and> pw_next_seq s = al_seq l \<and> (\<forall>e \<in> set (al_entries l). entry_ok e) \<and>
     last_known s (al_entries l) \<and>
     (case pw_ram s of
        None \<Rightarrow> al_capacity l = None \<and> al_entries l = [] \<and> pw_used s = 0
      | Some ram \<Rightarrow> holds_log s l ram)"

lemma poke_skip:
  "length a \<le> n \<Longrightarrow> poke n b (a @ c) = a @ poke (n - length a) b c"
  "0 < n \<Longrightarrow> poke n b (x # c) = x # poke (n - 1) b c"
  by (auto simp: poke_def Cons_eq_append_conv split: nat_diff_split)

lemma poke_here: "length b = length a \<Longrightarrow> poke 0 b (a @ c) = b @ c"
  by (simp add: poke_def)

lemma bump_encoded:
  assumes "unat (en_repeat e) < 0xFFFF"
  shows "bump_repeat ev (length a) (a @ encode_entry e @ rest) = a @ encode_entry (bumped ev e) @ rest"
proof -
  have "read_u16_at (drop (length a + 1) (a @ encode_entry e @ rest)) 32 = unat (en_repeat e)"
    by (simp add: encode_entry_def encode_payload_def read_fields)
  moreover have "word_of_nat (unat (en_repeat e) + 1) = en_repeat e + 1"
    by simp
  ultimately show ?thesis
    by (simp add: bump_repeat_def bumped_def encode_entry_def encode_payload_def poke_skip poke_here ac_simps)
qed

lemma same_record_encoded:
  assumes "event_ok ev" "entry_ok e" "length (en_data e) = stored_len ev"
  shows "same_record ev (encode_payload e @ rest) \<and> read_u16_at (encode_payload e @ rest) 32 < 0xFFFF \<longleftrightarrow>
    repeats ev e"
proof -
  have "unat (of_nat (stored_len ev) :: byte) = stored_len ev"
    by (simp add: unat_of_nat stored_len_def DATA_LEN_def)
  then show ?thesis
    using assms
    by (auto simp: same_record_def repeats_def encode_payload_def read_fields record_data_def event_ok_def
        stored_len_def split: option.splits simp flip: word_unat_eq_iff)
qed

lemma entry_ok_new [simp]: "event_ok ev \<Longrightarrow> entry_ok (new_entry ev seq)"
  by (auto simp: entry_ok_def new_entry_def record_data_def event_ok_def stored_len_def split: option.splits)

lemma length_new_entry: "event_ok ev \<Longrightarrow> length (encode_entry (new_entry ev seq)) = total_len ev"
  by (auto simp: new_entry_def record_data_def event_ok_def stored_len_def total_len_def split: option.splits)

lemma bumped_simps [simp]:
  "entry_ok (bumped ev e) = entry_ok e" "en_data (bumped ev e) = en_data e"
  by (simp_all add: bumped_def entry_ok_def)

lemma control_ok [simp]: "event_ok (control_event phase ev)"
  by (simp add: event_ok_def control_event_def)

lemma total_len_bound: "total_len ev \<le> 67"
  by (simp add: total_len_def stored_len_def DATA_LEN_def)

lemma mergeable_iff:
  assumes "represents s l" "pw_ram s = Some ram" "event_ok ev"
  shows "mergeable ev s ram \<longleftrightarrow> al_entries l \<noteq> [] \<and> repeats ev (last (al_entries l))"
proof (cases "al_entries l = []")
  case True
  then show ?thesis
    using assms by (simp add: represents_def last_known_def mergeable_def last_reachable_def)
next
  case False
  let ?a = "encode_log (butlast (al_entries l))" and ?e = "last (al_entries l)"
  have es: "al_entries l = butlast (al_entries l) @ [?e]"
    using False by simp
  have h: "holds_log s l ram" and k: "last_known s (al_entries l)" and ok: "entry_ok ?e"
    using assms False by (simp_all add: represents_def)
  obtain rest where ram: "ram = encode_log (al_entries l) @ rest"
    using h by (auto simp: holds_log_def)
  have enc: "encode_log (al_entries l) = ?a @ encode_entry ?e"
    by (subst es) simp
  have pos: "pw_last_pos s = length ?a" and len: "pw_last_len s = 35 + length (en_data ?e)"
    using k False by (simp_all add: last_known_def)
  have used: "pw_used s = length ?a + (35 + length (en_data ?e))"
    using h by (simp add: holds_log_def enc)
  have bound: "pw_used s \<le> TARGET_RAM_CAPACITY"
    using h ram by (auto simp: holds_log_def)
  have reach: "last_reachable ev s ram \<longleftrightarrow> length (en_data ?e) = stored_len ev"
  proof -
    have "unat (of_nat (35 + length (en_data ?e)) :: byte) = 35 + length (en_data ?e)"
      using ok by (simp only: unat_of_nat) (simp add: entry_ok_def DATA_LEN_def)
    moreover have "ram ! pw_last_pos s = of_nat (35 + length (en_data ?e))"
      by (simp add: ram enc pos encode_entry_def)
    ultimately show ?thesis
      using bound used total_len_bound [of ev]
      by (auto simp: last_reachable_def pos len total_len_def NO_RECORD_def u32_def TARGET_RAM_CAPACITY_def
          simp del: of_nat_add)
  qed
  have payload: "drop (Suc (pw_last_pos s)) ram = encode_payload ?e @ rest"
    by (simp add: ram enc pos encode_entry_def)
  show ?thesis
  proof (cases "length (en_data ?e) = stored_len ev")
    case True
    then show ?thesis
      using same_record_encoded [OF assms(3) ok True, of rest] False reach
      by (simp add: mergeable_def payload)
  next
    case False
    moreover have "\<not> repeats ev ?e"
      using False assms(3)
      by (auto simp: repeats_def record_data_def event_ok_def stored_len_def split: option.splits if_splits)
    ultimately show ?thesis
      using reach by (simp add: mergeable_def)
  qed
qed

lemma bumped_represents:
  assumes "represents s l" "pw_ram s = Some ram" "al_entries l \<noteq> []" "repeats ev (last (al_entries l))"
  shows "represents (s\<lparr>pw_ram := Some (bump_repeat ev (pw_last_pos s) ram)\<rparr>)
    (l\<lparr>al_entries := butlast (al_entries l) @ [bumped ev (last (al_entries l))]\<rparr>)"
proof -
  let ?a = "butlast (al_entries l)" and ?e = "last (al_entries l)"
  have es: "encode_log (al_entries l) = encode_log ?a @ encode_entry ?e"
    using assms(3) by (cases "al_entries l" rule: rev_cases) simp_all
  obtain rest where ram: "ram = encode_log ?a @ encode_entry ?e @ rest"
    using assms by (auto simp: represents_def holds_log_def es)
  have pos: "pw_last_pos s = length (encode_log ?a)"
    using assms by (simp add: represents_def last_known_def)
  have "bump_repeat ev (pw_last_pos s) ram = encode_log ?a @ encode_entry (bumped ev ?e) @ rest"
    using assms(4) by (simp only: ram pos bump_encoded repeats_def)
  moreover have "length ram = length (encode_log ?a @ encode_entry (bumped ev ?e) @ rest)"
    by (simp add: ram)
  ultimately show ?thesis
    using assms(1,2,3) by (auto simp: represents_def holds_log_def last_known_def es dest: in_set_butlastD)
qed

lemma written_represents:
  assumes "represents s l" "pw_ram s = Some ram" "event_ok ev"
    and fits: "length (encode_log (al_entries l)) + total_len ev \<le> pw_capacity s"
  shows "represents (write_record ev ram s)
    (l\<lparr>al_entries := al_entries l @ [new_entry ev (al_seq l)], al_seq := al_seq l + 1\<rparr>)"
proof -
  let ?log = "encode_log (al_entries l)" and ?e = "encode_entry (new_entry ev (al_seq l))"
  have h: "holds_log s l ram" and seq: "pw_next_seq s = al_seq l"
    using assms by (simp_all add: represents_def)
  obtain rest where ram: "ram = ?log @ rest"
    using h by (auto simp: holds_log_def)
  have used: "pw_used s = length ?log" and cap: "length ram = pw_capacity s" "pw_capacity s \<le> TARGET_RAM_CAPACITY"
    using h by (simp_all add: holds_log_def)
  have le: "length ?e \<le> length rest"
    using fits cap(1) by (simp add: ram length_new_entry [OF assms(3)] del: length_encode_entry)
  have poked: "poke (pw_used s) ?e ram = ?log @ ?e @ drop (length ?e) rest"
    by (simp add: ram used poke_skip) (simp add: poke_def)
  have "u32 (pw_used s + total_len ev) = pw_used s + total_len ev"
    using fits cap by (simp add: u32_def used TARGET_RAM_CAPACITY_def)
  then show ?thesis
    using assms(1,2) h le poked seq used cap length_new_entry [OF assms(3)] entry_ok_new [OF assms(3)]
    by (auto simp: represents_def holds_log_def last_known_def write_record_def ram simp del: length_encode_entry)
qed

lemma append_represents:
  assumes "represents s l" "event_ok ev"
  shows "represents (append_record ev s) (record_event ev l)"
proof (cases "pw_ram s")
  case None
  then show ?thesis
    using assms(1) by (simp add: append_record_def record_event_def represents_def drop_record_def last_known_def)
next
  case (Some ram)
  have h: "holds_log s l ram" and en: "pw_enabled s = al_enabled l"
    using assms(1) Some by (simp_all add: represents_def)
  have "u32 (pw_used s + total_len ev) = pw_used s + total_len ev"
  proof -
    have "pw_used s \<le> TARGET_RAM_CAPACITY"
      using h by (auto simp: holds_log_def)
    then show ?thesis
      using total_len_bound [of ev] by (simp add: u32_def TARGET_RAM_CAPACITY_def)
  qed
  moreover have "represents (drop_record n s) l" for n
    using assms(1) by (simp add: represents_def drop_record_def last_known_def holds_log_def split: option.splits)
  ultimately show ?thesis
    using h en Some mergeable_iff [OF assms(1) Some assms(2)] bumped_represents [OF assms(1) Some]
      written_represents [OF assms(1) Some assms(2)] assms(1)
    by (auto simp: append_record_def record_event_def holds_log_def)
qed

lemma start_represents:
  assumes "represents s l" "memory_ok psram"
  shows "represents (setup_log psram s) (allocate psram l)"
  using assms
  by (auto simp: represents_def setup_log_def setup_buffers_def allocate_def memory_ok_def holds_log_def
      last_known_def Let_def FALLBACK_RAM_CAPACITY_def TARGET_RAM_CAPACITY_def split: option.splits)

lemma enabled_represents:
  "represents s l \<Longrightarrow> represents (s\<lparr>pw_enabled := b\<rparr>) (l\<lparr>al_enabled := b\<rparr>)"
  by (auto simp: represents_def holds_log_def last_known_def split: option.splits)

lemma reset_represents:
  "represents s l \<Longrightarrow> represents (reset_store s) (l\<lparr>al_entries := [], al_seq := 1\<rparr>)"
  by (auto simp: represents_def holds_log_def last_known_def reset_store_def split: option.splits)

lemma clear_represents:
  "represents s l \<Longrightarrow> memory_ok psram \<Longrightarrow>
    represents (clear_log psram s) ((allocate psram l)\<lparr>al_entries := [], al_seq := 1\<rparr>)"
  by (simp add: clear_log_def reset_represents start_represents)

lemma allocate_again [simp]: "allocate psram (allocate psram l) = allocate psram l"
  by (simp add: allocate_def)

lemma allocate_enabled: "allocate psram (l\<lparr>al_enabled := b\<rparr>) = (allocate psram l)\<lparr>al_enabled := b\<rparr>"
  by (simp add: allocate_def)

lemma step_represents:
  assumes "represents s l" "op_ok oper"
  shows "represents (log_step oper s) (abs_step oper l)"
proof (cases oper)
  case (Format psram)
  then show ?thesis
    using clear_represents [OF start_represents [OF enabled_represents [OF assms(1)]], of psram psram False] assms(2)
    by (simp add: allocate_enabled)
qed (use assms in \<open>simp_all add: append_represents enabled_represents start_represents clear_represents\<close>)

lemma run_represents:
  "represents s l \<Longrightarrow> \<forall>oper \<in> set opers. op_ok oper \<Longrightarrow>
    represents (fold log_step opers s) (fold abs_step opers l)"
  by (induction opers arbitrary: s l) (simp_all add: step_represents)

lemma initial_represents: "represents initial_buffer initial_log"
  by (simp add: represents_def initial_buffer_def initial_log_def last_known_def)

lemma downloaded_log: "represents s l \<Longrightarrow> downloaded s = encode_log (al_entries l)"
  by (auto simp: represents_def holds_log_def downloaded_def split: option.splits)

lemma represents_entries: "represents s l \<Longrightarrow> e \<in> set (al_entries l) \<Longrightarrow> entry_ok e"
  by (simp add: represents_def)

subsection \<open>Downloads that break off\<close>

lemma take_log:
  "k \<le> length (encode_log es) \<Longrightarrow>
    \<exists>n left. k = length (encode_log (take n es)) + left \<and>
      (left = 0 \<and> take k (encode_log es) = encode_log (take n es) \<or>
       left \<noteq> 0 \<and> n < length es \<and> left < length (encode_entry (es ! n)) \<and>
       take k (encode_log es) = encode_log (take n es) @ take left (encode_entry (es ! n)))"
proof (induction es arbitrary: k)
  case (Cons e es)
  show ?case
  proof (cases "k < length (encode_entry e)")
    case True
    then show ?thesis
      by (intro exI [of _ 0] exI [of _ k]) auto
  next
    case False
    then have k: "k = length (encode_entry e) + (k - length (encode_entry e))"
      by simp
    have "k - length (encode_entry e) \<le> length (encode_log es)"
      using Cons.prems by simp
    from Cons.IH [OF this] obtain n left where
      n: "k - length (encode_entry e) = length (encode_log (take n es)) + left"
        "left = 0 \<and> take (k - length (encode_entry e)) (encode_log es) = encode_log (take n es) \<or>
         left \<noteq> 0 \<and> n < length es \<and> left < length (encode_entry (es ! n)) \<and>
         take (k - length (encode_entry e)) (encode_log es) = encode_log (take n es) @ take left (encode_entry (es ! n))"
      by blast
    then show ?thesis
      using k False by (intro exI [of _ "Suc n"] exI [of _ left]) (auto simp del: length_encode_entry)
  qed
qed auto

lemma partial_log:
  assumes ok: "\<forall>e \<in> set es. entry_ok e" and k: "k \<le> length (encode_log es)"
  shows "\<exists>n left.
    load_binary_persistent_log (take k (encode_log es)) =
      \<lparr>pl_format_version = None, pl_dropped_records = (if left = 0 then 0 else 1), pl_dropped_bytes = left,
       pl_records = map shown (take n es)\<rparr> \<and>
    k = length (encode_log (take n es)) + left \<and>
    (left \<noteq> 0 \<longrightarrow> n < length es \<and> left < length (encode_entry (es ! n)))"
proof -
  obtain n left where n: "k = length (encode_log (take n es)) + left"
    "left = 0 \<and> take k (encode_log es) = encode_log (take n es) \<or>
     left \<noteq> 0 \<and> n < length es \<and> left < length (encode_entry (es ! n)) \<and>
     take k (encode_log es) = encode_log (take n es) @ take left (encode_entry (es ! n))"
    using take_log [OF k] by blast
  have ok': "\<forall>e \<in> set (take n es). entry_ok e"
    using ok by (meson in_set_takeD)
  show ?thesis
    using n(2)
  proof
    assume "left = 0 \<and> take k (encode_log es) = encode_log (take n es)"
    then show ?thesis
      using n(1) scan_entries [OF ok', of "[]"]
      by (rule_tac x = n in exI, rule_tac x = 0 in exI) (simp add: load_binary_persistent_log_def Let_def)
  next
    assume c: "left \<noteq> 0 \<and> n < length es \<and> left < length (encode_entry (es ! n)) \<and>
      take k (encode_log es) = encode_log (take n es) @ take left (encode_entry (es ! n))"
    then have "scan_log (take left (encode_entry (es ! n))) = \<lparr>sc_records = [], sc_dropped = 1, sc_left = left\<rparr>"
      using ok by (intro scan_partial) auto
    then show ?thesis
      using c n(1) scan_entries [OF ok', of "take left (encode_entry (es ! n))"]
      by (rule_tac x = n in exI, rule_tac x = left in exI) (simp add: load_binary_persistent_log_def Let_def del: length_encode_entry)
  qed
qed

subsection \<open>Properties\<close>


text \<open>A download that breaks off after \<open>k\<close> bytes gives exactly the records that arrived whole, and counts the bytes of
  the record it broke off in, which are fewer than a whole record.\<close>

theorem interrupted_download:
  assumes "\<forall>oper \<in> set opers. op_ok oper"
    "k \<le> length (downloaded (fold log_step opers initial_buffer))"
  shows "\<exists>n left.
    load_binary_persistent_log (take k (downloaded (fold log_step opers initial_buffer))) =
      \<lparr>pl_format_version = None, pl_dropped_records = (if left = 0 then 0 else 1), pl_dropped_bytes = left,
       pl_records = map shown (take n (al_entries (fold abs_step opers initial_log)))\<rparr> \<and>
    k = length (encode_log (take n (al_entries (fold abs_step opers initial_log)))) + left \<and>
    (left \<noteq> 0 \<longrightarrow> n < length (al_entries (fold abs_step opers initial_log)) \<and>
      left < length (encode_entry (al_entries (fold abs_step opers initial_log) ! n)))"
proof -
  have r: "represents (fold log_step opers initial_buffer) (fold abs_step opers initial_log)"
    by (rule run_represents [OF initial_represents assms(1)])
  then show ?thesis
    using partial_log [of "al_entries (fold abs_step opers initial_log)" k] represents_entries [OF r] assms(2)
    by (simp add: downloaded_log [OF r])
qed

definition sample_event :: plog_event where
  "sample_event =
     \<lparr>ev_type = 4, ev_source = 10, ev_phase = 0, ev_reason = 0, ev_action = 0, ev_status = 1,
      ev_data = Some [0x00, 0x02], ev_len = 2, ev_flags = 1, ev_timestamp_us = 7, ev_now_ms = 3, ev_now_us = 9,
      ev_state = 0\<rparr>"

definition sample_ops :: "log_op list" where
  "sample_ops = [Clear None, Start None sample_event, Log sample_event, Log sample_event, Stop sample_event]"

lemma sample_ops_ok: "\<forall>oper \<in> set sample_ops. op_ok oper"
  by (simp add: sample_ops_def memory_ok_def event_ok_def sample_event_def)

lemma sample_entries:
  "map en_type (al_entries (fold abs_step sample_ops initial_log)) = [7, 4, 7]"
  "map en_repeat (al_entries (fold abs_step sample_ops initial_log)) = [1, 2, 1]"
  by (simp_all add: sample_ops_def sample_event_def initial_log_def allocate_def record_event_def control_event_def
      repeats_def new_entry_def record_data_def stored_len_def total_len_def bumped_def DATA_LEN_def
      FALLBACK_RAM_CAPACITY_def PLOG_TYPE_CONTROL_def event_us_def)


theorem interrupted_download_witness:
  "load_binary_persistent_log (take 20 (downloaded (fold log_step sample_ops initial_buffer))) =
    \<lparr>pl_format_version = None, pl_dropped_records = 1, pl_dropped_bytes = 20, pl_records = []\<rparr>"
proof -
  define es where "es = al_entries (fold abs_step sample_ops initial_log)"
  obtain a b c where es: "es = [a, b, c]"
    using sample_entries(1) by (auto simp: es_def [symmetric])
  have "downloaded (fold log_step sample_ops initial_buffer) = encode_log es"
    unfolding es_def
    using sample_ops_ok by (intro downloaded_log run_represents initial_represents) blast
  then have len: "20 \<le> length (downloaded (fold log_step sample_ops initial_buffer))"
    by (simp add: es)
  obtain n left where
    n: "load_binary_persistent_log (take 20 (downloaded (fold log_step sample_ops initial_buffer))) =
        \<lparr>pl_format_version = None, pl_dropped_records = (if left = 0 then 0 else 1), pl_dropped_bytes = left,
         pl_records = map shown (take n es)\<rparr>" "20 = length (encode_log (take n es)) + left"
    using interrupted_download [OF sample_ops_ok len] unfolding es_def by blast
  moreover have "n = 0"
    using n(2) by (cases n) (simp_all add: es)
  ultimately show ?thesis
    by simp
qed

end
