(* ===== verification/Garage_Wizard.thy ===== *)
theory Garage_Wizard
  imports Session Py_Float
begin

text \<open>
  \<open>tools/garage_test_wizard.py\<close>: the guided session at the door.  Parameters are the answers of the bridge and of Home
  Assistant, what a JSON answer says of a key, and the readings of the clock.  Texts that are only printed, and the
  contents of the written files, are not modelled; their names are.
\<close>

record wizard_args =
  wa_ha_token :: "string option"
  wa_cover_entity :: string
  wa_entities :: "string list"
  wa_full_open_height :: "pyfloat option"

record wizard_env =
  we_esp :: http
  we_ha :: http
  we_service :: "nat \<Rightarrow> service \<Rightarrow> bool"
  we_json_true :: "http_result \<Rightarrow> string \<Rightarrow> bool"
  we_clock :: "nat \<Rightarrow> rat"

record measurement =
  ms_label :: string
  ms_kind :: string
  ms_direction :: string
  ms_target :: "pyfloat option"
  ms_height :: pyfloat
  ms_actual :: rat
  ms_error :: "pyfloat option"
  ms_elapsed :: "rat option"

record wizard = tool_session +
  wz_height :: "pyfloat option"
  wz_measurements :: "measurement list"
  wz_clock :: nat
  wz_notes :: nat

type_synonym 'a wiz = "(wizard, 'a) prog"

subsection \<open>Text and numbers\<close>

definition alnum :: "char \<Rightarrow> bool" where
  "alnum c \<longleftrightarrow> (let n = (of_char c :: nat) in 48 \<le> n \<and> n \<le> 57 \<or> 65 \<le> n \<and> n \<le> 90 \<or> 97 \<le> n \<and> n \<le> 122)"

definition slug_char :: "string \<Rightarrow> char \<Rightarrow> string" where
  "slug_char out c =
     (if alnum c then out @ [c] else if out \<noteq> [] \<and> last out \<noteq> CHR ''-'' then out @ ''-'' else out)"

definition strip_dashes :: "string \<Rightarrow> string" where
  "strip_dashes t =
     rev (dropWhile (\<lambda>c. c = CHR ''-'') (rev (dropWhile (\<lambda>c. c = CHR ''-'') t)))"

definition slugify :: "string \<Rightarrow> string" where
  "slugify t =
     (let slug = strip_dashes (foldl slug_char [] (py_lower t)) in if slug = [] then ''step'' else slug)"

text \<open>\<open>f"{value:g}"\<close> of an accepted percentage.\<close>

definition percent_g :: "pyfloat \<Rightarrow> string" where
  "percent_g f = (case f of Finite x \<Rightarrow> g_text 400 x | NaN \<Rightarrow> ''nan'' | PosInf \<Rightarrow> ''inf'' | NegInf \<Rightarrow> ''-inf'')"

definition py_div :: "pyfloat \<Rightarrow> pyfloat \<Rightarrow> pyfloat result" where
  "py_div a b =
     (case b of
        Finite y \<Rightarrow>
          if y = 0 then Inl (Raised ''ZeroDivisionError'' ''float division by zero'')
          else Inr (case a of
              Finite x \<Rightarrow> Finite (x / y)
            | PosInf \<Rightarrow> if y > 0 then PosInf else NegInf
            | NegInf \<Rightarrow> if y > 0 then NegInf else PosInf
            | NaN \<Rightarrow> NaN)
      | NaN \<Rightarrow> Inr NaN
      | _ \<Rightarrow> Inr (case a of Finite x \<Rightarrow> Finite 0 | _ \<Rightarrow> NaN))"

definition py_scale :: "pyfloat \<Rightarrow> rat \<Rightarrow> pyfloat" where
  "py_scale f k = (case f of Finite x \<Rightarrow> Finite (x * k) | _ \<Rightarrow> f)"

text \<open>\<open>max(low, min(high, value))\<close>: Python's \<open>min\<close> and \<open>max\<close> keep their first argument unless the second is smaller or
  greater, so a NaN becomes the upper bound.\<close>

definition clamp_percent :: "pyfloat \<Rightarrow> rat" where
  "clamp_percent f =
     (case f of
        Finite x \<Rightarrow> max 0 (min 100 x)
      | NegInf \<Rightarrow> 0
      | _ \<Rightarrow> 100)"

definition float_minus :: "rat \<Rightarrow> pyfloat \<Rightarrow> pyfloat" where
  "float_minus x f = (case f of Finite y \<Rightarrow> Finite (x - y) | PosInf \<Rightarrow> NegInf | NegInf \<Rightarrow> PosInf | NaN \<Rightarrow> NaN)"

subsection \<open>Events and snapshots\<close>

definition ha_available :: "wizard_args \<Rightarrow> bool" where
  "ha_available a \<longleftrightarrow> (case wa_ha_token a of None \<Rightarrow> False | Some t \<Rightarrow> t \<noteq> [])"

definition event_count :: "tool_effect list \<Rightarrow> nat" where
  "event_count t = length (filter (\<lambda>e. case e of Recorded _ _ \<Rightarrow> True | _ \<Rightarrow> False) t)"

definition ask_entities :: "wizard_args \<Rightarrow> wizard_env \<Rightarrow> unit wiz" where
  "ask_entities a v =
     do_if (ha_available a)
       (for_each (wa_entities a) (\<lambda>entity. andthen (http_request (we_ha v) entity) (\<lambda>_. ret ())))"

definition snapshot :: "wizard_args \<Rightarrow> wizard_env \<Rightarrow> string \<Rightarrow> unit wiz" where
  "snapshot a v label =
     andthen (http_get (we_esp v) ''/stats'' 2) (\<lambda>_.
     andthen (http_get (we_esp v) ''/broadcast_status'' 2) (\<lambda>_.
     seq (ask_entities a v)
       (andthen (fetch (\<lambda>s. event_count (ss_trace s))) (\<lambda>n.
         seq (emit (Wrote (''snapshot-'' @ zfill 3 (dec_nat n) @ ''-'' @ slugify label @ ''.json'')))
           (emit (Recorded ''snapshot'' label))))))"

definition take_note :: "unit wiz" where
  "take_note = modify (\<lambda>s. s\<lparr>wz_notes := wz_notes s + 1\<rparr>)"

subsection \<open>Prompts\<close>

text \<open>One round of each loop: \<open>None\<close> asks again.\<close>

definition enter_round :: "wizard_args \<Rightarrow> wizard_env \<Rightarrow> string \<Rightarrow> string option wiz" where
  "enter_round a v message =
     andthen (ask (EnterPrompt message)) (\<lambda>line.
       let value = py_strip line
       in if py_lower value \<in> {''q'', ''quit'', ''exit''} then throw (Raised ''KeyboardInterrupt'' [])
          else if py_lower value = ''s'' then
            andthen (ask (TextPrompt ''Snapshot label'')) (\<lambda>given_label.
              seq (snapshot a v (if py_strip given_label = [] then ''manual-snapshot'' else py_strip given_label))
                (ret None))
          else ret (Some value))"

definition prompt_enter :: "wizard_args \<Rightarrow> wizard_env \<Rightarrow> string \<Rightarrow> unit wiz" where
  "prompt_enter a v message = andthen (until_answer (enter_round a v message)) (\<lambda>_. ret ())"

definition yes_no_answer :: "bool \<Rightarrow> string \<Rightarrow> bool option" where
  "yes_no_answer preset line =
     (let value = py_lower (py_strip line)
      in if value = [] then Some preset
         else if value \<in> {''y'', ''yes''} then Some True
         else if value \<in> {''n'', ''no''} then Some False
         else None)"

definition prompt_yes_no :: "string \<Rightarrow> bool \<Rightarrow> bool wiz" where
  "prompt_yes_no message preset =
     until_answer (andthen (ask (YesNoPrompt message preset)) (\<lambda>line. ret (yes_no_answer preset line)))"

definition below :: "pyfloat \<Rightarrow> rat option \<Rightarrow> bool" where
  "below f bound = (case bound of None \<Rightarrow> False | Some x \<Rightarrow> float_less f x)"

definition above :: "pyfloat \<Rightarrow> pyfloat option \<Rightarrow> bool" where
  "above f bound =
     (case bound of
        Some (Finite x) \<Rightarrow> float_greater f x
      | Some NegInf \<Rightarrow> (case f of Finite _ \<Rightarrow> True | PosInf \<Rightarrow> True | _ \<Rightarrow> False)
      | _ \<Rightarrow> False)"

definition number_answer :: "rat option \<Rightarrow> pyfloat option \<Rightarrow> bool \<Rightarrow> string \<Rightarrow> pyfloat option option" where
  "number_answer minimum maximum allow_blank line =
     (let raw = py_replace_char CHR '','' ''.'' (py_strip line)
      in if allow_blank \<and> raw = [] then Some None
         else case py_float raw of
           None \<Rightarrow> None
         | Some f \<Rightarrow> if below f minimum \<or> above f maximum then None else Some (Some f))"

definition prompt_float :: "string \<Rightarrow> rat option \<Rightarrow> pyfloat option \<Rightarrow> bool \<Rightarrow> pyfloat option wiz" where
  "prompt_float message minimum maximum allow_blank =
     until_answer (andthen (ask (NumberPrompt message)) (\<lambda>line. ret (number_answer minimum maximum allow_blank line)))"

fun parse_floats :: "string list \<Rightarrow> pyfloat list option" where
  "parse_floats [] = Some []"
| "parse_floats (t # ts) =
     (case (py_float (py_strip t), parse_floats ts) of (Some f, Some fs) \<Rightarrow> Some (f # fs) | _ \<Rightarrow> None)"

definition percent_list_answer :: "pyfloat list \<Rightarrow> string \<Rightarrow> pyfloat list option" where
  "percent_list_answer presets line =
     (let raw = py_strip line
      in if raw = [] then Some presets
         else case parse_floats (py_split CHR '','' (py_replace_char CHR '';'' '','' raw)) of
           None \<Rightarrow> None
         | Some values \<Rightarrow>
             if values = [] \<or> list_ex (\<lambda>f. float_less f 0 \<or> float_greater f 100) values then None else Some values)"

definition prompt_percent_list :: "pyfloat list \<Rightarrow> pyfloat list wiz" where
  "prompt_percent_list presets =
     until_answer (andthen (ask (TextPrompt ''Target percentages to test'')) (\<lambda>line.
       ret (percent_list_answer presets line)))"

subsection \<open>Commands\<close>

definition call_service :: "wizard_env \<Rightarrow> service \<Rightarrow> bool wiz" where
  "call_service v sv =
     andthen (fetch ss_requests) (\<lambda>n.
       let ok = we_service v n sv
       in seq (modify (\<lambda>s. s\<lparr>ss_requests := n + 1\<rparr>)) (seq (emit (Service sv ok)) (ret ok)))"

definition command_cover :: "wizard_args \<Rightarrow> wizard_env \<Rightarrow> string \<Rightarrow> unit wiz" where
  "command_cover a v command =
     (if \<not> ha_available a then
        seq (prompt_enter a v ''Press Enter immediately after sending the command'')
          (emit (Recorded ''manual_command'' (''cover.'' @ command @ ''_cover'')))
      else
        andthen (call_service v (CoverService command)) (\<lambda>ok.
          seq (emit (Recorded ''ha_command'' (''cover.'' @ command @ ''_cover'')))
            (do_if (\<not> ok) (prompt_enter a v ''Press Enter immediately after sending the command manually''))))"

definition manual_position :: "wizard_args \<Rightarrow> wizard_env \<Rightarrow> unit wiz" where
  "manual_position a v =
     seq (prompt_enter a v ''Press Enter immediately after setting the target'')
       (emit (Recorded ''manual_command'' ''set_target_position''))"

definition command_position :: "wizard_args \<Rightarrow> wizard_env \<Rightarrow> pyfloat \<Rightarrow> unit wiz" where
  "command_position a v target =
     (if ha_available a then
        andthen (call_service v (SetPosition target)) (\<lambda>ok.
          seq (emit (Recorded ''ha_command'' ''cover.set_cover_position''))
            (if ok then ret ()
             else andthen (call_service v (SetTargetNumber target)) (\<lambda>fallback.
               seq (emit (Recorded ''ha_command'' ''number.set_value''))
                 (if fallback then ret () else manual_position a v))))
      else manual_position a v)"

definition toggle_house_light :: "wizard_args \<Rightarrow> wizard_env \<Rightarrow> unit wiz" where
  "toggle_house_light a v =
     (if \<not> ha_available a then
        seq (prompt_enter a v ''Press Enter after toggling the light'')
          (emit (Recorded ''manual_command'' ''light.toggle''))
      else andthen (call_service v ToggleLight) (\<lambda>_. emit (Recorded ''ha_command'' ''light.toggle'')))"

subsection \<open>Measuring\<close>

definition read_clock :: "wizard_env \<Rightarrow> rat wiz" where
  "read_clock v =
     andthen (fetch wz_clock) (\<lambda>n. seq (modify (\<lambda>s. s\<lparr>wz_clock := n + 1\<rparr>)) (ret (we_clock v n)))"

definition known_height :: "string \<Rightarrow> pyfloat wiz" where
  "known_height message =
     andthen (fetch wz_height) (\<lambda>h.
       case h of
         Some x \<Rightarrow> ret x
       | None \<Rightarrow>
           andthen (prompt_float message (Some (1 / 10)) None False) (\<lambda>f.
             seq (modify (\<lambda>s. s\<lparr>wz_height := f\<rparr>))
               (case f of Some x \<Rightarrow> ret x | None \<Rightarrow> throw (Raised ''TypeError'' []))))"

definition record_height ::
  "string \<Rightarrow> string \<Rightarrow> string \<Rightarrow> pyfloat option \<Rightarrow> rat option \<Rightarrow> pyfloat \<Rightarrow> pyfloat \<Rightarrow> unit wiz"
where
  "record_height label kind direction target elapsed max_height height =
     (case py_div height max_height of
        Inl e \<Rightarrow> throw e
      | Inr share \<Rightarrow>
          let actual = clamp_percent (py_scale share 100);
              row = \<lparr>ms_label = label, ms_kind = kind, ms_direction = direction, ms_target = target,
                     ms_height = height, ms_actual = actual, ms_error = map_option (float_minus actual) target,
                     ms_elapsed = elapsed\<rparr>
          in seq (modify (\<lambda>s. s\<lparr>wz_measurements := wz_measurements s @ [row]\<rparr>)) (emit (Recorded ''measurement'' label)))"

definition measure_height ::
  "string \<Rightarrow> string \<Rightarrow> string \<Rightarrow> pyfloat option \<Rightarrow> rat option \<Rightarrow> pyfloat option \<Rightarrow> unit wiz"
where
  "measure_height label kind direction target elapsed measured =
     andthen (known_height ''Enter full open clear height in meters'') (\<lambda>max_height.
       case measured of
         Some height \<Rightarrow> record_height label kind direction target elapsed max_height height
       | None \<Rightarrow>
           andthen (prompt_float label (Some 0) (Some (py_scale max_height (11 / 10))) False) (\<lambda>f.
             case f of
               None \<Rightarrow> ret ()
             | Some height \<Rightarrow> record_height label kind direction target elapsed max_height height))"

subsection \<open>The steps of the session\<close>

definition run_full_travel_calibration :: "wizard_args \<Rightarrow> wizard_env \<Rightarrow> unit wiz" where
  "run_full_travel_calibration a v =
     seq (prompt_enter a v ''Press Enter when the door is physically fully closed'')
       (seq (snapshot a v ''closed-start'')
         (seq (prompt_enter a v ''Ready to command full open'')
           (andthen (read_clock v) (\<lambda>t0.
             seq (command_cover a v ''open'')
               (seq (prompt_enter a v ''Press Enter when the door is physically fully open'')
                 (andthen (read_clock v) (\<lambda>t1.
                   seq (snapshot a v ''fully-open'')
                     (andthen (known_height ''Measure and enter the full open clear height in meters'') (\<lambda>height.
                       seq (measure_height ''full-open'' ''endpoint'' ''opening'' (Some (Finite 100)) (Some (t1 - t0))
                             (Some height))
                         (seq (prompt_enter a v ''Ready to command full close'')
                           (andthen (read_clock v) (\<lambda>t2.
                             seq (command_cover a v ''close'')
                               (seq (prompt_enter a v ''Press Enter when the door is physically fully closed'')
                                 (andthen (read_clock v) (\<lambda>t3.
                                   seq (snapshot a v ''fully-closed'')
                                     (measure_height ''full-closed'' ''endpoint'' ''closing'' (Some (Finite 0))
                                       (Some (t3 - t2)) None))))))))))))))))"

definition run_stop_test :: "wizard_args \<Rightarrow> wizard_env \<Rightarrow> unit wiz" where
  "run_stop_test a v =
     andthen (prompt_yes_no ''Run a stop test from closed toward open?'' True) (\<lambda>wanted.
       if \<not> wanted then ret ()
       else
         seq (prompt_enter a v ''Press Enter when the door is fully closed and you are ready'')
           (seq (command_cover a v ''open'')
             (seq (prompt_enter a v ''Press Enter now to send STOP'')
               (andthen (read_clock v) (\<lambda>t0.
                 seq (command_cover a v ''stop'')
                   (seq (prompt_enter a v ''Press Enter when the door has physically stopped'')
                     (andthen (read_clock v) (\<lambda>t1.
                       seq (snapshot a v ''stopped-midway'')
                         (seq (measure_height ''stop-test'' ''stop'' ''opening'' None (Some (t1 - t0)) None)
                           (andthen (prompt_yes_no ''Open fully again before position tests?'' True) (\<lambda>again.
                             do_if again
                               (seq (command_cover a v ''open'')
                                 (seq (prompt_enter a v ''Press Enter when fully open'')
                                   (snapshot a v ''after-stop-open''))))))))))))))"

definition direction_of :: "pyfloat option \<Rightarrow> pyfloat \<Rightarrow> string" where
  "direction_of previous target =
     (case previous of
        None \<Rightarrow> []
      | Some (Finite p) \<Rightarrow>
          if float_greater target p then ''opening'' else if float_less target p then ''closing'' else ''same''
      | Some _ \<Rightarrow> ''same'')"

definition position_test :: "wizard_args \<Rightarrow> wizard_env \<Rightarrow> pyfloat option \<Rightarrow> pyfloat \<Rightarrow> unit wiz" where
  "position_test a v previous target =
     seq (prompt_enter a v (''Ready to test target '' @ percent_g target @ ''%''))
       (andthen (read_clock v) (\<lambda>t0.
         seq (command_position a v target)
           (seq (prompt_enter a v (''Press Enter when the door has stopped after target '' @ percent_g target @ ''%''))
             (andthen (read_clock v) (\<lambda>t1.
               seq (snapshot a v (''target-'' @ percent_g target @ ''-percent''))
                 (measure_height (''target-'' @ percent_g target @ ''%'') ''position'' (direction_of previous target)
                   (Some target) (Some (t1 - t0)) None))))))"

fun position_tests :: "wizard_args \<Rightarrow> wizard_env \<Rightarrow> pyfloat option \<Rightarrow> pyfloat list \<Rightarrow> unit wiz" where
  "position_tests a v previous [] = ret ()"
| "position_tests a v previous (target # targets) =
     seq (position_test a v previous target) (position_tests a v (Some target) targets)"

definition run_position_tests :: "wizard_args \<Rightarrow> wizard_env \<Rightarrow> unit wiz" where
  "run_position_tests a v =
     andthen (prompt_percent_list [Finite 25, Finite 50, Finite 75, Finite 100, Finite 50, Finite 0])
       (position_tests a v None)"

definition run_light_test :: "wizard_args \<Rightarrow> wizard_env \<Rightarrow> unit wiz" where
  "run_light_test a v =
     andthen (prompt_yes_no ''Run light toggle test?'' True) (\<lambda>wanted.
       if \<not> wanted then ret ()
       else
         seq (toggle_house_light a v)
           (andthen (prompt_yes_no ''Did the physical garage light turn on?'' True) (\<lambda>_.
             seq (emit (Recorded ''observation'' ''light-toggle-on''))
               (seq (snapshot a v ''light-after-toggle'')
                 (andthen (prompt_yes_no ''Toggle the light again to return it to the previous state?'' True) (\<lambda>again.
                   do_if again
                     (seq (toggle_house_light a v)
                       (seq (prompt_enter a v ''Press Enter after checking the physical light'')
                         (snapshot a v ''light-after-second-toggle'')))))))))"

definition run_obstruction_test :: "wizard_args \<Rightarrow> wizard_env \<Rightarrow> unit wiz" where
  "run_obstruction_test a v =
     andthen (prompt_yes_no ''Run an obstruction test now?'' False) (\<lambda>wanted.
       if \<not> wanted then ret ()
       else
         seq (prompt_enter a v ''Press Enter when the door is fully open and the obstruction object is ready'')
           (seq (command_cover a v ''close'')
             (seq (prompt_enter a v ''Obstruct the closing door, then press Enter once the opener stops or shows an error'')
               (andthen (ask (TextPrompt ''Opener display code, if any (blank if none)'')) (\<lambda>_.
                 seq (emit (Slept 8))
                   (seq (snapshot a v ''after-obstruction'')
                     (seq (emit (Recorded ''observation'' ''obstruction''))
                       (andthen (prompt_yes_no ''Command open for recovery?'' True) (\<lambda>recover.
                         do_if recover
                           (seq (command_cover a v ''open'')
                             (seq (prompt_enter a v ''Press Enter when recovery movement has finished'')
                               (snapshot a v ''after-obstruction-recovery''))))))))))))"

definition PRESENT :: string where
  "PRESENT = ''Confirm you are physically present at the garage door''"

definition preflight :: "wizard_args \<Rightarrow> wizard_env \<Rightarrow> unit wiz" where
  "preflight a v =
     seq (snapshot a v ''preflight'')
       (andthen (http_get (we_esp v) ''/stats'' 2) (\<lambda>stats.
         seq (do_if (hr_json stats)
               (seq (do_if (\<not> we_json_true v stats ''valid_broadcast'') take_note)
                 (do_if (we_json_true v stats ''obstruction'') take_note)))
           (prompt_enter a v PRESENT)))"

definition start_recording :: "wizard_env \<Rightarrow> unit wiz" where
  "start_recording v =
     andthen (http_get (we_esp v) ''/persistent_log/clear'' 2) (\<lambda>clear.
     seq (emit (Recorded ''esp'' ''persistent_log_clear''))
       (seq (do_if (hr_json clear \<and> we_json_true v clear ''format_required'')
             (andthen (prompt_yes_no ''ESP log filesystem needs formatting. Format it now?'' True) (\<lambda>yes.
               do_if yes
                 (andthen (http_get (we_esp v) ''/persistent_log/format'' 0) (\<lambda>_.
                   emit (Recorded ''esp'' ''persistent_log_format''))))))
         (andthen (http_get (we_esp v) ''/persistent_log/start'' 2) (\<lambda>_.
           emit (Recorded ''esp'' ''persistent_log_start'')))))"

definition wizard_downloads :: "(string \<times> string) list" where
  "wizard_downloads =
     [(''esp-stats-final.json'', ''/stats''), (''esp-recent-final.json'', ''/recent''),
      (''esp-broadcast-status-final.json'', ''/broadcast_status''), (''persistent-log.json'', ''/persistent_log''),
      (''persistent-log.bin'', ''/persistent_log.bin'')]"

definition stop_and_download_recording :: "wizard_env \<Rightarrow> unit wiz" where
  "stop_and_download_recording v =
     andthen (http_get (we_esp v) ''/persistent_log/stop'' 2) (\<lambda>_.
     seq (emit (Recorded ''esp'' ''persistent_log_stop''))
       (for_each wizard_downloads (\<lambda>(filename, path).
         andthen (http_save (we_esp v) path filename) (\<lambda>_. emit (Recorded ''download'' filename)))))"

definition wizard_steps :: "wizard_args \<Rightarrow> wizard_env \<Rightarrow> unit wiz" where
  "wizard_steps a v =
     seq (preflight a v)
       (seq (start_recording v)
         (seq (run_full_travel_calibration a v)
           (seq (run_stop_test a v)
             (seq (run_position_tests a v)
               (seq (run_light_test a v)
                 (seq (run_obstruction_test a v)
                   (stop_and_download_recording v)))))))"

text \<open>\<open>run_all\<close>: an interrupt stops the recording and downloads it before the exit code 130; other exceptions pass.\<close>

definition run_all :: "wizard_args \<Rightarrow> wizard_env \<Rightarrow> int wiz" where
  "run_all a v s =
     (case wizard_steps a v s of
        (Inr _, t) \<Rightarrow> (Inr 0, t)
      | (Inl e, t) \<Rightarrow>
          if (case e of Raised c _ \<Rightarrow> c = ''KeyboardInterrupt'' | _ \<Rightarrow> False)
          then (Inr 130, snd (stop_and_download_recording v t))
          else (Inl e, t))"

definition new_wizard :: "wizard_args \<Rightarrow> typed list \<Rightarrow> wizard" where
  "new_wizard a ts =
     \<lparr>ss_typed = ts, ss_requests = 0, ss_trace = [], wz_height = wa_full_open_height a, wz_measurements = [],
      wz_clock = 0, wz_notes = 0\<rparr>"

end
