(* ===== verification/Garage_Wizard_Props.thy ===== *)
theory Garage_Wizard_Props
  imports Garage_Wizard
begin

text \<open>
  What a guided session may do to the door: every movement it commands follows an accepted prompt that came after the
  movement before, and the confirmation of presence; a session that ends, interrupted or not, has stopped the recording
  and saved the logs.
\<close>

subsection \<open>Statements about the trace\<close>

definition is_move :: "tool_effect \<Rightarrow> bool" where
  "is_move e =
     (case e of
        Service sv _ \<Rightarrow> (case sv of ToggleLight \<Rightarrow> False | _ \<Rightarrow> True)
      | _ \<Rightarrow> False)"

lemma is_move_simps [simp]:
  "is_move (Service (CoverService c) ok)" "is_move (Service (SetPosition x) ok)"
  "is_move (Service (SetTargetNumber x) ok)" "\<not> is_move (Service ToggleLight ok)" "\<not> is_move (Sent a)"
  "\<not> is_move (Asked p l)" "\<not> is_move (Request path ok)" "\<not> is_move (Polled t)" "\<not> is_move (Recorded k l)"
  "\<not> is_move (Saved f b)" "\<not> is_move (Wrote f)" "\<not> is_move (Did a)" "\<not> is_move (Slept secs)"
  by (simp_all add: is_move_def)

text \<open>An answered prompt after which the wizard goes on: not the interrupting words, not a request for a snapshot, not no.\<close>

definition accepted :: "tool_effect \<Rightarrow> bool" where
  "accepted e =
     (case e of
        Asked (EnterPrompt m) line \<Rightarrow> py_lower (py_strip line) \<notin> {''q'', ''quit'', ''exit'', ''s''}
      | Asked (YesNoPrompt m preset) line \<Rightarrow> yes_no_answer preset line = Some True
      | _ \<Rightarrow> False)"

definition armed :: "tool_effect list \<Rightarrow> bool" where
  "armed t \<longleftrightarrow> list_ex accepted (takeWhile (\<lambda>e. \<not> is_move e) t)"

definition present :: "tool_effect list \<Rightarrow> bool" where
  "present t \<longleftrightarrow> (\<exists>line. Asked (EnterPrompt PRESENT) line \<in> set t \<and> accepted (Asked (EnterPrompt PRESENT) line))"

definition last_move :: "tool_effect list \<Rightarrow> tool_effect option" where
  "last_move t = find is_move t"

text \<open>The one movement without a prompt of its own: the target number, tried when the position service was refused.\<close>

definition retried :: "tool_effect \<Rightarrow> tool_effect list \<Rightarrow> bool" where
  "retried e t =
     (case e of
        Service (SetTargetNumber x) _ \<Rightarrow> last_move t = Some (Service (SetPosition x) False)
      | _ \<Rightarrow> False)"

fun moves_confirmed :: "tool_effect list \<Rightarrow> bool" where
  "moves_confirmed [] = True"
| "moves_confirmed (e # t) \<longleftrightarrow>
     moves_confirmed t \<and> (is_move e \<longrightarrow> present t \<and> (armed t \<or> retried e t))"

definition at_the_door :: "tool_effect list \<Rightarrow> bool" where
  "at_the_door t \<longleftrightarrow> moves_confirmed t \<and> present t"

definition ready :: "tool_effect list \<Rightarrow> bool" where
  "ready t \<longleftrightarrow> at_the_door t \<and> armed t"

definition refused :: "pyfloat \<Rightarrow> tool_effect list \<Rightarrow> bool" where
  "refused x t \<longleftrightarrow> at_the_door t \<and> last_move t = Some (Service (SetPosition x) False)"

definition saved_files :: "string set \<Rightarrow> tool_effect list \<Rightarrow> bool" where
  "saved_files fs t \<longleftrightarrow> (\<forall>f\<in>fs. \<exists>b. Saved f b \<in> set t)"

lemma present_more: "present t \<Longrightarrow> present (e # t)"
  by (auto simp: present_def)

lemma armed_more: "armed t \<Longrightarrow> \<not> is_move e \<Longrightarrow> armed (e # t)"
  by (simp add: armed_def)

lemma armed_now: "accepted e \<Longrightarrow> \<not> is_move e \<Longrightarrow> armed (e # t)"
  by (simp add: armed_def)

subsection \<open>Interface: statements that a prompt does not change\<close>

locale prompt_statement = trace_statement +
  assumes on_asked: "T t \<Longrightarrow> T (Asked p l # t)"
    and on_light: "T t \<Longrightarrow> T (Service ToggleLight ok # t)"
begin

lemma keeps_ask [keeps]: "preserving holds (ask p)"
  by (auto simp: preserving_def ask_def holds_def on_asked split: list.split typed.split)

lemma keeps_snapshot [keeps]: "preserving holds (snapshot a v label)"
  by (auto simp: snapshot_def ask_entities_def intro!: keeps)

lemma keeps_enter_round [keeps]: "preserving holds (enter_round a v m)"
  by (auto simp: enter_round_def Let_def intro!: keeps)

lemma keeps_prompts [keeps]:
  "preserving holds (prompt_enter a v m)" "preserving holds (prompt_yes_no m preset)"
  "preserving holds (prompt_float m minimum maximum allow_blank)" "preserving holds (prompt_percent_list presets)"
  by (auto simp: prompt_enter_def prompt_yes_no_def prompt_float_def prompt_percent_list_def intro!: keeps)

lemma keeps_clock [keeps]: "preserving holds (read_clock v)"
  by (auto simp: read_clock_def intro!: keeps)

lemma keeps_height [keeps]:
  "preserving holds (known_height m)"
  "preserving holds (record_height label kind direction target elapsed max_height height)"
  by (auto simp: known_height_def record_height_def Let_def intro!: keeps split: option.split sum.split)

lemma keeps_measure [keeps]: "preserving holds (measure_height label kind direction target elapsed measured)"
  by (auto simp: measure_height_def intro!: keeps split: option.split)

lemma keeps_light [keeps]: "preserving holds (toggle_house_light a v)"
  by (auto simp: toggle_house_light_def call_service_def Let_def intro!: keeps keeps_emit on_light)

lemma keeps_recording [keeps]:
  "preserving holds take_note" "preserving holds (start_recording v)" "preserving holds (stop_and_download_recording v)"
  by (auto simp: take_note_def start_recording_def stop_and_download_recording_def intro!: keeps)

lemma keeps_preflight [keeps]: "preserving holds (preflight a v)"
  by (auto simp: preflight_def intro!: keeps)

lemma keeps_manual [keeps]: "preserving holds (manual_position a v)"
  by (auto simp: manual_position_def intro!: keeps)

lemma keeps_light_test [keeps]: "preserving holds (run_light_test a v)"
  by (auto simp: run_light_test_def intro!: keeps)

end

lemma last_move_more: "\<not> is_move e \<Longrightarrow> last_move (e # t) = last_move t"
  by (simp add: last_move_def)

interpretation confirmed: prompt_statement moves_confirmed
  by unfold_locales simp_all

interpretation rest: prompt_statement at_the_door
  by unfold_locales (simp_all add: at_the_door_def present_more)

interpretation refusal: prompt_statement "refused x" for x
  by unfold_locales (simp_all add: refused_def at_the_door_def present_more last_move_more)

interpretation files: prompt_statement "saved_files fs" for fs
  by unfold_locales (auto simp: saved_files_def)

subsection \<open>Prompts and commands\<close>

text \<open>An accepted prompt is the newest event when the wizard goes on.\<close>

definition just_accepted :: "(tool_effect list \<Rightarrow> bool) \<Rightarrow> tool_effect list \<Rightarrow> bool" where
  "just_accepted T t \<longleftrightarrow> T t \<and> t \<noteq> [] \<and> accepted (hd t) \<and> \<not> is_move (hd t)"

lemma just_accepted_rest: "just_accepted at_the_door t \<Longrightarrow> ready t"
  by (cases t) (auto simp: just_accepted_def ready_def armed_now)

context prompt_statement
begin

lemma ask_triple:
  "triple holds (ask p) (\<lambda>line s. holds s \<and> (\<exists>t. ss_trace s = Asked p line # t)) holds"
  by (auto simp: triple_def ask_def holds_def on_asked split: list.split typed.split)

lemma enter_round_triple:
  "triple holds (enter_round a v m)
     (\<lambda>r s. case r of None \<Rightarrow> holds s | Some _ \<Rightarrow>
        just_accepted T (ss_trace s) \<and> (\<exists>line t. ss_trace s = Asked (EnterPrompt m) line # t)) holds"
  unfolding enter_round_def
proof (rule triple_andthen [OF ask_triple])
  fix line
  let ?asked = "\<lambda>s. holds s \<and> (\<exists>t. ss_trace s = Asked (EnterPrompt m) line # t)"
  let ?Q = "\<lambda>r s. case r of None \<Rightarrow> holds s | Some _ \<Rightarrow>
        just_accepted T (ss_trace s) \<and> (\<exists>line t. ss_trace s = Asked (EnterPrompt m) line # t)"
  have snap: "triple ?asked (andthen (ask (TextPrompt t)) (\<lambda>l. seq (snapshot a v (g l)) (ret None))) ?Q holds" for t g
  proof -
    have "triple holds (andthen (ask (TextPrompt t)) (\<lambda>l. seq (snapshot a v (g l)) (ret None))) ?Q holds"
      by (rule triple_andthen [OF triple_keeps [OF keeps_ask] triple_seq [OF triple_keeps [OF keeps_snapshot] triple_ret]])
        simp_all
    then show ?thesis
      by (rule triple_weaken) auto
  qed
  show "triple ?asked
      (let value = py_strip line
       in if py_lower value \<in> {''q'', ''quit'', ''exit''} then throw (Raised ''KeyboardInterrupt'' [])
          else if py_lower value = ''s'' then
            andthen (ask (TextPrompt ''Snapshot label'')) (\<lambda>given_label.
              seq (snapshot a v (if py_strip given_label = [] then ''manual-snapshot'' else py_strip given_label))
                (ret None))
          else ret (Some value)) ?Q holds"
    unfolding Let_def
    by (intro triple_if snap triple_throw triple_ret) (auto simp: just_accepted_def accepted_def holds_def)
qed

lemma prompt_enter_triple:
  "triple holds (prompt_enter a v m)
     (\<lambda>_ s. just_accepted T (ss_trace s) \<and> (\<exists>line t. ss_trace s = Asked (EnterPrompt m) line # t)) holds"
  unfolding prompt_enter_def
  by (rule triple_andthen [OF triple_until [OF enter_round_triple] triple_ret]) simp_all

lemma prompt_yes_no_triple:
  "triple holds (prompt_yes_no m preset) (\<lambda>yes s. holds s \<and> (yes \<longrightarrow> just_accepted T (ss_trace s))) holds"
  unfolding prompt_yes_no_def
  by (rule triple_until, rule triple_andthen [OF ask_triple], rule triple_ret)
    (auto simp: just_accepted_def accepted_def holds_def split: option.split)

end

abbreviation safe_end :: "wizard \<Rightarrow> bool" where
  "safe_end \<equiv> confirmed.holds"

abbreviation resting :: "wizard \<Rightarrow> bool" where
  "resting \<equiv> rest.holds"

abbreviation armed_rest :: "wizard \<Rightarrow> bool" where
  "armed_rest s \<equiv> ready (ss_trace s)"

lemma resting_safe: "resting s \<Longrightarrow> safe_end s"
  by (simp add: rest.holds_def confirmed.holds_def at_the_door_def)

lemma armed_resting: "armed_rest s \<Longrightarrow> resting s"
  by (simp add: ready_def rest.holds_def)

lemma enter_arms: "triple resting (prompt_enter a v m) (\<lambda>_. armed_rest) safe_end"
  by (rule triple_weaken [OF rest.prompt_enter_triple]) (auto simp: just_accepted_rest resting_safe)

lemma yes_arms:
  "triple resting (prompt_yes_no m preset) (\<lambda>yes s. resting s \<and> (yes \<longrightarrow> armed_rest s)) safe_end"
  by (rule triple_weaken [OF rest.prompt_yes_no_triple]) (auto simp: just_accepted_rest resting_safe)

lemma resting_keeps: "preserving resting m \<Longrightarrow> triple resting m (\<lambda>_. resting) safe_end"
  by (rule triple_keeps [OF _ resting_safe])

lemma armed_keeps: "preserving resting m \<Longrightarrow> triple armed_rest m (\<lambda>_. resting) safe_end"
  by (rule triple_weaken [OF resting_keeps]) (auto simp: armed_resting)

text \<open>A service call, by what it does to the trace.\<close>

lemma service_triple:
  "(\<And>s ok. P s \<Longrightarrow> R ok (Service sv ok # ss_trace s)) \<Longrightarrow>
    triple P (call_service v sv) (\<lambda>ok s. R ok (ss_trace s)) E"
  by (simp add: triple_def call_service_def andthen_def seq_def fetch_def modify_def emit_pair ret_def Let_def)

lemma command_cover_triple: "triple armed_rest (command_cover a v c) (\<lambda>_. resting) safe_end"
proof -
  have "triple armed_rest (call_service v (CoverService c)) (\<lambda>ok s. at_the_door (ss_trace s)) safe_end"
    by (rule service_triple) (auto simp: ready_def at_the_door_def present_more)
  then have "triple armed_rest (andthen (call_service v (CoverService c)) (\<lambda>ok.
      seq (emit (Recorded ''ha_command'' (''cover.'' @ c @ ''_cover'')))
        (do_if (\<not> ok) (prompt_enter a v ''Press Enter immediately after sending the command manually''))))
      (\<lambda>_. resting) safe_end"
    by (rule triple_andthen) (auto intro!: resting_keeps keeps rest.keeps_effects rest.keeps_prompts simp flip: rest.holds_def)
  moreover have "triple armed_rest (seq (prompt_enter a v m) (emit (Recorded k l))) (\<lambda>_. resting) safe_end" for m k l
    by (intro armed_keeps keeps rest.keeps_effects rest.keeps_prompts)
  ultimately show ?thesis
    unfolding command_cover_def by (intro triple_if)
qed

lemma command_position_triple: "triple armed_rest (command_position a v x) (\<lambda>_. resting) safe_end"
proof -
  have call: "triple armed_rest (call_service v (SetPosition x))
      (\<lambda>ok s. if ok then at_the_door (ss_trace s) else refused x (ss_trace s)) safe_end"
    by (rule service_triple) (auto simp: ready_def at_the_door_def refused_def present_more last_move_def)
  have number: "triple (refusal.holds x) (call_service v (SetTargetNumber x)) (\<lambda>_ s. at_the_door (ss_trace s)) safe_end"
    by (rule service_triple) (auto simp: refusal.holds_def refused_def at_the_door_def present_more retried_def)
  have fall_back: "triple (refusal.holds x) (andthen (call_service v (SetTargetNumber x)) (\<lambda>fallback.
      seq (emit (Recorded k l)) (if fallback then ret () else manual_position a v))) (\<lambda>_. resting) safe_end" for k l
    using number
    by (rule triple_andthen)
      (auto intro!: resting_keeps keeps rest.keeps_effects rest.keeps_manual simp flip: rest.holds_def)
  have refused_safe: "refusal.holds x s \<Longrightarrow> safe_end s" for s :: wizard
    by (simp add: refusal.holds_def refused_def at_the_door_def confirmed.holds_def)
  have "triple (\<lambda>s. if ok then at_the_door (ss_trace s) else refused x (ss_trace s))
      (seq (emit (Recorded k l)) (if ok then ret () else andthen (call_service v (SetTargetNumber x)) (\<lambda>fallback.
        seq (emit (Recorded k' l')) (if fallback then ret () else manual_position a v)))) (\<lambda>_. resting) safe_end"
    for ok k l k' l'
  proof (cases ok)
    case True
    then show ?thesis
      by (simp flip: rest.holds_def) (intro resting_keeps keeps rest.keeps_effects)
  next
    case False
    then show ?thesis
      by (simp flip: refusal.holds_def)
        (rule triple_seq [OF triple_keeps [OF refusal.keeps_effects(3) refused_safe] fall_back])
  qed
  then have "triple armed_rest (andthen (call_service v (SetPosition x)) (\<lambda>ok.
      seq (emit (Recorded k l)) (if ok then ret () else andthen (call_service v (SetTargetNumber x)) (\<lambda>fallback.
        seq (emit (Recorded k' l')) (if fallback then ret () else manual_position a v)))))
      (\<lambda>_. resting) safe_end" for k l k' l'
    by (rule triple_andthen [OF call])
  moreover have "triple armed_rest (manual_position a v) (\<lambda>_. resting) safe_end"
    by (rule armed_keeps [OF rest.keeps_manual])
  ultimately show ?thesis
    unfolding command_position_def by (intro triple_if)
qed

subsection \<open>The session\<close>

text \<open>A command between its prompt and the next one.\<close>

lemmas moving_steps = triple_seq [OF enter_arms] triple_seq [OF command_cover_triple]
  triple_seq [OF command_position_triple]

lemmas resting_facts = rest.keeps_effects rest.keeps_prompts rest.keeps_snapshot rest.keeps_height rest.keeps_measure
  rest.keeps_clock

lemma rest_first: "preserving resting m \<Longrightarrow> triple resting n Q safe_end \<Longrightarrow> triple resting (seq m n) Q safe_end"
  by (rule triple_seq [OF resting_keeps])

lemma rest_then:
  "preserving resting m \<Longrightarrow> (\<And>x. triple resting (f x) Q safe_end) \<Longrightarrow> triple resting (andthen m f) Q safe_end"
  by (rule triple_andthen [OF resting_keeps])

text \<open>Reading the clock between the prompt and the command does not change the trace.\<close>

lemma clock_armed: "triple armed_rest (read_clock v) (\<lambda>_. armed_rest) safe_end"
  by (simp add: triple_def read_clock_def andthen_def seq_def fetch_def modify_def ret_def)

lemma full_travel_triple: "triple resting (run_full_travel_calibration a v) (\<lambda>_. resting) safe_end"
  unfolding run_full_travel_calibration_def
  by (rule rest_first, rule rest.keeps_prompts, rule rest_first, rule rest.keeps_snapshot,
      rule triple_seq [OF enter_arms], rule triple_andthen [OF clock_armed], rule triple_seq [OF command_cover_triple],
      rule rest_first, rule rest.keeps_prompts, rule rest_then, rule rest.keeps_clock,
      rule rest_first, rule rest.keeps_snapshot, rule rest_then, rule rest.keeps_height,
      rule rest_first, rule rest.keeps_measure,
      rule triple_seq [OF enter_arms], rule triple_andthen [OF clock_armed], rule triple_seq [OF command_cover_triple])
    (intro resting_keeps keeps resting_facts)

lemma when_yes:
  "triple armed_rest n (\<lambda>_. resting) safe_end \<Longrightarrow>
    triple resting (andthen (prompt_yes_no m preset) (\<lambda>yes. do_if yes n)) (\<lambda>_. resting) safe_end"
proof (rule triple_andthen [OF yes_arms])
  assume n: "triple armed_rest n (\<lambda>_. resting) safe_end"
  show "triple (\<lambda>s. resting s \<and> (yes \<longrightarrow> armed_rest s)) (do_if yes n) (\<lambda>_. resting) safe_end" for yes
    by (cases yes) (auto simp: do_if_def intro: triple_weaken [OF n] triple_ret)
qed

lemma unless_no:
  "triple resting n (\<lambda>_. resting) safe_end \<Longrightarrow>
    triple resting (andthen (prompt_yes_no m preset) (\<lambda>yes. if \<not> yes then ret () else n)) (\<lambda>_. resting) safe_end"
  by (rule rest_then [OF rest.keeps_prompts(2)]) (auto intro: triple_ret)

lemma stop_test_triple: "triple resting (run_stop_test a v) (\<lambda>_. resting) safe_end"
  unfolding run_stop_test_def
  by (rule unless_no, rule triple_seq [OF enter_arms], rule triple_seq [OF command_cover_triple],
      rule triple_seq [OF enter_arms], rule triple_andthen [OF clock_armed], rule triple_seq [OF command_cover_triple],
      rule rest_first, rule rest.keeps_prompts, rule rest_then, rule rest.keeps_clock,
      rule rest_first, rule rest.keeps_snapshot, rule rest_first, rule rest.keeps_measure,
      rule when_yes, rule triple_seq [OF command_cover_triple])
    (intro resting_keeps keeps resting_facts)

lemma position_test_triple: "triple resting (position_test a v previous target) (\<lambda>_. resting) safe_end"
  unfolding position_test_def
  by (rule triple_seq [OF enter_arms], rule triple_andthen [OF clock_armed], rule triple_seq [OF command_position_triple])
    (intro resting_keeps keeps resting_facts)

lemma position_tests_triple: "triple resting (position_tests a v previous targets) (\<lambda>_. resting) safe_end"
  by (induction targets arbitrary: previous) (auto intro: triple_ret triple_seq [OF position_test_triple])

lemma obstruction_test_triple: "triple resting (run_obstruction_test a v) (\<lambda>_. resting) safe_end"
  unfolding run_obstruction_test_def
  by (rule unless_no, rule triple_seq [OF enter_arms], rule triple_seq [OF command_cover_triple],
      rule rest_first, rule rest.keeps_prompts, rule rest_then, rule rest.keeps_ask,
      rule rest_first, rule rest.keeps_effects, rule rest_first, rule rest.keeps_snapshot,
      rule rest_first, rule rest.keeps_effects, rule when_yes, rule triple_seq [OF command_cover_triple])
    (intro resting_keeps keeps resting_facts)

lemma preflight_triple: "triple safe_end (preflight a v) (\<lambda>_. resting) safe_end"
proof -
  have "triple safe_end (prompt_enter a v PRESENT) (\<lambda>_. resting) safe_end"
    by (rule triple_weaken [OF confirmed.prompt_enter_triple])
      (fastforce simp: just_accepted_def rest.holds_def at_the_door_def present_def)+
  then show ?thesis
    unfolding preflight_def
    by (intro triple_seq [OF triple_keeps] triple_andthen [OF triple_keeps] keeps
        confirmed.keeps_snapshot confirmed.keeps_get confirmed.keeps_recording) simp_all
qed

text \<open>The recording is stopped and saved whichever way the session ends.\<close>

definition finished :: "tool_effect list \<Rightarrow> bool" where
  "finished t \<longleftrightarrow> (\<exists>ok. Request ''/persistent_log/stop'' ok \<in> set t) \<and> saved_files (set (map fst wizard_downloads)) t"

lemma steps_triple: "triple safe_end (wizard_steps a v) (\<lambda>_ s. resting s) safe_end"
  unfolding wizard_steps_def run_position_tests_def
  by (rule triple_seq [OF preflight_triple], rule rest_first, rule rest.keeps_recording,
      rule triple_seq [OF full_travel_triple], rule triple_seq [OF stop_test_triple],
      rule triple_seq [OF triple_andthen [OF resting_keeps [OF rest.keeps_prompts(4)] position_tests_triple]],
      rule rest_first, rule rest.keeps_light_test, rule triple_seq [OF obstruction_test_triple],
      rule resting_keeps, rule rest.keeps_recording)

definition stop_requested :: "tool_effect list \<Rightarrow> bool" where
  "stop_requested t \<longleftrightarrow> (\<exists>ok. Request ''/persistent_log/stop'' ok \<in> set t)"

interpretation stopped: prompt_statement stop_requested
  by unfold_locales (auto simp: stop_requested_def)

lemma download_triple:
  "triple (files.holds fs) (andthen (http_save http path f) (\<lambda>_. emit (Recorded k l))) (\<lambda>_. files.holds (insert f fs))
     (\<lambda>_. True)"
proof -
  have "triple (files.holds fs) (seq (emit (Saved f b)) (ret r)) (\<lambda>_. files.holds (insert f fs)) (\<lambda>_. True)"
    for b and r :: http_result
    by (rule triple_seq [OF triple_emit [where Q = "\<lambda>_. files.holds (insert f fs)"] triple_ret])
      (auto simp: files.holds_def saved_files_def)
  then have "triple (files.holds fs) (http_save http path f) (\<lambda>_. files.holds (insert f fs)) (\<lambda>_. True)"
    unfolding http_save_def by - (rule triple_andthen [OF triple_keeps [OF files.keeps_get]], simp_all)
  then show ?thesis
    by (rule triple_andthen) (rule triple_keeps [OF files.keeps_effects(3)], simp)
qed

lemma downloads_triple:
  "triple (files.holds fs) (for_each ds (\<lambda>(f, path). andthen (http_save http path f) (\<lambda>_. emit (Recorded k f))))
     (\<lambda>_. files.holds (fs \<union> set (map fst ds))) (\<lambda>_. True)"
proof (induction ds arbitrary: fs)
  case Nil
  then show ?case
    by (simp add: triple_ret)
next
  case (Cons d ds)
  obtain f path where d: "d = (f, path)"
    by (cases d)
  show ?case
    using triple_seq [OF download_triple Cons.IH] by (simp add: d insert_commute)
qed

lemma stop_saves:
  "triple (\<lambda>_. True) (stop_and_download_recording v) (\<lambda>_ s. finished (ss_trace s)) (\<lambda>_. True)"
proof -
  have "triple (\<lambda>_. True) (stop_and_download_recording v) (\<lambda>_. files.holds (set (map fst wizard_downloads))) (\<lambda>_. True)"
    unfolding stop_and_download_recording_def
  proof (rule triple_andthen [where R = "\<lambda>_. files.holds {}"])
    show "triple (\<lambda>_. True) (http_get (we_esp v) ''/persistent_log/stop'' 2) (\<lambda>_. files.holds {}) (\<lambda>_. True)"
      by (auto simp: triple_def files.holds_def saved_files_def split: prod.split sum.split)
    show "triple (files.holds {}) (seq (emit (Recorded ''esp'' ''persistent_log_stop''))
        (for_each wizard_downloads (\<lambda>(filename, path).
          andthen (http_save (we_esp v) path filename) (\<lambda>_. emit (Recorded ''download'' filename)))))
        (\<lambda>_. files.holds (set (map fst wizard_downloads))) (\<lambda>_. True)"
      using triple_seq [OF triple_keeps [OF files.keeps_effects(3)] downloads_triple [of "{}"]] by simp
  qed
  moreover have "triple (\<lambda>_. True) (stop_and_download_recording v) (\<lambda>_. stopped.holds) (\<lambda>_. True)"
    unfolding stop_and_download_recording_def
  proof (rule triple_andthen [where R = "\<lambda>_. stopped.holds"])
    show "triple (\<lambda>_. True) (http_get (we_esp v) ''/persistent_log/stop'' 2) (\<lambda>_. stopped.holds) (\<lambda>_. True)"
    proof (rule tripleI)
      show "case http_get (we_esp v) ''/persistent_log/stop'' 2 s of (Inr r, t) \<Rightarrow> stopped.holds t | (Inl e, t) \<Rightarrow> True" for s
        using get_request [of "we_esp v" "''/persistent_log/stop''" 2 s]
        by (elim exE conjE) (simp add: stopped.holds_def stop_requested_def, blast)
    qed
  qed (intro triple_keeps keeps stopped.keeps_effects stopped.keeps_save; auto intro!: keeps stopped.keeps_effects stopped.keeps_save)
  ultimately have "triple (\<lambda>_. True) (stop_and_download_recording v)
      (\<lambda>_ s. files.holds (set (map fst wizard_downloads)) s \<and> stopped.holds s) (\<lambda>_. True)"
    by (rule triple_conj)
  then show ?thesis
    by (rule triple_weaken) (auto simp: finished_def files.holds_def stopped.holds_def stop_requested_def)
qed

lemma stop_returns: "returns (stop_and_download_recording v)"
  by (auto simp: stop_and_download_recording_def http_save_def intro!: keeps)

lemma run_all_cases:
  obtains (finish) t where "wizard_steps a v s = (Inr (), t)" "run_all a v s = (Inr 0, t)"
  | (interrupt) m t u where "wizard_steps a v s = (Inl (Raised ''KeyboardInterrupt'' m), t)"
      "stop_and_download_recording v t = (Inr (), u)" "run_all a v s = (Inr 130, u)"
  | (fail) e t where "wizard_steps a v s = (Inl e, t)" "run_all a v s = (Inl e, t)"
proof (cases "wizard_steps a v s")
  case (Pair r t)
  show ?thesis
  proof (cases r)
    case (Inr u)
    then show ?thesis
      using finish Pair by (simp add: run_all_def)
  next
    case (Inl e)
    obtain u where u: "stop_and_download_recording v t = (Inr (), u)"
      using stop_returns by (auto simp: returns_def)
    show ?thesis
    proof (cases "\<exists>m. e = Raised ''KeyboardInterrupt'' m")
      case True
      then show ?thesis
        using interrupt Pair Inl u by (auto simp: run_all_def)
    next
      case False
      then have "run_all a v s = (Inl e, t)"
        by (auto simp: run_all_def Pair Inl split: exn.split)
      then show ?thesis
        using fail Pair Inl by simp
    qed
  qed
qed

lemma steps_finish: "triple (\<lambda>_. True) (wizard_steps a v) (\<lambda>_ s. finished (ss_trace s)) (\<lambda>_. True)"
proof -
  have any: "triple (\<lambda>_. True) m (\<lambda>_ _. True) (\<lambda>_. True)" for m :: "(wizard, 'a) prog"
    by (simp add: triple_def split: prod.split sum.split)
  show ?thesis
    unfolding wizard_steps_def by (intro triple_seq [OF any] stop_saves)
qed

lemma run_all_confirmed:
  "case run_all a v (new_wizard a ts) of (r, s) \<Rightarrow>
     moves_confirmed (ss_trace s) \<and> (\<forall>code. r = Inr code \<longrightarrow> code \<in> {0, 130} \<and> finished (ss_trace s))"
proof -
  have new: "safe_end (new_wizard a ts)"
    by (simp add: confirmed.holds_def new_wizard_def)
  have steps: "case wizard_steps a v (new_wizard a ts) of (Inr x, t) \<Rightarrow> safe_end t | (Inl e, t) \<Rightarrow> safe_end t"
    using triple_run [OF steps_triple [of a v] new] by (auto simp: resting_safe split: prod.splits sum.splits)
  have end_finished: "case wizard_steps a v (new_wizard a ts) of (Inr x, t) \<Rightarrow> finished (ss_trace t) | _ \<Rightarrow> True"
    using triple_run [OF steps_finish [of a v], of "new_wizard a ts"] by (auto split: prod.splits sum.splits)
  show ?thesis
  proof (cases a v "new_wizard a ts" rule: run_all_cases)
    case (finish t)
    then show ?thesis
      using steps end_finished by (simp add: confirmed.holds_def)
  next
    case (interrupt m t u)
    have "moves_confirmed (ss_trace t)"
      using steps interrupt by (simp add: confirmed.holds_def)
    then have "moves_confirmed (ss_trace u)" "finished (ss_trace u)"
      using confirmed.keeps_recording(3) [of v] interrupt triple_run [OF stop_saves [of v], of t]
      by (simp_all add: preserving_def confirmed.holds_def) fastforce
    then show ?thesis
      using interrupt by simp
  next
    case (fail e t)
    then show ?thesis
      using steps by (simp add: confirmed.holds_def)
  qed
qed

subsection \<open>Not a number\<close>

text \<open>A height entered as \<open>nan\<close> passes both bounds of the prompt and is recorded as a door that is fully open.\<close>

lemma nan_height_accepted: "number_answer (Some 0) maximum False ''nan'' = Some (Some NaN)"
proof -
  have "py_float (py_replace_char CHR '','' ''.'' (py_strip ''nan'')) = Some NaN"
    by code_simp
  then show ?thesis
    by (simp add: number_answer_def Let_def below_def above_def float_less_def float_greater_def split: option.split pyfloat.split)
qed

lemma nan_height_full_open: "clamp_percent (py_scale NaN 100) = 100"
  by (simp add: clamp_percent_def py_scale_def)

subsection \<open>Property\<close>


definition sample_wizard_args :: wizard_args where
  "sample_wizard_args =
     \<lparr>wa_ha_token = Some ''t'', wa_cover_entity = ''cover.garage_door'', wa_entities = [],
      wa_full_open_height = Some (Finite 2)\<rparr>"

definition sample_wizard_env :: wizard_env where
  "sample_wizard_env =
     \<lparr>we_esp = \<lambda>_ _. \<lparr>hr_ok = True, hr_status = Some 200, hr_body = [1], hr_text = [], hr_json = False\<rparr>,
      we_ha = \<lambda>_ _. \<lparr>hr_ok = True, hr_status = Some 200, hr_body = [1], hr_text = [], hr_json = False\<rparr>,
      we_service = \<lambda>_ _. True, we_json_true = \<lambda>_ _. False, we_clock = \<lambda>n. of_nat n\<rparr>"

text \<open>The door is opened once; the next prompt is interrupted.\<close>

definition sample_typed :: "typed list" where
  "sample_typed = [Line [], Line [], Line [], CtrlC]"

lemma sample_session:
  "case run_all sample_wizard_args sample_wizard_env (new_wizard sample_wizard_args sample_typed) of (r, s) \<Rightarrow>
     r = Inr 130 \<and> list_ex is_move (ss_trace s)"
proof -
  have words: "py_strip [] = []" "py_lower [] = []"
    by code_simp+
  have again: "usable r \<Longrightarrow> get_again http path 2 r = ret r" for http path r
    by (simp add: numeral_2_eq_2)
  show ?thesis
    by (simp add: again words run_all_def wizard_steps_def preflight_def snapshot_def ask_entities_def ha_available_def
        sample_wizard_args_def sample_wizard_env_def new_wizard_def sample_typed_def start_recording_def take_note_def
        run_full_travel_calibration_def prompt_enter_def until_answer_def enter_round_def command_cover_def
        call_service_def read_clock_def stop_and_download_recording_def wizard_downloads_def http_get_def
        http_request_def http_save_def usable_def andthen_def seq_def ret_def throw_def do_if_def fetch_def modify_def ask_def
        emit_pair Let_def)
qed


end
