(* ===== verification/Phone_Main.thy ===== *)
theory Phone_Main
  imports Phone_Sync Hcp_Timing Hcp_Calibration "HOL-Library.List_Lexorder" "HOL-Library.Char_ord"
begin

text \<open>
  The main program of \<open>tools/run_phone_video_sync_capture.py\<close> around the display of Phone_Sync, and the decoder of the
  video, \<open>tools/decode_phone_sync_video.py\<close>.  The display's main loop is one effect with a given end; what the HTTP port,
  the API worker and the QR detector do is given.
\<close>

subsection \<open>The saved log\<close>

definition count_up :: "string \<Rightarrow> (string \<times> nat) list \<Rightarrow> (string \<times> nat) list" where
  "count_up key d = dict_put key ((case map_of d key of None \<Rightarrow> 0 | Some n \<Rightarrow> n) + 1) d"

record log_summary =
  lm_record_count :: nat
  lm_dropped_records :: nat
  lm_dropped_bytes :: nat
  lm_by_type :: "(string \<times> nat) list"
  lm_by_status :: "(string \<times> nat) list"
  lm_commands :: "log_record list"

text \<open>\<open>dict(sorted(d.items()))\<close>: the keys are different, so their order decides.\<close>

definition sorted_items :: "(string \<times> nat) list \<Rightarrow> (string \<times> nat) list" where
  "sorted_items d = sort_key fst d"

definition summarize_log :: "persistent_log \<Rightarrow> log_summary" where
  "summarize_log decoded =
     (let records = pl_records decoded
      in \<lparr>lm_record_count = length records, lm_dropped_records = pl_dropped_records decoded,
          lm_dropped_bytes = pl_dropped_bytes decoded,
          lm_by_type = sorted_items (foldl (\<lambda>d r. count_up (lg_type r) d) [] records),
          lm_by_status =
            sorted_items (foldl (\<lambda>d r. count_up (lg_status_hex r) d) []
              (filter (\<lambda>r. lg_type r \<in> {''status'', ''frame''}) records)),
          lm_commands = filter (\<lambda>r. lg_type r = ''command'') records\<rparr>)"

text \<open>\<open>decode_downloaded_binary_log\<close>: nothing for a missing or an empty file.\<close>

definition decode_downloaded :: "bytes option \<Rightarrow> log_summary option" where
  "decode_downloaded file =
     (case file of
        Some (b # bs) \<Rightarrow> Some (summarize_log (load_binary_persistent_log (b # bs)))
      | _ \<Rightarrow> None)"

subsection \<open>A run\<close>

record phone_args =
  pa_yes :: bool
  pa_dry_run :: bool
  pa_startup_check :: bool
  pa_download_json :: bool
  pa_sequence :: string
  pa_key :: cal_args

text \<open>The connection attempts with the time left after each, whether the worker becomes ready, and how the display ends.\<close>

record phone_host =
  ph_http :: http
  ph_attempts :: "(bool \<times> rat) list"
  ph_ready :: bool
  ph_display :: "unit result"

record capture_state = tool_session +
  cp_log_started :: bool
  cp_worker_started :: bool

type_synonym 'a capt = "(capture_state, 'a) prog"

fun wait_for_tcp :: "(bool \<times> rat) list \<Rightarrow> bool capt" where
  "wait_for_tcp [] = ret False"
| "wait_for_tcp ((up, remaining) # attempts) =
     (if up then ret True
      else if remaining \<le> 0 then ret False
      else seq (emit (Slept (min 2 remaining))) (wait_for_tcp attempts))"

definition log_label_request :: "phone_host \<Rightarrow> string \<times> string \<Rightarrow> unit capt" where
  "log_label_request h lp =
     (let (label, path) = lp
      in andthen (http_get (ph_http h) path 2) (\<lambda>r.
         seq (emit (Recorded ''esp_http'' label))
           (if hr_ok r then ret () else throw (SystemExit (''ESP HTTP '' @ label @ '' failed'')))))"

definition start_persistent_log :: "phone_host \<Rightarrow> unit capt" where
  "start_persistent_log h = for_each log_setup (log_label_request h)"

definition stop_persistent_log :: "phone_host \<Rightarrow> unit capt" where
  "stop_persistent_log h =
     andthen (http_get (ph_http h) ''/persistent_log/stop'' 2) (\<lambda>_. emit (Recorded ''esp_http'' ''persistent_log_stop''))"

definition esp_save :: "phone_host \<Rightarrow> string \<Rightarrow> string \<Rightarrow> bool \<Rightarrow> http_result capt" where
  "esp_save h path filename nonempty =
     (if nonempty then http_save_nonempty (ph_http h) path filename 3 else http_save (ph_http h) path filename)"

definition phone_downloads :: "bool \<Rightarrow> (string \<times> string \<times> bool) list" where
  "phone_downloads include_json_log =
     [(''esp-stats-final.json'', ''/stats'', False), (''esp-broadcast-status-final.json'', ''/broadcast_status'', False),
      (''esp-recent-final.txt'', ''/recent'', False), (''persistent-log.bin'', ''/persistent_log.bin'', False)] @
     (if include_json_log then [(''persistent-log.json'', ''/persistent_log'', True)] else [])"

definition phone_download :: "phone_host \<Rightarrow> string \<times> string \<times> bool \<Rightarrow> unit capt" where
  "phone_download h d =
     (let (filename, path, nonempty) = d
      in andthen (esp_save h path filename nonempty) (\<lambda>_. emit (Recorded ''download'' filename)))"

text \<open>The last body saved under a name.\<close>

definition saved_body :: "string \<Rightarrow> tool_effect list \<Rightarrow> bytes option" where
  "saved_body name t = map_of (List.map_filter (\<lambda>e. case e of Saved f b \<Rightarrow> Some (f, b) | _ \<Rightarrow> None) t) name"

definition decode_step :: "unit capt" where
  "decode_step =
     andthen (fetch (\<lambda>s. decode_downloaded (saved_body ''persistent-log.bin'' (ss_trace s)))) (\<lambda>summary.
       do_if (summary \<noteq> None)
         (seq (emit (Wrote ''persistent-log-decoded.json'')) (emit (Wrote ''persistent-log-summary.json''))))"

definition stop_and_download :: "phone_host \<Rightarrow> bool \<Rightarrow> unit capt" where
  "stop_and_download h include_json_log =
     seq (stop_persistent_log h)
       (seq (for_each (phone_downloads include_json_log) (phone_download h)) decode_step)"

text \<open>\<open>try: m except KeyboardInterrupt: f\<close>, and \<open>try: m finally: f\<close>.\<close>

definition on_interrupt :: "(capture_state, 'a) prog \<Rightarrow> (capture_state, 'a) prog \<Rightarrow> (capture_state, 'a) prog" where
  "on_interrupt m f s =
     (case m s of
        (Inl e, t) \<Rightarrow> if (case e of Raised c _ \<Rightarrow> c = ''KeyboardInterrupt'' | _ \<Rightarrow> False) then f t else (Inl e, t)
      | r \<Rightarrow> r)"

definition finally_do :: "(capture_state, 'a) prog \<Rightarrow> unit capt \<Rightarrow> (capture_state, 'a) prog" where
  "finally_do m f s =
     (case m s of (r, t) \<Rightarrow> (case f t of (Inl e, u) \<Rightarrow> (Inl e, u) | (Inr _, u) \<Rightarrow> (r, u)))"

definition open_log :: "phone_args \<Rightarrow> phone_host \<Rightarrow> unit capt" where
  "open_log a h =
     do_if (\<not> pa_dry_run a)
       (andthen (wait_for_tcp (ph_attempts h)) (\<lambda>reachable.
         if \<not> reachable then throw (SystemExit ''ESP HTTP port is not reachable; capture was not started'')
         else seq (start_persistent_log h) (modify (\<lambda>s. s\<lparr>cp_log_started := True\<rparr>))))"

definition run_display :: "phone_args \<Rightarrow> phone_host \<Rightarrow> unit capt" where
  "run_display a h =
     seq (emit (Did ''worker_start''))
       (seq (modify (\<lambda>s. s\<lparr>cp_worker_started := True\<rparr>))
         (if \<not> pa_dry_run a \<and> \<not> ph_ready h then throw (SystemExit ''Timed out connecting to ESPHome native API'')
          else if pa_startup_check a then ret ()
          else seq (emit (Did ''display'')) (of_result (ph_display h))))"

definition clean_up :: "phone_args \<Rightarrow> phone_host \<Rightarrow> unit capt" where
  "clean_up a h =
     seq (emit (Did ''stop_event''))
       (andthen (fetch cp_worker_started) (\<lambda>worker_started.
         seq (do_if worker_started (emit (Did ''worker_stop'')))
           (andthen (fetch cp_log_started) (\<lambda>log_started.
             seq (do_if (\<not> pa_dry_run a \<and> log_started)
                   (if pa_startup_check a then stop_persistent_log h else stop_and_download h (pa_download_json a)))
               (emit (Wrote ''phone-sync-run.json''))))))"

definition confirm_capture :: "phone_args \<Rightarrow> unit capt" where
  "confirm_capture a = do_if (\<not> pa_yes a \<and> \<not> pa_dry_run a) (andthen (ask Presence) (\<lambda>_. ret ()))"

definition prepare_capture :: "phone_args \<Rightarrow> unit capt" where
  "prepare_capture a =
     andthen (of_result (parse_sequence (pa_sequence a))) (\<lambda>_.
       do_if (\<not> pa_dry_run a) (andthen (of_result (calibration_key (pa_key a))) (\<lambda>_. ret ())))"

definition capture_main :: "phone_args \<Rightarrow> phone_host \<Rightarrow> int capt" where
  "capture_main a h =
     seq (confirm_capture a)
       (seq (prepare_capture a)
         (seq
           (finally_do
             (on_interrupt (seq (open_log a h) (run_display a h)) (emit (Recorded ''control'' ''keyboard_interrupt'')))
             (clean_up a h))
           (ret 0)))"

definition new_capture :: "typed list \<Rightarrow> capture_state" where
  "new_capture ts =
     \<lparr>ss_typed = ts, ss_requests = 0, ss_trace = [], cp_log_started = False, cp_worker_started = False\<rparr>"

subsection \<open>The video\<close>

text \<open>What the detector makes of a frame, and what a second detector makes of it when the first sees nothing.\<close>

record video_frame =
  fr_payload :: string
  fr_retry :: string

record decode_result =
  dr_frame :: nat
  dr_time_s :: rat
  dr_fields :: "qr_fields option"
  dr_event_name :: "string option"
  dr_payload :: string
  dr_reason :: string

definition parse_decoded_payload :: "string \<Rightarrow> qr_fields option \<times> string" where
  "parse_decoded_payload payload =
     (if payload = [] then (None, ''qr_not_decoded'')
      else case parse_phone_sync_qr_payload payload of
        Inl e \<Rightarrow> (None, exn_message e)
      | Inr q \<Rightarrow> (Some q, ''ok''))"

definition event_name :: "int \<Rightarrow> string" where
  "event_name code =
     (case (if code < 0 then None else map_of EVENT_NAMES (nat code)) of
        Some t \<Rightarrow> t
      | None \<Rightarrow> ''unknown_'' @ py_str_int code)"

definition decode_frame :: "nat \<Rightarrow> rat \<Rightarrow> video_frame \<Rightarrow> decode_result" where
  "decode_frame frame time_s f =
     (let payload = (if fr_payload f \<noteq> [] then fr_payload f else fr_retry f);
          (found, reason) = parse_decoded_payload payload
      in \<lparr>dr_frame = frame, dr_time_s = time_s, dr_fields = found,
          dr_event_name = map_option (\<lambda>q. event_name (qr_event_code q)) found, dr_payload = payload,
          dr_reason = reason\<rparr>)"

record decode_args =
  da_sample_stride :: int
  da_max_frames :: "int option"
  da_include_invalid :: bool

text \<open>The frames that are read, with their numbers, and those of them that are decoded.\<close>

definition frames_read :: "decode_args \<Rightarrow> video_frame list \<Rightarrow> (nat \<times> video_frame) list" where
  "frames_read a frames =
     enumerate 0 (case da_max_frames a of None \<Rightarrow> frames | Some n \<Rightarrow> take (nat n) frames)"

definition sampled :: "decode_args \<Rightarrow> rat \<Rightarrow> video_frame list \<Rightarrow> decode_result list" where
  "sampled a fps frames =
     map (\<lambda>(i, f). decode_frame i (if fps > 0 then of_nat i / fps else 0) f)
       (filter (\<lambda>(i, _). int i mod da_sample_stride a = 0) (frames_read a frames))"

text \<open>The rows written, and the exit code; \<open>opened\<close> is what OpenCV made of the file.\<close>

definition decode_video :: "decode_args \<Rightarrow> bool \<Rightarrow> rat \<Rightarrow> video_frame list \<Rightarrow> (decode_result list \<times> int) result" where
  "decode_video a opened fps frames =
     (if \<not> opened then Inl (SystemExit ''Could not open video'')
      else if da_sample_stride a = 0 \<and> frames_read a frames \<noteq> [] then
        Inl (Raised ''ZeroDivisionError'' ''integer modulo by zero'')
      else
        let results = sampled a fps frames; good = filter (\<lambda>r. dr_fields r \<noteq> None) results
        in Inr (if da_include_invalid a then results else good, if good \<noteq> [] then 0 else 2))"

end
