(* ===== verification/Phone_Main_Props.thy ===== *)
theory Phone_Main_Props
  imports Phone_Main Phone_Sync_Props Hcp_Calibration_Props
begin

text \<open>
  What a phone capture may do: nothing reaches the opener before the operator confirmed to be present, nothing is shown and
  no command can be sent before the log was cleared and started, a dry run makes no request, and whatever happens the
  worker and the log are stopped.  What the video decoder accepts.
\<close>

subsection \<open>Statements about the trace\<close>

fun capture_safe :: "bool \<Rightarrow> bool \<Rightarrow> tool_effect list \<Rightarrow> bool" where
  "capture_safe dry yes [] = True"
| "capture_safe dry yes (e # t) \<longleftrightarrow>
     capture_safe dry yes t \<and>
     (case e of
        Did a \<Rightarrow> a \<in> {''worker_start'', ''display''} \<longrightarrow> dry \<or> log_running yes t
      | Request path ok \<Rightarrow> \<not> dry \<and> confirmed yes t
      | Asked p line \<Rightarrow> \<not> dry
      | tool_effect.Sent a \<Rightarrow> False
      | Service sv ok \<Rightarrow> False
      | _ \<Rightarrow> True)"

abbreviation began :: "tool_effect list \<Rightarrow> bool" where
  "began t \<equiv> Did ''worker_start'' \<in> set t"

definition stop_asked :: "tool_effect list \<Rightarrow> bool" where
  "stop_asked t \<longleftrightarrow> (\<exists>ok. Request ''/persistent_log/stop'' ok \<in> set t)"

definition closed_down :: "bool \<Rightarrow> tool_effect list \<Rightarrow> bool" where
  "closed_down dry t \<longleftrightarrow> (began t \<longrightarrow> Did ''worker_stop'' \<in> set t \<and> (dry \<or> stop_asked t))"

text \<open>The log may be talked to: no dry run, presence confirmed.  \<open>before\<close> happened, and a worker began only if \<open>b\<close>.\<close>

definition online :: "bool \<Rightarrow> bool \<Rightarrow> tool_effect set \<Rightarrow> tool_effect list \<Rightarrow> bool" where
  "online yes b before t \<longleftrightarrow>
     capture_safe False yes t \<and> confirmed yes t \<and> before \<subseteq> set t \<and> (began t \<longrightarrow> b)"

interpretation online: trace_statement "online yes b before" for yes b before
  by unfold_locales (auto simp: online_def confirmed_def)

interpretation stop_asked: trace_statement stop_asked
  by unfold_locales (auto simp: stop_asked_def)

subsection \<open>The flags\<close>

text \<open>What any effect and any request keep, a request with its repetitions keeps.\<close>

definition effect_closed :: "('x tool_session_scheme \<Rightarrow> bool) \<Rightarrow> bool" where
  "effect_closed P \<longleftrightarrow>
     (\<forall>s e n. P s \<longrightarrow> P (s\<lparr>ss_trace := e # ss_trace s\<rparr>) \<and> P (s\<lparr>ss_requests := n, ss_trace := e # ss_trace s\<rparr>))"

lemma closed_emit: "effect_closed P \<Longrightarrow> preserving P (emit e)"
  by (simp add: effect_closed_def preserving_def emit_pair)

lemma closed_request: "effect_closed P \<Longrightarrow> preserving P (http_request http path)"
  by (simp add: effect_closed_def preserving_def http_request_def Let_def)

lemma closed_get_again: "effect_closed P \<Longrightarrow> preserving P (get_again http path n r)"
  by (induction n arbitrary: r) (auto intro!: keeps closed_emit closed_request)

lemma closed_get: "effect_closed P \<Longrightarrow> preserving P (http_get http path n)"
  by (auto simp: http_get_def intro!: keeps closed_request closed_get_again)

definition flags :: "bool \<Rightarrow> bool \<Rightarrow> capture_state \<Rightarrow> bool" where
  "flags l w s \<longleftrightarrow> cp_log_started s = l \<and> cp_worker_started s = w"

lemma flags_closed: "effect_closed (flags l w)"
  by (simp add: effect_closed_def flags_def)

lemma flags_simps [simp]:
  "flags l w (s\<lparr>ss_trace := t\<rparr>) = flags l w s" "flags l w (s\<lparr>ss_typed := ts\<rparr>) = flags l w s"
  "flags l' w (s\<lparr>cp_log_started := l\<rparr>) = (l' = l \<and> cp_worker_started s = w)"
  "flags l w' (s\<lparr>cp_worker_started := w\<rparr>) = (cp_log_started s = l \<and> w' = w)"
  by (auto simp: flags_def)

subsection \<open>Opening the log\<close>

text \<open>After the confirmation, and until the worker is started.\<close>

definition prepared :: "bool \<Rightarrow> bool \<Rightarrow> bool \<Rightarrow> tool_effect set \<Rightarrow> capture_state \<Rightarrow> bool" where
  "prepared dry yes l before s \<longleftrightarrow>
     flags l False s \<and>
     (if dry then ss_trace s = [] else online.holds yes False before s)"

text \<open>How the body of the run may end.\<close>

definition body_end :: "bool \<Rightarrow> bool \<Rightarrow> capture_state \<Rightarrow> bool" where
  "body_end dry yes s \<longleftrightarrow>
     capture_safe dry yes (ss_trace s) \<and> (dry \<or> confirmed yes (ss_trace s)) \<and>
     (began (ss_trace s) \<longrightarrow> cp_worker_started s \<and> (dry \<or> cp_log_started s))"

lemma prepared_end: "prepared dry yes l before s \<Longrightarrow> body_end dry yes s"
  by (auto simp: prepared_def body_end_def online.holds_def online_def split: if_splits)

lemma label_triple:
  "triple (prepared False yes l before) (log_label_request h (label, path))
     (\<lambda>_. prepared False yes l (insert (Request path True) before)) (body_end False yes)"
proof -
  have "triple (prepared False yes l before) (http_get (ph_http h) path 2)
      (\<lambda>r s. prepared False yes l before s \<and> (hr_ok r \<longrightarrow> Request path True \<in> set (ss_trace s))) (body_end False yes)"
  proof (intro triple_conj triple_get_request triple_keeps)
    have "preserving (online.holds yes False before) (http_get (ph_http h) path 2 :: http_result capt)"
      by (rule online.keeps_get)
    moreover have "preserving (flags l False) (http_get (ph_http h) path 2)"
      by (rule closed_get [OF flags_closed])
    ultimately show "preserving (prepared False yes l before) (http_get (ph_http h) path 2)"
      by (simp add: preserving_def prepared_def)
  qed (rule prepared_end)
  moreover have "triple (\<lambda>s. prepared False yes l before s \<and> (hr_ok r \<longrightarrow> Request path True \<in> set (ss_trace s)))
      (seq (emit (Recorded ''esp_http'' label))
        (if hr_ok r then ret () else throw (SystemExit (''ESP HTTP '' @ label @ '' failed''))))
      (\<lambda>_. prepared False yes l (insert (Request path True) before)) (body_end False yes)" for r
    by (rule triple_seq [where R = "\<lambda>s. prepared False yes l before s \<and> (hr_ok r \<longrightarrow> Request path True \<in> set (ss_trace s))"])
      (auto intro!: triple_emit triple_ret triple_throw prepared_end
        simp: prepared_def online.holds_def online_def confirmed_def elim: prepared_end)
  ultimately show ?thesis
    unfolding log_label_request_def Let_def prod.case by (rule triple_andthen)
qed

lemma start_log_triple:
  "triple (prepared False yes l {}) (start_persistent_log h) (\<lambda>_. prepared False yes l log_effects) (body_end False yes)"
proof -
  have "triple (prepared False yes l {}) (seq (log_label_request h (''persistent_log_clear'', ''/persistent_log/clear''))
      (seq (log_label_request h (''persistent_log_start'', ''/persistent_log/start'')) (ret ())))
      (\<lambda>_. prepared False yes l {Request ''/persistent_log/start'' True, Request ''/persistent_log/clear'' True})
      (body_end False yes)"
    by (rule triple_seq [OF label_triple triple_seq [OF label_triple triple_ret]])
  then show ?thesis
    by (simp add: start_persistent_log_def log_setup_def log_effects_def insert_commute)
qed

lemma wait_keeps: "preserving (prepared False yes l before) (wait_for_tcp attempts)"
proof (induction attempts rule: wait_for_tcp.induct)
  case (2 up remaining attempts)
  have "preserving (prepared False yes l before) (emit (Slept (min 2 remaining)))"
    by (auto simp: preserving_def prepared_def online.holds_def online_def confirmed_def emit_pair)
  with 2 show ?case
    unfolding wait_for_tcp.simps by (intro keeps) simp_all
qed (simp add: keeps)

text \<open>The log is open, unless the run is dry.\<close>

lemma open_log_triple:
  "triple (prepared (pa_dry_run a) yes False {}) (open_log a h)
     (\<lambda>_. prepared (pa_dry_run a) yes (\<not> pa_dry_run a) (if pa_dry_run a then {} else log_effects)) (body_end (pa_dry_run a) yes)"
proof (cases "pa_dry_run a")
  case True
  then show ?thesis
    by (simp add: open_log_def do_if_def triple_ret)
next
  case False
  have "triple (prepared False yes False {})
      (seq (start_persistent_log h) (modify (\<lambda>s. s\<lparr>cp_log_started := True\<rparr>)))
      (\<lambda>_. prepared False yes True log_effects) (body_end False yes)"
    by (rule triple_seq [OF start_log_triple], rule triple_modify)
      (auto simp: prepared_def flags_def online.holds_def)
  then show ?thesis
    unfolding open_log_def do_if_def using False
    by (auto intro!: triple_andthen [OF triple_keeps [OF wait_keeps prepared_end]] triple_throw prepared_end)
qed

subsection \<open>The display\<close>

lemma run_display_triple:
  "triple (prepared (pa_dry_run a) yes (\<not> pa_dry_run a) (if pa_dry_run a then {} else log_effects)) (run_display a h)
     (\<lambda>_. body_end (pa_dry_run a) yes) (body_end (pa_dry_run a) yes)"
proof -
  define up where "up s \<longleftrightarrow> body_end (pa_dry_run a) yes s \<and> (pa_dry_run a \<or> log_running yes (ss_trace s))" for s
  have started: "triple (prepared (pa_dry_run a) yes (\<not> pa_dry_run a) (if pa_dry_run a then {} else log_effects))
      (emit (Did ''worker_start'')) (\<lambda>_ s. up (s\<lparr>cp_worker_started := True\<rparr>)) (body_end (pa_dry_run a) yes)"
    by (rule triple_emit)
      (auto simp: prepared_def flags_def up_def body_end_def online.holds_def online_def log_running_def log_effects_def
        confirmed_def split: if_splits)
  have display: "triple up (emit (Did ''display'')) (\<lambda>_. body_end (pa_dry_run a) yes) (body_end (pa_dry_run a) yes)"
    by (rule triple_emit) (auto simp: up_def body_end_def confirmed_def)
  have shown: "triple up (seq (emit (Did ''display'')) (of_result (ph_display h)))
      (\<lambda>_. body_end (pa_dry_run a) yes) (body_end (pa_dry_run a) yes)"
    by (rule triple_seq [OF display triple_keeps [OF of_result_keeps]])
  have rest: "triple up
      (if \<not> pa_dry_run a \<and> \<not> ph_ready h then throw (SystemExit msg)
       else if pa_startup_check a then ret ()
       else seq (emit (Did ''display'')) (of_result (ph_display h)))
      (\<lambda>_. body_end (pa_dry_run a) yes) (body_end (pa_dry_run a) yes)" for msg
    by (intro triple_if shown) (auto intro!: triple_throw triple_ret simp: up_def)
  show ?thesis
    unfolding run_display_def by (intro triple_seq [OF started] triple_seq [OF triple_modify rest]) simp
qed

subsection \<open>Closing down\<close>

definition shutting :: "bool \<Rightarrow> bool \<Rightarrow> tool_effect set \<Rightarrow> tool_effect list \<Rightarrow> bool" where
  "shutting yes b before t \<longleftrightarrow> online yes b before t \<and> stop_asked t"

interpretation shutting: trace_statement "shutting yes b before" for yes b before
  by unfold_locales (auto simp: shutting_def online_def confirmed_def stop_asked_def)

definition run_end :: "bool \<Rightarrow> bool \<Rightarrow> capture_state \<Rightarrow> bool" where
  "run_end dry yes s \<longleftrightarrow> capture_safe dry yes (ss_trace s) \<and> closed_down dry (ss_trace s)"

definition worker_ended :: "bool \<Rightarrow> tool_effect set" where
  "worker_ended b = (if b then {Did ''worker_stop''} else {})"

lemma shutting_end: "shutting.holds yes b (worker_ended b) s \<Longrightarrow> run_end False yes s"
  by (auto simp: shutting.holds_def shutting_def online_def run_end_def closed_down_def worker_ended_def split: if_splits)

lemma stop_log_triple:
  "triple (online.holds yes b before) (stop_persistent_log h) (\<lambda>_. shutting.holds yes b before) (\<lambda>_. False)"
proof -
  have "triple (online.holds yes b before :: capture_state \<Rightarrow> bool) (http_get (ph_http h) ''/persistent_log/stop'' 2)
      (\<lambda>_ s. online.holds yes b before s \<and> stop_asked (ss_trace s)) (\<lambda>_. False)"
  proof (rule tripleI)
    fix s :: capture_state
    assume "online.holds yes b before s"
    then have "online.holds yes b before (snd (http_get (ph_http h) ''/persistent_log/stop'' 2 s))"
      using online.keeps_get [of yes b before "ph_http h" "''/persistent_log/stop''" 2, unfolded preserving_def] by blast
    moreover obtain r t where "http_get (ph_http h) ''/persistent_log/stop'' 2 s = (Inr r, t)"
      "Request ''/persistent_log/stop'' (hr_ok r) \<in> set (ss_trace t)"
      using get_request by blast
    ultimately show "case http_get (ph_http h) ''/persistent_log/stop'' 2 s of
        (Inr r, t) \<Rightarrow> online.holds yes b before t \<and> stop_asked (ss_trace t) | (Inl e, t) \<Rightarrow> False"
      by (auto simp: stop_asked_def)
  qed
  then show ?thesis
    unfolding stop_persistent_log_def
    by (rule triple_andthen) (auto intro!: triple_emit simp: shutting.holds_def shutting_def online.holds_def online_def
        confirmed_def stop_asked_def)
qed

lemma decode_keeps: "preserving (shutting.holds yes b before) decode_step"
  by (auto simp: decode_step_def intro!: keeps shutting.keeps_effects)

lemma phone_download_keeps: "preserving (shutting.holds yes b before) (phone_download h d)"
  by (cases d) (auto simp: phone_download_def esp_save_def intro!: keeps shutting.keeps_effects shutting.keeps_save shutting.keeps_save_nonempty)

text \<open>No way to close down ends with an exception.\<close>

lemma save_again_returns: "returns (save_again http path filename n r)"
  by (induction n arbitrary: r) (auto simp: http_save_def intro!: keeps)

lemma phone_download_returns: "returns (phone_download h d)"
  by (cases d) (auto simp: phone_download_def esp_save_def http_save_nonempty_def http_save_def
      intro!: keeps save_again_returns)

lemma returns_fetch: "returns (fetch f)"
  by (simp add: returns_def fetch_def)

lemma returns_do_if: "returns m \<Longrightarrow> returns (do_if b m)"
  by (simp add: do_if_def returns_ret)

lemma decode_returns: "returns decode_step"
  unfolding decode_step_def by (intro keeps returns_fetch returns_do_if)

lemma stop_download_returns: "returns (stop_and_download h j)"
  by (auto simp: stop_and_download_def stop_persistent_log_def intro!: keeps phone_download_returns decode_returns)

lemma clean_up_returns: "returns (clean_up a h)"
  by (auto simp: clean_up_def stop_persistent_log_def intro!: keeps returns_fetch returns_do_if stop_download_returns)

definition logged :: "bool \<Rightarrow> bool \<Rightarrow> capture_state \<Rightarrow> bool" where
  "logged yes w s \<longleftrightarrow> online.holds yes w (worker_ended w) s \<and> (began (ss_trace s) \<longrightarrow> cp_log_started s)"

lemma finish_log_triple:
  "triple (logged yes w)
     (andthen (fetch cp_log_started) (\<lambda>log_started.
        seq (do_if log_started (if check then stop_persistent_log h else stop_and_download h j))
          (emit (Wrote ''phone-sync-run.json''))))
     (\<lambda>_. run_end False yes) (run_end False yes)"
proof (rule triple_andthen)
  show "triple (logged yes w) (fetch cp_log_started)
      (\<lambda>l s. online.holds yes w (worker_ended w) s \<and> (began (ss_trace s) \<longrightarrow> l)) (run_end False yes)"
    by (rule triple_fetch) (simp add: logged_def)
  fix l
  have stop: "triple (online.holds yes w (worker_ended w)) (stop_persistent_log h) (\<lambda>_. shutting.holds yes w (worker_ended w))
      (run_end False yes)"
    by (rule triple_weaken [OF stop_log_triple]) simp_all
  have download: "triple (online.holds yes w (worker_ended w)) (stop_and_download h j)
      (\<lambda>_. shutting.holds yes w (worker_ended w)) (run_end False yes)"
    unfolding stop_and_download_def
    by (intro triple_seq [OF stop] triple_seq [where R = "shutting.holds yes w (worker_ended w)"] triple_keeps
        keeps_for_each decode_keeps phone_download_keeps shutting_end)
  have wrote: "triple (shutting.holds yes w (worker_ended w)) (emit (Wrote f)) (\<lambda>_. run_end False yes) (run_end False yes)"
    for f
    by (rule triple_weaken [OF triple_keeps [OF shutting.keeps_effects(4) shutting_end]]) (auto intro: shutting_end)
  show "triple (\<lambda>s. online.holds yes w (worker_ended w) s \<and> (began (ss_trace s) \<longrightarrow> l))
      (seq (do_if l (if check then stop_persistent_log h else stop_and_download h j)) (emit (Wrote ''phone-sync-run.json'')))
      (\<lambda>_. run_end False yes) (run_end False yes)"
  proof (cases l)
    case True
    then show ?thesis
      unfolding do_if_def using triple_seq [OF stop wrote] triple_seq [OF download wrote] by simp
  next
    case False
    then show ?thesis
      by (auto simp: do_if_def triple_def seq_def andthen_def ret_def emit_pair run_end_def closed_down_def
          online.holds_def online_def)
  qed
qed

lemma clean_up_triple:
  "triple (body_end (pa_dry_run a) yes) (clean_up a h) (\<lambda>_. run_end (pa_dry_run a) yes) (run_end (pa_dry_run a) yes)"
proof (cases "pa_dry_run a")
  case True
  then show ?thesis
    by (auto simp: clean_up_def triple_def do_if_def seq_def andthen_def fetch_def ret_def emit_pair run_end_def
        closed_down_def body_end_def)
next
  case False
  have event: "triple (body_end False yes) (emit (Did ''stop_event'')) (\<lambda>_. body_end False yes) (run_end False yes)"
    by (rule triple_emit) (auto simp: body_end_def confirmed_def)
  have flag: "triple (body_end False yes) (fetch cp_worker_started)
      (\<lambda>w s. body_end False yes s \<and> cp_worker_started s = w) (run_end False yes)"
    by (rule triple_fetch) simp
  have ended: "triple (\<lambda>s. body_end False yes s \<and> cp_worker_started s = w) (do_if w (emit (Did ''worker_stop'')))
      (\<lambda>_. logged yes w) (run_end False yes)" for w
    by (cases w)
      (auto intro!: triple_emit triple_ret simp: do_if_def body_end_def logged_def online.holds_def online_def
        worker_ended_def confirmed_def)
  show ?thesis
    unfolding clean_up_def
    by (simp only: False not_False_eq_True simp_thms)
      (rule triple_seq [OF event triple_andthen [OF flag triple_seq [OF ended finish_log_triple]]])
qed

subsection \<open>The whole run\<close>

lemma finally_triple:
  "triple P m (\<lambda>_. R) R \<Longrightarrow> triple R f (\<lambda>_. Q) Q \<Longrightarrow> triple P (finally_do m f) (\<lambda>_. Q) Q"
  by (fastforce simp: triple_def finally_do_def split: prod.splits sum.splits)

lemma interrupt_triple: "triple P m (\<lambda>_. R) R \<Longrightarrow> triple R f (\<lambda>_. R) R \<Longrightarrow> triple P (on_interrupt m f) (\<lambda>_. R) R"
  by (fastforce simp: triple_def on_interrupt_def split: prod.splits sum.splits if_splits)

lemma confirm_capture_triple:
  "triple (\<lambda>s. ss_trace s = [] \<and> flags False False s) (confirm_capture a)
     (\<lambda>_. prepared (pa_dry_run a) (pa_yes a) False {}) (run_end (pa_dry_run a) (pa_yes a))"
  by (auto simp: confirm_capture_def triple_def do_if_def andthen_def ret_def ask_def prepared_def online.holds_def
      online_def confirmed_def run_end_def closed_down_def flags_def split: list.splits typed.splits if_splits)

lemma prepared_safe: "prepared dry yes l before s \<Longrightarrow> run_end dry yes s"
  by (auto simp: prepared_def run_end_def closed_down_def online.holds_def online_def split: if_splits)

lemma prepare_triple:
  "triple (prepared (pa_dry_run a) yes False {}) (prepare_capture a)
     (\<lambda>_. prepared (pa_dry_run a) yes False {}) (run_end (pa_dry_run a) yes)"
  unfolding prepare_capture_def by (rule triple_keeps) (intro keeps of_result_keeps, rule prepared_safe)

lemma recorded_keeps: "triple (body_end dry yes) (emit (Recorded k l)) (\<lambda>_. body_end dry yes) (body_end dry yes)"
  by (rule triple_emit) (auto simp: body_end_def confirmed_def)

lemma capture_triple:
  "triple (\<lambda>s. ss_trace s = [] \<and> flags False False s) (capture_main a h)
     (\<lambda>_. run_end (pa_dry_run a) (pa_yes a)) (run_end (pa_dry_run a) (pa_yes a))"
proof -
  have body: "triple (prepared (pa_dry_run a) (pa_yes a) False {}) (seq (open_log a h) (run_display a h))
      (\<lambda>_. body_end (pa_dry_run a) (pa_yes a)) (body_end (pa_dry_run a) (pa_yes a))"
    by (rule triple_seq [OF open_log_triple run_display_triple])
  have last: "triple (run_end dry yes) (ret x) (\<lambda>_. run_end dry yes) (run_end dry yes)" for dry yes and x :: int
    by (simp add: triple_ret)
  show ?thesis
    unfolding capture_main_def
    by (intro triple_seq [OF confirm_capture_triple] triple_seq [OF prepare_triple] triple_seq [OF _ last]
        finally_triple [OF interrupt_triple [OF body recorded_keeps] clean_up_triple])
qed


text \<open>The worker does not become ready: an exception, and still everything is stopped.\<close>

definition sample_phone_args :: phone_args where
  "sample_phone_args =
     \<lparr>pa_yes = False, pa_dry_run = False, pa_startup_check = True, pa_download_json = False, pa_sequence = ''open'',
      pa_key = sample_cal_args\<rparr>"

definition sample_phone_host :: phone_host where
  "sample_phone_host =
     \<lparr>ph_http = ch_http sample_cal_host, ph_attempts = [(True, 0)], ph_ready = False, ph_display = Inr ()\<rparr>"

lemma sample_capture:
  "fst (capture_main sample_phone_args sample_phone_host (new_capture [Line []])) =
     Inl (SystemExit ''Timed out connecting to ESPHome native API'')"
  "began (ss_trace (snd (capture_main sample_phone_args sample_phone_host (new_capture [Line []]))))"
proof -
  have words: "py_strip [] = []"
    by code_simp
  have again: "usable r \<Longrightarrow> get_again http path 2 r = ret r" for http path r
    by (simp add: numeral_2_eq_2)
  note run = again capture_main_def sample_phone_args_def sample_phone_host_def sample_cal_args_def sample_cal_host_def
    new_capture_def confirm_capture_def prepare_capture_def calibration_key_def given_def of_result_def do_if_def ask_def
    parse_open open_log_def start_persistent_log_def log_setup_def log_label_request_def run_display_def clean_up_def
    finally_do_def on_interrupt_def stop_persistent_log_def http_get_def http_request_def usable_def andthen_def seq_def
    ret_def throw_def fetch_def modify_def emit_pair words Let_def
  show "fst (capture_main sample_phone_args sample_phone_host (new_capture [Line []])) =
      Inl (SystemExit ''Timed out connecting to ESPHome native API'')"
    by (simp add: run)
  show "began (ss_trace (snd (capture_main sample_phone_args sample_phone_host (new_capture [Line []]))))"
    by (simp add: run)
qed


subsection \<open>Reading the video\<close>

text \<open>What the detector finds in the frames of a video of the display: nothing, or the payload shown.\<close>

fun frame_of :: "(int \<times> int \<times> int) option \<Rightarrow> video_frame" where
  "frame_of None = \<lparr>fr_payload = [], fr_retry = []\<rparr>"
| "frame_of (Some (num, code, tenths)) =
     \<lparr>fr_payload = (case phone_sync_qr_payload num code tenths of Inr p \<Rightarrow> p | Inl _ \<Rightarrow> []), fr_retry = []\<rparr>"

fun shown_fields :: "int \<times> int \<times> int \<Rightarrow> qr_fields" where
  "shown_fields (num, code, tenths) =
     \<lparr>qr_seq = num mod QR_SEQ_MODULUS, qr_event_code = code mod 36, qr_elapsed_tenths = tenths mod QR_ELAPSED_MODULUS\<rparr>"

lemma decode_shown: "dr_fields (decode_frame i time (frame_of x)) = map_option shown_fields x"
proof (cases x)
  case None
  then show ?thesis
    by (simp add: decode_frame_def parse_decoded_payload_def)
next
  case (Some v)
  obtain num code tenths where v: "v = (num, code, tenths)"
    by (cases v)
  have "qr_text num code tenths \<noteq> []"
    using length_qr_text [of num code tenths] by force
  then show ?thesis
    by (simp add: Some v decode_frame_def parse_decoded_payload_def payload_text parse_payload)
qed

lemma frame_number: "dr_frame (decode_frame i time f) = i"
  by (simp add: decode_frame_def Let_def split: prod.split)

definition shown_at :: "int \<Rightarrow> (int \<times> int \<times> int) option list \<Rightarrow> (nat \<times> qr_fields) list" where
  "shown_at stride frames =
     List.map_filter (\<lambda>(i, x). if int i mod stride = 0 then map_option (\<lambda>v. (i, shown_fields v)) x else None) (enumerate 0 frames)"

lemma sampled_rows:
  "map (\<lambda>r. (dr_frame r, the (dr_fields r)))
     (filter (\<lambda>r. dr_fields r \<noteq> None)
       (map (\<lambda>(i, f). decode_frame i (time i) f) (filter (\<lambda>(i, _). int i mod stride = 0) (enumerate n (map frame_of frames))))) =
   List.map_filter (\<lambda>(i, x). if int i mod stride = 0 then map_option (\<lambda>v. (i, shown_fields v)) x else None) (enumerate n frames)"
  by (induction frames arbitrary: n)
    (auto simp: List.map_filter_def decode_shown frame_number split: if_splits)



end
