(* ===== verification/Init_Secrets.thy ===== *)
theory Init_Secrets
  imports Py_Text
begin

text \<open>
  \<open>tools/init_secrets.py\<close>: the secrets file of the device configurations.  The regular expressions are written out: the one
  that reads a value looks at every line start, skips blanks also across lines, and takes a quoted value only when the
  closing quote follows the value.  The random bytes are a parameter; files are their texts.
\<close>

subsection \<open>Keys and values\<close>

definition SECRET_KEYS :: "string list" where
  "SECRET_KEYS =
     [''api_key_supramatic_e2'', ''ota_password_supramatic_e2'', ''api_key_supramatic_4_dev'',
      ''ota_password_supramatic_4_dev'', ''wifi_ssid_supramatic_4_dev'', ''wifi_password_supramatic_4_dev'',
      ''wifi_ssid_supramatic_4_tester'', ''wifi_password_supramatic_4_tester'', ''proxy_auth_token'']"

definition PLACEHOLDER_VALUES :: "string list" where
  "PLACEHOLDER_VALUES =
     [[], ''AAAAAAAAAAAAAAAAAAAAAAAAAAAAAAAAAAAAAAAAAAA='', ''replace-with-a-real-esphome-api-key'',
      ''replace-with-a-long-random-ota-password'', ''replace-with-a-long-random-token'', ''replace-with-wifi-ssid'',
      ''replace-with-wifi-password'']"

definition DQ :: char where
  "DQ = CHR 0x22"

definition SQ :: char where
  "SQ = CHR 0x27"

definition HASH :: char where
  "HASH = CHR 0x23"

definition NL :: char where
  "NL = CHR 0x0A"

text \<open>Base 64, with either alphabet.\<close>

definition B64 :: "string \<Rightarrow> string" where
  "B64 tail = ''ABCDEFGHIJKLMNOPQRSTUVWXYZabcdefghijklmnopqrstuvwxyz0123456789'' @ tail"

definition sextets :: "string \<Rightarrow> nat \<Rightarrow> string" where
  "sextets alphabet n =
     [alphabet ! (n div 262144 mod 64), alphabet ! (n div 4096 mod 64), alphabet ! (n div 64 mod 64), alphabet ! (n mod 64)]"

fun b64encode :: "string \<Rightarrow> bytes \<Rightarrow> string" where
  "b64encode alphabet [] = []"
| "b64encode alphabet [a] = take 2 (sextets alphabet (unat a * 65536)) @ ''==''"
| "b64encode alphabet [a, b] = take 3 (sextets alphabet (unat a * 65536 + unat b * 256)) @ ''=''"
| "b64encode alphabet (a # b # c # rest) =
     sextets alphabet (unat a * 65536 + unat b * 256 + unat c) @ b64encode alphabet rest"

definition token_key :: "bytes \<Rightarrow> string" where
  "token_key data = b64encode (B64 ''+/'') data"

definition token_urlsafe :: "bytes \<Rightarrow> string" where
  "token_urlsafe data = rev (dropWhile (\<lambda>c. c = CHR ''='') (rev (b64encode (B64 ''-_'') data)))"

text \<open>The n-th draw of 32 random bytes.\<close>

definition generate_values :: "(nat \<Rightarrow> bytes) \<Rightarrow> (string \<times> string) list" where
  "generate_values draws =
     [(''api_key_supramatic_e2'', token_key (draws 0)), (''ota_password_supramatic_e2'', token_urlsafe (draws 1)),
      (''api_key_supramatic_4_dev'', token_key (draws 2)), (''ota_password_supramatic_4_dev'', token_urlsafe (draws 3)),
      (''wifi_ssid_supramatic_4_dev'', ''Wokwi-GUEST''), (''wifi_password_supramatic_4_dev'', []),
      (''wifi_ssid_supramatic_4_tester'', ''Wokwi-GUEST''), (''wifi_password_supramatic_4_tester'', []),
      (''proxy_auth_token'', token_urlsafe (draws 4))]"

definition value_for :: "(string \<times> string) list \<Rightarrow> string \<Rightarrow> string" where
  "value_for values key = (case map_of values key of None \<Rightarrow> [] | Some v \<Rightarrow> v)"

definition strip_quotes :: "string \<Rightarrow> string" where
  "strip_quotes t =
     rev (dropWhile (\<lambda>c. c \<in> {DQ, SQ}) (rev (dropWhile (\<lambda>c. c \<in> {DQ, SQ}) t)))"

definition is_placeholder :: "string option \<Rightarrow> bool" where
  "is_placeholder value =
     (case value of
        None \<Rightarrow> True
      | Some t \<Rightarrow>
          let stripped = strip_quotes (py_strip t)
          in stripped \<in> set PLACEHOLDER_VALUES \<or> py_startswith ''replace-with-'' stripped)"

subsection \<open>Reading values\<close>

text \<open>Group 2 of \<open>([\"']?)([^\"'\n#]*)\1\<close>: without the closing quote the opening one is not consumed, and the value is empty.\<close>

definition plain_char :: "char \<Rightarrow> bool" where
  "plain_char c \<longleftrightarrow> c \<notin> {DQ, SQ, NL, HASH}"

definition scalar_value :: "string \<Rightarrow> string" where
  "scalar_value t =
     (case t of
        [] \<Rightarrow> []
      | c # cs \<Rightarrow>
          if c \<in> {DQ, SQ} then
            (if take 1 (dropWhile plain_char cs) = [c] then takeWhile plain_char cs else [])
          else takeWhile plain_char t)"

text \<open>\<open>\s*key\s*:\s*\<close> and the value, from one position.\<close>

definition match_key :: "string \<Rightarrow> string \<Rightarrow> string option" where
  "match_key key t =
     (let u = py_lstrip t
      in if py_startswith key u then
           (case py_lstrip (drop (length key) u) of
              c # cs \<Rightarrow> if c = CHR '':'' then Some (py_strip (scalar_value (py_lstrip cs))) else None
            | [] \<Rightarrow> None)
         else None)"

fun find_value :: "string \<Rightarrow> bool \<Rightarrow> string \<Rightarrow> string option" where
  "find_value key at_start [] = None"
| "find_value key at_start (c # cs) =
     (case (if at_start then match_key key (c # cs) else None) of
        Some v \<Rightarrow> Some v
      | None \<Rightarrow> find_value key (c = NL) cs)"

definition existing_value :: "string \<Rightarrow> string \<Rightarrow> string option" where
  "existing_value t key = find_value key True t"

definition existing_values :: "string \<Rightarrow> (string \<times> string option) list" where
  "existing_values t = map (\<lambda>key. (key, existing_value t key)) SECRET_KEYS"

subsection \<open>Writing values\<close>

text \<open>Group 1 of \<open>^(\s*key\s*:\s*).*$\<close> on one line.\<close>

definition key_prefix :: "string \<Rightarrow> string \<Rightarrow> string option" where
  "key_prefix key line =
     (let u = py_lstrip line; rest = drop (length key) u
      in if py_startswith key u then
           (case py_lstrip rest of
              c # cs \<Rightarrow>
                if c = CHR '':''
                then Some (takeWhile py_space line @ key @ takeWhile py_space rest @ [c] @ takeWhile py_space cs)
                else None
            | [] \<Rightarrow> None)
         else None)"

definition line_key :: "string \<Rightarrow> string option" where
  "line_key line = List.find (\<lambda>key. key_prefix key line \<noteq> None) SECRET_KEYS"

definition quoted_value :: "string \<Rightarrow> string" where
  "quoted_value v = [DQ] @ v @ [DQ]"

definition render_line :: "(string \<times> string) list \<Rightarrow> string \<Rightarrow> string" where
  "render_line values line =
     (case line_key line of
        None \<Rightarrow> line
      | Some key \<Rightarrow> the (key_prefix key line) @ quoted_value (value_for values key))"

definition missing_keys :: "string list \<Rightarrow> string list" where
  "missing_keys lines = filter (\<lambda>key. Some key \<notin> line_key ` set lines) SECRET_KEYS"

definition render_lines :: "string list \<Rightarrow> (string \<times> string) list \<Rightarrow> string list" where
  "render_lines lines values =
     map (render_line values) lines @
     (if lines \<noteq> [] \<and> py_strip (render_line values (last lines)) \<noteq> [] then [[]] else []) @
     map (\<lambda>key. key @ '': '' @ quoted_value (value_for values key)) (missing_keys lines)"

definition render_secrets :: "string \<Rightarrow> (string \<times> string) list \<Rightarrow> string" where
  "render_secrets template values =
     py_trim_end (py_join [NL] (render_lines (split_lines [] template) values)) @ [NL]"

subsection \<open>The command\<close>

record secrets_files =
  sf_example :: "string option"
  sf_output :: "string option"

definition real_keys :: "string \<Rightarrow> string list" where
  "real_keys t = map fst (filter (\<lambda>(key, value). \<not> is_placeholder value) (existing_values t))"

definition secrets_template :: "bool \<Rightarrow> secrets_files \<Rightarrow> string result" where
  "secrets_template force fs =
     (case sf_example fs of
        None \<Rightarrow> Inl (SystemExit ''Template not found'')
      | Some example \<Rightarrow>
          (case (if force then None else sf_output fs) of
             None \<Rightarrow> Inr example
           | Some current \<Rightarrow>
               if real_keys current \<noteq> []
               then Inl (SystemExit (''already contains non-placeholder values for '' @ py_join '', '' (real_keys current)))
               else Inr current))"

definition init_secrets :: "bool \<Rightarrow> (nat \<Rightarrow> bytes) \<Rightarrow> secrets_files \<Rightarrow> secrets_files result" where
  "init_secrets force draws fs =
     and_then (secrets_template force fs) (\<lambda>template.
       Inr (fs\<lparr>sf_output := Some (render_secrets template (generate_values draws))\<rparr>))"

end
