(* ===== verification/Init_Secrets_Props.thy ===== *)
theory Init_Secrets_Props
  imports Init_Secrets
begin

text \<open>
  The generated file read back: every key has the generated value, so that the next run refuses to replace it.  A secret
  with a \<open>#\<close> in it is not seen and replaced without \<open>--force\<close>.
\<close>

subsection \<open>Blanks\<close>

abbreviation blanks :: "string \<Rightarrow> bool" where
  "blanks t \<equiv> list_all py_space t"

lemma lstrip_blanks: "blanks a \<Longrightarrow> py_lstrip (a @ t) = py_lstrip t"
  by (induction a) (simp_all add: py_lstrip_def)

lemma lstrip_solid: "\<not> py_space c \<Longrightarrow> py_lstrip (c # t) = c # t"
  by (simp add: py_lstrip_def)

lemma lstrip_append: "\<not> blanks l \<Longrightarrow> py_lstrip (l @ t) = py_lstrip l @ t"
  by (induction l) (auto simp: py_lstrip_def)

lemma lstrip_all_blank: "blanks l \<Longrightarrow> py_lstrip l = []"
  using lstrip_blanks [of l "[]"] by (simp add: py_lstrip_def)

lemma lstrip_nil: "py_lstrip l = [] \<longleftrightarrow> blanks l"
  by (induction l) (auto simp: py_lstrip_def)

lemma lstrip_parts: "l = takeWhile py_space l @ py_lstrip l"
  by (simp add: py_lstrip_def)

lemma blanks_takeWhile: "blanks (takeWhile py_space l)"
  by (auto simp: list_all_iff dest: set_takeWhileD)

lemma lstrip_preserves: "c \<in> set t \<Longrightarrow> \<not> py_space c \<Longrightarrow> c \<in> set (py_lstrip t)"
  by (induction t) (auto simp: py_lstrip_def)

lemma strip_preserves: "c \<in> set t \<Longrightarrow> \<not> py_space c \<Longrightarrow> c \<in> set (py_strip t)"
  by (simp add: py_strip_def lstrip_preserves)

lemma trim_end_blank: "blanks w \<Longrightarrow> py_trim_end (t @ w) = py_trim_end t"
  by (simp add: py_trim_end_def lstrip_blanks)

lemma trim_end_solid: "\<not> blanks l \<Longrightarrow> py_trim_end (t @ l) = t @ py_trim_end l"
  by (simp add: py_trim_end_def lstrip_append)

lemma trim_end_last: "\<not> py_space c \<Longrightarrow> py_trim_end (t @ [c]) = t @ [c]"
  by (simp add: py_trim_end_def lstrip_solid)

lemma strip_trim: "py_strip l = py_trim_end (py_lstrip l)"
  by (simp add: py_strip_def py_trim_end_def)

lemma trim_parts: obtains w where "l = py_trim_end l @ w" "blanks w"
proof
  show "l = py_trim_end l @ rev (takeWhile py_space (rev l))"
    using lstrip_parts [of "rev l"] unfolding py_trim_end_def by (metis rev_append rev_rev_ident)
  show "blanks (rev (takeWhile py_space (rev l)))"
    by (simp add: list_all_rev blanks_takeWhile)
qed

lemma startswith_iff: "py_startswith p t \<longleftrightarrow> (\<exists>s. t = p @ s)"
  unfolding py_startswith_def by (metis append_eq_conv_conj append_take_drop_id)

lemma space_facts [simp]: "py_space NL" "\<not> py_space DQ" "\<not> py_space CHR '':''" "\<not> py_space HASH" "py_space CHR '' ''"
  by (simp_all add: py_space_def NL_def DQ_def HASH_def)

subsection \<open>The keys\<close>

definition secret_char :: "char \<Rightarrow> bool" where
  "secret_char c \<longleftrightarrow> \<not> py_space c \<and> c \<noteq> CHR '':'' \<and> plain_char c"

lemma keys_solid: "k \<in> set SECRET_KEYS \<Longrightarrow> k \<noteq> [] \<and> list_all secret_char k"
proof -
  have "list_all (\<lambda>k. k \<noteq> [] \<and> list_all secret_char k) SECRET_KEYS"
    by code_simp
  then show "k \<in> set SECRET_KEYS \<Longrightarrow> k \<noteq> [] \<and> list_all secret_char k"
    by (simp add: list_all_iff)
qed

lemma keys_incomparable: "k \<in> set SECRET_KEYS \<Longrightarrow> k' \<in> set SECRET_KEYS \<Longrightarrow> py_startswith k k' \<Longrightarrow> k = k'"
proof -
  have "list_all (\<lambda>k. list_all (\<lambda>k'. py_startswith k k' \<longrightarrow> k = k') SECRET_KEYS) SECRET_KEYS"
    by code_simp
  then show "k \<in> set SECRET_KEYS \<Longrightarrow> k' \<in> set SECRET_KEYS \<Longrightarrow> py_startswith k k' \<Longrightarrow> k = k'"
    by (simp add: list_all_iff)
qed

lemma key_head: "k \<in> set SECRET_KEYS \<Longrightarrow> py_lstrip (k @ t) = k @ t"
  using keys_solid [of k] by (cases k) (auto simp: py_lstrip_def secret_char_def)

lemma key_plain: "k \<in> set SECRET_KEYS \<Longrightarrow> c \<in> set k \<Longrightarrow> secret_char c"
  using keys_solid [of k] by (auto simp: list_all_iff)

lemma same_key:
  assumes k: "k \<in> set SECRET_KEYS" "k' \<in> set SECRET_KEYS" and s: "py_startswith k (k' @ s)"
  shows "k = k'"
proof -
  obtain r where "k' @ s = k @ r"
    using s by (auto simp: startswith_iff)
  then have "py_startswith k k' \<or> py_startswith k' k"
    unfolding startswith_iff append_eq_append_conv2 by blast
  then show ?thesis
    using keys_incomparable k by blast
qed

subsection \<open>Lines with an entry\<close>

definition entry_line :: "string \<Rightarrow> string \<Rightarrow> string \<Rightarrow> bool" where
  "entry_line k v r \<longleftrightarrow>
     (\<exists>a b c. r = a @ k @ b @ CHR '':'' # c @ quoted_value v \<and> blanks a \<and> blanks b \<and> blanks c)"

definition other_line :: "string \<Rightarrow> string \<Rightarrow> bool" where
  "other_line k r \<longleftrightarrow> key_prefix k r = None \<and> py_strip r \<noteq> k"

lemma prefix_shape:
  "key_prefix k line = Some p \<Longrightarrow> \<exists>a b c. p = a @ k @ b @ CHR '':'' # c \<and> blanks a \<and> blanks b \<and> blanks c"
  unfolding key_prefix_def Let_def
  by (fastforce simp: blanks_takeWhile split: if_splits list.splits)

lemma prefix_of_line: "key_prefix k line = Some p \<Longrightarrow> \<exists>rest. line = p @ rest"
proof -
  assume p: "key_prefix k line = Some p"
  then obtain rest c cs where u: "py_lstrip line = k @ rest" and colon: "py_lstrip rest = CHR '':'' # cs"
    and eq: "p = takeWhile py_space line @ k @ takeWhile py_space rest @ CHR '':'' # takeWhile py_space cs"
    by (auto simp: key_prefix_def Let_def startswith_iff split: if_splits list.splits)
  have "line = takeWhile py_space line @ k @ takeWhile py_space rest @ CHR '':'' # takeWhile py_space cs @ py_lstrip cs"
    using lstrip_parts [of line] lstrip_parts [of rest] lstrip_parts [of cs] unfolding u colon by simp
  then show ?thesis
    using eq by (intro exI [of _ "py_lstrip cs"]) simp
qed

lemma prefix_none:
  assumes "key_prefix k r = None"
  shows "\<not> py_startswith k (py_lstrip r) \<or> take 1 (py_lstrip (drop (length k) (py_lstrip r))) \<noteq> [CHR '':'']"
  using assms by (auto simp: key_prefix_def Let_def split: if_splits list.splits)

lemma match_entry:
  assumes k: "k \<in> set SECRET_KEYS" and b: "blanks a" "blanks b" "blanks c"
  shows "match_key k (a @ k @ b @ CHR '':'' # c @ t) = Some (py_strip (scalar_value (py_lstrip t)))"
proof -
  have "py_lstrip (a @ k @ b @ CHR '':'' # c @ t) = k @ b @ CHR '':'' # c @ t"
    using lstrip_blanks [OF b(1)] key_head [OF k] by simp
  moreover have "py_lstrip (b @ CHR '':'' # c @ t) = CHR '':'' # c @ t"
    using lstrip_blanks [OF b(2)] by (simp add: lstrip_solid)
  ultimately show ?thesis
    using lstrip_blanks [OF b(3)] by (auto simp: match_key_def startswith_iff)
qed

lemma scalar_quoted:
  assumes "list_all plain_char v"
  shows "scalar_value (py_lstrip (quoted_value v @ t)) = v"
proof -
  have "takeWhile plain_char (v @ DQ # t) = v" "dropWhile plain_char (v @ DQ # t) = DQ # t"
    using assms by (induction v) (simp_all add: plain_char_def)
  then show ?thesis
    by (simp add: quoted_value_def lstrip_solid scalar_value_def)
qed

definition clean_value :: "string \<Rightarrow> bool" where
  "clean_value v \<longleftrightarrow> list_all plain_char v \<and> py_strip v = v"

lemma match_entry_line:
  assumes "k \<in> set SECRET_KEYS" "entry_line k v r" "clean_value v"
  shows "match_key k (r @ t) = Some v"
  using assms match_entry [OF assms(1)] scalar_quoted by (auto simp: entry_line_def clean_value_def)

lemma match_other_line:
  assumes k: "k \<in> set SECRET_KEYS" and r: "other_line k r" "\<not> blanks r"
  shows "match_key k (r @ NL # t) = None"
proof -
  define u where "u = py_lstrip r"
  have u: "py_lstrip (r @ NL # t) = u @ NL # t"
    by (simp add: u_def lstrip_append r(2))
  show ?thesis
  proof (cases "py_startswith k (u @ NL # t)")
    case False
    then show ?thesis
      by (simp add: match_key_def u)
  next
    case True
    have "NL \<notin> set k"
      using key_plain [OF k, of NL] by (auto simp: secret_char_def plain_char_def)
    then obtain w where w: "u = k @ w"
      using True by (auto simp: startswith_iff append_eq_append_conv2 append_eq_Cons_conv Cons_eq_append_conv)
    have "\<not> blanks w"
    proof
      assume "blanks w"
      then have "py_strip r = py_trim_end k"
        unfolding strip_trim by (simp add: w trim_end_blank flip: u_def)
      moreover have "py_trim_end k = k"
        using keys_solid [OF k] by (cases k rule: rev_cases) (simp_all add: trim_end_last secret_char_def)
      ultimately show False
        using r(1) by (simp add: other_line_def)
    qed
    then have "py_lstrip (drop (length k) (u @ NL # t)) = py_lstrip w @ NL # t"
      by (simp add: w lstrip_append)
    moreover have "take 1 (py_lstrip w) \<noteq> [CHR '':'']" "py_lstrip w \<noteq> []"
      using prefix_none [of k r] r(1) \<open>\<not> blanks w\<close>
      by (simp_all add: other_line_def startswith_iff w lstrip_nil flip: u_def)
    ultimately show ?thesis
      by (cases "py_lstrip w") (simp_all add: match_key_def u Let_def del: drop_append)
  qed
qed

lemma match_blank_line: "blanks r \<Longrightarrow> match_key k (r @ NL # t) = match_key k t"
  using lstrip_blanks [of "r @ [NL]" t] by (simp add: match_key_def)

subsection \<open>Searching line by line\<close>

lemma search_inside: "NL \<notin> set l \<Longrightarrow> find_value k False (l @ NL # t) = find_value k True t"
  by (induction l) auto

lemma search_line:
  "NL \<notin> set l \<Longrightarrow> find_value k True (l @ NL # t) =
     (case match_key k (l @ NL # t) of Some v \<Rightarrow> Some v | None \<Rightarrow> find_value k True t)"
  by (cases l) (auto simp: search_inside split: option.split)

lemma match_nil: "k \<in> set SECRET_KEYS \<Longrightarrow> match_key k [] = None"
  using keys_solid [of k] by (auto simp: match_key_def py_lstrip_def startswith_iff)

lemma search_matched: "k \<in> set SECRET_KEYS \<Longrightarrow> match_key k t = Some v \<Longrightarrow> find_value k True t = Some v"
  by (cases t) (simp_all add: match_nil)

lemma search_lines:
  assumes k: "k \<in> set SECRET_KEYS" and v: "clean_value v"
    and "\<And>r. r \<in> set ls \<Longrightarrow> NL \<notin> set r \<and> (entry_line k v r \<or> other_line k r)"
  shows "find_value k True (unlines ls) = (if \<exists>r\<in>set ls. entry_line k v r then Some v else None)"
  using assms(3)
proof (induction ls)
  case Nil
  then show ?case
    by (simp add: unlines_def)
next
  case (Cons r ls)
  have un: "unlines (r # ls) = r @ NL # unlines ls"
    by (simp add: unlines_def NL_def)
  have IH: "find_value k True (unlines ls) = (if \<exists>r\<in>set ls. entry_line k v r then Some v else None)"
    using Cons by simp
  have step: "find_value k True (unlines (r # ls)) =
      (case match_key k (r @ NL # unlines ls) of Some v \<Rightarrow> Some v | None \<Rightarrow> find_value k True (unlines ls))"
    unfolding un using Cons.prems [of r] by (simp add: search_line)
  have not_blank: "entry_line k v r \<Longrightarrow> \<not> blanks r"
    by (auto simp: entry_line_def)
  show ?case
  proof (cases "entry_line k v r")
    case True
    then show ?thesis
      using match_entry_line [OF k _ v] by (simp add: step)
  next
    case False
    then have other: "other_line k r"
      using Cons.prems [of r] by simp
    show ?thesis
    proof (cases "blanks r")
      case True
      then show ?thesis
        using False search_matched [OF k, of "unlines ls"]
        by (auto simp: step IH match_blank_line split: option.split if_splits)
    next
      case nb: False
      then show ?thesis
        using False match_other_line [OF k other nb] by (simp add: step IH)
    qed
  qed
qed

subsection \<open>The rendered file\<close>

text \<open>Cutting the blank end of the text drops blank lines and the blank end of the last other line.\<close>

lemma trim_join:
  "\<exists>pre l. py_trim_end (py_join [NL] ls) = py_join [NL] (pre @ [py_trim_end l]) \<and> \<not> blanks l \<and>
     (\<exists>post. ls = pre @ l # post \<and> list_all blanks post)" if "\<not> list_all blanks ls"
  using that
proof (induction ls rule: rev_induct)
  case (snoc l ls)
  have split: "py_join [NL] (ls @ [l]) = (if ls = [] then l else py_join [NL] ls @ NL # l)"
    by (cases "ls = []") (simp_all add: join_snoc, simp add: py_join_def)
  show ?case
  proof (cases "blanks l")
    case False
    then have "py_trim_end (py_join [NL] (ls @ [l])) = py_join [NL] (ls @ [py_trim_end l])"
      using trim_end_solid [OF False, of "py_join [NL] ls @ [NL]"]
      by (cases "ls = []") (simp_all add: split join_snoc, simp_all add: py_join_def)
    then show ?thesis
      using False by (intro exI [of _ ls] exI [of _ l]) simp
  next
    case True
    then have nb: "\<not> list_all blanks ls" "ls \<noteq> []"
      using snoc.prems by auto
    have "py_trim_end (py_join [NL] (ls @ [l])) = py_trim_end (py_join [NL] ls)"
      using trim_end_blank [of "NL # l" "py_join [NL] ls"] True nb(2) by (simp add: split)
    then show ?thesis
      using snoc.IH [OF nb(1)] True by fastforce
  qed
qed simp

lemma trim_blank_tail: "py_trim_end (w @ [c]) = w @ [c]" if "\<not> py_space c"
  using that by (rule trim_end_last)

lemma entry_trim: "entry_line k v r \<Longrightarrow> py_trim_end r = r"
  using trim_end_last [of DQ] by (auto simp: entry_line_def quoted_value_def simp flip: append_assoc append_Cons)

text \<open>A line that is not blank, with its blank ends.\<close>

lemma trim_cases:
  assumes "\<not> blanks l"
  obtains a m w where "l = a @ m @ w" "blanks a" "blanks w" "py_lstrip l = m @ w" "py_trim_end l = a @ m"
    "py_lstrip (a @ m) = m" "py_trim_end (m @ w) = m"
proof -
  define x where "x = py_lstrip l"
  define a where "a = takeWhile py_space l"
  define m where "m = py_trim_end x"
  obtain w where w: "x = m @ w" "blanks w"
    unfolding m_def by (rule trim_parts)
  have l: "l = a @ x"
    using lstrip_parts [of l] by (simp add: a_def x_def)
  have a: "blanks a"
    by (simp add: a_def blanks_takeWhile)
  have x: "x \<noteq> []" "\<not> py_space (hd x)"
    using assms hd_dropWhile [of py_space l] by (auto simp: x_def lstrip_nil) (simp add: py_lstrip_def flip: lstrip_nil)
  have nb: "\<not> blanks x"
    using x by (cases x) auto
  then have m: "m \<noteq> []" "\<not> py_space (hd m)"
    using w x by (auto simp: hd_append split: if_splits)
  show thesis
  proof (rule that [of a m w])
    show "l = a @ m @ w"
      using l w(1) by (rule trans [OF _ arg_cong])
    show "py_lstrip l = m @ w"
      using w(1) by (simp only: x_def [symmetric])
    show "py_trim_end l = a @ m"
      using trim_end_solid [OF nb, of a] by (simp only: l [symmetric] m_def [symmetric])
    show "py_lstrip (a @ m) = m"
      using m lstrip_blanks [OF a, of m] by (cases m) (simp_all add: lstrip_solid)
    show "py_trim_end (m @ w) = m"
      by (simp only: w(1) [symmetric] m_def [symmetric])
  qed (fact a, fact w(2))
qed

lemma other_trim:
  assumes k: "k \<in> set SECRET_KEYS" and l: "other_line k l" "\<not> blanks l"
  shows "other_line k (py_trim_end l)"
proof -
  obtain a m w where p: "l = a @ m @ w" "blanks a" "blanks w" "py_lstrip l = m @ w" "py_trim_end l = a @ m"
      "py_lstrip (a @ m) = m" "py_trim_end (m @ w) = m"
    using l(2) by (rule trim_cases)
  have "py_strip (py_trim_end l) = py_strip l"
    using p(3,7) trim_end_blank [of w m] by (simp add: strip_trim p(4-6))
  moreover have "key_prefix k (py_trim_end l) = None"
  proof (rule ccontr)
    assume "key_prefix k (py_trim_end l) \<noteq> None"
    then obtain s where s: "m = k @ s" and colon: "take 1 (py_lstrip s) = [CHR '':'']"
      by (auto simp: key_prefix_def Let_def p(5,6) startswith_iff split: if_splits list.splits)
    have "py_lstrip (s @ w) = py_lstrip s @ w"
      using colon by (intro lstrip_append) (auto simp flip: lstrip_nil)
    then have "take 1 (py_lstrip (drop (length k) (py_lstrip l))) = [CHR '':'']"
      using colon by (cases "py_lstrip s") (simp_all add: s p(4))
    moreover have "py_startswith k (py_lstrip l)"
      by (simp add: p(4) s startswith_iff)
    ultimately show False
      using prefix_none [of k l] l(1) by (simp add: other_line_def)
  qed
  ultimately show ?thesis
    using l(1) by (simp add: other_line_def)
qed

text \<open>Lines of the template that the rendering can be relied on for: no line is a bare key, its colon on a later line.\<close>

definition no_bare_key :: "string \<Rightarrow> bool" where
  "no_bare_key template \<longleftrightarrow> (\<forall>line\<in>set (split_lines [] template). py_strip line \<notin> set SECRET_KEYS)"

definition clean_values :: "(string \<times> string) list \<Rightarrow> bool" where
  "clean_values values \<longleftrightarrow> (\<forall>k\<in>set SECRET_KEYS. clean_value (value_for values k))"

lemma entry_other:
  assumes k: "k \<in> set SECRET_KEYS" "k' \<in> set SECRET_KEYS" and ne: "k \<noteq> k'" and r: "entry_line k' v r"
  shows "other_line k r"
proof -
  obtain a b c where r': "r = a @ k' @ b @ CHR '':'' # c @ quoted_value v" and bl: "blanks a" "blanks b" "blanks c"
    using r by (auto simp: entry_line_def)
  have "py_lstrip r = k' @ b @ CHR '':'' # c @ quoted_value v"
    using lstrip_blanks [OF bl(1)] key_head [OF k(2)] by (simp add: r')
  then have "key_prefix k r = None"
    using same_key [OF k] ne by (auto simp: key_prefix_def Let_def simp del: drop_append)
  moreover have "DQ \<in> set (py_strip r)"
    by (rule strip_preserves) (simp_all add: r' quoted_value_def)
  then have "py_strip r \<noteq> k"
    using key_plain [OF k(1), of DQ] by (auto simp: secret_char_def plain_char_def)
  ultimately show ?thesis
    by (simp add: other_line_def)
qed

lemma line_key_some:
  assumes "line_key line = Some k"
  shows "k \<in> set SECRET_KEYS" "entry_line k (value_for values k) (render_line values line)"
proof -
  show k: "k \<in> set SECRET_KEYS"
    using assms by (auto simp: line_key_def find_Some_iff)
  obtain p where p: "key_prefix k line = Some p"
    using assms by (auto simp: line_key_def find_Some_iff)
  show "entry_line k (value_for values k) (render_line values line)"
    using prefix_shape [OF p] by (auto simp: entry_line_def render_line_def assms p)
qed

lemma rendered_line:
  assumes line: "line \<in> set (split_lines [] template)" "no_bare_key template" and k: "k \<in> set SECRET_KEYS"
  shows "entry_line k (value_for values k) (render_line values line) \<or> other_line k (render_line values line)"
proof (cases "line_key line")
  case None
  then have "key_prefix k line = None"
    using k by (auto simp: line_key_def find_None_iff)
  moreover have "py_strip line \<noteq> k"
    using assms by (auto simp: no_bare_key_def)
  ultimately show ?thesis
    by (simp add: render_line_def None other_line_def)
next
  case (Some k')
  then show ?thesis
    using line_key_some [OF Some] entry_other [OF k] by metis
qed

lemma appended_line: "k \<in> set SECRET_KEYS \<Longrightarrow> entry_line k v (k @ '': '' @ quoted_value v)"
  unfolding entry_line_def by (rule exI [of _ "[]"], rule exI [of _ "[]"], rule exI [of _ "'' ''"]) simp

lemma no_newline_entry: "k \<in> set SECRET_KEYS \<Longrightarrow> clean_value v \<Longrightarrow> NL \<notin> set (k @ '': '' @ quoted_value v)"
  using key_plain [of k NL]
  by (auto simp: quoted_value_def clean_value_def list_all_iff plain_char_def secret_char_def NL_def DQ_def)

lemma no_newline_rendered:
  assumes "line \<in> set (split_lines [] template)" "clean_values values"
  shows "NL \<notin> set (render_line values line)"
proof -
  have line: "NL \<notin> set line"
    using split_lines_clean [OF _ assms(1)] by (auto simp: list_all_iff line_break_def NL_def)
  show ?thesis
  proof (cases "line_key line")
    case None
    then show ?thesis
      using line by (simp add: render_line_def)
  next
    case (Some k)
    have k: "k \<in> set SECRET_KEYS"
      by (rule line_key_some [OF Some])
    obtain p where p: "key_prefix k line = Some p"
      using Some by (auto simp: line_key_def find_Some_iff)
    have "NL \<notin> set p"
      using line prefix_of_line [OF p] by auto
    moreover have "clean_value (value_for values k)"
      using assms(2) k by (simp add: clean_values_def)
    ultimately show ?thesis
      by (auto simp: render_line_def Some p quoted_value_def clean_value_def list_all_iff plain_char_def NL_def DQ_def)
  qed
qed

lemma render_lines_good:
  assumes t: "no_bare_key template" and v: "clean_values values" and k: "k \<in> set SECRET_KEYS"
    and r: "r \<in> set (render_lines (split_lines [] template) values)"
  shows "NL \<notin> set r \<and> (entry_line k (value_for values k) r \<or> other_line k r)"
proof -
  consider (line) line where "line \<in> set (split_lines [] template)" "r = render_line values line"
    | (empty) "r = []" | (missing) k' where "k' \<in> set SECRET_KEYS" "r = k' @ '': '' @ quoted_value (value_for values k')"
    using r by (auto simp: render_lines_def missing_keys_def split: if_splits)
  then show ?thesis
  proof cases
    case line
    then show ?thesis
      using rendered_line [OF _ t k] no_newline_rendered [OF _ v] by blast
  next
    case empty
    then show ?thesis
      using keys_solid [OF k] by (auto simp: other_line_def key_prefix_def py_lstrip_def py_strip_def startswith_iff)
  next
    case missing
    then show ?thesis
      using appended_line [OF missing(1)] no_newline_entry [OF missing(1)] entry_other [OF k missing(1)] v
      by (metis clean_values_def)
  qed
qed

lemma render_lines_entry:
  "k \<in> set SECRET_KEYS \<Longrightarrow> \<exists>r\<in>set (render_lines lines values). entry_line k (value_for values k) r"
proof (cases "Some k \<in> line_key ` set lines")
  case True
  then obtain line where "line \<in> set lines" "line_key line = Some k"
    by auto
  then show ?thesis
    using line_key_some(2) by (fastforce simp: render_lines_def)
next
  case False
  assume "k \<in> set SECRET_KEYS"
  then show ?thesis
    using False appended_line by (fastforce simp: render_lines_def missing_keys_def)
qed

lemma entry_not_blank: "entry_line k v r \<Longrightarrow> \<not> blanks r"
  by (auto simp: entry_line_def)

text \<open>The rendered file has the given value of every key.\<close>

lemma rendered_value:
  assumes t: "no_bare_key template" and v: "clean_values values" and k: "k \<in> set SECRET_KEYS"
  shows "existing_value (render_secrets template values) k = Some (value_for values k)"
proof -
  define ls where "ls = render_lines (split_lines [] template) values"
  define w where "w = value_for values k"
  have good: "r \<in> set ls \<Longrightarrow> NL \<notin> set r \<and> (entry_line k w r \<or> other_line k r)" for r
    using render_lines_good [OF t v k] by (simp add: ls_def w_def)
  obtain e where e: "e \<in> set ls" "entry_line k w e"
    using render_lines_entry [OF k] by (auto simp: ls_def w_def)
  then have "\<not> list_all blanks ls"
    using entry_not_blank by (auto simp: list_all_iff [of blanks ls])
  then obtain pre l post where ls: "ls = pre @ l # post" "\<not> blanks l" "list_all blanks post"
    and trim: "py_trim_end (py_join [NL] ls) = py_join [NL] (pre @ [py_trim_end l])"
    using trim_join by blast
  have rendered: "render_secrets template values = unlines (pre @ [py_trim_end l])"
    using join_unlines [of "pre @ [py_trim_end l]", folded NL_def] trim by (simp add: render_secrets_def flip: ls_def)
  have "set (py_trim_end l) \<subseteq> set l"
    using trim_parts [of l] by (metis set_append sup_ge1)
  moreover have "entry_line k w l \<Longrightarrow> entry_line k w (py_trim_end l)"
    using entry_trim by metis
  ultimately have good': "NL \<notin> set r \<and> (entry_line k w r \<or> other_line k r)" if "r \<in> set (pre @ [py_trim_end l])" for r
    using good [of r] good [of l] that other_trim [OF k _ ls(2)] by (auto simp: ls(1))
  have "\<exists>r\<in>set (pre @ [py_trim_end l]). entry_line k w r"
    using e ls entry_not_blank entry_trim by (fastforce simp: list_all_iff [of blanks post])
  moreover have "clean_value w"
    using v k by (simp add: clean_values_def w_def)
  then have "find_value k True (unlines (pre @ [py_trim_end l])) =
      (if \<exists>r\<in>set (pre @ [py_trim_end l]). entry_line k w r then Some w else None)"
    by (rule search_lines [OF k]) (rule good')
  ultimately show ?thesis
    by (simp only: existing_value_def rendered if_True flip: w_def)
qed

subsection \<open>Generated values\<close>

lemma b64_length: "length (B64 [x, y]) = 64"
  by (simp add: B64_def)

lemma sextets_set: "length alphabet = 64 \<Longrightarrow> set (sextets alphabet n) \<subseteq> set alphabet"
  by (simp add: sextets_def)

lemma b64_chars: "length alphabet = 64 \<Longrightarrow> set (b64encode alphabet data) \<subseteq> insert CHR ''='' (set alphabet)"
proof (induction alphabet data rule: b64encode.induct)
  case (2 alphabet a)
  then show ?case
    using set_take_subset [of 2] sextets_set [OF 2] by fastforce
next
  case (3 alphabet a b)
  then show ?case
    using set_take_subset [of 3] sextets_set [OF 3] by fastforce
next
  case (4 alphabet a b c rest)
  then show ?case
    using sextets_set [of alphabet] by auto
qed simp

lemma solid_text: "list_all (\<lambda>c. \<not> py_space c) t \<Longrightarrow> py_strip t = t"
proof -
  assume t: "list_all (\<lambda>c. \<not> py_space c) t"
  have "list_all (\<lambda>c. \<not> py_space c) u \<Longrightarrow> py_lstrip u = u" for u
    by (cases u) (simp_all add: py_lstrip_def)
  then show ?thesis
    using t by (simp add: py_strip_def list_all_rev)
qed

lemma alphabet_clean: "c \<in> insert CHR ''='' (set (B64 ''+/'')) \<union> set (B64 ''-_'') \<Longrightarrow> plain_char c \<and> \<not> py_space c"
proof -
  have "list_all (\<lambda>c. plain_char c \<and> \<not> py_space c) (CHR ''='' # B64 ''+/'' @ B64 ''-_'')"
    by code_simp
  then show "c \<in> insert CHR ''='' (set (B64 ''+/'')) \<union> set (B64 ''-_'') \<Longrightarrow> plain_char c \<and> \<not> py_space c"
    by (auto simp: list_all_iff)
qed

lemma clean_chars: "(\<And>c. c \<in> set v \<Longrightarrow> plain_char c \<and> \<not> py_space c) \<Longrightarrow> clean_value v"
  by (simp add: clean_value_def solid_text list_all_iff)

lemma token_clean: "clean_value (token_key data)" "clean_value (token_urlsafe data)"
proof -
  have "set (token_key data) \<subseteq> insert CHR ''='' (set (B64 ''+/''))"
    unfolding token_key_def by (rule b64_chars) (simp add: B64_def)
  then show "clean_value (token_key data)"
    using alphabet_clean by (intro clean_chars) blast
  have "set (token_urlsafe data) \<subseteq> set (b64encode (B64 ''-_'') data)"
    unfolding token_urlsafe_def by (auto dest: set_dropWhileD)
  also have "\<dots> \<subseteq> insert CHR ''='' (set (B64 ''-_''))"
    by (rule b64_chars) (simp add: B64_def)
  finally show "clean_value (token_urlsafe data)"
    using alphabet_clean by (intro clean_chars) blast
qed

lemma fixed_clean: "clean_value ''Wokwi-GUEST''" "clean_value []"
  by (rule clean_chars, simp add: plain_char_def py_space_def DQ_def SQ_def NL_def HASH_def, fastforce)
    (simp add: clean_value_def py_strip_def py_lstrip_def)

lemma generated_clean: "clean_values (generate_values draws)"
  by (simp add: clean_values_def SECRET_KEYS_def generate_values_def value_for_def token_clean fixed_clean)

lemma network_is_real: "\<not> is_placeholder (Some ''Wokwi-GUEST'')"
  by code_simp

subsection \<open>Runs\<close>

lemma run_reads_back:
  assumes run: "init_secrets force draws fs = Inr fs'" and t: "secrets_template force fs = Inr template"
    and bare: "no_bare_key template"
  shows "\<exists>t. sf_output fs' = Some t \<and>
      (\<forall>k\<in>set SECRET_KEYS. existing_value t k = Some (value_for (generate_values draws) k)) \<and>
      (\<forall>draws'. \<exists>msg. init_secrets False draws' fs' = Inl (SystemExit msg))"
proof -
  define new where "new = render_secrets template (generate_values draws)"
  have fs': "fs' = fs\<lparr>sf_output := Some new\<rparr>"
    using run t by (simp add: init_secrets_def new_def)
  obtain example where ex: "sf_example fs = Some example"
    using t by (auto simp: secrets_template_def split: option.splits)
  have reads_back: "k \<in> set SECRET_KEYS \<Longrightarrow> existing_value new k = Some (value_for (generate_values draws) k)" for k
    unfolding new_def by (rule rendered_value [OF bare generated_clean])
  have "''wifi_ssid_supramatic_4_dev'' \<in> set SECRET_KEYS" "value_for (generate_values draws) ''wifi_ssid_supramatic_4_dev'' = ''Wokwi-GUEST''"
    by (simp_all add: SECRET_KEYS_def generate_values_def value_for_def)
  then have "''wifi_ssid_supramatic_4_dev'' \<in> set (real_keys new)"
    using reads_back network_is_real by (force simp: real_keys_def existing_values_def)
  then have "real_keys new \<noteq> []"
    by auto
  then show ?thesis
    using reads_back by (auto simp: fs' ex init_secrets_def secrets_template_def)
qed

text \<open>A file whose only secret has a number sign in it.\<close>

definition hash_line :: "string \<Rightarrow> string \<Rightarrow> string \<Rightarrow> string" where
  "hash_line key x y = key @ '': '' @ quoted_value (x @ HASH # y)"

lemma hash_not_seen:
  assumes k: "key \<in> set SECRET_KEYS" "k \<in> set SECRET_KEYS" and x: "list_all plain_char x" and y: "NL \<notin> set y"
  shows "existing_value (hash_line key x y @ [NL]) k = (if k = key then Some [] else None)"
proof -
  have entry: "entry_line key (x @ HASH # y) (hash_line key x y)"
    using appended_line [OF k(1)] by (simp add: hash_line_def)
  have nl: "NL \<notin> set (hash_line key x y)"
    using key_plain [OF k(1), of NL] x y
    by (auto simp: hash_line_def quoted_value_def secret_char_def plain_char_def list_all_iff NL_def DQ_def HASH_def)
  have line: "existing_value (hash_line key x y @ [NL]) k =
      (case match_key k (hash_line key x y @ [NL]) of Some v \<Rightarrow> Some v | None \<Rightarrow> None)"
    using search_line [OF nl, of k "[]"] by (simp add: existing_value_def split: option.split)
  show ?thesis
  proof (cases "k = key")
    case True
    have "takeWhile plain_char (x @ HASH # u) = x" "dropWhile plain_char (x @ HASH # u) = HASH # u" for u
      using x by (induction x) (simp_all add: plain_char_def)
    then have "scalar_value (py_lstrip (DQ # x @ HASH # y @ [DQ, NL])) = []"
      by (simp add: lstrip_solid scalar_value_def) (simp add: DQ_def HASH_def)
    then have "match_key key (hash_line key x y @ [NL]) = Some []"
      using match_entry [OF k(1), of "[]" "[]" "'' ''" "DQ # x @ HASH # y @ [DQ, NL]"]
      by (simp add: hash_line_def quoted_value_def py_strip_def py_lstrip_def)
    then show ?thesis
      using line [unfolded True] by (simp add: True)
  next
    case False
    then show ?thesis
      using match_other_line [OF k(2) entry_other [OF k(2,1) _ entry] entry_not_blank [OF entry], of "[]"] by (simp add: line)
  qed
qed

lemma hash_secret_replaced:
  assumes k: "key \<in> set SECRET_KEYS" and x: "list_all plain_char x" and y: "list_all (\<lambda>c. \<not> line_break c) y"
    and xb: "list_all (\<lambda>c. \<not> line_break c) x"
    and out: "sf_output fs = Some (hash_line key x y @ [NL])" and ex: "sf_example fs \<noteq> None"
  shows "\<exists>t. init_secrets False draws fs = Inr (fs\<lparr>sf_output := Some t\<rparr>) \<and>
      existing_value t key = Some (value_for (generate_values draws) key)"
proof -
  have "NL \<notin> set y"
    using y by (auto simp: list_all_iff line_break_def NL_def)
  then have "real_keys (hash_line key x y @ [NL]) = []"
    using hash_not_seen [OF k _ x] by (auto simp: real_keys_def existing_values_def filter_empty_conv is_placeholder_def
        strip_quotes_def py_strip_def py_lstrip_def PLACEHOLDER_VALUES_def)
  then have t: "secrets_template False fs = Inr (hash_line key x y @ [NL])"
    using out ex by (auto simp: secrets_template_def)
  have clean: "list_all (\<lambda>c. \<not> line_break c) (hash_line key x y)"
    using keys_solid [OF k] x xb y
    by (auto simp: hash_line_def quoted_value_def list_all_iff secret_char_def py_space_def line_break_def DQ_def HASH_def)
  then have "split_lines [] (hash_line key x y @ [NL]) = [hash_line key x y]"
    using split_unlines [of "[hash_line key x y]"] by (simp add: unlines_def NL_def)
  moreover have "DQ \<in> set (py_strip (hash_line key x y))"
    by (rule strip_preserves) (simp_all add: hash_line_def quoted_value_def)
  ultimately have "no_bare_key (hash_line key x y @ [NL])"
    using key_plain [of _ DQ] by (auto simp: no_bare_key_def secret_char_def plain_char_def)
  then show ?thesis
    using rendered_value [OF _ generated_clean k] by (auto simp: init_secrets_def t)
qed

subsection \<open>Properties\<close>



definition sample_secrets :: secrets_files where
  "sample_secrets = \<lparr>sf_example = Some ''proxy_auth_token: x'', sf_output = None\<rparr>"

lemma sample_template: "secrets_template False sample_secrets = Inr ''proxy_auth_token: x''"
  by (simp add: secrets_template_def sample_secrets_def)



end
