(* ===== verification/Build_Check.thy ===== *)
theory Build_Check
  imports Py_Text "HOL-Library.List_Lexorder" "HOL-Library.Char_ord"
begin

text \<open>
  \<open>tools/check_esp32_realtime_build.py\<close>: the check of a firmware build.  The files of the build directory, the tools on
  the path and what they print are parameters; the tools' listings are parsed as the code does.
\<close>

subsection \<open>What must and must not be there\<close>

definition IRAM_SYMBOLS :: "string list" where
  "IRAM_SYMBOLS =
     [''HCP2Bridge::esp32_realtime_uart_isr_'', ''HCP2Bridge::esp32_realtime_timer_alarm_'',
      ''HCP2Bridge::esp32_realtime_now_us_cb_'', ''HCP2Bridge::esp32_realtime_set_de_from_isr_'',
      ''HCP2Bridge::esp32_realtime_schedule_timer_from_isr_'', ''hcp2_crc16_modbus'', ''hcp2_crc16_check'',
      ''hcp2_crc16_append'', ''hcp2_frame_master_expected_len'', ''hcp2_frame_parse_master'',
      ''hcp2_frame_build_scan_response'', ''hcp2_frame_build_command_response'',
      ''hcp2_frame_build_status_response'', ''hcp2_engine_rx_byte'', ''hcp2_engine_pending_tx_ready'',
      ''hcp2_engine_pending_tx_due_us'', ''hcp2_engine_claim_due_tx'', ''hcp2_engine_mark_tx_started'',
      ''hcp2_engine_mark_tx_done'']"

definition C6_UHCI_IRAM_SYMBOLS :: "string list" where
  "C6_UHCI_IRAM_SYMBOLS =
     [''HCP2Bridge::esp32c6_realtime_uhci_rx_cb_'', ''HCP2Bridge::esp32c6_realtime_uhci_tx_cb_'']"

definition FORBIDDEN_SYMBOLS :: "string list" where
  "FORBIDDEN_SYMBOLS = [''hcp2_lp_blob_data'', ''hcp2_lp_blob_data_len'']"

record elf_symbol =
  es_name :: string
  es_address :: int
  es_size :: int

subsection \<open>The host\<close>

record tool_result =
  tr_code :: int
  tr_out :: string
  tr_err :: string

record build_args =
  ba_build_dir :: string
  ba_env_name :: string
  ba_c6 :: bool
  ba_max_iram :: int
  ba_max_dram :: int
  ba_max_image :: int
  ba_arch :: string

record build_host =
  bh_which :: "string \<Rightarrow> string option"
  bh_packages_dir :: string
  bh_packages :: "string \<Rightarrow> string list"
  bh_exists :: "string \<Rightarrow> bool"
  bh_elfs :: "string \<Rightarrow> string list"
  bh_elf_bytes :: "string \<Rightarrow> bytes"
  bh_file_size :: "string \<Rightarrow> int"
  bh_run :: "string list \<Rightarrow> tool_result"

text \<open>The packages that have the tool are given by their directory names.\<close>

definition platformio_tool :: "build_host \<Rightarrow> string \<Rightarrow> string option" where
  "platformio_tool h name = (case sort (bh_packages h name) of [] \<Rightarrow> None
     | m # _ \<Rightarrow> Some (bh_packages_dir h @ ''/'' @ m @ ''/bin/'' @ name))"

definition find_tool :: "build_host \<Rightarrow> string \<Rightarrow> string option" where
  "find_tool h name =
     (case bh_which h name of
        Some (c # path) \<Rightarrow> Some (c # path)
      | _ \<Rightarrow> platformio_tool h name)"

definition tool_names :: "string \<Rightarrow> (string \<times> string) result" where
  "tool_names arch =
     (if arch = ''xtensa'' then Inr (''xtensa-esp32-elf-nm'', ''xtensa-esp32-elf-size'')
      else if arch = ''riscv'' then Inr (''riscv32-esp-elf-nm'', ''riscv32-esp-elf-size'')
      else Inl (ValueError (''unsupported arch: '' @ arch)))"

definition elf_arch :: "bytes \<Rightarrow> string option" where
  "elf_arch contents =
     (let header = take 20 contents
      in if length header < 20 \<or> take 4 header \<noteq> [0x7F, 0x45, 0x4C, 0x46] then None
         else
           let a = unat (header ! 18); b = unat (header ! 19);
               machine = (if header ! 5 = 1 then Some (a + 256 * b) else if header ! 5 = 2 then Some (256 * a + b) else None)
           in if machine = Some 94 then Some ''xtensa'' else if machine = Some 243 then Some ''riscv'' else None)"

definition nm_command :: "string \<Rightarrow> string \<Rightarrow> string list" where
  "nm_command nm elf = [nm, ''-S'', ''--defined-only'', ''-C'', elf]"

text \<open>The first architecture whose tools are there and whose \<open>nm\<close> reads the file; or the reasons.\<close>

fun try_arches :: "build_host \<Rightarrow> string \<Rightarrow> string list \<Rightarrow> string list \<Rightarrow> (string list + string \<times> string \<times> string) result" where
  "try_arches h elf errors [] = Inr (Inl errors)"
| "try_arches h elf errors (candidate # rest) =
     and_then (tool_names candidate) (\<lambda>(nm_name, size_name).
       case (find_tool h nm_name, find_tool h size_name) of
         (Some nm, Some size_tool) \<Rightarrow>
           let r = bh_run h (nm_command nm elf)
           in if tr_code r = 0 then Inr (Inr (candidate, nm, size_tool))
              else try_arches h elf (errors @ [candidate @ '': '' @ py_strip (tr_err r)]) rest
       | (None, _) \<Rightarrow> try_arches h elf (errors @ [candidate @ '': missing '' @ nm_name]) rest
       | (Some _, None) \<Rightarrow> try_arches h elf (errors @ [candidate @ '': missing '' @ size_name]) rest)"

definition select_tools :: "build_host \<Rightarrow> string \<Rightarrow> string \<Rightarrow> (string \<times> string \<times> string) result" where
  "select_tools h arch0 elf =
     (let arch = (if arch0 = ''auto'' then (case elf_arch (bh_elf_bytes h elf) of Some a \<Rightarrow> a | None \<Rightarrow> arch0) else arch0);
          arches = (if arch = ''auto'' then [''xtensa'', ''riscv''] else [arch])
      in and_then (try_arches h elf [] arches) (\<lambda>found.
           case found of
             Inr tools \<Rightarrow> Inr tools
           | Inl errors \<Rightarrow>
               if arch = ''auto''
               then Inl (SystemExit (''Could not auto-detect ELF toolchain for '' @ elf @ '':'' @ [CHR 0x0A] @
                      py_join [CHR 0x0A] errors))
               else Inl (SystemExit (if errors \<noteq> [] then last errors else ''Could not find toolchain for '' @ arch))))"

definition firmware_elf :: "build_host \<Rightarrow> string \<Rightarrow> string \<Rightarrow> string result" where
  "firmware_elf h build_dir env_name =
     (let direct = build_dir @ ''/.pioenvs/'' @ env_name @ ''/firmware.elf''
      in if bh_exists h direct then Inr direct
         else case bh_elfs h build_dir of
           [m] \<Rightarrow> Inr m
         | _ \<Rightarrow> Inl (SystemExit (''Could not find firmware.elf under '' @ build_dir)))"

text \<open>\<open>with_suffix\<close> of a path that ends in \<open>.elf\<close>.\<close>

definition firmware_bin :: "build_host \<Rightarrow> string \<Rightarrow> string result" where
  "firmware_bin h elf =
     (let binary = take (length elf - 4) elf @ ''.bin''
      in if bh_exists h binary then Inr binary
         else Inl (SystemExit (''Could not find '' @ binary @ ''; run esphome compile first'')))"

definition run_tool :: "build_host \<Rightarrow> string list \<Rightarrow> string result" where
  "run_tool h command =
     (let r = bh_run h command
      in if tr_code r \<noteq> 0 then Inl (SystemExit (py_join '' '' command @ '' failed:'' @ [CHR 0x0A] @ tr_err r))
         else Inr (tr_out r))"

subsection \<open>Listings\<close>

definition symbol_of_line :: "string \<Rightarrow> elf_symbol option" where
  "symbol_of_line line =
     (case py_split_max 3 line of
        [a, b, _, name] \<Rightarrow>
          (case (value_of (int16 a), value_of (int16 b)) of
             (Some addr, Some len) \<Rightarrow> Some \<lparr>es_name = name, es_address = addr, es_size = len\<rparr>
           | _ \<Rightarrow> None)
      | _ \<Rightarrow> None)"

definition read_symbols :: "string \<Rightarrow> elf_symbol list" where
  "read_symbols listing = List.map_filter symbol_of_line (split_lines [] listing)"

definition section_of_line :: "string \<Rightarrow> (string \<times> int \<times> int) option" where
  "section_of_line line =
     (case py_words line of
        [name, len, addr] \<Rightarrow>
          if \<not> py_startswith ''.'' name then None
          else (case (py_int len, py_int0 addr) of
                  (Some n, Some a) \<Rightarrow> Some (name, n, a)
                | _ \<Rightarrow> None)
      | _ \<Rightarrow> None)"

definition read_sections :: "string \<Rightarrow> (string \<times> int \<times> int) list" where
  "read_sections listing =
     foldl (\<lambda>d (name, v). dict_put name v d) [] (List.map_filter section_of_line (split_lines [] listing))"

definition address_ranges :: "(string \<times> int \<times> int) list \<Rightarrow> string list \<Rightarrow> (int \<times> int) list" where
  "address_ranges sections prefixes =
     map (\<lambda>(name, len, addr). (addr, addr + len))
       (filter (\<lambda>(name, len, addr). len > 0 \<and> list_ex (\<lambda>p. py_startswith p name) prefixes) sections)"

definition in_ranges :: "int \<Rightarrow> (int \<times> int) list \<Rightarrow> bool" where
  "in_ranges address ranges \<longleftrightarrow> list_ex (\<lambda>(first, past). first \<le> address \<and> address < past) ranges"

definition sum_sections :: "(string \<times> int \<times> int) list \<Rightarrow> string list \<Rightarrow> int" where
  "sum_sections sections names =
     sum_list (map (\<lambda>name. case map_of sections name of None \<Rightarrow> 0 | Some (len, _) \<Rightarrow> len) names)"

definition find_required_symbol :: "elf_symbol list \<Rightarrow> string \<Rightarrow> elf_symbol option" where
  "find_required_symbol symbols required =
     (case filter (\<lambda>s. py_contains required (es_name s)) symbols of [s] \<Rightarrow> Some s | _ \<Rightarrow> None)"

subsection \<open>The check\<close>

definition DEFAULT_BUILD_DIR :: string where
  "DEFAULT_BUILD_DIR = ''configs/.esphome/build/supramatic-4-esp32-realtime''"

definition DEFAULT_ENV_NAME :: string where
  "DEFAULT_ENV_NAME = ''supramatic-4-esp32-realtime''"

definition ESP32C6_BUILD_DIR :: string where
  "ESP32C6_BUILD_DIR = ''configs/.esphome/build/supramatic-4-c6-hp-realtime''"

definition ESP32C6_ENV_NAME :: string where
  "ESP32C6_ENV_NAME = ''supramatic-4-c6-hp-realtime''"

definition effective_args :: "build_args \<Rightarrow> build_args" where
  "effective_args a =
     (if ba_c6 a then
        a\<lparr>ba_build_dir := (if ba_build_dir a = DEFAULT_BUILD_DIR then ESP32C6_BUILD_DIR else ba_build_dir a),
          ba_env_name := (if ba_env_name a = DEFAULT_ENV_NAME then ESP32C6_ENV_NAME else ba_env_name a),
          ba_arch := (if ba_arch a = ''auto'' then ''riscv'' else ba_arch a),
          ba_max_iram := max (ba_max_iram a) 130000, ba_max_image := max (ba_max_image a) 1000000\<rparr>
      else a)"

definition required_symbols :: "string \<Rightarrow> build_args \<Rightarrow> string list" where
  "required_symbols arch a = IRAM_SYMBOLS @ (if arch = ''riscv'' \<or> ba_c6 a then C6_UHCI_IRAM_SYMBOLS else [])"

definition required_problem :: "elf_symbol list \<Rightarrow> (int \<times> int) list \<Rightarrow> string \<Rightarrow> string list" where
  "required_problem symbols iram_ranges required =
     (case find_required_symbol symbols required of
        None \<Rightarrow> [''missing or ambiguous required symbol: '' @ required]
      | Some s \<Rightarrow>
          if in_ranges (es_address s) iram_ranges then []
          else [es_name s @ '' is not in IRAM: 0x'' @ format_hex 8 (es_address s)])"

definition forbidden_problem :: "elf_symbol list \<Rightarrow> string \<Rightarrow> string list" where
  "forbidden_problem symbols forbidden =
     (let matches = map es_name (filter (\<lambda>s. py_contains forbidden (es_name s)) symbols)
      in if matches \<noteq> []
         then [''forbidden LP blob symbol present in ESP32 realtime build: '' @ py_join '', '' matches] else [])"

definition budget_problem :: "string \<times> int \<times> int \<Rightarrow> string list" where
  "budget_problem b =
     (let (name, used, limit) = b
      in if used > limit
         then [name @ '' budget exceeded: '' @ py_str_int used @ '' > '' @ py_str_int limit @ '' bytes''] else [])"

definition iram_size :: "(string \<times> int \<times> int) list \<Rightarrow> int" where
  "iram_size sections =
     sum_sections sections [''.iram0.vectors'', ''.iram0.text'', ''.iram0.text_end'', ''.iram0.data'', ''.iram0.bss'']"

definition dram_size :: "(string \<times> int \<times> int) list \<Rightarrow> int" where
  "dram_size sections = sum_sections sections [''.dram0.data'', ''.dram0.bss'', ''.noinit'']"

text \<open>What the check looks at, once the tools have run.\<close>

record build_facts =
  bf_arch :: string
  bf_elf :: string
  bf_symbols :: "elf_symbol list"
  bf_sections :: "(string \<times> int \<times> int) list"
  bf_image :: int

definition iram_ranges :: "build_facts \<Rightarrow> (int \<times> int) list" where
  "iram_ranges b = address_ranges (bf_sections b) [''.iram0.'', ''.iram1.'']"

definition gather :: "build_host \<Rightarrow> build_args \<Rightarrow> build_facts result" where
  "gather h a =
     and_then (firmware_elf h (ba_build_dir a) (ba_env_name a)) (\<lambda>elf.
     and_then (select_tools h (ba_arch a) elf) (\<lambda>(arch, nm, size_tool).
     and_then (firmware_bin h elf) (\<lambda>binary.
     and_then (run_tool h (nm_command nm elf)) (\<lambda>symbols.
     and_then (run_tool h [size_tool, ''-A'', elf]) (\<lambda>sections.
       let b = \<lparr>bf_arch = arch, bf_elf = elf, bf_symbols = read_symbols symbols,
                bf_sections = read_sections sections, bf_image = bh_file_size h binary\<rparr>
       in if iram_ranges b = [] then Inl (SystemExit ''No IRAM sections found in firmware.elf'') else Inr b)))))"

definition build_problems :: "build_args \<Rightarrow> build_facts \<Rightarrow> string list" where
  "build_problems a b =
     concat (map (required_problem (bf_symbols b) (iram_ranges b)) (required_symbols (bf_arch b) a)) @
     concat (map (forbidden_problem (bf_symbols b)) FORBIDDEN_SYMBOLS) @
     concat (map budget_problem
       [(''IRAM'', iram_size (bf_sections b), ba_max_iram a), (''DRAM'', dram_size (bf_sections b), ba_max_dram a),
        (''image'', bf_image b, ba_max_image a)])"

text \<open>The exit code and what is printed.\<close>

definition build_check_main :: "build_host \<Rightarrow> build_args \<Rightarrow> (int \<times> string list) result" where
  "build_check_main h a0 =
     (let a = effective_args a0
      in and_then (gather h a) (\<lambda>b.
        let problems = build_problems a b
        in if problems \<noteq> [] then Inr (1, map (\<lambda>p. ''FAIL: '' @ p) problems)
           else Inr (0,
             [''ESP32 realtime build OK ('' @ bf_arch b @ ''): '' @ bf_elf b,
              ''IRAM='' @ py_str_int (iram_size (bf_sections b)) @ '' DRAM='' @ py_str_int (dram_size (bf_sections b)) @
                '' image='' @ py_str_int (bf_image b),
              ''checked '' @ py_str_int (int (length (required_symbols (bf_arch b) a))) @
                '' IRAM hot-path symbols; LP blob symbols absent''])))"

end
