(* ===== verification/Build_Check_Props.thy ===== *)
theory Build_Check_Props
  imports Build_Check
begin

text \<open>
  When a firmware build passes the check, and what the check sees of a symbol listing.
\<close>

subsection \<open>Exit code\<close>

definition placed_in_iram :: "build_facts \<Rightarrow> elf_symbol \<Rightarrow> bool" where
  "placed_in_iram b s \<longleftrightarrow>
     (\<exists>(name, len, addr)\<in>set (bf_sections b).
        (py_startswith ''.iram0.'' name \<or> py_startswith ''.iram1.'' name) \<and>
        addr \<le> es_address s \<and> es_address s < addr + len)"

definition build_good :: "build_args \<Rightarrow> build_facts \<Rightarrow> bool" where
  "build_good a b \<longleftrightarrow>
     (\<forall>r\<in>set (required_symbols (bf_arch b) a).
        \<exists>s. filter (\<lambda>s. py_contains r (es_name s)) (bf_symbols b) = [s] \<and> placed_in_iram b s) \<and>
     (\<forall>s\<in>set (bf_symbols b). \<not> py_contains ''hcp2_lp_blob_data'' (es_name s)) \<and>
     iram_size (bf_sections b) \<le> ba_max_iram a \<and> dram_size (bf_sections b) \<le> ba_max_dram a \<and>
     bf_image b \<le> ba_max_image a"

lemma in_iram_iff: "in_ranges (es_address s) (iram_ranges b) \<longleftrightarrow> placed_in_iram b s"
  by (fastforce simp: in_ranges_def iram_ranges_def address_ranges_def placed_in_iram_def list_ex_iff)

lemma find_required_iff:
  "find_required_symbol symbols r = Some s \<longleftrightarrow> filter (\<lambda>s. py_contains r (es_name s)) symbols = [s]"
  by (auto simp: find_required_symbol_def split: list.split)

lemma required_problem_iff:
  "required_problem (bf_symbols b) (iram_ranges b) r = [] \<longleftrightarrow>
     (\<exists>s. filter (\<lambda>s. py_contains r (es_name s)) (bf_symbols b) = [s] \<and> placed_in_iram b s)"
  by (auto simp: required_problem_def in_iram_iff find_required_iff [symmetric] split: option.split)

text \<open>A name that contains the second forbidden name contains the first.\<close>

lemma blob_names: "py_contains ''hcp2_lp_blob_data_len'' t \<Longrightarrow> py_contains ''hcp2_lp_blob_data'' t"
proof -
  assume "py_contains ''hcp2_lp_blob_data_len'' t"
  then obtain pre post where "t = pre @ (''hcp2_lp_blob_data'' @ ''_len'') @ post"
    by (auto simp: py_contains_iff)
  then show ?thesis
    unfolding py_contains_iff by (metis append_assoc)
qed

lemma forbidden_problems_iff:
  "concat (map (forbidden_problem symbols) FORBIDDEN_SYMBOLS) = [] \<longleftrightarrow>
     (\<forall>s\<in>set symbols. \<not> py_contains ''hcp2_lp_blob_data'' (es_name s))"
  using blob_names by (auto simp: forbidden_problem_def FORBIDDEN_SYMBOLS_def Let_def filter_empty_conv)

lemma no_problems_iff: "build_problems a b = [] \<longleftrightarrow> build_good a b"
  by (auto simp: build_problems_def build_good_def required_problem_iff forbidden_problems_iff budget_problem_def
      simp del: concat_eq_Nil_conv simp flip: not_le) (auto simp: required_problem_iff)

lemma build_exit:
  "case gather h (effective_args a) of
     Inl e \<Rightarrow> build_check_main h a = Inl e
   | Inr b \<Rightarrow> \<exists>out. build_check_main h a = Inr (if build_good (effective_args a) b then 0 else 1, out)"
  using no_problems_iff by (auto simp: build_check_main_def Let_def split: sum.split)

subsection \<open>Listings\<close>

lemma split_max_blank: "py_split_max n (CHR '' '' # t) = py_split_max n t"
  by (cases n) (simp_all add: py_lstrip_def py_space_def)

lemma split_max_word: "solid w \<Longrightarrow> py_split_max (Suc n) (w @ CHR '' '' # t) = w # py_split_max n t"
proof -
  assume w: "solid w"
  have "takeWhile (\<lambda>c. \<not> py_space c) (w @ CHR '' '' # t) = w"
    "dropWhile (\<lambda>c. \<not> py_space c) (w @ CHR '' '' # t) = CHR '' '' # t"
    using w by (simp_all add: solid_def takeWhile_append list_all_iff) (simp_all add: py_space_def)
  moreover have "py_lstrip (w @ CHR '' '' # t) = w @ CHR '' '' # t"
    using w by (cases w) (simp_all add: solid_def py_lstrip_def)
  ultimately show ?thesis
    using w by (simp add: solid_def split_max_blank)
qed

lemma split_max_last: "t \<noteq> [] \<Longrightarrow> \<not> py_space (hd t) \<Longrightarrow> py_split_max 0 t = [t]"
  by (cases t) (simp_all add: py_lstrip_def)

definition hex_text :: "nat \<Rightarrow> string" where
  "hex_text n = format_hex 8 (int n)"

lemma hex_text_solid: "solid (hex_text n)"
  by (simp add: hex_text_def format_solid)

lemma int16_hex_text: "int16 (hex_text n) = Inr (int n)"
  by (simp add: hex_text_def int16_format)

text \<open>The lines of \<open>nm -S\<close>: with a size, or without one.\<close>

datatype nm_entry = Sized nat nat char string | Unsized nat char string

fun nm_line :: "nm_entry \<Rightarrow> string" where
  "nm_line (Sized addr len kind name) = hex_text addr @ '' '' @ hex_text len @ '' '' @ [kind] @ '' '' @ name"
| "nm_line (Unsized addr kind name) = hex_text addr @ '' '' @ [kind] @ '' '' @ name"

fun nm_entry_ok :: "nm_entry \<Rightarrow> bool" where
  "nm_entry_ok (Sized addr len kind name) \<longleftrightarrow>
     \<not> py_space kind \<and> name \<noteq> [] \<and> \<not> py_space (hd name) \<and> list_all (\<lambda>c. \<not> line_break c) name"
| "nm_entry_ok (Unsized addr kind name) \<longleftrightarrow> \<not> py_space kind \<and> solid name"

fun listed_symbol :: "nm_entry \<Rightarrow> elf_symbol option" where
  "listed_symbol (Sized addr len kind name) = Some \<lparr>es_name = name, es_address = int addr, es_size = int len\<rparr>"
| "listed_symbol (Unsized addr kind name) = None"

lemma split_solid: "solid t \<Longrightarrow> py_split_max (Suc n) t = [t]"
proof -
  assume t: "solid t"
  then have whole: "py_lstrip t = t"
    by (cases t) (simp_all add: solid_def py_lstrip_def)
  have parts: "takeWhile (\<lambda>c. \<not> py_space c) t = t" "dropWhile (\<lambda>c. \<not> py_space c) t = []"
    using t by (simp_all add: solid_def list_all_iff takeWhile_eq_all_conv dropWhile_eq_Nil_conv)
  have "py_split_max n [] = []"
    by (cases n) (simp_all add: py_lstrip_def)
  then show ?thesis
    using t by (simp only: py_split_max.simps Let_def whole parts solid_def if_False)
qed

lemma symbol_of_entry: "nm_entry_ok e \<Longrightarrow> symbol_of_line (nm_line e) = listed_symbol e"
proof (cases e)
  case (Sized addr len kind name)
  assume ok: "nm_entry_ok e"
  have "py_split_max 3 (nm_line e) = [hex_text addr, hex_text len, [kind], name]"
    using ok split_max_word [OF hex_text_solid] split_max_word [of "[kind]"] split_max_last [of name]
    by (simp add: Sized numeral_3_eq_3 solid_def)
  then show ?thesis
    by (simp add: Sized symbol_of_line_def int16_hex_text value_of_def)
next
  case (Unsized addr kind name)
  assume ok: "nm_entry_ok e"
  have "py_split_max 3 (nm_line e) = [hex_text addr, [kind], name]"
    using ok split_max_word [OF hex_text_solid] split_max_word [of "[kind]"] split_solid [of name 0]
    by (simp add: Unsized numeral_3_eq_3 solid_def)
  then show ?thesis
    by (simp add: Unsized symbol_of_line_def)
qed

lemma line_break_space: "line_break c \<Longrightarrow> py_space c"
  by (auto simp: line_break_def py_space_def)

lemma nm_line_clean: "nm_entry_ok e \<Longrightarrow> list_all (\<lambda>c. \<not> line_break c) (nm_line e)"
  using hex_text_solid line_break_space
  by (cases e) (auto simp: solid_def list_all_iff line_break_def [of "CHR '' ''"])

text \<open>A listing gives exactly the symbols that it shows with a size.\<close>

lemma listing_read:
  "list_all nm_entry_ok es \<Longrightarrow> read_symbols (unlines (map nm_line es)) = List.map_filter listed_symbol es"
proof -
  assume ok: "list_all nm_entry_ok es"
  then have "split_lines [] (unlines (map nm_line es)) = map nm_line es"
    using nm_line_clean by (intro split_unlines) (auto simp: list_all_iff)
  moreover have "List.map_filter symbol_of_line (map nm_line es) = List.map_filter listed_symbol es"
    using ok symbol_of_entry by (induction es) (simp_all add: List.map_filter_def)
  ultimately show ?thesis
    by (simp add: read_symbols_def)
qed

subsection \<open>Property\<close>

text \<open>C24: Once the tools have run, the check exits with 0 exactly when every hot-path symbol is listed once and lies in an
  IRAM section, no listed symbol is the blob of the low-power core, and the three sizes keep their budgets.\<close>

theorem build_exit_exact:
  "case gather h (effective_args a) of
     Inl e \<Rightarrow> build_check_main h a = Inl e
   | Inr b \<Rightarrow> \<exists>out. build_check_main h a = Inr (if build_good (effective_args a) b then 0 else 1, out)"
  by (rule build_exit)

end
