(* ===== verification/Blob_Update.thy ===== *)
theory Blob_Update
  imports Py_Text
begin

text \<open>
  \<open>tools/update_hcp2_lp_blob.py\<close> and \<open>tools/build_hcp2_lp_blob_ci.py\<close>: the C source made from the binary of the
  low-power firmware, the check of where the binary comes from, and the build that precedes it.  SHA-256, the JSON parser
  and what the processes do are parameters; a JSON description is given by the texts of its three keys.
\<close>

definition EXPECTED_IDF_VERSION :: string where
  "EXPECTED_IDF_VERSION = ''release-v5.5''"

definition EXPECTED_IDF_DOCKER_IMAGE :: string where
  "EXPECTED_IDF_DOCKER_IMAGE = ''espressif/idf:release-v5.5''"

definition EXPECTED_IDF_PATH :: string where
  "EXPECTED_IDF_PATH = ''/opt/esp/idf''"

definition EXPECTED_PROJECT_NAME :: string where
  "EXPECTED_PROJECT_NAME = ''hcp2_lp_loader''"

subsection \<open>The C source\<close>

fun chunks_of :: "nat \<Rightarrow> 'a list \<Rightarrow> 'a list list" where
  "chunks_of n xs = (if n = 0 \<or> xs = [] then [] else take n xs # chunks_of n (drop n xs))"

declare chunks_of.simps [simp del]

definition byte_text :: "byte \<Rightarrow> string" where
  "byte_text b = ''0x'' @ format_hex 2 (uint b)"

definition chunk_line :: "bytes \<Rightarrow> string" where
  "chunk_line chunk = ''  '' @ py_join '', '' (map byte_text chunk) @ '',''"

definition blob_head :: "nat \<Rightarrow> string \<Rightarrow> string list" where
  "blob_head n digest =
     [''/*'', '' * Generated by garage-update-hcp2-lp-blob from hcp2_lp.bin.'',
      '' * Source: '' @ dec_nat n @ '' bytes, sha256='' @ digest, '' */'', ''#include '' @ [CHR 0x22] @ ''hcp2_lp_blob.h'' @ [CHR 0x22],
      [], ''#if defined(HCP2_EMBED_LP_BLOB)'', [], ''const unsigned char hcp2_lp_blob_data[] = {'']"

definition blob_tail :: "nat \<Rightarrow> string list" where
  "blob_tail n = [''};'', ''const unsigned int hcp2_lp_blob_data_len = '' @ dec_nat n @ '';'', [], ''#endif'', []]"

definition render_blob :: "bytes \<Rightarrow> string \<Rightarrow> string" where
  "render_blob data digest =
     py_join [CHR 0x0A]
       (blob_head (length data) digest @ map chunk_line (chunks_of 12 data) @ blob_tail (length data))"

subsection \<open>Where the binary comes from\<close>

datatype description = NotJson | NotObject | Fields string string string

record blob_files =
  bl_binary :: "bytes option"
  bl_description :: "description option"
  bl_cmake_cache :: "string option"
  bl_binary_mtime :: rat
  bl_description_mtime :: rat
  bl_output :: "string option"

definition is_hex_char :: "char \<Rightarrow> bool" where
  "is_hex_char c \<longleftrightarrow> hex_value c \<noteq> None"

definition looks_like_official_revision :: "string \<Rightarrow> bool" where
  "looks_like_official_revision revision \<longleftrightarrow>
     7 \<le> length revision \<and> length revision \<le> 40 \<and> list_all is_hex_char revision \<or>
     py_startswith ''v5.5'' revision \<or> py_startswith EXPECTED_IDF_VERSION revision"

definition strip_slashes :: "string \<Rightarrow> string" where
  "strip_slashes t = rev (dropWhile (\<lambda>c. c = CHR ''/'') (rev t))"

definition normalized_idf_path :: "string \<Rightarrow> string" where
  "normalized_idf_path t = strip_slashes (py_replace_char (CHR 0x5C) ''/'' t)"

datatype origin_problem =
    Missing_Idf_Path
  | Other_Idf_Path string
  | Platformio_Path string
  | Missing_Revision
  | Other_Revision string
  | Other_Project string
  | Older_Than_Description
  | Cache_References_Platformio

definition path_problems :: "string \<Rightarrow> origin_problem list" where
  "path_problems idf_path =
     (let path = normalized_idf_path idf_path
      in (if idf_path = [] then [Missing_Idf_Path]
          else if path \<noteq> EXPECTED_IDF_PATH then [Other_Idf_Path idf_path] else []) @
         (if py_contains ''/.platformio/'' path \<or> py_endswith ''/.platformio/packages/framework-espidf'' path
          then [Platformio_Path idf_path] else []))"

definition origin_problems :: "blob_files \<Rightarrow> string \<Rightarrow> string \<Rightarrow> string \<Rightarrow> origin_problem list" where
  "origin_problems fs idf_path git_revision project_name =
     path_problems idf_path @
     (if git_revision = [] then [Missing_Revision]
      else if \<not> looks_like_official_revision git_revision then [Other_Revision git_revision] else []) @
     (if project_name \<noteq> EXPECTED_PROJECT_NAME then [Other_Project project_name] else []) @
     (if bl_binary_mtime fs + 1 < bl_description_mtime fs then [Older_Than_Description] else []) @
     (case bl_cmake_cache fs of
        Some cache \<Rightarrow> if py_contains ''.platformio'' cache then [Cache_References_Platformio] else []
      | None \<Rightarrow> [])"

datatype origin_error = No_Description | Invalid_Json | No_Object | Wrong_Origin "origin_problem list"

definition validate_idf_origin :: "blob_files \<Rightarrow> origin_error option" where
  "validate_idf_origin fs =
     (case bl_description fs of
        None \<Rightarrow> Some No_Description
      | Some NotJson \<Rightarrow> Some Invalid_Json
      | Some NotObject \<Rightarrow> Some No_Object
      | Some (Fields idf_path git_revision project_name) \<Rightarrow>
          (case origin_problems fs idf_path git_revision project_name of
             [] \<Rightarrow> None
           | p # ps \<Rightarrow> Some (Wrong_Origin (p # ps))))"

subsection \<open>The command\<close>

definition write_if_changed :: "string \<Rightarrow> blob_files \<Rightarrow> blob_files" where
  "write_if_changed content fs = (if bl_output fs = Some content then fs else fs\<lparr>bl_output := Some content\<rparr>)"

definition existing_output :: "blob_files \<Rightarrow> string" where
  "existing_output fs = (case bl_output fs of None \<Rightarrow> [] | Some t \<Rightarrow> t)"

text \<open>The exit code and the files after the run.\<close>

definition update_main :: "(bytes \<Rightarrow> string) \<Rightarrow> bool \<Rightarrow> bool \<Rightarrow> blob_files \<Rightarrow> int \<times> blob_files" where
  "update_main sha check skip_check fs =
     (case bl_binary fs of
        None \<Rightarrow> (2, fs)
      | Some data \<Rightarrow>
          if \<not> skip_check \<and> validate_idf_origin fs \<noteq> None then (2, fs)
          else
            let content = render_blob data (sha data)
            in if check then (if existing_output fs \<noteq> content then 1 else 0, fs)
               else (0, write_if_changed content fs))"

text \<open>\<open>build_hcp2_lp_blob_ci.py\<close>: the processes it starts, as what \<open>subprocess.run\<close> does with them.\<close>

datatype process_end = Done | Failed int | Not_Installed

record ci_args =
  ci_image :: string
  ci_no_user :: bool
  ci_check :: bool

definition docker_command :: "string \<Rightarrow> (int \<times> int) option \<Rightarrow> ci_args \<Rightarrow> string list" where
  "docker_command repo ids a =
     [''docker'', ''run'', ''--rm''] @
     (case (if ci_no_user a then None else ids) of
        None \<Rightarrow> []
      | Some (uid, gid) \<Rightarrow> [''--user'', py_str_int uid @ '':'' @ py_str_int gid]) @
     [''-e'', ''HOME=/tmp'', ''-e'', ''PYTHONDONTWRITEBYTECODE=1'', ''-v'', repo @ '':/work'', ''-w'', ''/work'', ci_image a,
      ''bash'', ''-lc'', ''idf.py -C firmware/hcp2-lp fullclean && idf.py -C firmware/hcp2-lp build'']"

fun run_all_commands :: "(string list \<Rightarrow> blob_files \<Rightarrow> process_end \<times> blob_files) \<Rightarrow> string list list \<Rightarrow> blob_files \<Rightarrow>
    int option \<times> blob_files" where
  "run_all_commands run [] fs = (None, fs)"
| "run_all_commands run (c # cs) fs =
     (case run c fs of
        (Done, fs') \<Rightarrow> run_all_commands run cs fs'
      | (Failed code, fs') \<Rightarrow> (Some (if code = 0 then 1 else code), fs')
      | (Not_Installed, fs') \<Rightarrow> (Some 2, fs'))"

definition ci_main ::
  "(bytes \<Rightarrow> string) \<Rightarrow> (string list \<Rightarrow> blob_files \<Rightarrow> process_end \<times> blob_files) \<Rightarrow> string \<Rightarrow> (int \<times> int) option \<Rightarrow> ci_args \<Rightarrow>
   blob_files \<Rightarrow> int \<times> blob_files"
where
  "ci_main sha run repo ids a fs =
     (case run_all_commands run [[''docker'', ''info''], docker_command repo ids a] fs of
        (Some code, fs') \<Rightarrow> (code, fs')
      | (None, fs') \<Rightarrow> update_main sha (ci_check a) False fs')"

subsection \<open>What an update leaves behind\<close>

text \<open>The checks a description passed.\<close>

definition official_origin :: "blob_files \<Rightarrow> bool" where
  "official_origin fs \<longleftrightarrow>
     (\<exists>idf_path git_revision.
        bl_description fs = Some (Fields idf_path git_revision EXPECTED_PROJECT_NAME) \<and>
        normalized_idf_path idf_path = EXPECTED_IDF_PATH \<and> looks_like_official_revision git_revision \<and>
        bl_description_mtime fs \<le> bl_binary_mtime fs + 1 \<and>
        (\<forall>cache. bl_cmake_cache fs = Some cache \<longrightarrow> \<not> py_contains ''.platformio'' cache))"

lemma no_revision: "\<not> looks_like_official_revision []"
  by (simp add: looks_like_official_revision_def py_startswith_def EXPECTED_IDF_VERSION_def)

lemma expected_path_clean:
  "\<not> py_contains ''/.platformio/'' EXPECTED_IDF_PATH" "\<not> py_endswith ''/.platformio/packages/framework-espidf'' EXPECTED_IDF_PATH"
  "normalized_idf_path [] \<noteq> EXPECTED_IDF_PATH"
  by code_simp+

lemma path_problems_none: "path_problems p = [] \<longleftrightarrow> normalized_idf_path p = EXPECTED_IDF_PATH"
  using expected_path_clean by (auto simp: path_problems_def Let_def)

lemma origin_iff: "validate_idf_origin fs = None \<longleftrightarrow> official_origin fs"
proof -
  have "origin_problems fs p r n = [] \<longleftrightarrow> n = EXPECTED_PROJECT_NAME \<and> normalized_idf_path p = EXPECTED_IDF_PATH \<and>
      looks_like_official_revision r \<and> bl_description_mtime fs \<le> bl_binary_mtime fs + 1 \<and>
      (\<forall>cache. bl_cmake_cache fs = Some cache \<longrightarrow> \<not> py_contains ''.platformio'' cache)" for p r n
    using no_revision by (auto simp: origin_problems_def path_problems_none split: option.split)
  moreover have "validate_idf_origin fs = None \<longleftrightarrow>
      (\<exists>p r n. bl_description fs = Some (Fields p r n) \<and> origin_problems fs p r n = [])"
    by (auto simp: validate_idf_origin_def split: option.split description.split list.split)
  ultimately show ?thesis
    by (auto simp: official_origin_def)
qed

lemma update_cases:
  obtains (none) "bl_binary fs = None" "update_main sha check skip fs = (2, fs)"
  | (refused) "\<not> skip" "\<not> official_origin fs" "update_main sha check skip fs = (2, fs)"
  | (checked) data where "bl_binary fs = Some data" "skip \<or> official_origin fs" "check"
      "update_main sha check skip fs = (if existing_output fs \<noteq> render_blob data (sha data) then 1 else 0, fs)"
  | (updated) data where "bl_binary fs = Some data" "skip \<or> official_origin fs" "\<not> check"
      "update_main sha check skip fs = (0, fs\<lparr>bl_output := Some (render_blob data (sha data))\<rparr>)"
proof (cases "bl_binary fs")
  case None
  then show ?thesis
    using none by (simp add: update_main_def)
next
  case (Some data)
  show ?thesis
  proof (cases "skip \<or> official_origin fs")
    case False
    then show ?thesis
      using refused Some by (auto simp: update_main_def simp flip: origin_iff)
  next
    case True
    then have "update_main sha check skip fs =
        (if check then (if existing_output fs \<noteq> render_blob data (sha data) then 1 else 0, fs)
         else (0, write_if_changed (render_blob data (sha data)) fs))"
      using Some by (auto simp: update_main_def Let_def simp flip: origin_iff)
    then show ?thesis
      using checked [OF Some True] updated [OF Some True] by (cases check) (auto simp: write_if_changed_def)
  qed
qed

lemma official_output: "official_origin (fs\<lparr>bl_output := t\<rparr>) = official_origin fs"
  by (simp add: official_origin_def)

subsection \<open>The array reads back\<close>

text \<open>The numbers between the commas of the lines of the array, as a C compiler takes them.\<close>

definition line_values :: "string \<Rightarrow> int list" where
  "line_values line = List.map_filter (\<lambda>t. value_of (int16 t)) (py_split CHR '','' line)"

definition blob_values :: "string \<Rightarrow> int list" where
  "blob_values source = concat (map line_values (filter (py_startswith ''  0x'') (split_lines [] source)))"

lemma byte_text_facts:
  "int16 (byte_text b) = Inr (uint b)" "CHR '','' \<notin> set (byte_text b)" "solid (byte_text b)"
proof -
  have shape: "byte_text b = ''0x'' @ format_hex 2 (int (unat b))"
    by (simp add: byte_text_def)
  show "int16 (byte_text b) = Inr (uint b)"
    unfolding shape int16_prefixed by simp
  show "solid (byte_text b)"
    using format_solid [of 2 "unat b"] unfolding shape by (simp add: solid_def py_space_def)
  have "hex_value CHR '','' = None"
    by code_simp
  then show "CHR '','' \<notin> set (byte_text b)"
    using format_chars(1) [of 2 "unat b"] unfolding shape by (auto simp: list_all_iff)
qed

lemma int16_blanks: "list_all py_space w \<Longrightarrow> value_of (int16 (w @ t)) = value_of (int16 t)"
proof -
  assume "list_all py_space w"
  then have "py_strip (w @ t) = py_strip t"
    by (induction w) (simp_all add: py_strip_def py_lstrip_def)
  then show ?thesis
    by (simp add: int16_def value_of_def Let_def split: option.split)
qed

lemma values_of_tokens:
  "chunk \<noteq> [] \<Longrightarrow> list_all py_space w \<Longrightarrow> CHR '','' \<notin> set w \<Longrightarrow>
    List.map_filter (\<lambda>t. value_of (int16 t)) (py_split CHR '','' (w @ py_join '', '' (map byte_text chunk) @ '','')) =
    map uint chunk"
proof (induction chunk arbitrary: w)
  case (Cons b chunk)
  have one: "value_of (int16 (w @ byte_text b)) = Some (uint b)"
    using int16_blanks [OF Cons.prems(2)] by (simp add: byte_text_facts value_of_def)
  have comma: "CHR '','' \<notin> set (w @ byte_text b)"
    using Cons.prems(3) byte_text_facts(2) by simp
  show ?case
  proof (cases "chunk = []")
    case True
    have "value_of (int16 []) = None"
      by code_simp
    then show ?thesis
      using one split_first [OF comma, of "[]"] by (simp add: True py_join_def List.map_filter_def)
  next
    case False
    have "w @ py_join '', '' (map byte_text (b # chunk)) @ '','' =
        (w @ byte_text b) @ CHR '','' # '' '' @ py_join '', '' (map byte_text chunk) @ '',''"
      using False by (cases chunk) (simp_all add: py_join_def)
    then show ?thesis
      using one split_first [OF comma] Cons.IH [OF False, of "'' ''"]
      by (simp add: List.map_filter_def py_space_def)
  qed
qed simp

lemma chunk_line_values: "chunk \<noteq> [] \<Longrightarrow> line_values (chunk_line chunk) = map uint chunk"
  using values_of_tokens [of chunk "''  ''"] by (simp add: line_values_def chunk_line_def py_space_def)

lemma chunks_concat: "n > 0 \<Longrightarrow> concat (chunks_of n xs) = xs \<and> list_all (\<lambda>c. c \<noteq> []) (chunks_of n xs)"
proof (induction n xs rule: chunks_of.induct)
  case (1 n xs)
  then show ?case
    by (subst (1 2) chunks_of.simps) simp
qed

lemma chunk_line_start: "chunk \<noteq> [] \<Longrightarrow> py_startswith ''  0x'' (chunk_line chunk)"
  by (cases chunk) (simp_all add: chunk_line_def py_join_def byte_text_def py_startswith_def)

lemma dec_nat_digits: "list_all (\<lambda>c. digit_value c \<noteq> None) (dec_nat n)"
proof (induction n rule: dec_nat.induct)
  case (1 n)
  have "list_all (\<lambda>d. digit_value (hex_digit d) \<noteq> None) [0..<10]"
    by code_simp
  then have "digit_value (hex_digit (n mod 10)) \<noteq> None" "n < 10 \<Longrightarrow> digit_value (hex_digit n) \<noteq> None"
    by (auto simp: list_all_iff)
  then show ?case
    using 1 by (subst dec_nat.simps) simp
qed

lemma plain_lines:
  "digit_value c \<noteq> None \<Longrightarrow> \<not> line_break c" "\<not> py_space c \<Longrightarrow> \<not> line_break c"
  by (auto simp: digit_value_def line_break_def py_space_def Let_def split: if_splits)

lemma frame_lines:
  assumes "list_all (\<lambda>c. \<not> line_break c) digest"
  shows "list_all (list_all (\<lambda>c. \<not> line_break c)) (blob_head n digest)"
    "list_all (list_all (\<lambda>c. \<not> line_break c)) (blob_tail n)"
    "filter (py_startswith ''  0x'') (blob_head n digest) = []" "filter (py_startswith ''  0x'') (blob_tail n) = []"
proof -
  have digits: "list_all (\<lambda>c. \<not> line_break c) (dec_nat n)"
    using dec_nat_digits [of n] plain_lines(1) by (auto simp: list_all_iff)
  show "list_all (list_all (\<lambda>c. \<not> line_break c)) (blob_head n digest)"
    "list_all (list_all (\<lambda>c. \<not> line_break c)) (blob_tail n)"
    using digits assms by (simp_all add: blob_head_def blob_tail_def line_break_def)
  show "filter (py_startswith ''  0x'') (blob_head n digest) = []" "filter (py_startswith ''  0x'') (blob_tail n) = []"
    by (simp_all add: blob_head_def blob_tail_def py_startswith_def)
qed

lemma chunk_line_clean: "list_all (\<lambda>c. \<not> line_break c) (chunk_line chunk)"
proof -
  have "list_all (\<lambda>c. \<not> line_break c) (py_join '', '' ts)" if "list_all (list_all (\<lambda>c. \<not> line_break c)) ts" for ts
    using that by (cases ts) (auto simp: py_join_def list_all_iff line_break_def)
  moreover have "list_all (list_all (\<lambda>c. \<not> line_break c)) (map byte_text chunk)"
    using byte_text_facts(3) plain_lines(2) by (auto simp: list_all_iff solid_def)
  ultimately show ?thesis
    by (simp add: chunk_line_def) (simp add: line_break_def)
qed

lemma blob_reads_back:
  assumes "list_all (\<lambda>c. \<not> line_break c) digest"
  shows "blob_values (render_blob data digest) = map uint data"
proof -
  define mid where "mid = map chunk_line (chunks_of 12 data)"
  define ls where "ls = blob_head (length data) digest @ mid @ butlast (blob_tail (length data))"
  have tail: "blob_tail n = butlast (blob_tail n) @ [[]]" for n
    by (simp add: blob_tail_def)
  have "ls \<noteq> []"
    by (simp add: ls_def blob_head_def)
  then have "render_blob data digest = unlines ls"
    using join_snoc [of ls "[CHR 0x0A]" "[]"] join_unlines [of ls]
    unfolding render_blob_def mid_def [symmetric] by (subst tail) (simp add: ls_def)
  moreover have "list_all (list_all (\<lambda>c. \<not> line_break c)) ls"
    using frame_lines(1,2) [OF assms, of "length data"] chunk_line_clean
    by (auto simp: ls_def mid_def list_all_iff dest: in_set_butlastD)
  then have "split_lines [] (unlines ls) = ls"
    by (rule split_unlines)
  moreover have "filter (py_startswith ''  0x'') ls = mid"
  proof -
    have "filter (py_startswith ''  0x'') (butlast (blob_tail n)) = []" for n
      using frame_lines(4) [OF assms, of n] tail [of n] by (metis filter_append append_is_Nil_conv)
    moreover have "filter (py_startswith ''  0x'') mid = mid"
      using chunks_concat [of 12 data] chunk_line_start by (auto simp: mid_def list_all_iff filter_id_conv)
    ultimately show ?thesis
      using frame_lines(3) [OF assms] by (simp add: ls_def)
  qed
  moreover have "concat (map line_values mid) = map uint data"
  proof -
    have "map line_values mid = map (map uint) (chunks_of 12 data)"
      using chunks_concat [of 12 data] chunk_line_values by (auto simp: mid_def list_all_iff)
    then show ?thesis
      using chunks_concat [of 12 data] by (simp flip: map_concat)
  qed
  ultimately show ?thesis
    by (simp add: blob_values_def)
qed

lemma update_sound:
  "case update_main sha False skip fs of (code, fs') \<Rightarrow>
     (code = 0 \<longleftrightarrow> bl_binary fs \<noteq> None \<and> (skip \<or> official_origin fs)) \<and>
     (code \<noteq> 0 \<longrightarrow> fs' = fs) \<and>
     (code = 0 \<longrightarrow> update_main sha True skip fs' = (0, fs')) \<and>
     (\<forall>data. code = 0 \<longrightarrow> bl_binary fs = Some data \<longrightarrow> list_all (\<lambda>c. \<not> line_break c) (sha data) \<longrightarrow>
       (\<exists>source. bl_output fs' = Some source \<and> blob_values source = map uint data))"
proof (cases rule: update_cases [where fs = fs and sha = sha and check = False and skip = skip])
  case (updated data)
  let ?fs = "fs\<lparr>bl_output := Some (render_blob data (sha data))\<rparr>"
  have "update_main sha True skip ?fs = (0, ?fs)"
    using updated(1,2) 
      by (cases rule: update_cases [where fs = ?fs and sha = sha and check = True and skip = skip])
        (auto simp: official_output existing_output_def)
  then show ?thesis
    using updated blob_reads_back by simp
qed simp_all

subsection \<open>Property\<close>

text \<open>C25: An update succeeds exactly when there is a binary and it comes from the expected toolchain, or that check was
  switched off; a failed run changes nothing; after a successful one the check of the same binary passes, and the array
  in the written source holds the bytes of the binary.\<close>

theorem blob_update_sound:
  "case update_main sha False skip fs of (code, fs') \<Rightarrow>
     (code = 0 \<longleftrightarrow> bl_binary fs \<noteq> None \<and> (skip \<or> official_origin fs)) \<and>
     (code \<noteq> 0 \<longrightarrow> fs' = fs) \<and>
     (code = 0 \<longrightarrow> update_main sha True skip fs' = (0, fs')) \<and>
     (\<forall>data. code = 0 \<longrightarrow> bl_binary fs = Some data \<longrightarrow> list_all (\<lambda>c. \<not> line_break c) (sha data) \<longrightarrow>
       (\<exists>source. bl_output fs' = Some source \<and> blob_values source = map uint data))"
  by (rule update_sound)

definition sample_blob_files :: blob_files where
  "sample_blob_files =
     \<lparr>bl_binary = Some [1, 2], bl_description = Some (Fields ''/opt/esp/idf/'' ''v5.5.1'' ''hcp2_lp_loader''),
      bl_cmake_cache = None, bl_binary_mtime = 5, bl_description_mtime = 5, bl_output = None\<rparr>"

theorem blob_update_sound_witness:
  "fst (update_main (\<lambda>_. ''d'') False False sample_blob_files) = 0"
proof -
  have "official_origin sample_blob_files"
    unfolding origin_iff [symmetric] by code_simp
  then show ?thesis
    using blob_update_sound [where sha = "\<lambda>_. ''d''" and skip = False and fs = sample_blob_files]
    by (simp add: case_prod_unfold sample_blob_files_def)
qed

end
