(* ===== verification/Aruco_Video.thy ===== *)
theory Aruco_Video
  imports Prelude "HOL-Library.List_Lexorder" "HOL-Library.Char_ord" "HOL-Library.Product_Lexorder"
begin

text \<open>
  \<open>tools/analyze_garage_aruco_video.py\<close>: from the markers seen in two videos of the door to its timing curves.  NumPy and OpenCV are
  parameters where their functions are more than arithmetic on single elements: the norm, the median of an array, the
  sorting permutation, the interpolation and the fit of a transform.  Floats are rationals, so that every value is finite; a detection
  scale of zero, which OpenCV refuses, is left out.
\<close>

type_synonym point = "rat \<times> rat"

record vision =
  vi_norm :: "point \<Rightarrow> rat"
  vi_median :: "rat list \<Rightarrow> rat"
  vi_argsort :: "rat list \<Rightarrow> nat list"
  vi_interp :: "rat \<Rightarrow> rat list \<Rightarrow> rat list \<Rightarrow> rat"
  vi_affine :: "point list \<Rightarrow> point list \<Rightarrow> ((rat \<times> rat \<times> rat) \<times> (rat \<times> rat \<times> rat)) option"

definition STATIC_IDS :: "int list" where
  "STATIC_IDS = [0, 1, 2, 3]"

definition MOVING_IDS :: "int list" where
  "MOVING_IDS = [10, 11]"

definition DEFAULT_PERCENT_GRID :: "int list" where
  "DEFAULT_PERCENT_GRID = map (\<lambda>i. 5 * int i) [0..<21]"

definition mean :: "rat list \<Rightarrow> rat" where
  "mean xs = sum_list xs / of_nat (length xs)"

definition mean_point :: "point list \<Rightarrow> point" where
  "mean_point ps = (mean (map fst ps), mean (map snd ps))"

text \<open>\<open>statistics.median\<close> of a list that is not empty.\<close>

definition py_median :: "rat list \<Rightarrow> rat" where
  "py_median xs =
     (let s = sort xs; n = length xs
      in if odd n then s ! (n div 2) else (s ! (n div 2 - 1) + s ! (n div 2)) / 2)"

definition median_point :: "point list \<Rightarrow> point" where
  "median_point ps = (py_median (map fst ps), py_median (map snd ps))"

subsection \<open>Observations\<close>

record raw_observation =
  ro_video :: string
  ro_frame :: int
  ro_time_s :: rat
  ro_marker_id :: int
  ro_center :: point
  ro_side_px :: rat

record marker_observation = raw_observation +
  mo_stable :: point

definition marker_side_px :: "vision \<Rightarrow> point list \<Rightarrow> rat" where
  "marker_side_px v pts =
     mean (map (\<lambda>i. let (x1, y1) = pts ! ((i + 1) mod 4); (x0, y0) = pts ! i in vi_norm v (x1 - x0, y1 - y0)) [0..<4])"

definition marker_center :: "point list \<Rightarrow> point" where
  "marker_center pts = mean_point pts"

text \<open>What OpenCV gives of a frame: its time and the markers with their corners in the resized image.\<close>

record vision_frame =
  vf_time_ms :: rat
  vf_markers :: "(int \<times> point list) list"

definition frame_time :: "rat \<Rightarrow> int \<Rightarrow> rat \<Rightarrow> rat" where
  "frame_time fps i time_ms =
     (if time_ms > 0 then time_ms / 1000 else if fps > 0 then of_int i / fps else 0)"

definition unscaled :: "rat \<Rightarrow> point list \<Rightarrow> point list" where
  "unscaled scale pts = (if scale \<noteq> 1 then map (\<lambda>(x, y). (x / scale, y / scale)) pts else pts)"

definition observe :: "vision \<Rightarrow> string \<Rightarrow> rat \<Rightarrow> int \<Rightarrow> rat \<Rightarrow> int \<times> point list \<Rightarrow> raw_observation" where
  "observe v video scale i time_s m =
     (let (marker_id, corners) = m; pts = unscaled scale corners
      in \<lparr>ro_video = video, ro_frame = i, ro_time_s = time_s, ro_marker_id = marker_id,
          ro_center = marker_center pts, ro_side_px = marker_side_px v pts\<rparr>)"

definition collect_raw_observations ::
  "vision \<Rightarrow> string \<Rightarrow> rat \<Rightarrow> int \<Rightarrow> rat \<Rightarrow> vision_frame list option \<Rightarrow> raw_observation list result"
where
  "collect_raw_observations v video scale sample_stride fps frames =
     (case frames of
        None \<Rightarrow> Inl (SystemExit ''Could not open video'')
      | Some fs \<Rightarrow>
          if sample_stride = 0 \<and> fs \<noteq> [] then Inl (Raised ''ZeroDivisionError'' ''integer modulo by zero'')
          else Inr (concat (map (\<lambda>(i, f). map (observe v video scale (int i) (frame_time fps (int i) (vf_time_ms f))) (vf_markers f))
                 (filter (\<lambda>(i, _). int i mod sample_stride = 0) (enumerate 0 fs)))))"

subsection \<open>Stabilisation\<close>

definition reference_point :: "raw_observation list \<Rightarrow> int \<Rightarrow> point option" where
  "reference_point raw marker_id =
     (let points = map ro_center (filter (\<lambda>r. ro_marker_id r = marker_id) raw)
      in if marker_id \<in> set STATIC_IDS \<and> length points \<ge> 5 then Some (median_point points) else None)"

text \<open>\<open>grouped.setdefault(key, []).append(row)\<close>, and \<open>sorted(grouped.items())\<close>: the keys are different, so they decide.\<close>

definition frame_key :: "'a raw_observation_scheme \<Rightarrow> string \<times> int" where
  "frame_key r = (ro_video r, ro_frame r)"

definition grouped :: "raw_observation list \<Rightarrow> ((string \<times> int) \<times> raw_observation list) list" where
  "grouped raw =
     foldl (\<lambda>d r. dict_put (frame_key r) ((case map_of d (frame_key r) of None \<Rightarrow> [] | Some rs \<Rightarrow> rs) @ [r]) d) [] raw"

definition apply_transform :: "(rat \<times> rat \<times> rat) \<times> (rat \<times> rat \<times> rat) \<Rightarrow> point \<Rightarrow> point" where
  "apply_transform m p =
     (let ((a, b, c), (d, e, f)) = m; (x, y) = p in (a * x + b * y + c, d * x + e * y + f))"

definition frame_transform ::
  "vision \<Rightarrow> (int \<Rightarrow> point option) \<Rightarrow> raw_observation list \<Rightarrow> ((rat \<times> rat \<times> rat) \<times> (rat \<times> rat \<times> rat)) option"
where
  "frame_transform v reference rows =
     (let known = filter (\<lambda>r. reference (ro_marker_id r) \<noteq> None) rows
      in if length known \<ge> 2
         then vi_affine v (map ro_center known) (map (\<lambda>r. the (reference (ro_marker_id r))) known)
         else None)"

definition stable_row :: "((rat \<times> rat \<times> rat) \<times> (rat \<times> rat \<times> rat)) option \<Rightarrow> raw_observation \<Rightarrow> marker_observation" where
  "stable_row transform r =
     raw_observation.extend r
       \<lparr>mo_stable = (case transform of Some m \<Rightarrow> apply_transform m (ro_center r) | None \<Rightarrow> ro_center r)\<rparr>"

definition stabilize_observations :: "vision \<Rightarrow> raw_observation list \<Rightarrow> marker_observation list" where
  "stabilize_observations v raw =
     concat (map (\<lambda>(_, rows). map (stable_row (frame_transform v (reference_point raw) rows)) rows) (sort_key fst (grouped raw)))"

subsection \<open>Progress\<close>

definition endpoint_rows :: "marker_observation list \<Rightarrow> string \<Rightarrow> int \<Rightarrow> bool \<Rightarrow> rat \<Rightarrow> marker_observation list" where
  "endpoint_rows observations video marker_id at_start seconds =
     (let rows = sort_key ro_time_s (filter (\<lambda>r. ro_video r = video \<and> ro_marker_id r = marker_id) observations)
      in if rows = [] then []
         else if at_start then filter (\<lambda>r. ro_time_s r \<le> ro_time_s (hd rows) + seconds) rows
         else filter (\<lambda>r. ro_time_s r \<ge> ro_time_s (last rows) - seconds) rows)"

definition endpoint_center :: "marker_observation list \<Rightarrow> string \<Rightarrow> int \<Rightarrow> bool \<Rightarrow> rat \<Rightarrow> point option" where
  "endpoint_center observations video marker_id at_start seconds =
     (let points = map mo_stable (endpoint_rows observations video marker_id at_start seconds)
      in if length points < 3 then None else Some (median_point points))"

definition minus_point :: "point \<Rightarrow> point \<Rightarrow> point" where
  "minus_point p q = (fst p - fst q, snd p - snd q)"

definition dot :: "point \<Rightarrow> point \<Rightarrow> rat" where
  "dot p q = fst p * fst q + snd p * snd q"

record endpoints =
  ep_closed :: point
  ep_open :: point

definition ep_vector :: "endpoints \<Rightarrow> point" where
  "ep_vector ep = minus_point (ep_open ep) (ep_closed ep)"

definition ep_denom :: "endpoints \<Rightarrow> rat" where
  "ep_denom ep = dot (ep_vector ep) (ep_vector ep)"

definition given_points :: "point option list \<Rightarrow> point list" where
  "given_points xs = List.map_filter (\<lambda>x. x) xs"

definition marker_endpoints :: "marker_observation list \<Rightarrow> rat \<Rightarrow> int \<Rightarrow> endpoints option" where
  "marker_endpoints observations seconds marker_id =
     (if marker_id \<notin> set MOVING_IDS then None
      else
        let closed_points = given_points
              [endpoint_center observations ''opening'' marker_id True seconds,
               endpoint_center observations ''closing'' marker_id False seconds];
            open_points = given_points
              [endpoint_center observations ''closing'' marker_id True seconds,
               endpoint_center observations ''opening'' marker_id False seconds]
        in if closed_points = [] \<or> open_points = [] then None
           else
             let ep = \<lparr>ep_closed = mean_point closed_points, ep_open = mean_point open_points\<rparr>
             in if ep_denom ep < 1 then None else Some ep)"

record frame_progress =
  fp_video :: string
  fp_frame :: int
  fp_time_s :: rat
  fp_marker_progress :: "(int \<times> rat) list"
  fp_marker_centers :: "(int \<times> point) list"

definition marker_progress :: "endpoints \<Rightarrow> point \<Rightarrow> rat" where
  "marker_progress ep p = dot (minus_point p (ep_closed ep)) (ep_vector ep) / ep_denom ep"

definition add_progress ::
  "(int \<Rightarrow> endpoints option) \<Rightarrow> ((string \<times> int) \<times> frame_progress) list \<Rightarrow> marker_observation \<Rightarrow>
   ((string \<times> int) \<times> frame_progress) list"
where
  "add_progress eps per_frame r =
     (case eps (ro_marker_id r) of
        None \<Rightarrow> per_frame
      | Some ep \<Rightarrow>
          let item = (case map_of per_frame (frame_key r) of
                Some item \<Rightarrow> item
              | None \<Rightarrow> \<lparr>fp_video = ro_video r, fp_frame = ro_frame r, fp_time_s = ro_time_s r, fp_marker_progress = [],
                         fp_marker_centers = []\<rparr>)
          in dict_put (frame_key r)
               (item\<lparr>fp_marker_progress := dict_put (ro_marker_id r) (marker_progress ep (mo_stable r)) (fp_marker_progress item),
                     fp_marker_centers := dict_put (ro_marker_id r) (mo_stable r) (fp_marker_centers item)\<rparr>) per_frame)"

record progress_row = frame_progress +
  pr_progress_raw :: rat
  pr_visible_moving_markers :: nat

definition progress_row_of :: "frame_progress \<Rightarrow> progress_row" where
  "progress_row_of item =
     frame_progress.extend item
       \<lparr>pr_progress_raw = py_median (map snd (fp_marker_progress item)),
        pr_visible_moving_markers = length (fp_marker_progress item)\<rparr>"

definition compute_progress :: "marker_observation list \<Rightarrow> rat \<Rightarrow> progress_row list" where
  "compute_progress observations seconds =
     (let per_frame = foldl (add_progress (marker_endpoints observations seconds)) [] observations;
          items = sort_key (\<lambda>item. (fp_video item, fp_frame item)) (map snd per_frame)
      in map progress_row_of (filter (\<lambda>item. fp_marker_progress item \<noteq> []) items))"

end
