(* ===== verification/Aruco_Curve.thy ===== *)
theory Aruco_Curve
  imports Aruco_Video
begin

text \<open>
  \<open>tools/analyze_garage_aruco_video.py\<close>, the timing curves: smoothing, the part of the video in which the door moves, the
  monotonic curve and the lookup table, and the run of the whole tool over both videos.  Plots and files are left out.
\<close>

subsection \<open>Smoothing\<close>

definition diffs :: "rat list \<Rightarrow> rat list" where
  "diffs xs = map2 (\<lambda>a b. b - a) (butlast xs) (tl xs)"

definition window_size :: "rat \<Rightarrow> rat \<Rightarrow> int" where
  "window_size window_s dt =
     (let window = max 3 (py_round (window_s / max dt (1 / 1000))) in if even window then window + 1 else window)"

definition smooth_at :: "vision \<Rightarrow> nat \<Rightarrow> rat list \<Rightarrow> nat \<Rightarrow> rat" where
  "smooth_at v half xs i = vi_median v (drop (i - half) (take (min (length xs) (i + half + 1)) xs))"

definition interpolate_and_smooth :: "vision \<Rightarrow> rat list \<Rightarrow> rat list \<Rightarrow> rat \<Rightarrow> rat list" where
  "interpolate_and_smooth v times0 values0 window_s =
     (let order = vi_argsort v times0; stamps = map ((!) times0) order; values = map ((!) values0) order
      in if length values < 3 then values
         else
           let interpolated = map (\<lambda>t. vi_interp v t stamps values) stamps
           in if length stamps < 5 then interpolated
              else
                let half = nat (window_size window_s (vi_median v (diffs stamps)) div 2)
                in map (smooth_at v half interpolated) [0..<length interpolated])"

subsection \<open>The motion\<close>

definition np_clip :: "rat \<Rightarrow> rat \<Rightarrow> rat \<Rightarrow> rat" where
  "np_clip low high x = min high (max low x)"

fun accumulate_from :: "(rat \<Rightarrow> rat \<Rightarrow> rat) \<Rightarrow> rat \<Rightarrow> rat list \<Rightarrow> rat list" where
  "accumulate_from f a [] = []"
| "accumulate_from f a (x # xs) = f a x # accumulate_from f (f a x) xs"

definition accumulate :: "(rat \<Rightarrow> rat \<Rightarrow> rat) \<Rightarrow> rat list \<Rightarrow> rat list" where
  "accumulate f xs = (case xs of [] \<Rightarrow> [] | x # ys \<Rightarrow> x # accumulate_from f x ys)"

definition flatnonzero :: "(rat \<Rightarrow> bool) \<Rightarrow> rat list \<Rightarrow> nat list" where
  "flatnonzero p xs = filter (\<lambda>i. p (xs ! i)) [0..<length xs]"

definition detect_motion_window :: "rat list \<Rightarrow> rat list \<Rightarrow> bool \<Rightarrow> nat \<times> nat" where
  "detect_motion_window stamps progress opening =
     (let (starts, ends) =
            (if opening then (flatnonzero (\<lambda>p. p > 2 / 100) progress, flatnonzero (\<lambda>p. p > 98 / 100) progress)
             else (flatnonzero (\<lambda>p. p < 98 / 100) progress, flatnonzero (\<lambda>p. p < 2 / 100) progress));
          start_idx = (case starts of [] \<Rightarrow> 0 | i # _ \<Rightarrow> i);
          end_idx = (case filter (\<lambda>i. i > start_idx) ends of [] \<Rightarrow> length stamps - 1 | i # _ \<Rightarrow> i)
      in (start_idx, if end_idx \<le> start_idx then length stamps - 1 else end_idx))"

record curve_row =
  cr_video :: string
  cr_frame :: int
  cr_time_s :: rat
  cr_motion_time_s :: rat
  cr_position_raw :: rat
  cr_position_smooth :: rat
  cr_position_monotonic :: rat
  cr_height_m :: rat
  cr_visible_moving_markers :: nat
  cr_marker_progress :: "(int \<times> rat) list"

record curve =
  cv_video :: string
  cv_opening :: bool
  cv_t_start_s :: rat
  cv_t_end_s :: rat
  cv_duration_s :: rat
  cv_rows :: "curve_row list"
  cv_lookup :: "(int \<times> rat \<times> rat) list"

definition monotonic_of :: "bool \<Rightarrow> rat list \<Rightarrow> rat list" where
  "monotonic_of opening smoothed = map (np_clip 0 1) (accumulate (if opening then max else min) smoothed)"

definition curve_rows :: "string \<Rightarrow> progress_row list \<Rightarrow> rat list \<Rightarrow> rat list \<Rightarrow> rat \<Rightarrow> rat \<Rightarrow> curve_row list" where
  "curve_rows video selected smoothed monotonic t_start opening_height_m =
     map (\<lambda>(row, smooth, mono).
         \<lparr>cr_video = video, cr_frame = fp_frame row, cr_time_s = fp_time_s row, cr_motion_time_s = fp_time_s row - t_start,
          cr_position_raw = pr_progress_raw row, cr_position_smooth = smooth, cr_position_monotonic = mono,
          cr_height_m = mono * opening_height_m, cr_visible_moving_markers = pr_visible_moving_markers row,
          cr_marker_progress = fp_marker_progress row\<rparr>)
       (zip selected (zip smoothed monotonic))"

definition lookup_table :: "vision \<Rightarrow> bool \<Rightarrow> rat list \<Rightarrow> rat list \<Rightarrow> rat \<Rightarrow> int list \<Rightarrow> (int \<times> rat \<times> rat) list" where
  "lookup_table v opening active_p active_t opening_height_m percent_grid =
     (if opening then
        map (\<lambda>percent. (percent, of_int percent / 100 * opening_height_m, vi_interp v (of_int percent / 100) active_p active_t))
          percent_grid
      else
        map (\<lambda>percent. (percent, of_int percent / 100 * opening_height_m,
            vi_interp v (1 - of_int percent / 100) (map (\<lambda>p. 1 - p) active_p) active_t))
          (rev percent_grid))"

text \<open>Without a row of the video there is no first time: \<open>times[start_idx]\<close> raises.\<close>

definition analyze_curve ::
  "vision \<Rightarrow> progress_row list \<Rightarrow> string \<Rightarrow> bool \<Rightarrow> rat \<Rightarrow> int list \<Rightarrow> curve result"
where
  "analyze_curve v rows video opening opening_height_m percent_grid =
     (let selected = sort_key fp_time_s (filter (\<lambda>r. fp_video r = video) rows);
          stamps = map fp_time_s selected;
          smoothed = map (np_clip (-5 / 100) (105 / 100)) (interpolate_and_smooth v stamps (map pr_progress_raw selected) (20 / 100));
          monotonic = monotonic_of opening smoothed;
          (start_idx, end_idx) = detect_motion_window stamps monotonic opening
      in if stamps = [] then Inl (Raised ''IndexError'' ''index 0 is out of bounds for axis 0 with size 0'')
         else
           let t_start = stamps ! start_idx; t_end = stamps ! end_idx;
               active = filter (\<lambda>i. stamps ! i \<ge> t_start \<and> stamps ! i \<le> t_end) [0..<length stamps]
           in Inr
             \<lparr>cv_video = video, cv_opening = opening, cv_t_start_s = t_start, cv_t_end_s = t_end, cv_duration_s = max 0 (t_end - t_start),
              cv_rows = curve_rows video selected smoothed monotonic t_start opening_height_m,
              cv_lookup = lookup_table v opening (map ((!) monotonic) active) (map (\<lambda>i. stamps ! i - t_start) active)
                opening_height_m percent_grid\<rparr>)"

subsection \<open>The tool\<close>

record aruco_args =
  aa_opening_height_m :: rat
  aa_detection_scale :: rat
  aa_sample_stride :: int
  aa_endpoint_seconds :: rat

text \<open>A video as OpenCV gives it: its frame rate and its frames, if it can be opened.\<close>

type_synonym aruco_video = "rat \<times> vision_frame list option"

definition collect_video :: "vision \<Rightarrow> aruco_args \<Rightarrow> string \<Rightarrow> aruco_video \<Rightarrow> raw_observation list result" where
  "collect_video v a name video =
     collect_raw_observations v name (aa_detection_scale a) (aa_sample_stride a) (fst video) (snd video)"

definition aruco_main :: "vision \<Rightarrow> aruco_args \<Rightarrow> aruco_video \<Rightarrow> aruco_video \<Rightarrow> (curve \<times> curve) result" where
  "aruco_main v a closing_video opening_video =
     and_then (collect_video v a ''closing'' closing_video) (\<lambda>raw_closing.
     and_then (collect_video v a ''opening'' opening_video) (\<lambda>raw_opening.
       let rows = compute_progress (stabilize_observations v (raw_closing @ raw_opening)) (aa_endpoint_seconds a)
       in and_then (analyze_curve v rows ''opening'' True (aa_opening_height_m a) DEFAULT_PERCENT_GRID) (\<lambda>opening.
          and_then (analyze_curve v rows ''closing'' False (aa_opening_height_m a) DEFAULT_PERCENT_GRID) (\<lambda>closing.
            Inr (opening, closing)))))"

subsection \<open>The monotonic curve\<close>

definition follows :: "bool \<Rightarrow> rat \<Rightarrow> rat \<Rightarrow> bool" where
  "follows opening a b \<longleftrightarrow> (if opening then a \<le> b else b \<le> a)"

lemma accumulate_from_length [simp]: "length (accumulate_from f a xs) = length xs"
  by (induction xs arbitrary: a) simp_all

lemma accumulate_length [simp]: "length (accumulate f xs) = length xs"
  by (simp add: accumulate_def split: list.split)

text \<open>Accumulating the greatest or the least value so far gives a chain.\<close>

lemma accumulate_from_chain:
  "sorted_wrt (follows opening) (a # accumulate_from (if opening then max else min) a xs)"
proof (induction xs arbitrary: a)
  case (Cons x xs)
  have first: "follows opening a ((if opening then max else min) a x)"
    by (simp add: follows_def)
  have "follows opening a z" if "follows opening ((if opening then max else min) a x) z" for z
    using first that by (auto simp: follows_def split: if_splits)
  then show ?case
    using Cons [of "(if opening then max else min) a x"] first by (auto simp: accumulate_from.simps)
qed simp

lemma accumulate_chain: "sorted_wrt (follows opening) (accumulate (if opening then max else min) xs)"
  by (cases xs) (use accumulate_from_chain in \<open>simp_all add: accumulate_def\<close>)

lemma clip_mono: "x \<le> y \<Longrightarrow> np_clip low high x \<le> np_clip low high y"
  by (auto simp: np_clip_def)

lemma clip_unit: "0 \<le> np_clip 0 1 x" "np_clip 0 1 x \<le> 1"
  by (auto simp: np_clip_def)

lemma monotonic_chain: "sorted_wrt (follows opening) (monotonic_of opening xs)"
  unfolding monotonic_of_def sorted_wrt_map
  by (rule sorted_wrt_mono_rel [OF _ accumulate_chain]) (simp add: follows_def clip_mono split: if_splits)

lemma monotonic_length [simp]: "length (monotonic_of opening xs) = length xs"
  by (simp add: monotonic_of_def)

lemma monotonic_unit: "y \<in> set (monotonic_of opening xs) \<Longrightarrow> 0 \<le> y \<and> y \<le> 1"
  by (auto simp: monotonic_of_def clip_unit)

text \<open>The permutation that NumPy's \<open>argsort\<close> returns has the length of its argument.\<close>

lemma smooth_length:
  assumes "\<And>xs. length (vi_argsort v xs) = length xs"
  shows "length (interpolate_and_smooth v stamps values w) = length stamps"
  by (simp add: interpolate_and_smooth_def assms Let_def)

subsection \<open>The motion window\<close>

lemma flatnonzero_less: "i \<in> set (flatnonzero p xs) \<Longrightarrow> i < length xs \<and> p (xs ! i)"
  by (auto simp: flatnonzero_def)

lemma window_facts:
  assumes "detect_motion_window stamps progress opening = (i, j)" "length progress = length stamps" "stamps \<noteq> []"
  shows "i \<le> j \<and> j < length stamps"
proof -
  have case_less: "(case xs of [] \<Rightarrow> d | k # _ \<Rightarrow> k) < n" if "d < n" "\<forall>k\<in>set xs. k < n" for xs :: "nat list" and d n
    using that by (cases xs) auto
  have n: "0 < length stamps" "length stamps - 1 < length stamps"
    using assms(3) by simp_all
  have small: "\<forall>k\<in>set (flatnonzero p progress). k < length stamps"
    "\<forall>k\<in>set (filter q (flatnonzero p progress)). k < length stamps" for p q
    using flatnonzero_less [of _ p progress] assms(2) by auto
  have i: "i < length stamps"
    using assms(1) n small unfolding detect_motion_window_def Let_def
    by (auto intro!: case_less split: if_splits)
  have "j < length stamps"
    using assms(1) n small unfolding detect_motion_window_def Let_def
    by (auto intro!: case_less split: if_splits)
  moreover have "i \<le> j"
    using assms(1) i unfolding detect_motion_window_def Let_def
    by (auto split: if_splits)
  ultimately show ?thesis by simp
qed

end
