(* ===== verification/Aruco_Props.thy ===== *)
theory Aruco_Props
  imports Aruco_Curve "HOL-Library.Multiset"
begin

text \<open>
  What the timing curves of the video analysis mean: the shape of a curve, and that a door of which every visible marker
  is at one fraction of its way is reported at that fraction.
\<close>

subsection \<open>The shape of a curve\<close>

definition rows_of :: "progress_row list \<Rightarrow> string \<Rightarrow> progress_row list" where
  "rows_of rows video = sort_key fp_time_s (filter (\<lambda>r. fp_video r = video) rows)"

definition good_curve :: "progress_row list \<Rightarrow> bool \<Rightarrow> rat \<Rightarrow> curve \<Rightarrow> bool" where
  "good_curve selected opening height c \<longleftrightarrow>
     map cr_frame (cv_rows c) = map fp_frame selected \<and> map cr_time_s (cv_rows c) = map fp_time_s selected \<and>
     map cr_position_raw (cv_rows c) = map pr_progress_raw selected \<and>
     sorted_wrt (follows opening) (map cr_position_monotonic (cv_rows c)) \<and>
     list_all (\<lambda>r. 0 \<le> cr_position_monotonic r \<and> cr_position_monotonic r \<le> 1 \<and>
       cr_height_m r = cr_position_monotonic r * height \<and> cr_motion_time_s r = cr_time_s r - cv_t_start_s c) (cv_rows c) \<and>
     cv_t_start_s c \<in> set (map fp_time_s selected) \<and> cv_t_end_s c \<in> set (map fp_time_s selected) \<and>
     cv_t_start_s c \<le> cv_t_end_s c \<and> cv_duration_s c = cv_t_end_s c - cv_t_start_s c"

lemma curve_rows_maps:
  assumes "length smoothed = length selected" "length monotonic = length selected"
  shows "map cr_frame (curve_rows video selected smoothed monotonic t h) = map fp_frame selected"
    "map cr_time_s (curve_rows video selected smoothed monotonic t h) = map fp_time_s selected"
    "map cr_position_raw (curve_rows video selected smoothed monotonic t h) = map pr_progress_raw selected"
    "map cr_position_monotonic (curve_rows video selected smoothed monotonic t h) = monotonic"
  using assms by (auto simp: curve_rows_def intro!: nth_equalityI)

lemma curve_rows_facts:
  "r \<in> set (curve_rows video selected smoothed monotonic t h) \<Longrightarrow>
    cr_position_monotonic r \<in> set monotonic \<and> cr_height_m r = cr_position_monotonic r * h \<and>
    cr_motion_time_s r = cr_time_s r - t"
  by (auto simp: curve_rows_def dest!: set_zip_rightD)

lemma sorted_times: "i \<le> j \<Longrightarrow> j < length (rows_of rows video) \<Longrightarrow>
    map fp_time_s (rows_of rows video) ! i \<le> map fp_time_s (rows_of rows video) ! j"
  by (rule sorted_nth_mono) (simp_all add: rows_of_def)

lemma curve_shape:
  assumes shape: "\<And>xs. length (vi_argsort v xs) = length xs" and some: "rows_of rows video \<noteq> []"
  shows "\<exists>c. analyze_curve v rows video opening height grid = Inr c \<and> good_curve (rows_of rows video) opening height c"
proof -
  define selected where "selected = rows_of rows video"
  define stamps where "stamps = map fp_time_s selected"
  define smoothed where
    "smoothed = map (np_clip (-5 / 100) (105 / 100)) (interpolate_and_smooth v stamps (map pr_progress_raw selected) (20 / 100))"
  define mono where "mono = monotonic_of opening smoothed"
  obtain i j where w: "detect_motion_window stamps mono opening = (i, j)"
    by (cases "detect_motion_window stamps mono opening")
  have len: "length smoothed = length selected" "length mono = length stamps" "length stamps = length selected"
    by (simp_all add: smoothed_def mono_def stamps_def smooth_length [OF shape])
  have ij: "i \<le> j" "j < length stamps"
    using window_facts [OF w len(2)] some by (simp_all add: stamps_def selected_def)
  have order: "stamps ! i \<le> stamps ! j"
    using sorted_times [of i j rows video] ij by (simp add: stamps_def selected_def)
  define c where "c = \<lparr>cv_video = video, cv_opening = opening, cv_t_start_s = stamps ! i, cv_t_end_s = stamps ! j,
      cv_duration_s = max 0 (stamps ! j - stamps ! i), cv_rows = curve_rows video selected smoothed mono (stamps ! i) height,
      cv_lookup = lookup_table v opening
        (map ((!) mono) (filter (\<lambda>k. stamps ! k \<ge> stamps ! i \<and> stamps ! k \<le> stamps ! j) [0..<length stamps]))
        (map (\<lambda>k. stamps ! k - stamps ! i) (filter (\<lambda>k. stamps ! k \<ge> stamps ! i \<and> stamps ! k \<le> stamps ! j) [0..<length stamps]))
        height grid\<rparr>"
  have "stamps \<noteq> []"
    using some by (simp add: stamps_def selected_def)
  then have run: "analyze_curve v rows video opening height grid = Inr c"
    unfolding analyze_curve_def Let_def
    unfolding rows_of_def [symmetric]
    unfolding selected_def [symmetric]
    unfolding stamps_def [symmetric]
    unfolding smoothed_def [symmetric]
    unfolding mono_def [symmetric] w c_def
    by simp
  have each: "list_all (\<lambda>r. 0 \<le> cr_position_monotonic r \<and> cr_position_monotonic r \<le> 1 \<and>
      cr_height_m r = cr_position_monotonic r * height \<and> cr_motion_time_s r = cr_time_s r - stamps ! i)
      (curve_rows video selected smoothed mono (stamps ! i) height)"
    unfolding list_all_iff using curve_rows_facts monotonic_unit mono_def by blast
  have "stamps ! i \<in> set stamps" "stamps ! j \<in> set stamps"
    using ij by simp_all
  then have "good_curve selected opening height c"
    unfolding good_curve_def c_def
    using curve_rows_maps [OF len(1), of mono video "stamps ! i" height] len(2,3) monotonic_chain [of "opening" smoothed] each order
    by (simp add: mono_def [symmetric] stamps_def [symmetric])
  with run show ?thesis
    by (auto simp: selected_def)
qed

lemma curve_empty:
  "rows_of rows video = [] \<Longrightarrow> \<exists>msg. analyze_curve v rows video opening height grid = Inl (Raised ''IndexError'' msg)"
  by (auto simp: analyze_curve_def rows_of_def [symmetric] Let_def split: prod.split)

subsection \<open>The rows of the progress\<close>

lemma dict_put_nonempty [simp]: "dict_put k v d \<noteq> []"
  by (cases "(k, v, d)" rule: dict_put.cases) simp_all

lemma in_dict_put: "(j, x) \<in> set (dict_put k v d) \<Longrightarrow> (j, x) = (k, v) \<or> (j, x) \<in> set d"
  by (induction d) (auto split: if_splits)

abbreviation seen_in :: "marker_observation list \<Rightarrow> (int \<Rightarrow> endpoints option) \<Rightarrow> string \<times> int \<Rightarrow> marker_observation set" where
  "seen_in obs eps k \<equiv> {r \<in> set obs. frame_key r = k \<and> eps (ro_marker_id r) \<noteq> None}"

text \<open>What the entry of a frame says of the observations of that frame.\<close>

definition item_ok :: "marker_observation list \<Rightarrow> (int \<Rightarrow> endpoints option) \<Rightarrow> string \<times> int \<Rightarrow> frame_progress \<Rightarrow> bool" where
  "item_ok obs eps k item \<longleftrightarrow>
     (fp_video item, fp_frame item) = k \<and> distinct (map fst (fp_marker_progress item)) \<and>
     fst ` set (fp_marker_progress item) = ro_marker_id ` seen_in obs eps k \<and>
     (\<forall>(j, x) \<in> set (fp_marker_progress item).
        \<exists>r \<in> seen_in obs eps k. ro_marker_id r = j \<and> x = marker_progress (the (eps j)) (mo_stable r))"

definition frames_ok ::
  "marker_observation list \<Rightarrow> (int \<Rightarrow> endpoints option) \<Rightarrow> ((string \<times> int) \<times> frame_progress) list \<Rightarrow> bool"
where
  "frames_ok obs eps d \<longleftrightarrow>
     distinct (map fst d) \<and> (\<forall>k. map_of d k = None \<longleftrightarrow> seen_in obs eps k = {}) \<and>
     (\<forall>k item. map_of d k = Some item \<longrightarrow> item_ok obs eps k item)"

lemma frames_distinct: "frames_ok obs eps d \<Longrightarrow> distinct (map fst d)"
  by (simp add: frames_ok_def)

lemma frames_none: "frames_ok obs eps d \<Longrightarrow> map_of d k = None \<longleftrightarrow> seen_in obs eps k = {}"
  unfolding frames_ok_def by blast

lemma frames_some: "frames_ok obs eps d \<Longrightarrow> map_of d k = Some item \<Longrightarrow> item_ok obs eps k item"
  unfolding frames_ok_def by blast

lemma seen_other: "frame_key r \<noteq> k \<or> eps (ro_marker_id r) = None \<Longrightarrow> seen_in (obs @ [r]) eps k = seen_in obs eps k"
  by auto

lemma seen_more: "frame_key r = k \<Longrightarrow> eps (ro_marker_id r) \<noteq> None \<Longrightarrow>
    seen_in (obs @ [r]) eps k = insert r (seen_in obs eps k)"
  by auto

lemma item_other: "frame_key r \<noteq> k \<or> eps (ro_marker_id r) = None \<Longrightarrow> item_ok obs eps k item \<Longrightarrow> item_ok (obs @ [r]) eps k item"
  unfolding item_ok_def by (subst (1 2) seen_other) auto

lemma entry_put:
  assumes "eps (ro_marker_id r) = Some ep" "(fp_video item, fp_frame item) = frame_key r"
    "distinct (map fst (fp_marker_progress item))"
    "fst ` set (fp_marker_progress item) = ro_marker_id ` seen_in obs eps (frame_key r)"
    "\<forall>(j, x) \<in> set (fp_marker_progress item).
        \<exists>q \<in> seen_in obs eps (frame_key r). ro_marker_id q = j \<and> x = marker_progress (the (eps j)) (mo_stable q)"
  shows "item_ok (obs @ [r]) eps (frame_key r)
      (item\<lparr>fp_marker_progress := dict_put (ro_marker_id r) (marker_progress ep (mo_stable r)) (fp_marker_progress item),
            fp_marker_centers := cs\<rparr>)"
proof -
  let ?d = "dict_put (ro_marker_id r) (marker_progress ep (mo_stable r)) (fp_marker_progress item)"
  have seen: "seen_in (obs @ [r]) eps (frame_key r) = insert r (seen_in obs eps (frame_key r))"
    using assms(1) by (intro seen_more) simp_all
  have "fst ` set ?d = insert (ro_marker_id r) (fst ` set (fp_marker_progress item))"
    unfolding set_map [symmetric] keys_dict_put by auto
  then have keys: "fst ` set ?d = ro_marker_id ` seen_in (obs @ [r]) eps (frame_key r)"
    unfolding seen assms(4) by simp
  have "\<exists>q \<in> seen_in (obs @ [r]) eps (frame_key r). ro_marker_id q = j \<and> x = marker_progress (the (eps j)) (mo_stable q)"
    if "(j, x) \<in> set ?d" for j x
    using in_dict_put [OF that] assms(1,5) unfolding seen by fastforce
  then show ?thesis
    unfolding item_ok_def using assms(2) distinct_dict_put [OF assms(3)] keys by auto
qed

lemma add_ok:
  assumes "frames_ok obs eps d"
  shows "frames_ok (obs @ [r]) eps (add_progress eps d r)"
proof (cases "eps (ro_marker_id r)")
  case None
  then show ?thesis
    using assms by (auto simp: frames_ok_def add_progress_def intro: item_other)
next
  case (Some ep)
  let ?item = "case map_of d (frame_key r) of Some item \<Rightarrow> item
      | None \<Rightarrow> \<lparr>fp_video = ro_video r, fp_frame = ro_frame r, fp_time_s = ro_time_s r, fp_marker_progress = [],
                 fp_marker_centers = []\<rparr>"
  let ?new = "?item\<lparr>fp_marker_progress := dict_put (ro_marker_id r) (marker_progress ep (mo_stable r)) (fp_marker_progress ?item),
      fp_marker_centers := dict_put (ro_marker_id r) (mo_stable r) (fp_marker_centers ?item)\<rparr>"
  have put: "add_progress eps d r = dict_put (frame_key r) ?new d"
    by (simp add: add_progress_def Some Let_def)
  have "item_ok (obs @ [r]) eps (frame_key r) ?new"
  proof (cases "map_of d (frame_key r)")
    case None
    then have "seen_in obs eps (frame_key r) = {}"
      using assms unfolding frames_ok_def by blast
    then show ?thesis
      unfolding None option.case by (intro entry_put [where eps = eps and r = r, OF Some]) (auto simp: frame_key_def)
  next
    case (Some item)
    then have "item_ok obs eps (frame_key r) item"
      using assms unfolding frames_ok_def by blast
    then show ?thesis
      unfolding Some option.case item_ok_def [of obs] by (intro entry_put [where eps = eps and r = r, OF \<open>eps (ro_marker_id r) = Some ep\<close>]) blast+
  qed
  note new = this
  have "item_ok (obs @ [r]) eps k item" if "map_of (add_progress eps d r) k = Some item" for k item
  proof (cases "frame_key r = k")
    case True
    then show ?thesis
      using that new unfolding put by simp
  next
    case False
    then have "map_of d k = Some item"
      using that by (simp add: put)
    then have "item_ok obs eps k item"
      by (rule frames_some [OF assms])
    then show ?thesis
      using False by (intro item_other) simp_all
  qed
  moreover have "map_of (add_progress eps d r) k = None \<longleftrightarrow> seen_in (obs @ [r]) eps k = {}" for k
  proof (cases "frame_key r = k")
    case True
    then show ?thesis
      unfolding put using seen_more [of r k eps obs] Some by auto
  next
    case False
    then show ?thesis
      unfolding seen_other [of r k eps obs, OF disjI1 [OF False]] using frames_none [OF assms] by (simp add: put)
  qed
  ultimately show ?thesis
    using assms by (simp add: frames_ok_def put distinct_dict_put)
qed

lemma frames_built: "frames_ok obs eps (foldl (add_progress eps) [] obs)"
  by (induction obs rule: rev_induct) (simp_all add: frames_ok_def [of "[]"] add_ok)

subsection \<open>Fractions\<close>

text \<open>A point on the straight way between the endpoints, at the fraction \<open>q\<close> from the closed one.\<close>

definition on_way :: "endpoints \<Rightarrow> rat \<Rightarrow> point \<Rightarrow> bool" where
  "on_way ep q p \<longleftrightarrow>
     p = (fst (ep_closed ep) + q * fst (ep_vector ep), snd (ep_closed ep) + q * snd (ep_vector ep))"

lemma on_way_progress: "on_way ep q p \<Longrightarrow> ep_denom ep \<noteq> 0 \<Longrightarrow> marker_progress ep p = q"
  by (simp add: on_way_def marker_progress_def minus_point_def dot_def ep_denom_def mult.assoc flip: distrib_left)

lemma endpoints_apart: "marker_endpoints obs seconds j = Some ep \<Longrightarrow> ep_denom ep \<noteq> 0"
  by (auto simp: marker_endpoints_def Let_def split: if_splits)

lemma median_constant: "xs \<noteq> [] \<Longrightarrow> \<forall>x\<in>set xs. x = q \<Longrightarrow> py_median xs = q"
proof -
  assume xs: "xs \<noteq> []" "\<forall>x\<in>set xs. x = q"
  have nth: "sort xs ! i = q" if "i < length xs" for i
    using xs(2) that by (metis length_sort nth_mem set_sort)
  have "length xs div 2 < length xs" "length xs div 2 - 1 < length xs"
    using xs(1) by (cases xs; simp)+
  then show "py_median xs = q"
    by (simp add: py_median_def Let_def nth)
qed

definition row_key :: "'a frame_progress_scheme \<Rightarrow> string \<times> int" where
  "row_key p = (fp_video p, fp_frame p)"

lemma row_of_simps [simp]:
  "row_key (progress_row_of item) = row_key item"
  "pr_progress_raw (progress_row_of item) = py_median (map snd (fp_marker_progress item))"
  "pr_visible_moving_markers (progress_row_of item) = length (fp_marker_progress item)"
  by (simp_all add: progress_row_of_def row_key_def frame_progress.defs)

lemma entry_nonempty: "item_ok obs eps k item \<Longrightarrow> seen_in obs eps k \<noteq> {} \<Longrightarrow> fp_marker_progress item \<noteq> []"
proof -
  assume "item_ok obs eps k item" and some: "seen_in obs eps k \<noteq> {}"
  then have "fst ` set (fp_marker_progress item) = ro_marker_id ` seen_in obs eps k"
    unfolding item_ok_def by blast
  moreover have "ro_marker_id ` seen_in obs eps k \<noteq> {}"
    using some by blast
  ultimately show "fp_marker_progress item \<noteq> []"
    by (cases "fp_marker_progress item") (simp_all only: list.set image_empty list.distinct not_False_eq_True)
qed

lemma entry_fraction:
  assumes "item_ok obs eps k item" "seen_in obs eps k \<noteq> {}"
    "\<forall>r \<in> seen_in obs eps k. marker_progress (the (eps (ro_marker_id r))) (mo_stable r) = q"
  shows "py_median (map snd (fp_marker_progress item)) = q"
proof (rule median_constant)
  show "map snd (fp_marker_progress item) \<noteq> []"
    using entry_nonempty [OF assms(1,2)] by simp
  show "\<forall>x \<in> set (map snd (fp_marker_progress item)). x = q"
  proof
    fix x
    assume "x \<in> set (map snd (fp_marker_progress item))"
    then obtain j where "(j, x) \<in> set (fp_marker_progress item)"
      by auto
    then obtain r where "r \<in> seen_in obs eps k" "x = marker_progress (the (eps (ro_marker_id r))) (mo_stable r)"
      using assms(1) unfolding item_ok_def by blast
    then show "x = q"
      using assms(3) by blast
  qed
qed

lemma entry_count: "item_ok obs eps k item \<Longrightarrow>
    length (fp_marker_progress item) = card (ro_marker_id ` seen_in obs eps k)"
  unfolding item_ok_def by (metis distinct_card length_map list.set_map)

definition progress_items :: "marker_observation list \<Rightarrow> rat \<Rightarrow> frame_progress list" where
  "progress_items obs seconds = sort_key row_key (map snd (foldl (add_progress (marker_endpoints obs seconds)) [] obs))"

text \<open>The items in the order of their keys: one for each frame in which a marker with endpoints was seen.\<close>

lemma items_facts:
  fixes obs seconds
  defines "eps \<equiv> marker_endpoints obs seconds"
  shows "item \<in> set (progress_items obs seconds) \<Longrightarrow> item_ok obs eps (row_key item) item \<and> seen_in obs eps (row_key item) \<noteq> {}"
    and "set (map row_key (progress_items obs seconds)) = {k. seen_in obs eps k \<noteq> {}}"
    and "sorted_wrt (<) (map row_key (progress_items obs seconds))"
proof -
  define d where "d = foldl (add_progress eps) [] obs"
  have ok: "frames_ok obs eps d"
    unfolding d_def by (rule frames_built)
  have keys: "row_key item = k" if "(k, item) \<in> set d" for k item
  proof -
    have "map_of d k = Some item"
      using frames_distinct [OF ok] that by simp
    from frames_some [OF ok this] show ?thesis
      by (simp add: item_ok_def row_key_def)
  qed
  then have same: "map row_key (map snd d) = map fst d"
    by (auto simp: map_eq_conv)
  have items: "progress_items obs seconds = sort_key row_key (map snd d)"
    by (simp add: progress_items_def d_def eps_def)
  show "item_ok obs eps (row_key item) item \<and> seen_in obs eps (row_key item) \<noteq> {}"
    if "item \<in> set (progress_items obs seconds)" for item
  proof -
    obtain k where k: "(k, item) \<in> set d"
      using \<open>item \<in> _\<close> by (auto simp: items)
    then have "map_of d k = Some item"
      using frames_distinct [OF ok] by simp
    then show ?thesis
      using frames_some [OF ok] frames_none [OF ok, of k] keys [OF k] by simp
  qed
  have "set (map row_key (progress_items obs seconds)) = set (map fst d)"
    unfolding items same [symmetric] by (simp add: image_image)
  also have "\<dots> = {k. seen_in obs eps k \<noteq> {}}"
    using frames_none [OF ok] by (auto simp: dom_map_of_conv_image_fst [symmetric] dom_def)
  finally show "set (map row_key (progress_items obs seconds)) = {k. seen_in obs eps k \<noteq> {}}" .
  have "distinct (map row_key (progress_items obs seconds))"
  proof -
    have "mset (map row_key (progress_items obs seconds)) = mset (map fst d)"
      unfolding items same [symmetric] mset_map mset_sort by simp
    then show ?thesis
      using frames_distinct [OF ok] by (metis mset_eq_imp_distinct_iff)
  qed
  moreover have "sorted (map row_key (progress_items obs seconds))"
    by (simp add: items)
  ultimately show "sorted_wrt (<) (map row_key (progress_items obs seconds))"
    by (simp add: strict_sorted_iff)
qed

lemma compute_rows: "compute_progress obs seconds = map progress_row_of (progress_items obs seconds)"
proof -
  have "filter (\<lambda>item. fp_marker_progress item \<noteq> []) (progress_items obs seconds) = progress_items obs seconds"
    unfolding filter_id_conv using items_facts(1) [of _ obs seconds] entry_nonempty by blast
  then show ?thesis
    by (simp add: compute_progress_def progress_items_def row_key_def [abs_def] Let_def)
qed

text \<open>C27: The progress of a video has one row for each frame in which a marker with known endpoints was seen, in the order of
  the videos and frames; and when every such marker of a frame lies at one and the same fraction of the straight way
  from its closed to its open endpoint, that fraction is the progress of the row.\<close>

theorem progress_of_frames:
  fixes obs :: "marker_observation list" and seconds :: rat
  defines "eps \<equiv> marker_endpoints obs seconds"
  shows "sorted_wrt (<) (map row_key (compute_progress obs seconds)) \<and>
    set (map row_key (compute_progress obs seconds)) = frame_key ` {r \<in> set obs. eps (ro_marker_id r) \<noteq> None} \<and>
    (\<forall>p \<in> set (compute_progress obs seconds). \<forall>q.
       (\<forall>r \<in> seen_in obs eps (row_key p). on_way (the (eps (ro_marker_id r))) q (mo_stable r)) \<longrightarrow>
       pr_progress_raw p = q \<and> pr_visible_moving_markers p = card (ro_marker_id ` seen_in obs eps (row_key p)))"
proof (intro conjI ballI allI impI)
  have keys: "map row_key (compute_progress obs seconds) = map row_key (progress_items obs seconds)"
    by (simp add: compute_rows)
  show "sorted_wrt (<) (map row_key (compute_progress obs seconds))"
    unfolding keys by (rule items_facts)
  show "set (map row_key (compute_progress obs seconds)) = frame_key ` {r \<in> set obs. eps (ro_marker_id r) \<noteq> None}"
    unfolding keys items_facts(2) eps_def by blast
  fix p q
  assume p: "p \<in> set (compute_progress obs seconds)"
    and way: "\<forall>r \<in> seen_in obs eps (row_key p). on_way (the (eps (ro_marker_id r))) q (mo_stable r)"
  obtain item where item: "item \<in> set (progress_items obs seconds)" "p = progress_row_of item"
    using p by (auto simp: compute_rows)
  note ok = items_facts(1) [OF item(1), folded eps_def]
  have "marker_progress (the (eps (ro_marker_id r))) (mo_stable r) = q" if "r \<in> seen_in obs eps (row_key item)" for r
    using way that endpoints_apart [of obs seconds] by (auto simp: item(2) eps_def intro!: on_way_progress)
  then show "pr_progress_raw p = q"
    using entry_fraction [of obs eps "row_key item" item q] ok by (simp add: item(2))
  show "pr_visible_moving_markers p = card (ro_marker_id ` seen_in obs eps (row_key p))"
    using entry_count ok by (simp add: item(2))
qed

text \<open>A door seen closed, half open and open.\<close>

definition sample_seen :: "string \<Rightarrow> int \<Rightarrow> rat \<Rightarrow> rat \<Rightarrow> marker_observation" where
  "sample_seen video frame t y =
     \<lparr>ro_video = video, ro_frame = frame, ro_time_s = t, ro_marker_id = 10, ro_center = (0, y), ro_side_px = 1, mo_stable = (0, y)\<rparr>"

lemma sample_seen_simps [simp]:
  "ro_video (sample_seen v f t y) = v" "ro_marker_id (sample_seen v f t y) = 10" "ro_time_s (sample_seen v f t y) = t"
  "mo_stable (sample_seen v f t y) = (0, y)" "ro_frame (sample_seen v f t y) = f"
  by (simp_all add: sample_seen_def)

definition sample_obs :: "marker_observation list" where
  "sample_obs =
     [sample_seen ''opening'' 0 0 0, sample_seen ''opening'' 1 0 0, sample_seen ''opening'' 2 0 0,
      sample_seen ''opening'' 3 1 5,
      sample_seen ''opening'' 4 2 10, sample_seen ''opening'' 5 2 10, sample_seen ''opening'' 6 2 10,
      sample_seen ''closing'' 0 0 10, sample_seen ''closing'' 1 0 10, sample_seen ''closing'' 2 0 10,
      sample_seen ''closing'' 4 2 0, sample_seen ''closing'' 5 2 0, sample_seen ''closing'' 6 2 0]"

lemma sample_centers:
  "endpoint_center sample_obs ''opening'' 10 True 0 = Some (0, 0)"
  "endpoint_center sample_obs ''closing'' 10 False 0 = Some (0, 0)"
  "endpoint_center sample_obs ''closing'' 10 True 0 = Some (0, 10)"
  "endpoint_center sample_obs ''opening'' 10 False 0 = Some (0, 10)"
  by (simp_all add: endpoint_center_def endpoint_rows_def sample_obs_def Let_def median_point_def py_median_def)

lemma sample_endpoints: "marker_endpoints sample_obs 0 10 = Some \<lparr>ep_closed = (0, 0), ep_open = (0, 10)\<rparr>"
  by (simp add: marker_endpoints_def sample_centers given_points_def List.map_filter_def mean_point_def mean_def MOVING_IDS_def
      ep_denom_def ep_vector_def minus_point_def dot_def Let_def)

theorem progress_of_frames_witness:
  "\<exists>p \<in> set (compute_progress sample_obs 0). row_key p = (''opening'', 3) \<and> pr_progress_raw p = 1 / 2"
proof -
  let ?eps = "marker_endpoints sample_obs 0"
  note facts = progress_of_frames [of sample_obs 0]
  have half: "sample_seen ''opening'' 3 1 5 \<in> set sample_obs"
    by (simp add: sample_obs_def)
  have "(''opening'', 3) \<in> frame_key ` {r \<in> set sample_obs. ?eps (ro_marker_id r) \<noteq> None}"
    by (rule image_eqI [where x = "sample_seen ''opening'' 3 1 5"]) (simp_all add: frame_key_def sample_endpoints half)
  then have "(''opening'', 3) \<in> set (map row_key (compute_progress sample_obs 0))"
    using conjunct1 [OF conjunct2 [OF facts]] by simp
  then obtain p where p: "p \<in> set (compute_progress sample_obs 0)" "row_key p = (''opening'', 3)"
    by (auto simp del: set_sort)
  have seen: "mo_stable r = (0, 5)" "ro_marker_id r = 10" if "r \<in> seen_in sample_obs ?eps (''opening'', 3)" for r
    using that by (auto simp: sample_obs_def frame_key_def)
  have way: "on_way (the (?eps (ro_marker_id r))) (1 / 2) (mo_stable r)" if "r \<in> seen_in sample_obs ?eps (row_key p)" for r
    unfolding seen [OF that [unfolded p(2)]] by (simp add: sample_endpoints on_way_def ep_vector_def minus_point_def)
  then have "pr_progress_raw p = 1 / 2"
    using conjunct2 [OF conjunct2 [OF facts]] p(1) by blast
  then show ?thesis
    using p by blast
qed

text \<open>C26: A timing curve of a video with at least one row: it has the rows' frames and positions in the order of time, monotonic positions between closed
  and open that only rise for the opening door and only fall for the closing one, heights in proportion, and a motion from
  one of the times to a time that is not earlier.  Without a row the tool fails with an index error.\<close>

theorem curve_of_video:
  assumes "\<And>xs. length (vi_argsort v xs) = length xs"
  shows "case analyze_curve v rows video opening height grid of
      Inr c \<Rightarrow> rows_of rows video \<noteq> [] \<and> good_curve (rows_of rows video) opening height c
    | Inl e \<Rightarrow> rows_of rows video = [] \<and> (\<exists>msg. e = Raised ''IndexError'' msg)"
proof (cases "rows_of rows video = []")
  case True
  then show ?thesis
    using curve_empty [OF True, of v "opening" height grid] by auto
next
  case False
  then show ?thesis
    using curve_shape [of v, OF assms False, of "opening" height grid] by auto
qed

definition sample_vision :: vision where
  "sample_vision =
     \<lparr>vi_norm = \<lambda>_. 1, vi_median = py_median, vi_argsort = \<lambda>xs. [0..<length xs], vi_interp = \<lambda>x xp fp. hd fp,
      vi_affine = \<lambda>_ _. None\<rparr>"

definition sample_row :: "int \<Rightarrow> rat \<Rightarrow> rat \<Rightarrow> progress_row" where
  "sample_row frame t x =
     \<lparr>fp_video = ''opening'', fp_frame = frame, fp_time_s = t, fp_marker_progress = [(10, x)], fp_marker_centers = [],
      pr_progress_raw = x, pr_visible_moving_markers = 1\<rparr>"

theorem curve_of_video_witness:
  "\<exists>c. analyze_curve sample_vision [sample_row 0 0 0, sample_row 1 1 1] ''opening'' True 2 [0, 100] = Inr c \<and>
     good_curve (rows_of [sample_row 0 0 0, sample_row 1 1 1] ''opening'') True 2 c"
proof -
  have "rows_of [sample_row 0 0 0, sample_row 1 1 1] ''opening'' \<noteq> []"
    by (simp add: rows_of_def sample_row_def)
  then show ?thesis
    using curve_of_video [of sample_vision "[sample_row 0 0 0, sample_row 1 1 1]" "''opening''" True 2 "[0, 100]"]
    by (auto simp: sample_vision_def split: sum.splits)
qed

end
