(* ===== verification/Hil_La_Files.thy ===== *)
theory Hil_La_Files
  imports Hil_La_Report Hil_Health Py_Float Py_Text
begin

text \<open>
  \<open>tools/hcp2_hil_la.py\<close>, captures as files and the commands: the CSV reader of Python's default dialect, the two forms of CSV
  (with a time column, and as sigrok writes it), JSON, and the subcommands with their exit codes.  What \<open>json.load\<close> makes of
  a text, and the decompression of a \<open>.gz\<close> file, are given.
\<close>

subsection \<open>CSV\<close>

datatype csv_state = Start_Record | Start_Field | In_Field | In_Quoted | Quote_Seen | After_CR

text \<open>\<open>csv.reader\<close>: the field and the record read so far, the latest first.\<close>

fun csv_scan :: "csv_state \<Rightarrow> string \<Rightarrow> string list \<Rightarrow> string \<Rightarrow> string list list" where
  "csv_scan st f r [] =
     (case st of
        Start_Record \<Rightarrow> []
      | After_CR \<Rightarrow> []
      | _ \<Rightarrow> [rev (rev f # r)])"
| "csv_scan st f r (c # cs) =
     (if st = After_CR \<and> c = CHR 0x0A then csv_scan Start_Record [] [] cs
      else if st = In_Quoted then
        (if c = CHR 0x22 then csv_scan Quote_Seen f r cs else csv_scan In_Quoted (c # f) r cs)
      else if st = Quote_Seen \<and> c = CHR 0x22 then csv_scan In_Quoted (c # f) r cs
      else if c = CHR 0x0A \<or> c = CHR 0x0D then
        (if st = Start_Record \<or> st = After_CR then [] else rev (rev f # r)) #
          csv_scan (if c = CHR 0x0D then After_CR else Start_Record) [] [] cs
      else if c = CHR 0x22 \<and> st \<noteq> In_Field \<and> st \<noteq> Quote_Seen then csv_scan In_Quoted [] r cs
      else if c = CHR '','' then csv_scan Start_Field [] (rev f # r) cs
      else csv_scan In_Field (c # f) r cs)"

definition csv_rows :: "string \<Rightarrow> string list list" where
  "csv_rows t = csv_scan Start_Record [] [] t"

text \<open>The lines of a file opened with \<open>newline=""\<close>, with their ends.\<close>

fun raw_lines :: "string \<Rightarrow> string \<Rightarrow> string list" where
  "raw_lines acc [] = (if acc = [] then [] else [rev acc])"
| "raw_lines acc (c # cs) =
     (if c = CHR 0x0A then rev (c # acc) # raw_lines [] cs
      else if c = CHR 0x0D \<and> (cs = [] \<or> hd cs \<noteq> CHR 0x0A) then rev (c # acc) # raw_lines [] cs
      else raw_lines (c # acc) cs)"

text \<open>The comments before the first line with contents, and the text from that line on.\<close>

fun skip_comments :: "string list \<Rightarrow> string list \<times> string list" where
  "skip_comments [] = ([], [])"
| "skip_comments (l # ls) =
     (if py_startswith '';'' l then (case skip_comments ls of (comments, rest) \<Rightarrow> (py_strip l # comments, rest))
      else if py_strip l = [] then skip_comments ls
      else ([], l # ls))"

text \<open>\<open>DictReader\<close>: blank rows are skipped, a short row lacks the fields at its end.\<close>

definition dict_row :: "string list \<Rightarrow> string list \<Rightarrow> (string \<times> string option) list" where
  "dict_row fieldnames row =
     foldl (\<lambda>d (k, v). dict_put k v d) []
       (zip fieldnames (map Some row @ replicate (length fieldnames - length row) None))"

definition dict_rows :: "string list \<Rightarrow> string list list \<Rightarrow> (string \<times> string option) list list" where
  "dict_rows fieldnames rows = map (dict_row fieldnames) (filter (\<lambda>r. r \<noteq> []) rows)"

subsection \<open>Times and rates\<close>

definition lift_result :: "('a \<Rightarrow> 'b) \<Rightarrow> 'a result \<Rightarrow> 'b result" where
  "lift_result f r = and_then r (\<lambda>x. Inr (f x))"

text \<open>A time that is not finite is outside the model of the samples.\<close>

definition time_value :: "string \<Rightarrow> rat \<Rightarrow> rat result" where
  "time_value t unit_divisor =
     (case py_float t of
        None \<Rightarrow> Inl (ValueError (''could not convert string to float: '' @ py_repr t))
      | Some (Finite x) \<Rightarrow> Inr (x / unit_divisor)
      | Some _ \<Rightarrow> Inl (Raised ''NotFinite'' t))"

definition parse_time_s :: "string \<Rightarrow> rat result" where
  "parse_time_s value =
     (let t = py_strip value; low = py_lower t
      in if py_endswith ''us'' low then time_value (take (length t - 2) t) 1000000
         else if py_endswith ''ms'' low then time_value (take (length t - 2) t) 1000
         else if py_endswith ''s'' low then time_value (take (length t - 1) t) 1
         else time_value t 1)"

text \<open>\<open>[0-9]+(?:\.[0-9]+)?\<close>.\<close>

definition plain_decimal :: "string \<Rightarrow> rat option" where
  "plain_decimal t =
     (let whole = takeWhile (\<lambda>c. c \<noteq> CHR ''.'') t; point = dropWhile (\<lambda>c. c \<noteq> CHR ''.'') t
      in if whole = [] then None
         else case (digits_value 0 whole, if point = [] then Some 0 else if length point = 1 then None else digits_value 0 (tl point)) of
           (Some a, Some b) \<Rightarrow> Some (of_nat a + of_nat b / 10 ^ (length point - 1))
         | _ \<Rightarrow> None)"

definition parse_sample_rate_hz :: "string \<Rightarrow> rat result" where
  "parse_sample_rate_hz t =
     (let low = py_lower (py_strip t);
          (number, multiplier) =
            (if py_endswith ''khz'' low then (take (length low - 3) low, 1000)
             else if py_endswith ''mhz'' low then (take (length low - 3) low, 1000000)
             else if py_endswith ''ghz'' low then (take (length low - 3) low, 1000000000)
             else if py_endswith ''hz'' low then (take (length low - 2) low, 1)
             else ([], 1))
      in case plain_decimal (py_trim_end number) of
        None \<Rightarrow> Inl (ValueError (''invalid sigrok samplerate '' @ py_repr t))
      | Some x \<Rightarrow> Inr (x * multiplier))"

text \<open>The channels and the rate found in the comments so far; \<open>split(":", 1)\<close> of a text without a colon fails.\<close>

definition after_colon :: "string \<Rightarrow> string result" where
  "after_colon t =
     (if CHR '':'' \<in> set t then Inr (snd (py_split1 CHR '':'' t))
      else Inl (ValueError ''not enough values to unpack (expected 2, got 1)''))"

fun metadata_of :: "string list \<Rightarrow> string list option \<Rightarrow> rat option \<Rightarrow> (string list option \<times> rat option) result" where
  "metadata_of [] channels rate = Inr (channels, rate)"
| "metadata_of (line # lines) channels rate =
     (let t = py_strip line; normalized = py_lower t
      in if py_startswith ''; channels'' normalized then
           and_then (after_colon t) (\<lambda>payload.
             metadata_of lines (Some (filter (\<lambda>x. x \<noteq> []) (map py_strip (py_split CHR '','' payload)))) rate)
         else if py_startswith ''; samplerate'' normalized then
           and_then (after_colon t) (\<lambda>payload.
             and_then (parse_sample_rate_hz payload) (\<lambda>hz. metadata_of lines channels (Some hz)))
         else metadata_of lines channels rate)"

definition sigrok_metadata :: "string list \<Rightarrow> (string list \<times> rat) option result" where
  "sigrok_metadata comments =
     and_then (metadata_of comments None None) (\<lambda>(channels, rate).
       if channels = None \<and> rate = None then Inr None
       else case channels of
         None \<Rightarrow> Inl (ValueError ''sigrok CSV is missing channel metadata'')
       | Some [] \<Rightarrow> Inl (ValueError ''sigrok CSV is missing channel metadata'')
       | Some names \<Rightarrow>
           (case rate of
              None \<Rightarrow> Inl (ValueError ''sigrok CSV is missing samplerate metadata'')
            | Some hz \<Rightarrow> if hz \<le> 0 then Inl (ValueError ''sigrok CSV is missing samplerate metadata'') else Inr (Some (names, hz))))"

subsection \<open>Loading\<close>

text \<open>The channel map with its order, which the capture command prints.\<close>

fun channel_items :: "string list \<Rightarrow> (string \<times> string) list \<Rightarrow> (string \<times> string) list result" where
  "channel_items [] m = Inr m"
| "channel_items (item # items) m =
     (if py_strip item = [] then channel_items items m
      else if CHR ''='' \<notin> set item then Inl (ValueError (''channel mapping must be name=source, got '' @ item))
      else case py_split1 CHR ''='' item of
        (name, source) \<Rightarrow>
          let normalized_name = normalize_channel_name name
          in if normalized_name \<notin> {''de'', ''re'', ''tx'', ''rx''}
             then Inl (ValueError (''unknown logical channel '' @ name))
             else channel_items items (dict_put normalized_name (py_strip source) m))"

definition channel_pairs :: "string \<Rightarrow> (string \<times> string) list result" where
  "channel_pairs txt = (if txt = [] then Inr DEFAULT_CHANNELS else channel_items (py_split CHR '','' txt) [])"

text \<open>\<open>normalized_fields\<close>: the last field with a normalized name.\<close>

definition field_named :: "string list \<Rightarrow> string \<Rightarrow> string option" where
  "field_named fieldnames name = find (\<lambda>f. normalize_channel_name f = name) (rev fieldnames)"

definition source_fields :: "string list \<Rightarrow> (string \<times> string) list \<Rightarrow> (string \<times> string) list" where
  "source_fields fieldnames channels =
     List.map_filter (\<lambda>(logical, source).
       case field_named fieldnames (normalize_channel_name source) of
         Some f \<Rightarrow> Some (logical, f)
       | None \<Rightarrow> map_option (Pair logical) (field_named fieldnames logical)) channels"

text \<open>\<open>row.get(source_field, "")\<close>: an empty cell is no value; a missing one is \<open>None\<close>, whose text is no level.\<close>

fun table_values :: "(string \<times> string) list \<Rightarrow> (string \<times> string option) list \<Rightarrow> (string \<rightharpoonup> int) \<Rightarrow> (string \<rightharpoonup> int) result" where
  "table_values [] row vals = Inr vals"
| "table_values ((logical, f) # sources) row vals =
     (case map_of row f of
        None \<Rightarrow> table_values sources row vals
      | Some cell \<Rightarrow>
          if cell = Some [] then table_values sources row vals
          else and_then (parse_logic_value (LV_Text (case cell of Some t \<Rightarrow> t | None \<Rightarrow> ''None''))) (\<lambda>v.
            table_values sources row (vals(logical \<mapsto> v))))"

definition table_sample :: "string \<Rightarrow> (string \<times> string) list \<Rightarrow> (string \<times> string option) list \<Rightarrow> la_sample result" where
  "table_sample time_field sources row =
     and_then (table_values sources row Map.empty) (\<lambda>vals.
       lift_result (\<lambda>x. \<lparr>sm_time = x, sm_values = vals\<rparr>)
         (parse_time_s (case map_of row time_field of Some (Some t) \<Rightarrow> t | _ \<Rightarrow> ''None'')))"

fun all_results :: "('a \<Rightarrow> 'b result) \<Rightarrow> 'a list \<Rightarrow> 'b list result" where
  "all_results f [] = Inr []"
| "all_results f (x # xs) = and_then (f x) (\<lambda>y. lift_result ((#) y) (all_results f xs))"

text \<open>The sigrok form reads its first line once more; a first row that a quoted newline spreads over lines is left out.\<close>

definition load_samples_csv :: "string \<Rightarrow> (string \<times> string) list \<Rightarrow> la_sample list result" where
  "load_samples_csv t channels =
     (case skip_comments (raw_lines [] t) of
        (comments, []) \<Rightarrow> Inl (ValueError ''has no CSV header'')
      | (comments, lines) \<Rightarrow>
          (case csv_rows (concat lines) of
             [] \<Rightarrow> Inl (ValueError ''has no CSV header'')
           | fieldnames # rows \<Rightarrow>
               (case field_named fieldnames ''time_s'' of
                  None \<Rightarrow>
                    and_then (sigrok_metadata comments) (\<lambda>metadata.
                      case metadata of
                        None \<Rightarrow> Inl (ValueError ''CSV has no time column and no sigrok samplerate metadata'')
                      | Some (raw_channels, hz) \<Rightarrow> load_sigrok_csv_samples raw_channels hz channels (fieldnames # rows))
                | Some time_field \<Rightarrow>
                    all_results (table_sample time_field (source_fields fieldnames channels)) (dict_rows fieldnames rows))))"

definition first_given :: "jobj \<Rightarrow> string list \<Rightarrow> jval" where
  "first_given item names =
     (case List.map_filter (map_of item) names of [] \<Rightarrow> JNull | v # _ \<Rightarrow> v)"

text \<open>\<open>str(value)\<close> of a list or an object begins with a bracket: it is no level and no time.\<close>

definition json_level :: "jval \<Rightarrow> int result" where
  "json_level v =
     (case v of
        JBool b \<Rightarrow> parse_logic_value (LV_Bool b)
      | JInt n \<Rightarrow> parse_logic_value (LV_Number (of_int n))
      | JFloat x \<Rightarrow> parse_logic_value (LV_Number x)
      | JStr t \<Rightarrow> parse_logic_value (LV_Text t)
      | _ \<Rightarrow> Inl (ValueError ''invalid logic value''))"

definition json_time :: "jval \<Rightarrow> rat result" where
  "json_time v =
     (case v of
        JInt n \<Rightarrow> Inr (of_int n)
      | JFloat x \<Rightarrow> Inr x
      | JStr t \<Rightarrow> parse_time_s t
      | JBool b \<Rightarrow> parse_time_s (if b then ''True'' else ''False'')
      | _ \<Rightarrow> Inl (ValueError ''could not convert string to float''))"

fun json_values :: "(string \<times> string) list \<Rightarrow> jobj \<Rightarrow> (string \<rightharpoonup> int) \<Rightarrow> (string \<rightharpoonup> int) result" where
  "json_values [] item vals = Inr vals"
| "json_values ((logical, source) # channels) item vals =
     (let raw = first_given item [source, logical]
      in if raw = JNull then json_values channels item vals
         else and_then (json_level raw) (\<lambda>v. json_values channels item (vals(logical \<mapsto> v))))"

definition json_sample :: "(string \<times> string) list \<Rightarrow> jval \<Rightarrow> la_sample result" where
  "json_sample channels item =
     (case item of
        JObj d \<Rightarrow>
          let time_value = first_given d [''time_s'', ''time'', ''t'']
          in if time_value = JNull then Inl (ValueError ''JSON sample missing time_s'')
             else and_then (json_values channels d Map.empty) (\<lambda>vals.
               lift_result (\<lambda>x. \<lparr>sm_time = x, sm_values = vals\<rparr>) (json_time time_value))
      | _ \<Rightarrow> Inl (ValueError ''JSON samples must be objects''))"

definition load_samples_json :: "(string \<Rightarrow> jval option) \<Rightarrow> string \<Rightarrow> (string \<times> string) list \<Rightarrow> la_sample list result" where
  "load_samples_json loads t channels =
     (case loads t of
        None \<Rightarrow> Inl (Raised ''JSONDecodeError'' t)
      | Some payload \<Rightarrow>
          (case (case payload of JObj d \<Rightarrow> first_given d [''samples''] | v \<Rightarrow> v) of
             JList raw_samples \<Rightarrow> all_results (json_sample channels) raw_samples
           | _ \<Rightarrow> Inl (ValueError ''JSON must be a list or contain a samples list'')))"

text \<open>\<open>path.suffixes\<close> and \<open>path.suffix\<close> of a name, and the suffix that decides: the one before \<open>.gz\<close>.\<close>

definition path_suffixes :: "string \<Rightarrow> string list" where
  "path_suffixes name =
     (if py_endswith ''.'' name then []
      else map ((#) CHR ''.'') (tl (py_split CHR ''.'' (dropWhile (\<lambda>c. c = CHR ''.'') name))))"

definition path_suffix :: "string \<Rightarrow> string" where
  "path_suffix name =
     (let after = takeWhile (\<lambda>c. c \<noteq> CHR ''.'') (rev name)
      in if after = [] \<or> length after + 1 \<ge> length name then [] else CHR ''.'' # rev after)"

definition samples_suffix :: "string \<Rightarrow> string" where
  "samples_suffix name =
     (let suffixes = map py_lower (path_suffixes name)
      in if suffixes \<noteq> [] \<and> last suffixes = ''.gz'' \<and> length suffixes \<ge> 2 then suffixes ! (length suffixes - 2)
         else py_lower (path_suffix name))"

text \<open>A file is its name and its text.\<close>

definition load_samples :: "(string \<Rightarrow> jval option) \<Rightarrow> string \<times> string \<Rightarrow> (string \<times> string) list \<Rightarrow> la_sample list result" where
  "load_samples loads file channels =
     and_then
       (if samples_suffix (fst file) = ''.json'' then load_samples_json loads (snd file) channels
        else load_samples_csv (snd file) channels)
       finish_load"

subsection \<open>Commands\<close>

record la_args =
  la_input :: "string \<times> string"
  la_channels :: string
  la_electrical :: electrical_options
  la_ignore_before_us :: rat
  la_signal :: string
  la_gate :: string
  la_request_signal :: string
  la_baud :: int
  la_allow_status_gaps :: bool
  la_min_status_frames :: int

text \<open>The channel map is read before the \<open>try\<close>; any exception after it gives the exit code 1 and no report.\<close>

definition with_samples ::
  "(string \<Rightarrow> jval option) \<Rightarrow> la_args \<Rightarrow> (la_sample list \<Rightarrow> 'r result) \<Rightarrow> ('r \<Rightarrow> bool) \<Rightarrow> (int \<times> 'r option) result"
where
  "with_samples loads a report good =
     and_then (channel_pairs (la_channels a)) (\<lambda>channels.
       case and_then (load_samples loads (la_input a) channels) report of
         Inl _ \<Rightarrow> Inr (1, None)
       | Inr r \<Rightarrow> Inr (if good r then 0 else 1, Some r))"

definition cmd_analyze :: "(string \<Rightarrow> jval option) \<Rightarrow> la_args \<Rightarrow> (int \<times> electrical_report option) result" where
  "cmd_analyze loads a =
     with_samples loads a (\<lambda>samples. analyze_samples (la_electrical a) samples (la_ignore_before_us a))
       (\<lambda>r. er_verdict r = ''ok'')"

definition uart_report :: "la_args \<Rightarrow> la_sample list \<Rightarrow> uart_summary result" where
  "uart_report a samples =
     and_then (crop_samples samples (la_ignore_before_us a)) (\<lambda>cropped.
     and_then (decode_uart_windows samples (la_signal a) (la_gate a) (la_baud a) (la_ignore_before_us a)) (\<lambda>windows.
       Inr (apply_uart_sampling_check (summarize_decoded_uart windows (la_allow_status_gaps a) (la_min_status_frames a))
         cropped (la_baud a))))"

definition cmd_decode_uart :: "(string \<Rightarrow> jval option) \<Rightarrow> la_args \<Rightarrow> (int \<times> uart_summary option) result" where
  "cmd_decode_uart loads a = with_samples loads a (uart_report a) (\<lambda>r. us_verdict r = ''ok'')"

definition cmd_verify :: "(string \<Rightarrow> jval option) \<Rightarrow> la_args \<Rightarrow> (int \<times> verify_report option) result" where
  "cmd_verify loads a =
     with_samples loads a
       (\<lambda>samples. verify_samples (la_electrical a) samples (la_ignore_before_us a) (la_signal a) (la_gate a) (la_baud a)
          (la_allow_status_gaps a) (la_min_status_frames a))
       (\<lambda>r. vr_verdict r = ''ok'')"

definition cmd_latency :: "(string \<Rightarrow> jval option) \<Rightarrow> la_args \<Rightarrow> (int \<times> latency_report option) result" where
  "cmd_latency loads a =
     with_samples loads a
       (\<lambda>samples. summarize_response_latencies samples (la_baud a) (la_ignore_before_us a) (la_signal a) (la_gate a)
          (la_request_signal a))
       (\<lambda>r. lr_verdict r \<in> {''ok'', ''not-run''})"

record sigrok_args =
  cc_sigrok_cli :: string
  cc_driver :: string
  cc_samplerate :: string
  cc_duration :: string
  cc_map :: string
  cc_output :: string
  cc_output_format :: string
  cc_dry :: bool

definition build_sigrok_capture_command :: "sigrok_args \<Rightarrow> string list result" where
  "build_sigrok_capture_command a =
     lift_result (\<lambda>channels.
       [cc_sigrok_cli a, ''--driver'', cc_driver a, ''--config'', ''samplerate='' @ cc_samplerate a, ''--channels'',
        py_join '','' (map snd channels), ''--time'', cc_duration a, ''--output-file'', cc_output a] @
       (if cc_output_format a \<noteq> [] then [''--output-format'', cc_output_format a] else []))
       (channel_pairs (cc_map a))"

text \<open>Whether the program is installed, and the exit code of its run, are given.  \<open>check=True\<close> raises for a failed run.\<close>

definition cmd_capture :: "bool \<Rightarrow> (string list \<Rightarrow> int) \<Rightarrow> sigrok_args \<Rightarrow> int result" where
  "cmd_capture installed run a =
     and_then (build_sigrok_capture_command a) (\<lambda>command.
       if cc_dry a then Inr 0
       else if \<not> installed then Inr 1
       else if run command = 0 then Inr 0
       else Inl (Raised ''CalledProcessError'' []))"

end
