(* ===== verification/Hil_La_Files_Props.thy ===== *)
theory Hil_La_Files_Props
  imports Hil_La_Files
begin

text \<open>
  A capture as sigrok writes it, with its channels and its rate in comments, is loaded as the samples it shows.
\<close>

subsection \<open>The text of a capture\<close>

abbreviation newline :: char where
  "newline \<equiv> CHR 0x0A"

definition level_text :: "bool \<Rightarrow> string" where
  "level_text b = (if b then ''1'' else ''0'')"

definition level_row :: "bool list \<Rightarrow> string" where
  "level_row row = py_join '','' (map level_text row)"

definition clean_line :: "string \<Rightarrow> bool" where
  "clean_line l \<longleftrightarrow> newline \<notin> set l \<and> CHR 0x0D \<notin> set l"

lemma raw_line: "clean_line l \<Longrightarrow> raw_lines acc (l @ newline # cs) = (rev acc @ l @ [newline]) # raw_lines [] cs"
  by (induction l arbitrary: acc) (auto simp: clean_line_def)

lemma raw_file: "\<forall>l \<in> set ls. clean_line l \<Longrightarrow> raw_lines [] (unlines ls) = map (\<lambda>l. l @ [newline]) ls"
  by (induction ls) (simp_all add: unlines_def raw_line)

lemma level_row_Nil: "level_row [] = []"
  by (simp add: level_row_def py_join_def)

lemma level_row_Cons:
  "level_row (b # row) = level_text b @ (if row = [] then [] else CHR '','' # level_row row)"
  by (cases row) (simp_all add: level_row_def py_join_def)

lemma row_chars: "set (level_row row) \<subseteq> set ''01,''"
  by (induction row) (auto simp: level_row_Nil level_row_Cons level_text_def)

lemma row_clean: "clean_line (level_row row)"
  using row_chars [of row] by (auto simp: clean_line_def)

subsection \<open>Reading rows\<close>

lemma scan_row:
  "row \<noteq> [] \<Longrightarrow> st \<in> {Start_Record, Start_Field} \<Longrightarrow>
    csv_scan st [] acc (level_row row @ newline # cs) = (rev acc @ map level_text row) # csv_scan Start_Record [] [] cs"
proof (induction row arbitrary: st acc)
  case (Cons b row)
  show ?case
  proof (cases "row = []")
    case True
    then show ?thesis
      using Cons.prems(2) by (auto simp: level_row_Cons level_text_def)
  next
    case False
    have "csv_scan st [] acc (level_row (b # row) @ newline # cs) =
        csv_scan Start_Field [] (level_text b # acc) (level_row row @ newline # cs)"
      using False Cons.prems(2) by (auto simp: level_row_Cons level_text_def)
    then show ?thesis
      using Cons.IH [OF False, of Start_Field "level_text b # acc"] by simp
  qed
qed simp

lemma scan_file: "\<forall>row \<in> set rows. row \<noteq> [] \<Longrightarrow> csv_rows (unlines (map level_row rows)) = map (map level_text) rows"
  by (induction rows) (simp_all add: csv_rows_def unlines_def scan_row)

lemma level_value: "parse_logic_value (LV_Text (level_text b)) = Inr (of_bool b)"
  by (simp add: level_text_def parse_logic_value_def py_strip_def py_lstrip_def py_space_def py_lower_def lower_char_def Let_def)

lemma no_skip: "row \<noteq> [] \<Longrightarrow> \<not> skip_row (map level_text row)"
  by (cases row)
    (auto simp: skip_row_def level_text_def py_upper_def upper_char_def py_lower_def lower_char_def py_strip_def py_lstrip_def py_space_def)

lemma read_levels:
  "\<forall>(l, i) \<in> set sources. i < length row \<Longrightarrow> distinct (map fst sources) \<Longrightarrow>
    row_values sources (map level_text row) vals =
      Inr (\<lambda>l. case map_of sources l of Some i \<Rightarrow> Some (of_bool (row ! i)) | None \<Rightarrow> vals l)"
proof (induction sources arbitrary: vals)
  case (Cons source sources)
  obtain l i where s: "source = (l, i)"
    by (cases source)
  have "map_of sources l = None"
    using Cons.prems(2) by (simp add: s map_of_eq_None_iff)
  have "row_values (source # sources) (map level_text row) vals =
      row_values sources (map level_text row) (vals(l \<mapsto> of_bool (row ! i)))"
    using Cons.prems(1) by (simp add: s level_value del: of_bool_eq)
  also have "\<dots> = Inr (\<lambda>k. case map_of sources k of Some i \<Rightarrow> Some (of_bool (row ! i)) | None \<Rightarrow> (vals(l \<mapsto> of_bool (row ! i))) k)"
    using Cons.prems by (intro Cons.IH) simp_all
  also have "\<dots> = Inr (\<lambda>k. case map_of (source # sources) k of Some i \<Rightarrow> Some (of_bool (row ! i)) | None \<Rightarrow> vals k)"
    using \<open>map_of sources l = None\<close> by (auto simp: s fun_eq_iff split: option.split)
  finally show ?case .
qed simp

definition sample_of :: "(string \<times> nat) list \<Rightarrow> rat \<Rightarrow> nat \<times> bool list \<Rightarrow> la_sample" where
  "sample_of sources hz ir =
     \<lparr>sm_time = of_nat (fst ir) / hz, sm_values = \<lambda>l. map_option (\<lambda>i. of_bool (snd ir ! i)) (map_of sources l)\<rparr>"

lemma read_rows:
  "\<forall>row \<in> set rows. row \<noteq> [] \<and> length row = n \<Longrightarrow> \<forall>(l, i) \<in> set sources. i < n \<Longrightarrow> distinct (map fst sources) \<Longrightarrow>
    sigrok_rows sources hz k (map (map level_text) rows) = Inr (map (sample_of sources hz) (enumerate k rows))"
proof (induction rows arbitrary: k)
  case (Cons row rows)
  have "row_values sources (map level_text row) Map.empty =
      Inr (\<lambda>l. case map_of sources l of Some i \<Rightarrow> Some (of_bool (row ! i)) | None \<Rightarrow> None)"
    using Cons.prems by (intro read_levels) auto
  moreover have "(\<lambda>l. case map_of sources l of Some i \<Rightarrow> Some (of_bool (row ! i) :: int) | None \<Rightarrow> None) =
      (\<lambda>l. map_option (\<lambda>i. of_bool (row ! i)) (map_of sources l))"
    by (auto simp: fun_eq_iff split: option.split)
  ultimately show ?case
    using Cons by (simp add: no_skip sample_of_def)
qed simp

subsection \<open>Comments\<close>

lemma strip_line: "py_startswith '';'' l \<Longrightarrow> py_strip (l @ [newline]) = py_strip l"
proof -
  assume "py_startswith '';'' l"
  then obtain cs where l: "l = CHR '';'' # cs"
    by (cases l) (auto simp: py_startswith_def)
  have "py_lstrip (l @ [newline]) = l @ [newline]" "py_lstrip l = l"
    by (simp_all add: l py_lstrip_def py_space_def)
  then show ?thesis
    by (simp add: py_strip_def) (simp add: py_lstrip_def py_space_def)
qed

lemma rows_start:
  "rows \<noteq> [] \<Longrightarrow> hd rows \<noteq> [] \<Longrightarrow>
    skip_comments (map (\<lambda>l. l @ [newline]) (map level_row rows)) = ([], map (\<lambda>l. l @ [newline]) (map level_row rows))"
proof -
  assume rows: "rows \<noteq> []" "hd rows \<noteq> []"
  then obtain b row rest where r: "rows = (b # row) # rest"
    by (cases rows; cases "hd rows") auto
  have "\<not> py_startswith '';'' (level_row (b # row) @ [newline])"
    by (simp add: level_row_Cons level_text_def py_startswith_def)
  moreover have "py_strip (level_row (b # row) @ [newline]) \<noteq> []"
  proof -
    define c where "c = (if b then CHR ''1'' else CHR ''0'')"
    have c: "\<not> py_space c"
      by (simp add: c_def py_space_def)
    obtain cs where cs: "level_row (b # row) @ [newline] = c # cs"
      by (simp add: level_row_Cons level_text_def c_def)
    have "py_lstrip (c # cs) = c # cs"
      using c by (simp add: py_lstrip_def)
    moreover have "py_lstrip (rev (c # cs)) \<noteq> []"
      using c by (simp add: py_lstrip_def dropWhile_eq_Nil_conv)
    ultimately show ?thesis
      by (simp add: cs py_strip_def)
  qed
  ultimately show ?thesis
    by (simp add: r)
qed

lemma comments_read:
  "\<forall>l \<in> set comments. py_startswith '';'' l \<Longrightarrow> skip_comments ls = ([], ls) \<Longrightarrow>
    skip_comments (map (\<lambda>l. l @ [newline]) comments @ ls) = (map py_strip comments, ls)"
proof (induction comments)
  case (Cons l comments)
  then have "py_startswith '';'' (l @ [newline])"
    by (cases l) (auto simp: py_startswith_def)
  then show ?case
    using Cons strip_line [of l] by simp
qed simp

subsection \<open>Channels\<close>

lemma channel_items_distinct: "channel_items items m = Inr channels \<Longrightarrow> distinct (map fst m) \<Longrightarrow> distinct (map fst channels)"
proof (induction items m rule: channel_items.induct)
  case (2 item items m)
  have put: "distinct (map fst (dict_put k v m))" for k v
    using "2.prems"(2) by (rule distinct_dict_put)
  show ?case
    using "2.IH" "2.prems" put by (auto simp: Let_def split: if_splits prod.splits)
qed auto

lemma channel_pairs_distinct: "channel_pairs t = Inr channels \<Longrightarrow> distinct (map fst channels)"
  using channel_items_distinct [of "py_split CHR '','' t" "[]" channels]
  by (auto simp: channel_pairs_def DEFAULT_CHANNELS_def split: if_splits)

lemma sources_Cons:
  "source_index_by_logic names (c # channels) =
     (case index_of 0 (normalize_channel_name (snd c)) names None of
        None \<Rightarrow> source_index_by_logic names channels
      | Some i \<Rightarrow> (fst c, i) # source_index_by_logic names channels)"
  by (simp add: source_index_by_logic_def List.map_filter_simps split: prod.split option.split)

lemma sources_subset: "fst ` set (source_index_by_logic names channels) \<subseteq> fst ` set channels"
proof (induction channels)
  case Nil
  then show ?case
    by (simp add: source_index_by_logic_def List.map_filter_simps)
qed (auto simp: sources_Cons split: option.splits)

lemma sources_distinct: "distinct (map fst channels) \<Longrightarrow> distinct (map fst (source_index_by_logic names channels))"
proof (induction channels)
  case Nil
  then show ?case
    by (simp add: source_index_by_logic_def List.map_filter_simps)
next
  case (Cons c channels)
  then show ?case
    using sources_subset [of names channels] by (auto simp: sources_Cons split: option.split)
qed

lemma index_of_bound: "index_of k name cs found = Some i \<Longrightarrow> (\<forall>j. found = Some j \<longrightarrow> j < k + length cs) \<Longrightarrow> i < k + length cs"
proof (induction k name cs found rule: index_of.induct)
  case (2 k name c cs found)
  then show ?case
    by (fastforce split: if_splits)
qed simp

lemma sources_bound: "(l, i) \<in> set (source_index_by_logic names channels) \<Longrightarrow> i < length names"
  using index_of_bound [of 0 _ names None]
  by (auto simp: source_index_by_logic_def List.map_filter_def split: prod.splits option.splits)

subsection \<open>Property\<close>

lemma metadata_names: "sigrok_metadata comments = Inr (Some (names, hz)) \<Longrightarrow> names \<noteq> [] \<and> hz > 0"
proof -
  assume meta: "sigrok_metadata comments = Inr (Some (names, hz))"
  obtain channels rate where found: "metadata_of comments None None = Inr (channels, rate)"
    using meta by (cases "metadata_of comments None None") (auto simp: sigrok_metadata_def)
  show ?thesis
    using meta by (auto simp: sigrok_metadata_def found split: if_splits option.splits list.splits)
qed

lemma times_sorted: "hz > 0 \<Longrightarrow> sorted (map (\<lambda>ir. of_nat (fst ir) / hz :: rat) (enumerate k rows))"
  by (induction rows arbitrary: k) (auto simp: divide_right_mono in_set_enumerate_eq)

lemma no_time_field: "field_named (map level_text row) ''time_s'' = None"
proof -
  have "normalize_channel_name (level_text b) \<noteq> ''time_s''" for b
    by (cases b) (simp_all add: level_text_def normalize_channel_name_def py_strip_def py_lstrip_def py_space_def py_lower_def
        lower_char_def py_replace_char_def)
  then show ?thesis
    by (auto simp: field_named_def find_None_iff)
qed


definition sample_comments :: "string list" where
  "sample_comments = [''; Channels (2/8): D0, D2'', ''; Samplerate: 2 MHz'']"

lemma sample_metadata: "sigrok_metadata (map py_strip sample_comments) = Inr (Some ([''D0'', ''D2''], 2000000))"
  by code_simp


end
