(* ===== verification/Support_Tools.thy ===== *)
theory Support_Tools
  imports Simulator Py_Text
begin

text \<open>
  Three small tools: \<open>tools/fetch_hcp2_reference.py\<close> fetches a pinned archive of captures and normalizes its dump,
  \<open>tools/hcp2_support_bundle.py\<close> collects the debug documents of a bridge, and \<open>tools/generate_wokwi_hcp2_constants.py\<close> writes the frames of
  the protocol as C arrays.  The network, SHA-256 and the contents of an archive are parameters.
\<close>

subsection \<open>Normalizing a dump\<close>

record normalized_frame =
  nf_t_gap_us :: nat
  nf_dur_us :: nat
  nf_raw :: string

definition is_hex :: "char \<Rightarrow> bool" where
  "is_hex c \<longleftrightarrow> hex_value c \<noteq> None"

text \<open>\<open>(?:[0-9A-Fa-f]{2}\s*)+\<close> with the blanks left out.\<close>

function capture_pairs :: "string \<Rightarrow> string" where
  "capture_pairs t =
     (case t of
        c # d # cs \<Rightarrow> if is_hex c \<and> is_hex d then c # d # capture_pairs (py_lstrip cs) else []
      | _ \<Rightarrow> [])"
  by auto
termination
  by (relation "measure length") (auto simp: py_lstrip_def intro: le_imp_less_Suc le_SucI length_dropWhile_le)

declare capture_pairs.simps [simp del]

text \<open>A number up to a colon, and what follows the colon.\<close>

definition number_field :: "string \<Rightarrow> (nat \<times> string) option" where
  "number_field t =
     (let digits = takeWhile (\<lambda>c. digit_value c \<noteq> None) t; rest = dropWhile (\<lambda>c. digit_value c \<noteq> None) t
      in case digits_value 0 digits of
        Some n \<Rightarrow> if digits \<noteq> [] \<and> py_startswith '':'' rest then Some (n, tl rest) else None
      | None \<Rightarrow> None)"

text \<open>\<open>CAPTURE_RE\<close>: the gap, the duration, the declared length and the hexadecimal text.\<close>

definition capture_match :: "string \<Rightarrow> (nat \<times> nat \<times> nat \<times> string) option" where
  "capture_match line =
     (case number_field (py_lstrip line) of
        None \<Rightarrow> None
      | Some (gap, rest) \<Rightarrow>
          (case number_field rest of
             None \<Rightarrow> None
           | Some (dur, rest) \<Rightarrow>
               let len = take 4 rest; hex = capture_pairs (py_lstrip (drop 5 rest))
               in if length len = 4 \<and> list_all is_hex len \<and> py_startswith '':'' (drop 4 rest) \<and> hex \<noteq> []
                  then map_option (\<lambda>n. (gap, dur, n, hex)) (hex_digits_value 0 len) else None))"

datatype dump_line = Blank | Malformed | Wrong_Length | Capture normalized_frame

definition normalize_line :: "string \<Rightarrow> dump_line" where
  "normalize_line line =
     (case capture_match line of
        None \<Rightarrow> if py_strip line = [] then Blank else Malformed
      | Some (gap, dur, expected_len, hex) \<Rightarrow>
          if length hex \<noteq> expected_len * 2 then Wrong_Length
          else Capture \<lparr>nf_t_gap_us = gap, nf_dur_us = dur, nf_raw = py_lower hex\<rparr>)"

fun normalize_lines :: "bool \<Rightarrow> string list \<Rightarrow> (normalized_frame list \<times> nat) result" where
  "normalize_lines strict [] = Inr ([], 0)"
| "normalize_lines strict (line # ls) =
     (case normalize_line line of
        Blank \<Rightarrow> normalize_lines strict ls
      | Capture f \<Rightarrow> and_then (normalize_lines strict ls) (\<lambda>(frames, skipped). Inr (f # frames, skipped))
      | Malformed \<Rightarrow>
          if strict then Inl (ValueError ''Could not parse dump2.txt line'')
          else and_then (normalize_lines strict ls) (\<lambda>(frames, skipped). Inr (frames, skipped + 1))
      | Wrong_Length \<Rightarrow>
          if strict then Inl (ValueError ''length field'')
          else and_then (normalize_lines strict ls) (\<lambda>(frames, skipped). Inr (frames, skipped + 1)))"

definition normalize_dump :: "bool \<Rightarrow> string \<Rightarrow> (normalized_frame list \<times> nat) result" where
  "normalize_dump strict t = normalize_lines strict (split_lines [] t)"

subsection \<open>The pinned archive\<close>

text \<open>The archive on disk and the number of downloads so far; the n-th download gives bytes or an exception.\<close>

record zip_state =
  zs_file :: "bytes option"
  zs_downloads :: nat

definition download_zip :: "(nat \<Rightarrow> bytes result) \<Rightarrow> zip_state \<Rightarrow> bytes result \<times> zip_state" where
  "download_zip fetch z =
     (case fetch (zs_downloads z) of
        Inl e \<Rightarrow> (Inl e, z\<lparr>zs_downloads := zs_downloads z + 1\<rparr>)
      | Inr data \<Rightarrow> (Inr data, z\<lparr>zs_file := Some data, zs_downloads := zs_downloads z + 1\<rparr>))"

definition sha_error :: "exn" where
  "sha_error = RuntimeError ''Downloaded archive has another SHA-256''"

definition ensure_zip ::
  "(bytes \<Rightarrow> string) \<Rightarrow> (nat \<Rightarrow> bytes result) \<Rightarrow> string \<Rightarrow> bool \<Rightarrow> zip_state \<Rightarrow> bytes result \<times> zip_state"
where
  "ensure_zip sha fetch expected force z0 =
     (case (case (if force then None else zs_file z0) of
              Some data \<Rightarrow> (Inr data, z0)
            | None \<Rightarrow> download_zip fetch z0) of
        (Inl e, z) \<Rightarrow> (Inl e, z)
      | (Inr data, z) \<Rightarrow>
          if sha data = expected then (Inr data, z)
          else if force then (Inl sha_error, z)
          else
            (case download_zip fetch (z\<lparr>zs_file := None\<rparr>) of
               (Inl e, z') \<Rightarrow> (Inl e, z')
             | (Inr data', z') \<Rightarrow> if sha data' = expected then (Inr data', z') else (Inl sha_error, z')))"

text \<open>The exit code, the frames written, and the archive; \<open>unzip\<close> is \<open>read_dump2\<close>.\<close>

definition fetch_main ::
  "(bytes \<Rightarrow> string) \<Rightarrow> (nat \<Rightarrow> bytes result) \<Rightarrow> (bytes \<Rightarrow> string result) \<Rightarrow> string \<Rightarrow> bool \<Rightarrow> bool \<Rightarrow> zip_state \<Rightarrow>
   int \<times> normalized_frame list option \<times> zip_state"
where
  "fetch_main sha fetch unzip expected force strict z0 =
     (case ensure_zip sha fetch expected force z0 of
        (Inl e, z) \<Rightarrow> (1, None, z)
      | (Inr data, z) \<Rightarrow>
          (case and_then (unzip data) (normalize_dump strict) of
             Inl e \<Rightarrow> (1, None, z)
           | Inr (frames, skipped) \<Rightarrow> (0, Some frames, z)))"

subsection \<open>The support bundle\<close>

record bundle_entry =
  be_endpoint :: string
  be_file :: string
  be_status :: "int option"
  be_bytes :: nat

definition result_is_collectable :: "bundle_entry \<Rightarrow> bool" where
  "result_is_collectable e \<longleftrightarrow>
     be_endpoint e = ''/health'' \<and> be_status e \<in> {Some 200, Some 503} \<and> be_bytes e > 0 \<or> be_status e = Some 200"

definition endpoint_plan :: "bool \<Rightarrow> (string \<times> string) list" where
  "endpoint_plan include_log =
     [(''/health'', ''health.json''), (''/support'', ''support.json''), (''/stats'', ''stats.json'')] @
     (if include_log then [(''/hcp2_log'', ''hcp2-log.ndjson''), (''/hcp2_log.bin'', ''hcp2-log.bin'')] else [])"

definition control_plan :: "string \<Rightarrow> (string \<times> string) list" where
  "control_plan action =
     (if action = ''start'' then [(''/hcp2_log/clear'', ''control-clear.json''), (''/hcp2_log/start'', ''control-start.json'')]
      else if action = ''stop-and-collect'' then [(''/hcp2_log/stop'', ''control-stop.json'')]
      else if action = ''clear'' then [(''/hcp2_log/clear'', ''control-clear.json'')]
      else [])"

definition bundle_plan :: "string \<Rightarrow> bool \<Rightarrow> (string \<times> string) list" where
  "bundle_plan action no_log =
     control_plan action @ (if action \<in> {''collect'', ''stop-and-collect''} then endpoint_plan (\<not> no_log) else [])"

text \<open>The n-th request is answered with a status, or none, and a body.\<close>

definition bundle_entries :: "(nat \<Rightarrow> string \<Rightarrow> int option \<times> bytes) \<Rightarrow> (string \<times> string) list \<Rightarrow> bundle_entry list" where
  "bundle_entries answer plan =
     map (\<lambda>(n, path, filename).
         \<lparr>be_endpoint = path, be_file = filename, be_status = fst (answer n path), be_bytes = length (snd (answer n path))\<rparr>)
       (enumerate 0 plan)"

definition bundle_main ::
  "(nat \<Rightarrow> string \<Rightarrow> int option \<times> bytes) \<Rightarrow> string \<Rightarrow> bool \<Rightarrow> int \<times> bundle_entry list"
where
  "bundle_main answer action no_log =
     (let files = bundle_entries answer (bundle_plan action no_log)
      in (if filter (\<lambda>e. \<not> result_is_collectable e) files \<noteq> [] then 1 else 0, files))"

subsection \<open>Constants for the emulation\<close>

definition upper_byte :: "byte \<Rightarrow> string" where
  "upper_byte b = ''0x'' @ py_upper (format_hex 2 (uint b))"

definition c_array :: "string \<Rightarrow> bytes \<Rightarrow> string" where
  "c_array name data =
     ''static const uint8_t '' @ name @ ''[] = { '' @ py_join '', '' (map upper_byte data) @ '' };'' @ [CHR 0x0A] @
     ''#define '' @ name @ ''_LEN '' @ dec_nat (length data) @ ''u'' @ [CHR 0x0A]"

definition wokwi_arrays :: "bytes \<Rightarrow> (string \<times> bytes) list" where
  "wokwi_arrays scan_answer =
     [(''HCP2_WOKWI_SCAN_REQUEST'', bus_scan_request SLAVE_ID 1 None),
      (''HCP2_WOKWI_SCAN_RESPONSE'', scan_answer),
      (''HCP2_WOKWI_STATUS_POLL_COUNTER0'', status_poll 0 SLAVE_ID),
      (''HCP2_WOKWI_BROADCAST_CLOSED'', broadcast_status BROADCAST_CLOSED),
      (''HCP2_WOKWI_BROADCAST_OPENING'', broadcast_status \<lparr>b_target = 200, b_current = 0, b_state = 0x01, b_light = 0x14\<rparr>),
      (''HCP2_WOKWI_BROADCAST_OPEN'', broadcast_status BROADCAST_OPEN),
      (''HCP2_WOKWI_LIGHT_COMMAND_COUNTER2'', light_command 0x02 True SLAVE_ID),
      (''HCP2_WOKWI_LIGHT_COMMAND_RESPONSE_COUNTER2'', the (map_of COMMAND_RESPONSE_BY_COUNTER 0x02))]"

definition wokwi_number :: "string \<Rightarrow> int \<Rightarrow> string" where
  "wokwi_number name n = ''#define '' @ name @ '' '' @ py_str_int n @ ''u'' @ [CHR 0x0A]"

definition wokwi_head :: string where
  "wokwi_head =
     ''/* Generated by garage-generate-wokwi-hcp2-constants. Do not edit by hand. */'' @ [CHR 0x0A] @ ''#pragma once'' @
     [CHR 0x0A, CHR 0x0A] @ ''#include <stdint.h>'' @ [CHR 0x0A, CHR 0x0A] @
     ''#define HCP2_WOKWI_SLAVE_ID '' @ upper_byte SLAVE_ID @ ''u'' @ [CHR 0x0A] @
     wokwi_number ''HCP2_WOKWI_STEADY_CYCLE_US'' STEADY_CYCLE_US @
     wokwi_number ''HCP2_WOKWI_BROADCAST_TO_POLL_GAP_US'' BROADCAST_TO_POLL_GAP_US @
     wokwi_number ''HCP2_WOKWI_POLL_TO_NEXT_BROADCAST_GAP_US'' POLL_TO_NEXT_BROADCAST_GAP_US @
     wokwi_number ''HCP2_WOKWI_DEFAULT_MISSED_POLL_THRESHOLD'' DEFAULT_MISSED_POLL_THRESHOLD @
     wokwi_number ''HCP2_WOKWI_RESPONSE_TIMEOUT_US'' \<lfloor>DEFAULT_RESPONSE_TIMEOUT_S * 1000000\<rfloor> @ [CHR 0x0A]"

definition wokwi_constants :: "string result" where
  "wokwi_constants =
     and_then SCAN_RESPONSE (\<lambda>scan_answer.
       Inr (wokwi_head @ py_join [CHR 0x0A] (map (\<lambda>(name, data). c_array name data) (wokwi_arrays scan_answer))))"

text \<open>The exit code and the file.\<close>

definition wokwi_main :: "bool \<Rightarrow> string option \<Rightarrow> (int \<times> string option) result" where
  "wokwi_main check file =
     and_then wokwi_constants (\<lambda>content.
       if check then Inr (if (case file of Some t \<Rightarrow> t | None \<Rightarrow> []) \<noteq> content then 1 else 0, file)
       else Inr (0, Some content))"

subsection \<open>Properties\<close>

text \<open>The arrays are frames that a receiver accepts.\<close>

lemma wokwi_frames: "SCAN_RESPONSE = Inr scan_answer \<Longrightarrow> (name, data) \<in> set (wokwi_arrays scan_answer) \<Longrightarrow> crc_ok data"
  by (auto simp: wokwi_arrays_def SCAN_RESPONSE_def scan_response_def bus_scan_request_def status_poll_def broadcast_status_def
      light_command_def COMMAND_RESPONSE_BY_COUNTER_def command_response_def Let_def frame_simps split: if_splits)

lemma ensure_facts:
  "ensure_zip sha fetch expected force z = (r, z') \<Longrightarrow>
    zs_downloads z' \<le> zs_downloads z + 2 \<and> (\<forall>data. r = Inr data \<longrightarrow> zs_file z' = Some data \<and> sha data = expected) \<and>
    (\<forall>data. \<not> force \<longrightarrow> zs_file z = Some data \<longrightarrow> sha data = expected \<longrightarrow> r = Inr data \<and> z' = z)"
  by (auto simp: ensure_zip_def download_zip_def split: sum.splits option.splits if_splits)

lemma lines_accounted:
  "normalize_lines strict ls = Inr (frames, skipped) \<Longrightarrow>
    length frames + skipped = length (filter (\<lambda>l. normalize_line l \<noteq> Blank) ls)"
proof (induction ls arbitrary: frames skipped)
  case (Cons l ls)
  then show ?case
    by (cases "normalize_line l"; cases "normalize_lines strict ls") (auto split: if_splits)
qed simp

lemma pairs_even: "even (length (capture_pairs t)) \<and> list_all is_hex (capture_pairs t)"
proof (induction t rule: capture_pairs.induct)
  case (1 t)
  then show ?case
    by (subst (1 2) capture_pairs.simps) (auto split: list.split)
qed

text \<open>When the fetch of the reference corpus succeeds, the archive on disk has the pinned SHA-256, the frames written are
  those of its dump with every line that is not blank either a frame or counted as skipped, and at most two downloads were
  made; with the right archive there already, none is made unless it is forced.\<close>

theorem reference_is_pinned:
  "case fetch_main sha fetch unzip expected force strict z of (code, written, z') \<Rightarrow>
     zs_downloads z' \<le> zs_downloads z + 2 \<and> (code = 0 \<longleftrightarrow> written \<noteq> None) \<and>
     (\<forall>data. \<not> force \<and> zs_file z = Some data \<and> sha data = expected \<longrightarrow> z' = z) \<and>
     (\<forall>frames. written = Some frames \<longrightarrow>
        (\<exists>data t skipped. zs_file z' = Some data \<and> sha data = expected \<and> unzip data = Inr t \<and>
           normalize_dump strict t = Inr (frames, skipped) \<and>
           length frames + skipped = length (filter (\<lambda>l. normalize_line l \<noteq> Blank) (split_lines [] t))))"
proof -
  obtain r z' where e: "ensure_zip sha fetch expected force z = (r, z')"
    by (cases "ensure_zip sha fetch expected force z")
  note zip = ensure_facts [OF e]
  show ?thesis
  proof (cases r)
    case (Inl x)
    then show ?thesis
      using zip by (auto simp: fetch_main_def e)
  next
    case (Inr data)
    then show ?thesis
    proof (cases "and_then (unzip data) (normalize_dump strict)")
      case (Inr fs)
      then obtain t where "unzip data = Inr t" "normalize_dump strict t = Inr fs"
        by (auto simp: and_then_Inr)
      then show ?thesis
        using zip \<open>r = Inr data\<close> lines_accounted [of strict "split_lines [] t" "fst fs" "snd fs"]
        by (auto simp: fetch_main_def e normalize_dump_def split: prod.split)
    qed (use zip in \<open>auto simp: fetch_main_def e\<close>)
  qed
qed

definition sample_dump :: string where
  "sample_dump = ''70:41:0004: a0 B1 C2 d3'' @ [CHR 0x0A] @ ''noise''"

theorem reference_is_pinned_witness:
  "fst (fetch_main (\<lambda>d. if d = [1] then ''good'' else ''bad'') (\<lambda>n. Inr [of_nat n]) (\<lambda>_. Inr sample_dump) ''good'' False False
      \<lparr>zs_file = None, zs_downloads = 0\<rparr>) = 0 \<and>
   (\<exists>frames skipped. normalize_dump False sample_dump = Inr (frames, skipped) \<and>
      length frames + skipped = length (filter (\<lambda>l. normalize_line l \<noteq> Blank) (split_lines [] sample_dump)))"
proof -
  let ?m = "fetch_main (\<lambda>d. if d = [1] then ''good'' else ''bad'') (\<lambda>n. Inr [of_nat n]) (\<lambda>_. Inr sample_dump) ''good'' False False
      \<lparr>zs_file = None, zs_downloads = 0\<rparr>"
  have dump: "normalize_dump False sample_dump =
      Inr ([\<lparr>nf_t_gap_us = 70, nf_dur_us = 41, nf_raw = ''a0b1c2d3''\<rparr>], 1)"
    by code_simp
  have run: "fst ?m = 0"
    by (simp add: fetch_main_def ensure_zip_def download_zip_def dump)
  moreover obtain code written z' where m: "?m = (code, written, z')"
    by (cases ?m)
  ultimately obtain frames where "written = Some frames"
    using reference_is_pinned [where sha = "\<lambda>d. if d = [1] then ''good'' else ''bad''" and fetch = "\<lambda>n. Inr [of_nat n]"
        and unzip = "\<lambda>_. Inr sample_dump" and expected = "''good''" and force = False and strict = False
        and z = "\<lparr>zs_file = None, zs_downloads = 0\<rparr>"] by auto
  then show ?thesis
    using reference_is_pinned [where sha = "\<lambda>d. if d = [1] then ''good'' else ''bad''" and fetch = "\<lambda>n. Inr [of_nat n]"
        and unzip = "\<lambda>_. Inr sample_dump" and expected = "''good''" and force = False and strict = False
        and z = "\<lparr>zs_file = None, zs_downloads = 0\<rparr>"] run m by auto
qed

end
