(* ===== verification/Rs485_Config.thy ===== *)
theory Rs485_Config
  imports Prelude
begin

text \<open>
  The configuration checks of \<open>components/rs485_proxy/__init__.py\<close> and \<open>components/rs485_http_monitor/__init__.py\<close>, which keep the bus
  monitors from driving the bus.  ESPHome's check of the UART's settings is a parameter, as what it does with the UART's
  identifier: it applies a function to the configuration of the UART with that identifier.
\<close>

record uart_hub =
  hub_tx_pin :: bool
  hub_rx_pin :: bool
  hub_baud_rate :: int

record proxy_config =
  rp_allow_tx :: bool
  rp_auth_token :: string
  rp_uart_id :: string

record monitor_config =
  hm_uart_id :: string

text \<open>\<open>uart_check name require_tx id\<close> is an error, or none; \<open>hubs\<close> finds the UART of an identifier.\<close>

record esphome =
  eh_uart_check :: "string \<Rightarrow> bool \<Rightarrow> string \<Rightarrow> exn option"
  eh_hub :: "string \<Rightarrow> uart_hub"

definition validate_auth :: "proxy_config \<Rightarrow> proxy_config result" where
  "validate_auth c =
     (if rp_allow_tx c \<and> rp_auth_token c = [] then Inl (Invalid ''auth_token is required when allow_tx is true'') else Inr c)"

definition uart_validated :: "esphome \<Rightarrow> string \<Rightarrow> bool \<Rightarrow> string \<Rightarrow> unit result" where
  "uart_validated eh name require_tx i = (case eh_uart_check eh name require_tx i of Some e \<Rightarrow> Inl e | None \<Rightarrow> Inr ())"

definition reject_tx_pin :: "string \<Rightarrow> uart_hub \<Rightarrow> unit result" where
  "reject_tx_pin msg hub = (if hub_tx_pin hub then Inl (Invalid msg) else Inr ())"

definition proxy_final_validate :: "esphome \<Rightarrow> proxy_config \<Rightarrow> unit result" where
  "proxy_final_validate eh c =
     and_then (uart_validated eh ''rs485_proxy'' (rp_allow_tx c) (rp_uart_id c)) (\<lambda>_.
       if \<not> rp_allow_tx c
       then reject_tx_pin ''rs485_proxy forbids uart tx_pin unless allow_tx is true'' (eh_hub eh (rp_uart_id c))
       else Inr ())"

definition monitor_final_validate :: "esphome \<Rightarrow> monitor_config \<Rightarrow> unit result" where
  "monitor_final_validate eh c =
     and_then (uart_validated eh ''rs485_http_monitor'' False (hm_uart_id c)) (\<lambda>_.
       reject_tx_pin ''rs485_http_monitor is read-only and forbids uart tx_pin'' (eh_hub eh (hm_uart_id c)))"

text \<open>Both checks of the proxy, in ESPHome's order: those of the schema come first.\<close>

definition proxy_accepted :: "esphome \<Rightarrow> proxy_config \<Rightarrow> bool" where
  "proxy_accepted eh c \<longleftrightarrow> and_then (validate_auth c) (proxy_final_validate eh) = Inr ()"

text \<open>A bus monitor that is accepted cannot drive the bus unless it was told to and has a token: the HTTP monitor has no
  transmit pin, and the proxy has none or allows transmission with a token.\<close>

theorem accepted_monitor_is_silent:
  "(monitor_final_validate eh m = Inr () \<longrightarrow> \<not> hub_tx_pin (eh_hub eh (hm_uart_id m))) \<and>
   (proxy_accepted eh c \<longrightarrow> (if rp_allow_tx c then rp_auth_token c \<noteq> [] else \<not> hub_tx_pin (eh_hub eh (rp_uart_id c))))"
  by (auto simp: monitor_final_validate_def proxy_accepted_def validate_auth_def proxy_final_validate_def uart_validated_def
      reject_tx_pin_def and_then_Inr split: option.splits if_splits)

definition sample_esphome :: esphome where
  "sample_esphome =
     \<lparr>eh_uart_check = \<lambda>_ _ _. None, eh_hub = \<lambda>_. \<lparr>hub_tx_pin = False, hub_rx_pin = True, hub_baud_rate = 19200\<rparr>\<rparr>"

theorem accepted_monitor_is_silent_witness:
  "proxy_accepted sample_esphome \<lparr>rp_allow_tx = False, rp_auth_token = [], rp_uart_id = ''bus''\<rparr> \<and>
   \<not> hub_tx_pin (eh_hub sample_esphome ''bus'')"
proof -
  have "proxy_accepted sample_esphome \<lparr>rp_allow_tx = False, rp_auth_token = [], rp_uart_id = ''bus''\<rparr>"
    by (simp add: proxy_accepted_def validate_auth_def proxy_final_validate_def uart_validated_def reject_tx_pin_def sample_esphome_def)
  moreover from this have "\<not> hub_tx_pin (eh_hub sample_esphome ''bus'')"
    using accepted_monitor_is_silent [of sample_esphome "\<lparr>hm_uart_id = ''bus''\<rparr>"
        "\<lparr>rp_allow_tx = False, rp_auth_token = [], rp_uart_id = ''bus''\<rparr>"] by simp
  ultimately show ?thesis
    by simp
qed

end
