(* ===== verification/Spec2Isabelle.thy ===== *)
theory Spec2Isabelle
  imports Simulator_Props Hil_La_Props Lp_Emulator_Props Dual_Iss Bridge_Config_Props Hil_Load_Props
    Trace_Compare Mock_Props Closed_Loop Closeout Phone_Sync_Props Hcp_Calibration_Props Hcp_Log_Writer
    Garage_Wizard_Props Phone_Main_Props Init_Secrets_Props Build_Check_Props Blob_Update
    Aruco_Props Hil_La_Files_Props Support_Tools Rs485_Config
begin

text \<open>
  The Python part of an ESPHome bridge for Hoermann SupraMatic garage door drives: the tools that play the drive, check
  the electrical behaviour of the bridge, emulate its low-power core, run long hardware tests, guide a session at the door
  and analyse its videos, and the configuration checks of the components.  Of the firmware, which is C, C++ and assembler, only
  the writer of the persistent log is modelled.

  The program and its parts.  A drive polls its accessories over RS-485 with HCP2 frames (Modbus with a CRC-16).
  \<open>tools/supramatic_sim\<close> is a virtual drive: \<open>protocol.py\<close> builds and decodes the frames, \<open>door_model.py\<close> is the door behind
  the drive, \<open>simulator.py\<close> runs the loop of broadcasts and status polls over a transport of \<open>transport.py\<close>, injects faults,
  presses buttons and gives a verdict, and \<open>__main__.py\<close> is its command line.  \<open>tools/hcp2_lp_emu\<close> runs the real low-power
  firmware in an emulator that is a transport of the simulator.  \<open>tools/hcp2_hil_la.py\<close> reads a logic-analyser capture of the
  bus and checks it.  \<open>tools/hcp2_hil_load.py\<close> runs the simulator against a device under load, with the device's health and the
  capture in the verdict, and \<open>tools/hcp2_closeout.py\<close> runs a plan of such tests as the evidence of a release.
  The tools at the door (\<open>run_hcp_timing_calibration.py\<close>, \<open>garage_test_wizard.py\<close>, \<open>run_phone_video_sync_capture.py\<close>) record the log of
  the bridge while the door moves; \<open>analyze_hcp_timing.py\<close>, \<open>decode_phone_sync_video.py\<close> and \<open>analyze_garage_aruco_video.py\<close> analyse
  what they recorded.  The rest are tools around the build and the bench, and the configuration validators.

  Shared theories.

  Prelude: bytes, the exceptions as values of a sum type, Python's rounding, decimal and hexadecimal text, string methods
  and dictionaries; linear functions on words.  Py_Float: Python's floats as texts, with infinities and NaN where they can
  enter.  Py_Text: lines, splitting and substrings.  Session: programs of the interactive tools as functions of a session
  (what is typed, the requests, the trace of effects), the rules for triples over them, and what a tool does at its prompts
  and with its log.

  Interfaces, as locales.  byte_checksum (a fold whose step loses nothing): the CRC-16 of HCP2, the CRC-8 of HCP1, the CRC-8
  of the QR payload.  machine and progress_machine (inputs that keep an invariant, and that reach a goal): the door, the
  hooks of the emulator, the mock server, the phone display.  frame_scanner (resynchronisation on a byte stream): the reply
  scanner of the simulator and the master scanner of the capture checker.  effect_relation and cycle_relation (what every
  call of the simulator's helpers keeps): four interpretations in Simulator and Simulator_Props.  transport_invariant (what
  every call of a transport keeps): the emulator as a transport, in Closed_Loop.  command_worker: the worker that submits
  the display's commands.  trace_statement and its extension prompt_statement (statements that the harmless effects of an
  interactive tool keep): the calibration run, the phone capture and the wizard.

  Theories of the components.

  Hcp2_Protocol (\<open>protocol.py\<close>): one definition per constant and function, with the lemmas that the CRC is what a receiver
  checks and which errors it detects.

  Door_Model (\<open>door_model.py\<close>): the record of the dataclass, one definition per method; well-formedness is kept by every
  command and tick, travel times and delays have exact values or bounds.

  Simulator, Simulator_Props, Sim_Transport (\<open>simulator.py\<close>): the report, the sim state, and every method.  The transport, the
  command sender, the clock and the random draws are the record env.  The properties say that a run returns, that its report
  is consistent and that its verdict \<open>ok\<close> means what it says.

  Transports (\<open>transport.py\<close>) and Sim_Main (\<open>supramatic_sim/__main__.py\<close>): the loop that writes a frame in portions, the steps
  of a close, the command line with its checks, and what an exit code of 0 means.

  Lp_Memory, Lp_Uart, Lp_Emulator, Lp_Emulator_Props, Dual_Iss (\<open>emulator.py\<close>, \<open>dual_iss.py\<close>): memory, the UART with its
  FIFOs and due times and its refinement of a bounded queue, the hooks the instruction-set engine calls, the mailbox, and
  the interleaving with the high-power core.  The engine is a parameter that may change the state only in the ways the
  hooks and the processor allow.  Closed_Loop (\<open>hcp2_lp_emu/__main__.py\<close>): the simulator of Simulator over the emulator of
  Lp_Emulator, with its termination and its exit code.

  Hil_La, Hil_La_Report, Hil_La_Props (\<open>hcp2_hil_la.py\<close>): samples to windows, windows to bytes, bytes to frames, and the
  electrical, UART and latency reports.  Hil_La_Files, Hil_La_Files_Props: the CSV, sigrok and JSON captures and the
  subcommands; a capture as sigrok writes it is loaded as the samples it shows.

  Hil_Commands, Hil_Health, Hil_Load, Hil_Load_Props (\<open>hcp2_hil_load.py\<close>): the arguments, the senders of button presses,
  the classification of the device's health, one session as a sequence of effects on the host with its report, and
  the suite.  A session runs the simulator of Simulator and the capture checker of Hil_La_Report; what the host does is a
  record of outcomes.  Closeout_Plan, Closeout (\<open>hcp2_closeout.py\<close>): plans and their shell commands, one step with its
  processes, capture and simulation, and the exit code of a plan.

  Hcp_Timing (\<open>analyze_hcp_timing.py\<close>) and Hcp_Log_Writer (\<open>uapbridge_esp.cpp\<close>, the persistent log): the decoder of the log and
  the alignment with video curves; the writer as a buffer of bytes, refined from a list of entries, which the decoder reads
  back.  Hcp1_Proxy (\<open>hcp_proxy_client.py\<close>): the CRC-8 by table and the sliding-window decoder of HCP1 frames.

  Hcp_Calibration, Hcp_Calibration_Props (\<open>run_hcp_timing_calibration.py\<close>) and Garage_Wizard, Garage_Wizard_Props
  (\<open>garage_test_wizard.py\<close>): the tools that move the door, as programs of Session; when they may send a command.

  Phone_Qr, Phone_Sync, Phone_Sync_Props, Phone_Main, Phone_Main_Props (\<open>run_phone_video_sync_capture.py\<close>,
  \<open>decode_phone_sync_video.py\<close>): the QR payload and its parser, the coordinator and the display as a step function, the main
  program, and the decoder of the recorded video.

  Aruco_Video, Aruco_Curve, Aruco_Props (\<open>analyze_garage_aruco_video.py\<close>): from the markers seen in two videos to the progress of
  the door and its timing curves.

  Mock_Server, Mock_Web, Mock_Props (\<open>hcp2_debug_mock_server.py\<close>): the generator, the documents, the routes, the
  WebSocket frames, and the client slot as a step relation over interleaved threads.  Its health document is put through
  the classifier of Hil_Health.  Trace_Compare (\<open>compare_hcp2_traces.py\<close>): the comparison of two traces.

  Init_Secrets, Init_Secrets_Props (\<open>init_secrets.py\<close>), Build_Check, Build_Check_Props (\<open>check_esp32_realtime_build.py\<close>), Blob_Update
  (\<open>update_hcp2_lp_blob.py\<close>, \<open>build_hcp2_lp_blob_ci.py\<close>), Support_Tools (\<open>fetch_hcp2_reference.py\<close>, \<open>hcp2_support_bundle.py\<close>,
  \<open>generate_wokwi_hcp2_constants.py\<close>): whole commands over the texts and bytes of their files.

  Bridge_Config, Bridge_Config_Props (\<open>components/hcp2bridge/__init__.py\<close>): YAML values, the defaults of the backends
  and every validator; a validator is the list of its conditions with their messages, in order.  Rs485_Config
  (\<open>components/rs485_proxy\<close>, \<open>components/rs485_http_monitor\<close>): the checks that keep a bus monitor from driving the bus.

  Groups of lemmas.  For every component: what each step leaves unchanged (upd_simps and the lemmas named _sel or _same), the
  invariant and its preservation, the cases of an operation as a rule with obtains, and the shape of a whole run.  The
  properties are a few steps over them; their witnesses evaluate the definitions on a concrete input.

  Bounds and fuel.  The simulator's loops that wait for a deadline end because every call takes at least a nanosecond, and
  run_loop ends by its cycles or its deadline.  window_bytes has the number of edges as fuel, which is enough because every
  byte consumes one; missing_counters counts at most 256 steps, the size of the counter.  run_until ends by its remaining
  budget; read_loop has the cycles of the timeout as fuel (read_fuel_enough), and interleave its number of rounds, as in the
  code.  A prompt that repeats its question has the lines left to be typed and one more as fuel: every round takes a line, and
  the end of the input raises.  The write of a frame in portions may never end, and is a partial function.

  Bounds and simplifications.  Floats are rationals, and JSON numbers finite; a capture time that is not finite is an
  exception of the model.  Characters are ASCII.  The messages of
  exceptions are kept where they are fixed texts; a few with the representation of a value in them are shortened, and the
  notes and failures of reports are constructors in the place of formatted text.  A baud rate of zero, which the code would
  divide by, is excluded where it matters.  Files are their contents, and opening one that does not exist is modelled only
  where the code tests for it.

  Not modelled.  The firmware, its log writer apart; sockets, serial ports, pipes, subprocesses and threads themselves (what
  they answer is a parameter); argument parsing by argparse; the ESPHome schema and code generator, the instruction-set
  emulator, the API client, NumPy, OpenCV and the QR encoder, which are third-party; drawing, plots, the marker sheets and
  the browser test.
\<close>

end
